(* ===== verification/Prelude.thy ===== *)
theory Prelude
  imports Complex_Main "HOL-Library.Word" "HOL-Library.List_Lexorder"
    "HOL-Library.Product_Lexorder"
begin

section \<open>Prelude: the JavaScript values, lists and results the components share\<close>

text \<open>
  What every other theory builds on.

  \<^item> \<open>js_string\<close>: a JavaScript string is a sequence of UTF-16 code units, so it is a list of
    16-bit words; \<open>length\<close> and the order \<open><\<close> of the library (List\_Lexorder over unsigned
    words) are the ones JavaScript uses. \<open>js\<close> embeds an ASCII literal.
  \<^item> \<open>'a js_field\<close>: an optional property of a request body, which may be absent, \<open>null\<close> or present.
  \<^item> \<open>findIndex\<close>, \<open>js_nth\<close>, \<open>splice_in\<close>: the array operations the code uses, with the out-of-range
    behaviour of the language written out.
  \<^item> the generic lemmas about sorted lists and insertion the ordering proofs rest on.
\<close>

named_theorems handler_defs \<open>the definitions that evaluate a handler on a concrete database\<close>
named_theorems guard_simps \<open>what a failed or passed guard of a handler amounts to\<close>

subsection \<open>Strings\<close>

type_synonym code_unit = "16 word"
type_synonym js_string = "code_unit list"

definition js :: "string \<Rightarrow> js_string" where
  "js s = map of_char s"

lemma js_Nil [simp]: "js [] = []"
  by (simp add: js_def)

lemma js_Cons [simp]: "js (c # cs) = of_char c # js cs"
  by (simp add: js_def)

text \<open>
  The code units \<open>String.prototype.trim\<close> removes: ECMAScript's WhiteSpace and LineTerminator.
\<close>

definition js_space :: "code_unit \<Rightarrow> bool" where
  "js_space c \<longleftrightarrow> c \<in> set [0x0009, 0x000A, 0x000B, 0x000C, 0x000D, 0x0020, 0x00A0, 0x1680,
     0x2000, 0x2001, 0x2002, 0x2003, 0x2004, 0x2005, 0x2006, 0x2007, 0x2008, 0x2009, 0x200A,
     0x2028, 0x2029, 0x202F, 0x205F, 0x3000, 0xFEFF]"

definition js_trim :: "js_string \<Rightarrow> js_string" where
  "js_trim s = rev (dropWhile js_space (rev (dropWhile js_space s)))"

lemma js_trim_Nil [simp]: "js_trim [] = []"
  by (simp add: js_trim_def)

lemma js_trim_eq_Nil: "js_trim s = [] \<longleftrightarrow> (\<forall>c \<in> set s. js_space c)"
proof -
  have "js_trim s = [] \<longleftrightarrow> (\<forall>c \<in> set (dropWhile js_space s). js_space c)"
    by (simp add: js_trim_def)
  also have "\<dots> \<longleftrightarrow> (\<forall>c \<in> set s. js_space c)"
    by (induction s) auto
  finally show ?thesis .
qed

subsection \<open>Optional properties\<close>

datatype 'a js_field = Undefined | Null | Value 'a

fun field_option :: "'a js_field \<Rightarrow> 'a option" where
  \<comment> \<open>\<open>x ?? null\<close>\<close>
  "field_option Undefined = None"
| "field_option Null = None"
| "field_option (Value a) = Some a"

fun truthy :: "js_string js_field \<Rightarrow> bool" where
  \<comment> \<open>a string property used as a condition: the empty string is false too\<close>
  "truthy (Value s) = (s \<noteq> [])"
| "truthy Undefined = False"
| "truthy Null = False"

lemma truthyE:
  assumes "truthy f"
  obtains s where "f = Value s" and "s \<noteq> []"
  using assms by (cases f) auto

lemma truthy_field_option: "truthy f \<longleftrightarrow> (\<exists>s. field_option f = Some s \<and> s \<noteq> [])"
  by (cases f) auto

subsection \<open>Arrays\<close>

fun findIndex :: "('a \<Rightarrow> bool) \<Rightarrow> 'a list \<Rightarrow> int" where
  "findIndex P [] = -1"
| "findIndex P (x # xs) =
     (if P x then 0 else (let i = findIndex P xs in if i < 0 then -1 else i + 1))"

definition js_nth :: "'a list \<Rightarrow> int \<Rightarrow> 'a option" where
  \<comment> \<open>\<open>xs[i] ?? null\<close>\<close>
  "js_nth xs i = (if 0 \<le> i \<and> i < int (length xs) then Some (xs ! nat i) else None)"

definition js_last :: "'a list \<Rightarrow> 'a option" where
  \<comment> \<open>\<open>xs.at(-1)\<close>\<close>
  "js_last xs = (if xs = [] then None else Some (last xs))"

definition splice_in :: "nat \<Rightarrow> 'a \<Rightarrow> 'a list \<Rightarrow> 'a list" where
  \<comment> \<open>\<open>xs.splice(i, 0, x)\<close> on a copy\<close>
  "splice_in i x xs = take i xs @ x # drop i xs"

lemma findIndex_ge: "-1 \<le> findIndex P xs"
  by (induction xs) (auto simp: Let_def)

lemma findIndex_neg: "findIndex P xs < 0 \<longleftrightarrow> (\<forall>x \<in> set xs. \<not> P x)"
proof (induction xs)
  case Nil
  show ?case by simp
next
  case (Cons x xs)
  then show ?case using findIndex_ge [of P xs] by (auto simp: Let_def)
qed

lemma findIndex_Some:
  assumes "0 \<le> findIndex P xs"
  shows "nat (findIndex P xs) < length xs \<and> P (xs ! nat (findIndex P xs))
    \<and> (\<forall>j < nat (findIndex P xs). \<not> P (xs ! j))"
  using assms
proof (induction xs)
  case Nil
  then show ?case by simp
next
  case (Cons x xs)
  show ?case
  proof (cases "P x")
    case True
    then show ?thesis by simp
  next
    case False
    with Cons.prems have ge: "0 \<le> findIndex P xs"
      using findIndex_ge [of P xs] by (auto simp: Let_def split: if_splits)
    with False have eq: "nat (findIndex P (x # xs)) = Suc (nat (findIndex P xs))"
      by (simp add: Let_def nat_add_distrib)
    show ?thesis
      using Cons.IH [OF ge] False unfolding eq by (auto simp: nth_Cons split: nat.splits)
  qed
qed

lemma findIndex_eqI:
  assumes "i < length xs" and "P (xs ! i)" and "\<And>j. j < i \<Longrightarrow> \<not> P (xs ! j)"
  shows "findIndex P xs = int i"
  using assms
proof (induction xs arbitrary: i)
  case Nil
  then show ?case by simp
next
  case (Cons x xs)
  show ?case
  proof (cases i)
    case 0
    with Cons.prems(2) show ?thesis by simp
  next
    case (Suc k)
    have "\<not> P x" using Cons.prems(3) [of 0] Suc by simp
    moreover have "\<not> P (xs ! j)" if "j < k" for j
      using Cons.prems(3) [of "Suc j"] Suc that by simp
    then have "findIndex P xs = int k"
      using Cons.prems(1,2) Suc by (intro Cons.IH) auto
    ultimately show ?thesis using Suc by simp
  qed
qed

lemma splice_in_length [simp]: "length (splice_in i x xs) = Suc (length xs)"
  by (simp add: splice_in_def)

lemma set_splice_in [simp]: "set (splice_in i x xs) = insert x (set xs)"
proof -
  have "set (splice_in i x xs) = insert x (set (take i xs) \<union> set (drop i xs))"
    by (simp add: splice_in_def)
  also have "set (take i xs) \<union> set (drop i xs) = set xs"
    by (metis append_take_drop_id set_append)
  finally show ?thesis .
qed

lemma map_splice_in: "map f (splice_in i x xs) = splice_in i (f x) (map f xs)"
  by (simp add: splice_in_def take_map drop_map)

lemma nth_splice_in:
  assumes "i \<le> length xs"
  shows "splice_in i x xs ! j = (if j < i then xs ! j else if j = i then x else xs ! (j - 1))"
proof -
  consider "j < i" | "j = i" | k where "j = i + Suc k"
    by (metis linorder_neqE_nat less_iff_Suc_add add_Suc_right)
  then show ?thesis
    using assms by cases (simp_all add: splice_in_def nth_append)
qed

lemma filter_splice_in:
  assumes "\<not> P x"
  shows "filter P (splice_in i x xs) = filter P xs"
proof -
  have "filter P (splice_in i x xs) = filter P (take i xs @ drop i xs)"
    using assms by (simp only: splice_in_def filter_append filter.simps if_False)
  then show ?thesis by simp
qed

lemma distinct_splice_in:
  "distinct (splice_in i x xs) \<longleftrightarrow> x \<notin> set xs \<and> distinct xs"
proof -
  have "distinct (splice_in i x xs) \<longleftrightarrow> distinct (x # take i xs @ drop i xs)"
    unfolding splice_in_def by (auto simp del: append_take_drop_id dest: in_set_takeD in_set_dropD)
  then show ?thesis by simp
qed

lemma js_nth_nat: "js_nth xs (int i) = (if i < length xs then Some (xs ! i) else None)"
  by (simp add: js_nth_def)

lemma js_nth_pred: "js_nth xs (int i - 1) = (if 0 < i \<and> i \<le> length xs then Some (xs ! (i - 1)) else None)"
  by (auto simp: js_nth_def nat_diff_distrib)

lemma js_nth_map: "js_nth (map f xs) i = map_option f (js_nth xs i)"
  by (auto simp: js_nth_def nat_less_iff)

subsection \<open>Errors\<close>

text \<open>
  What a handler can throw: the NestJS HTTP exceptions with their message, and the errors of the
  Prisma client, which are known by their code (\<open>P2002\<close> unique violation, \<open>P2003\<close> foreign key
  violation, \<open>P2025\<close> row to update not found). \<open>InternalError\<close> is anything the global filter answers
  with \<open>500\<close>. A computation that can throw is a sum with the
  error on the left.
\<close>

datatype http_error =
    BadRequest string
  | Unauthorized string
  | Forbidden string
  | NotFound string
  | Conflict string
  | PayloadTooLarge string
  | UnsupportedMediaType string
  | UnprocessableEntity string
  | ServiceUnavailable string
  | PrismaError string
  | InternalError string

definition is_error :: "(http_error + 'a) \<Rightarrow> bool" where
  "is_error r = (case r of Inl _ \<Rightarrow> True | Inr _ \<Rightarrow> False)"

lemma is_error_simps [simp]: "is_error (Inl e)" "\<not> is_error (Inr a)"
  by (simp_all add: is_error_def)

lemma not_is_error: "\<not> is_error r \<longleftrightarrow> (\<exists>a. r = Inr a)"
  by (cases r) auto

subsection \<open>Sorted lists\<close>

text \<open>
  Two facts carry every statement about a display order: a list that is strictly sorted on a key is
  determined by its elements, and sorting is therefore any strictly sorted list with the same rows.
\<close>

lemma sort_key_unique:
  assumes "set xs = set ys" and "distinct xs" and "sorted_wrt (\<lambda>a b. f a < f b) ys"
  shows "sort_key (f :: 'a \<Rightarrow> 'k::linorder) xs = ys"
proof -
  have sorted: "sorted (map f ys)"
    using assms(3) by (simp add: sorted_map) (erule sorted_wrt_mono_rel [rotated], simp)
  have dist_f: "distinct (map f ys)"
    using assms(3) by (induction ys) auto
  then have inj: "inj_on f (set ys)" and dist: "distinct ys"
    by (simp_all add: distinct_map)
  have "map f (sort_key f xs) = map f ys"
  proof (rule sorted_distinct_set_unique)
    show "sorted (map f (sort_key f xs))" by simp
    show "distinct (map f (sort_key f xs))"
      using inj assms(1,2) by (simp add: distinct_map)
    show "set (map f (sort_key f xs)) = set (map f ys)"
      using assms(1) by simp
  qed (use sorted dist_f in auto)
  moreover have "set (sort_key f xs) = set ys"
    using assms(1) by simp
  ultimately show ?thesis
    using inj by (simp add: inj_on_map_eq_map)
qed

lemma sorted_wrt_sort_key:
  assumes "inj_on f (set xs)" and "distinct xs"
  shows "sorted_wrt (\<lambda>a b. f a < f b) (sort_key (f :: 'a \<Rightarrow> 'k::linorder) xs)"
proof -
  have "sorted (map f (sort_key f xs))" and "distinct (map f (sort_key f xs))"
    using assms by (simp_all add: distinct_map)
  then have "sorted_wrt (<) (map f (sort_key f xs))"
    by (simp add: strict_sorted_iff)
  then show ?thesis by (simp add: sorted_wrt_map)
qed

lemma sorted_wrt_splice_in:
  assumes "sorted_wrt R xs" and "i \<le> length xs"
    and "\<And>a. a \<in> set (take i xs) \<Longrightarrow> R a x" and "\<And>b. b \<in> set (drop i xs) \<Longrightarrow> R x b"
  shows "sorted_wrt R (splice_in i x xs)"
proof -
  have "sorted_wrt R (take i xs @ drop i xs)" using assms(1) by simp
  then have "sorted_wrt R (take i xs)" "sorted_wrt R (drop i xs)"
    "\<forall>a \<in> set (take i xs). \<forall>b \<in> set (drop i xs). R a b"
    unfolding sorted_wrt_append by blast+
  with assms(3,4) show ?thesis
    unfolding splice_in_def sorted_wrt_append by auto
qed

declare js_nth_def [handler_defs] js_last_def [handler_defs]

end
