(* ===== verification/Float64.thy ===== *)
theory Float64
  imports Prelude "HOL-Library.Log_Nat"
begin

section \<open>JavaScript numbers: IEEE double precision\<close>

text \<open>
  A finite JavaScript number is a rational \<open>m * 2 ^ k\<close> whose significand has at most 53 bits. The
  arithmetic of the language computes the exact rational result and rounds it to the nearest such
  number, ties to the even significand; \<open>fl\<close> is that rounding. The exponent is left unbounded:
  the only numbers computed in this development are positions, which stay within a few powers of
  ten of 1000, far from the overflow and underflow thresholds.

  The lemmas give the three facts the ordering proofs use: \<open>fl\<close> is monotone, it is the identity on
  numbers already representable, and its relative error is at most \<open>2 ^ -53\<close>.
\<close>

type_synonym number = rat

definition round_half_even :: "rat \<Rightarrow> int" where
  "round_half_even x =
     (let f = \<lfloor>x\<rfloor>; d = x - of_int f
      in if d < 1 / 2 then f else if 1 / 2 < d then f + 1 else if even f then f else f + 1)"

definition expo :: "rat \<Rightarrow> int" where
  \<comment> \<open>the exponent of the leading binary digit\<close>
  "expo x =
     (case quotient_of \<bar>x\<bar> of (a, b) \<Rightarrow>
        let e = bitlen a - bitlen b in if 2 powi e \<le> \<bar>x\<bar> then e else e - 1)"

definition fl :: "rat \<Rightarrow> number" where
  "fl x =
     (if x = 0 then 0
      else let e = expo x - 52 in of_int (round_half_even (x / 2 powi e)) * 2 powi e)"

definition is_double :: "rat \<Rightarrow> bool" where
  "is_double x \<longleftrightarrow> fl x = x"

subsection \<open>Rounding to an integer\<close>

lemma round_half_even_error: "\<bar>of_int (round_half_even x) - x\<bar> \<le> 1 / 2"
proof -
  have "0 \<le> x - of_int \<lfloor>x\<rfloor>" "x - of_int \<lfloor>x\<rfloor> < 1"
    by linarith+
  then show ?thesis
    by (auto simp: round_half_even_def Let_def abs_le_iff)
qed

lemma round_half_even_of_int [simp]: "round_half_even (of_int n) = n"
  by (simp add: round_half_even_def)

lemma round_half_even_mono:
  assumes "x \<le> y"
  shows "round_half_even x \<le> round_half_even y"
proof (cases "\<lfloor>x\<rfloor> = \<lfloor>y\<rfloor>")
  case True
  with assms show ?thesis by (auto simp: round_half_even_def Let_def)
next
  case False
  then have "\<lfloor>x\<rfloor> + 1 \<le> \<lfloor>y\<rfloor>" using floor_mono [OF assms] by linarith
  moreover have "round_half_even x \<le> \<lfloor>x\<rfloor> + 1" "\<lfloor>y\<rfloor> \<le> round_half_even y"
    by (auto simp: round_half_even_def Let_def)
  ultimately show ?thesis by linarith
qed

lemma round_half_even_minus: "round_half_even (- x) = - round_half_even x"
proof (cases "x = of_int \<lfloor>x\<rfloor>")
  case True
  then have "round_half_even (- x) = round_half_even (of_int (- \<lfloor>x\<rfloor>))" by simp
  also have "\<dots> = - \<lfloor>x\<rfloor>" by (rule round_half_even_of_int)
  also have "\<lfloor>x\<rfloor> = round_half_even x" using True by (metis round_half_even_of_int)
  finally show ?thesis .
next
  case False
  then have fl: "\<lfloor>- x\<rfloor> = - \<lfloor>x\<rfloor> - 1" by linarith
  have d: "- x - of_int \<lfloor>- x\<rfloor> = 1 - (x - of_int \<lfloor>x\<rfloor>)" unfolding fl by simp
  show ?thesis unfolding round_half_even_def Let_def d unfolding fl by auto
qed

subsection \<open>The exponent\<close>

lemma powi_2_pos [simp]: "(0::rat) < 2 powi n"
  by (simp add: zero_less_power_int)

lemma powi_2_mono: "m \<le> n \<Longrightarrow> (2::rat) powi m \<le> 2 powi n"
  by (rule power_int_increasing) auto

lemma powi_2_less_iff: "(2::rat) powi m < 2 powi n \<longleftrightarrow> m < n"
  using power_int_strict_increasing [of m n "2::rat"] powi_2_mono [of n m]
  by (meson leI linorder_not_less one_less_numeral_iff semiring_norm(76))

lemma powi_2_Suc: "(2::rat) powi (n + 1) = 2 * 2 powi n"
  by (simp add: power_int_add)

lemma expo_bounds:
  assumes "x \<noteq> 0"
  shows "2 powi expo x \<le> \<bar>x\<bar>" and "\<bar>x\<bar> < 2 powi (expo x + 1)"
proof -
  obtain a b where ab: "quotient_of \<bar>x\<bar> = (a, b)" by force
  then have b: "0 < b" by (rule quotient_of_denom_pos)
  have x: "\<bar>x\<bar> = of_int a / of_int b" using ab by (rule quotient_of_div)
  have a: "0 < a" using x b assms by (metis of_int_0_less_iff zero_less_abs_iff zero_less_divide_iff not_less_iff_gr_or_eq)
  define ea eb where "ea = bitlen a - 1" and "eb = bitlen b - 1"
  have bound: "2 powi (bitlen k - 1) \<le> (of_int k :: rat) \<and> (of_int k :: rat) < 2 powi (bitlen k)"
    if "0 < k" for k
  proof -
    have "0 \<le> bitlen k - 1" using that by (auto simp: bitlen_def floorlog_def)
    moreover have "2 ^ nat (bitlen k - 1) \<le> k \<and> k < 2 ^ nat (bitlen k)"
      using that by (rule bitlen_bounds)
    ultimately show ?thesis
      by (simp add: power_int_def)
  qed
  have A: "2 powi ea \<le> (of_int a :: rat)" "(of_int a :: rat) < 2 powi (ea + 1)"
    and B: "2 powi eb \<le> (of_int b :: rat)" "(of_int b :: rat) < 2 powi (eb + 1)"
    using bound [OF a] bound [OF b] by (simp_all add: ea_def eb_def)
  define e where "e = bitlen a - bitlen b"
  have e: "e = ea - eb" by (simp add: e_def ea_def eb_def)
  have b': "(0::rat) < of_int b" using b by simp
  have up: "\<bar>x\<bar> < 2 powi (e + 1)"
  proof -
    have "\<bar>x\<bar> < 2 powi (ea + 1) / of_int b"
      unfolding x using A(2) b' by (rule divide_strict_right_mono)
    also have "\<dots> \<le> 2 powi (ea + 1) / 2 powi eb"
      using B(1) b' by (intro divide_left_mono) simp_all
    also have "\<dots> = 2 powi (e + 1)" by (simp add: e power_int_diff algebra_simps power_int_add)
    finally show ?thesis .
  qed
  have lo: "2 powi (e - 1) \<le> \<bar>x\<bar>"
  proof -
    have "e - 1 = ea - (eb + 1)" by (simp add: e)
    then have "(2::rat) powi (e - 1) = 2 powi ea / 2 powi (eb + 1)"
      by (simp add: power_int_diff powi_2_Suc)
    also have "\<dots> \<le> 2 powi ea / of_int b"
      using B(2) b' by (intro divide_left_mono) simp_all
    also have "\<dots> \<le> \<bar>x\<bar>" unfolding x using A(1) b' by (intro divide_right_mono) simp_all
    finally show ?thesis .
  qed
  show "2 powi expo x \<le> \<bar>x\<bar>" "\<bar>x\<bar> < 2 powi (expo x + 1)"
    using up lo by (auto simp: expo_def ab Let_def e_def)
qed

lemma expo_unique:
  assumes "2 powi e \<le> \<bar>x\<bar>" and "\<bar>x\<bar> < 2 powi (e + 1)"
  shows "expo x = e"
proof -
  have "x \<noteq> 0" using assms(1) powi_2_pos [of e] by (metis abs_zero linorder_not_less)
  from expo_bounds [OF this] assms have "(2::rat) powi expo x < 2 powi (e + 1)"
    and "(2::rat) powi e < 2 powi (expo x + 1)"
    by (meson le_less_trans)+
  then show ?thesis by (simp add: powi_2_less_iff)
qed

lemma expo_mono:
  assumes "x \<noteq> 0" and "\<bar>x\<bar> \<le> \<bar>y\<bar>"
  shows "expo x \<le> expo y"
proof -
  have "y \<noteq> 0" using assms by auto
  then have "(2::rat) powi expo x < 2 powi (expo y + 1)"
    using expo_bounds [OF assms(1)] expo_bounds [of y] assms(2) by linarith
  then show ?thesis by (simp add: powi_2_less_iff)
qed

lemma expo_minus [simp]: "expo (- x) = expo x"
  by (simp add: expo_def)

subsection \<open>The rounding function\<close>

lemma fl_0 [simp]: "fl 0 = 0"
  by (simp add: fl_def)

lemma fl_nonzero:
  "x \<noteq> 0 \<Longrightarrow> fl x = of_int (round_half_even (x / 2 powi (expo x - 52))) * 2 powi (expo x - 52)"
  by (simp add: fl_def Let_def)

lemma fl_minus: "fl (- x) = - fl x"
  by (cases "x = 0") (simp_all add: fl_nonzero round_half_even_minus)

lemma scaled_bounds:
  assumes "x \<noteq> 0"
  shows "2 ^ 52 \<le> \<bar>x / 2 powi (expo x - 52)\<bar>" and "\<bar>x / 2 powi (expo x - 52)\<bar> < 2 ^ 53"
proof -
  define q where "q = \<bar>x\<bar> / 2 powi expo x"
  have eq: "\<bar>x / 2 powi (expo x - 52)\<bar> = q * 2 ^ 52"
    by (simp add: q_def abs_divide power_int_diff)
  have "1 \<le> q" "q < 2"
    using expo_bounds [OF assms] by (simp_all add: q_def powi_2_Suc divide_simps)
  then show "2 ^ 52 \<le> \<bar>x / 2 powi (expo x - 52)\<bar>" "\<bar>x / 2 powi (expo x - 52)\<bar> < 2 ^ 53"
    unfolding eq by (simp_all add: q_def [symmetric])
qed

text \<open>Every result has at most 53 significant bits.\<close>

lemma fl_form: "\<exists>m k. fl x = of_int m * 2 powi k \<and> \<bar>m\<bar> \<le> 2 ^ 53"
proof (cases "x = 0")
  case True
  then show ?thesis by (intro exI [of _ 0]) simp
next
  case False
  let ?s = "x / 2 powi (expo x - 52)"
  have "round_half_even ?s \<le> round_half_even (of_int (2 ^ 53))"
    using scaled_bounds [OF False] by (intro round_half_even_mono) simp
  moreover have "round_half_even (of_int (- (2 ^ 53))) \<le> round_half_even ?s"
    using scaled_bounds [OF False] by (intro round_half_even_mono) simp
  ultimately have "\<bar>round_half_even ?s\<bar> \<le> 2 ^ 53"
    unfolding round_half_even_of_int by linarith
  with False show ?thesis unfolding fl_nonzero [OF False] by blast
qed

lemma fl_representable:
  assumes "\<bar>m\<bar> \<le> 2 ^ 53"
  shows "fl (of_int m * 2 powi k) = of_int m * 2 powi k"
proof (cases "m = 0")
  case True
  then show ?thesis by simp
next
  case False
  define x :: rat where "x = of_int m * 2 powi k"
  have x0: "x \<noteq> 0" using False by (simp add: x_def)
  have abs_x: "\<bar>x\<bar> = of_int \<bar>m\<bar> * 2 powi k" by (simp add: x_def abs_mult)
  have "(of_int \<bar>m\<bar> :: rat) \<le> of_int (2 ^ 53)" using assms by (simp only: of_int_le_iff)
  then have "\<bar>x\<bar> \<le> 2 ^ 53 * 2 powi k"
    unfolding abs_x by (intro mult_right_mono) simp_all
  then have "2 powi expo x \<le> (2::rat) powi (k + 53)"
    using expo_bounds(1) [OF x0] by (simp add: power_int_add)
  then have e: "expo x \<le> k + 53"
    using powi_2_less_iff [of "k + 53" "expo x"] by linarith
  have "\<exists>n. x / 2 powi (expo x - 52) = of_int n"
  proof (cases "expo x - 52 \<le> k")
    case True
    have "x / 2 powi (expo x - 52) = of_int m * 2 powi (k - (expo x - 52))"
      by (simp add: x_def power_int_diff)
    also have "\<dots> = of_int (m * 2 ^ nat (k - (expo x - 52)))"
      using True by (simp add: power_int_def)
    finally show ?thesis by blast
  next
    case False
    then have e: "expo x = k + 53" using e by linarith
    then have "2 ^ 53 * 2 powi k \<le> \<bar>x\<bar>" using expo_bounds(1) [OF x0] by (simp add: power_int_add)
    then have "(2 ^ 53 :: rat) \<le> of_int \<bar>m\<bar>" unfolding abs_x by simp
    then have "\<bar>m\<bar> = 2 ^ 53"
      using assms by (metis antisym of_int_le_iff of_int_numeral of_int_power)
    then have "m = 2 ^ 53 \<or> m = - (2 ^ 53)" by linarith
    then have "x / 2 powi (expo x - 52) = of_int (2 ^ 52) \<or> x / 2 powi (expo x - 52) = of_int (- (2 ^ 52))"
      unfolding e by (elim disjE) (simp_all add: x_def power_int_add)
    then show ?thesis by blast
  qed
  then obtain n where "x / 2 powi (expo x - 52) = of_int n" ..
  then have "fl x = x / 2 powi (expo x - 52) * 2 powi (expo x - 52)"
    unfolding fl_nonzero [OF x0] by simp
  then show ?thesis by (simp add: x_def)
qed

lemma is_double_iff: "is_double x \<longleftrightarrow> (\<exists>m k. x = of_int m * 2 powi k \<and> \<bar>m\<bar> \<le> 2 ^ 53)"
  unfolding is_double_def using fl_form [of x] fl_representable by metis

lemma is_double_fl [simp]: "is_double (fl x)"
  unfolding is_double_iff by (rule fl_form)

lemma fl_fl [simp]: "fl (fl x) = fl x"
  using is_double_fl [of x] by (simp add: is_double_def)

lemma is_double_of_int: "\<bar>m\<bar> \<le> 2 ^ 53 \<Longrightarrow> is_double (of_int m)"
  unfolding is_double_iff by (intro exI [of _ m] exI [of _ 0]) simp

lemma is_double_scale: "is_double x \<Longrightarrow> is_double (x * 2 powi n)"
  unfolding is_double_iff
  by (elim exE conjE, rule_tac x = m in exI, rule_tac x = "k + n" in exI) (simp add: power_int_add)

lemma fl_half: "is_double x \<Longrightarrow> fl (x / 2) = x / 2"
  using is_double_scale [of x "-1"] by (simp add: is_double_def power_int_minus field_simps)

lemma fl_twice: "is_double x \<Longrightarrow> fl (2 * x) = 2 * x"
  using is_double_scale [of x 1] by (simp add: is_double_def mult.commute)

lemma fl_error: "\<bar>fl x - x\<bar> \<le> \<bar>x\<bar> / 2 ^ 53"
proof (cases "x = 0")
  case True
  then show ?thesis by simp
next
  case False
  let ?u = "2 powi (expo x - 52) :: rat"
  have "fl x - x = (of_int (round_half_even (x / ?u)) - x / ?u) * ?u"
    unfolding fl_nonzero [OF False] by (simp add: left_diff_distrib)
  then have "\<bar>fl x - x\<bar> \<le> 1 / 2 * ?u"
    using round_half_even_error [of "x / ?u"] by (simp add: abs_mult)
  also have "\<dots> = 2 powi expo x / 2 ^ 53" by (simp add: power_int_diff)
  also have "\<dots> \<le> \<bar>x\<bar> / 2 ^ 53"
    using expo_bounds(1) [OF False] by (intro divide_right_mono) simp_all
  finally show ?thesis .
qed

lemma fl_mono_pos:
  assumes "0 < x" and "x \<le> y"
  shows "fl x \<le> fl y"
proof (cases "expo x = expo y")
  case True
  have "x / 2 powi (expo y - 52) \<le> y / 2 powi (expo y - 52)"
    using assms(2) by (intro divide_right_mono) simp_all
  then have "round_half_even (x / 2 powi (expo y - 52)) \<le> round_half_even (y / 2 powi (expo y - 52))"
    by (rule round_half_even_mono)
  with assms True show ?thesis by (simp add: fl_nonzero)
next
  case False
  have xy: "x \<noteq> 0" "y \<noteq> 0" using assms by auto
  have "expo x + 1 \<le> expo y" using expo_mono [OF xy(1), of y] assms False by simp
  then have "2 powi (expo x + 1) \<le> (2::rat) powi expo y" by (rule powi_2_mono)
  moreover have "fl x \<le> 2 powi (expo x + 1)"
  proof -
    have "round_half_even (x / 2 powi (expo x - 52)) \<le> round_half_even (of_int (2 ^ 53))"
      using scaled_bounds [OF xy(1)] by (intro round_half_even_mono) simp
    then have "(of_int (round_half_even (x / 2 powi (expo x - 52))) :: rat) \<le> of_int (2 ^ 53)"
      by (simp only: round_half_even_of_int of_int_le_iff)
    then have "fl x \<le> 2 ^ 53 * 2 powi (expo x - 52)"
      unfolding fl_nonzero [OF xy(1)] by (intro mult_right_mono) simp_all
    also have "\<dots> = 2 powi (expo x + 1)" by (simp add: power_int_diff power_int_add)
    finally show ?thesis .
  qed
  moreover have "2 powi expo y \<le> fl y"
  proof -
    have "round_half_even (of_int (2 ^ 52)) \<le> round_half_even (y / 2 powi (expo y - 52))"
      using scaled_bounds [OF xy(2)] assms by (intro round_half_even_mono) simp
    then have "(of_int (2 ^ 52) :: rat) \<le> of_int (round_half_even (y / 2 powi (expo y - 52)))"
      by (simp only: round_half_even_of_int of_int_le_iff)
    then have "2 ^ 52 * 2 powi (expo y - 52) \<le> fl y"
      unfolding fl_nonzero [OF xy(2)] by (intro mult_right_mono) simp_all
    then show ?thesis by (simp add: power_int_diff)
  qed
  ultimately show ?thesis by linarith
qed

lemma fl_nonneg: "0 \<le> x \<Longrightarrow> 0 \<le> fl x"
proof -
  assume "0 \<le> x"
  moreover have "\<bar>x\<bar> / 2 ^ 53 \<le> \<bar>x\<bar>" by (simp add: field_simps)
  ultimately show "0 \<le> fl x" using fl_error [of x] by linarith
qed

lemma fl_mono:
  assumes "x \<le> y"
  shows "fl x \<le> fl y"
proof -
  consider "0 < x" | "y < 0" | "x \<le> 0" "0 \<le> y" by linarith
  then show ?thesis
  proof cases
    case 1
    then show ?thesis using assms by (rule fl_mono_pos)
  next
    case 2
    then have "fl (- y) \<le> fl (- x)" using assms by (intro fl_mono_pos) simp_all
    then show ?thesis by (simp add: fl_minus)
  next
    case 3
    then have "0 \<le> fl (- x)" "0 \<le> fl y" by (simp_all add: fl_nonneg)
    then show ?thesis by (simp add: fl_minus)
  qed
qed

end
