(* ===== verification/Dates.thy ===== *)
theory Dates
  imports Prelude
begin

section \<open>Timestamps: Date and toISOString\<close>

text \<open>
  A valid \<open>Date\<close> is its number of milliseconds since 1970-01-01T00:00:00Z. \<open>toISOString\<close> renders it
  in the proleptic Gregorian calendar, in UTC; the services put that string into responses and
  activity payloads, and compare two dates by it. \<open>digits_inj\<close> shows that a field of fixed width
  loses nothing.
\<close>

type_synonym js_date = int

definition daysFromCivil :: "int \<Rightarrow> int \<Rightarrow> int \<Rightarrow> int" where
  \<comment> \<open>days from 1970-01-01 to year \<open>y\<close>, month \<open>m\<close>, day \<open>d\<close>; years start in March internally\<close>
  "daysFromCivil y m d =
     (let y' = (if m \<le> 2 then y - 1 else y);
          era = y' div 400; yoe = y' mod 400;
          doy = (153 * (if 2 < m then m - 3 else m + 9) + 2) div 5 + d - 1;
          doe = yoe * 365 + yoe div 4 - yoe div 100 + doy
      in era * 146097 + doe - 719468)"

definition civilFromDays :: "int \<Rightarrow> int \<times> int \<times> int" where
  "civilFromDays days =
     (let z = days + 719468;
          era = z div 146097; doe = z mod 146097;
          yoe = (doe - doe div 1460 + doe div 36524 - doe div 146096) div 365;
          doy = doe - (365 * yoe + yoe div 4 - yoe div 100);
          mp = (5 * doy + 2) div 153;
          d = doy - (153 * mp + 2) div 5 + 1;
          m = (if mp < 10 then mp + 3 else mp - 9);
          y = yoe + era * 400 + (if m \<le> 2 then 1 else 0)
      in (y, m, d))"

fun digits :: "nat \<Rightarrow> int \<Rightarrow> js_string" where
  \<comment> \<open>the last \<open>n\<close> decimal digits\<close>
  "digits 0 v = []"
| "digits (Suc n) v = digits n (v div 10) @ [of_int (48 + v mod 10)]"

definition MS_PER_DAY :: int where
  "MS_PER_DAY = 86400000"

definition yearString :: "int \<Rightarrow> js_string" where
  "yearString y =
     (if 0 \<le> y \<and> y \<le> 9999 then digits 4 y
      else if 0 \<le> y then js ''+'' @ digits 6 y else js ''-'' @ digits 6 (- y))"

definition isoDate :: "js_date \<Rightarrow> js_string" where
  \<comment> \<open>\<open>toISOString().slice(0, 10)\<close> for a four-digit year\<close>
  "isoDate t = (case civilFromDays (t div MS_PER_DAY) of (y, m, d) \<Rightarrow>
     yearString y @ js ''-'' @ digits 2 m @ js ''-'' @ digits 2 d)"

definition isoTime :: "int \<Rightarrow> js_string" where
  "isoTime ms =
     digits 2 (ms div 3600000) @ js '':'' @ digits 2 (ms div 60000 mod 60) @ js '':''
       @ digits 2 (ms div 1000 mod 60) @ js ''.'' @ digits 3 (ms mod 1000)"

definition toISOString :: "js_date \<Rightarrow> js_string" where
  "toISOString t = isoDate t @ js ''T'' @ isoTime (t mod MS_PER_DAY) @ js ''Z''"

definition validDate :: "js_date \<Rightarrow> bool" where
  \<comment> \<open>ECMAScript's time value range, 100,000,000 days around the epoch\<close>
  "validDate t \<longleftrightarrow> \<bar>t\<bar> \<le> 8640000000000000"

lemma length_digits [simp]: "length (digits n v) = n"
  by (induction n arbitrary: v) simp_all

lemma uint_digit: "uint (of_int (48 + x mod 10) :: code_unit) = 48 + x mod 10"
proof -
  have "0 \<le> x mod 10" "x mod 10 < 10" by simp_all
  then have "0 \<le> 48 + x mod 10" "48 + x mod 10 < 65536" by linarith+
  moreover have "(2 :: int) ^ LENGTH(16) = 65536" by simp
  ultimately show ?thesis by (simp only: uint_word_of_int mod_pos_pos_trivial)
qed

lemma digits_inj:
  assumes "digits n a = digits n b" and "0 \<le> a" "a < 10 ^ n" and "0 \<le> b" "b < 10 ^ n"
  shows "a = b"
  using assms
proof (induction n arbitrary: a b)
  case 0
  then show ?case by simp
next
  case (Suc n)
  have "a div 10 < 10 ^ n" "b div 10 < 10 ^ n"
    using Suc.prems(3,5) by simp_all
  moreover have "digits n (a div 10) = digits n (b div 10)"
    using Suc.prems(1) by simp
  ultimately have "a div 10 = b div 10"
    using Suc.prems(2,4) by (intro Suc.IH) simp_all
  moreover have "(of_int (48 + a mod 10) :: code_unit) = of_int (48 + b mod 10)"
    using Suc.prems(1) by (simp only: digits.simps append1_eq_conv)
  then have "48 + a mod 10 = 48 + b mod 10" by (metis uint_digit)
  then have "a mod 10 = b mod 10" by simp
  ultimately show ?case by (metis mult_div_mod_eq)
qed

end
