(* ===== verification/Position.thy ===== *)
theory Position
  imports Float64
begin

section \<open>Fractional positions: common/position\<close>

text \<open>
  \<open>fractional-index.ts\<close> and \<open>apply-insertion.ts\<close>. A sibling (a column of a board, a task of a
  column) is ordered by a number; inserting between two siblings takes the midpoint of their
  numbers, and when the gap has become too small to split, the whole list is respread at multiples
  of 1000. \<open>midpoint\<close>, \<open>needsRebalance\<close> and \<open>rebalancePositions\<close> compute in double precision
  (Float64); \<open>resolveMoveNeighbors\<close> and \<open>resolveCreateNeighbors\<close> turn the neighbours a request
  names into an insertion slot.

  The locale \<open>gap_arithmetic\<close> states what an ordering service needs of the arithmetic; it is
  interpreted on the code's three functions for positions of magnitude at most \<open>2 ^ 32\<close>.
\<close>

subsection \<open>The arithmetic (fractional-index.ts)\<close>

definition POSITION_GAP :: number where
  "POSITION_GAP = 1000"

definition MIN_GAP :: number where
  "MIN_GAP = fl (1 / 1000000)"

fun midpoint :: "number option \<Rightarrow> number option \<Rightarrow> number" where
  "midpoint None None = POSITION_GAP"
| "midpoint None (Some n) = fl (n - POSITION_GAP)"
| "midpoint (Some p) None = fl (p + POSITION_GAP)"
| "midpoint (Some p) (Some n) = fl (fl (p + n) / 2)"

fun needsRebalance :: "number option \<Rightarrow> number option \<Rightarrow> bool" where
  "needsRebalance (Some p) (Some n) = (fl (n - p) < MIN_GAP)"
| "needsRebalance _ _ = False"

definition rebalancePositions :: "nat \<Rightarrow> number \<Rightarrow> number list" where
  "rebalancePositions count gap = map (\<lambda>index. fl (of_nat (index + 1) * gap)) [0..<count]"

subsection \<open>Slots (apply-insertion.ts)\<close>

record item =
  item_id :: js_string
  item_position :: number

record slot =
  insertionIndex :: nat
  slot_prev :: "item option"
  slot_next :: "item option"

definition sliceSlot :: "item list \<Rightarrow> nat \<Rightarrow> slot" where
  "sliceSlot items index =
     \<lparr>insertionIndex = index, slot_prev = js_nth items (int index - 1),
      slot_next = js_nth items (int index)\<rparr>"

definition neighbourIndex :: "item list \<Rightarrow> js_string js_field \<Rightarrow> int" where
  "neighbourIndex items f =
     (case f of Value s \<Rightarrow> findIndex (\<lambda>item. item_id item = s) items | _ \<Rightarrow> -1)"

definition resolveMoveNeighbors ::
  "item list \<Rightarrow> js_string js_field \<Rightarrow> js_string js_field \<Rightarrow> http_error + slot" where
  "resolveMoveNeighbors remaining prevId nextId =
     (let prevIndex = neighbourIndex remaining prevId;
          nextIndex = neighbourIndex remaining nextId
      in if (truthy prevId \<and> prevIndex < 0) \<or> (truthy nextId \<and> nextIndex < 0)
            \<or> (0 \<le> prevIndex \<and> 0 \<le> nextIndex \<and> nextIndex \<noteq> prevIndex + 1)
         then Inl (NotFound ''Neighbor not found'')
         else Inr (sliceSlot remaining
           (if 0 \<le> prevIndex then nat prevIndex + 1
            else if 0 \<le> nextIndex then nat nextIndex else length remaining)))"

definition resolveCreateNeighbors ::
  "item list \<Rightarrow> js_string js_field \<Rightarrow> string \<Rightarrow> http_error + slot" where
  "resolveCreateNeighbors siblings prevId notFoundMessage =
     (if truthy prevId
      then (let i = neighbourIndex siblings prevId
            in if i < 0 then Inl (NotFound notFoundMessage)
               else Inr (sliceSlot siblings (nat i + 1)))
      else Inr (sliceSlot siblings (length siblings)))"

lemma neighbourIndex_ge: "-1 \<le> neighbourIndex items f"
  by (cases f) (simp_all add: neighbourIndex_def findIndex_ge)

lemma neighbourIndex_nonneg:
  assumes "0 \<le> neighbourIndex items f"
  obtains s where "f = Value s" and "nat (neighbourIndex items f) < length items"
    and "item_id (items ! nat (neighbourIndex items f)) = s"
proof (cases f)
  case (Value s)
  with assms have "0 \<le> findIndex (\<lambda>item. item_id item = s) items"
    by (simp add: neighbourIndex_def)
  from findIndex_Some [OF this] that Value show ?thesis by (simp add: neighbourIndex_def)
qed (use assms in \<open>simp_all add: neighbourIndex_def\<close>)

lemma sliceSlot_simps [simp]:
  "insertionIndex (sliceSlot items i) = i"
  "slot_prev (sliceSlot items i) = js_nth items (int i - 1)"
  "slot_next (sliceSlot items i) = js_nth items (int i)"
  by (simp_all add: sliceSlot_def)

text \<open>Both resolvers hand back a slot inside the list, with its two actual neighbours.\<close>

lemma resolveMove_slot:
  assumes "resolveMoveNeighbors remaining prevId nextId = Inr s"
  shows "s = sliceSlot remaining (insertionIndex s) \<and> insertionIndex s \<le> length remaining"
proof -
  have "nat (neighbourIndex remaining f) < length remaining" if "0 \<le> neighbourIndex remaining f" for f
    using that by (rule neighbourIndex_nonneg)
  then show ?thesis
    using assms unfolding resolveMoveNeighbors_def Let_def
    by (auto split: if_splits simp: Suc_le_eq less_imp_le)
qed

lemma resolveCreate_slot:
  assumes "resolveCreateNeighbors siblings prevId msg = Inr s"
  shows "s = sliceSlot siblings (insertionIndex s) \<and> insertionIndex s \<le> length siblings"
proof -
  have "nat (neighbourIndex siblings f) < length siblings" if "0 \<le> neighbourIndex siblings f" for f
    using that by (rule neighbourIndex_nonneg)
  then show ?thesis
    using assms unfolding resolveCreateNeighbors_def Let_def
    by (auto split: if_splits simp: Suc_le_eq not_less)
qed

text \<open>What the slot means: it lies right after the named \<open>prev\<close> and right before the named \<open>next\<close>.\<close>

lemma neighbourIndex_found:
  assumes "distinct (map item_id items)" and "i < length items" and "item_id (items ! i) = s"
  shows "neighbourIndex items (Value s) = int i"
proof -
  have "findIndex (\<lambda>item. item_id item = s) items = int i"
  proof (rule findIndex_eqI)
    fix j assume "j < i"
    then show "item_id (items ! j) \<noteq> s"
      using assms nth_eq_iff_index_eq [OF assms(1), of i j] by auto
  qed (use assms in auto)
  then show ?thesis by (simp add: neighbourIndex_def)
qed

lemma resolveMove_named:
  assumes "resolveMoveNeighbors remaining prevId nextId = Inr s"
  shows "\<And>q. prevId = Value q \<Longrightarrow> q \<noteq> [] \<Longrightarrow> map_option item_id (slot_prev s) = Some q"
    and "\<And>q. nextId = Value q \<Longrightarrow> q \<noteq> [] \<Longrightarrow> map_option item_id (slot_next s) = Some q"
    and "\<not> truthy prevId \<Longrightarrow> \<not> truthy nextId \<Longrightarrow> (\<forall>x \<in> set remaining. item_id x \<noteq> []) \<Longrightarrow>
      insertionIndex s = length remaining"
proof -
  note res = assms [unfolded resolveMoveNeighbors_def Let_def]
  show "map_option item_id (slot_prev s) = Some q" if q: "prevId = Value q" "q \<noteq> []" for q
  proof -
    have ge: "0 \<le> neighbourIndex remaining prevId" using res q by (auto split: if_splits)
    then have "s = sliceSlot remaining (nat (neighbourIndex remaining prevId) + 1)"
      using res by (auto split: if_splits)
    moreover obtain t where "prevId = Value t"
      "nat (neighbourIndex remaining prevId) < length remaining"
      "item_id (remaining ! nat (neighbourIndex remaining prevId)) = t"
      using ge by (rule neighbourIndex_nonneg)
    ultimately show ?thesis using q ge by (simp add: js_nth_def nat_less_iff)
  qed
  show "map_option item_id (slot_next s) = Some q" if q: "nextId = Value q" "q \<noteq> []" for q
  proof -
    have ge: "0 \<le> neighbourIndex remaining nextId" using res q by (auto split: if_splits)
    then have "s = sliceSlot remaining (nat (neighbourIndex remaining nextId))"
      using res by (auto split: if_splits simp: nat_add_distrib)
    moreover obtain t where "nextId = Value t"
      "nat (neighbourIndex remaining nextId) < length remaining"
      "item_id (remaining ! nat (neighbourIndex remaining nextId)) = t"
      using ge by (rule neighbourIndex_nonneg)
    ultimately show ?thesis using q ge by (simp add: js_nth_def nat_less_iff)
  qed
  show "insertionIndex s = length remaining"
    if t: "\<not> truthy prevId" "\<not> truthy nextId" "\<forall>x \<in> set remaining. item_id x \<noteq> []"
  proof -
    have "neighbourIndex remaining f < 0" if f: "\<not> truthy f" for f
    proof (rule ccontr)
      assume "\<not> neighbourIndex remaining f < 0"
      then obtain t where "f = Value t" "nat (neighbourIndex remaining f) < length remaining"
        "item_id (remaining ! nat (neighbourIndex remaining f)) = t"
        by (auto elim: neighbourIndex_nonneg simp: not_less)
      with f t(3) show False by (metis nth_mem truthy.simps(1))
    qed
    with t res show ?thesis by (auto split: if_splits simp: not_less [symmetric])
  qed
qed

subsection \<open>What an ordering service needs of the arithmetic\<close>

text \<open>
  \<open>mid\<close> is the number between two neighbours, \<open>tight\<close> says that a gap must not be split,
  \<open>spread n\<close> numbers \<open>n\<close> rows afresh. The laws hold for \<open>safe\<close> numbers and for lists of at most
  \<open>cap\<close> rows.
\<close>

locale gap_arithmetic =
  fixes mid :: "'n::linorder option \<Rightarrow> 'n option \<Rightarrow> 'n"
    and tight :: "'n option \<Rightarrow> 'n option \<Rightarrow> bool"
    and spread :: "nat \<Rightarrow> 'n list"
    and safe :: "'n \<Rightarrow> bool"
    and cap :: nat
  assumes mid_first: "safe n \<Longrightarrow> mid None (Some n) < n"
    and mid_last: "safe p \<Longrightarrow> p < mid (Some p) None"
    and mid_between: "safe p \<Longrightarrow> safe n \<Longrightarrow> \<not> tight (Some p) (Some n) \<Longrightarrow>
      p < mid (Some p) (Some n) \<and> mid (Some p) (Some n) < n"
    and spread_length: "length (spread k) = k"
    and spread_strict: "k \<le> cap \<Longrightarrow> sorted_wrt (<) (spread k)"
begin

lemma mid_above:
  assumes "safe p" and "\<And>n. nx = Some n \<Longrightarrow> safe n" and "\<not> tight (Some p) nx"
  shows "p < mid (Some p) nx"
  using assms mid_last mid_between by (cases nx) auto

lemma mid_below:
  assumes "safe n" and "\<And>p. pv = Some p \<Longrightarrow> safe p" and "\<not> tight pv (Some n)"
  shows "mid pv (Some n) < n"
  using assms mid_first mid_between by (cases pv) auto

text \<open>
  Rows are pairs of a position and an identifier, listed in display order: strictly increasing in
  the lexicographic order, so equal positions are allowed and broken by the identifier.
\<close>

lemma slot_strict:
  fixes rows :: "('n \<times> 'k::linorder) list"
  assumes srt: "sorted_wrt (<) rows" and safe: "\<forall>r \<in> set rows. safe (fst r)"
    and i: "i \<le> length rows"
    and pv: "pv = map_option fst (js_nth rows (int i - 1))"
    and nx: "nx = map_option fst (js_nth rows (int i))"
    and gap: "\<not> tight pv nx"
  shows "sorted_wrt (<) (splice_in i (mid pv nx, k) rows)"
proof (rule sorted_wrt_splice_in [OF srt i])
  have safe': "safe (fst (rows ! j))" if "j < length rows" for j
    using safe that by simp
  fix a assume "a \<in> set (take i rows)"
  then obtain j where j: "j < i" "j < length rows" "a = rows ! j"
    by (auto simp: in_set_conv_nth)
  then have i0: "0 < i" "i - 1 < length rows" using i by auto
  then have pv': "pv = Some (fst (rows ! (i - 1)))" using i by (simp add: pv js_nth_pred)
  have nx': "safe n" if "nx = Some n" for n
    using that safe' [of i] by (auto simp: nx js_nth_nat split: if_splits)
  have "a \<le> rows ! (i - 1)"
    using sorted_wrt_nth_less [OF srt, of j "i - 1"] j i0
    by (cases "j = i - 1") (auto simp: less_imp_le)
  then have "fst a \<le> fst (rows ! (i - 1))" by (auto simp: less_eq_prod_def)
  also have "\<dots> < mid pv nx"
    using mid_above [OF safe' [OF i0(2)] nx'] gap unfolding pv' by simp
  finally show "a < (mid pv nx, k)" by (simp add: less_prod_def)
next
  have safe': "safe (fst (rows ! j))" if "j < length rows" for j
    using safe that by simp
  fix b assume "b \<in> set (drop i rows)"
  then obtain j where j: "i \<le> j" "j < length rows" "b = rows ! j"
    by (auto simp: in_set_conv_nth) (metis add.commute le_add1 less_diff_conv nth_drop i)
  then have nx': "nx = Some (fst (rows ! i))" by (simp add: nx js_nth_nat)
  have pv': "safe p" if "pv = Some p" for p
    using that safe' [of "i - 1"] by (auto simp: pv js_nth_pred split: if_splits)
  have "mid pv nx < fst (rows ! i)"
    using mid_below [OF safe' pv'] gap j unfolding nx' by simp
  also have "rows ! i \<le> b"
    using sorted_wrt_nth_less [OF srt, of i j] j by (cases "i = j") (auto simp: less_imp_le)
  then have "fst (rows ! i) \<le> fst b" by (auto simp: less_eq_prod_def)
  finally show "(mid pv nx, k) < b" by (cases b) (simp add: less_prod_def)
qed

lemma respread_strict:
  fixes ids :: "'k::linorder list"
  assumes "length ids \<le> cap"
  shows "sorted_wrt (<) (zip (spread (length ids)) ids)"
proof -
  have "sorted_wrt (<) (map fst (zip (spread (length ids)) ids))"
    using assms by (simp add: spread_length spread_strict)
  then have "sorted_wrt (\<lambda>a b. fst a < fst b) (zip (spread (length ids)) ids)"
    by (simp add: sorted_wrt_map)
  then show ?thesis
    by (rule sorted_wrt_mono_rel [rotated]) (auto simp: less_prod_def)
qed

end

subsection \<open>The code's arithmetic keeps the laws\<close>

definition safe_position :: "number \<Rightarrow> bool" where
  "safe_position x \<longleftrightarrow> is_double x \<and> \<bar>x\<bar> \<le> 2 ^ 32"

definition MAX_SIBLINGS :: nat where
  "MAX_SIBLINGS = 2 ^ 40"

lemma MIN_GAP_bounds: "999999 / 10 ^ 12 < MIN_GAP" "0 < MIN_GAP"
proof -
  have "\<bar>MIN_GAP - 1 / 1000000\<bar> \<le> 1 / 1000000 / 2 ^ 53"
    using fl_error [of "1 / 1000000"] by (simp add: MIN_GAP_def)
  then have "- (MIN_GAP - 1 / 1000000) \<le> 1 / 1000000 / 2 ^ 53" by (rule abs_le_D2)
  then have "999999 / 10 ^ 12 < MIN_GAP" by simp
  then show "999999 / 10 ^ 12 < MIN_GAP" "0 < MIN_GAP" by simp_all
qed

lemma fl_gap_lower:
  assumes "c \<le> fl x" and "0 < c"
  shows "c / (1 + 1 / 2 ^ 53) \<le> x"
proof -
  have "0 < x"
    using assms fl_mono [of x 0] by (metis fl_0 leD le_less_trans not_le)
  then have "c \<le> x + x / 2 ^ 53" using fl_error [of x] assms by linarith
  then have "c \<le> x * (1 + 1 / 2 ^ 53)" by (simp add: distrib_left)
  then show ?thesis by (simp add: field_simps)
qed

lemma midpoint_half:
  "midpoint (Some p) (Some n) = fl (p + n) / 2"
  by (simp add: fl_half)

text \<open>
  The midpoint is never outside its neighbours, whatever their size; it lies strictly between them
  when the gap is at least \<open>MIN_GAP\<close> and the neighbours are at most \<open>2 ^ 32\<close> in magnitude.
\<close>

lemma midpoint_weak:
  assumes "is_double p" and "is_double n" and "p \<le> n"
  shows "p \<le> midpoint (Some p) (Some n) \<and> midpoint (Some p) (Some n) \<le> n"
proof -
  have "fl (2 * p) \<le> fl (p + n)" "fl (p + n) \<le> fl (2 * n)"
    using assms(3) by (intro fl_mono; simp)+
  then show ?thesis using assms(1,2) unfolding midpoint_half by (simp add: fl_twice)
qed

lemma midpoint_strict:
  assumes "safe_position p" and "safe_position n" and gap: "\<not> needsRebalance (Some p) (Some n)"
  shows "p < midpoint (Some p) (Some n) \<and> midpoint (Some p) (Some n) < n"
proof -
  have "MIN_GAP / (1 + 1 / 2 ^ 53) \<le> n - p"
    using gap MIN_GAP_bounds(2) by (intro fl_gap_lower) simp_all
  moreover have "999998 / 10 ^ 12 < MIN_GAP / (1 + 1 / 2 ^ 53)"
    using MIN_GAP_bounds(1) by (simp add: field_simps)
  ultimately have gap': "999998 / 10 ^ 12 < n - p" by linarith
  have "\<bar>p\<bar> \<le> 2 ^ 32" "\<bar>n\<bar> \<le> 2 ^ 32" using assms by (simp_all only: safe_position_def)
  then have "\<bar>p + n\<bar> \<le> 2 ^ 32 + 2 ^ 32" by linarith
  then have "\<bar>p + n\<bar> \<le> 2 ^ 33" by simp
  then have "\<bar>p + n\<bar> / 2 ^ 53 \<le> 2 ^ 33 / 2 ^ 53" by (rule divide_right_mono) simp
  then have "\<bar>fl (p + n) - (p + n)\<bar> \<le> 2 ^ 33 / 2 ^ 53"
    using fl_error [of "p + n"] by linarith
  then have "\<bar>fl (p + n) - (p + n)\<bar> \<le> 1 / 1048576" by simp
  then have "fl (p + n) - (p + n) \<le> 1 / 1048576" "- (fl (p + n) - (p + n)) \<le> 1 / 1048576"
    by (rule abs_le_D1, rule abs_le_D2)
  with gap' show ?thesis unfolding midpoint_half by simp
qed

lemma rebalancePositions_nth:
  assumes "i < count" and "count \<le> MAX_SIBLINGS"
  shows "rebalancePositions count POSITION_GAP ! i = of_nat (i + 1) * 1000"
proof -
  have "int (i + 1) * 1000 \<le> 2 ^ 53" using assms by (simp add: MAX_SIBLINGS_def)
  then have "fl (of_int (int (i + 1) * 1000)) = of_int (int (i + 1) * 1000)"
    using is_double_of_int [of "int (i + 1) * 1000"] by (simp add: is_double_def)
  then show ?thesis using assms by (simp add: rebalancePositions_def POSITION_GAP_def)
qed

lemma rebalancePositions_length [simp]: "length (rebalancePositions count gap) = count"
  by (simp add: rebalancePositions_def)

interpretation frac: gap_arithmetic midpoint needsRebalance
  "\<lambda>count. rebalancePositions count POSITION_GAP" safe_position MAX_SIBLINGS
proof (unfold_locales, goal_cases)
  case (1 n)
  then have "\<bar>n - 1000\<bar> / 2 ^ 53 \<le> (2 ^ 32 + 1000) / 2 ^ 53"
    by (intro divide_right_mono) (auto simp: safe_position_def)
  then have "\<bar>fl (n - 1000) - (n - 1000)\<bar> \<le> 1"
    using fl_error [of "n - 1000"] by (simp add: field_simps)
  then show ?case by (simp add: POSITION_GAP_def abs_le_iff)
next
  case (2 p)
  then have "\<bar>p + 1000\<bar> / 2 ^ 53 \<le> (2 ^ 32 + 1000) / 2 ^ 53"
    by (intro divide_right_mono) (auto simp: safe_position_def)
  then have "\<bar>fl (p + 1000) - (p + 1000)\<bar> \<le> 1"
    using fl_error [of "p + 1000"] by (simp add: field_simps)
  then show ?case by (simp add: POSITION_GAP_def abs_le_iff)
next
  case (3 p n)
  then show ?case by (rule midpoint_strict)
next
  case (4 k)
  show ?case by simp
next
  case (5 k)
  then show ?case by (simp add: sorted_wrt_iff_nth_less rebalancePositions_nth)
qed

lemma needsRebalance_same: "needsRebalance (Some p) (Some p)"
  using MIN_GAP_bounds by simp

declare MIN_GAP_bounds(2) [handler_defs]

declare sliceSlot_def [handler_defs] neighbourIndex_def [handler_defs] resolveMoveNeighbors_def [handler_defs] resolveCreateNeighbors_def [handler_defs] POSITION_GAP_def [handler_defs]

end
