(* ===== verification/Ordering.thy ===== *)
theory Ordering
  imports Position
begin

section \<open>Ordering siblings: what an insertion does to the displayed order\<close>

text \<open>
  Tasks of a column and columns of a board are displayed by \<open>orderBy: [position, id]\<close>, and both
  services place a row with the same few lines: split the gap with \<open>midpoint\<close>, or respread the
  siblings with \<open>rebalancePositions\<close> when \<open>needsRebalance\<close> says so. The position updates of the two
  variants (create and move) are defined here once, and two theorems give their effect on the
  display order: it is list insertion at the slot, in both cases.

  \<open>placed\<close> is the abstract specification: the new list is the old one with the row inserted
  directly after the sibling named \<open>prev\<close>, directly before the one named \<open>next\<close>, and at the end
  when neither is named.
\<close>

abbreviation item_key :: "item \<Rightarrow> number \<times> js_string" where
  "item_key it \<equiv> (item_position it, item_id it)"

definition orderedItems :: "item list \<Rightarrow> item list" where
  \<comment> \<open>\<open>orderBy: [{ position: 'asc' }, { id: 'asc' }]\<close>\<close>
  "orderedItems = sort_key item_key"

definition createUpdates :: "item list \<Rightarrow> nat \<Rightarrow> number list \<Rightarrow> (js_string \<times> number) list" where
  \<comment> \<open>\<open>siblings.map((s, index) => ({ id, position: positions[index < i ? index : index + 1] }))\<close>\<close>
  "createUpdates siblings i positions =
     map (\<lambda>(index, s). (item_id s, positions ! (if index < i then index else index + 1)))
       (enumerate 0 siblings)"

definition moveUpdates ::
  "item list \<Rightarrow> nat \<Rightarrow> item \<Rightarrow> number list \<Rightarrow> (js_string \<times> number) list" where
  \<comment> \<open>\<open>reordered\<close> with the moved row spliced in, every other row paired with its new slot\<close>
  "moveUpdates remaining i moved positions =
     map (\<lambda>(index, s). (item_id s, positions ! index))
       (filter (\<lambda>(index, s). item_id s \<noteq> item_id moved) (enumerate 0 (splice_in i moved remaining)))"

definition applyUpdates :: "(js_string \<times> number) list \<Rightarrow> js_string \<Rightarrow> number \<Rightarrow> number" where
  \<comment> \<open>\<open>UPDATE ... SET position = v.position FROM unnest(ids, positions) AS v WHERE id = v.id\<close>\<close>
  "applyUpdates updates k old = (case map_of updates k of Some p \<Rightarrow> p | None \<Rightarrow> old)"

abbreviation updateItem :: "(js_string \<times> number) list \<Rightarrow> item \<Rightarrow> item" where
  "updateItem updates it \<equiv> it\<lparr>item_position := applyUpdates updates (item_id it) (item_position it)\<rparr>"

definition placed ::
  "js_string js_field \<Rightarrow> js_string js_field \<Rightarrow> js_string \<Rightarrow> js_string list \<Rightarrow> js_string list \<Rightarrow> bool" where
  "placed prev next k old new \<longleftrightarrow>
     (\<exists>xs ys. old = xs @ ys \<and> new = xs @ k # ys
        \<and> (\<forall>p. prev = Value p \<longrightarrow> p \<noteq> [] \<longrightarrow> xs \<noteq> [] \<and> last xs = p)
        \<and> (\<forall>n. next = Value n \<longrightarrow> n \<noteq> [] \<longrightarrow> ys \<noteq> [] \<and> hd ys = n)
        \<and> (\<not> truthy prev \<longrightarrow> \<not> truthy next \<longrightarrow> ys = []))"

subsection \<open>Sorting items\<close>

lemma inj_item_key: "inj_on item_key A"
  by (rule inj_onI) simp

lemma orderedItems_set [simp]: "set (orderedItems xs) = set xs"
  by (simp add: orderedItems_def)

lemma orderedItems_length [simp]: "length (orderedItems xs) = length xs"
  by (simp add: orderedItems_def)

lemma distinct_ids_items: "distinct (map item_id xs) \<Longrightarrow> distinct xs"
  by (simp add: distinct_map)

lemma distinct_orderedItems [simp]:
  "distinct (map item_id (orderedItems xs)) \<longleftrightarrow> distinct (map item_id xs)"
  by (simp add: distinct_map orderedItems_def)

lemma orderedItems_filter: "orderedItems (filter P xs) = filter P (orderedItems xs)"
  by (simp add: orderedItems_def filter_sort)

lemma orderedItems_strict:
  assumes "distinct (map item_id xs)"
  shows "sorted_wrt (\<lambda>a b. item_key a < item_key b) (orderedItems xs)"
  unfolding orderedItems_def
  using assms by (intro sorted_wrt_sort_key inj_item_key) (rule distinct_ids_items)

lemma orderedItems_eqI:
  assumes "set xs = set ys" and "distinct xs" and "sorted_wrt (<) (map item_key ys)"
  shows "orderedItems xs = ys"
  unfolding orderedItems_def using assms by (intro sort_key_unique) (simp_all add: sorted_wrt_map)

subsection \<open>The position updates\<close>

lemma map_of_createUpdates:
  assumes "distinct (map item_id siblings)" and "j < length siblings"
  shows "map_of (createUpdates siblings i positions) (item_id (siblings ! j)) =
    Some (positions ! (if j < i then j else j + 1))"
proof (rule map_of_is_SomeI)
  show "distinct (map fst (createUpdates siblings i positions))"
  proof -
    have "fst \<circ> (\<lambda>(index, s :: item). (item_id s, positions ! (if index < i then index else index + 1))) =
        item_id \<circ> snd"
      by auto
    then have "map fst (createUpdates siblings i positions) = map item_id (map snd (enumerate 0 siblings))"
      by (simp only: createUpdates_def map_map)
    with assms(1) show ?thesis by (simp only: map_snd_enumerate)
  qed
  show "(item_id (siblings ! j), positions ! (if j < i then j else j + 1))
      \<in> set (createUpdates siblings i positions)"
    using assms(2) by (auto simp: createUpdates_def in_set_enumerate_eq intro!: image_eqI [of _ _ "(j, siblings ! j)"])
qed

lemma map_of_createUpdates_None:
  "k \<notin> item_id ` set siblings \<Longrightarrow> map_of (createUpdates siblings i positions) k = None"
  by (auto simp: createUpdates_def map_of_eq_None_iff image_image case_prod_beta in_set_enumerate_eq)

lemma map_of_moveUpdates:
  assumes dist: "distinct (map item_id remaining)" and moved: "item_id moved \<notin> item_id ` set remaining"
    and j: "j < length remaining" and i: "i \<le> length remaining"
  shows "map_of (moveUpdates remaining i moved positions) (item_id (remaining ! j)) =
    Some (positions ! (if j < i then j else j + 1))"
proof (rule map_of_is_SomeI)
  let ?xs = "splice_in i moved remaining"
  let ?P = "\<lambda>(index :: nat, s). item_id s \<noteq> item_id moved"
  have "map (item_id \<circ> snd) (enumerate 0 ?xs) = map item_id ?xs"
    by (simp only: map_map [symmetric] map_snd_enumerate)
  also have "distinct \<dots>"
    using dist moved by (simp add: map_splice_in distinct_splice_in)
  finally have "distinct (map (item_id \<circ> snd) (filter ?P (enumerate 0 ?xs)))"
    by (rule distinct_map_filter)
  moreover have "fst \<circ> (\<lambda>(index, s :: item). (item_id s, positions ! index)) = item_id \<circ> snd"
    by auto
  ultimately show "distinct (map fst (moveUpdates remaining i moved positions))"
    by (simp only: moveUpdates_def map_map)
  let ?k = "if j < i then j else j + 1"
  have "?xs ! ?k = remaining ! j" using i j by (auto simp: nth_splice_in)
  moreover have "?k < length ?xs" using j by simp
  moreover have "item_id (remaining ! j) \<noteq> item_id moved" using moved j by (metis image_eqI nth_mem)
  ultimately have "(?k, remaining ! j) \<in> set (filter ?P (enumerate 0 ?xs))"
    by (simp add: in_set_enumerate_eq)
  then show "(item_id (remaining ! j), positions ! ?k) \<in> set (moveUpdates remaining i moved positions)"
    unfolding moveUpdates_def by force
qed

lemma map_of_moveUpdates_None: "map_of (moveUpdates remaining i moved positions) (item_id moved) = None"
  by (auto simp: moveUpdates_def map_of_eq_None_iff)

lemma respread_items:
  assumes dist: "distinct (map item_id siblings)" and i: "i \<le> length siblings"
    and len: "length positions = Suc (length siblings)"
    and upd: "\<And>j. j < length siblings \<Longrightarrow>
      map_of updates (item_id (siblings ! j)) = Some (positions ! (if j < i then j else j + 1))"
  shows "map item_key (splice_in i \<lparr>item_id = k, item_position = positions ! i\<rparr>
      (map (updateItem updates) siblings)) = zip positions (splice_in i k (map item_id siblings))"
    (is "?l = ?r")
proof (rule nth_equalityI)
  show "length ?l = length ?r" using len by simp
  fix j assume "j < length ?l"
  then have j: "j < Suc (length siblings)" by simp
  then show "?l ! j = ?r ! j"
    using i len upd [of j] upd [of "j - 1"]
    by (cases "j = i") (auto simp: nth_splice_in applyUpdates_def)
qed

text \<open>The display order after a split gap, and after a respread.\<close>

lemma order_after_split:
  assumes dist: "distinct (map item_id siblings)"
    and srt: "sorted_wrt (<) (map item_key siblings)"
    and safe: "\<forall>s \<in> set siblings. safe_position (item_position s)"
    and i: "i \<le> length siblings"
    and pv: "pv = map_option item_position (js_nth siblings (int i - 1))"
    and nx: "nx = map_option item_position (js_nth siblings (int i))"
    and gap: "\<not> needsRebalance pv nx"
    and result: "set result = insert \<lparr>item_id = k, item_position = midpoint pv nx\<rparr> (set siblings)"
      "distinct result"
  shows "orderedItems result = splice_in i \<lparr>item_id = k, item_position = midpoint pv nx\<rparr> siblings"
proof (rule orderedItems_eqI)
  have "sorted_wrt (<) (splice_in i (midpoint pv nx, k) (map item_key siblings))"
    using srt safe i gap
    by (intro frac.slot_strict) (auto simp: pv nx js_nth_map option.map_comp comp_def)
  then show "sorted_wrt (<)
      (map item_key (splice_in i \<lparr>item_id = k, item_position = midpoint pv nx\<rparr> siblings))"
    by (simp add: map_splice_in)
qed (use result in auto)

lemma order_after_respread:
  assumes dist: "distinct (map item_id siblings)" and i: "i \<le> length siblings"
    and cap: "length siblings < MAX_SIBLINGS"
    and positions: "positions = rebalancePositions (Suc (length siblings)) POSITION_GAP"
    and upd: "\<And>j. j < length siblings \<Longrightarrow>
      map_of updates (item_id (siblings ! j)) = Some (positions ! (if j < i then j else j + 1))"
    and result: "set result = insert \<lparr>item_id = k, item_position = positions ! i\<rparr>
        (updateItem updates ` set siblings)" "distinct result"
  shows "orderedItems result =
    splice_in i \<lparr>item_id = k, item_position = positions ! i\<rparr> (map (updateItem updates) siblings)"
proof (rule orderedItems_eqI)
  have "length (splice_in i k (map item_id siblings)) \<le> MAX_SIBLINGS"
    using cap by simp
  from frac.respread_strict [OF this]
  have "sorted_wrt (<) (zip positions (splice_in i k (map item_id siblings)))"
    by (simp add: positions)
  then show "sorted_wrt (<) (map item_key
      (splice_in i \<lparr>item_id = k, item_position = positions ! i\<rparr> (map (updateItem updates) siblings)))"
    using respread_items [OF dist i _ upd] by (simp add: positions)
qed (use result in auto)

subsection \<open>Creating and moving a row, whichever branch the code takes\<close>

definition slotPosition :: "slot \<Rightarrow> nat \<Rightarrow> number" where
  \<comment> \<open>the position a row gets in a slot of a list that has \<open>count\<close> rows with it\<close>
  "slotPosition slot count =
     (let prevPos = map_option item_position (slot_prev slot);
          nextPos = map_option item_position (slot_next slot)
      in if needsRebalance prevPos nextPos
         then rebalancePositions count POSITION_GAP ! insertionIndex slot else midpoint prevPos nextPos)"

abbreviation tightSlot :: "slot \<Rightarrow> bool" where
  "tightSlot slot \<equiv> needsRebalance (map_option item_position (slot_prev slot))
     (map_option item_position (slot_next slot))"

lemma order_created:
  assumes dist: "distinct (map item_id items)" and fresh: "k \<notin> item_id ` set items"
    and safe: "\<forall>s \<in> set items. safe_position (item_position s)" and cap: "length items < MAX_SIBLINGS"
    and siblings: "siblings = orderedItems items"
    and slot: "resolveCreateNeighbors siblings after msg = Inr slot"
    and items1: "items1 = (if tightSlot slot then map (updateItem (createUpdates siblings (insertionIndex slot)
        (rebalancePositions (length siblings + 1) POSITION_GAP))) items else items)"
  shows "map item_id (orderedItems (items1 @ [\<lparr>item_id = k, item_position = slotPosition slot (length siblings + 1)\<rparr>])) =
    splice_in (insertionIndex slot) k (map item_id siblings)"
proof -
  define i where "i = insertionIndex slot"
  from resolveCreate_slot [OF slot] have s: "slot = sliceSlot siblings i" and i: "i \<le> length siblings"
    by (auto simp: i_def)
  have facts: "distinct (map item_id siblings)" "sorted_wrt (<) (map item_key siblings)"
    "\<forall>s \<in> set siblings. safe_position (item_position s)" "set siblings = set items" "length siblings < MAX_SIBLINGS"
    using dist orderedItems_strict [OF dist] safe cap by (simp_all add: siblings sorted_wrt_map)
  let ?pv = "map_option item_position (js_nth siblings (int i - 1))"
  let ?nx = "map_option item_position (js_nth siblings (int i))"
  let ?positions = "rebalancePositions (Suc (length siblings)) POSITION_GAP"
  let ?updates = "createUpdates siblings i ?positions"
  show ?thesis
  proof (cases "needsRebalance ?pv ?nx")
    case False
    have "orderedItems (items @ [\<lparr>item_id = k, item_position = midpoint ?pv ?nx\<rparr>]) =
        splice_in i \<lparr>item_id = k, item_position = midpoint ?pv ?nx\<rparr> siblings"
    proof (rule order_after_split)
      show "distinct (items @ [\<lparr>item_id = k, item_position = midpoint ?pv ?nx\<rparr>])"
        using fresh distinct_ids_items [OF dist] by force
    qed (use facts i False in auto)
    then show ?thesis
      using False by (simp add: items1 slotPosition_def Let_def s map_splice_in)
  next
    case True
    have ids: "map item_id (map (updateItem ?updates) items) = map item_id items"
      by (simp add: comp_def)
    have "orderedItems (map (updateItem ?updates) items @ [\<lparr>item_id = k, item_position = ?positions ! i\<rparr>]) =
        splice_in i \<lparr>item_id = k, item_position = ?positions ! i\<rparr> (map (updateItem ?updates) siblings)"
    proof (rule order_after_respread)
      have "distinct (map item_id (map (updateItem ?updates) items @ [\<lparr>item_id = k, item_position = ?positions ! i\<rparr>]))"
        using fresh dist by (simp add: ids [unfolded map_map] comp_def)
      then show "distinct (map (updateItem ?updates) items @ [\<lparr>item_id = k, item_position = ?positions ! i\<rparr>])"
        by (rule distinct_ids_items)
      show "map_of ?updates (item_id (siblings ! j)) = Some (?positions ! (if j < i then j else j + 1))"
        if "j < length siblings" for j
        using facts(1) that by (rule map_of_createUpdates)
    qed (use facts i in auto)
    then show ?thesis
      using True by (simp add: items1 slotPosition_def Let_def s map_splice_in comp_def)
  qed
qed

lemma order_moved:
  assumes dist: "distinct (map item_id remaining)" and srt: "sorted_wrt (<) (map item_key remaining)"
    and safe: "\<forall>s \<in> set remaining. safe_position (item_position s)"
    and cap: "length remaining < MAX_SIBLINGS" and fresh: "k \<notin> item_id ` set remaining"
    and slot: "resolveMoveNeighbors remaining prev next = Inr slot" and moved: "item_id moved = k"
    and items': "set items' = insert \<lparr>item_id = k, item_position = slotPosition slot (length remaining + 1)\<rparr>
        (if tightSlot slot then updateItem (moveUpdates remaining (insertionIndex slot) moved
          (rebalancePositions (length remaining + 1) POSITION_GAP)) ` set remaining else set remaining)"
      "distinct items'"
  shows "map item_id (orderedItems items') = splice_in (insertionIndex slot) k (map item_id remaining)"
proof -
  define i where "i = insertionIndex slot"
  from resolveMove_slot [OF slot] have s: "slot = sliceSlot remaining i" and i: "i \<le> length remaining"
    by (auto simp: i_def)
  let ?pv = "map_option item_position (js_nth remaining (int i - 1))"
  let ?nx = "map_option item_position (js_nth remaining (int i))"
  let ?positions = "rebalancePositions (Suc (length remaining)) POSITION_GAP"
  let ?updates = "moveUpdates remaining i moved ?positions"
  show ?thesis
  proof (cases "needsRebalance ?pv ?nx")
    case False
    then have "orderedItems items' = splice_in i \<lparr>item_id = k, item_position = midpoint ?pv ?nx\<rparr> remaining"
      using assms i by (intro order_after_split) (simp_all add: s slotPosition_def Let_def)
    then show ?thesis by (simp add: map_splice_in s)
  next
    case True
    have "orderedItems items' = splice_in i \<lparr>item_id = k, item_position = ?positions ! i\<rparr>
        (map (updateItem ?updates) remaining)"
    proof (rule order_after_respread)
      show "map_of ?updates (item_id (remaining ! j)) = Some (?positions ! (if j < i then j else j + 1))"
        if "j < length remaining" for j
        using dist fresh that i by (intro map_of_moveUpdates) (simp_all add: moved)
    qed (use assms i True in \<open>simp_all add: s slotPosition_def Let_def\<close>)
    then show ?thesis by (simp add: map_splice_in s comp_def)
  qed
qed

subsection \<open>From slots to the specification\<close>

lemma last_take_map:
  assumes "0 < i" and "i \<le> length xs"
  shows "last (map f (take i xs)) = f (xs ! (i - 1))"
proof -
  from assms have "take i xs \<noteq> []" by auto
  then have "last (map f (take i xs)) = f (last (take i xs))" by (rule last_map)
  also have "last (take i xs) = xs ! (i - 1)"
    using assms \<open>take i xs \<noteq> []\<close> by (simp add: last_conv_nth min_def)
  finally show ?thesis .
qed

lemma placed_move:
  assumes res: "resolveMoveNeighbors remaining prev next = Inr s"
    and ne: "\<forall>x \<in> set remaining. item_id x \<noteq> []"
  shows "placed prev next k (map item_id remaining)
    (splice_in (insertionIndex s) k (map item_id remaining))"
proof -
  let ?i = "insertionIndex s"
  have s: "s = sliceSlot remaining ?i" and i: "?i \<le> length remaining"
    using resolveMove_slot [OF res] by auto
  have pv: "slot_prev s = js_nth remaining (int ?i - 1)" and nx: "slot_next s = js_nth remaining (int ?i)"
    by (subst s, simp)+
  show ?thesis unfolding placed_def
  proof (intro exI conjI allI impI)
    show "map item_id remaining = map item_id (take ?i remaining) @ map item_id (drop ?i remaining)"
      by (simp flip: map_append)
    show "splice_in ?i k (map item_id remaining) =
        map item_id (take ?i remaining) @ k # map item_id (drop ?i remaining)"
      by (simp add: splice_in_def take_map drop_map)
    fix p assume p: "prev = Value p" "p \<noteq> []"
    then have "map_option item_id (slot_prev s) = Some p" by (rule resolveMove_named(1) [OF res])
    then have "0 < ?i" "?i \<le> length remaining" "item_id (remaining ! (?i - 1)) = p"
      by (auto simp: pv js_nth_pred split: if_splits)
    then show "map item_id (take ?i remaining) \<noteq> []" "last (map item_id (take ?i remaining)) = p"
      by (auto simp: last_take_map)
  next
    fix n assume n: "next = Value n" "n \<noteq> []"
    then have "map_option item_id (slot_next s) = Some n" by (rule resolveMove_named(2) [OF res])
    then have "?i < length remaining" "item_id (remaining ! ?i) = n"
      by (auto simp: nx js_nth_nat split: if_splits)
    then show "map item_id (drop ?i remaining) \<noteq> []" "hd (map item_id (drop ?i remaining)) = n"
      by (auto simp: hd_map hd_drop_conv_nth)
  next
    assume "\<not> truthy prev" "\<not> truthy next"
    then show "map item_id (drop ?i remaining) = []"
      using resolveMove_named(3) [OF res] ne by simp
  qed
qed

lemma placed_create:
  assumes res: "resolveCreateNeighbors siblings prev msg = Inr s"
  shows "placed prev Undefined k (map item_id siblings)
    (splice_in (insertionIndex s) k (map item_id siblings))"
proof -
  let ?i = "insertionIndex s"
  have s: "s = sliceSlot siblings ?i" and i: "?i \<le> length siblings"
    using resolveCreate_slot [OF res] by auto
  show ?thesis unfolding placed_def
  proof (intro exI conjI allI impI)
    show "map item_id siblings = map item_id (take ?i siblings) @ map item_id (drop ?i siblings)"
      by (simp flip: map_append)
    show "splice_in ?i k (map item_id siblings) =
        map item_id (take ?i siblings) @ k # map item_id (drop ?i siblings)"
      by (simp add: splice_in_def take_map drop_map)
    fix p assume p: "prev = Value p" "p \<noteq> []"
    then have ge: "0 \<le> neighbourIndex siblings prev" and eq: "?i = Suc (nat (neighbourIndex siblings prev))"
      using res by (auto simp: resolveCreateNeighbors_def Let_def split: if_splits)
    from ge obtain t where "prev = Value t" "nat (neighbourIndex siblings prev) < length siblings"
      "item_id (siblings ! nat (neighbourIndex siblings prev)) = t"
      by (rule neighbourIndex_nonneg)
    with p eq show "map item_id (take ?i siblings) \<noteq> []" "last (map item_id (take ?i siblings)) = p"
      by (auto simp: last_take_map)
  next
    assume "\<not> truthy prev"
    then show "map item_id (drop ?i siblings) = []"
      using res by (auto simp: resolveCreateNeighbors_def split: if_splits)
  qed simp_all
qed

declare orderedItems_def [handler_defs]

end
