(* ===== verification/Store.thy ===== *)
theory Store
  imports Position Dates
begin

section \<open>The database, the effects and the scoped reads every service shares\<close>

text \<open>
  The state the services work on. A \<open>world\<close> holds one list of rows per Prisma model, the log of the
  socket events published so far, and the environment the services read: the clock, the UUIDv7
  supply (a third-party package, so a function of a counter), \<open>new Date(string)\<close> with \<open>None\<close> for an
  invalid date, and whether the Socket.io server is attached. The order of the rows in a list
  carries no meaning: every read that promises an order sorts.

  A handler is a function from the world to a result and a world. \<open>transaction\<close> is Prisma's
  \<open>$transaction\<close>: when the body throws, every table is as it was.

  Rows keep the columns the code reads or writes. A timestamp is its number of milliseconds since
  the epoch (Dates); a column of type \<open>String\<close> is a \<open>js_string\<close>, a nullable one an option.
\<close>

subsection \<open>Enumerations (shared-types: enums.ts, activity.ts, entities.ts)\<close>

datatype priority = LOW | MEDIUM | HIGH | URGENT

datatype member_role = OWNER | ADMIN | MEMBER | GUEST

datatype column_category = BACKLOG | UNSTARTED | STARTED | COMPLETED | CANCELED

datatype label_color_slot = Slot1 | Slot2 | Slot3 | Slot4 | Slot5 | Slot6 | Slot7 | Slot8

datatype attachment_kind = FILE | LINK

datatype activity_type =
    TaskCreated | TaskUpdated | TaskMoved | TaskDeleted | TaskAssigned | TaskUnassigned
  | CommentCreated | AttachmentCreated | AttachmentDeleted
  | BoardCreated | BoardUpdated | BoardDeleted | BoardImported
  | ColumnCreated | ColumnUpdated | ColumnDeleted
  | LabelCreated | LabelUpdated | LabelDeleted
  | WorkspaceUpdated | MemberRemoved | MemberLeft | MemberRoleChanged
  | InvitationCreated | InvitationRevoked | InvitationAccepted | AccountDeleted

datatype notification_type = Assignment | Mention | DueSoon

definition AUDIT_ACTIVITY_TYPES :: "activity_type list" where
  "AUDIT_ACTIVITY_TYPES =
     [TaskDeleted, AttachmentDeleted, BoardCreated, BoardImported, BoardUpdated, BoardDeleted,
      ColumnCreated, ColumnUpdated, ColumnDeleted, LabelCreated, LabelUpdated, LabelDeleted,
      WorkspaceUpdated, MemberRemoved, MemberLeft, MemberRoleChanged, InvitationCreated,
      InvitationRevoked, InvitationAccepted, AccountDeleted]"

fun slot_name :: "label_color_slot \<Rightarrow> js_string" where
  "slot_name Slot1 = js ''slot-1''"
| "slot_name Slot2 = js ''slot-2''"
| "slot_name Slot3 = js ''slot-3''"
| "slot_name Slot4 = js ''slot-4''"
| "slot_name Slot5 = js ''slot-5''"
| "slot_name Slot6 = js ''slot-6''"
| "slot_name Slot7 = js ''slot-7''"
| "slot_name Slot8 = js ''slot-8''"

definition label_color_slots :: "label_color_slot list" where
  "label_color_slots = [Slot1, Slot2, Slot3, Slot4, Slot5, Slot6, Slot7, Slot8]"

definition toLabelColorSlot :: "js_string \<Rightarrow> label_color_slot" where
  \<comment> \<open>common/label-color.ts: an unknown stored value reads as slot 1\<close>
  "toLabelColorSlot value =
     (case find (\<lambda>s. slot_name s = value) label_color_slots of Some s \<Rightarrow> s | None \<Rightarrow> Slot1)"

lemma toLabelColorSlot_name [simp]: "toLabelColorSlot (slot_name s) = s"
  by (cases s) (simp_all add: toLabelColorSlot_def label_color_slots_def)

subsection \<open>Rows\<close>

type_synonym uuid = js_string

record user_row =
  u_id :: uuid
  u_email :: js_string
  u_name :: js_string
  u_avatarUrl :: "js_string option"
  u_locale :: "js_string option"
  u_deletedAt :: "js_date option"
  u_emailVerified :: bool

record workspace_row =
  ws_id :: uuid
  ws_name :: js_string
  ws_slug :: js_string
  ws_createdAt :: js_date

record member_row =
  m_id :: uuid
  m_workspaceId :: uuid
  m_userId :: uuid
  m_role :: member_role
  m_createdAt :: js_date

record invitation_row =
  iv_id :: uuid
  iv_email :: js_string
  iv_inviterId :: uuid
  iv_workspaceId :: uuid
  iv_role :: "js_string option"
  iv_status :: js_string
  iv_expiresAt :: js_date
  iv_createdAt :: js_date

record board_row =
  b_id :: uuid
  b_workspaceId :: uuid
  b_name :: js_string
  b_description :: "js_string option"
  b_createdAt :: js_date

record column_row =
  c_id :: uuid
  c_boardId :: uuid
  c_name :: js_string
  c_position :: number
  c_color :: "js_string option"
  c_category :: column_category

record task_row =
  t_id :: uuid
  t_boardId :: uuid
  t_columnId :: uuid
  t_title :: js_string
  t_description :: "js_string option"
  t_priority :: priority
  t_position :: number
  t_dueDate :: "js_date option"
  t_estimatedMinutes :: "int option"
  t_createdById :: uuid
  t_createdAt :: js_date
  t_updatedAt :: js_date

record assignee_row =
  ta_id :: uuid
  ta_taskId :: uuid
  ta_userId :: uuid

record label_row =
  l_id :: uuid
  l_boardId :: uuid
  l_name :: js_string
  l_color :: js_string

record task_label_row =
  tl_id :: uuid
  tl_taskId :: uuid
  tl_labelId :: uuid

record comment_row =
  co_id :: uuid
  co_taskId :: uuid
  co_userId :: uuid
  co_body :: js_string
  co_createdAt :: js_date

record attachment_row =
  at_id :: uuid
  at_taskId :: uuid
  at_uploadedById :: uuid
  at_kind :: attachment_kind
  at_filename :: js_string
  at_storageKey :: "js_string option"
  at_mimeType :: "js_string option"
  at_size :: "int option"
  at_url :: "js_string option"
  at_createdAt :: js_date

record checklist_row =
  cl_id :: uuid
  cl_taskId :: uuid
  cl_title :: js_string
  cl_position :: number

record checklist_item_row =
  ci_id :: uuid
  ci_checklistId :: uuid
  ci_content :: js_string
  ci_isDone :: bool
  ci_position :: number

text \<open>Better Auth's tables, the usage pings, and the files of the disk backend with their times.\<close>

record session_row =
  se_id :: uuid
  se_userId :: uuid
  se_expiresAt :: js_date

record account_row =
  ac_id :: uuid
  ac_userId :: uuid

record verification_row =
  ve_id :: uuid
  ve_identifier :: js_string
  ve_expiresAt :: js_date

record usage_ping_row =
  up_id :: uuid
  up_userId :: uuid
  up_workspaceId :: uuid
  up_createdAt :: js_date

record stored_file =
  sf_key :: js_string
  sf_modifiedAt :: js_date
  sf_bytes :: "8 word list"

text \<open>The \<open>Json\<close> payload of an activity or a notification, and a parsed JSON document.\<close>

datatype js_number = Finite number | PosInfinity | NegInfinity

datatype json =
    JNull
  | JBool bool
  | JNumber js_number
  | JString js_string
  | JArray "json list"
  | JObject "(js_string \<times> json) list"

type_synonym payload = "(string \<times> json) list"

record activity_row =
  a_id :: uuid
  a_workspaceId :: uuid
  a_taskId :: "uuid option"
  a_userId :: uuid
  a_type :: activity_type
  a_payload :: payload
  a_createdAt :: js_date

record notification_row =
  n_id :: uuid
  n_workspaceId :: uuid
  n_userId :: uuid
  n_type :: notification_type
  n_taskId :: "uuid option"
  n_activityId :: "uuid option"
  n_payload :: payload
  n_readAt :: "js_date option"
  n_createdAt :: js_date

subsection \<open>Socket events (shared-types: socket.ts)\<close>

record board_scope =
  e_workspaceId :: uuid
  e_boardId :: uuid
  e_actorId :: uuid

datatype board_event =
    TASK_CREATED board_scope uuid
  | TASK_UPDATED board_scope uuid
  | TASK_MOVED board_scope uuid uuid number
  | TASK_DELETED board_scope uuid
  | COLUMN_CHANGED board_scope uuid
  | COMMENT_ADDED board_scope uuid uuid

datatype user_event = NOTIFICATION_UNREAD_CHANGED uuid uuid

datatype room = BoardRoom uuid | UserRoom uuid uuid

datatype published = ToBoard room board_event | ToUser room user_event

subsection \<open>The world\<close>

text \<open>
  The tables and the files of the storage; then what left the process: \<open>w_evicted\<close> the users dropped from the sockets of a workspace,
  \<open>w_log\<close> the lines written to the log, \<open>w_published\<close> the socket events; then the clock, the id supply
  and \<open>new Date\<close>.
\<close>

record world =
  users :: "user_row list"
  workspaces :: "workspace_row list"
  members :: "member_row list"
  boards :: "board_row list"
  columns :: "column_row list"
  tasks :: "task_row list"
  assignees :: "assignee_row list"
  labels :: "label_row list"
  taskLabels :: "task_label_row list"
  comments :: "comment_row list"
  attachments :: "attachment_row list"
  checklists :: "checklist_row list"
  checklistItems :: "checklist_item_row list"
  activities :: "activity_row list"
  notifications :: "notification_row list"
  invitations :: "invitation_row list"
  sessions :: "session_row list"
  accounts :: "account_row list"
  verifications :: "verification_row list"
  usagePings :: "usage_ping_row list"
  w_files :: "stored_file list"
  w_evicted :: "(uuid \<times> uuid) list"
  w_log :: "json list"
  w_published :: "published list"
  w_socketServer :: bool
  w_now :: js_date
  w_uuid :: "nat \<Rightarrow> uuid"
  w_seq :: nat
  w_newDate :: "js_string \<Rightarrow> js_date option"

type_synonym 'a handler = "world \<Rightarrow> (http_error + 'a) \<times> world"

definition throw :: "http_error \<Rightarrow> world \<Rightarrow> (http_error + 'a) \<times> world" where
  "throw e w = (Inl e, w)"

definition return :: "'a \<Rightarrow> 'a handler" where
  "return a w = (Inr a, w)"

definition bindE :: "'a handler \<Rightarrow> ('a \<Rightarrow> 'b handler) \<Rightarrow> 'b handler" where
  "bindE m f w = (case m w of (Inl e, w') \<Rightarrow> (Inl e, w') | (Inr a, w') \<Rightarrow> f a w')"

definition transaction :: "'a handler \<Rightarrow> 'a handler" where
  "transaction body w = (case body w of (Inl e, _) \<Rightarrow> (Inl e, w) | (Inr a, w') \<Rightarrow> (Inr a, w'))"

definition modify :: "(world \<Rightarrow> world) \<Rightarrow> unit handler" where
  "modify f w = (Inr (), f w)"

definition reads :: "(world \<Rightarrow> 'a) \<Rightarrow> 'a handler" where
  "reads f w = (Inr (f w), w)"

definition lift :: "http_error + 'a \<Rightarrow> 'a handler" where
  \<comment> \<open>a pure step that may throw\<close>
  "lift r w = (r, w)"

definition failIf :: "bool \<Rightarrow> http_error \<Rightarrow> unit handler" where
  \<comment> \<open>\<open>if (b) throw e\<close>\<close>
  "failIf b e w = (if b then Inl e else Inr (), w)"

definition orThrow :: "http_error \<Rightarrow> (world \<Rightarrow> 'a option) \<Rightarrow> 'a handler" where
  \<comment> \<open>\<open>const row = await find(...); if (!row) throw e\<close>\<close>
  "orThrow e f w = (case f w of None \<Rightarrow> (Inl e, w) | Some a \<Rightarrow> (Inr a, w))"

lemma reads_iff [simp]: "reads f w = (r, w') \<longleftrightarrow> r = Inr (f w) \<and> w' = w"
  by (auto simp: reads_def)

lemma lift_iff [simp]: "lift x w = (r, w') \<longleftrightarrow> x = r \<and> w' = w"
  by (auto simp: lift_def)

lemma failIf_Inr [simp]: "failIf b e w = (Inr u, w') \<longleftrightarrow> \<not> b \<and> w' = w"
  by (auto simp: failIf_def)

lemma failIf_Inl [simp]: "failIf b e w = (Inl e', w') \<longleftrightarrow> b \<and> e' = e \<and> w' = w"
  by (auto simp: failIf_def)

lemma orThrow_Inr [simp]: "orThrow e f w = (Inr a, w') \<longleftrightarrow> f w = Some a \<and> w' = w"
  by (auto simp: orThrow_def split: option.splits)

lemma orThrow_Inl [simp]: "orThrow e f w = (Inl e', w') \<longleftrightarrow> f w = None \<and> e' = e \<and> w' = w"
  by (auto simp: orThrow_def split: option.splits)

lemma throw_iff [simp]: "throw e w = (r, w') \<longleftrightarrow> r = Inl e \<and> w' = w"
  by (auto simp: throw_def)

lemma return_iff [simp]: "return a w = (r, w') \<longleftrightarrow> r = Inr a \<and> w' = w"
  by (auto simp: return_def)

lemma modify_iff [simp]: "modify f w = (r, w') \<longleftrightarrow> r = Inr () \<and> w' = f w"
  by (auto simp: modify_def)

lemma bindE_step: "m w = (Inr a, w1) \<Longrightarrow> bindE m f w = f a w1"
  by (simp add: bindE_def)

lemma bindE_Inr:
  "bindE m f w = (Inr b, w2) \<longleftrightarrow> (\<exists>a w1. m w = (Inr a, w1) \<and> f a w1 = (Inr b, w2))"
  by (auto simp: bindE_def split: prod.splits sum.splits)

lemma bindE_Inl:
  "bindE m f w = (Inl e, w2) \<longleftrightarrow>
     m w = (Inl e, w2) \<or> (\<exists>a w1. m w = (Inr a, w1) \<and> f a w1 = (Inl e, w2))"
  by (auto simp: bindE_def split: prod.splits sum.splits)

lemma transaction_Inr [simp]: "transaction m w = (Inr a, w') \<longleftrightarrow> m w = (Inr a, w')"
  by (auto simp: transaction_def split: prod.splits sum.splits)

lemma transaction_Inl [simp]:
  "transaction m w = (Inl e, w') \<longleftrightarrow> w' = w \<and> (\<exists>w1. m w = (Inl e, w1))"
  by (auto simp: transaction_def split: prod.splits sum.splits)

subsection \<open>Ids, activity and events\<close>

definition freshId :: "world \<Rightarrow> uuid" where
  \<comment> \<open>the id a row inserted now gets from \<open>@default(uuid(7))\<close>\<close>
  "freshId w = w_uuid w (w_seq w)"

definition tick :: "world \<Rightarrow> world" where
  "tick w = w\<lparr>w_seq := Suc (w_seq w)\<rparr>"

text \<open>\<open>ActivityService.record\<close>: an append-only write; the new row is handed back.\<close>

definition activityRow ::
  "world \<Rightarrow> uuid \<Rightarrow> uuid option \<Rightarrow> uuid \<Rightarrow> activity_type \<Rightarrow> payload \<Rightarrow> activity_row" where
  "activityRow w workspaceId taskId userId type payload =
     \<lparr>a_id = freshId w, a_workspaceId = workspaceId, a_taskId = taskId,
      a_userId = userId, a_type = type, a_payload = payload, a_createdAt = w_now w\<rparr>"

definition logActivity ::
  "uuid \<Rightarrow> uuid option \<Rightarrow> uuid \<Rightarrow> activity_type \<Rightarrow> payload \<Rightarrow> world \<Rightarrow> world" where
  "logActivity workspaceId taskId userId type payload w =
     (tick w)\<lparr>activities := activities w @ [activityRow w workspaceId taskId userId type payload]\<rparr>"

definition recordActivity ::
  "uuid \<Rightarrow> uuid option \<Rightarrow> uuid \<Rightarrow> activity_type \<Rightarrow> payload \<Rightarrow> activity_row handler" where
  "recordActivity workspaceId taskId userId type payload w =
     (Inr (activityRow w workspaceId taskId userId type payload),
      logActivity workspaceId taskId userId type payload w)"

text \<open>\<open>RealtimeService.emitToBoard\<close> and \<open>emitToUser\<close>: nothing is sent without a server.\<close>

definition emitToBoard :: "uuid \<Rightarrow> board_event \<Rightarrow> world \<Rightarrow> world" where
  "emitToBoard boardId event w =
     w\<lparr>w_published := w_published w
       @ (if w_socketServer w then [ToBoard (BoardRoom boardId) event] else [])\<rparr>"

definition emitToUser :: "uuid \<Rightarrow> uuid \<Rightarrow> user_event \<Rightarrow> world \<Rightarrow> world" where
  "emitToUser workspaceId userId event w =
     w\<lparr>w_published := w_published w
       @ (if w_socketServer w then [ToUser (UserRoom workspaceId userId) event] else [])\<rparr>"

lemma recordActivity_iff [simp]:
  "recordActivity ws t u ty p w = (r, w') \<longleftrightarrow>
     r = Inr (activityRow w ws t u ty p) \<and> w' = logActivity ws t u ty p w"
  by (auto simp: recordActivity_def)

text \<open>The log and the events leave every table of the application alone.\<close>

lemma logActivity_frame [simp]:
  "users (logActivity ws t u ty p w) = users w"
  "workspaces (logActivity ws t u ty p w) = workspaces w"
  "members (logActivity ws t u ty p w) = members w" "boards (logActivity ws t u ty p w) = boards w"
  "columns (logActivity ws t u ty p w) = columns w" "tasks (logActivity ws t u ty p w) = tasks w"
  "assignees (logActivity ws t u ty p w) = assignees w"
  "labels (logActivity ws t u ty p w) = labels w"
  "taskLabels (logActivity ws t u ty p w) = taskLabels w"
  "comments (logActivity ws t u ty p w) = comments w"
  "attachments (logActivity ws t u ty p w) = attachments w"
  "checklists (logActivity ws t u ty p w) = checklists w"
  "checklistItems (logActivity ws t u ty p w) = checklistItems w"
  "notifications (logActivity ws t u ty p w) = notifications w"
  "w_socketServer (logActivity ws t u ty p w) = w_socketServer w"
  "w_now (logActivity ws t u ty p w) = w_now w" "w_uuid (logActivity ws t u ty p w) = w_uuid w"
  "w_newDate (logActivity ws t u ty p w) = w_newDate w"
  "activities (logActivity ws t u ty p w) = activities w @ [activityRow w ws t u ty p]"
  "w_seq (logActivity ws t u ty p w) = Suc (w_seq w)"
  "w_published (logActivity ws t u ty p w) = w_published w"
  by (simp_all add: logActivity_def tick_def)

lemma emitToBoard_frame [simp]:
  "users (emitToBoard b e w) = users w" "workspaces (emitToBoard b e w) = workspaces w"
  "members (emitToBoard b e w) = members w" "boards (emitToBoard b e w) = boards w"
  "columns (emitToBoard b e w) = columns w" "tasks (emitToBoard b e w) = tasks w"
  "assignees (emitToBoard b e w) = assignees w" "labels (emitToBoard b e w) = labels w"
  "taskLabels (emitToBoard b e w) = taskLabels w" "comments (emitToBoard b e w) = comments w"
  "attachments (emitToBoard b e w) = attachments w" "checklists (emitToBoard b e w) = checklists w"
  "checklistItems (emitToBoard b e w) = checklistItems w"
  "notifications (emitToBoard b e w) = notifications w"
  "w_socketServer (emitToBoard b e w) = w_socketServer w" "w_now (emitToBoard b e w) = w_now w"
  "w_uuid (emitToBoard b e w) = w_uuid w" "w_newDate (emitToBoard b e w) = w_newDate w"
  "activities (emitToBoard b e w) = activities w" "w_seq (emitToBoard b e w) = w_seq w"
  by (simp_all add: emitToBoard_def)

lemma emitToUser_frame [simp]:
  "users (emitToUser ws u e w) = users w" "workspaces (emitToUser ws u e w) = workspaces w"
  "members (emitToUser ws u e w) = members w" "boards (emitToUser ws u e w) = boards w"
  "columns (emitToUser ws u e w) = columns w" "tasks (emitToUser ws u e w) = tasks w"
  "assignees (emitToUser ws u e w) = assignees w" "labels (emitToUser ws u e w) = labels w"
  "taskLabels (emitToUser ws u e w) = taskLabels w" "comments (emitToUser ws u e w) = comments w"
  "attachments (emitToUser ws u e w) = attachments w"
  "checklists (emitToUser ws u e w) = checklists w"
  "checklistItems (emitToUser ws u e w) = checklistItems w"
  "notifications (emitToUser ws u e w) = notifications w"
  "w_socketServer (emitToUser ws u e w) = w_socketServer w" "w_now (emitToUser ws u e w) = w_now w"
  "w_uuid (emitToUser ws u e w) = w_uuid w" "w_newDate (emitToUser ws u e w) = w_newDate w"
  "activities (emitToUser ws u e w) = activities w" "w_seq (emitToUser ws u e w) = w_seq w"
  by (simp_all add: emitToUser_def)

lemma activityRow_sel [simp]:
  "a_id (activityRow w ws t u ty p) = freshId w" "a_workspaceId (activityRow w ws t u ty p) = ws"
  "a_taskId (activityRow w ws t u ty p) = t" "a_userId (activityRow w ws t u ty p) = u"
  "a_type (activityRow w ws t u ty p) = ty" "a_payload (activityRow w ws t u ty p) = p"
  by (simp_all add: activityRow_def)

subsection \<open>Cascades\<close>

text \<open>
  What deleting tasks takes along (schema.prisma): the rows of the task's relations are deleted, the
  activity log keeps its entries and loses the reference (\<open>onDelete: SetNull\<close>).
\<close>

definition cascadeTasks :: "(uuid \<Rightarrow> bool) \<Rightarrow> world \<Rightarrow> world" where
  "cascadeTasks gone w = w\<lparr>
     tasks := filter (\<lambda>t. \<not> gone (t_id t)) (tasks w),
     assignees := filter (\<lambda>a. \<not> gone (ta_taskId a)) (assignees w),
     taskLabels := filter (\<lambda>l. \<not> gone (tl_taskId l)) (taskLabels w),
     comments := filter (\<lambda>c. \<not> gone (co_taskId c)) (comments w),
     attachments := filter (\<lambda>a. \<not> gone (at_taskId a)) (attachments w),
     checklistItems := filter (\<lambda>i. \<not> list_ex (\<lambda>l. cl_id l = ci_checklistId i \<and> gone (cl_taskId l))
       (checklists w)) (checklistItems w),
     checklists := filter (\<lambda>l. \<not> gone (cl_taskId l)) (checklists w),
     activities := map (\<lambda>a. case a_taskId a of
       Some t \<Rightarrow> if gone t then a\<lparr>a_taskId := None\<rparr> else a | None \<Rightarrow> a) (activities w),
     notifications := filter (\<lambda>n. case n_taskId n of Some t \<Rightarrow> \<not> gone t | None \<Rightarrow> True)
       (notifications w)\<rparr>"

lemma cascadeTasks_frame [simp]:
  "tasks (cascadeTasks gone w) = filter (\<lambda>t. \<not> gone (t_id t)) (tasks w)"
  "boards (cascadeTasks gone w) = boards w" "columns (cascadeTasks gone w) = columns w"
  "labels (cascadeTasks gone w) = labels w" "members (cascadeTasks gone w) = members w"
  "w_seq (cascadeTasks gone w) = w_seq w" "w_uuid (cascadeTasks gone w) = w_uuid w"
  "w_now (cascadeTasks gone w) = w_now w" "w_newDate (cascadeTasks gone w) = w_newDate w"
  "w_published (cascadeTasks gone w) = w_published w"
  "w_socketServer (cascadeTasks gone w) = w_socketServer w"
  "users (cascadeTasks gone w) = users w" "workspaces (cascadeTasks gone w) = workspaces w"
  by (simp_all add: cascadeTasks_def)

subsection \<open>Tenant-scoped reads\<close>

definition boardIn :: "world \<Rightarrow> uuid \<Rightarrow> uuid \<Rightarrow> bool" where
  \<comment> \<open>the relation predicate \<open>board: { workspaceId }\<close> for a row of board \<open>boardId\<close>\<close>
  "boardIn w workspaceId boardId \<longleftrightarrow>
     list_ex (\<lambda>b. b_id b = boardId \<and> b_workspaceId b = workspaceId) (boards w)"

definition findBoard :: "world \<Rightarrow> uuid \<Rightarrow> uuid \<Rightarrow> board_row option" where
  "findBoard w workspaceId boardId =
     find (\<lambda>b. b_id b = boardId \<and> b_workspaceId b = workspaceId) (boards w)"

definition assertBoard :: "uuid \<Rightarrow> uuid \<Rightarrow> board_row handler" where
  "assertBoard workspaceId boardId =
     orThrow (NotFound ''Board not found'') (\<lambda>w. findBoard w workspaceId boardId)"

definition findColumnRow :: "world \<Rightarrow> uuid \<Rightarrow> uuid \<Rightarrow> column_row option" where
  "findColumnRow w workspaceId columnId =
     find (\<lambda>c. c_id c = columnId \<and> boardIn w workspaceId (c_boardId c)) (columns w)"

definition findTaskRow :: "world \<Rightarrow> uuid \<Rightarrow> uuid \<Rightarrow> task_row option" where
  "findTaskRow w workspaceId taskId =
     find (\<lambda>t. t_id t = taskId \<and> boardIn w workspaceId (t_boardId t)) (tasks w)"

definition taskIn :: "world \<Rightarrow> uuid \<Rightarrow> uuid \<Rightarrow> bool" where
  \<comment> \<open>the relation predicate \<open>task: { board: { workspaceId } }\<close>\<close>
  "taskIn w workspaceId taskId \<longleftrightarrow>
     list_ex (\<lambda>t. t_id t = taskId \<and> boardIn w workspaceId (t_boardId t)) (tasks w)"

lemma find_Some_D: "find P xs = Some x \<Longrightarrow> x \<in> set xs \<and> P x"
  by (induction xs) (auto split: if_splits)

lemma find_unique:
  assumes "distinct (map f xs)" and "a \<in> set xs" and "f a = k" and "P a"
  shows "find (\<lambda>x. f x = k \<and> P x) xs = Some a"
  using assms by (induction xs) (auto simp: image_iff)

lemma find_None: "find P xs = None \<longleftrightarrow> (\<forall>x \<in> set xs. \<not> P x)"
  by (induction xs) auto

lemma boardIn_iff:
  "boardIn w workspaceId boardId \<longleftrightarrow>
     (\<exists>b \<in> set (boards w). b_id b = boardId \<and> b_workspaceId b = workspaceId)"
  by (auto simp: boardIn_def list_ex_iff)

lemma findBoard_boardIn: "findBoard w ws bid \<noteq> None \<longleftrightarrow> boardIn w ws bid"
  by (auto simp: findBoard_def boardIn_iff find_None)

lemma findTaskRow_Some:
  "findTaskRow w ws tid = Some t \<Longrightarrow> t \<in> set (tasks w) \<and> t_id t = tid \<and> boardIn w ws (t_boardId t)"
  unfolding findTaskRow_def by (drule find_Some_D) simp

lemma findColumnRow_Some:
  "findColumnRow w ws cid = Some c \<Longrightarrow>
     c \<in> set (columns w) \<and> c_id c = cid \<and> boardIn w ws (c_boardId c)"
  unfolding findColumnRow_def by (drule find_Some_D) simp

lemma findTaskRow_I:
  assumes "distinct (map t_id (tasks w))" and "t \<in> set (tasks w)" and "t_id t = tid"
    and "boardIn w ws (t_boardId t)"
  shows "findTaskRow w ws tid = Some t"
  unfolding findTaskRow_def
  by (rule find_unique [where f = t_id and P = "\<lambda>t. boardIn w ws (t_boardId t)"]) (use assms in auto)

lemma boardIn_cong: "boards w' = boards w \<Longrightarrow> boardIn w' = boardIn w"
  by (intro ext) (simp add: boardIn_def)

lemma findTaskRow_cong: "boards w' = boards w \<Longrightarrow> tasks w' = tasks w \<Longrightarrow> findTaskRow w' = findTaskRow w"
  by (intro ext) (simp add: findTaskRow_def boardIn_cong [of w' w])

lemma findTaskRow_frame [simp]:
  "findTaskRow (logActivity a b c d e w) = findTaskRow w" "findTaskRow (emitToBoard f g w) = findTaskRow w"
  "findTaskRow (emitToUser h i j w) = findTaskRow w"
  by (rule findTaskRow_cong; simp)+

lemma boardIn_frame [simp]:
  "boardIn (logActivity a b c d e w) = boardIn w" "boardIn (emitToBoard f g w) = boardIn w"
  "boardIn (emitToUser h i j w) = boardIn w"
  by (rule boardIn_cong; simp)+

lemma findTaskRow_None: "findTaskRow w ws tid = None \<longleftrightarrow> \<not> taskIn w ws tid"
  by (auto simp: findTaskRow_def taskIn_def list_ex_iff find_None)

subsection \<open>Well-formed databases\<close>

text \<open>
  What the schema enforces: primary keys are unique, a column's board and a task's column exist, and
  a task's column is on the task's board (the composite foreign key); and what UUIDv7 gives: an id
  the supply will hand out is not in use.
\<close>

definition usedIds :: "world \<Rightarrow> uuid set" where
  "usedIds w = b_id ` set (boards w) \<union> c_id ` set (columns w) \<union> t_id ` set (tasks w)
     \<union> l_id ` set (labels w)"

definition wellFormed :: "world \<Rightarrow> bool" where
  "wellFormed w \<longleftrightarrow>
     distinct (map b_id (boards w)) \<and> distinct (map c_id (columns w))
     \<and> distinct (map t_id (tasks w)) \<and> distinct (map l_id (labels w))
     \<and> (\<forall>c \<in> set (columns w). c_boardId c \<in> b_id ` set (boards w))
     \<and> (\<forall>l \<in> set (labels w). l_boardId l \<in> b_id ` set (boards w))
     \<and> (\<forall>t \<in> set (tasks w). (t_columnId t, t_boardId t) \<in> (\<lambda>c. (c_id c, c_boardId c)) ` set (columns w))
     \<and> [] \<notin> usedIds w \<and> [] \<notin> range (w_uuid w)
     \<and> inj (w_uuid w) \<and> (\<forall>n. w_seq w \<le> n \<longrightarrow> w_uuid w n \<notin> usedIds w)"

lemma wellFormedD:
  assumes "wellFormed w"
  shows "distinct (map b_id (boards w))" "distinct (map c_id (columns w))"
    "distinct (map t_id (tasks w))" "distinct (map l_id (labels w))"
    "\<And>c. c \<in> set (columns w) \<Longrightarrow> c_boardId c \<in> b_id ` set (boards w)"
    "\<And>t. t \<in> set (tasks w) \<Longrightarrow>
      (t_columnId t, t_boardId t) \<in> (\<lambda>c. (c_id c, c_boardId c)) ` set (columns w)"
    "\<And>t. t \<in> set (tasks w) \<Longrightarrow> t_id t \<noteq> []" "\<And>c. c \<in> set (columns w) \<Longrightarrow> c_id c \<noteq> []"
    "freshId w \<noteq> []" "freshId w \<notin> usedIds w"
proof -
  show "distinct (map b_id (boards w))" "distinct (map c_id (columns w))"
    "distinct (map t_id (tasks w))" "distinct (map l_id (labels w))"
    using assms unfolding wellFormed_def by blast+
  show "c \<in> set (columns w) \<Longrightarrow> c_boardId c \<in> b_id ` set (boards w)" for c
    using assms by (simp add: wellFormed_def)
  show "t \<in> set (tasks w) \<Longrightarrow>
      (t_columnId t, t_boardId t) \<in> (\<lambda>c. (c_id c, c_boardId c)) ` set (columns w)" for t
    using assms by (simp add: wellFormed_def)
  have used: "[] \<notin> usedIds w" using assms unfolding wellFormed_def by blast
  show "t_id t \<noteq> []" if "t \<in> set (tasks w)" for t
    using used that unfolding usedIds_def by (metis UnCI image_eqI)
  show "c_id c \<noteq> []" if "c \<in> set (columns w)" for c
    using used that unfolding usedIds_def by (metis UnCI image_eqI)
  have "[] \<notin> range (w_uuid w)" using assms unfolding wellFormed_def by blast
  then show "freshId w \<noteq> []" unfolding freshId_def by (metis rangeI)
  show "freshId w \<notin> usedIds w"
    using assms unfolding wellFormed_def freshId_def by blast
qed

lemma inj_on_id: "distinct (map f xs) \<Longrightarrow> a \<in> set xs \<Longrightarrow> b \<in> set xs \<Longrightarrow> f a = f b \<Longrightarrow> a = b"
  by (simp add: distinct_map inj_on_def)

text \<open>What \<open>simp\<close> unfolds to run a handler on a concrete database.\<close>

declare bindE_def [handler_defs] orThrow_def [handler_defs] reads_def [handler_defs]
  return_def [handler_defs] lift_def [handler_defs] failIf_def [handler_defs]
  transaction_def [handler_defs] modify_def [handler_defs] throw_def [handler_defs]
  findTaskRow_def [handler_defs] findColumnRow_def [handler_defs] findBoard_def [handler_defs]
  boardIn_def [handler_defs] taskIn_def [handler_defs] assertBoard_def [handler_defs]
  recordActivity_def [handler_defs] logActivity_def [handler_defs]
  activityRow_def [handler_defs] tick_def [handler_defs] freshId_def [handler_defs]
  emitToBoard_def [handler_defs] emitToUser_def [handler_defs] Let_def [handler_defs]
  is_error_def [handler_defs]

end
