(* ===== verification/Pagination.thy ===== *)
theory Pagination
  imports Prelude
begin

section \<open>Cursor pages: common/pagination/cursor-page.ts\<close>

text \<open>
  Every list endpoint over-fetches one row (\<open>take: limit + 1\<close>) and hands the rows to \<open>toCursorPage\<close>,
  which drops the probe row and returns the id of the last row as the next cursor. \<open>walk\<close> is a
  client that follows the cursors to the end.

  The locale \<open>cursor_read\<close> states what a query must promise for that protocol to be right: the rows
  are the first \<open>n\<close> of a list sorted by key, after the cursor. Its theorem \<open>walk_complete\<close> is the
  contract of the protocol: when the keys are distinct, the pages of any walk are the whole list,
  each row once, in order, whatever page size is chosen.
\<close>

record ('k, 'a) cursor_page =
  page_items :: "'a list"
  nextCursor :: "'k option"
  hasMore :: bool

definition toCursorPage :: "('r \<Rightarrow> 'k) \<Rightarrow> 'r list \<Rightarrow> nat \<Rightarrow> ('r \<Rightarrow> 'a) \<Rightarrow> ('k, 'a) cursor_page" where
  "toCursorPage row_id rows limit map_row =
     (let more = limit < length rows;
          page = (if more then take limit rows else rows)
      in \<lparr>page_items = map map_row page,
          nextCursor = (if more then map_option row_id (js_last page) else None),
          hasMore = more\<rparr>)"

fun walk :: "('k option \<Rightarrow> ('k, 'a) cursor_page) \<Rightarrow> nat \<Rightarrow> 'k option \<Rightarrow> 'a list" where
  \<comment> \<open>fetch a page, then the page at its cursor, until there is no cursor; \<open>fuel\<close> bounds the pages\<close>
  "walk page 0 cursor = []"
| "walk page (Suc fuel) cursor =
     page_items (page cursor)
       @ (case nextCursor (page cursor) of None \<Rightarrow> [] | Some k \<Rightarrow> walk page fuel (Some k))"

lemma toCursorPage_items_length: "length (page_items (toCursorPage f rows limit g)) \<le> limit"
  by (simp add: toCursorPage_def Let_def)

lemma toCursorPage_map: "toCursorPage f (map g rows) limit h = toCursorPage (f \<circ> g) rows limit (h \<circ> g)"
  by (simp add: toCursorPage_def Let_def js_last_def take_map last_map)

lemma toCursorPage_cong:
  assumes "\<And>r. r \<in> set rows \<Longrightarrow> g r = h r"
  shows "toCursorPage f rows limit g = toCursorPage f rows limit h"
  using assms by (auto simp: toCursorPage_def Let_def dest: in_set_takeD)

lemma nextCursor_mem:
  assumes "nextCursor (toCursorPage f rows limit g) = Some k"
  shows "k \<in> f ` set rows"
proof -
  from assms have "take limit rows \<noteq> []" and k: "k = f (last (take limit rows))"
    by (auto simp: toCursorPage_def Let_def js_last_def split: if_splits)
  then have "last (take limit rows) \<in> set rows"
    using last_in_set in_set_takeD by metis
  with k show ?thesis by simp
qed

lemma walk_cong:
  assumes "\<And>c. ok c \<Longrightarrow> page c = page' c"
    and "\<And>c k. ok c \<Longrightarrow> nextCursor (page' c) = Some k \<Longrightarrow> ok (Some k)" and "ok c"
  shows "walk page fuel c = walk page' fuel c"
  using assms(3)
proof (induction fuel arbitrary: c)
  case (Suc fuel)
  then show ?case using assms(1,2) by (auto split: option.splits)
qed simp

locale cursor_read =
  fixes fetch :: "'k option \<Rightarrow> nat \<Rightarrow> 'r list"
    and key :: "'r \<Rightarrow> 'k"
    and after :: "'k \<Rightarrow> 'k \<Rightarrow> bool"
    and listing :: "'r list"
  assumes fetch: "fetch c n =
      take n (filter (\<lambda>r. case c of None \<Rightarrow> True | Some k \<Rightarrow> after k (key r)) listing)"
    and listing_sorted: "sorted_wrt (\<lambda>a b. \<not> after (key b) (key a)) listing"
    and after_asym: "after a b \<Longrightarrow> \<not> after b a"
    and after_total: "a \<noteq> b \<Longrightarrow> after a b \<or> after b a"
begin

lemma listing_strict:
  assumes "distinct (map key listing)"
  shows "sorted_wrt (\<lambda>a b. after (key a) (key b)) listing"
proof (unfold sorted_wrt_iff_nth_less, intro allI impI)
  fix i j assume ij: "i < j" "j < length listing"
  then have "key (listing ! i) \<noteq> key (listing ! j)"
    using nth_eq_iff_index_eq [OF assms, of i j] by simp
  moreover have "\<not> after (key (listing ! j)) (key (listing ! i))"
    using sorted_wrt_nth_less [OF listing_sorted ij] .
  ultimately show "after (key (listing ! i)) (key (listing ! j))" using after_total by blast
qed

lemma filter_after:
  assumes dist: "distinct (map key listing)" and whole: "listing = xs @ r # ys"
  shows "filter (\<lambda>s. after (key r) (key s)) listing = ys"
proof -
  have "\<forall>x \<in> set xs. after (key x) (key r)" "\<forall>y \<in> set ys. after (key r) (key y)"
    using listing_strict [OF dist] unfolding whole sorted_wrt_append by auto
  then show ?thesis
    unfolding whole using after_asym by (auto simp: filter_empty_conv filter_id_conv)
qed

definition rest :: "'k option \<Rightarrow> 'r list" where
  "rest c = filter (\<lambda>r. case c of None \<Rightarrow> True | Some k \<Rightarrow> after k (key r)) listing"

lemma rest_None [simp]: "rest None = listing"
  by (simp add: rest_def)

lemma rest_suffix:
  assumes dist: "distinct (map key listing)"
    and "listing = xs @ rest c" and "0 < limit" and "limit < length (rest c)"
  shows "rest (Some (key (rest c ! (limit - 1)))) = drop limit (rest c)
    \<and> (\<exists>xs'. listing = xs' @ drop limit (rest c))"
proof -
  have split: "rest c = take (limit - 1) (rest c) @ rest c ! (limit - 1) # drop limit (rest c)"
    using assms(3,4) by (metis Suc_pred' id_take_nth_drop less_imp_diff_less)
  have whole: "listing = (xs @ take (limit - 1) (rest c)) @ rest c ! (limit - 1) # drop limit (rest c)"
    by (subst assms(2), subst split, simp)
  have "rest (Some (key (rest c ! (limit - 1)))) = drop limit (rest c)"
    using filter_after [OF dist whole] by (subst rest_def, simp)
  moreover have "listing = (xs @ take limit (rest c)) @ drop limit (rest c)"
    using assms(2) by simp
  ultimately show ?thesis by blast
qed

lemma page_of_rest:
  "toCursorPage key (fetch c (limit + 1)) limit g =
     \<lparr>page_items = map g (take limit (rest c)),
      nextCursor = (if limit < length (rest c) \<and> 0 < limit
        then Some (key (rest c ! (limit - 1))) else None),
      hasMore = limit < length (rest c)\<rparr>"
proof -
  have eq: "fetch c (limit + 1) = take (limit + 1) (rest c)"
    by (simp add: fetch rest_def)
  show ?thesis
    unfolding eq toCursorPage_def
    by (auto simp: Let_def js_last_def min_def last_conv_nth)
qed

lemma walk_from:
  assumes dist: "distinct (map key listing)"
    and limit: "0 < limit" and "listing = xs @ rest c" and "length (rest c) < fuel * limit"
  shows "walk (\<lambda>c. toCursorPage key (fetch c (limit + 1)) limit g) fuel c = map g (rest c)"
  using assms(3,4)
proof (induction fuel arbitrary: c xs)
  case 0
  then show ?case by simp
next
  case (Suc fuel)
  show ?case
  proof (cases "limit < length (rest c)")
    case True
    let ?k = "key (rest c ! (limit - 1))"
    from rest_suffix [OF dist Suc.prems(1) limit True]
    obtain xs' where rest': "rest (Some ?k) = drop limit (rest c)"
      and xs': "listing = xs' @ rest (Some ?k)"
      by auto
    have "walk (\<lambda>c. toCursorPage key (fetch c (limit + 1)) limit g) fuel (Some ?k) =
        map g (rest (Some ?k))"
      using Suc.prems(2) True by (intro Suc.IH [OF xs'], unfold rest', simp)
    then show ?thesis
      using True limit unfolding walk.simps page_of_rest rest'
      by (simp flip: map_append)
  next
    case False
    then show ?thesis unfolding walk.simps page_of_rest by simp
  qed
qed

lemma walk_complete:
  assumes "distinct (map key listing)" and "0 < limit" and "length listing < fuel * limit"
  shows "walk (\<lambda>c. toCursorPage key (fetch c (limit + 1)) limit g) fuel None = map g listing"
  using assms walk_from [of limit "[]" None fuel g] by simp

end

subsection \<open>The two queries the services page with\<close>

text \<open>
  \<open>where: { ..., id: { gt: cursor } }, orderBy: { id: 'asc' }, take\<close> and its descending twin. Ids
  are compared by code unit, as UUIDs in their canonical lower-case form are in every collation.
\<close>

definition keysetAsc ::
  "('r \<Rightarrow> js_string) \<Rightarrow> ('r \<Rightarrow> bool) \<Rightarrow> 'r list \<Rightarrow> js_string option \<Rightarrow> nat \<Rightarrow> 'r list" where
  "keysetAsc key P rows cursor n =
     take n (sort_key key
       (filter (\<lambda>r. P r \<and> (case cursor of None \<Rightarrow> True | Some k \<Rightarrow> k < key r)) rows))"

definition keysetDesc ::
  "('r \<Rightarrow> js_string) \<Rightarrow> ('r \<Rightarrow> bool) \<Rightarrow> 'r list \<Rightarrow> js_string option \<Rightarrow> nat \<Rightarrow> 'r list" where
  "keysetDesc key P rows cursor n =
     take n (rev (sort_key key
       (filter (\<lambda>r. P r \<and> (case cursor of None \<Rightarrow> True | Some k \<Rightarrow> key r < k)) rows)))"

lemma sort_key_filter: "sort_key f (filter P xs) = filter P (sort_key f xs)"
  by (simp add: filter_sort)

lemma sorted_wrt_sort_key_weak:
  "sorted_wrt (\<lambda>a b. \<not> f b < f a) (sort_key (f :: 'r \<Rightarrow> 'k::linorder) xs)"
proof -
  have "sorted (map f (sort_key f xs))" by simp
  then show ?thesis by (simp add: sorted_map sorted_wrt_map not_less)
qed

interpretation asc: cursor_read "keysetAsc key P rows" key "\<lambda>a b. a < b" "sort_key key (filter P rows)"
  for key :: "'r \<Rightarrow> js_string" and P :: "'r \<Rightarrow> bool" and rows :: "'r list"
proof
  show "keysetAsc key P rows c n = take n (filter
      (\<lambda>r. case c of None \<Rightarrow> True | Some k \<Rightarrow> k < key r) (sort_key key (filter P rows)))" for c n
    by (simp add: keysetAsc_def sort_key_filter conj_commute)
  show "sorted_wrt (\<lambda>a b. \<not> key b < key a) (sort_key key (filter P rows))"
    by (rule sorted_wrt_sort_key_weak)
qed auto

interpretation desc: cursor_read "keysetDesc key P rows" key "\<lambda>a b. b < a"
  "rev (sort_key key (filter P rows))"
  for key :: "'r \<Rightarrow> js_string" and P :: "'r \<Rightarrow> bool" and rows :: "'r list"
proof
  show "keysetDesc key P rows c n = take n (filter
      (\<lambda>r. case c of None \<Rightarrow> True | Some k \<Rightarrow> key r < k) (rev (sort_key key (filter P rows))))" for c n
    by (simp add: keysetDesc_def sort_key_filter conj_commute rev_filter)
  show "sorted_wrt (\<lambda>a b. \<not> key a < key b) (rev (sort_key key (filter P rows)))"
    using sorted_wrt_sort_key_weak [of key "filter P rows"] by (simp add: sorted_wrt_rev)
qed auto

definition cursorOf :: "js_string js_field \<Rightarrow> js_string option" where
  \<comment> \<open>\<open>query.cursor ? { id: ... } : {}\<close>\<close>
  "cursorOf f = (if truthy f then field_option f else None)"

lemma cursorOf_None [simp]: "cursorOf Undefined = None"
  by (simp add: cursorOf_def)

lemma cursorOf_Value: "s \<noteq> [] \<Longrightarrow> cursorOf (Value s) = Some s"
  by (simp add: cursorOf_def)

definition cursorField :: "js_string option \<Rightarrow> js_string js_field" where
  \<comment> \<open>the client's next request: it sends the cursor it was given\<close>
  "cursorField c = (case c of None \<Rightarrow> Undefined | Some k \<Rightarrow> Value k)"

end
