(* ===== verification/Feeds.thy ===== *)
theory Feeds
  imports Store Pagination
begin

section \<open>The activity log and the notification inbox\<close>

text \<open>
  \<open>activity.service.ts\<close>, \<open>notification.service.ts\<close> and \<open>common/author.ts\<close>. The activity log is
  append-only (\<open>ActivityService.record\<close> is \<open>recordActivity\<close> of Store); a notification is written
  inside the transaction of the change it announces and signalled after it, one signal per
  recipient. Every read carries the workspace, and for notifications the recipient too.
\<close>

subsection \<open>Authors\<close>

record AuthorDto =
  au_id :: uuid
  au_name :: js_string
  au_avatarUrl :: "js_string option"
  au_deleted :: bool

definition toAuthorDto :: "user_row \<Rightarrow> AuthorDto" where
  "toAuthorDto row =
     \<lparr>au_id = u_id row, au_name = u_name row, au_avatarUrl = u_avatarUrl row,
      au_deleted = (u_deletedAt row \<noteq> None)\<rparr>"

definition findUser :: "world \<Rightarrow> uuid \<Rightarrow> user_row option" where
  "findUser w userId = find (\<lambda>u. u_id u = userId) (users w)"

subsection \<open>ActivityService\<close>

record ActivityDto =
  ad_id :: uuid
  ad_workspaceId :: uuid
  ad_taskId :: "uuid option"
  ad_userId :: uuid
  ad_type :: activity_type
  ad_payload :: payload
  ad_createdAt :: js_string
  ad_author :: "AuthorDto option"

definition toActivityDto :: "world \<Rightarrow> activity_row \<Rightarrow> ActivityDto" where
  \<comment> \<open>the author is joined by \<open>include\<close>; the foreign key makes it present\<close>
  "toActivityDto w row =
     \<lparr>ad_id = a_id row, ad_workspaceId = a_workspaceId row, ad_taskId = a_taskId row,
      ad_userId = a_userId row, ad_type = a_type row, ad_payload = a_payload row,
      ad_createdAt = toISOString (a_createdAt row),
      ad_author = map_option toAuthorDto (findUser w (a_userId row))\<rparr>"

record activity_query =
  aq_cursor :: "js_string js_field"
  aq_limit :: "nat option"

definition activityWhere :: "uuid \<Rightarrow> uuid option \<Rightarrow> activity_row \<Rightarrow> bool" where
  "activityWhere workspaceId taskId a \<longleftrightarrow>
     a_workspaceId a = workspaceId
       \<and> (case taskId of None \<Rightarrow> True | Some t \<Rightarrow> t = [] \<or> a_taskId a = Some t)"

definition ActivityService_list ::
  "uuid \<Rightarrow> uuid option \<Rightarrow> activity_query \<Rightarrow> (uuid, ActivityDto) cursor_page handler" where
  "ActivityService_list workspaceId taskId query w =
     (let limit = (case aq_limit query of None \<Rightarrow> 50 | Some n \<Rightarrow> n);
          rows = keysetDesc a_id (activityWhere workspaceId taskId) (activities w)
            (cursorOf (aq_cursor query)) (limit + 1)
      in (Inr (toCursorPage a_id rows limit (toActivityDto w)), w))"

definition ActivityService_listWorkspace ::
  "uuid \<Rightarrow> activity_query \<Rightarrow> (uuid, ActivityDto) cursor_page handler" where
  "ActivityService_listWorkspace workspaceId query = ActivityService_list workspaceId None query"

definition ActivityService_listForTask ::
  "uuid \<Rightarrow> uuid \<Rightarrow> activity_query \<Rightarrow> (uuid, ActivityDto) cursor_page handler" where
  "ActivityService_listForTask workspaceId taskId query =
     bindE (orThrow (NotFound ''Task not found'') (\<lambda>w. findTaskRow w workspaceId taskId)) (\<lambda>_.
     ActivityService_list workspaceId (Some taskId) query)"

subsection \<open>NotificationService: writes inside a caller's transaction\<close>

record CreateNotificationInput =
  ni_workspaceId :: uuid
  ni_userId :: uuid
  ni_actorId :: uuid
  ni_type :: notification_type
  ni_taskId :: "uuid option"
  ni_activityId :: "uuid option"
  ni_payload :: payload

definition notificationRow :: "world \<Rightarrow> uuid \<Rightarrow> CreateNotificationInput \<Rightarrow> notification_row" where
  "notificationRow w userId input =
     \<lparr>n_id = freshId w, n_workspaceId = ni_workspaceId input, n_userId = userId,
      n_type = ni_type input, n_taskId = ni_taskId input, n_activityId = ni_activityId input,
      n_payload = ni_payload input, n_readAt = None, n_createdAt = w_now w\<rparr>"

definition NotificationService_create ::
  "CreateNotificationInput \<Rightarrow> notification_row option handler" where
  "NotificationService_create input w =
     (if ni_userId input = ni_actorId input then (Inr None, w)
      else (let row = notificationRow w (ni_userId input) input
            in (Inr (Some row), (tick w)\<lparr>notifications := notifications w @ [row]\<rparr>)))"

definition NotificationService_createAssignment ::
  "CreateNotificationInput \<Rightarrow> notification_row option handler" where
  "NotificationService_createAssignment input =
     NotificationService_create (input\<lparr>ni_type := Assignment\<rparr>)"

definition NotificationService_createMention ::
  "CreateNotificationInput \<Rightarrow> notification_row option handler" where
  "NotificationService_createMention input =
     NotificationService_create (input\<lparr>ni_type := Mention\<rparr>)"

definition js_Set :: "'a list \<Rightarrow> 'a list" where
  \<comment> \<open>\<open>[...new Set(xs)]\<close>: first occurrences, in order\<close>
  "js_Set xs = rev (remdups (rev xs))"

lemma js_Set_simps [simp]: "set (js_Set xs) = set xs" "distinct (js_Set xs)"
  by (simp_all add: js_Set_def)

definition insertNotification :: "CreateNotificationInput \<Rightarrow> uuid \<Rightarrow> world \<Rightarrow> world" where
  "insertNotification input userId w =
     (tick w)\<lparr>notifications := notifications w @ [notificationRow w userId input]\<rparr>"

definition NotificationService_createMentionBatch ::
  "CreateNotificationInput \<Rightarrow> uuid list \<Rightarrow> nat handler" where
  \<comment> \<open>the \<open>ni_userId\<close> and \<open>ni_type\<close> of the input play no part\<close>
  "NotificationService_createMentionBatch input userIds w =
     (let recipients = filter (\<lambda>userId. userId \<noteq> ni_actorId input) (js_Set userIds)
      in if recipients = [] then (Inr 0, w)
         else (Inr (length recipients),
               fold (insertNotification (input\<lparr>ni_type := Mention\<rparr>)) recipients w))"

definition DUE_SOON_WINDOW_MS :: int where
  "DUE_SOON_WINDOW_MS = 24 * 60 * 60 * 1000"

definition NotificationService_shouldSkipDueSoon :: "uuid \<Rightarrow> uuid \<Rightarrow> bool handler" where
  "NotificationService_shouldSkipDueSoon userId taskId = reads (\<lambda>w.
     (let since = w_now w - DUE_SOON_WINDOW_MS
      in list_ex (\<lambda>n. n_userId n = userId \<and> n_taskId n = Some taskId \<and> n_type n = DueSoon
           \<and> (n_readAt n = None \<or> since \<le> n_createdAt n)) (notifications w)))"

subsection \<open>NotificationService: signals and the inbox\<close>

definition NotificationService_emitUnreadChanged :: "uuid \<Rightarrow> uuid list \<Rightarrow> world \<Rightarrow> world" where
  "NotificationService_emitUnreadChanged workspaceId userIds w =
     fold (\<lambda>userId. emitToUser workspaceId userId (NOTIFICATION_UNREAD_CHANGED workspaceId userId))
       (js_Set userIds) w"

record NotificationDto =
  nd_id :: uuid
  nd_workspaceId :: uuid
  nd_userId :: uuid
  nd_type :: notification_type
  nd_taskId :: "uuid option"
  nd_activityId :: "uuid option"
  nd_payload :: payload
  nd_readAt :: "js_string option"
  nd_createdAt :: js_string

definition toNotificationDto :: "notification_row \<Rightarrow> NotificationDto" where
  "toNotificationDto row =
     \<lparr>nd_id = n_id row, nd_workspaceId = n_workspaceId row, nd_userId = n_userId row,
      nd_type = n_type row, nd_taskId = n_taskId row, nd_activityId = n_activityId row,
      nd_payload = n_payload row, nd_readAt = map_option toISOString (n_readAt row),
      nd_createdAt = toISOString (n_createdAt row)\<rparr>"

record notification_query =
  nq_cursor :: "js_string js_field"
  nq_limit :: "nat option"
  nq_unreadOnly :: "bool option"
  nq_type :: "notification_type option"

definition notificationWhere :: "uuid \<Rightarrow> uuid \<Rightarrow> notification_query \<Rightarrow> notification_row \<Rightarrow> bool" where
  "notificationWhere workspaceId userId query n \<longleftrightarrow>
     n_workspaceId n = workspaceId \<and> n_userId n = userId
       \<and> (nq_unreadOnly query = Some True \<longrightarrow> n_readAt n = None)
       \<and> (case nq_type query of None \<Rightarrow> True | Some type \<Rightarrow> n_type n = type)"

definition NotificationService_list ::
  "uuid \<Rightarrow> uuid \<Rightarrow> notification_query \<Rightarrow> (uuid, NotificationDto) cursor_page handler" where
  "NotificationService_list workspaceId userId query w =
     (let limit = (case nq_limit query of None \<Rightarrow> 50 | Some n \<Rightarrow> n);
          rows = keysetDesc n_id (notificationWhere workspaceId userId query) (notifications w)
            (cursorOf (nq_cursor query)) (limit + 1)
      in (Inr (toCursorPage n_id rows limit toNotificationDto), w))"

definition unreadOf :: "uuid \<Rightarrow> uuid \<Rightarrow> notification_row \<Rightarrow> bool" where
  "unreadOf workspaceId userId n \<longleftrightarrow>
     n_workspaceId n = workspaceId \<and> n_userId n = userId \<and> n_readAt n = None"

definition NotificationService_unreadCount :: "uuid \<Rightarrow> uuid \<Rightarrow> nat handler" where
  "NotificationService_unreadCount workspaceId userId =
     reads (\<lambda>w. length (filter (unreadOf workspaceId userId) (notifications w)))"

definition ownNotification :: "uuid \<Rightarrow> uuid \<Rightarrow> uuid \<Rightarrow> notification_row \<Rightarrow> bool" where
  "ownNotification workspaceId userId notificationId n \<longleftrightarrow>
     n_id n = notificationId \<and> n_workspaceId n = workspaceId \<and> n_userId n = userId"

definition NotificationService_markRead :: "uuid \<Rightarrow> uuid \<Rightarrow> uuid \<Rightarrow> NotificationDto handler" where
  "NotificationService_markRead workspaceId userId notificationId =
     bindE (transaction (
       bindE (orThrow (NotFound ''Notification not found'')
         (\<lambda>w. find (ownNotification workspaceId userId notificationId) (notifications w))) (\<lambda>existing w.
       if n_readAt existing \<noteq> None then (Inr (existing, False), w)
       else (Inr (existing\<lparr>n_readAt := Some (w_now w)\<rparr>, True),
             w\<lparr>notifications := map (\<lambda>n. if ownNotification workspaceId userId notificationId n
               then n\<lparr>n_readAt := Some (w_now w)\<rparr> else n) (notifications w)\<rparr>)))) (\<lambda>(row, changed).
     bindE (modify (\<lambda>w. if changed
       then NotificationService_emitUnreadChanged workspaceId [userId] w else w)) (\<lambda>_.
     return (toNotificationDto row)))"

definition NotificationService_markAllRead :: "uuid \<Rightarrow> uuid \<Rightarrow> nat handler" where
  "NotificationService_markAllRead workspaceId userId w =
     (let count = length (filter (unreadOf workspaceId userId) (notifications w));
          w1 = w\<lparr>notifications := map (\<lambda>n. if unreadOf workspaceId userId n
            then n\<lparr>n_readAt := Some (w_now w)\<rparr> else n) (notifications w)\<rparr>;
          w2 = (if 0 < count then NotificationService_emitUnreadChanged workspaceId [userId] w1 else w1)
      in (Inr count, w2))"

declare toAuthorDto_def [handler_defs]
  findUser_def [handler_defs]
  toActivityDto_def [handler_defs]
  activityWhere_def [handler_defs]
  ActivityService_list_def [handler_defs]
  ActivityService_listWorkspace_def [handler_defs]
  ActivityService_listForTask_def [handler_defs]
  notificationRow_def [handler_defs]
  NotificationService_create_def [handler_defs]
  NotificationService_createAssignment_def [handler_defs]
  NotificationService_createMention_def [handler_defs]
  js_Set_def [handler_defs]
  insertNotification_def [handler_defs]
  NotificationService_createMentionBatch_def [handler_defs]
  DUE_SOON_WINDOW_MS_def [handler_defs]
  NotificationService_shouldSkipDueSoon_def [handler_defs]
  NotificationService_emitUnreadChanged_def [handler_defs]
  toNotificationDto_def [handler_defs]
  notificationWhere_def [handler_defs]
  NotificationService_list_def [handler_defs]
  unreadOf_def [handler_defs]
  NotificationService_unreadCount_def [handler_defs]
  ownNotification_def [handler_defs]
  NotificationService_markRead_def [handler_defs]
  NotificationService_markAllRead_def [handler_defs]

end
