(* ===== verification/TaskModel.thy ===== *)
theory TaskModel
  imports Feeds Ordering
begin

section \<open>Tasks: request bodies, reads and the pure functions of the task module\<close>

text \<open>
  The data of \<open>apps/api/src/task\<close>: the request bodies after validation, the row with its relations
  that an \<open>include\<close> reads, the response DTOs, and the pure functions: \<open>task-fields.ts\<close> (what a POST
  or a PATCH writes), \<open>task.mapper.ts\<close> (row to DTO), \<open>task-query-where.ts\<close> (the list filter) and
  \<open>attachment-count.ts\<close>.

  \<open>new Date(string)\<close> is the environment's \<open>w_newDate\<close>, as the code passes it strings outside
  ECMAScript's own date format, which engines read each in their own way. \<open>contains\<close> with
  \<open>mode: 'insensitive'\<close> is PostgreSQL's \<open>ILIKE\<close>: its case folding is the argument \<open>fold_case\<close>.
\<close>

subsection \<open>Request bodies (task/dto)\<close>

record CreateTaskDto =
  cr_title :: js_string
  cr_columnId :: uuid
  cr_description :: "js_string js_field"
  cr_priority :: "priority js_field"
  cr_dueDate :: "js_string js_field"
  cr_estimatedMinutes :: "int js_field"
  cr_afterTaskId :: "js_string js_field"

record UpdateTaskDto =
  up_title :: "js_string option"
  up_description :: "js_string js_field"
  up_priority :: "priority option"
  up_dueDate :: "js_string js_field"
  up_estimatedMinutes :: "int js_field"

record MoveTaskDto =
  mv_columnId :: uuid
  mv_beforeTaskId :: "js_string js_field"
  mv_afterTaskId :: "js_string js_field"

record TaskQueryDto =
  tq_limit :: "nat option"
  tq_cursor :: "js_string js_field"
  tq_q :: "js_string js_field"
  tq_priority :: "priority list option"
  tq_assigneeId :: "js_string list option"
  tq_labelId :: "js_string list option"
  tq_dueDate :: "js_string js_field"
  tq_dueDate_gte :: "js_string js_field"
  tq_dueDate_lte :: "js_string js_field"

subsection \<open>task-fields.ts\<close>

record TaskAttributes =
  at_title :: js_string
  at_description :: "js_string option"
  at_priority :: "priority js_field"
  at_dueDate :: "js_date option"
  at_estimatedMinutes :: "int option"

fun parseDueDate ::
  "(js_string \<Rightarrow> js_date option) \<Rightarrow> js_string js_field \<Rightarrow> http_error + js_date js_field" where
  "parseDueDate newDate Undefined = Inr Undefined"
| "parseDueDate newDate Null = Inr Null"
| "parseDueDate newDate (Value s) =
     (case newDate s of
        None \<Rightarrow> Inl (BadRequest ''dueDate must be a valid ISO 8601 timestamp'')
      | Some due \<Rightarrow> Inr (Value due))"

definition createTaskAttributes ::
  "(js_string \<Rightarrow> js_date option) \<Rightarrow> CreateTaskDto \<Rightarrow> http_error + TaskAttributes" where
  "createTaskAttributes newDate dto =
     (case parseDueDate newDate (cr_dueDate dto) of
        Inl e \<Rightarrow> Inl e
      | Inr due \<Rightarrow> Inr
          \<lparr>at_title = cr_title dto,
           at_description = field_option (cr_description dto),
           at_priority = cr_priority dto,
           at_dueDate = field_option due,
           at_estimatedMinutes = field_option (cr_estimatedMinutes dto)\<rparr>)"

text \<open>
  The \<open>data\<close> of a PATCH: the keys the body sent. \<open>title\<close> and \<open>priority\<close> are \<open>OptionalNonNullable\<close>,
  the others may be \<open>null\<close>.
\<close>

record TaskPatch =
  pt_title :: "js_string option"
  pt_description :: "js_string js_field"
  pt_priority :: "priority option"
  pt_dueDate :: "js_date js_field"
  pt_estimatedMinutes :: "int js_field"

record TaskUpdatePlan =
  plan_data :: TaskPatch
  plan_changes :: payload

fun priority_name :: "priority \<Rightarrow> js_string" where
  "priority_name LOW = js ''LOW''"
| "priority_name MEDIUM = js ''MEDIUM''"
| "priority_name HIGH = js ''HIGH''"
| "priority_name URGENT = js ''URGENT''"

fun nullable :: "('a \<Rightarrow> json) \<Rightarrow> 'a option \<Rightarrow> json" where
  "nullable f None = JNull"
| "nullable f (Some a) = f a"

definition json_int :: "int \<Rightarrow> json" where
  "json_int n = JNumber (Finite (of_int n))"

definition changedField :: "string \<Rightarrow> ('a \<Rightarrow> json) \<Rightarrow> 'a option \<Rightarrow> 'a js_field \<Rightarrow> payload" where
  \<comment> \<open>\<open>if (x !== undefined && x !== existing) changes[key] = x\<close>\<close>
  "changedField key toJson stored sent =
     (if sent = Undefined \<or> field_option sent = stored then []
      else [(key, nullable toJson (field_option sent))])"

definition sentField :: "'a option \<Rightarrow> 'a js_field" where
  "sentField f = (case f of None \<Rightarrow> Undefined | Some a \<Rightarrow> Value a)"

definition dueIso :: "js_date js_field \<Rightarrow> js_string js_field" where
  \<comment> \<open>\<open>dueDate?.toISOString() ?? null\<close>, for a date that was sent\<close>
  "dueIso f = (case f of Undefined \<Rightarrow> Undefined | Null \<Rightarrow> Null | Value d \<Rightarrow> Value (toISOString d))"

definition planTaskUpdate ::
  "(js_string \<Rightarrow> js_date option) \<Rightarrow> task_row \<Rightarrow> UpdateTaskDto \<Rightarrow> http_error + TaskUpdatePlan" where
  "planTaskUpdate newDate existing dto =
     (case parseDueDate newDate (up_dueDate dto) of
        Inl e \<Rightarrow> Inl e
      | Inr dueDate \<Rightarrow>
          (let data = \<lparr>pt_title = up_title dto, pt_description = up_description dto,
                 pt_priority = up_priority dto, pt_dueDate = dueDate,
                 pt_estimatedMinutes = up_estimatedMinutes dto\<rparr>;
               changes =
                 changedField ''title'' JString (Some (t_title existing)) (sentField (up_title dto))
                 @ changedField ''description'' JString (t_description existing) (up_description dto)
                 @ changedField ''priority'' (\<lambda>p. JString (priority_name p))
                     (Some (t_priority existing)) (sentField (up_priority dto))
                 @ changedField ''dueDate'' JString (map_option toISOString (t_dueDate existing)) (dueIso dueDate)
                 @ changedField ''estimatedMinutes'' json_int (t_estimatedMinutes existing)
                     (up_estimatedMinutes dto)
           in Inr \<lparr>plan_data = data, plan_changes = changes\<rparr>))"

fun patched :: "'a option \<Rightarrow> 'a js_field \<Rightarrow> 'a option" where
  \<comment> \<open>a nullable column under \<open>...(x !== undefined ? { column: x } : {})\<close>\<close>
  "patched stored Undefined = stored"
| "patched stored Null = None"
| "patched stored (Value a) = Some a"

definition patchTask :: "TaskPatch \<Rightarrow> task_row \<Rightarrow> task_row" where
  \<comment> \<open>what \<open>task.update({ data })\<close> makes of the row\<close>
  "patchTask data t = t\<lparr>
     t_title := (case pt_title data of None \<Rightarrow> t_title t | Some s \<Rightarrow> s),
     t_description := patched (t_description t) (pt_description data),
     t_priority := (case pt_priority data of None \<Rightarrow> t_priority t | Some p \<Rightarrow> p),
     t_dueDate := patched (t_dueDate t) (pt_dueDate data),
     t_estimatedMinutes := patched (t_estimatedMinutes t) (pt_estimatedMinutes data)\<rparr>"

subsection \<open>Relations (task.include.ts)\<close>

record 'c TaskRow =
  tr_task :: task_row
  tr_assignees :: "user_row list"
  tr_labels :: "label_row list"
  tr_checklists :: "'c list"
  tr_attachmentCount :: nat

type_synonym TaskListRow = "bool list TaskRow"
type_synonym TaskDetailRow = "(checklist_row \<times> checklist_item_row list) TaskRow"

definition includeAssignees :: "world \<Rightarrow> uuid \<Rightarrow> user_row list" where
  "includeAssignees w taskId =
     List.map_filter (\<lambda>a. findUser w (ta_userId a))
       (sort_key ta_id (filter (\<lambda>a. ta_taskId a = taskId) (assignees w)))"

definition includeLabels :: "world \<Rightarrow> uuid \<Rightarrow> label_row list" where
  "includeLabels w taskId =
     List.map_filter (\<lambda>tl. find (\<lambda>l. l_id l = tl_labelId tl) (labels w))
       (sort_key tl_id (filter (\<lambda>tl. tl_taskId tl = taskId) (taskLabels w)))"

definition checklistSummaryInclude :: "world \<Rightarrow> uuid \<Rightarrow> bool list list" where
  "checklistSummaryInclude w taskId =
     map (\<lambda>cl. map ci_isDone (filter (\<lambda>ci. ci_checklistId ci = cl_id cl) (checklistItems w)))
       (filter (\<lambda>cl. cl_taskId cl = taskId) (checklists w))"

definition checklistDetailInclude ::
  "world \<Rightarrow> uuid \<Rightarrow> (checklist_row \<times> checklist_item_row list) list" where
  "checklistDetailInclude w taskId =
     map (\<lambda>cl. (cl, sort_key ci_position
           (filter (\<lambda>ci. ci_checklistId ci = cl_id cl) (checklistItems w))))
       (sort_key cl_position (filter (\<lambda>cl. cl_taskId cl = taskId) (checklists w)))"

definition countAttachments :: "world \<Rightarrow> uuid \<Rightarrow> nat" where
  "countAttachments w taskId = length (filter (\<lambda>a. at_taskId a = taskId) (attachments w))"

definition countAttachmentsByTask :: "world \<Rightarrow> uuid list \<Rightarrow> uuid \<Rightarrow> nat option" where
  \<comment> \<open>the \<open>Map\<close> of the grouped count: a task without attachments has no entry\<close>
  "countAttachmentsByTask w taskIds taskId =
     (if taskId \<in> set taskIds \<and> countAttachments w taskId \<noteq> 0
      then Some (countAttachments w taskId) else None)"

definition taskDetailInclude :: "world \<Rightarrow> nat \<Rightarrow> task_row \<Rightarrow> TaskDetailRow" where
  "taskDetailInclude w attachmentCount t =
     \<lparr>tr_task = t, tr_assignees = includeAssignees w (t_id t), tr_labels = includeLabels w (t_id t),
      tr_checklists = checklistDetailInclude w (t_id t), tr_attachmentCount = attachmentCount\<rparr>"

definition taskListInclude :: "world \<Rightarrow> nat \<Rightarrow> task_row \<Rightarrow> TaskListRow" where
  "taskListInclude w attachmentCount t =
     \<lparr>tr_task = t, tr_assignees = includeAssignees w (t_id t), tr_labels = includeLabels w (t_id t),
      tr_checklists = checklistSummaryInclude w (t_id t), tr_attachmentCount = attachmentCount\<rparr>"

definition emptyTaskRelations :: "task_row \<Rightarrow> TaskDetailRow" where
  "emptyTaskRelations t =
     \<lparr>tr_task = t, tr_assignees = [], tr_labels = [], tr_checklists = [], tr_attachmentCount = 0\<rparr>"

subsection \<open>Responses (shared-types: entities.ts, task.mapper.ts)\<close>

record TaskAssigneeDto =
  as_userId :: uuid
  as_name :: js_string
  as_avatarUrl :: "js_string option"

record LabelDto =
  lb_id :: uuid
  lb_boardId :: uuid
  lb_name :: js_string
  lb_color :: label_color_slot

record ChecklistItemDto =
  id_id :: uuid
  id_content :: js_string
  id_isDone :: bool
  id_position :: number

record ChecklistDto =
  ld_id :: uuid
  ld_title :: js_string
  ld_position :: number
  ld_items :: "ChecklistItemDto list"

record ChecklistSummaryDto =
  sum_total :: nat
  sum_done :: nat

record TaskDto =
  d_id :: uuid
  d_boardId :: uuid
  d_columnId :: uuid
  d_title :: js_string
  d_description :: "js_string option"
  d_priority :: priority
  d_position :: number
  d_dueDate :: "js_string option"
  d_estimatedMinutes :: "int option"
  d_createdById :: uuid
  d_createdAt :: js_string
  d_updatedAt :: js_string
  d_assignees :: "TaskAssigneeDto list"
  d_labels :: "LabelDto list"
  d_checklistSummary :: ChecklistSummaryDto
  d_checklists :: "ChecklistDto list option"
  d_attachmentCount :: nat

fun summarizeItems :: "bool list \<Rightarrow> nat \<times> nat \<Rightarrow> nat \<times> nat" where
  \<comment> \<open>the inner loop: \<open>total += 1; if (item.isDone) done += 1\<close>\<close>
  "summarizeItems [] acc = acc"
| "summarizeItems (isDone # items) (n, finished) =
     summarizeItems items (n + 1, if isDone then finished + 1 else finished)"

fun summarizeLists :: "bool list list \<Rightarrow> nat \<times> nat \<Rightarrow> nat \<times> nat" where
  "summarizeLists [] acc = acc"
| "summarizeLists (items # rest) acc = summarizeLists rest (summarizeItems items acc)"

definition summarizeChecklists :: "bool list list \<Rightarrow> ChecklistSummaryDto" where
  "summarizeChecklists cls =
     (case summarizeLists cls (0, 0) of (n, finished) \<Rightarrow>
        \<lparr>sum_total = n, sum_done = finished\<rparr>)"

definition toLabelDto :: "label_row \<Rightarrow> LabelDto" where
  "toLabelDto l = \<lparr>lb_id = l_id l, lb_boardId = l_boardId l, lb_name = l_name l,
     lb_color = toLabelColorSlot (l_color l)\<rparr>"

definition toAssigneeDto :: "user_row \<Rightarrow> TaskAssigneeDto" where
  "toAssigneeDto u = \<lparr>as_userId = u_id u, as_name = u_name u, as_avatarUrl = u_avatarUrl u\<rparr>"

definition toTaskCore ::
  "'c TaskRow \<Rightarrow> ChecklistSummaryDto \<Rightarrow> ChecklistDto list option \<Rightarrow> TaskDto" where
  \<comment> \<open>\<open>{ ...toTaskCore(row), checklistSummary, checklists }\<close>\<close>
  "toTaskCore row summary cls = (let t = tr_task row in
     \<lparr>d_id = t_id t, d_boardId = t_boardId t, d_columnId = t_columnId t, d_title = t_title t,
      d_description = t_description t, d_priority = t_priority t, d_position = t_position t,
      d_dueDate = map_option toISOString (t_dueDate t),
      d_estimatedMinutes = t_estimatedMinutes t, d_createdById = t_createdById t,
      d_createdAt = toISOString (t_createdAt t), d_updatedAt = toISOString (t_updatedAt t),
      d_assignees = map toAssigneeDto (tr_assignees row),
      d_labels = map toLabelDto (tr_labels row),
      d_checklistSummary = summary, d_checklists = cls,
      d_attachmentCount = tr_attachmentCount row\<rparr>)"

definition toTaskListDto :: "TaskListRow \<Rightarrow> TaskDto" where
  "toTaskListDto row = toTaskCore row (summarizeChecklists (tr_checklists row)) None"

definition toItemDto :: "checklist_item_row \<Rightarrow> ChecklistItemDto" where
  "toItemDto ci = \<lparr>id_id = ci_id ci, id_content = ci_content ci, id_isDone = ci_isDone ci,
     id_position = ci_position ci\<rparr>"

definition toChecklistDto :: "checklist_row \<times> checklist_item_row list \<Rightarrow> ChecklistDto" where
  "toChecklistDto = (\<lambda>(cl, items). \<lparr>ld_id = cl_id cl, ld_title = cl_title cl,
     ld_position = cl_position cl, ld_items = map toItemDto items\<rparr>)"

definition toTaskDetailDto :: "TaskDetailRow \<Rightarrow> TaskDto" where
  "toTaskDetailDto row =
     toTaskCore row (summarizeChecklists (map (\<lambda>(cl, items). map ci_isDone items) (tr_checklists row)))
       (Some (map toChecklistDto (tr_checklists row)))"

subsection \<open>The list filter (task-query-where.ts)\<close>

definition contains :: "(js_string \<Rightarrow> js_string) \<Rightarrow> js_string \<Rightarrow> js_string \<Rightarrow> bool" where
  \<comment> \<open>\<open>{ contains: q, mode: 'insensitive' }\<close>\<close>
  "contains fold_case q s \<longleftrightarrow>
     list_ex (\<lambda>i. take (length (fold_case q)) (drop i (fold_case s)) = fold_case q)
       [0..<Suc (length (fold_case s))]"

datatype task_clause =
    IdAfter uuid
  | TextMatches js_string
  | PriorityIn "priority list"
  | NoAssignee
  | AssigneeIn "uuid list"
  | AssigneeOr "task_clause list"
  | LabelIn "uuid list"
  | DueNull
  | DueBetween "js_date option option" "js_date option option"

fun clauseHolds :: "(js_string \<Rightarrow> js_string) \<Rightarrow> world \<Rightarrow> task_row \<Rightarrow> task_clause \<Rightarrow> bool" where
  "clauseHolds fc w t (IdAfter k) \<longleftrightarrow> k < t_id t"
| "clauseHolds fc w t (TextMatches q) \<longleftrightarrow>
     contains fc q (t_title t)
       \<or> (case t_description t of None \<Rightarrow> False | Some d \<Rightarrow> contains fc q d)"
| "clauseHolds fc w t (PriorityIn ps) \<longleftrightarrow> t_priority t \<in> set ps"
| "clauseHolds fc w t NoAssignee \<longleftrightarrow> list_all (\<lambda>a. ta_taskId a \<noteq> t_id t) (assignees w)"
| "clauseHolds fc w t (AssigneeIn ids) \<longleftrightarrow>
     list_ex (\<lambda>a. ta_taskId a = t_id t \<and> ta_userId a \<in> set ids) (assignees w)"
| "clauseHolds fc w t (AssigneeOr cs) \<longleftrightarrow> list_ex (clauseHolds fc w t) cs"
| "clauseHolds fc w t (LabelIn ids) \<longleftrightarrow>
     list_ex (\<lambda>l. tl_taskId l = t_id t \<and> tl_labelId l \<in> set ids) (taskLabels w)"
| "clauseHolds fc w t DueNull \<longleftrightarrow> t_dueDate t = None"
| "clauseHolds fc w t (DueBetween gte lte) \<longleftrightarrow>
     (case t_dueDate t of None \<Rightarrow> False
      | Some d \<Rightarrow> (case gte of Some (Some g) \<Rightarrow> g \<le> d | _ \<Rightarrow> True)
          \<and> (case lte of Some (Some l) \<Rightarrow> d \<le> l | _ \<Rightarrow> True))"

definition nonEmptyList :: "'a list option \<Rightarrow> 'a list" where
  "nonEmptyList f = (case f of None \<Rightarrow> [] | Some xs \<Rightarrow> xs)"

definition dateBound :: "(js_string \<Rightarrow> js_date option) \<Rightarrow> js_string js_field \<Rightarrow> js_date option option" where
  \<comment> \<open>\<open>...(s ? { gte: new Date(s) } : {})\<close>: the inner \<open>None\<close> is \<open>Invalid Date\<close>\<close>
  "dateBound newDate f = (if truthy f then map_option newDate (field_option f) else None)"

definition assigneeClause :: "js_string list \<Rightarrow> task_clause" where
  "assigneeClause ids =
     (let wantsUnassigned = js ''null'' \<in> set ids;
          userIds = filter (\<lambda>i. i \<noteq> js ''null'') ids;
          assigneeOr = (if wantsUnassigned then [NoAssignee] else [])
            @ (if userIds \<noteq> [] then [AssigneeIn userIds] else [])
      in if length assigneeOr = 1 then hd assigneeOr else AssigneeOr assigneeOr)"

definition buildListWhere :: "(js_string \<Rightarrow> js_date option) \<Rightarrow> TaskQueryDto \<Rightarrow> task_clause list" where
  \<comment> \<open>the \<open>AND\<close> of the predicate; its other conjunct is \<open>boardId\<close>\<close>
  "buildListWhere newDate query =
     (case cursorOf (tq_cursor query) of None \<Rightarrow> [] | Some k \<Rightarrow> [IdAfter k])
     @ (case cursorOf (tq_q query) of None \<Rightarrow> [] | Some q \<Rightarrow> [TextMatches q])
     @ (if nonEmptyList (tq_priority query) \<noteq> [] then [PriorityIn (nonEmptyList (tq_priority query))] else [])
     @ (if nonEmptyList (tq_assigneeId query) \<noteq> []
        then [assigneeClause (nonEmptyList (tq_assigneeId query))] else [])
     @ (if nonEmptyList (tq_labelId query) \<noteq> [] then [LabelIn (nonEmptyList (tq_labelId query))] else [])
     @ (if tq_dueDate query = Value (js ''null'') then [DueNull] else [])
     @ (if truthy (tq_dueDate_gte query) \<or> truthy (tq_dueDate_lte query)
        then [DueBetween (dateBound newDate (tq_dueDate_gte query)) (dateBound newDate (tq_dueDate_lte query))]
        else [])"

definition invalidDateBound :: "task_clause \<Rightarrow> bool" where
  \<comment> \<open>the client refuses a query that holds an \<open>Invalid Date\<close>\<close>
  "invalidDateBound c =
     (case c of DueBetween gte lte \<Rightarrow> gte = Some None \<or> lte = Some None | _ \<Rightarrow> False)"

declare createTaskAttributes_def [handler_defs]
  json_int_def [handler_defs]
  changedField_def [handler_defs]
  sentField_def [handler_defs]
  dueIso_def [handler_defs]
  planTaskUpdate_def [handler_defs]
  patchTask_def [handler_defs]
  includeAssignees_def [handler_defs]
  includeLabels_def [handler_defs]
  checklistSummaryInclude_def [handler_defs]
  checklistDetailInclude_def [handler_defs]
  countAttachments_def [handler_defs]
  countAttachmentsByTask_def [handler_defs]
  taskDetailInclude_def [handler_defs]
  taskListInclude_def [handler_defs]
  emptyTaskRelations_def [handler_defs]
  summarizeChecklists_def [handler_defs]
  toLabelDto_def [handler_defs]
  toAssigneeDto_def [handler_defs]
  toTaskCore_def [handler_defs]
  toTaskListDto_def [handler_defs]
  toItemDto_def [handler_defs]
  toChecklistDto_def [handler_defs]
  toTaskDetailDto_def [handler_defs]
  contains_def [handler_defs]
  nonEmptyList_def [handler_defs]
  dateBound_def [handler_defs]
  assigneeClause_def [handler_defs]
  buildListWhere_def [handler_defs]
  invalidDateBound_def [handler_defs]

end
