(* ===== verification/TaskService.thy ===== *)
theory TaskService
  imports TaskModel
begin

section \<open>The task service\<close>

text \<open>
  \<open>task.service.ts\<close>, \<open>task-read.service.ts\<close>, \<open>task-assignee.service.ts\<close>, \<open>task-label.service.ts\<close>,
  \<open>task-events.service.ts\<close>, \<open>prisma-unique-violation.ts\<close> and \<open>rebalance-sql.ts\<close>: one definition per
  method, in the order of the code. Each is the whole method: the scoped reads with their 404s, the
  checks, the transaction with every write in it, and the event published after it. The row lock
  \<open>SELECT ... FOR UPDATE\<close> changes no row; requests run one at a time here.
\<close>

subsection \<open>Rows\<close>

definition taskItem :: "task_row \<Rightarrow> item" where
  \<comment> \<open>\<open>select: { id: true, position: true }\<close>\<close>
  "taskItem t = \<lparr>item_id = t_id t, item_position = t_position t\<rparr>"

definition taskSiblings :: "world \<Rightarrow> uuid \<Rightarrow> item list" where
  "taskSiblings w columnId =
     orderedItems (map taskItem (filter (\<lambda>t. t_columnId t = columnId) (tasks w)))"

definition batchUpdateTaskPositions :: "uuid \<Rightarrow> (js_string \<times> number) list \<Rightarrow> world \<Rightarrow> world" where
  "batchUpdateTaskPositions columnId updates w =
     (if updates = [] then w
      else w\<lparr>tasks := map (\<lambda>t. if t_columnId t = columnId
        then t\<lparr>t_position := applyUpdates updates (t_id t) (t_position t)\<rparr> else t) (tasks w)\<rparr>)"

definition insertTask ::
  "uuid \<Rightarrow> uuid \<Rightarrow> TaskAttributes \<Rightarrow> number \<Rightarrow> uuid \<Rightarrow> task_row handler" where
  \<comment> \<open>\<open>task.create\<close>: the client refuses \<open>priority: null\<close>, the schema default is \<open>MEDIUM\<close>\<close>
  "insertTask boardId columnId attributes position userId w =
     (if at_priority attributes = Null then (Inl (PrismaError ''PrismaClientValidationError''), w)
      else (let row = \<lparr>t_id = freshId w, t_boardId = boardId, t_columnId = columnId,
                   t_title = at_title attributes, t_description = at_description attributes,
                   t_priority = (case field_option (at_priority attributes) of None \<Rightarrow> MEDIUM | Some p \<Rightarrow> p),
                   t_position = position, t_dueDate = at_dueDate attributes,
                   t_estimatedMinutes = at_estimatedMinutes attributes, t_createdById = userId,
                   t_createdAt = w_now w, t_updatedAt = w_now w\<rparr>
            in (Inr row, (tick w)\<lparr>tasks := tasks w @ [row]\<rparr>)))"

definition updateTaskRow :: "uuid \<Rightarrow> uuid \<Rightarrow> (task_row \<Rightarrow> task_row) \<Rightarrow> task_row handler" where
  \<comment> \<open>\<open>task.update({ where: { id, board: { workspaceId } }, data })\<close> with \<open>@updatedAt\<close>\<close>
  "updateTaskRow workspaceId taskId change w =
     (case findTaskRow w workspaceId taskId of
        None \<Rightarrow> (Inl (PrismaError ''P2025''), w)
      | Some t \<Rightarrow> (let row = (change t)\<lparr>t_updatedAt := w_now w\<rparr>
          in (Inr row, w\<lparr>tasks := map (\<lambda>x. if t_id x = taskId \<and> boardIn w workspaceId (t_boardId x)
                 then row else x) (tasks w)\<rparr>)))"

subsection \<open>TaskReadService and TaskEventsService\<close>

definition TaskReadService_findTask :: "uuid \<Rightarrow> uuid \<Rightarrow> TaskDetailRow handler" where
  "TaskReadService_findTask workspaceId taskId =
     bindE (orThrow (NotFound ''Task not found'') (\<lambda>w. findTaskRow w workspaceId taskId)) (\<lambda>task.
     reads (\<lambda>w. taskDetailInclude w (countAttachments w taskId) task))"

definition TaskReadService_findTaskBasic :: "uuid \<Rightarrow> uuid \<Rightarrow> task_row handler" where
  "TaskReadService_findTaskBasic workspaceId taskId =
     orThrow (NotFound ''Task not found'') (\<lambda>w. findTaskRow w workspaceId taskId)"

definition taskScope :: "uuid \<Rightarrow> uuid \<Rightarrow> uuid \<Rightarrow> board_scope" where
  "taskScope workspaceId boardId actorId =
     \<lparr>e_workspaceId = workspaceId, e_boardId = boardId, e_actorId = actorId\<rparr>"

definition TaskEventsService_emitUpdated :: "uuid \<Rightarrow> uuid \<Rightarrow> uuid \<Rightarrow> TaskDto handler" where
  "TaskEventsService_emitUpdated workspaceId taskId actorId =
     bindE (TaskReadService_findTask workspaceId taskId) (\<lambda>row.
     let dto = toTaskDetailDto row in
     bindE (modify (emitToBoard (d_boardId dto)
       (TASK_UPDATED (taskScope workspaceId (d_boardId dto) actorId) (d_id dto)))) (\<lambda>_.
     return dto))"

subsection \<open>list, create, get, update, remove\<close>

definition TaskService_list ::
  "(js_string \<Rightarrow> js_string) \<Rightarrow> uuid \<Rightarrow> uuid \<Rightarrow> TaskQueryDto \<Rightarrow> (uuid, TaskDto) cursor_page handler" where
  "TaskService_list fold_case workspaceId boardId query =
     bindE (assertBoard workspaceId boardId) (\<lambda>_ w.
       let clauses = buildListWhere (w_newDate w) query;
           limit = (case tq_limit query of None \<Rightarrow> 50 | Some n \<Rightarrow> n);
           found = take (limit + 1) (sort_key t_id
             (filter (\<lambda>t. t_boardId t = boardId \<and> list_all (clauseHolds fold_case w t) clauses) (tasks w)));
           counts = countAttachmentsByTask w (map t_id found);
           rows = map (\<lambda>t. taskListInclude w
             (case counts (t_id t) of None \<Rightarrow> 0 | Some n \<Rightarrow> n) t) found
       in if list_ex invalidDateBound clauses
          then (Inl (PrismaError ''PrismaClientValidationError''), w)
          else (Inr (toCursorPage (\<lambda>r. t_id (tr_task r)) rows limit toTaskListDto), w))"

definition findColumnOnBoard :: "uuid \<Rightarrow> uuid \<Rightarrow> uuid \<Rightarrow> column_row handler" where
  "findColumnOnBoard workspaceId boardId columnId =
     orThrow (NotFound ''Column not found'')
       (\<lambda>w. find (\<lambda>c. c_id c = columnId \<and> c_boardId c = boardId \<and> boardIn w workspaceId boardId) (columns w))"

definition placeCreated :: "uuid \<Rightarrow> item list \<Rightarrow> slot \<Rightarrow> number handler" where
  \<comment> \<open>the position of a new task, respreading its siblings first when the gap is too small\<close>
  "placeCreated columnId siblings slot w =
     (let prevPos = map_option item_position (slot_prev slot);
          nextPos = map_option item_position (slot_next slot)
      in if needsRebalance prevPos nextPos
         then (let positions = rebalancePositions (length siblings + 1) POSITION_GAP
               in (Inr (positions ! insertionIndex slot),
                   batchUpdateTaskPositions columnId
                     (createUpdates siblings (insertionIndex slot) positions) w))
         else (Inr (midpoint prevPos nextPos), w))"

definition TaskService_create ::
  "uuid \<Rightarrow> uuid \<Rightarrow> uuid \<Rightarrow> CreateTaskDto \<Rightarrow> TaskDto handler" where
  "TaskService_create workspaceId boardId userId dto =
     bindE (assertBoard workspaceId boardId) (\<lambda>_.
     bindE (findColumnOnBoard workspaceId boardId (cr_columnId dto)) (\<lambda>column.
     bindE (\<lambda>w. lift (createTaskAttributes (w_newDate w) dto) w) (\<lambda>attributes.
     bindE (transaction (
       bindE (reads (\<lambda>w. taskSiblings w (c_id column))) (\<lambda>siblings.
       bindE (lift (resolveCreateNeighbors siblings (cr_afterTaskId dto) ''Task not found'')) (\<lambda>slot.
       bindE (placeCreated (c_id column) siblings slot) (\<lambda>position.
       bindE (insertTask boardId (c_id column) attributes position userId) (\<lambda>created.
       bindE (recordActivity workspaceId (Some (t_id created)) userId TaskCreated
         [(''title'', JString (t_title created)), (''columnId'', JString (t_columnId created)),
          (''boardId'', JString (t_boardId created))]) (\<lambda>_.
       return (toTaskDetailDto (emptyTaskRelations created))))))))) (\<lambda>result.
     bindE (modify (emitToBoard (d_boardId result)
       (TASK_CREATED (taskScope workspaceId (d_boardId result) userId) (d_id result)))) (\<lambda>_.
     return result)))))"

definition TaskService_get :: "uuid \<Rightarrow> uuid \<Rightarrow> TaskDto handler" where
  "TaskService_get workspaceId taskId =
     bindE (TaskReadService_findTask workspaceId taskId) (\<lambda>row. return (toTaskDetailDto row))"

definition TaskService_update ::
  "uuid \<Rightarrow> uuid \<Rightarrow> uuid \<Rightarrow> UpdateTaskDto \<Rightarrow> TaskDto handler" where
  "TaskService_update workspaceId taskId userId dto =
     bindE (TaskReadService_findTask workspaceId taskId) (\<lambda>existing.
     bindE (\<lambda>w. lift (planTaskUpdate (w_newDate w) (tr_task existing) dto) w) (\<lambda>plan.
     if plan_changes plan = [] then return (toTaskDetailDto existing)
     else
       bindE (transaction (
         bindE (orThrow (NotFound ''Task not found'') (\<lambda>w. findTaskRow w workspaceId taskId)) (\<lambda>_.
         bindE (updateTaskRow workspaceId taskId (patchTask (plan_data plan))) (\<lambda>updated.
         bindE (recordActivity workspaceId (Some taskId) userId TaskUpdated
           [(''title'', JString (t_title updated)),
            (''changes'', JObject (map (\<lambda>(k, v). (js k, v)) (plan_changes plan)))]) (\<lambda>_.
         reads (\<lambda>w. toTaskDetailDto (taskDetailInclude w (countAttachments w taskId) updated))))))) (\<lambda>result.
       bindE (modify (emitToBoard (d_boardId result)
         (TASK_UPDATED (taskScope workspaceId (d_boardId result) userId) (d_id result)))) (\<lambda>_.
       return result))))"

definition TaskService_remove :: "uuid \<Rightarrow> uuid \<Rightarrow> uuid \<Rightarrow> unit handler" where
  "TaskService_remove workspaceId taskId userId =
     bindE (transaction (
       bindE (orThrow (NotFound ''Task not found'') (\<lambda>w. findTaskRow w workspaceId taskId)) (\<lambda>row.
       bindE (recordActivity workspaceId None userId TaskDeleted
         [(''taskId'', JString (t_id row)), (''title'', JString (t_title row)),
          (''columnId'', JString (t_columnId row)), (''boardId'', JString (t_boardId row))]) (\<lambda>_ w.
       let gone = (\<lambda>k. k = taskId \<and> taskIn w workspaceId k)
       in if list_ex (\<lambda>t. gone (t_id t)) (tasks w) then (Inr row, cascadeTasks gone w)
          else (Inl (NotFound ''Task not found''), w))))) (\<lambda>task.
     modify (emitToBoard (t_boardId task)
       (TASK_DELETED (taskScope workspaceId (t_boardId task) userId) (t_id task))))"

subsection \<open>move\<close>

definition placeMoved ::
  "uuid \<Rightarrow> task_row \<Rightarrow> column_row \<Rightarrow> item list \<Rightarrow> slot \<Rightarrow> nat \<Rightarrow> TaskDto handler" where
  \<comment> \<open>both branches of the write: respread the column, or split the gap\<close>
  "placeMoved workspaceId task targetColumn remaining slot attachmentCount =
     (let prevPos = map_option item_position (slot_prev slot);
          nextPos = map_option item_position (slot_next slot)
      in if needsRebalance prevPos nextPos
         then (let positions = rebalancePositions (length remaining + 1) POSITION_GAP;
                   position = positions ! insertionIndex slot;
                   otherUpdates = moveUpdates remaining (insertionIndex slot) (taskItem task) positions
               in bindE (updateTaskRow workspaceId (t_id task)
                    (\<lambda>t. t\<lparr>t_position := position, t_columnId := c_id targetColumn\<rparr>)) (\<lambda>_.
                  bindE (modify (batchUpdateTaskPositions (c_id targetColumn) otherUpdates)) (\<lambda>_.
                  reads (\<lambda>w. toTaskDetailDto (taskDetailInclude w attachmentCount
                    (task\<lparr>t_columnId := c_id targetColumn, t_position := position,
                          t_updatedAt := w_now w\<rparr>))))))
         else bindE (updateTaskRow workspaceId (t_id task)
                (\<lambda>t. t\<lparr>t_columnId := c_id targetColumn, t_position := midpoint prevPos nextPos\<rparr>)) (\<lambda>updated.
              reads (\<lambda>w. toTaskDetailDto (taskDetailInclude w attachmentCount updated))))"

fun column_category_name :: "column_category \<Rightarrow> js_string" where
  "column_category_name BACKLOG = js ''BACKLOG''"
| "column_category_name UNSTARTED = js ''UNSTARTED''"
| "column_category_name STARTED = js ''STARTED''"
| "column_category_name COMPLETED = js ''COMPLETED''"
| "column_category_name CANCELED = js ''CANCELED''"

definition TaskService_move ::
  "uuid \<Rightarrow> uuid \<Rightarrow> uuid \<Rightarrow> MoveTaskDto \<Rightarrow> TaskDto handler" where
  "TaskService_move workspaceId taskId userId dto =
     bindE (transaction (
       bindE (orThrow (NotFound ''Task not found'') (\<lambda>w. findTaskRow w workspaceId taskId)) (\<lambda>task.
       bindE (failIf (mv_beforeTaskId dto = Value taskId \<or> mv_afterTaskId dto = Value taskId)
         (BadRequest ''A task cannot be its own neighbor'')) (\<lambda>_.
       bindE (orThrow (NotFound ''Column not found'')
         (\<lambda>w. findColumnRow w workspaceId (mv_columnId dto))) (\<lambda>targetColumn.
       bindE (failIf (c_boardId targetColumn \<noteq> t_boardId task)
         (UnprocessableEntity ''Cannot move a task to a column on another board'')) (\<lambda>_.
       bindE (reads (\<lambda>w. if t_columnId task = c_id targetColumn then Some targetColumn
         else find (\<lambda>c. c_id c = t_columnId task) (columns w))) (\<lambda>fromColumn.
       bindE (reads (\<lambda>w. taskSiblings w (c_id targetColumn))) (\<lambda>siblings.
       let remaining = filter (\<lambda>s. item_id s \<noteq> taskId) siblings in
       bindE (lift (resolveMoveNeighbors remaining (mv_beforeTaskId dto) (mv_afterTaskId dto))) (\<lambda>slot.
       bindE (reads (\<lambda>w. countAttachments w taskId)) (\<lambda>attachmentCount.
       bindE (placeMoved workspaceId task targetColumn remaining slot attachmentCount) (\<lambda>result.
       bindE (recordActivity workspaceId (Some taskId) userId TaskMoved
         [(''title'', JString (t_title task)), (''fromColumnId'', JString (t_columnId task)),
          (''fromColumnName'', JString (case fromColumn of None \<Rightarrow> [] | Some c \<Rightarrow> c_name c)),
          (''toColumnId'', JString (c_id targetColumn)), (''toColumnName'', JString (c_name targetColumn)),
          (''toColumnCategory'', JString (column_category_name (c_category targetColumn)))]) (\<lambda>_.
       return result)))))))))))) (\<lambda>result.
     bindE (modify (emitToBoard (d_boardId result)
       (TASK_MOVED (taskScope workspaceId (d_boardId result) userId) (d_id result)
          (d_columnId result) (d_position result)))) (\<lambda>_.
     return result))"

subsection \<open>Assignees and labels\<close>

definition conflictOnUniqueViolation :: "'a handler \<Rightarrow> string \<Rightarrow> 'a handler" where
  "conflictOnUniqueViolation write message w =
     (case write w of
        (Inl e, w') \<Rightarrow> (Inl (if e = PrismaError ''P2002'' then Conflict message else e), w')
      | (Inr a, w') \<Rightarrow> (Inr a, w'))"

definition insertAssignee :: "uuid \<Rightarrow> uuid \<Rightarrow> unit handler" where
  \<comment> \<open>\<open>taskAssignee.create\<close> under \<open>@@unique([taskId, userId])\<close>\<close>
  "insertAssignee taskId userId w =
     (if list_ex (\<lambda>a. ta_taskId a = taskId \<and> ta_userId a = userId) (assignees w)
      then (Inl (PrismaError ''P2002''), w)
      else (Inr (), (tick w)\<lparr>assignees := assignees w
        @ [\<lparr>ta_id = freshId w, ta_taskId = taskId, ta_userId = userId\<rparr>]\<rparr>))"

definition TaskAssigneeService_addAssignee ::
  "uuid \<Rightarrow> uuid \<Rightarrow> uuid \<Rightarrow> uuid \<Rightarrow> TaskDto handler" where
  "TaskAssigneeService_addAssignee workspaceId taskId actorId assigneeId =
     bindE (TaskReadService_findTaskBasic workspaceId taskId) (\<lambda>task.
     bindE (orThrow (UnprocessableEntity ''User is not a member of this workspace'')
       (\<lambda>w. find (\<lambda>m. m_workspaceId m = workspaceId \<and> m_userId m = assigneeId) (members w))) (\<lambda>_.
     bindE (conflictOnUniqueViolation (transaction (
       bindE (insertAssignee (t_id task) assigneeId) (\<lambda>_.
       bindE (recordActivity workspaceId (Some (t_id task)) actorId TaskAssigned
         [(''title'', JString (t_title task)), (''assigneeUserId'', JString assigneeId)]) (\<lambda>activity.
       NotificationService_createAssignment
         \<lparr>ni_workspaceId = workspaceId, ni_userId = assigneeId, ni_actorId = actorId,
          ni_type = Assignment, ni_taskId = Some (t_id task), ni_activityId = Some (a_id activity),
          ni_payload = [(''title'', JString (t_title task)), (''assigneeUserId'', JString assigneeId),
            (''actorId'', JString actorId)]\<rparr>))))
       ''User is already assigned to this task'') (\<lambda>notification.
     bindE (modify (\<lambda>w. if notification \<noteq> None \<and> assigneeId \<noteq> []
       then NotificationService_emitUnreadChanged workspaceId [assigneeId] w else w)) (\<lambda>_.
     TaskEventsService_emitUpdated workspaceId taskId actorId))))"

definition TaskAssigneeService_removeAssignee ::
  "uuid \<Rightarrow> uuid \<Rightarrow> uuid \<Rightarrow> uuid \<Rightarrow> TaskDto handler" where
  "TaskAssigneeService_removeAssignee workspaceId taskId actorId assigneeUserId =
     bindE (TaskReadService_findTaskBasic workspaceId taskId) (\<lambda>task.
     bindE (transaction (
       bindE (\<lambda>w. let hit = (\<lambda>a. ta_taskId a = taskId \<and> ta_userId a = assigneeUserId
                    \<and> taskIn w workspaceId (ta_taskId a))
           in if list_ex hit (assignees w)
              then (Inr (), w\<lparr>assignees := filter (\<lambda>a. \<not> hit a) (assignees w)\<rparr>)
              else (Inl (NotFound ''Assignee not found''), w)) (\<lambda>_.
       recordActivity workspaceId (Some taskId) actorId TaskUnassigned
         [(''title'', JString (t_title task)), (''assigneeUserId'', JString assigneeUserId)]))) (\<lambda>_.
     TaskEventsService_emitUpdated workspaceId taskId actorId))"

definition insertTaskLabel :: "uuid \<Rightarrow> uuid \<Rightarrow> unit handler" where
  \<comment> \<open>\<open>taskLabel.create\<close> under \<open>@@unique([taskId, labelId])\<close>\<close>
  "insertTaskLabel taskId labelId w =
     (if list_ex (\<lambda>l. tl_taskId l = taskId \<and> tl_labelId l = labelId) (taskLabels w)
      then (Inl (PrismaError ''P2002''), w)
      else (Inr (), (tick w)\<lparr>taskLabels := taskLabels w
        @ [\<lparr>tl_id = freshId w, tl_taskId = taskId, tl_labelId = labelId\<rparr>]\<rparr>))"

definition TaskLabelService_addLabel :: "uuid \<Rightarrow> uuid \<Rightarrow> uuid \<Rightarrow> uuid \<Rightarrow> TaskDto handler" where
  "TaskLabelService_addLabel workspaceId taskId actorId labelId =
     bindE (TaskReadService_findTaskBasic workspaceId taskId) (\<lambda>task.
     bindE (orThrow (UnprocessableEntity ''Label does not belong to this task board'')
       (\<lambda>w. find (\<lambda>l. l_id l = labelId \<and> l_boardId l = t_boardId task) (labels w))) (\<lambda>label.
     bindE (conflictOnUniqueViolation (insertTaskLabel (t_id task) (l_id label))
       ''Label is already assigned to this task'') (\<lambda>_.
     TaskEventsService_emitUpdated workspaceId taskId actorId)))"

definition TaskLabelService_removeLabel :: "uuid \<Rightarrow> uuid \<Rightarrow> uuid \<Rightarrow> uuid \<Rightarrow> TaskDto handler" where
  "TaskLabelService_removeLabel workspaceId taskId actorId labelId =
     bindE (TaskReadService_findTaskBasic workspaceId taskId) (\<lambda>_.
     bindE (\<lambda>w. let hit = (\<lambda>l. tl_taskId l = taskId \<and> tl_labelId l = labelId
                    \<and> taskIn w workspaceId (tl_taskId l))
         in if list_ex hit (taskLabels w)
            then (Inr (), w\<lparr>taskLabels := filter (\<lambda>l. \<not> hit l) (taskLabels w)\<rparr>)
            else (Inl (NotFound ''Task label not found''), w)) (\<lambda>_.
     TaskEventsService_emitUpdated workspaceId taskId actorId))"

declare taskItem_def [handler_defs]
  taskSiblings_def [handler_defs]
  batchUpdateTaskPositions_def [handler_defs]
  insertTask_def [handler_defs]
  updateTaskRow_def [handler_defs]
  TaskReadService_findTask_def [handler_defs]
  TaskReadService_findTaskBasic_def [handler_defs]
  taskScope_def [handler_defs]
  TaskEventsService_emitUpdated_def [handler_defs]
  TaskService_list_def [handler_defs]
  findColumnOnBoard_def [handler_defs]
  placeCreated_def [handler_defs]
  TaskService_create_def [handler_defs]
  TaskService_get_def [handler_defs]
  TaskService_update_def [handler_defs]
  TaskService_remove_def [handler_defs]
  placeMoved_def [handler_defs]
  TaskService_move_def [handler_defs]
  conflictOnUniqueViolation_def [handler_defs]
  insertAssignee_def [handler_defs]
  TaskAssigneeService_addAssignee_def [handler_defs]
  TaskAssigneeService_removeAssignee_def [handler_defs]
  insertTaskLabel_def [handler_defs]
  TaskLabelService_addLabel_def [handler_defs]
  TaskLabelService_removeLabel_def [handler_defs]

end
