(* ===== verification/Sample.thy ===== *)
theory Sample
  imports TaskModel
begin

section \<open>A small database\<close>

text \<open>
  Two workspaces, of one board each. \<open>b1\<close> has the columns \<open>c1\<close> (tasks \<open>t1\<close>, \<open>t2\<close>, whose positions are
  too close to split, and \<open>t3\<close>) and \<open>c2\<close> (task \<open>t4\<close>). The theorems of the other theories are
  applied to it, so that their hypotheses are seen to hold together.
\<close>

definition sampleTask :: "string \<Rightarrow> string \<Rightarrow> string \<Rightarrow> number \<Rightarrow> task_row" where
  "sampleTask k b c p =
     \<lparr>t_id = js k, t_boardId = js b, t_columnId = js c, t_title = js ''title'', t_description = None,
      t_priority = HIGH, t_position = p, t_dueDate = Some 86400000, t_estimatedMinutes = Some 30,
      t_createdById = js ''u1'', t_createdAt = 0, t_updatedAt = 0\<rparr>"

definition sampleColumn :: "string \<Rightarrow> string \<Rightarrow> number \<Rightarrow> column_row" where
  "sampleColumn k b p = \<lparr>c_id = js k, c_boardId = js b, c_name = js k, c_position = p,
     c_color = None, c_category = UNSTARTED\<rparr>"

definition sampleWorld :: world where
  "sampleWorld = \<lparr>
     users = [\<lparr>u_id = js ''u1'', u_email = js ''a@x'', u_name = js ''A'', u_avatarUrl = None, u_locale = None, u_deletedAt = None, u_emailVerified = True\<rparr>,
              \<lparr>u_id = js ''u2'', u_email = js ''b@x'', u_name = js ''B'', u_avatarUrl = None, u_locale = None, u_deletedAt = None, u_emailVerified = True\<rparr>],
     workspaces = [\<lparr>ws_id = js ''w1'', ws_name = js ''W'', ws_slug = js ''w'', ws_createdAt = 0\<rparr>,
                   \<lparr>ws_id = js ''w2'', ws_name = js ''V'', ws_slug = js ''v'', ws_createdAt = 0\<rparr>],
     members = [\<lparr>m_id = js ''m1'', m_workspaceId = js ''w1'', m_userId = js ''u1'', m_role = OWNER, m_createdAt = 0\<rparr>,
                \<lparr>m_id = js ''m2'', m_workspaceId = js ''w1'', m_userId = js ''u2'', m_role = MEMBER, m_createdAt = 0\<rparr>],
     boards = [\<lparr>b_id = js ''b1'', b_workspaceId = js ''w1'', b_name = js ''B'', b_description = None, b_createdAt = 0\<rparr>,
               \<lparr>b_id = js ''b2'', b_workspaceId = js ''w2'', b_name = js ''C'', b_description = None, b_createdAt = 0\<rparr>],
     columns = [sampleColumn ''c1'' ''b1'' 1000, sampleColumn ''c2'' ''b1'' 2000, sampleColumn ''c3'' ''b2'' 1000],
     tasks = [sampleTask ''t3'' ''b1'' ''c1'' 2000, sampleTask ''t1'' ''b1'' ''c1'' 1000,
              sampleTask ''t2'' ''b1'' ''c1'' 1000, sampleTask ''t4'' ''b1'' ''c2'' 1000,
              sampleTask ''t5'' ''b2'' ''c3'' 1000],
     assignees = [\<lparr>ta_id = js ''a1'', ta_taskId = js ''t1'', ta_userId = js ''u1''\<rparr>],
     labels = [\<lparr>l_id = js ''l1'', l_boardId = js ''b1'', l_name = js ''bug'', l_color = js ''slot-2''\<rparr>],
     taskLabels = [],
     comments = [\<lparr>co_id = js ''o1'', co_taskId = js ''t1'', co_userId = js ''u1'', co_body = js ''hi'', co_createdAt = 0\<rparr>],
     attachments = [],
     checklists = [\<lparr>cl_id = js ''k1'', cl_taskId = js ''t1'', cl_title = js ''list'', cl_position = 1000\<rparr>],
     checklistItems = [\<lparr>ci_id = js ''i1'', ci_checklistId = js ''k1'', ci_content = js ''x'', ci_isDone = True, ci_position = 1000\<rparr>,
                       \<lparr>ci_id = js ''i2'', ci_checklistId = js ''k1'', ci_content = js ''y'', ci_isDone = False, ci_position = 2000\<rparr>],
     activities = [],
     notifications = [\<lparr>n_id = js ''n1'', n_workspaceId = js ''w1'', n_userId = js ''u2'', n_type = Mention,
                        n_taskId = Some (js ''t1''), n_activityId = None, n_payload = [], n_readAt = None, n_createdAt = 0\<rparr>],
     invitations = [],
     sessions = [\<lparr>se_id = js ''s1'', se_userId = js ''u1'', se_expiresAt = 5000\<rparr>,
                 \<lparr>se_id = js ''s2'', se_userId = js ''u2'', se_expiresAt = 500\<rparr>],
     accounts = [\<lparr>ac_id = js ''ac1'', ac_userId = js ''u1''\<rparr>],
     verifications = [], usagePings = [], w_files = [],
     w_evicted = [], w_log = [],
     w_published = [], w_socketServer = True, w_now = 1000,
     w_uuid = (\<lambda>n. js ''z'' @ replicate n 0x30), w_seq = 0,
     w_newDate = (\<lambda>s. if s = js ''tomorrow'' then Some 172800000 else None)\<rparr>"

lemma sampleWorld_wellFormed: "wellFormed sampleWorld"
proof -
  have "inj (\<lambda>n. (122 :: code_unit) # replicate n 48)"
    by (rule injI) (metis length_Cons length_replicate nat.inject)
  moreover have "[] \<notin> range (\<lambda>n. (122 :: code_unit) # replicate n 48)" by auto
  ultimately show ?thesis
    by (simp add: wellFormed_def usedIds_def sampleWorld_def sampleTask_def sampleColumn_def)
qed

lemma sampleWorld_safe:
  "t \<in> set (tasks sampleWorld) \<Longrightarrow> safe_position (t_position t)"
proof -
  have "is_double 1000" "is_double 2000"
    using is_double_of_int [of 1000] is_double_of_int [of 2000] by simp_all
  then show "t \<in> set (tasks sampleWorld) \<Longrightarrow> safe_position (t_position t)"
    by (auto simp: sampleWorld_def sampleTask_def safe_position_def)
qed

lemma succeeds: "\<not> is_error (fst p) \<Longrightarrow> \<exists>a w'. p = (Inr a, w')"
  by (cases p) (auto simp: not_is_error)

declare sampleWorld_def [handler_defs] sampleTask_def [handler_defs] sampleColumn_def [handler_defs]

end
