(* ===== verification/TaskOrder.thy ===== *)
theory TaskOrder
  imports TaskService Sample
begin

section \<open>The order of a column's tasks\<close>

text \<open>
  What \<open>create\<close> and \<open>move\<close> do to the order in which a column shows its tasks. \<open>columnOrder\<close> is
  that order; both operations implement the abstract list insertion \<open>placed\<close> of Ordering, whether
  they split a gap or respread the column, and no other column changes.
\<close>

definition columnItems :: "world \<Rightarrow> uuid \<Rightarrow> item list" where
  "columnItems w columnId = map taskItem (filter (\<lambda>t. t_columnId t = columnId) (tasks w))"

definition columnOrder :: "world \<Rightarrow> uuid \<Rightarrow> uuid list" where
  "columnOrder w columnId = map item_id (taskSiblings w columnId)"

definition columnSafe :: "world \<Rightarrow> uuid \<Rightarrow> bool" where
  \<comment> \<open>the column is within the range the arithmetic is exact enough for\<close>
  "columnSafe w columnId \<longleftrightarrow>
     (\<forall>t \<in> set (tasks w). t_columnId t = columnId \<longrightarrow> safe_position (t_position t))
       \<and> length (columnItems w columnId) < MAX_SIBLINGS"

lemma taskItem_sel [simp]:
  "item_id (taskItem t) = t_id t" "item_position (taskItem t) = t_position t"
  by (simp_all add: taskItem_def)

lemma taskSiblings_items: "taskSiblings w c = orderedItems (columnItems w c)"
  by (simp add: taskSiblings_def columnItems_def)

lemma set_columnItems: "set (columnItems w c) = taskItem ` {t \<in> set (tasks w). t_columnId t = c}"
  by (auto simp: columnItems_def)

lemma distinct_columnItems:
  assumes "distinct (map t_id (tasks w))"
  shows "distinct (map item_id (columnItems w c))"
proof -
  have "map item_id (columnItems w c) = map t_id (filter (\<lambda>t. t_columnId t = c) (tasks w))"
    by (simp add: columnItems_def comp_def)
  with assms show ?thesis by (simp add: distinct_map_filter)
qed

lemma taskSiblings_facts:
  assumes "distinct (map t_id (tasks w))"
  shows "distinct (map item_id (taskSiblings w c))"
    and "sorted_wrt (<) (map item_key (taskSiblings w c))"
    and "set (taskSiblings w c) = set (columnItems w c)"
    and "length (taskSiblings w c) = length (columnItems w c)"
  using distinct_columnItems [OF assms, of c] orderedItems_strict [of "columnItems w c"]
  by (simp_all add: taskSiblings_items sorted_wrt_map)

lemma taskSiblings_safe:
  assumes "columnSafe w c" and "distinct (map t_id (tasks w))"
  shows "\<forall>s \<in> set (taskSiblings w c). safe_position (item_position s)"
    and "length (taskSiblings w c) < MAX_SIBLINGS"
  using assms(1) by (auto simp: taskSiblings_facts [OF assms(2)] set_columnItems columnSafe_def)

text \<open>The columns whose rows are untouched keep their order.\<close>

lemma taskSiblings_cong:
  assumes "filter (\<lambda>t. t_columnId t = c) (tasks w') = filter (\<lambda>t. t_columnId t = c) (tasks w)"
  shows "taskSiblings w' c = taskSiblings w c"
  by (simp add: taskSiblings_items columnItems_def assms)

lemma batchUpdateTaskPositions_eq:
  "batchUpdateTaskPositions c updates w = w\<lparr>tasks := map (\<lambda>t. if t_columnId t = c
     then t\<lparr>t_position := applyUpdates updates (t_id t) (t_position t)\<rparr> else t) (tasks w)\<rparr>"
proof (cases "updates = []")
  case True
  then show ?thesis by (simp add: batchUpdateTaskPositions_def applyUpdates_def cong: if_cong)
qed (simp add: batchUpdateTaskPositions_def)

lemma columnItems_batch:
  "columnItems (batchUpdateTaskPositions c updates w) c = map (updateItem updates) (columnItems w c)"
  "c' \<noteq> c \<Longrightarrow> columnItems (batchUpdateTaskPositions c updates w) c' = columnItems w c'"
proof -
  have "map taskItem (filter (\<lambda>t. t_columnId t = c') (map (\<lambda>t. if t_columnId t = c
      then t\<lparr>t_position := applyUpdates updates (t_id t) (t_position t)\<rparr> else t) ts)) =
    (if c' = c then map (updateItem updates) (map taskItem (filter (\<lambda>t. t_columnId t = c) ts))
     else map taskItem (filter (\<lambda>t. t_columnId t = c') ts))" for c' ts
    by (induction ts) (auto simp: taskItem_def)
  then show "columnItems (batchUpdateTaskPositions c updates w) c = map (updateItem updates) (columnItems w c)"
    "c' \<noteq> c \<Longrightarrow> columnItems (batchUpdateTaskPositions c updates w) c' = columnItems w c'"
    by (simp_all add: columnItems_def batchUpdateTaskPositions_eq)
qed

subsection \<open>create\<close>

lemma create_success:
  assumes "TaskService_create ws bid uid dto w = (Inr r, w')"
  obtains column attributes slot position w1 created w2 where
    "findBoard w ws bid \<noteq> None"
    "find (\<lambda>c. c_id c = cr_columnId dto \<and> c_boardId c = bid \<and> boardIn w ws bid) (columns w) = Some column"
    "createTaskAttributes (w_newDate w) dto = Inr attributes"
    "resolveCreateNeighbors (taskSiblings w (c_id column)) (cr_afterTaskId dto) ''Task not found'' = Inr slot"
    "placeCreated (c_id column) (taskSiblings w (c_id column)) slot w = (Inr position, w1)"
    "insertTask bid (c_id column) attributes position uid w1 = (Inr created, w2)"
    "tasks w' = tasks w2"
    "r = toTaskDetailDto (emptyTaskRelations created)"
  using assms that
  by (auto simp: TaskService_create_def findColumnOnBoard_def assertBoard_def bindE_Inr)

lemma insertTask_Inr:
  assumes "insertTask bid cid attributes position uid w = (Inr created, w')"
  shows "tasks w' = tasks w @ [created]" and "t_id created = freshId w"
    and "t_columnId created = cid" and "t_position created = position" and "t_boardId created = bid"
    and "w' = w\<lparr>w_seq := Suc (w_seq w), tasks := tasks w @ [created]\<rparr>"
  using assms by (auto simp: insertTask_def tick_def Let_def split: if_splits)

lemma toTaskDetailDto_sel [simp]:
  "d_id (toTaskDetailDto (emptyTaskRelations t)) = t_id t"
  "d_columnId (toTaskDetailDto (emptyTaskRelations t)) = t_columnId t"
  by (simp_all add: toTaskDetailDto_def toTaskCore_def emptyTaskRelations_def Let_def)

lemma placeCreated_Inr:
  assumes "placeCreated c (taskSiblings w c) slot w = (Inr position, w1)"
  shows "position = slotPosition slot (length (taskSiblings w c) + 1)"
    and "columnItems w1 c = (if tightSlot slot then map (updateItem (createUpdates (taskSiblings w c)
      (insertionIndex slot) (rebalancePositions (length (taskSiblings w c) + 1) POSITION_GAP))) (columnItems w c)
      else columnItems w c)"
  using assms by (auto simp: placeCreated_def slotPosition_def Let_def columnItems_batch split: if_splits)

lemma order_after_create:
  assumes ids: "distinct (map t_id (tasks w))" and fresh: "t_id new \<notin> t_id ` set (tasks w)"
    and safe: "columnSafe w c"
    and slot: "resolveCreateNeighbors (taskSiblings w c) after msg = Inr slot"
    and place: "placeCreated c (taskSiblings w c) slot w = (Inr position, w1)"
    and new: "t_columnId new = c" "t_position new = position"
    and result: "tasks w' = tasks w1 @ [new]"
  shows "columnOrder w' c = splice_in (insertionIndex slot) (t_id new) (columnOrder w c)"
proof -
  have "columnItems w' c = columnItems w1 c
      @ [\<lparr>item_id = t_id new, item_position = slotPosition slot (length (taskSiblings w c) + 1)\<rparr>]"
    using placeCreated_Inr(1) [OF place] by (simp add: columnItems_def result new taskItem_def)
  moreover have "t_id new \<notin> item_id ` set (columnItems w c)"
    using fresh by (auto simp: set_columnItems)
  ultimately show ?thesis
    using order_created [OF distinct_columnItems [OF ids] _ _ _ taskSiblings_items slot placeCreated_Inr(2) [OF place]]
      safe by (auto simp: columnOrder_def taskSiblings_items [of w'] columnSafe_def set_columnItems)
qed

lemma placeCreated_frame:
  assumes "placeCreated c siblings slot w = (Inr position, w1)"
  shows "freshId w1 = freshId w" and "map t_id (tasks w1) = map t_id (tasks w)"
    and "c' \<noteq> c \<Longrightarrow> filter (\<lambda>t. t_columnId t = c') (tasks w1) = filter (\<lambda>t. t_columnId t = c') (tasks w)"
proof -
  have batch: "filter (\<lambda>t. t_columnId t = c') (map (\<lambda>t. if t_columnId t = c then g t else t) ts) =
      filter (\<lambda>t. t_columnId t = c') ts" if "c' \<noteq> c" "\<And>t. t_columnId (g t) = t_columnId t" for c' g ts
    using that by (induction ts) auto
  show "freshId w1 = freshId w" "map t_id (tasks w1) = map t_id (tasks w)"
    "c' \<noteq> c \<Longrightarrow> filter (\<lambda>t. t_columnId t = c') (tasks w1) = filter (\<lambda>t. t_columnId t = c') (tasks w)"
    using assms
    by (auto simp: placeCreated_def Let_def batchUpdateTaskPositions_eq freshId_def batch split: if_splits)
qed

text \<open>
  C1. Creating a task inserts it into its column's displayed order at the requested place: directly
  after the task \<open>afterTaskId\<close> names, at the end when it names none. The other tasks keep their
  relative order, whether the gap was split or the whole column respread, and no other column
  changes.
\<close>

theorem create_places_task:
  assumes "wellFormed w" and "columnSafe w (cr_columnId dto)"
    and "TaskService_create workspaceId boardId userId dto w = (Inr result, w')"
  shows "placed (cr_afterTaskId dto) Undefined (d_id result)
      (columnOrder w (cr_columnId dto)) (columnOrder w' (cr_columnId dto))
    \<and> d_columnId result = cr_columnId dto
    \<and> (\<forall>other. other \<noteq> cr_columnId dto \<longrightarrow> columnOrder w' other = columnOrder w other)"
proof -
  obtain column attributes slot position w1 created w2 where
    "findBoard w workspaceId boardId \<noteq> None" and
    column: "find (\<lambda>c. c_id c = cr_columnId dto \<and> c_boardId c = boardId
      \<and> boardIn w workspaceId boardId) (columns w) = Some column"
    and "createTaskAttributes (w_newDate w) dto = Inr attributes"
    and slot: "resolveCreateNeighbors (taskSiblings w (c_id column)) (cr_afterTaskId dto)
      ''Task not found'' = Inr slot"
    and place: "placeCreated (c_id column) (taskSiblings w (c_id column)) slot w = (Inr position, w1)"
    and insert: "insertTask boardId (c_id column) attributes position userId w1 = (Inr created, w2)"
    and w': "tasks w' = tasks w2" and result: "result = toTaskDetailDto (emptyTaskRelations created)"
    by (rule create_success [OF assms(3)])
  let ?c = "cr_columnId dto"
  have cid: "c_id column = ?c" using find_Some_D [OF column] by simp
  note created = insertTask_Inr [OF insert] and frame = placeCreated_frame [OF place]
  have ids: "distinct (map t_id (tasks w))" and fresh: "freshId w \<notin> usedIds w"
    using assms(1) by (rule wellFormedD)+
  have "t_id created \<notin> t_id ` set (tasks w)"
    using fresh by (simp add: created frame usedIds_def)
  then have "columnOrder w' ?c = splice_in (insertionIndex slot) (t_id created) (columnOrder w ?c)"
    using order_after_create [OF ids _ assms(2) slot [unfolded cid] place [unfolded cid],
        of created w'] created(1,3,4) w' cid by simp
  moreover have "columnOrder w' other = columnOrder w other" if "other \<noteq> ?c" for other
    using that frame(3) [of other] unfolding columnOrder_def cid
    by (intro arg_cong [of _ _ "map item_id"] taskSiblings_cong) (simp add: w' created cid)
  ultimately show ?thesis
    using placed_create [OF slot, of "t_id created"]
    by (simp add: result created cid columnOrder_def)
qed

lemma sampleWorld_columnSafe: "columnSafe sampleWorld c"
proof -
  have "length (columnItems sampleWorld c) \<le> length (tasks sampleWorld)"
    by (simp add: columnItems_def)
  also have "\<dots> < MAX_SIBLINGS" by (simp add: sampleWorld_def MAX_SIBLINGS_def)
  finally show ?thesis using sampleWorld_safe by (simp add: columnSafe_def)
qed

definition sampleCreate :: CreateTaskDto where
  \<comment> \<open>a task after \<open>t1\<close>: the gap to \<open>t2\<close> is closed, so the column is respread\<close>
  "sampleCreate = \<lparr>cr_title = js ''new'', cr_columnId = js ''c1'', cr_description = Undefined,
     cr_priority = Undefined, cr_dueDate = Value (js ''tomorrow''), cr_estimatedMinutes = Null,
     cr_afterTaskId = Value (js ''t1'')\<rparr>"

theorem create_places_task_witness:
  "\<exists>result w'. TaskService_create (js ''w1'') (js ''b1'') (js ''u1'') sampleCreate sampleWorld = (Inr result, w')
    \<and> placed (Value (js ''t1'')) Undefined (d_id result)
        (columnOrder sampleWorld (js ''c1'')) (columnOrder w' (js ''c1''))"
proof -
  have "\<not> is_error (fst (TaskService_create (js ''w1'') (js ''b1'') (js ''u1'') sampleCreate sampleWorld))"
    by (simp add: handler_defs sampleCreate_def)
  then obtain result w' where run:
    "TaskService_create (js ''w1'') (js ''b1'') (js ''u1'') sampleCreate sampleWorld = (Inr result, w')"
    by (blast dest: succeeds)
  with create_places_task [OF sampleWorld_wellFormed sampleWorld_columnSafe run] show ?thesis
    by (auto simp: sampleCreate_def)
qed

subsection \<open>move\<close>

lemma updateTaskRow_Inr:
  assumes "updateTaskRow ws tid change w = (Inr row, w')" and "distinct (map t_id (tasks w))"
  obtains t where "findTaskRow w ws tid = Some t" and "row = (change t)\<lparr>t_updatedAt := w_now w\<rparr>"
    and "w' = w\<lparr>tasks := map (\<lambda>x. if t_id x = tid then row else x) (tasks w)\<rparr>"
proof -
  from assms(1) obtain t where t: "findTaskRow w ws tid = Some t"
    and row: "row = (change t)\<lparr>t_updatedAt := w_now w\<rparr>"
    and w': "w' = w\<lparr>tasks := map (\<lambda>x. if t_id x = tid \<and> boardIn w ws (t_boardId x)
      then row else x) (tasks w)\<rparr>"
    by (auto simp: updateTaskRow_def Let_def split: option.splits)
  have "boardIn w ws (t_boardId x)" if "x \<in> set (tasks w)" "t_id x = tid" for x
    using findTaskRow_Some [OF t] inj_on_id [OF assms(2) that(1)] that(2) by metis
  then have "map (\<lambda>x. if t_id x = tid \<and> boardIn w ws (t_boardId x) then row else x) (tasks w) =
      map (\<lambda>x. if t_id x = tid then row else x) (tasks w)"
    by (intro map_cong) auto
  with t row w' that show thesis by simp
qed

lemma replace_ids:
  assumes "t_id row = tid"
  shows "map t_id (map (\<lambda>x. if t_id x = tid then row else x) ts) = map t_id ts"
  using assms by (induction ts) auto

text \<open>Replacing one row: its old column loses it, its new column gains it.\<close>

lemma columnItems_replaced:
  assumes "tasks w' = map (\<lambda>x. if t_id x = tid then row else x) (tasks w)" and "t_id row = tid"
    and "tid \<in> t_id ` set (tasks w)"
  shows "set (columnItems w' (t_columnId row)) =
      insert (taskItem row) {s \<in> set (columnItems w (t_columnId row)). item_id s \<noteq> tid}"
    and "c \<noteq> t_columnId row \<Longrightarrow> columnItems w' c = filter (\<lambda>s. item_id s \<noteq> tid) (columnItems w c)"
proof -
  show "set (columnItems w' (t_columnId row)) =
      insert (taskItem row) {s \<in> set (columnItems w (t_columnId row)). item_id s \<noteq> tid}"
    unfolding set_columnItems assms(1) using assms(2,3) by (auto split: if_splits)
  have "c \<noteq> t_columnId row \<Longrightarrow>
      map taskItem (filter (\<lambda>t. t_columnId t = c) (map (\<lambda>x. if t_id x = tid then row else x) ts)) =
      filter (\<lambda>s. item_id s \<noteq> tid) (map taskItem (filter (\<lambda>t. t_columnId t = c) ts))" for ts
    using assms(2) by (induction ts) auto
  then show "c \<noteq> t_columnId row \<Longrightarrow> columnItems w' c = filter (\<lambda>s. item_id s \<noteq> tid) (columnItems w c)"
    by (simp add: columnItems_def assms(1))
qed

lemma remaining_facts:
  assumes "distinct (map t_id (tasks w))" and "columnSafe w c"
    and "remaining = filter (\<lambda>s. item_id s \<noteq> tid) (taskSiblings w c)"
  shows "distinct (map item_id remaining)" and "sorted_wrt (<) (map item_key remaining)"
    and "\<forall>s \<in> set remaining. safe_position (item_position s)"
    and "length remaining < MAX_SIBLINGS" and "tid \<notin> item_id ` set remaining"
    and "set remaining = {s \<in> set (columnItems w c). item_id s \<noteq> tid}"
proof -
  note facts = taskSiblings_facts [OF assms(1), of c] and safety = taskSiblings_safe [OF assms(2,1)]
  show "distinct (map item_id remaining)"
    using facts(1) by (simp add: assms(3) distinct_map_filter)
  show "sorted_wrt (<) (map item_key remaining)"
    using facts(2) by (simp add: assms(3) sorted_wrt_map sorted_wrt_filter)
  show "length remaining < MAX_SIBLINGS"
    using le_less_trans [OF length_filter_le safety(2)] by (simp add: assms(3))
qed (use assms(3) taskSiblings_facts(3) [OF assms(1), of c] taskSiblings_safe(1) [OF assms(2,1)] in auto)

lemma order_after_move:
  assumes ids: "distinct (map t_id (tasks w))" and safe: "columnSafe w c"
    and remaining: "remaining = filter (\<lambda>s. item_id s \<noteq> tid) (taskSiblings w c)"
    and slot: "resolveMoveNeighbors remaining prev next = Inr slot"
    and row: "t_id row = tid" "t_columnId row = c" "t_position row = slotPosition slot (length remaining + 1)"
    and old: "tid \<in> t_id ` set (tasks w)" and moved: "item_id moved = tid"
    and tasks1: "tasks w1 = map (\<lambda>x. if t_id x = tid then row else x) (tasks w)"
    and w': "w' = (if tightSlot slot then batchUpdateTaskPositions c (moveUpdates remaining
      (insertionIndex slot) moved (rebalancePositions (length remaining + 1) POSITION_GAP)) w1 else w1)"
  shows "columnOrder w' c = splice_in (insertionIndex slot) tid (map item_id remaining)"
proof -
  note rem = remaining_facts [OF ids safe remaining]
  let ?updates = "moveUpdates remaining (insertionIndex slot) moved
    (rebalancePositions (length remaining + 1) POSITION_GAP)"
  let ?new = "\<lparr>item_id = tid, item_position = slotPosition slot (length remaining + 1)\<rparr>"
  have row_item: "taskItem row = ?new" by (simp add: taskItem_def row)
  have items1: "set (columnItems w1 c) = insert ?new (set remaining)"
    using columnItems_replaced(1) [OF tasks1 row(1) old] by (simp add: rem(6) row(2) row_item)
  have "distinct (map t_id (tasks w1))"
    using ids unfolding tasks1 replace_ids [OF row(1)] .
  then have dist1: "distinct (map item_id (columnItems w1 c))" by (rule distinct_columnItems)
  have "updateItem ?updates ?new = ?new"
    using map_of_moveUpdates_None [of remaining "insertionIndex slot" moved] by (simp add: applyUpdates_def moved)
  then have "set (columnItems w' c) = insert ?new
      (if tightSlot slot then updateItem ?updates ` set remaining else set remaining)"
    by (simp add: w' columnItems_batch items1)
  moreover have "map item_id (columnItems w' c) = map item_id (columnItems w1 c)"
    by (simp add: w' columnItems_batch comp_def)
  then have "distinct (columnItems w' c)" using dist1 distinct_ids_items by metis
  ultimately show ?thesis
    unfolding columnOrder_def taskSiblings_items [of w']
    by (intro order_moved [OF rem(1-5) slot moved])
qed

lemma taskDetailInclude_cong:
  assumes "assignees w' = assignees w" "users w' = users w" "labels w' = labels w"
    "taskLabels w' = taskLabels w" "checklists w' = checklists w" "checklistItems w' = checklistItems w"
  shows "taskDetailInclude w' = taskDetailInclude w"
  using assms by (intro ext) (simp add: taskDetailInclude_def includeAssignees_def includeLabels_def
      checklistDetailInclude_def findUser_def)

lemma countAttachments_cong: "attachments w' = attachments w \<Longrightarrow> countAttachments w' t = countAttachments w t"
  by (simp add: countAttachments_def)

lemma move_success:
  assumes "TaskService_move ws tid uid dto w = (Inr r, w')"
  obtains task target slot payload w2 where
    "findTaskRow w ws tid = Some task"
    "findColumnRow w ws (mv_columnId dto) = Some target"
    "c_boardId target = t_boardId task"
    "resolveMoveNeighbors (filter (\<lambda>s. item_id s \<noteq> tid) (taskSiblings w (c_id target)))
       (mv_beforeTaskId dto) (mv_afterTaskId dto) = Inr slot"
    "placeMoved ws task target (filter (\<lambda>s. item_id s \<noteq> tid) (taskSiblings w (c_id target))) slot
       (countAttachments w tid) w = (Inr r, w2)"
    "w' = emitToBoard (d_boardId r) (TASK_MOVED (taskScope ws (d_boardId r) uid) (d_id r)
       (d_columnId r) (d_position r)) (logActivity ws (Some tid) uid TaskMoved payload w2)"
  using assms that
  by (auto simp: TaskService_move_def bindE_Inr Let_def)

lemma toTaskDetailDto_detail [simp]:
  "d_id (toTaskDetailDto (taskDetailInclude w n t)) = t_id t"
  "d_columnId (toTaskDetailDto (taskDetailInclude w n t)) = t_columnId t"
  by (simp_all add: toTaskDetailDto_def toTaskCore_def taskDetailInclude_def Let_def)

lemma placeMoved_success:
  assumes "placeMoved ws task target remaining slot n w = (Inr r, w')"
    and task: "findTaskRow w ws tid = Some task" and "distinct (map t_id (tasks w))"
  obtains row w1 where "w1 = w\<lparr>tasks := map (\<lambda>x. if t_id x = tid then row else x) (tasks w)\<rparr>"
    and "t_id row = tid" and "t_columnId row = c_id target" and "t_boardId row = t_boardId task"
    and "r = toTaskDetailDto (taskDetailInclude w n row)"
    and "t_position row = slotPosition slot (length remaining + 1)"
    and "w' = (if tightSlot slot then batchUpdateTaskPositions (c_id target) (moveUpdates remaining
      (insertionIndex slot) (taskItem task) (rebalancePositions (length remaining + 1) POSITION_GAP)) w1 else w1)"
proof -
  have tid: "t_id task = tid" using findTaskRow_Some [OF task] by simp
  show thesis
  proof (cases "needsRebalance (map_option item_position (slot_prev slot))
      (map_option item_position (slot_next slot))")
    case True
    let ?ps = "rebalancePositions (length remaining + 1) POSITION_GAP"
    from True assms(1) obtain row w1 where upd: "updateTaskRow ws tid
        (\<lambda>t. t\<lparr>t_position := ?ps ! insertionIndex slot, t_columnId := c_id target\<rparr>) w = (Inr row, w1)"
      and w': "w' = batchUpdateTaskPositions (c_id target)
        (moveUpdates remaining (insertionIndex slot) (taskItem task) ?ps) w1"
      and r: "r = toTaskDetailDto (taskDetailInclude w' n (task\<lparr>t_columnId := c_id target,
        t_position := ?ps ! insertionIndex slot, t_updatedAt := w_now w'\<rparr>))"
      by (auto simp: placeMoved_def Let_def bindE_Inr tid)
    from updateTaskRow_Inr [OF upd assms(3)] task obtain
      "row = task\<lparr>t_position := ?ps ! insertionIndex slot, t_columnId := c_id target,
        t_updatedAt := w_now w\<rparr>"
      "w1 = w\<lparr>tasks := map (\<lambda>x. if t_id x = tid then row else x) (tasks w)\<rparr>"
      by fastforce
    note rw = this
    have "task\<lparr>t_columnId := c_id target, t_position := ?ps ! insertionIndex slot,
        t_updatedAt := w_now w\<rparr> = row"
      unfolding rw(1) by (cases task) simp
    moreover have "taskDetailInclude w' = taskDetailInclude w" and "w_now w' = w_now w"
      by (intro taskDetailInclude_cong; simp add: w' rw(2) batchUpdateTaskPositions_eq)
        (simp add: w' rw(2) batchUpdateTaskPositions_eq)
    ultimately have "r = toTaskDetailDto (taskDetailInclude w n row)"
      by (simp only: r)
    with rw show thesis using True w' tid by (intro that [of w1 row]) (simp_all add: slotPosition_def Let_def)
  next
    case False
    let ?mid = "midpoint (map_option item_position (slot_prev slot)) (map_option item_position (slot_next slot))"
    from False assms(1) obtain row w1 where upd: "updateTaskRow ws tid
        (\<lambda>t. t\<lparr>t_columnId := c_id target, t_position := ?mid\<rparr>) w = (Inr row, w1)"
      and w': "w' = w1" and r: "r = toTaskDetailDto (taskDetailInclude w1 n row)"
      by (auto simp: placeMoved_def Let_def bindE_Inr tid)
    from updateTaskRow_Inr [OF upd assms(3)] task obtain
      "row = task\<lparr>t_columnId := c_id target, t_position := ?mid, t_updatedAt := w_now w\<rparr>"
      "w1 = w\<lparr>tasks := map (\<lambda>x. if t_id x = tid then row else x) (tasks w)\<rparr>"
      by fastforce
    moreover from this have "r = toTaskDetailDto (taskDetailInclude w n row)"
      by (simp add: r taskDetailInclude_cong [of "w\<lparr>tasks := _\<rparr>" w])
    ultimately show thesis using False w' tid by (intro that [of w1 row]) (simp_all add: slotPosition_def Let_def)
  qed
qed

text \<open>
  C2. Moving a task takes it out of the order of the column it was in and inserts it into the target
  column at the requested place: directly after \<open>beforeTaskId\<close>, directly before \<open>afterTaskId\<close>, at the
  end when neither is named. Every other column keeps its order.
\<close>

theorem move_places_task:
  assumes "wellFormed w" and "columnSafe w (mv_columnId dto)"
    and "TaskService_move workspaceId taskId userId dto w = (Inr result, w')"
  shows "placed (mv_beforeTaskId dto) (mv_afterTaskId dto) taskId
      (filter (\<lambda>k. k \<noteq> taskId) (columnOrder w (mv_columnId dto))) (columnOrder w' (mv_columnId dto))
    \<and> d_id result = taskId \<and> d_columnId result = mv_columnId dto
    \<and> (\<forall>other. other \<noteq> mv_columnId dto \<longrightarrow>
        columnOrder w' other = filter (\<lambda>k. k \<noteq> taskId) (columnOrder w other))"
proof -
  let ?c = "mv_columnId dto"
  let ?remaining = "filter (\<lambda>s. item_id s \<noteq> taskId) (taskSiblings w ?c)"
  note ids = wellFormedD(3) [OF assms(1)]
  obtain task target slot payload w2 where task: "findTaskRow w workspaceId taskId = Some task"
    and target: "findColumnRow w workspaceId ?c = Some target"
    and "c_boardId target = t_boardId task"
    and slot: "resolveMoveNeighbors (filter (\<lambda>s. item_id s \<noteq> taskId) (taskSiblings w (c_id target)))
      (mv_beforeTaskId dto) (mv_afterTaskId dto) = Inr slot"
    and place: "placeMoved workspaceId task target (filter (\<lambda>s. item_id s \<noteq> taskId)
      (taskSiblings w (c_id target))) slot (countAttachments w taskId) w = (Inr result, w2)"
    and w': "w' = emitToBoard (d_boardId result) (TASK_MOVED (taskScope workspaceId (d_boardId result) userId)
       (d_id result) (d_columnId result) (d_position result))
       (logActivity workspaceId (Some taskId) userId TaskMoved payload w2)"
    by (rule move_success [OF assms(3)])
  have cid: "c_id target = ?c" using findColumnRow_Some [OF target] by simp
  have tid: "taskId \<in> t_id ` set (tasks w)" "t_id task = taskId"
    using findTaskRow_Some [OF task] by auto
  note slot = slot [unfolded cid] and place = place [unfolded cid]
  obtain row w1 where w1: "w1 = w\<lparr>tasks := map (\<lambda>x. if t_id x = taskId then row else x) (tasks w)\<rparr>"
    and row: "t_id row = taskId" "t_columnId row = c_id target" "t_boardId row = t_boardId task"
    and r: "result = toTaskDetailDto (taskDetailInclude w (countAttachments w taskId) row)"
    and pos: "t_position row = slotPosition slot (length ?remaining + 1)"
    and w2: "w2 = (if tightSlot slot then batchUpdateTaskPositions (c_id target) (moveUpdates ?remaining
      (insertionIndex slot) (taskItem task) (rebalancePositions (length ?remaining + 1) POSITION_GAP)) w1 else w1)"
    by (rule placeMoved_success [OF place task ids])
  have tasks1: "tasks w1 = map (\<lambda>x. if t_id x = taskId then row else x) (tasks w)"
    by (simp add: w1)
  have "columnOrder w2 ?c = splice_in (insertionIndex slot) taskId (map item_id ?remaining)"
    using order_after_move [OF ids assms(2) refl slot row(1) row(2) [unfolded cid] pos tid(1) _ tasks1
        w2 [unfolded cid]] tid(2) by simp
  moreover have "columnOrder w' other = columnOrder w2 other" for other
    by (simp add: columnOrder_def taskSiblings_def w')
  moreover have "map item_id ?remaining = filter (\<lambda>k. k \<noteq> taskId) (columnOrder w ?c)"
    by (simp add: columnOrder_def filter_map comp_def)
  moreover have "\<forall>x \<in> set ?remaining. item_id x \<noteq> []"
    using wellFormedD(7) [OF assms(1)] by (auto simp: taskSiblings_facts [OF ids] set_columnItems)
  moreover have "columnOrder w2 other = filter (\<lambda>k. k \<noteq> taskId) (columnOrder w other)" if "other \<noteq> ?c" for other
  proof -
    have "columnItems w2 other = columnItems w1 other"
      using columnItems_batch(2) [of other "c_id target"] that cid by (simp add: w2)
    also have "\<dots> = filter (\<lambda>s. item_id s \<noteq> taskId) (columnItems w other)"
      using that cid row by (intro columnItems_replaced(2) [OF tasks1 row(1) tid(1)]) simp
    finally show ?thesis
      by (simp add: columnOrder_def taskSiblings_items orderedItems_filter filter_map comp_def)
  qed
  ultimately show ?thesis using placed_move [OF slot, of taskId] by (simp add: r row cid)
qed

definition sampleMove :: MoveTaskDto where
  \<comment> \<open>\<open>t4\<close> of the other column between \<open>t1\<close> and \<open>t2\<close>\<close>
  "sampleMove = \<lparr>mv_columnId = js ''c1'', mv_beforeTaskId = Value (js ''t1''),
     mv_afterTaskId = Value (js ''t2'')\<rparr>"

theorem move_places_task_witness:
  "\<exists>result w'. TaskService_move (js ''w1'') (js ''t4'') (js ''u1'') sampleMove sampleWorld = (Inr result, w')
    \<and> placed (Value (js ''t1'')) (Value (js ''t2'')) (js ''t4'')
        (filter (\<lambda>k. k \<noteq> js ''t4'') (columnOrder sampleWorld (js ''c1''))) (columnOrder w' (js ''c1''))"
proof -
  have "\<not> is_error (fst (TaskService_move (js ''w1'') (js ''t4'') (js ''u1'') sampleMove sampleWorld))"
    by (simp add: handler_defs sampleMove_def)
  then obtain result w' where run:
    "TaskService_move (js ''w1'') (js ''t4'') (js ''u1'') sampleMove sampleWorld = (Inr result, w')"
    by (blast dest: succeeds)
  with move_places_task [OF sampleWorld_wellFormed sampleWorld_columnSafe run] show ?thesis
    by (auto simp: sampleMove_def)
qed

end
