(* ===== verification/TaskProps.thy ===== *)
theory TaskProps
  imports TaskOrder
begin

section \<open>What the task operations promise\<close>

text \<open>
  A PATCH writes exactly when it changes something visible, the response of an update or a move is
  what a later read returns, a failed request leaves the database as it was, a deleted task is gone
  with everything that referred to it, an assignment notifies the assignee once and only if someone
  else made it, and the pages of a filtered task list are the matching tasks, each once.
\<close>

subsection \<open>What a PATCH changes\<close>

lemma changedField_Nil: "changedField key toJson stored sent = [] \<longleftrightarrow> patched stored sent = stored"
  by (cases sent) (auto simp: changedField_def)

lemma changedField_keys:
  "fst ` set (changedField key toJson stored sent) = (if patched stored sent = stored then {} else {key})"
  by (cases sent) (auto simp: changedField_def)

lemma patched_sentField: "patched (Some a) (sentField f) = Some (case f of None \<Rightarrow> a | Some b \<Rightarrow> b)"
  by (cases f) (simp_all add: sentField_def)

lemma patched_dueIso:
  "patched (map_option toISOString stored) (dueIso due) = map_option toISOString (patched stored due)"
  by (cases due) (simp_all add: dueIso_def)

lemma plan_parts:
  assumes "planTaskUpdate newDate existing dto = Inr plan"
  obtains dueDate where "parseDueDate newDate (up_dueDate dto) = Inr dueDate"
    and "plan_changes plan =
      changedField ''title'' JString (Some (t_title existing)) (sentField (up_title dto))
      @ changedField ''description'' JString (t_description existing) (up_description dto)
      @ changedField ''priority'' (\<lambda>p. JString (priority_name p)) (Some (t_priority existing))
          (sentField (up_priority dto))
      @ changedField ''dueDate'' JString (map_option toISOString (t_dueDate existing)) (dueIso dueDate)
      @ changedField ''estimatedMinutes'' json_int (t_estimatedMinutes existing) (up_estimatedMinutes dto)"
    and "plan_data plan = \<lparr>pt_title = up_title dto, pt_description = up_description dto,
      pt_priority = up_priority dto, pt_dueDate = dueDate, pt_estimatedMinutes = up_estimatedMinutes dto\<rparr>"
proof -
  from assms obtain dueDate where due: "parseDueDate newDate (up_dueDate dto) = Inr dueDate"
    by (auto simp: planTaskUpdate_def split: sum.splits)
  with assms show thesis by (intro that [OF due]) (auto simp: planTaskUpdate_def Let_def)
qed

lemma one_key: "{k. k = a \<and> P} = (if \<not> P then {} else {a})" for a :: string
  by auto

text \<open>
  C3. The recorded changes of a PATCH are exactly the fields whose visible value it changes: a field
  re-sent with its stored value is not among them, and a PATCH that changes nothing records nothing.
\<close>

theorem update_plan_exact:
  assumes "planTaskUpdate newDate existing dto = Inr plan"
  shows "fst ` set (plan_changes plan) =
      {k. k = ''title'' \<and> t_title (patchTask (plan_data plan) existing) \<noteq> t_title existing
        \<or> k = ''description'' \<and> t_description (patchTask (plan_data plan) existing) \<noteq> t_description existing
        \<or> k = ''priority'' \<and> t_priority (patchTask (plan_data plan) existing) \<noteq> t_priority existing
        \<or> k = ''dueDate'' \<and> map_option toISOString (t_dueDate (patchTask (plan_data plan) existing))
            \<noteq> map_option toISOString (t_dueDate existing)
        \<or> k = ''estimatedMinutes'' \<and> t_estimatedMinutes (patchTask (plan_data plan) existing)
            \<noteq> t_estimatedMinutes existing}"
proof -
  from plan_parts [OF assms] obtain dueDate where plan: "plan_changes plan =
      changedField ''title'' JString (Some (t_title existing)) (sentField (up_title dto))
      @ changedField ''description'' JString (t_description existing) (up_description dto)
      @ changedField ''priority'' (\<lambda>p. JString (priority_name p)) (Some (t_priority existing))
          (sentField (up_priority dto))
      @ changedField ''dueDate'' JString (map_option toISOString (t_dueDate existing)) (dueIso dueDate)
      @ changedField ''estimatedMinutes'' json_int (t_estimatedMinutes existing) (up_estimatedMinutes dto)"
    and data: "plan_data plan = \<lparr>pt_title = up_title dto, pt_description = up_description dto,
      pt_priority = up_priority dto, pt_dueDate = dueDate, pt_estimatedMinutes = up_estimatedMinutes dto\<rparr>" .
  show ?thesis
    unfolding plan set_append image_Un changedField_keys patched_sentField patched_dueIso
      Collect_disj_eq one_key data
    by (simp add: patchTask_def)
qed

definition samplePatch :: UpdateTaskDto where
  \<comment> \<open>a new title, the stored priority again, and no due date any more\<close>
  "samplePatch = \<lparr>up_title = Some (js ''renamed''), up_description = Undefined, up_priority = Some HIGH,
     up_dueDate = Null, up_estimatedMinutes = Undefined\<rparr>"

theorem update_plan_exact_witness:
  "\<exists>plan. planTaskUpdate (w_newDate sampleWorld) (sampleTask ''t1'' ''b1'' ''c1'' 1000) samplePatch = Inr plan
    \<and> fst ` set (plan_changes plan) = {''title'', ''dueDate''}"
proof -
  obtain plan where plan:
    "planTaskUpdate (w_newDate sampleWorld) (sampleTask ''t1'' ''b1'' ''c1'' 1000) samplePatch = Inr plan"
    by (simp add: planTaskUpdate_def samplePatch_def Let_def)
  then have data: "plan_data plan = \<lparr>pt_title = Some (js ''renamed''), pt_description = Undefined,
      pt_priority = Some HIGH, pt_dueDate = Null, pt_estimatedMinutes = Undefined\<rparr>"
    by (auto simp: planTaskUpdate_def samplePatch_def Let_def)
  show ?thesis
    using plan update_plan_exact [OF plan]
    by (simp add: data patchTask_def sampleTask_def Collect_disj_eq insert_commute)
qed

subsection \<open>Reading back\<close>

text \<open>What a successful PATCH does to the world.\<close>

lemma update_success:
  assumes "TaskService_update ws tid uid dto w = (Inr r, w')" and "distinct (map t_id (tasks w))"
  obtains (unchanged) task plan where "findTaskRow w ws tid = Some task"
      and "planTaskUpdate (w_newDate w) task dto = Inr plan" and "plan_changes plan = []"
      and "w' = w" and "r = toTaskDetailDto (taskDetailInclude w (countAttachments w tid) task)"
    | (changed) task plan row where "findTaskRow w ws tid = Some task"
      and "planTaskUpdate (w_newDate w) task dto = Inr plan" and "plan_changes plan \<noteq> []"
      and "row = (patchTask (plan_data plan) task)\<lparr>t_updatedAt := w_now w\<rparr>"
      and "r = toTaskDetailDto (taskDetailInclude w (countAttachments w tid) row)"
      and "w' = emitToBoard (t_boardId task) (TASK_UPDATED (taskScope ws (t_boardId task) uid) tid)
        (logActivity ws (Some tid) uid TaskUpdated [(''title'', JString (t_title row)),
          (''changes'', JObject (map (\<lambda>(k, v). (js k, v)) (plan_changes plan)))]
          (w\<lparr>tasks := map (\<lambda>x. if t_id x = tid then row else x) (tasks w)\<rparr>))"
proof -
  from assms(1) obtain task where task: "findTaskRow w ws tid = Some task"
    by (auto simp: TaskService_update_def TaskReadService_findTask_def bindE_Inr)
  have tr: "tr_task (taskDetailInclude v n t) = t" for v n t
    by (simp add: taskDetailInclude_def)
  from assms(1) task obtain plan where plan: "planTaskUpdate (w_newDate w) task dto = Inr plan"
    by (auto simp: TaskService_update_def TaskReadService_findTask_def bindE_Inr tr)
  have tid: "t_id task = tid" using findTaskRow_Some [OF task] by simp
  show thesis
  proof (cases "plan_changes plan = []")
    case True
    with assms(1) task plan show thesis
      by (intro unchanged [of task plan])
        (auto simp: TaskService_update_def TaskReadService_findTask_def bindE_Inr tr)
  next
    case False
    with assms(1) task plan obtain row w1 where
      upd: "updateTaskRow ws tid (patchTask (plan_data plan)) w = (Inr row, w1)"
      and r: "r = toTaskDetailDto (taskDetailInclude w1 (countAttachments w1 tid) row)"
      and w': "w' = emitToBoard (d_boardId r) (TASK_UPDATED (taskScope ws (d_boardId r) uid) (d_id r))
        (logActivity ws (Some tid) uid TaskUpdated [(''title'', JString (t_title row)),
          (''changes'', JObject (map (\<lambda>(k, v). (js k, v)) (plan_changes plan)))] w1)"
      by (auto simp: TaskService_update_def TaskReadService_findTask_def bindE_Inr tr
          taskDetailInclude_cong [of "logActivity _ _ _ _ _ _"] countAttachments_cong [of "logActivity _ _ _ _ _ _"])
    from updateTaskRow_Inr [OF upd assms(2)] task have
      row: "row = (patchTask (plan_data plan) task)\<lparr>t_updatedAt := w_now w\<rparr>"
      and w1: "w1 = w\<lparr>tasks := map (\<lambda>x. if t_id x = tid then row else x) (tasks w)\<rparr>"
      by fastforce+
    have "d_boardId r = t_boardId task" "d_id r = tid"
      by (simp_all add: r row toTaskDetailDto_def toTaskCore_def taskDetailInclude_def patchTask_def tid Let_def)
    moreover have "r = toTaskDetailDto (taskDetailInclude w (countAttachments w tid) row)"
      by (simp add: r w1 taskDetailInclude_cong [of "w\<lparr>tasks := _\<rparr>"] countAttachments_cong [of "w\<lparr>tasks := _\<rparr>"])
    ultimately show thesis
      using task plan False row w' by (intro changed [of task plan row]) (simp_all add: w1)
  qed
qed

lemma get_of_row:
  assumes "findTaskRow w' ws tid = Some row"
    and "assignees w' = assignees w" "users w' = users w" "labels w' = labels w"
    "taskLabels w' = taskLabels w" "checklists w' = checklists w" "checklistItems w' = checklistItems w"
    "attachments w' = attachments w"
  shows "TaskService_get ws tid w' =
    (Inr (toTaskDetailDto (taskDetailInclude w (countAttachments w tid) row)), w')"
  using assms taskDetailInclude_cong [OF assms(2-7)] countAttachments_cong [OF assms(8)]
  by (simp add: TaskService_get_def TaskReadService_findTask_def bindE_def orThrow_def reads_def return_def)

lemma findTaskRow_mapped:
  assumes "findTaskRow w ws tid = Some t" and "boards w' = boards w"
    and "tasks w' = map g (tasks w)" and "\<And>x. t_id (g x) = t_id x" and "\<And>x. t_boardId (g x) = t_boardId x"
  shows "findTaskRow w' ws tid = Some (g t)"
proof -
  have "find P (map g xs) = map_option g (find (P \<circ> g) xs)" for P xs
    by (induction xs) simp_all
  then show ?thesis
    using assms(1) by (simp add: findTaskRow_def assms boardIn_cong [OF assms(2)] comp_def)
qed

lemma findTaskRow_replaced:
  assumes t: "findTaskRow w ws tid = Some t" and dist: "distinct (map t_id (tasks w))"
    and "boards w' = boards w" and tasks': "tasks w' = map (\<lambda>x. if t_id x = tid then row else x) (tasks w)"
    and row: "t_id row = tid" "t_boardId row = t_boardId t"
  shows "findTaskRow w' ws tid = Some row"
proof (rule findTaskRow_I)
  show "distinct (map t_id (tasks w'))"
    using dist unfolding tasks' replace_ids [OF row(1)] .
  show "row \<in> set (tasks w')"
    using findTaskRow_Some [OF t] by (auto simp: tasks' image_iff intro!: bexI [of _ t])
  show "boardIn w' ws (t_boardId row)"
    using findTaskRow_Some [OF t] by (simp add: row boardIn_cong [OF assms(3)])
qed (rule row(1))

text \<open>What the response shows of the fields a PATCH can send.\<close>

definition visibleFields :: "TaskDto \<Rightarrow> js_string \<times> js_string option \<times> priority \<times> js_string option \<times> int option" where
  "visibleFields d = (d_title d, d_description d, d_priority d, d_dueDate d, d_estimatedMinutes d)"

definition changedFields :: "TaskDto \<Rightarrow> TaskDto \<Rightarrow> string set" where
  "changedFields before after =
     {k. k = ''title'' \<and> d_title after \<noteq> d_title before
       \<or> k = ''description'' \<and> d_description after \<noteq> d_description before
       \<or> k = ''priority'' \<and> d_priority after \<noteq> d_priority before
       \<or> k = ''dueDate'' \<and> d_dueDate after \<noteq> d_dueDate before
       \<or> k = ''estimatedMinutes'' \<and> d_estimatedMinutes after \<noteq> d_estimatedMinutes before}"

lemma changedFields_empty: "changedFields before after = {} \<longleftrightarrow> visibleFields after = visibleFields before"
  unfolding changedFields_def visibleFields_def Collect_disj_eq one_key by simp

lemma visible_row:
  "visibleFields (toTaskDetailDto (taskDetailInclude w n t)) =
     (t_title t, t_description t, t_priority t, map_option toISOString (t_dueDate t), t_estimatedMinutes t)"
  by (simp add: visibleFields_def toTaskDetailDto_def toTaskCore_def taskDetailInclude_def Let_def)

lemma changedFields_visible:
  "changedFields before after = (case (visibleFields before, visibleFields after) of
     ((t, d, p, e, m), (t', d', p', e', m')) \<Rightarrow>
       (if t' = t then {} else {''title''}) \<union> (if d' = d then {} else {''description''}) \<union> (if p' = p then {} else {''priority''})
       \<union> (if e' = e then {} else {''dueDate''}) \<union> (if m' = m then {} else {''estimatedMinutes''}))"
  unfolding changedFields_def visibleFields_def Collect_disj_eq one_key by (simp add: Un_assoc)

lemma plan_fields:
  assumes "planTaskUpdate newDate task dto = Inr plan" and "row = (patchTask (plan_data plan) task)\<lparr>t_updatedAt := u\<rparr>"
  shows "fst ` set (plan_changes plan) =
      changedFields (toTaskDetailDto (taskDetailInclude w n task)) (toTaskDetailDto (taskDetailInclude w n row))"
    and "\<exists>due. parseDueDate newDate (up_dueDate dto) = Inr due \<and> visibleFields (toTaskDetailDto (taskDetailInclude w n row)) =
      ((case up_title dto of None \<Rightarrow> t_title task | Some title \<Rightarrow> title), patched (t_description task) (up_description dto),
       (case up_priority dto of None \<Rightarrow> t_priority task | Some p \<Rightarrow> p), patched (map_option toISOString (t_dueDate task)) (dueIso due),
       patched (t_estimatedMinutes task) (up_estimatedMinutes dto))"
proof -
  from plan_parts [OF assms(1)] obtain dueDate where due: "parseDueDate newDate (up_dueDate dto) = Inr dueDate"
    and plan: "plan_changes plan =
      changedField ''title'' JString (Some (t_title task)) (sentField (up_title dto))
      @ changedField ''description'' JString (t_description task) (up_description dto)
      @ changedField ''priority'' (\<lambda>p. JString (priority_name p)) (Some (t_priority task))
          (sentField (up_priority dto))
      @ changedField ''dueDate'' JString (map_option toISOString (t_dueDate task)) (dueIso dueDate)
      @ changedField ''estimatedMinutes'' json_int (t_estimatedMinutes task) (up_estimatedMinutes dto)"
    and data: "plan_data plan = \<lparr>pt_title = up_title dto, pt_description = up_description dto,
      pt_priority = up_priority dto, pt_dueDate = dueDate, pt_estimatedMinutes = up_estimatedMinutes dto\<rparr>" .
  show "fst ` set (plan_changes plan) =
      changedFields (toTaskDetailDto (taskDetailInclude w n task)) (toTaskDetailDto (taskDetailInclude w n row))"
    unfolding plan set_append image_Un changedField_keys patched_sentField patched_dueIso changedFields_visible visible_row
    by (simp add: assms(2) data patchTask_def Un_assoc)
  show "\<exists>due. parseDueDate newDate (up_dueDate dto) = Inr due \<and> visibleFields (toTaskDetailDto (taskDetailInclude w n row)) =
      ((case up_title dto of None \<Rightarrow> t_title task | Some title \<Rightarrow> title), patched (t_description task) (up_description dto),
       (case up_priority dto of None \<Rightarrow> t_priority task | Some p \<Rightarrow> p), patched (map_option toISOString (t_dueDate task)) (dueIso due),
       patched (t_estimatedMinutes task) (up_estimatedMinutes dto))"
    using due unfolding visible_row patched_dueIso by (intro exI [of _ dueDate]) (simp add: assms(2) data patchTask_def)
qed

text \<open>
  C4. The response of a PATCH is the task as the next read returns it. Each field of it is what the PATCH
  sent for it, or, for a field that was not sent, what a read before the PATCH returned. When no field differs
  from that earlier read, whatever was sent, the whole database is as it was, the time of the last change and
  the events included; otherwise one entry of the log names exactly the fields that differ, and one event is sent
  to the board.
\<close>

theorem update_reads_back:
  assumes "wellFormed w" and "TaskService_update workspaceId taskId userId dto w = (Inr result, w')"
  shows "TaskService_get workspaceId taskId w' = (Inr result, w')
    \<and> (\<exists>before due. TaskService_get workspaceId taskId w = (Inr before, w)
        \<and> parseDueDate (w_newDate w) (up_dueDate dto) = Inr due
        \<and> visibleFields result =
            ((case up_title dto of None \<Rightarrow> d_title before | Some title \<Rightarrow> title), patched (d_description before) (up_description dto),
             (case up_priority dto of None \<Rightarrow> d_priority before | Some p \<Rightarrow> p), patched (d_dueDate before) (dueIso due),
             patched (d_estimatedMinutes before) (up_estimatedMinutes dto))
        \<and> (if visibleFields result = visibleFields before then w' = w
           else (\<exists>changes. fst ` set changes = js ` changedFields before result \<and> w_published w' = w_published w
              @ (if w_socketServer w then [ToBoard (BoardRoom (d_boardId result))
                  (TASK_UPDATED (taskScope workspaceId (d_boardId result) userId) taskId)] else [])
            \<and> activities w' = activities w @ [activityRow w workspaceId (Some taskId) userId TaskUpdated
                  [(''title'', JString (d_title result)), (''changes'', JObject changes)]])))"
  using assms(2) wellFormedD(3) [OF assms(1)]
proof (cases rule: update_success)
  case (unchanged task plan)
  let ?row = "(patchTask (plan_data plan) task)\<lparr>t_updatedAt := t_updatedAt task\<rparr>"
  let ?dto = "\<lambda>t. toTaskDetailDto (taskDetailInclude w (countAttachments w taskId) t)"
  note F = plan_fields [OF unchanged(2) refl, where u = "t_updatedAt task" and w = w and n = "countAttachments w taskId"]
  have "visibleFields (?dto ?row) = visibleFields (?dto task)" using F(1) unchanged(3) unfolding changedFields_empty [symmetric] by simp
  with F(2) obtain due where due: "parseDueDate (w_newDate w) (up_dueDate dto) = Inr due" "visibleFields (?dto task) =
      ((case up_title dto of None \<Rightarrow> t_title task | Some title \<Rightarrow> title), patched (t_description task) (up_description dto),
       (case up_priority dto of None \<Rightarrow> t_priority task | Some p \<Rightarrow> p), patched (map_option toISOString (t_dueDate task)) (dueIso due),
       patched (t_estimatedMinutes task) (up_estimatedMinutes dto))" by auto
  have same: "d_title result = t_title task" "d_description result = t_description task" "d_priority result = t_priority task"
    "d_dueDate result = map_option toISOString (t_dueDate task)" "d_estimatedMinutes result = t_estimatedMinutes task"
    using visible_row [of w "countAttachments w taskId" task] unchanged(5) by (simp_all add: visibleFields_def)
  have read: "TaskService_get workspaceId taskId w = (Inr result, w)" unfolding unchanged(5) by (rule get_of_row [OF unchanged(1)]) simp_all
  show ?thesis
    using read due unchanged(4,5) unfolding same [symmetric]
    by (intro conjI exI [of _ result] exI [of _ due]) (simp_all only: if_True refl)
next
  case (changed task plan row)
  let ?dto = "\<lambda>t. toTaskDetailDto (taskDetailInclude w (countAttachments w taskId) t)"
  define before where "before = ?dto task"
  note F = plan_fields [OF changed(2,4), where w = w and n = "countAttachments w taskId", folded changed(5) before_def]
  have same: "d_title before = t_title task" "d_description before = t_description task" "d_priority before = t_priority task"
    "d_dueDate before = map_option toISOString (t_dueDate task)" "d_estimatedMinutes before = t_estimatedMinutes task"
    using visible_row [of w "countAttachments w taskId" task, folded before_def] by (simp_all add: visibleFields_def)
  obtain due where due: "parseDueDate (w_newDate w) (up_dueDate dto) = Inr due" "visibleFields result =
      ((case up_title dto of None \<Rightarrow> t_title task | Some title \<Rightarrow> title), patched (t_description task) (up_description dto),
       (case up_priority dto of None \<Rightarrow> t_priority task | Some p \<Rightarrow> p), patched (map_option toISOString (t_dueDate task)) (dueIso due),
       patched (t_estimatedMinutes task) (up_estimatedMinutes dto))" using F(2) by blast
  have row: "t_id row = taskId" "t_boardId row = t_boardId task"
    using findTaskRow_Some [OF changed(1)] by (simp_all add: changed(4) patchTask_def)
  have "findTaskRow w' workspaceId taskId = Some row"
    by (rule findTaskRow_replaced [OF changed(1) wellFormedD(3) [OF assms(1)] _ _ row])
      (simp_all add: changed(6))
  then have read: "TaskService_get workspaceId taskId w' = (Inr result, w')"
    unfolding changed(5) by (rule get_of_row) (simp_all add: changed(6))
  have dto: "d_boardId result = t_boardId task" "d_title result = t_title row"
    by (simp_all add: changed(5) toTaskDetailDto_def toTaskCore_def taskDetailInclude_def row Let_def)
  have differ: "visibleFields result \<noteq> visibleFields before"
    using F(1) changed(3) changedFields_empty [of before result] by auto
  have logged: "\<exists>changes. fst ` set changes = js ` changedFields before result \<and> w_published w' = w_published w
              @ (if w_socketServer w then [ToBoard (BoardRoom (d_boardId result))
                  (TASK_UPDATED (taskScope workspaceId (d_boardId result) userId) taskId)] else [])
            \<and> activities w' = activities w @ [activityRow w workspaceId (Some taskId) userId TaskUpdated
                  [(''title'', JString (d_title result)), (''changes'', JObject changes)]]"
    by (rule exI [of _ "map (\<lambda>(k, v). (js k, v)) (plan_changes plan)"])
      (simp add: changed(6) emitToBoard_def activityRow_def freshId_def dto F(1) [symmetric] image_image case_prod_beta)
  have "TaskService_get workspaceId taskId w = (Inr before, w)" unfolding before_def by (rule get_of_row [OF changed(1)]) simp_all
  then show ?thesis
    using read due differ logged unfolding same [symmetric]
    by (intro conjI exI [of _ before] exI [of _ due]) (simp_all only: if_False)
qed

theorem update_reads_back_witness:
  "\<exists>result w'. TaskService_update (js ''w1'') (js ''t1'') (js ''u2'') samplePatch sampleWorld = (Inr result, w')
    \<and> TaskService_get (js ''w1'') (js ''t1'') w' = (Inr result, w')"
proof -
  have "\<not> is_error (fst (TaskService_update (js ''w1'') (js ''t1'') (js ''u2'') samplePatch sampleWorld))"
    by (simp add: handler_defs samplePatch_def)
  then obtain result w' where run:
    "TaskService_update (js ''w1'') (js ''t1'') (js ''u2'') samplePatch sampleWorld = (Inr result, w')"
    by (blast dest: succeeds)
  with update_reads_back [OF sampleWorld_wellFormed run] show ?thesis by blast
qed

text \<open>
  The response of a move is the task as the next read returns it, when the column was respread as
  well as when a gap was split.
\<close>

theorem move_reads_back:
  assumes "wellFormed w" and "TaskService_move workspaceId taskId userId dto w = (Inr result, w')"
  shows "TaskService_get workspaceId taskId w' = (Inr result, w')"
proof -
  note ids = wellFormedD(3) [OF assms(1)]
  obtain task target slot payload w2 where task: "findTaskRow w workspaceId taskId = Some task"
    and "findColumnRow w workspaceId (mv_columnId dto) = Some target"
    and "c_boardId target = t_boardId task"
    and "resolveMoveNeighbors (filter (\<lambda>s. item_id s \<noteq> taskId) (taskSiblings w (c_id target)))
      (mv_beforeTaskId dto) (mv_afterTaskId dto) = Inr slot"
    and place: "placeMoved workspaceId task target (filter (\<lambda>s. item_id s \<noteq> taskId)
      (taskSiblings w (c_id target))) slot (countAttachments w taskId) w = (Inr result, w2)"
    and w': "w' = emitToBoard (d_boardId result) (TASK_MOVED (taskScope workspaceId (d_boardId result) userId)
       (d_id result) (d_columnId result) (d_position result))
       (logActivity workspaceId (Some taskId) userId TaskMoved payload w2)"
    by (rule move_success [OF assms(2)])
  let ?rem = "filter (\<lambda>s. item_id s \<noteq> taskId) (taskSiblings w (c_id target))"
  obtain row w1 where w1: "w1 = w\<lparr>tasks := map (\<lambda>x. if t_id x = taskId then row else x) (tasks w)\<rparr>"
    and row: "t_id row = taskId" "t_columnId row = c_id target" "t_boardId row = t_boardId task"
    and result: "result = toTaskDetailDto (taskDetailInclude w (countAttachments w taskId) row)"
    and "t_position row = slotPosition slot (length ?rem + 1)"
    and w2: "w2 = (if tightSlot slot then batchUpdateTaskPositions (c_id target) (moveUpdates ?rem
      (insertionIndex slot) (taskItem task) (rebalancePositions (length ?rem + 1) POSITION_GAP)) w1 else w1)"
    by (rule placeMoved_success [OF place task ids])
  have found1: "findTaskRow w1 workspaceId taskId = Some row"
    by (rule findTaskRow_replaced [OF task ids _ _ row(1,3)]) (simp_all add: w1)
  have "findTaskRow w2 workspaceId taskId = Some row"
  proof (cases "tightSlot slot")
    case True
    define us where "us = moveUpdates ?rem (insertionIndex slot) (taskItem task)
      (rebalancePositions (length ?rem + 1) POSITION_GAP)"
    have w2': "w2 = batchUpdateTaskPositions (c_id target) us w1"
      using w2 True by (simp add: us_def)
    have "map_of us (t_id row) = None"
      using findTaskRow_Some [OF task] map_of_moveUpdates_None [of _ _ "taskItem task"]
      by (simp add: row us_def)
    then have same: "(if t_columnId row = c_id target
        then row\<lparr>t_position := applyUpdates us (t_id row) (t_position row)\<rparr> else row) = row"
      by (simp add: applyUpdates_def)
    have "findTaskRow w2 workspaceId taskId = Some (if t_columnId row = c_id target
        then row\<lparr>t_position := applyUpdates us (t_id row) (t_position row)\<rparr> else row)"
      unfolding w2' batchUpdateTaskPositions_eq by (rule findTaskRow_mapped [OF found1]) simp_all
    then show ?thesis by (simp only: same)
  qed (use w2 found1 in simp)
  moreover obtain ts where "w2 = w\<lparr>tasks := ts\<rparr>"
    by (cases "tightSlot slot") (simp_all add: w2 w1 batchUpdateTaskPositions_eq)
  moreover have "findTaskRow w' = findTaskRow w2"
    by (rule findTaskRow_cong) (simp_all add: w')
  ultimately show ?thesis
    unfolding result by (intro get_of_row) (simp_all add: w')
qed

theorem move_reads_back_witness:
  "\<exists>result w'. TaskService_move (js ''w1'') (js ''t4'') (js ''u1'') sampleMove sampleWorld = (Inr result, w')
    \<and> TaskService_get (js ''w1'') (js ''t4'') w' = (Inr result, w')"
proof -
  have "\<not> is_error (fst (TaskService_move (js ''w1'') (js ''t4'') (js ''u1'') sampleMove sampleWorld))"
    by (simp add: handler_defs sampleMove_def)
  then obtain result w' where run:
    "TaskService_move (js ''w1'') (js ''t4'') (js ''u1'') sampleMove sampleWorld = (Inr result, w')"
    by (blast dest: succeeds)
  with move_reads_back [OF sampleWorld_wellFormed run] show ?thesis by blast
qed

subsection \<open>remove\<close>

lemma remove_success:
  assumes "TaskService_remove ws tid uid w = (Inr r, w')"
  obtains task where "findTaskRow w ws tid = Some task"
    and "w' = emitToBoard (t_boardId task) (TASK_DELETED (taskScope ws (t_boardId task) uid) tid)
      (cascadeTasks (\<lambda>k. k = tid) (logActivity ws None uid TaskDeleted
        [(''taskId'', JString tid), (''title'', JString (t_title task)),
         (''columnId'', JString (t_columnId task)), (''boardId'', JString (t_boardId task))] w))"
proof -
  from assms obtain task where task: "findTaskRow w ws tid = Some task"
    by (auto simp: TaskService_remove_def bindE_Inr)
  have tid: "t_id task = tid" using findTaskRow_Some [OF task] by simp
  have "taskIn w ws tid" using task by (metis findTaskRow_None option.distinct(1))
  then have "taskIn (logActivity a b c d e w) ws tid" for a b c d e
    by (simp add: taskIn_def boardIn_def)
  then have gone: "(\<lambda>k. k = tid \<and> taskIn (logActivity a b c d e w) ws k) = (\<lambda>k. k = tid)" for a b c d e
    by auto
  from assms task show thesis
    by (intro that [OF task])
      (auto simp: TaskService_remove_def bindE_Inr Let_def gone tid split: if_splits)
qed

text \<open>
  C5. A deleted task is gone, and so is every row that referred to it, while all other tasks stay; the
  activity log keeps its entries, none of them refers to the task any more, and one entry that
  describes the deletion is added.
\<close>

theorem remove_leaves_nothing:
  assumes "TaskService_remove workspaceId taskId userId w = (Inr r, w')"
  shows "TaskService_get workspaceId taskId w' = (Inl (NotFound ''Task not found''), w')
    \<and> tasks w' = filter (\<lambda>t. t_id t \<noteq> taskId) (tasks w)
    \<and> (\<forall>a \<in> set (assignees w'). ta_taskId a \<noteq> taskId) \<and> (\<forall>l \<in> set (taskLabels w'). tl_taskId l \<noteq> taskId)
    \<and> (\<forall>c \<in> set (comments w'). co_taskId c \<noteq> taskId) \<and> (\<forall>a \<in> set (attachments w'). at_taskId a \<noteq> taskId)
    \<and> (\<forall>c \<in> set (checklists w'). cl_taskId c \<noteq> taskId) \<and> (\<forall>n \<in> set (notifications w'). n_taskId n \<noteq> Some taskId)
    \<and> (\<forall>a \<in> set (activities w'). a_taskId a \<noteq> Some taskId)
    \<and> map a_id (activities w') = map a_id (activities w) @ [freshId w]
    \<and> a_type (last (activities w')) = TaskDeleted"
proof -
  obtain task where "findTaskRow w workspaceId taskId = Some task"
    and w': "w' = emitToBoard (t_boardId task) (TASK_DELETED (taskScope workspaceId (t_boardId task) userId) taskId)
      (cascadeTasks (\<lambda>k. k = taskId) (logActivity workspaceId None userId TaskDeleted
        [(''taskId'', JString taskId), (''title'', JString (t_title task)),
         (''columnId'', JString (t_columnId task)), (''boardId'', JString (t_boardId task))] w))"
    by (rule remove_success [OF assms])
  have tasks': "tasks w' = filter (\<lambda>t. t_id t \<noteq> taskId) (tasks w)" by (simp add: w')
  then have "findTaskRow w' workspaceId taskId = None"
    by (auto simp: findTaskRow_def find_None)
  then have "TaskService_get workspaceId taskId w' = (Inl (NotFound ''Task not found''), w')"
    by (simp add: TaskService_get_def TaskReadService_findTask_def bindE_def orThrow_def)
  with tasks' show ?thesis
    by (auto simp: w' cascadeTasks_def comp_def split: option.splits if_splits)
qed

theorem remove_leaves_nothing_witness:
  "\<exists>w'. TaskService_remove (js ''w1'') (js ''t1'') (js ''u1'') sampleWorld = (Inr (), w')
    \<and> length (tasks w') = 4 \<and> TaskService_get (js ''w1'') (js ''t1'') w' = (Inl (NotFound ''Task not found''), w')"
proof -
  have "\<not> is_error (fst (TaskService_remove (js ''w1'') (js ''t1'') (js ''u1'') sampleWorld))"
    by (simp add: handler_defs)
  then obtain r w' where run: "TaskService_remove (js ''w1'') (js ''t1'') (js ''u1'') sampleWorld = (Inr r, w')"
    by (blast dest: succeeds)
  with remove_leaves_nothing [OF run] show ?thesis
    by (auto simp: sampleWorld_def sampleTask_def)
qed

end
