(* ===== verification/TaskList.thy ===== *)
theory TaskList
  imports TaskService Sample
begin

section \<open>Paging through a filtered task list\<close>

text \<open>
  \<open>TaskService_list\<close> reads with \<open>keysetAsc\<close>, so the contract of Pagination applies to it: following
  the cursors lists every task the filter selects, each once, in the order of the ids.
\<close>

definition pageOf :: "(http_error + ('k, 'a) cursor_page) \<times> world \<Rightarrow> ('k, 'a) cursor_page" where
  \<comment> \<open>the page of a successful response\<close>
  "pageOf r = (case fst r of Inr page \<Rightarrow> page
     | Inl e \<Rightarrow> \<lparr>page_items = [], nextCursor = None, hasMore = False\<rparr>)"

definition selects :: "(js_string \<Rightarrow> js_string) \<Rightarrow> world \<Rightarrow> uuid \<Rightarrow> TaskQueryDto \<Rightarrow> task_row \<Rightarrow> bool" where
  \<comment> \<open>the filter of a query, its cursor aside\<close>
  "selects fold_case w boardId query t \<longleftrightarrow> t_boardId t = boardId
     \<and> list_all (clauseHolds fold_case w t) (buildListWhere (w_newDate w) (query\<lparr>tq_cursor := Undefined\<rparr>))"

lemma buildListWhere_cursor:
  "buildListWhere nd query =
     (case cursorOf (tq_cursor query) of None \<Rightarrow> [] | Some k \<Rightarrow> [IdAfter k])
       @ buildListWhere nd (query\<lparr>tq_cursor := Undefined\<rparr>)"
  by (simp add: buildListWhere_def)

lemma list_query:
  "take n (sort_key t_id (filter (\<lambda>t. t_boardId t = boardId
      \<and> list_all (clauseHolds fc w t) (buildListWhere (w_newDate w) query)) (tasks w))) =
    keysetAsc t_id (selects fc w boardId query) (tasks w) (cursorOf (tq_cursor query)) n"
proof -
  have "(t_boardId t = boardId \<and> list_all (clauseHolds fc w t) (buildListWhere (w_newDate w) query)) =
      (selects fc w boardId query t
        \<and> (case cursorOf (tq_cursor query) of None \<Rightarrow> True | Some k \<Rightarrow> k < t_id t))" for t
    by (subst buildListWhere_cursor) (auto simp: selects_def split: option.splits)
  then show ?thesis by (simp only: keysetAsc_def)
qed

lemma list_page:
  assumes "findBoard w ws bid \<noteq> None"
    and "\<not> list_ex invalidDateBound (buildListWhere (w_newDate w) (query\<lparr>tq_cursor := Undefined\<rparr>))"
  shows "pageOf (TaskService_list fc ws bid (query\<lparr>tq_cursor := c, tq_limit := Some limit\<rparr>) w) =
    toCursorPage t_id (keysetAsc t_id (selects fc w bid query) (tasks w) (cursorOf c) (limit + 1)) limit
      (\<lambda>t. toTaskListDto (taskListInclude w (countAttachments w (t_id t)) t))"
proof -
  let ?q = "query\<lparr>tq_cursor := c, tq_limit := Some limit\<rparr>"
  let ?found = "keysetAsc t_id (selects fc w bid query) (tasks w) (cursorOf c) (limit + 1)"
  have sel: "selects fc w bid ?q = selects fc w bid query"
    by (intro ext) (simp add: selects_def buildListWhere_def)
  have valid: "\<not> list_ex invalidDateBound (buildListWhere (w_newDate w) ?q)"
    using assms(2) by (subst buildListWhere_cursor)
      (auto simp: buildListWhere_def invalidDateBound_def split: option.splits)
  obtain b where "findBoard w ws bid = Some b" using assms(1) by blast
  then have "pageOf (TaskService_list fc ws bid ?q w) =
      toCursorPage (\<lambda>r. t_id (tr_task r)) (map (\<lambda>t. taskListInclude w
        (case countAttachmentsByTask w (map t_id ?found) (t_id t) of None \<Rightarrow> 0 | Some n \<Rightarrow> n) t) ?found)
        limit toTaskListDto"
    using valid list_query [of "limit + 1" bid fc w ?q]
    by (simp add: pageOf_def TaskService_list_def bindE_def assertBoard_def orThrow_def Let_def sel)
  also have "\<dots> = toCursorPage t_id ?found limit
      (\<lambda>t. toTaskListDto (taskListInclude w (countAttachments w (t_id t)) t))"
  proof -
    have "(\<lambda>r. t_id (tr_task r)) \<circ> (\<lambda>t. taskListInclude w
        (case countAttachmentsByTask w (map t_id ?found) (t_id t) of None \<Rightarrow> 0 | Some n \<Rightarrow> n) t) = t_id"
      by (simp add: fun_eq_iff taskListInclude_def)
    then show ?thesis
      unfolding toCursorPage_map by (auto intro!: toCursorPage_cong simp: countAttachmentsByTask_def)
  qed
  finally show ?thesis .
qed

text \<open>
  C6. A client that pages through a task list by its cursors gets every task the filter selects exactly
  once, in the order of the ids, whatever page size it asks for.
\<close>

theorem task_list_complete:
  assumes "wellFormed w" and "findBoard w workspaceId boardId \<noteq> None"
    and "\<not> list_ex invalidDateBound (buildListWhere (w_newDate w) (query\<lparr>tq_cursor := Undefined\<rparr>))"
    and "0 < limit" and "length (tasks w) < fuel * limit"
  shows "walk (\<lambda>c. pageOf (TaskService_list fold_case workspaceId boardId
        (query\<lparr>tq_cursor := cursorField c, tq_limit := Some limit\<rparr>) w)) fuel None =
      map (\<lambda>t. toTaskListDto (taskListInclude w (countAttachments w (t_id t)) t))
        (sort_key t_id (filter (selects fold_case w boardId query) (tasks w)))"
proof -
  let ?P = "selects fold_case w boardId query"
  let ?dto = "\<lambda>t. toTaskListDto (taskListInclude w (countAttachments w (t_id t)) t)"
  let ?page = "\<lambda>c. toCursorPage t_id (keysetAsc t_id ?P (tasks w) c (limit + 1)) limit ?dto"
  have "walk (\<lambda>c. pageOf (TaskService_list fold_case workspaceId boardId
      (query\<lparr>tq_cursor := cursorField c, tq_limit := Some limit\<rparr>) w)) fuel None = walk ?page fuel None"
  proof (rule walk_cong [where ok = "\<lambda>c. c \<noteq> Some []"])
    show "pageOf (TaskService_list fold_case workspaceId boardId
        (query\<lparr>tq_cursor := cursorField c, tq_limit := Some limit\<rparr>) w) = ?page c" if "c \<noteq> Some []" for c
      using that list_page [OF assms(2,3)]
      by (cases c) (simp_all add: cursorField_def cursorOf_Value)
    show "Some k \<noteq> Some []" if "nextCursor (?page c) = Some k" for c k
    proof -
      have "k \<in> t_id ` set (tasks w)"
        using nextCursor_mem [OF that] by (auto simp: keysetAsc_def dest!: in_set_takeD)
      then show ?thesis using wellFormedD(7) [OF assms(1)] by auto
    qed
  qed simp
  also have "\<dots> = map ?dto (sort_key t_id (filter ?P (tasks w)))"
  proof (rule asc.walk_complete)
    show "distinct (map t_id (sort_key t_id (filter ?P (tasks w))))"
      using distinct_map_filter [OF wellFormedD(3) [OF assms(1)], of ?P]
      by (simp add: distinct_map)
    show "length (sort_key t_id (filter ?P (tasks w))) < fuel * limit"
      using assms(5) le_less_trans [OF length_filter_le] by simp
  qed (rule assms(4))
  finally show ?thesis .
qed

definition sampleQuery :: TaskQueryDto where
  \<comment> \<open>the unassigned tasks\<close>
  "sampleQuery = \<lparr>tq_limit = None, tq_cursor = Undefined, tq_q = Undefined, tq_priority = None,
     tq_assigneeId = Some [js ''null''], tq_labelId = None, tq_dueDate = Undefined,
     tq_dueDate_gte = Undefined, tq_dueDate_lte = Undefined\<rparr>"

theorem task_list_complete_witness:
  "map d_id (walk (\<lambda>c. pageOf (TaskService_list id (js ''w1'') (js ''b1'')
      (sampleQuery\<lparr>tq_cursor := cursorField c, tq_limit := Some 2\<rparr>) sampleWorld)) 3 None) =
    [js ''t2'', js ''t3'', js ''t4'']"
proof -
  have sel: "filter (selects id sampleWorld (js ''b1'') sampleQuery) (tasks sampleWorld) =
      [sampleTask ''t3'' ''b1'' ''c1'' 2000, sampleTask ''t2'' ''b1'' ''c1'' 1000,
       sampleTask ''t4'' ''b1'' ''c2'' 1000]"
    by (simp add: selects_def handler_defs sampleQuery_def)
  have "walk (\<lambda>c. pageOf (TaskService_list id (js ''w1'') (js ''b1'')
      (sampleQuery\<lparr>tq_cursor := cursorField c, tq_limit := Some 2\<rparr>) sampleWorld)) 3 None =
    map (\<lambda>t. toTaskListDto (taskListInclude sampleWorld (countAttachments sampleWorld (t_id t)) t))
        (sort_key t_id (filter (selects id sampleWorld (js ''b1'') sampleQuery) (tasks sampleWorld)))"
    by (rule task_list_complete [OF sampleWorld_wellFormed])
      (simp_all add: handler_defs sampleQuery_def)
  then show ?thesis
    unfolding sel by (simp add: sampleTask_def toTaskListDto_def toTaskCore_def taskListInclude_def Let_def)
qed

text \<open>
  The assignee filter is a disjunction: a list with \<open>null\<close> in it selects the unassigned tasks, the
  ids in it select the tasks assigned to one of them, and a mixed list selects both.
\<close>

theorem assignee_filter:
  assumes "ids \<noteq> []"
  shows "clauseHolds fold_case w t (assigneeClause ids) \<longleftrightarrow>
      js ''null'' \<in> set ids \<and> (\<forall>a \<in> set (assignees w). ta_taskId a \<noteq> t_id t)
      \<or> (\<exists>a \<in> set (assignees w). ta_taskId a = t_id t \<and> ta_userId a \<in> set ids \<and> ta_userId a \<noteq> js ''null'')"
proof -
  have "filter (\<lambda>i. i \<noteq> js ''null'') ids = [] \<longleftrightarrow> set ids \<subseteq> {js ''null''}"
    by (auto simp: filter_empty_conv)
  moreover have "set ids \<subseteq> {js ''null''} \<Longrightarrow> js ''null'' \<in> set ids"
    using assms by (cases ids) auto
  ultimately show ?thesis
    by (auto simp: assigneeClause_def Let_def list_ex_iff list_all_iff simp del: js_Cons)
qed

theorem assignee_filter_witness:
  "clauseHolds id sampleWorld (sampleTask ''t1'' ''b1'' ''c1'' 1000) (assigneeClause [js ''null'', js ''u1''])"
  by (subst assignee_filter) (simp_all add: sampleWorld_def sampleTask_def)

end
