(* ===== verification/TaskAssignees.thy ===== *)
theory TaskAssignees
  imports TaskProps
begin

section \<open>Assigning people and labels\<close>

text \<open>
  \<open>addAssignee\<close> and \<open>addLabel\<close>: the join row is unique, a second assignment is a 409 that names the
  collision and writes nothing, and the person assigned is told once, after the commit, unless they
  did it themselves.
\<close>

lemma findTaskRow_assignees [simp]:
  "findTaskRow (w\<lparr>assignees := x\<rparr>) = findTaskRow w" "findTaskRow (w\<lparr>taskLabels := y\<rparr>) = findTaskRow w"
  "findTaskRow (w\<lparr>notifications := z\<rparr>) = findTaskRow w" "findTaskRow (tick w) = findTaskRow w"
  by (rule findTaskRow_cong; simp add: tick_def)+

lemma emitUpdated_success:
  assumes "TaskEventsService_emitUpdated ws tid actor w = (Inr r, w')"
  obtains t where "findTaskRow w ws tid = Some t"
    and "r = toTaskDetailDto (taskDetailInclude w (countAttachments w tid) t)"
    and "w' = emitToBoard (t_boardId t) (TASK_UPDATED (taskScope ws (t_boardId t) actor) tid) w"
proof -
  from assms obtain t where t: "findTaskRow w ws tid = Some t"
    and r: "r = toTaskDetailDto (taskDetailInclude w (countAttachments w tid) t)"
    and w': "w' = emitToBoard (d_boardId r) (TASK_UPDATED (taskScope ws (d_boardId r) actor) (d_id r)) w"
    by (auto simp: TaskEventsService_emitUpdated_def TaskReadService_findTask_def bindE_Inr Let_def)
  have "d_boardId r = t_boardId t" "d_id r = tid"
    using findTaskRow_Some [OF t]
    by (simp_all add: r toTaskDetailDto_def toTaskCore_def taskDetailInclude_def Let_def)
  with t r w' show thesis by (intro that) simp_all
qed

lemma emitUpdated_found:
  assumes "findTaskRow w ws tid = Some t"
  shows "TaskEventsService_emitUpdated ws tid actor w \<noteq> (Inl e, w')"
  using assms
  by (simp add: TaskEventsService_emitUpdated_def TaskReadService_findTask_def bindE_Inl Let_def)

lemma emitUnreadChanged_one:
  "NotificationService_emitUnreadChanged ws [u] w = emitToUser ws u (NOTIFICATION_UNREAD_CHANGED ws u) w"
  by (simp add: NotificationService_emitUnreadChanged_def js_Set_def)

lemma conflictOnUniqueViolation_Inr [simp]:
  "conflictOnUniqueViolation write message w = (Inr a, w') \<longleftrightarrow> write w = (Inr a, w')"
  by (auto simp: conflictOnUniqueViolation_def split: prod.splits sum.splits)

lemma conflictOnUniqueViolation_Inl:
  "conflictOnUniqueViolation write message w = (Inl e', w') \<longleftrightarrow>
     (\<exists>e. write w = (Inl e, w') \<and> e' = (if e = PrismaError ''P2002'' then Conflict message else e))"
  by (auto simp: conflictOnUniqueViolation_def split: prod.splits sum.splits)

lemma insertAssignee_Inr [simp]:
  "insertAssignee t u w = (Inr x, w') \<longleftrightarrow>
     (\<forall>a \<in> set (assignees w). ta_taskId a = t \<longrightarrow> ta_userId a \<noteq> u)
     \<and> w' = (tick w)\<lparr>assignees := assignees w @ [\<lparr>ta_id = freshId w, ta_taskId = t, ta_userId = u\<rparr>]\<rparr>"
  by (auto simp: insertAssignee_def list_ex_iff)

lemma createAssignment_iff [simp]:
  "NotificationService_createAssignment input w = (r, w') \<longleftrightarrow>
     (if ni_userId input = ni_actorId input then r = Inr None \<and> w' = w
      else r = Inr (Some (notificationRow w (ni_userId input) (input\<lparr>ni_type := Assignment\<rparr>)))
        \<and> w' = (tick w)\<lparr>notifications := notifications w
            @ [notificationRow w (ni_userId input) (input\<lparr>ni_type := Assignment\<rparr>)]\<rparr>)"
  by (auto simp: NotificationService_createAssignment_def NotificationService_create_def Let_def)

text \<open>
  C7. Assigning a member adds exactly one assignment, which the response shows, and tells the
  assignee exactly once, by one stored notification and one signal, unless the actor assigned
  themselves; assigning the same person again is refused with a 409 and writes nothing.
\<close>

theorem assign_once_notify_once:
  assumes "assignee \<noteq> []"
    and "TaskAssigneeService_addAssignee workspaceId taskId actor assignee w = (Inr result, w')"
  shows "(\<exists>row. assignees w' = assignees w @ [row] \<and> ta_taskId row = taskId \<and> ta_userId row = assignee)
    \<and> (if actor = assignee then notifications w' = notifications w
       else \<exists>n. notifications w' = notifications w @ [n] \<and> n_userId n = assignee
          \<and> n_workspaceId n = workspaceId \<and> n_taskId n = Some taskId \<and> n_type n = Assignment \<and> n_readAt n = None)
    \<and> w_published w' = w_published w @ (if w_socketServer w
        then (if actor = assignee then []
              else [ToUser (UserRoom workspaceId assignee) (NOTIFICATION_UNREAD_CHANGED workspaceId assignee)])
          @ [ToBoard (BoardRoom (d_boardId result))
              (TASK_UPDATED (taskScope workspaceId (d_boardId result) actor) taskId)] else [])
    \<and> TaskAssigneeService_addAssignee workspaceId taskId actor assignee w'
        = (Inl (Conflict ''User is already assigned to this task''), w')"
proof -
  from assms(2) obtain task where task: "findTaskRow w workspaceId taskId = Some task"
    by (auto simp: TaskAssigneeService_addAssignee_def TaskReadService_findTaskBasic_def bindE_Inr)
  have tid: "t_id task = taskId" using findTaskRow_Some [OF task] by simp
  define joined where "joined = (tick w)\<lparr>assignees := assignees w
    @ [\<lparr>ta_id = freshId w, ta_taskId = taskId, ta_userId = assignee\<rparr>]\<rparr>"
  define recorded where "recorded = logActivity workspaceId (Some taskId) actor TaskAssigned
    [(''title'', JString (t_title task)), (''assigneeUserId'', JString assignee)] joined"
  define n where "n = notificationRow recorded assignee
    \<lparr>ni_workspaceId = workspaceId, ni_userId = assignee, ni_actorId = actor, ni_type = Assignment,
     ni_taskId = Some taskId, ni_activityId = Some (freshId joined),
     ni_payload = [(''title'', JString (t_title task)), (''assigneeUserId'', JString assignee),
       (''actorId'', JString actor)]\<rparr>"
  have n: "n_userId n = assignee" "n_workspaceId n = workspaceId" "n_taskId n = Some taskId"
      "n_type n = Assignment" "n_readAt n = None"
    by (simp_all add: n_def notificationRow_def)
  define w2 where "w2 = (if actor = assignee then recorded
      else emitToUser workspaceId assignee (NOTIFICATION_UNREAD_CHANGED workspaceId assignee)
        ((tick recorded)\<lparr>notifications := notifications recorded @ [n]\<rparr>))"
  note w2 = w2_def
  from assms task have
    member: "find (\<lambda>m. m_workspaceId m = workspaceId \<and> m_userId m = assignee) (members w) \<noteq> None"
    and last_step: "TaskEventsService_emitUpdated workspaceId taskId actor w2 = (Inr result, w')"
    by (auto simp: TaskAssigneeService_addAssignee_def TaskReadService_findTaskBasic_def bindE_Inr tid
        joined_def recorded_def emitUnreadChanged_one n_def w2_def split: if_splits)
  obtain t where t: "findTaskRow w2 workspaceId taskId = Some t"
    and result: "result = toTaskDetailDto (taskDetailInclude w2 (countAttachments w2 taskId) t)"
    and w': "w' = emitToBoard (t_boardId t) (TASK_UPDATED (taskScope workspaceId (t_boardId t) actor) taskId) w2"
    by (rule emitUpdated_success [OF last_step])
  have "d_boardId result = t_boardId t"
    by (simp add: result toTaskDetailDto_def toTaskCore_def taskDetailInclude_def Let_def)
  moreover have "members w' = members w" "assignees w' = assignees joined"
    by (auto simp: w' w2 recorded_def joined_def tick_def)
  moreover have "findTaskRow w' = findTaskRow w"
    by (simp add: w' w2 recorded_def joined_def)
  ultimately show ?thesis
    using task member n
    by (auto simp: w' w2 recorded_def joined_def tid tick_def emitToBoard_def emitToUser_def logActivity_def
        TaskAssigneeService_addAssignee_def TaskReadService_findTaskBasic_def bindE_def orThrow_def
        conflictOnUniqueViolation_def transaction_def insertAssignee_def)
qed

theorem assign_once_notify_once_witness:
  "\<exists>result w'. TaskAssigneeService_addAssignee (js ''w1'') (js ''t1'') (js ''u1'') (js ''u2'') sampleWorld = (Inr result, w')
    \<and> TaskAssigneeService_addAssignee (js ''w1'') (js ''t1'') (js ''u1'') (js ''u2'') w'
        = (Inl (Conflict ''User is already assigned to this task''), w')"
proof -
  have "\<not> is_error (fst (TaskAssigneeService_addAssignee (js ''w1'') (js ''t1'') (js ''u1'') (js ''u2'') sampleWorld))"
    by (simp add: handler_defs)
  then obtain result w' where run:
    "TaskAssigneeService_addAssignee (js ''w1'') (js ''t1'') (js ''u1'') (js ''u2'') sampleWorld = (Inr result, w')"
    by (blast dest: succeeds)
  have "js ''u2'' \<noteq> []" by simp
  from assign_once_notify_once [OF this run] run show ?thesis by blast
qed

end
