(* ===== verification/Locales.thy ===== *)
theory Locales
  imports Sample
begin

section \<open>Which language a request is served in\<close>

text \<open>
  \<open>packages/shared-types/src/locales.ts\<close>, \<open>locale/locale.service.ts\<close> and \<open>common/board-defaults.ts\<close>:
  matching a language tag, reading an \<open>Accept-Language\<close> header, the stored preference, and the
  columns a new board is seeded with in the creator's language.

  \<open>parseFloat\<close> is written out, with the double-precision range: overflow is \<open>Infinity\<close>, values below
  the normal range are rounded to a multiple of \<open>2 ^ -1074\<close>. \<open>toLowerCase\<close> is modelled on ASCII and
  the Kelvin sign, the only other character whose lower case is a single ASCII letter.
\<close>

datatype app_locale = En | Tr

fun locale_tag :: "app_locale \<Rightarrow> js_string" where
  "locale_tag En = js ''en''"
| "locale_tag Tr = js ''tr''"

definition SUPPORTED_LOCALES :: "app_locale list" where
  "SUPPORTED_LOCALES = [En, Tr]"

definition DEFAULT_LOCALE :: app_locale where
  "DEFAULT_LOCALE = En"

definition isLocale :: "js_string \<Rightarrow> app_locale option" where
  \<comment> \<open>the type guard, as the locale it narrows to\<close>
  "isLocale value = find (\<lambda>l. locale_tag l = value) SUPPORTED_LOCALES"

definition js_lower :: "js_string \<Rightarrow> js_string" where
  "js_lower = map (\<lambda>c. if 65 \<le> c \<and> c \<le> 90 then c + 32 else if c = 0x212A then 107 else c)"

fun splitOn :: "code_unit \<Rightarrow> js_string \<Rightarrow> js_string list" where
  \<comment> \<open>\<open>String.prototype.split\<close> at one character\<close>
  "splitOn sep [] = [[]]"
| "splitOn sep (c # cs) =
     (if c = sep then [] # splitOn sep cs
      else (case splitOn sep cs of p # ps \<Rightarrow> (c # p) # ps | [] \<Rightarrow> [[c]]))"

definition matchLocale :: "js_string js_field \<Rightarrow> app_locale option" where
  "matchLocale tag =
     (if \<not> truthy tag then None
      else (let normalized = js_lower (js_trim (the (field_option tag)))
            in if normalized = [] \<or> normalized = js ''*'' then None
               else (case isLocale normalized of Some l \<Rightarrow> Some l
                     | None \<Rightarrow> isLocale (hd (splitOn (of_char (CHR ''-'')) normalized)))))"

subsection \<open>Numbers with infinities\<close>

instantiation js_number :: linorder
begin

definition js_rank :: "js_number \<Rightarrow> int \<times> number" where
  "js_rank n = (case n of NegInfinity \<Rightarrow> (-1, 0) | Finite r \<Rightarrow> (0, r) | PosInfinity \<Rightarrow> (1, 0))"

definition less_eq_js_number :: "js_number \<Rightarrow> js_number \<Rightarrow> bool" where
  "a \<le> b \<longleftrightarrow> js_rank a \<le> js_rank b"

definition less_js_number :: "js_number \<Rightarrow> js_number \<Rightarrow> bool" where
  "a < b \<longleftrightarrow> js_rank a < js_rank b"

lemma js_rank_inject: "js_rank a = js_rank b \<longleftrightarrow> a = b"
  by (cases a; cases b) (simp_all add: js_rank_def)

instance
  by standard (auto simp: less_eq_js_number_def less_js_number_def js_rank_inject [symmetric] less_le_not_le)

end

definition toDouble :: "rat \<Rightarrow> js_number" where
  \<comment> \<open>a mathematical value in double precision\<close>
  "toDouble v =
     (if \<bar>v\<bar> < 1 / 2 ^ 1022 then Finite (of_int (round_half_even (v * 2 ^ 1074)) / 2 ^ 1074)
      else if 2 ^ 1024 \<le> fl v then PosInfinity
      else if fl v \<le> - (2 ^ 1024) then NegInfinity
      else Finite (fl v))"

lemma toDouble_int:
  assumes "n \<noteq> 0" and "\<bar>n\<bar> \<le> 2 ^ 53"
  shows "toDouble (of_int n) = Finite (of_int n)"
proof -
  have fl: "fl (of_int n) = of_int n" using is_double_of_int [of n] assms(2) by (simp add: is_double_def)
  have "(1 :: rat) \<le> \<bar>of_int n\<bar>" using assms(1) by linarith
  then have a: "\<not> \<bar>rat_of_int n\<bar> < 1 / 2 ^ 1022" by (simp add: field_simps)
  have b: "\<bar>rat_of_int n\<bar> \<le> 2 ^ 53" using assms(2) by (metis of_int_abs of_int_le_iff of_int_numeral of_int_power)
  have c: "(2 :: rat) ^ 53 < 2 ^ 1024" by (rule power_strict_increasing) simp_all
  from b c have "\<not> 2 ^ 1024 \<le> rat_of_int n" "\<not> rat_of_int n \<le> - (2 ^ 1024)" by linarith+
  with a show ?thesis by (simp only: toDouble_def fl if_False)
qed

definition isDigit :: "code_unit \<Rightarrow> bool" where
  "isDigit c \<longleftrightarrow> 48 \<le> c \<and> c \<le> 57"

definition digitsValue :: "js_string \<Rightarrow> int" where
  "digitsValue s = foldl (\<lambda>n c. 10 * n + (uint c - 48)) 0 s"

definition scale10 :: "int \<Rightarrow> int \<Rightarrow> rat" where
  "scale10 m e = (if 0 \<le> e then of_int m * 10 ^ nat e else of_int m / 10 ^ nat (- e))"

definition exponentOf :: "js_string \<Rightarrow> int" where
  \<comment> \<open>the exponent part of a decimal literal, 0 when there is none\<close>
  "exponentOf s =
     (case s of [] \<Rightarrow> 0
      | c # cs \<Rightarrow> if c \<noteq> of_char (CHR ''e'') \<and> c \<noteq> of_char (CHR ''E'') then 0
          else (case cs of [] \<Rightarrow> 0
                | d # ds \<Rightarrow> if d = of_char (CHR ''-'') then - digitsValue (takeWhile isDigit ds)
                    else if d = of_char (CHR ''+'') then digitsValue (takeWhile isDigit ds)
                    else digitsValue (takeWhile isDigit cs)))"

definition parseUnsigned :: "js_string \<Rightarrow> rat option option" where
  \<comment> \<open>\<open>None\<close> is NaN, \<open>Some None\<close> is Infinity\<close>
  "parseUnsigned s =
     (if take 8 s = js ''Infinity'' then Some None
      else (let whole = takeWhile isDigit s;
                r = dropWhile isDigit s;
                point = (r \<noteq> [] \<and> hd r = of_char (CHR ''.''));
                fraction = (if point then takeWhile isDigit (tl r) else []);
                r' = (if point then dropWhile isDigit (tl r) else r)
            in if whole = [] \<and> fraction = [] then None
               else Some (Some (scale10 (digitsValue (whole @ fraction))
                 (exponentOf r' - int (length fraction))))))"

definition parseFloat :: "js_string \<Rightarrow> js_number option" where
  "parseFloat s =
     (let t = dropWhile js_space s;
          negative = (t \<noteq> [] \<and> hd t = of_char (CHR ''-''));
          body = (if t \<noteq> [] \<and> (hd t = of_char (CHR ''-'') \<or> hd t = of_char (CHR ''+'')) then tl t else t)
      in (case parseUnsigned body of None \<Rightarrow> None
          | Some None \<Rightarrow> Some (if negative then NegInfinity else PosInfinity)
          | Some (Some v) \<Rightarrow> Some (toDouble (if negative then - v else v))))"

subsection \<open>Accept-Language\<close>

record WeightedTag =
  wt_tag :: js_string
  wt_quality :: js_number

definition weightedTag :: "js_string \<Rightarrow> WeightedTag option" where
  \<comment> \<open>one turn of the loop: \<open>continue\<close> is \<open>None\<close>\<close>
  "weightedTag part =
     (let pieces = splitOn (of_char (CHR '';'')) part;
          tag = js_trim (hd pieces);
          qParam = find (\<lambda>p. take 2 (js_lower (js_trim p)) = js ''q='') (tl pieces);
          quality = (case qParam of None \<Rightarrow> Finite 1
            | Some p \<Rightarrow> (case parseFloat (drop 2 (js_trim p)) of None \<Rightarrow> Finite 1 | Some q \<Rightarrow> q))
      in if tag = [] \<or> quality \<le> Finite 0 then None
         else Some \<lparr>wt_tag = tag, wt_quality = quality\<rparr>)"

definition sortDescending :: "WeightedTag list \<Rightarrow> WeightedTag list" where
  \<comment> \<open>\<open>weighted.sort((a, b) => b.quality - a.quality)\<close>, which is stable\<close>
  "sortDescending ts = rev (sort_key wt_quality (rev ts))"

fun firstMatch :: "WeightedTag list \<Rightarrow> app_locale option" where
  "firstMatch [] = None"
| "firstMatch (t # ts) =
     (case matchLocale (Value (wt_tag t)) of Some l \<Rightarrow> Some l | None \<Rightarrow> firstMatch ts)"

definition negotiateLocale :: "js_string js_field \<Rightarrow> app_locale option" where
  "negotiateLocale header =
     (if \<not> truthy header then None
      else firstMatch (sortDescending (List.map_filter weightedTag
        (splitOn (of_char (CHR '','')) (the (field_option header))))))"

fun resolveLocale :: "js_string js_field list \<Rightarrow> app_locale" where
  "resolveLocale [] = DEFAULT_LOCALE"
| "resolveLocale (c # cs) = (case matchLocale c of Some l \<Rightarrow> l | None \<Rightarrow> resolveLocale cs)"

lemma firstMatch_Some:
  "firstMatch ts = Some l \<Longrightarrow> \<exists>xs t ys. ts = xs @ t # ys \<and> matchLocale (Value (wt_tag t)) = Some l
     \<and> (\<forall>x \<in> set xs. matchLocale (Value (wt_tag x)) = None)"
proof (induction ts)
  case (Cons t ts)
  show ?case
  proof (cases "matchLocale (Value (wt_tag t))")
    case None
    with Cons obtain xs u ys where "ts = xs @ u # ys" "matchLocale (Value (wt_tag u)) = Some l"
      "\<forall>x \<in> set xs. matchLocale (Value (wt_tag x)) = None"
      by auto
    with None show ?thesis by (intro exI [of _ "t # xs"] exI [of _ u] exI [of _ ys]) simp
  next
    case (Some l')
    with Cons.prems show ?thesis by (intro exI [of _ "[]"]) simp
  qed
qed simp

lemma firstMatch_None: "firstMatch ts = None \<Longrightarrow> \<forall>t \<in> set ts. matchLocale (Value (wt_tag t)) = None"
  by (induction ts) (auto split: option.splits)

lemma sortDescending_sorted: "sorted_wrt (\<lambda>a b. wt_quality b \<le> wt_quality a) (sortDescending ts)"
proof -
  have "sorted (map wt_quality (sort_key wt_quality (rev ts)))" by simp
  then show ?thesis
    unfolding sortDescending_def sorted_wrt_rev by (simp add: sorted_map sorted_wrt_map)
qed

text \<open>
  C34. The language negotiated from a header is that of an entry the product supports and the client
  accepts, and no supported entry has a higher weight; it is \<open>null\<close> only if no acceptable entry is
  supported.
\<close>

theorem negotiate_best:
  assumes "header \<noteq> []"
  defines "accepted \<equiv> List.map_filter weightedTag (splitOn (of_char (CHR '','')) header)"
  shows "case negotiateLocale (Value header) of
      None \<Rightarrow> \<forall>t \<in> set accepted. matchLocale (Value (wt_tag t)) = None
    | Some l \<Rightarrow> \<exists>t \<in> set accepted. matchLocale (Value (wt_tag t)) = Some l
        \<and> (\<forall>u \<in> set accepted. matchLocale (Value (wt_tag u)) \<noteq> None \<longrightarrow> wt_quality u \<le> wt_quality t)"
proof -
  let ?sorted = "sortDescending accepted"
  have set: "set ?sorted = set accepted" by (simp add: sortDescending_def)
  have eq: "negotiateLocale (Value header) = firstMatch ?sorted"
    using assms(1) by (simp add: negotiateLocale_def accepted_def)
  show ?thesis
  proof (cases "firstMatch ?sorted")
    case None
    then have "\<forall>t \<in> set ?sorted. matchLocale (Value (wt_tag t)) = None"
      by (rule firstMatch_None)
    then show ?thesis by (simp add: eq None set)
  next
    case (Some l)
    then obtain xs t ys where split: "?sorted = xs @ t # ys" and t: "matchLocale (Value (wt_tag t)) = Some l"
      and none: "\<forall>x \<in> set xs. matchLocale (Value (wt_tag x)) = None"
      using firstMatch_Some by blast
    have below: "\<forall>y \<in> set ys. wt_quality y \<le> wt_quality t"
      using sortDescending_sorted [of accepted] unfolding split sorted_wrt_append by simp
    have "t \<in> set accepted" using split set by (metis in_set_conv_decomp)
    moreover have "wt_quality u \<le> wt_quality t"
      if "u \<in> set accepted" "matchLocale (Value (wt_tag u)) \<noteq> None" for u
    proof -
      from that(1) have "u \<in> set xs \<union> {t} \<union> set ys" unfolding set [symmetric] split by simp
      with that(2) none below show ?thesis by auto
    qed
    ultimately show ?thesis using t by (auto simp: eq Some)
  qed
qed

text \<open>A header that lists English first and prefers Turkish.\<close>

theorem negotiate_best_witness:
  "\<exists>t :: WeightedTag. matchLocale (Value (wt_tag t)) = negotiateLocale (Value (js ''en;q=0.5, tr-TR;q=0.9''))
    \<and> negotiateLocale (Value (js ''en;q=0.5, tr-TR;q=0.9'')) = Some Tr"
proof -
  have fl: "fl (1 / 2) = 1 / 2" "fl (9 / 10) = 8106479329266893 / 9007199254740992"
    by code_simp+
  have neg: "negotiateLocale (Value (js ''en;q=0.5, tr-TR;q=0.9'')) = Some Tr"
    by (simp add: negotiateLocale_def weightedTag_def map_filter_simps js_trim_def js_space_def js_lower_def
        Let_def parseFloat_def parseUnsigned_def isDigit_def digitsValue_def scale10_def exponentOf_def
        toDouble_def fl sortDescending_def matchLocale_def isLocale_def SUPPORTED_LOCALES_def
        less_eq_js_number_def js_rank_def)
  have "js ''en;q=0.5, tr-TR;q=0.9'' \<noteq> []" by simp
  from negotiate_best [OF this] obtain t :: WeightedTag where "matchLocale (Value (wt_tag t)) = Some Tr"
    unfolding neg option.case by blast
  then show ?thesis unfolding neg by blast
qed

subsection \<open>LocaleService\<close>

definition optionField :: "js_string option \<Rightarrow> js_string js_field" where
  "optionField f = (case f of None \<Rightarrow> Null | Some s \<Rightarrow> Value s)"

definition LocaleService_read :: "uuid \<Rightarrow> app_locale option handler" where
  "LocaleService_read userId = reads (\<lambda>w.
     matchLocale (case find (\<lambda>u. u_id u = userId) (users w) of
       None \<Rightarrow> Undefined | Some u \<Rightarrow> optionField (u_locale u)))"

definition LocaleService_write :: "uuid \<Rightarrow> app_locale option \<Rightarrow> app_locale option handler" where
  "LocaleService_write userId loc w =
     (if list_ex (\<lambda>u. u_id u = userId) (users w)
      then (Inr (matchLocale (optionField (map_option locale_tag loc))),
            w\<lparr>users := map (\<lambda>u. if u_id u = userId then u\<lparr>u_locale := map_option locale_tag loc\<rparr> else u) (users w)\<rparr>)
      else (Inl (PrismaError ''P2025''), w))"

definition LocaleService_resolve :: "uuid option \<Rightarrow> js_string js_field \<Rightarrow> app_locale handler" where
  "LocaleService_resolve userId acceptLanguage =
     bindE (case userId of None \<Rightarrow> return None | Some u \<Rightarrow> LocaleService_read u) (\<lambda>stored.
     return (case stored of Some l \<Rightarrow> l
       | None \<Rightarrow> (case negotiateLocale acceptLanguage of Some l \<Rightarrow> l | None \<Rightarrow> DEFAULT_LOCALE)))"

text \<open>
  A stored preference is what the next request resolves to, whatever its header says; clearing it
  falls back to the header, and then to English.
\<close>

theorem locale_preference_wins:
  assumes "LocaleService_write userId preference w = (Inr r, w')"
  shows "LocaleService_resolve (Some userId) header w' =
    (Inr (case preference of Some l \<Rightarrow> l
       | None \<Rightarrow> (case negotiateLocale header of Some l \<Rightarrow> l | None \<Rightarrow> En)), w')"
proof -
  from assms have ex: "list_ex (\<lambda>u. u_id u = userId) (users w)"
    and w': "w' = w\<lparr>users := map (\<lambda>u. if u_id u = userId
      then u\<lparr>u_locale := map_option locale_tag preference\<rparr> else u) (users w)\<rparr>"
    by (auto simp: LocaleService_write_def split: if_splits)
  have "list_ex (\<lambda>u. u_id u = userId) us \<Longrightarrow> map_option u_locale (find (\<lambda>u. u_id u = userId)
      (map (\<lambda>u. if u_id u = userId then u\<lparr>u_locale := p\<rparr> else u) us)) = Some p" for us p
    by (induction us) auto
  from this [OF ex, of "map_option locale_tag preference"]
  obtain u where u: "find (\<lambda>u. u_id u = userId) (users w') = Some u"
    and loc: "u_locale u = map_option locale_tag preference"
    by (auto simp: w')
  have match: "matchLocale (optionField (map_option locale_tag preference)) = preference"
  proof (cases preference)
    case (Some l)
    have "matchLocale (Value (js ''en'')) = Some En" "matchLocale (Value (js ''tr'')) = Some Tr"
      by code_simp+
    with Some show ?thesis by (cases l) (simp_all add: optionField_def)
  qed (simp add: optionField_def matchLocale_def)
  show ?thesis
    by (simp add: LocaleService_resolve_def LocaleService_read_def bindE_def reads_def return_def
        u loc match DEFAULT_LOCALE_def split: option.splits)
qed

lemma locale_preference_wins_witness:
  "LocaleService_resolve (Some (js ''u1'')) (Value (js ''en''))
     (snd (LocaleService_write (js ''u1'') (Some Tr) sampleWorld))
   = (Inr Tr, snd (LocaleService_write (js ''u1'') (Some Tr) sampleWorld))"
proof -
  obtain r w' where w': "LocaleService_write (js ''u1'') (Some Tr) sampleWorld = (Inr r, w')"
    by (simp add: LocaleService_write_def sampleWorld_def)
  from locale_preference_wins [OF w', of "Value (js ''en'')"] show ?thesis by (simp only: w' snd_conv option.case)
qed

subsection \<open>board-defaults.ts\<close>

record DefaultColumn =
  dc_name :: js_string
  dc_position :: number
  dc_category :: column_category

datatype seed_key = Todo | InProgress | Done

definition SEED_COLUMNS :: "(seed_key \<times> number \<times> column_category) list" where
  "SEED_COLUMNS = [(Todo, 1000, UNSTARTED), (InProgress, 2000, STARTED), (Done, 3000, COMPLETED)]"

fun SEED_COLUMN_NAMES :: "app_locale \<Rightarrow> seed_key \<Rightarrow> js_string" where
  "SEED_COLUMN_NAMES En Todo = js ''To Do''"
| "SEED_COLUMN_NAMES En InProgress = js ''In Progress''"
| "SEED_COLUMN_NAMES En Done = js ''Done''"
| "SEED_COLUMN_NAMES Tr Todo = js ''Yap'' @ [0x131] @ js ''lacak''"
| "SEED_COLUMN_NAMES Tr InProgress = js ''Devam Ediyor''"
| "SEED_COLUMN_NAMES Tr Done = js ''Bitti''"

definition defaultColumnsFor :: "app_locale \<Rightarrow> DefaultColumn list" where
  "defaultColumnsFor loc = map (\<lambda>(key, position, category).
     \<lparr>dc_name = SEED_COLUMN_NAMES loc key, dc_position = position, dc_category = category\<rparr>) SEED_COLUMNS"

declare LocaleService_read_def [handler_defs] LocaleService_resolve_def [handler_defs]
  optionField_def [handler_defs] defaultColumnsFor_def [handler_defs] SEED_COLUMNS_def [handler_defs]
  DEFAULT_LOCALE_def [handler_defs]

end
