(* ===== verification/Columns.thy ===== *)
theory Columns
  imports TaskOrder Locales
begin

section \<open>Columns\<close>

text \<open>
  \<open>column.service.ts\<close> and \<open>common/field-changes.ts\<close>, one definition per method. A board shows its
  columns in the order of their positions; \<open>create\<close> and \<open>move\<close> place a column with the same
  arithmetic as tasks, and the theorems about \<open>placed\<close> carry over.
\<close>

subsection \<open>field-changes.ts\<close>

definition fieldChange :: "string \<Rightarrow> json \<Rightarrow> json \<Rightarrow> (js_string \<times> json) list" where
  "fieldChange field from_value to_value =
     (if from_value = to_value then []
      else [(js field, JObject [(js ''from'', from_value), (js ''to'', to_value)])])"

definition fieldChanges :: "(string \<times> json \<times> json) list \<Rightarrow> json" where
  \<comment> \<open>the fields in their order, each with its value before and after\<close>
  "fieldChanges entries = JObject (concat (map (\<lambda>(field, before, after). fieldChange field before after) entries))"

subsection \<open>Rows and bodies\<close>

record CreateColumnDto =
  cc_name :: js_string
  cc_afterColumnId :: "js_string js_field"
  cc_color :: "js_string js_field"
  cc_category :: "column_category js_field"

record UpdateColumnDto =
  uc_name :: "js_string option"
  uc_color :: "js_string js_field"
  uc_category :: "column_category option"

record MoveColumnDto =
  mc_beforeColumnId :: "js_string js_field"
  mc_afterColumnId :: "js_string js_field"

record ColumnDto =
  cd_id :: uuid
  cd_boardId :: uuid
  cd_name :: js_string
  cd_position :: number
  cd_color :: "js_string option"
  cd_category :: column_category
  cd_taskCount :: nat

definition taskCountOf :: "world \<Rightarrow> uuid \<Rightarrow> nat" where
  \<comment> \<open>\<open>_count: { select: { tasks: true } }\<close>\<close>
  "taskCountOf w columnId = length (filter (\<lambda>t. t_columnId t = columnId) (tasks w))"

definition toColumnDto :: "world \<Rightarrow> column_row \<Rightarrow> ColumnDto" where
  "toColumnDto w c =
     \<lparr>cd_id = c_id c, cd_boardId = c_boardId c, cd_name = c_name c, cd_position = c_position c,
      cd_color = c_color c, cd_category = c_category c, cd_taskCount = taskCountOf w (c_id c)\<rparr>"

definition columnItem :: "column_row \<Rightarrow> item" where
  "columnItem c = \<lparr>item_id = c_id c, item_position = c_position c\<rparr>"

definition columnSiblings :: "world \<Rightarrow> uuid \<Rightarrow> item list" where
  "columnSiblings w boardId =
     orderedItems (map columnItem (filter (\<lambda>c. c_boardId c = boardId) (columns w)))"

definition columnsOf :: "world \<Rightarrow> uuid \<Rightarrow> column_row list" where
  \<comment> \<open>\<open>findMany({ where: { boardId }, orderBy: [position, id] })\<close>\<close>
  "columnsOf w boardId = sort_key (\<lambda>c. (c_position c, c_id c)) (filter (\<lambda>c. c_boardId c = boardId) (columns w))"

definition batchUpdateColumnPositions :: "uuid \<Rightarrow> (js_string \<times> number) list \<Rightarrow> world \<Rightarrow> world" where
  "batchUpdateColumnPositions boardId updates w =
     (if updates = [] then w
      else w\<lparr>columns := map (\<lambda>c. if c_boardId c = boardId
        then c\<lparr>c_position := applyUpdates updates (c_id c) (c_position c)\<rparr> else c) (columns w)\<rparr>)"

definition insertColumn ::
  "uuid \<Rightarrow> js_string \<Rightarrow> js_string js_field \<Rightarrow> column_category js_field \<Rightarrow> number \<Rightarrow> column_row handler" where
  \<comment> \<open>\<open>column.create\<close>: the client refuses \<open>category: null\<close>, the schema default is \<open>UNSTARTED\<close>\<close>
  "insertColumn boardId name color category position w =
     (if category = Null then (Inl (PrismaError ''PrismaClientValidationError''), w)
      else (let row = \<lparr>c_id = freshId w, c_boardId = boardId, c_name = name, c_position = position,
                   c_color = field_option color,
                   c_category = (case field_option category of None \<Rightarrow> UNSTARTED | Some c \<Rightarrow> c)\<rparr>
            in (Inr row, (tick w)\<lparr>columns := columns w @ [row]\<rparr>)))"

definition updateColumnRow :: "uuid \<Rightarrow> uuid \<Rightarrow> (column_row \<Rightarrow> column_row) \<Rightarrow> column_row handler" where
  "updateColumnRow workspaceId columnId change w =
     (case findColumnRow w workspaceId columnId of
        None \<Rightarrow> (Inl (PrismaError ''P2025''), w)
      | Some c \<Rightarrow> (Inr (change c), w\<lparr>columns := map (\<lambda>x.
          if c_id x = columnId \<and> boardIn w workspaceId (c_boardId x) then change c else x) (columns w)\<rparr>))"

definition ColumnService_emitChanged :: "uuid \<Rightarrow> uuid \<Rightarrow> uuid \<Rightarrow> uuid \<Rightarrow> world \<Rightarrow> world" where
  "ColumnService_emitChanged workspaceId actorId boardId columnId =
     emitToBoard boardId (COLUMN_CHANGED (taskScope workspaceId boardId actorId) columnId)"

subsection \<open>list and create\<close>

definition ColumnService_list :: "uuid \<Rightarrow> uuid \<Rightarrow> ColumnDto list handler" where
  "ColumnService_list workspaceId boardId =
     bindE (assertBoard workspaceId boardId) (\<lambda>_.
     reads (\<lambda>w. map (toColumnDto w) (columnsOf w boardId)))"

definition ColumnService_create ::
  "uuid \<Rightarrow> uuid \<Rightarrow> uuid \<Rightarrow> CreateColumnDto \<Rightarrow> ColumnDto handler" where
  "ColumnService_create workspaceId boardId actorId dto =
     bindE (assertBoard workspaceId boardId) (\<lambda>_.
     bindE (transaction (
       bindE (reads (\<lambda>w. columnSiblings w boardId)) (\<lambda>siblings.
       bindE (lift (resolveCreateNeighbors siblings (cc_afterColumnId dto) ''Column not found'')) (\<lambda>slot.
       let prevPos = map_option item_position (slot_prev slot);
           nextPos = map_option item_position (slot_next slot);
           position = midpoint prevPos nextPos
       in if needsRebalance prevPos nextPos
          then (let positions = rebalancePositions (length siblings + 1) POSITION_GAP in
            bindE (modify (batchUpdateColumnPositions boardId
              (createUpdates siblings (insertionIndex slot) positions))) (\<lambda>_.
            bindE (insertColumn boardId (cc_name dto) (cc_color dto) (cc_category dto)
              (positions ! insertionIndex slot)) (\<lambda>row.
            reads (\<lambda>w. toColumnDto w row))))
          else
            bindE (insertColumn boardId (cc_name dto) (cc_color dto) (cc_category dto) position) (\<lambda>row.
            reads (\<lambda>w. toColumnDto w row)))))) (\<lambda>created.
     bindE (recordActivity workspaceId None actorId ColumnCreated
       [(''columnId'', JString (cd_id created)), (''boardId'', JString (cd_boardId created)),
        (''name'', JString (cd_name created)),
        (''category'', JString (column_category_name (cd_category created)))]) (\<lambda>_.
     bindE (modify (ColumnService_emitChanged workspaceId actorId (cd_boardId created) (cd_id created))) (\<lambda>_.
     return created))))"

subsection \<open>createDefaults\<close>

definition insertDefaultColumn :: "uuid \<Rightarrow> DefaultColumn \<Rightarrow> world \<Rightarrow> world" where
  "insertDefaultColumn boardId c w = (tick w)\<lparr>columns := columns w
     @ [\<lparr>c_id = freshId w, c_boardId = boardId, c_name = dc_name c, c_position = dc_position c,
         c_color = None, c_category = dc_category c\<rparr>]\<rparr>"

definition logSeededColumn :: "uuid \<Rightarrow> uuid \<Rightarrow> uuid \<Rightarrow> column_row \<Rightarrow> world \<Rightarrow> world" where
  "logSeededColumn workspaceId boardId actorId c =
     logActivity workspaceId None actorId ColumnCreated
       [(''columnId'', JString (c_id c)), (''boardId'', JString boardId), (''name'', JString (c_name c)),
        (''category'', JString (column_category_name (c_category c))), (''seeded'', JBool True)]"

definition ColumnService_createDefaults ::
  "uuid \<Rightarrow> uuid \<Rightarrow> uuid \<Rightarrow> js_string js_field \<Rightarrow> ColumnDto list handler" where
  "ColumnService_createDefaults workspaceId boardId actorId acceptLanguage =
     bindE (assertBoard workspaceId boardId) (\<lambda>_.
     bindE (LocaleService_resolve (Some actorId) acceptLanguage) (\<lambda>loc.
     bindE (transaction (
       bindE (\<lambda>w. failIf (list_ex (\<lambda>c. c_boardId c = boardId) (columns w))
         (Conflict ''Board already has columns'') w) (\<lambda>_.
       bindE (modify (fold (insertDefaultColumn boardId) (defaultColumnsFor loc))) (\<lambda>_.
       bindE (reads (\<lambda>w. columnsOf w boardId)) (\<lambda>rows.
       bindE (modify (fold (logSeededColumn workspaceId boardId actorId) rows)) (\<lambda>_.
       return rows)))))) (\<lambda>created.
     bindE (reads (\<lambda>w. map (toColumnDto w) created)) (\<lambda>dtos.
     bindE (modify (fold (\<lambda>c. ColumnService_emitChanged workspaceId actorId boardId (c_id c)) created)) (\<lambda>_.
     return dtos)))))"

subsection \<open>update and remove\<close>

definition patchColumn :: "UpdateColumnDto \<Rightarrow> column_row \<Rightarrow> column_row" where
  "patchColumn dto c = c\<lparr>
     c_name := (case uc_name dto of None \<Rightarrow> c_name c | Some s \<Rightarrow> s),
     c_color := patched (c_color c) (uc_color dto),
     c_category := (case uc_category dto of None \<Rightarrow> c_category c | Some x \<Rightarrow> x)\<rparr>"

definition ColumnService_update ::
  "uuid \<Rightarrow> uuid \<Rightarrow> uuid \<Rightarrow> UpdateColumnDto \<Rightarrow> ColumnDto handler" where
  "ColumnService_update workspaceId columnId actorId dto =
     bindE (transaction (
       bindE (orThrow (NotFound ''Column not found'') (\<lambda>w. findColumnRow w workspaceId columnId)) (\<lambda>scoped.
       bindE (updateColumnRow workspaceId columnId (patchColumn dto)) (\<lambda>updated.
       bindE (recordActivity workspaceId None actorId ColumnUpdated
         [(''columnId'', JString columnId), (''boardId'', JString (c_boardId updated)),
          (''name'', JString (c_name updated)),
          (''changes'', fieldChanges
            [(''name'', JString (c_name scoped), JString (c_name updated)),
             (''color'', nullable JString (c_color scoped), nullable JString (c_color updated)),
             (''category'', JString (column_category_name (c_category scoped)),
               JString (column_category_name (c_category updated)))])]) (\<lambda>_.
       reads (\<lambda>w. toColumnDto w updated)))))) (\<lambda>dtoOut.
     bindE (modify (ColumnService_emitChanged workspaceId actorId (cd_boardId dtoOut) (cd_id dtoOut))) (\<lambda>_.
     return dtoOut))"

definition ColumnService_remove :: "uuid \<Rightarrow> uuid \<Rightarrow> uuid \<Rightarrow> unit handler" where
  "ColumnService_remove workspaceId columnId actorId =
     bindE (transaction (
       bindE (orThrow (NotFound ''Column not found'') (\<lambda>w. findColumnRow w workspaceId columnId)) (\<lambda>row.
       bindE (\<lambda>w. failIf (0 < taskCountOf w columnId)
         (Conflict ''Column has tasks; move or delete them first'') w) (\<lambda>_.
       bindE (recordActivity workspaceId None actorId ColumnDeleted
         [(''columnId'', JString columnId), (''boardId'', JString (c_boardId row)),
          (''name'', JString (c_name row)),
          (''category'', JString (column_category_name (c_category row)))]) (\<lambda>_ w.
       let gone = (\<lambda>c. c_id c = columnId \<and> boardIn w workspaceId (c_boardId c))
       in if list_ex gone (columns w)
          then (Inr row, (cascadeTasks (\<lambda>k. list_ex (\<lambda>t. t_id t = k \<and> t_columnId t = columnId
                   \<and> boardIn w workspaceId (t_boardId t)) (tasks w)) w)
                 \<lparr>columns := filter (\<lambda>c. \<not> gone c) (columns w)\<rparr>)
          else (Inl (NotFound ''Column not found''), w)))))) (\<lambda>column.
     modify (ColumnService_emitChanged workspaceId actorId (c_boardId column) (c_id column)))"

subsection \<open>move\<close>

definition ColumnService_move ::
  "uuid \<Rightarrow> uuid \<Rightarrow> uuid \<Rightarrow> MoveColumnDto \<Rightarrow> ColumnDto handler" where
  "ColumnService_move workspaceId columnId actorId dto =
     bindE (transaction (
       bindE (orThrow (NotFound ''Column not found'') (\<lambda>w. findColumnRow w workspaceId columnId)) (\<lambda>column.
       bindE (failIf (mc_beforeColumnId dto = Value columnId \<or> mc_afterColumnId dto = Value columnId)
         (BadRequest ''A column cannot be its own neighbor'')) (\<lambda>_.
       bindE (reads (\<lambda>w. columnSiblings w (c_boardId column))) (\<lambda>siblings.
       let remaining = filter (\<lambda>s. item_id s \<noteq> columnId) siblings in
       bindE (lift (resolveMoveNeighbors remaining (mc_beforeColumnId dto) (mc_afterColumnId dto))) (\<lambda>slot.
       let prevPos = map_option item_position (slot_prev slot);
           nextPos = map_option item_position (slot_next slot)
       in if needsRebalance prevPos nextPos
          then (let positions = rebalancePositions (length remaining + 1) POSITION_GAP;
                    otherUpdates = moveUpdates remaining (insertionIndex slot) (columnItem column) positions in
            bindE (updateColumnRow workspaceId columnId
              (\<lambda>c. c\<lparr>c_position := positions ! insertionIndex slot\<rparr>)) (\<lambda>_.
            bindE (modify (batchUpdateColumnPositions (c_boardId column) otherUpdates)) (\<lambda>_.
            bindE (orThrow (PrismaError ''P2025'') (\<lambda>w. findColumnRow w workspaceId columnId)) (\<lambda>refreshed.
            reads (\<lambda>w. toColumnDto w refreshed)))))
          else
            bindE (updateColumnRow workspaceId columnId
              (\<lambda>c. c\<lparr>c_position := midpoint prevPos nextPos\<rparr>)) (\<lambda>updated.
            reads (\<lambda>w. toColumnDto w updated)))))))) (\<lambda>moved.
     bindE (modify (ColumnService_emitChanged workspaceId actorId (cd_boardId moved) (cd_id moved))) (\<lambda>_.
     return moved))"

declare fieldChange_def [handler_defs] fieldChanges_def [handler_defs] taskCountOf_def [handler_defs]
  toColumnDto_def [handler_defs] columnItem_def [handler_defs] columnSiblings_def [handler_defs]
  columnsOf_def [handler_defs] insertColumn_def [handler_defs] updateColumnRow_def [handler_defs]
  ColumnService_emitChanged_def [handler_defs] ColumnService_list_def [handler_defs]
  ColumnService_create_def [handler_defs] insertDefaultColumn_def [handler_defs]
  logSeededColumn_def [handler_defs] ColumnService_createDefaults_def [handler_defs]
  patchColumn_def [handler_defs] ColumnService_update_def [handler_defs]
  ColumnService_remove_def [handler_defs] ColumnService_move_def [handler_defs]

end
