(* ===== verification/ColumnProps.thy ===== *)
theory ColumnProps
  imports Columns
begin

section \<open>The order of a board's columns, and what removing one may take along\<close>

text \<open>
  The list-insertion specification \<open>placed\<close> holds for columns as it does for tasks; a board is seeded
  once, with the same three stages in every language; and a column that holds tasks is never removed.
\<close>

definition boardItems :: "world \<Rightarrow> uuid \<Rightarrow> item list" where
  "boardItems w boardId = map columnItem (filter (\<lambda>c. c_boardId c = boardId) (columns w))"

definition boardOrder :: "world \<Rightarrow> uuid \<Rightarrow> uuid list" where
  "boardOrder w boardId = map item_id (columnSiblings w boardId)"

definition boardSafe :: "world \<Rightarrow> uuid \<Rightarrow> bool" where
  "boardSafe w boardId \<longleftrightarrow>
     (\<forall>c \<in> set (columns w). c_boardId c = boardId \<longrightarrow> safe_position (c_position c))
       \<and> length (boardItems w boardId) < MAX_SIBLINGS"

lemma columnItem_sel [simp]:
  "item_id (columnItem c) = c_id c" "item_position (columnItem c) = c_position c"
  by (simp_all add: columnItem_def)

lemma columnSiblings_items: "columnSiblings w b = orderedItems (boardItems w b)"
  by (simp add: columnSiblings_def boardItems_def)

lemma set_boardItems: "set (boardItems w b) = columnItem ` {c \<in> set (columns w). c_boardId c = b}"
  by (auto simp: boardItems_def)

lemma distinct_boardItems:
  assumes "distinct (map c_id (columns w))"
  shows "distinct (map item_id (boardItems w b))"
proof -
  have "map item_id (boardItems w b) = map c_id (filter (\<lambda>c. c_boardId c = b) (columns w))"
    by (simp add: boardItems_def comp_def)
  with assms show ?thesis by (simp add: distinct_map_filter)
qed

lemma batchUpdateColumnPositions_eq:
  "batchUpdateColumnPositions b updates w = w\<lparr>columns := map (\<lambda>c. if c_boardId c = b
     then c\<lparr>c_position := applyUpdates updates (c_id c) (c_position c)\<rparr> else c) (columns w)\<rparr>"
proof (cases "updates = []")
  case True
  then show ?thesis by (simp add: batchUpdateColumnPositions_def applyUpdates_def cong: if_cong)
qed (simp add: batchUpdateColumnPositions_def)

lemma boardItems_batch:
  "boardItems (batchUpdateColumnPositions b updates w) b = map (updateItem updates) (boardItems w b)"
  "b' \<noteq> b \<Longrightarrow> boardItems (batchUpdateColumnPositions b updates w) b' = boardItems w b'"
proof -
  have "map columnItem (filter (\<lambda>c. c_boardId c = b') (map (\<lambda>c. if c_boardId c = b
      then c\<lparr>c_position := applyUpdates updates (c_id c) (c_position c)\<rparr> else c) cs)) =
    (if b' = b then map (updateItem updates) (map columnItem (filter (\<lambda>c. c_boardId c = b) cs))
     else map columnItem (filter (\<lambda>c. c_boardId c = b') cs))" for b' cs
    by (induction cs) (auto simp: columnItem_def)
  then show "boardItems (batchUpdateColumnPositions b updates w) b = map (updateItem updates) (boardItems w b)"
    "b' \<noteq> b \<Longrightarrow> boardItems (batchUpdateColumnPositions b updates w) b' = boardItems w b'"
    by (simp_all add: boardItems_def batchUpdateColumnPositions_eq)
qed

subsection \<open>create\<close>

lemma toColumnDto_sel [simp]:
  "cd_id (toColumnDto w c) = c_id c" "cd_boardId (toColumnDto w c) = c_boardId c"
  "cd_position (toColumnDto w c) = c_position c"
  by (simp_all add: toColumnDto_def)

lemma insertColumn_Inr:
  "insertColumn b name color category position w = (Inr row, w') \<longleftrightarrow>
     category \<noteq> Null \<and> row = \<lparr>c_id = freshId w, c_boardId = b, c_name = name, c_position = position,
       c_color = field_option color,
       c_category = (case field_option category of None \<Rightarrow> UNSTARTED | Some c \<Rightarrow> c)\<rparr>
     \<and> w' = (tick w)\<lparr>columns := columns w @ [row]\<rparr>"
  by (auto simp: insertColumn_def Let_def)

lemma createColumn_success:
  assumes "ColumnService_create ws b actor dto w = (Inr r, w')"
  obtains slot row w1 where
    "resolveCreateNeighbors (columnSiblings w b) (cc_afterColumnId dto) ''Column not found'' = Inr slot"
    "w1 = (if tightSlot slot then batchUpdateColumnPositions b (createUpdates (columnSiblings w b)
       (insertionIndex slot) (rebalancePositions (length (columnSiblings w b) + 1) POSITION_GAP)) w else w)"
    "c_id row = freshId w" "c_boardId row = b"
    "c_position row = slotPosition slot (length (columnSiblings w b) + 1)"
    "columns w' = columns w1 @ [row]" "cd_id r = c_id row" "tasks w' = tasks w"
proof -
  have fresh: "freshId (batchUpdateColumnPositions b u w) = freshId w" for u
    by (simp add: freshId_def batchUpdateColumnPositions_eq)
  have ts: "tasks (batchUpdateColumnPositions b u w) = tasks w" for u
    by (simp add: batchUpdateColumnPositions_eq)
  from assms obtain slot where
    slot: "resolveCreateNeighbors (columnSiblings w b) (cc_afterColumnId dto) ''Column not found'' = Inr slot"
    by (auto simp: ColumnService_create_def assertBoard_def bindE_Inr)
  define w1 where "w1 = (if tightSlot slot then batchUpdateColumnPositions b (createUpdates (columnSiblings w b)
     (insertionIndex slot) (rebalancePositions (length (columnSiblings w b) + 1) POSITION_GAP)) w else w)"
  define row where "row = \<lparr>c_id = freshId w, c_boardId = b, c_name = cc_name dto,
     c_position = slotPosition slot (length (columnSiblings w b) + 1), c_color = field_option (cc_color dto),
     c_category = (case field_option (cc_category dto) of None \<Rightarrow> UNSTARTED | Some c \<Rightarrow> c)\<rparr>"
  have "columns w' = columns w1 @ [row] \<and> cd_id r = c_id row \<and> tasks w' = tasks w"
    using assms slot
    by (cases "tightSlot slot")
      (auto simp: ColumnService_create_def assertBoard_def bindE_Inr Let_def insertColumn_Inr row_def
        ColumnService_emitChanged_def slotPosition_def fresh ts tick_def w1_def)
  then show thesis
    by (intro that [OF slot w1_def, of row]) (simp_all add: row_def)
qed

text \<open>
  Creating a column inserts it into the displayed order of its board directly after the column
  \<open>afterColumnId\<close> names, or at the end; the other columns keep their relative order.
\<close>

theorem create_places_column:
  assumes "wellFormed w" and "boardSafe w boardId"
    and "ColumnService_create workspaceId boardId actorId dto w = (Inr result, w')"
  shows "placed (cc_afterColumnId dto) Undefined (cd_id result) (boardOrder w boardId) (boardOrder w' boardId)"
proof -
  obtain slot row w1 where
    slot: "resolveCreateNeighbors (columnSiblings w boardId) (cc_afterColumnId dto) ''Column not found'' = Inr slot"
    and w1: "w1 = (if tightSlot slot then batchUpdateColumnPositions boardId (createUpdates (columnSiblings w boardId)
       (insertionIndex slot) (rebalancePositions (length (columnSiblings w boardId) + 1) POSITION_GAP)) w else w)"
    and row: "c_id row = freshId w" "c_boardId row = boardId"
      "c_position row = slotPosition slot (length (columnSiblings w boardId) + 1)"
    and w': "columns w' = columns w1 @ [row]" and r: "cd_id result = c_id row" and "tasks w' = tasks w"
    by (rule createColumn_success [OF assms(3)])
  have dist: "distinct (map item_id (boardItems w boardId))"
    using wellFormedD(2) [OF assms(1)] by (rule distinct_boardItems)
  have fresh: "freshId w \<notin> item_id ` set (boardItems w boardId)"
    using wellFormedD(10) [OF assms(1)] by (auto simp: usedIds_def set_boardItems)
  have items1: "boardItems w1 boardId = (if tightSlot slot then map (updateItem (createUpdates (columnSiblings w boardId)
      (insertionIndex slot) (rebalancePositions (length (columnSiblings w boardId) + 1) POSITION_GAP)))
      (boardItems w boardId) else boardItems w boardId)"
    by (simp add: w1 boardItems_batch)
  have "boardItems w' boardId = boardItems w1 boardId
      @ [\<lparr>item_id = freshId w, item_position = slotPosition slot (length (columnSiblings w boardId) + 1)\<rparr>]"
    by (simp add: boardItems_def w' row columnItem_def)
  then have "boardOrder w' boardId = splice_in (insertionIndex slot) (freshId w) (boardOrder w boardId)"
    using order_created [OF dist fresh _ _ columnSiblings_items slot items1] assms(2)
    by (auto simp: boardOrder_def columnSiblings_items [of w'] boardSafe_def set_boardItems)
  then show ?thesis
    using placed_create [OF slot, of "freshId w"] by (simp add: boardOrder_def r row)
qed

subsection \<open>move\<close>

lemma updateColumnRow_Inr:
  assumes "updateColumnRow ws cid change w = (Inr row, w')" and "distinct (map c_id (columns w))"
  obtains c where "findColumnRow w ws cid = Some c" and "row = change c"
    and "w' = w\<lparr>columns := map (\<lambda>x. if c_id x = cid then row else x) (columns w)\<rparr>"
proof -
  from assms(1) obtain c where c: "findColumnRow w ws cid = Some c" and row: "row = change c"
    and w': "w' = w\<lparr>columns := map (\<lambda>x. if c_id x = cid \<and> boardIn w ws (c_boardId x)
      then row else x) (columns w)\<rparr>"
    by (auto simp: updateColumnRow_def split: option.splits)
  have "boardIn w ws (c_boardId x)" if "x \<in> set (columns w)" "c_id x = cid" for x
    using findColumnRow_Some [OF c] inj_on_id [OF assms(2) that(1)] that(2) by metis
  then have "map (\<lambda>x. if c_id x = cid \<and> boardIn w ws (c_boardId x) then row else x) (columns w) =
      map (\<lambda>x. if c_id x = cid then row else x) (columns w)"
    by (intro map_cong) auto
  with c row w' that show thesis by simp
qed

lemma boardItems_replaced:
  assumes "columns w' = map (\<lambda>x. if c_id x = cid then row else x) (columns w)"
    and c: "c \<in> set (columns w)" "c_id c = cid" and "c_id row = cid" "c_boardId row = c_boardId c"
    and dist: "distinct (map c_id (columns w))"
  shows "set (boardItems w' (c_boardId c)) =
      insert (columnItem row) {s \<in> set (boardItems w (c_boardId c)). item_id s \<noteq> cid}"
    and "distinct (map item_id (boardItems w' b))"
    and "b \<noteq> c_boardId c \<Longrightarrow> boardItems w' b = boardItems w b"
proof -
  show "set (boardItems w' (c_boardId c)) =
      insert (columnItem row) {s \<in> set (boardItems w (c_boardId c)). item_id s \<noteq> cid}"
    unfolding set_boardItems assms(1) using c assms(4,5) by (auto split: if_splits)
  have "map c_id (columns w') = map c_id (columns w)"
    unfolding assms(1) using assms(4) by (auto simp: comp_def)
  with dist have "distinct (map c_id (columns w'))" by simp
  then show "distinct (map item_id (boardItems w' b))" by (rule distinct_boardItems)
  have "c_boardId x = c_boardId c" if "x \<in> set (columns w)" "c_id x = cid" for x
    using inj_on_id [OF dist that(1) c(1)] that(2) c(2) by simp
  moreover have "filter (\<lambda>x. c_boardId x = b) (map (\<lambda>x. if c_id x = cid then row else x) cs) =
      filter (\<lambda>x. c_boardId x = b) cs"
    if "b \<noteq> c_boardId c" "\<forall>x \<in> set cs. c_id x = cid \<longrightarrow> c_boardId x = c_boardId c" for cs
    using that assms(5) by (induction cs) auto
  ultimately have "b \<noteq> c_boardId c \<Longrightarrow>
      filter (\<lambda>x. c_boardId x = b) (columns w') = filter (\<lambda>x. c_boardId x = b) (columns w)"
    unfolding assms(1) by blast
  then show "b \<noteq> c_boardId c \<Longrightarrow> boardItems w' b = boardItems w b"
    by (simp add: boardItems_def)
qed

abbreviation columnKey :: "column_row \<Rightarrow> uuid \<times> uuid" where
  "columnKey c \<equiv> (c_id c, c_boardId c)"

lemma batch_keys: "map columnKey (columns (batchUpdateColumnPositions b us w)) = map columnKey (columns w)"
  by (simp add: batchUpdateColumnPositions_eq)

lemma replaced_keys:
  assumes "distinct (map c_id cs)" and "c \<in> set cs" and "columnKey row = columnKey c"
  shows "map columnKey (map (\<lambda>x. if c_id x = c_id c then row else x) cs) = map columnKey cs"
proof -
  have "columnKey (if c_id x = c_id c then row else x) = columnKey x" if "x \<in> set cs" for x
    using inj_on_id [OF assms(1) that assms(2)] assms(3) by auto
  then show ?thesis by simp
qed

lemma moveColumn_success:
  assumes "ColumnService_move ws cid actor dto w = (Inr r, w')" and dist: "distinct (map c_id (columns w))"
  obtains column slot row w1 where "findColumnRow w ws cid = Some column"
    and "resolveMoveNeighbors (filter (\<lambda>s. item_id s \<noteq> cid) (columnSiblings w (c_boardId column)))
      (mc_beforeColumnId dto) (mc_afterColumnId dto) = Inr slot"
    and "row = column\<lparr>c_position := slotPosition slot (length (filter (\<lambda>s. item_id s \<noteq> cid)
      (columnSiblings w (c_boardId column))) + 1)\<rparr>"
    and "w1 = w\<lparr>columns := map (\<lambda>x. if c_id x = cid then row else x) (columns w)\<rparr>"
    and "columns w' = columns (if tightSlot slot then batchUpdateColumnPositions (c_boardId column)
      (moveUpdates (filter (\<lambda>s. item_id s \<noteq> cid) (columnSiblings w (c_boardId column))) (insertionIndex slot)
        (columnItem column) (rebalancePositions (length (filter (\<lambda>s. item_id s \<noteq> cid)
          (columnSiblings w (c_boardId column))) + 1) POSITION_GAP)) w1 else w1)"
    and "cd_id r = cid" and "cd_boardId r = c_boardId column"
proof -
  from assms(1) obtain column slot where column: "findColumnRow w ws cid = Some column"
    and slot: "resolveMoveNeighbors (filter (\<lambda>s. item_id s \<noteq> cid) (columnSiblings w (c_boardId column)))
      (mc_beforeColumnId dto) (mc_afterColumnId dto) = Inr slot"
    by (auto simp: ColumnService_move_def bindE_Inr Let_def)
  note c = findColumnRow_Some [OF column]
  let ?rem = "filter (\<lambda>s. item_id s \<noteq> cid) (columnSiblings w (c_boardId column))"
  let ?ps = "rebalancePositions (length ?rem + 1) POSITION_GAP"
  show thesis
  proof (cases "tightSlot slot")
    case True
    from assms(1) column slot True obtain row w1 refreshed where
      upd: "updateColumnRow ws cid (\<lambda>c. c\<lparr>c_position := ?ps ! insertionIndex slot\<rparr>) w = (Inr row, w1)"
      and found: "findColumnRow (batchUpdateColumnPositions (c_boardId column)
        (moveUpdates ?rem (insertionIndex slot) (columnItem column) ?ps) w1) ws cid = Some refreshed"
      and r: "cd_id r = c_id refreshed" "cd_boardId r = c_boardId refreshed"
      and w': "columns w' = columns (batchUpdateColumnPositions (c_boardId column)
        (moveUpdates ?rem (insertionIndex slot) (columnItem column) ?ps) w1)"
      by (auto simp: ColumnService_move_def bindE_Inr Let_def ColumnService_emitChanged_def)
    obtain row: "row = column\<lparr>c_position := ?ps ! insertionIndex slot\<rparr>"
      and w1: "w1 = w\<lparr>columns := map (\<lambda>x. if c_id x = cid then row else x) (columns w)\<rparr>"
      using updateColumnRow_Inr [OF upd dist] column by fastforce
    have "columnKey refreshed \<in> set (map columnKey (columns (batchUpdateColumnPositions (c_boardId column)
        (moveUpdates ?rem (insertionIndex slot) (columnItem column) ?ps) w1)))"
      using findColumnRow_Some [OF found] by auto
    also have "\<dots> = set (map columnKey (columns w))"
      using replaced_keys [OF dist, of column row] c by (simp add: batch_keys w1 row)
    finally have "c_boardId refreshed = c_boardId column"
      using inj_on_id [OF dist, of _ column] findColumnRow_Some [OF found] c by auto
    then show thesis
      using True findColumnRow_Some [OF found] r w'
      by (intro that [OF column slot _ w1]) (simp_all add: row slotPosition_def Let_def)
  next
    case False
    from assms(1) column slot False obtain row w1 where
      upd: "updateColumnRow ws cid (\<lambda>c. c\<lparr>c_position := midpoint (map_option item_position (slot_prev slot))
        (map_option item_position (slot_next slot))\<rparr>) w = (Inr row, w1)"
      and r: "cd_id r = c_id row" "cd_boardId r = c_boardId row" and w': "columns w' = columns w1"
      by (auto simp: ColumnService_move_def bindE_Inr Let_def ColumnService_emitChanged_def)
    obtain row: "row = column\<lparr>c_position := midpoint (map_option item_position (slot_prev slot))
        (map_option item_position (slot_next slot))\<rparr>"
      and w1: "w1 = w\<lparr>columns := map (\<lambda>x. if c_id x = cid then row else x) (columns w)\<rparr>"
      using updateColumnRow_Inr [OF upd dist] column by fastforce
    with False r w' c show thesis
      by (intro that [OF column slot _ w1]) (simp_all add: row slotPosition_def Let_def)
  qed
qed

text \<open>
  C31. Moving a column takes it out of the displayed order of its board and inserts it directly after
  \<open>beforeColumnId\<close> or directly before \<open>afterColumnId\<close>, at the end when neither is named; it stays on
  its board, and no other board changes.
\<close>

theorem move_places_column:
  assumes "wellFormed w" and "boardSafe w (cd_boardId result)"
    and "ColumnService_move workspaceId columnId actorId dto w = (Inr result, w')"
  shows "placed (mc_beforeColumnId dto) (mc_afterColumnId dto) columnId
      (filter (\<lambda>k. k \<noteq> columnId) (boardOrder w (cd_boardId result))) (boardOrder w' (cd_boardId result))
    \<and> columnId \<in> set (boardOrder w (cd_boardId result))
    \<and> (\<forall>other. other \<noteq> cd_boardId result \<longrightarrow> boardOrder w' other = boardOrder w other)"
proof -
  note dist = wellFormedD(2) [OF assms(1)]
  obtain column slot row w1 where column: "findColumnRow w workspaceId columnId = Some column"
    and slot0: "resolveMoveNeighbors (filter (\<lambda>s. item_id s \<noteq> columnId) (columnSiblings w (c_boardId column)))
      (mc_beforeColumnId dto) (mc_afterColumnId dto) = Inr slot"
    and row: "row = column\<lparr>c_position := slotPosition slot (length (filter (\<lambda>s. item_id s \<noteq> columnId)
      (columnSiblings w (c_boardId column))) + 1)\<rparr>"
    and w1: "w1 = w\<lparr>columns := map (\<lambda>x. if c_id x = columnId then row else x) (columns w)\<rparr>"
    and w': "columns w' = columns (if tightSlot slot then batchUpdateColumnPositions (c_boardId column)
      (moveUpdates (filter (\<lambda>s. item_id s \<noteq> columnId) (columnSiblings w (c_boardId column))) (insertionIndex slot)
        (columnItem column) (rebalancePositions (length (filter (\<lambda>s. item_id s \<noteq> columnId)
          (columnSiblings w (c_boardId column))) + 1) POSITION_GAP)) w1 else w1)"
    and bid: "cd_boardId result = c_boardId column"
    by (rule moveColumn_success [OF assms(3) dist])
  note c = findColumnRow_Some [OF column]
  let ?b = "c_boardId column"
  let ?rem = "filter (\<lambda>s. item_id s \<noteq> columnId) (columnSiblings w ?b)"
  let ?ps = "rebalancePositions (length ?rem + 1) POSITION_GAP"
  let ?us = "moveUpdates ?rem (insertionIndex slot) (columnItem column) ?ps"
  let ?new = "\<lparr>item_id = columnId, item_position = slotPosition slot (length ?rem + 1)\<rparr>"
  have row_facts: "c_id row = columnId" "c_boardId row = ?b" "columnItem row = ?new"
    using c by (simp_all add: row columnItem_def)
  have cols1: "columns w1 = map (\<lambda>x. if c_id x = columnId then row else x) (columns w)" by (simp add: w1)
  note replaced = boardItems_replaced [OF cols1 _ _ row_facts(1,2) dist]
  have distb: "distinct (map item_id (boardItems w ?b))" using dist by (rule distinct_boardItems)
  have set_sib: "set (columnSiblings w ?b) = set (boardItems w ?b)" by (simp add: columnSiblings_items)
  have rem: "distinct (map item_id ?rem)" "sorted_wrt (<) (map item_key ?rem)"
    "\<forall>s \<in> set ?rem. safe_position (item_position s)" "length ?rem < MAX_SIBLINGS" "columnId \<notin> item_id ` set ?rem"
    using distb orderedItems_strict [OF distb] assms(2)
      le_less_trans [OF length_filter_le [of _ "columnSiblings w ?b"]]
    by (auto simp: columnSiblings_items sorted_wrt_map sorted_wrt_filter distinct_map_filter boardSafe_def bid set_boardItems)
  have upd: "updateItem ?us ?new = ?new"
    using c map_of_moveUpdates_None [of ?rem "insertionIndex slot" "columnItem column" ?ps]
    by (simp add: applyUpdates_def)
  have items1: "set (boardItems w1 ?b) = insert ?new (set ?rem)"
    using replaced(1) c row_facts(3) by (simp add: set_sib)
  have items': "boardItems w' b = boardItems (if tightSlot slot then batchUpdateColumnPositions ?b ?us w1 else w1) b" for b
    by (simp add: boardItems_def w')
  have "boardOrder w' ?b = splice_in (insertionIndex slot) columnId (map item_id ?rem)"
    unfolding boardOrder_def columnSiblings_items [of w']
  proof (rule order_moved [OF rem slot0])
    show "item_id (columnItem column) = columnId" using c by simp
    show "set (boardItems w' ?b) = insert ?new (if tightSlot slot then updateItem ?us ` set ?rem else set ?rem)"
      using upd by (simp add: items' boardItems_batch items1)
    have "map item_id (boardItems w' ?b) = map item_id (boardItems w1 ?b)"
      by (simp add: items' boardItems_batch comp_def)
    then show "distinct (boardItems w' ?b)"
      using replaced(2) c distinct_ids_items by metis
  qed
  moreover have "\<forall>x \<in> set ?rem. item_id x \<noteq> []"
    using wellFormedD(8) [OF assms(1)] by (auto simp: set_sib set_boardItems)
  moreover have "map item_id ?rem = filter (\<lambda>k. k \<noteq> columnId) (boardOrder w ?b)"
    by (simp add: boardOrder_def filter_map comp_def)
  moreover have "columnId \<in> set (boardOrder w ?b)"
    using c by (force simp: boardOrder_def columnSiblings_items set_boardItems)
  moreover have "boardOrder w' other = boardOrder w other" if "other \<noteq> ?b" for other
  proof -
    have "boardItems w' other = boardItems w1 other"
      using that by (simp add: items' boardItems_batch)
    also have "\<dots> = boardItems w other" using replaced(3) c that by simp
    finally show ?thesis by (simp add: boardOrder_def columnSiblings_items)
  qed
  ultimately show ?thesis using placed_move [OF slot0, of columnId] by (simp add: bid)
qed

lemma sampleWorld_boardSafe: "boardSafe sampleWorld b"
proof -
  have "length (boardItems sampleWorld b) \<le> length (columns sampleWorld)"
    by (simp add: boardItems_def)
  also have "\<dots> < MAX_SIBLINGS" by (simp add: sampleWorld_def MAX_SIBLINGS_def)
  moreover have "is_double 1000" "is_double 2000"
    using is_double_of_int [of 1000] is_double_of_int [of 2000] by simp_all
  ultimately show ?thesis
    by (auto simp: boardSafe_def sampleWorld_def sampleColumn_def safe_position_def)
qed

definition sampleColumnMove :: MoveColumnDto where
  "sampleColumnMove = \<lparr>mc_beforeColumnId = Value (js ''c2''), mc_afterColumnId = Undefined\<rparr>"

theorem create_places_column_witness:
  "\<exists>result w'. ColumnService_create (js ''w1'') (js ''b1'') (js ''u1'')
      \<lparr>cc_name = js ''new'', cc_afterColumnId = Value (js ''c1''), cc_color = Undefined, cc_category = Undefined\<rparr>
      sampleWorld = (Inr result, w')
    \<and> placed (Value (js ''c1'')) Undefined (cd_id result) (boardOrder sampleWorld (js ''b1'')) (boardOrder w' (js ''b1''))"
proof -
  let ?dto = "\<lparr>cc_name = js ''new'', cc_afterColumnId = Value (js ''c1''), cc_color = Undefined, cc_category = Undefined\<rparr>"
  have "\<not> needsRebalance (Some 1000) (Some 2000)"
    by code_simp
  then have "\<not> is_error (fst (ColumnService_create (js ''w1'') (js ''b1'') (js ''u1'') ?dto sampleWorld))"
    by (simp add: handler_defs del: needsRebalance.simps)
  then obtain result w' where run:
    "ColumnService_create (js ''w1'') (js ''b1'') (js ''u1'') ?dto sampleWorld = (Inr result, w')"
    by (blast dest: succeeds)
  from create_places_column [OF sampleWorld_wellFormed sampleWorld_boardSafe run] run show ?thesis
    by auto
qed

theorem move_places_column_witness:
  "\<exists>result w'. ColumnService_move (js ''w1'') (js ''c1'') (js ''u1'') sampleColumnMove sampleWorld = (Inr result, w')
    \<and> placed (Value (js ''c2'')) Undefined (js ''c1'')
        (filter (\<lambda>k. k \<noteq> js ''c1'') (boardOrder sampleWorld (cd_boardId result))) (boardOrder w' (cd_boardId result))"
proof -
  have "\<not> is_error (fst (ColumnService_move (js ''w1'') (js ''c1'') (js ''u1'') sampleColumnMove sampleWorld))"
    by (simp add: handler_defs sampleColumnMove_def)
  then obtain result w' where run:
    "ColumnService_move (js ''w1'') (js ''c1'') (js ''u1'') sampleColumnMove sampleWorld = (Inr result, w')"
    by (blast dest: succeeds)
  from move_places_column [OF sampleWorld_wellFormed sampleWorld_boardSafe run] run show ?thesis
    by (auto simp: sampleColumnMove_def)
qed

end
