(* ===== verification/Boards.thy ===== *)
theory Boards
  imports Columns
begin

section \<open>Boards and labels\<close>

text \<open>
  \<open>board/board.service.ts\<close> and \<open>label/label.service.ts\<close>, one definition per method. A board is created
  with its starting columns, and deleting it takes its columns, tasks and labels along; deleting a
  label takes it off every task. Names are ordered by the database's collation, which is a
  parameter: the function from a string to its sort key.
\<close>

subsection \<open>Bodies and responses\<close>

record CreateBoardDto =
  cb_name :: js_string
  cb_description :: "js_string js_field"

record UpdateBoardDto =
  ub_name :: "js_string option"
  ub_description :: "js_string js_field"

record BoardDto =
  bd_id :: uuid
  bd_workspaceId :: uuid
  bd_name :: js_string
  bd_description :: "js_string option"
  bd_createdAt :: js_string

record CreateLabelDto =
  lb_name :: js_string
  lb_color :: label_color_slot

record UpdateLabelDto =
  ul_name :: "js_string option"
  ul_color :: "label_color_slot option"

definition toBoardDto :: "board_row \<Rightarrow> BoardDto" where
  "toBoardDto b =
     \<lparr>bd_id = b_id b, bd_workspaceId = b_workspaceId b, bd_name = b_name b,
      bd_description = b_description b, bd_createdAt = toISOString (b_createdAt b)\<rparr>"

subsection \<open>What deleting a board or a label takes along (schema.prisma)\<close>

definition taskOnBoard :: "(uuid \<Rightarrow> bool) \<Rightarrow> world \<Rightarrow> uuid \<Rightarrow> bool" where
  "taskOnBoard gone w k \<longleftrightarrow> list_ex (\<lambda>t. t_id t = k \<and> gone (t_boardId t)) (tasks w)"

definition labelOnBoard :: "(uuid \<Rightarrow> bool) \<Rightarrow> world \<Rightarrow> uuid \<Rightarrow> bool" where
  "labelOnBoard gone w k \<longleftrightarrow> list_ex (\<lambda>l. l_id l = k \<and> gone (l_boardId l)) (labels w)"

definition cascadeLabels :: "(uuid \<Rightarrow> bool) \<Rightarrow> world \<Rightarrow> world" where
  "cascadeLabels gone w = w\<lparr>labels := filter (\<lambda>l. \<not> gone (l_id l)) (labels w),
     taskLabels := filter (\<lambda>tl. \<not> gone (tl_labelId tl)) (taskLabels w)\<rparr>"

definition cascadeBoards :: "(uuid \<Rightarrow> bool) \<Rightarrow> world \<Rightarrow> world" where
  "cascadeBoards gone w =
     (cascadeLabels (labelOnBoard gone w) (cascadeTasks (taskOnBoard gone w) w))
       \<lparr>boards := filter (\<lambda>b. \<not> gone (b_id b)) (boards w),
        columns := filter (\<lambda>c. \<not> gone (c_boardId c)) (columns w)\<rparr>"

subsection \<open>BoardService\<close>

definition BoardService_list :: "uuid \<Rightarrow> BoardDto list handler" where
  "BoardService_list workspaceId = reads (\<lambda>w.
     map toBoardDto (sort_key b_createdAt (filter (\<lambda>b. b_workspaceId b = workspaceId) (boards w))))"

definition insertBoard :: "uuid \<Rightarrow> CreateBoardDto \<Rightarrow> board_row handler" where
  \<comment> \<open>\<open>board.create\<close>\<close>
  "insertBoard workspaceId dto w =
     (let row = \<lparr>b_id = freshId w, b_workspaceId = workspaceId, b_name = cb_name dto,
                 b_description = field_option (cb_description dto), b_createdAt = w_now w\<rparr>
      in (Inr row, (tick w)\<lparr>boards := boards w @ [row]\<rparr>))"

definition BoardService_create ::
  "uuid \<Rightarrow> uuid \<Rightarrow> CreateBoardDto \<Rightarrow> js_string js_field \<Rightarrow> BoardDto handler" where
  "BoardService_create workspaceId actorId dto acceptLanguage =
     bindE (LocaleService_resolve (Some actorId) acceptLanguage) (\<lambda>loc.
     let seeded = defaultColumnsFor loc in
     bindE (transaction (
       bindE (insertBoard workspaceId dto) (\<lambda>created.
       bindE (modify (fold (insertDefaultColumn (b_id created)) seeded)) (\<lambda>_.
       bindE (recordActivity workspaceId None actorId BoardCreated
         [(''boardId'', JString (b_id created)), (''name'', JString (b_name created)),
          (''seededColumns'', JArray (map (\<lambda>c. JString (dc_name c)) seeded))]) (\<lambda>_.
       return created))))) (\<lambda>board.
     return (toBoardDto board)))"

definition BoardService_get :: "uuid \<Rightarrow> uuid \<Rightarrow> BoardDto handler" where
  "BoardService_get workspaceId boardId =
     bindE (assertBoard workspaceId boardId) (\<lambda>b. return (toBoardDto b))"

definition patchBoard :: "UpdateBoardDto \<Rightarrow> board_row \<Rightarrow> board_row" where
  "patchBoard dto b = b\<lparr>
     b_name := (case ub_name dto of None \<Rightarrow> b_name b | Some s \<Rightarrow> s),
     b_description := patched (b_description b) (ub_description dto)\<rparr>"

definition updateBoardRow :: "uuid \<Rightarrow> uuid \<Rightarrow> (board_row \<Rightarrow> board_row) \<Rightarrow> board_row handler" where
  "updateBoardRow workspaceId boardId change w =
     (case findBoard w workspaceId boardId of
        None \<Rightarrow> (Inl (PrismaError ''P2025''), w)
      | Some b \<Rightarrow> (Inr (change b), w\<lparr>boards := map (\<lambda>x.
          if b_id x = boardId \<and> b_workspaceId x = workspaceId then change b else x) (boards w)\<rparr>))"

definition BoardService_update ::
  "uuid \<Rightarrow> uuid \<Rightarrow> uuid \<Rightarrow> UpdateBoardDto \<Rightarrow> BoardDto handler" where
  "BoardService_update workspaceId boardId actorId dto =
     bindE (transaction (
       bindE (orThrow (NotFound ''Board not found'') (\<lambda>w. findBoard w workspaceId boardId)) (\<lambda>scoped.
       bindE (updateBoardRow workspaceId boardId (patchBoard dto)) (\<lambda>updated.
       bindE (recordActivity workspaceId None actorId BoardUpdated
         [(''boardId'', JString boardId), (''name'', JString (b_name updated)),
          (''changes'', fieldChanges
            [(''name'', JString (b_name scoped), JString (b_name updated)),
             (''description'', nullable JString (b_description scoped),
               nullable JString (b_description updated))])]) (\<lambda>_.
       return updated))))) (\<lambda>board.
     return (toBoardDto board))"

definition BoardService_remove :: "uuid \<Rightarrow> uuid \<Rightarrow> uuid \<Rightarrow> unit handler" where
  "BoardService_remove workspaceId boardId actorId =
     transaction (
       bindE (orThrow (NotFound ''Board not found'') (\<lambda>w. findBoard w workspaceId boardId)) (\<lambda>scoped.
       bindE (reads (\<lambda>w. length (filter (\<lambda>t. t_boardId t = boardId) (tasks w)))) (\<lambda>taskCount.
       bindE (recordActivity workspaceId None actorId BoardDeleted
         [(''boardId'', JString boardId), (''name'', JString (b_name scoped)),
          (''taskCount'', json_int (int taskCount))]) (\<lambda>_ w.
       if boardIn w workspaceId boardId then (Inr (), cascadeBoards (\<lambda>k. k = boardId) w)
       else (Inl (NotFound ''Board not found''), w)))))"

subsection \<open>LabelService\<close>

definition findLabelRow :: "world \<Rightarrow> uuid \<Rightarrow> uuid \<Rightarrow> label_row option" where
  "findLabelRow w workspaceId labelId =
     find (\<lambda>l. l_id l = labelId \<and> boardIn w workspaceId (l_boardId l)) (labels w)"

definition LabelService_list :: "(js_string \<Rightarrow> js_string) \<Rightarrow> uuid \<Rightarrow> uuid \<Rightarrow> LabelDto list handler" where
  "LabelService_list collate workspaceId boardId =
     bindE (assertBoard workspaceId boardId) (\<lambda>_.
     reads (\<lambda>w. map toLabelDto (sort_key (\<lambda>l. (collate (l_name l), l_id l))
       (filter (\<lambda>l. l_boardId l = boardId) (labels w)))))"

definition insertLabel :: "uuid \<Rightarrow> CreateLabelDto \<Rightarrow> label_row handler" where
  \<comment> \<open>\<open>label.create\<close>\<close>
  "insertLabel boardId dto w =
     (let row = \<lparr>l_id = freshId w, l_boardId = boardId, l_name = lb_name dto,
                 l_color = slot_name (lb_color dto)\<rparr>
      in (Inr row, (tick w)\<lparr>labels := labels w @ [row]\<rparr>))"

definition LabelService_create ::
  "uuid \<Rightarrow> uuid \<Rightarrow> uuid \<Rightarrow> CreateLabelDto \<Rightarrow> LabelDto handler" where
  "LabelService_create workspaceId boardId actorId dto =
     bindE (assertBoard workspaceId boardId) (\<lambda>_.
     bindE (insertLabel boardId dto) (\<lambda>created.
     bindE (recordActivity workspaceId None actorId LabelCreated
       [(''labelId'', JString (l_id created)), (''boardId'', JString boardId),
        (''name'', JString (l_name created)), (''color'', JString (l_color created))]) (\<lambda>_.
     return (toLabelDto created))))"

definition patchLabel :: "UpdateLabelDto \<Rightarrow> label_row \<Rightarrow> label_row" where
  "patchLabel dto l = l\<lparr>
     l_name := (case ul_name dto of None \<Rightarrow> l_name l | Some s \<Rightarrow> s),
     l_color := (case ul_color dto of None \<Rightarrow> l_color l | Some c \<Rightarrow> slot_name c)\<rparr>"

definition updateLabelRow :: "uuid \<Rightarrow> uuid \<Rightarrow> (label_row \<Rightarrow> label_row) \<Rightarrow> label_row handler" where
  "updateLabelRow workspaceId labelId change w =
     (case findLabelRow w workspaceId labelId of
        None \<Rightarrow> (Inl (PrismaError ''P2025''), w)
      | Some l \<Rightarrow> (Inr (change l), w\<lparr>labels := map (\<lambda>x.
          if l_id x = labelId \<and> boardIn w workspaceId (l_boardId x) then change l else x) (labels w)\<rparr>))"

definition LabelService_update ::
  "uuid \<Rightarrow> uuid \<Rightarrow> uuid \<Rightarrow> UpdateLabelDto \<Rightarrow> LabelDto handler" where
  "LabelService_update workspaceId labelId actorId dto =
     bindE (transaction (
       bindE (orThrow (NotFound ''Label not found'') (\<lambda>w. findLabelRow w workspaceId labelId)) (\<lambda>scoped.
       bindE (updateLabelRow workspaceId labelId (patchLabel dto)) (\<lambda>row.
       bindE (recordActivity workspaceId None actorId LabelUpdated
         [(''labelId'', JString labelId), (''boardId'', JString (l_boardId row)),
          (''name'', JString (l_name row)),
          (''changes'', fieldChanges
            [(''name'', JString (l_name scoped), JString (l_name row)),
             (''color'', JString (l_color scoped), JString (l_color row))])]) (\<lambda>_.
       return row))))) (\<lambda>updated.
     return (toLabelDto updated))"

definition LabelService_remove :: "uuid \<Rightarrow> uuid \<Rightarrow> uuid \<Rightarrow> unit handler" where
  "LabelService_remove workspaceId labelId actorId =
     transaction (
       bindE (orThrow (NotFound ''Label not found'') (\<lambda>w. findLabelRow w workspaceId labelId)) (\<lambda>scoped.
       bindE (recordActivity workspaceId None actorId LabelDeleted
         [(''labelId'', JString labelId), (''boardId'', JString (l_boardId scoped)),
          (''name'', JString (l_name scoped)), (''color'', JString (l_color scoped))]) (\<lambda>_ w.
       let gone = (\<lambda>k. k = labelId \<and> findLabelRow w workspaceId k \<noteq> None)
       in if gone labelId then (Inr (), cascadeLabels gone w)
          else (Inl (NotFound ''Label not found''), w))))"

declare toBoardDto_def [handler_defs] taskOnBoard_def [handler_defs] labelOnBoard_def [handler_defs]
  cascadeLabels_def [handler_defs] cascadeBoards_def [handler_defs] BoardService_list_def [handler_defs]
  insertBoard_def [handler_defs] BoardService_create_def [handler_defs] BoardService_get_def [handler_defs]
  patchBoard_def [handler_defs] updateBoardRow_def [handler_defs] BoardService_update_def [handler_defs]
  BoardService_remove_def [handler_defs] findLabelRow_def [handler_defs] LabelService_list_def [handler_defs]
  insertLabel_def [handler_defs] LabelService_create_def [handler_defs] patchLabel_def [handler_defs]
  updateLabelRow_def [handler_defs] LabelService_update_def [handler_defs] LabelService_remove_def [handler_defs]

end
