(* ===== verification/BoardProps.thy ===== *)
theory BoardProps
  imports Boards ColumnProps
begin

section \<open>Boards, their starting columns and what deleting leaves\<close>

text \<open>
  A new board starts with the columns of its language, a board and a column are only deleted as the
  services allow, and what goes with them is named exactly: the statements are about \<open>Boards\<close> and \<open>Columns\<close>.
\<close>

subsection \<open>Seeding\<close>

definition seededRows :: "uuid \<Rightarrow> app_locale \<Rightarrow> world \<Rightarrow> column_row list" where
  "seededRows boardId loc w =
     map (\<lambda>(i, c). \<lparr>c_id = w_uuid w (w_seq w + i), c_boardId = boardId, c_name = dc_name c,
         c_position = dc_position c, c_color = None, c_category = dc_category c\<rparr>)
       (enumerate 0 (defaultColumnsFor loc))"

definition seededDtos :: "uuid \<Rightarrow> app_locale \<Rightarrow> world \<Rightarrow> ColumnDto list" where
  "seededDtos boardId loc w =
     map (\<lambda>c. \<lparr>cd_id = c_id c, cd_boardId = boardId, cd_name = c_name c, cd_position = c_position c,
         cd_color = None, cd_category = c_category c, cd_taskCount = 0\<rparr>) (seededRows boardId loc w)"

lemma insertDefaults_world:
  "fold (insertDefaultColumn boardId) (defaultColumnsFor loc) w =
     w\<lparr>columns := columns w @ seededRows boardId loc w, w_seq := w_seq w + 3\<rparr>"
  by (simp add: insertDefaultColumn_def seededRows_def defaultColumnsFor_def SEED_COLUMNS_def tick_def
      freshId_def numeral_3_eq_3)

lemma sort_seededRows:
  "sort_key (\<lambda>c. (c_position c, c_id c)) (seededRows boardId loc w) = seededRows boardId loc w"
  by (simp add: seededRows_def defaultColumnsFor_def SEED_COLUMNS_def less_eq_prod_def)

lemma seededRows_board:
  "c \<in> set (seededRows boardId loc w) \<Longrightarrow> c_boardId c = boardId \<and> c_color c = None"
  by (auto simp: seededRows_def)

lemma seededRows_fresh:
  assumes "wellFormed w" and "c \<in> set (seededRows boardId loc w)"
  shows "taskCountOf w (c_id c) = 0"
proof -
  from assms(2) obtain i where i: "c_id c = w_uuid w (w_seq w + i)" by (auto simp: seededRows_def)
  have "c_id c \<notin> usedIds w" using assms(1) by (simp add: wellFormed_def i)
  then have "c_id c \<notin> c_id ` set (columns w)" by (simp add: usedIds_def)
  moreover have "t_columnId t \<in> c_id ` set (columns w)" if "t \<in> set (tasks w)" for t
    using wellFormedD(6) [OF assms(1) that] by auto
  ultimately have "\<forall>t \<in> set (tasks w). t_columnId t \<noteq> c_id c" by metis
  then show ?thesis by (simp add: taskCountOf_def filter_empty_conv)
qed

lemma toColumnDto_seeded:
  assumes "wellFormed w" and "tasks w' = tasks w"
  shows "map (toColumnDto w') (seededRows boardId loc w) = seededDtos boardId loc w"
  unfolding seededDtos_def
  by (rule map_cong [OF refl])
    (use seededRows_fresh [OF assms(1)] assms(2) seededRows_board in \<open>simp add: toColumnDto_def taskCountOf_def\<close>)

lemma columnsOf_seeded:
  assumes "columns w' = columns w @ seededRows boardId loc v"
    and "\<forall>c \<in> set (columns w). c_boardId c \<noteq> boardId"
  shows "columnsOf w' boardId = seededRows boardId loc v"
    and "other \<noteq> boardId \<Longrightarrow> columnsOf w' other = columnsOf w other"
  using assms seededRows_board
  by (simp_all add: columnsOf_def filter_id_conv filter_empty_conv sort_seededRows)

lemma LocaleService_resolve_world:
  "\<exists>loc. LocaleService_resolve user header w = (Inr loc, w)"
  by (cases user) (simp_all add: LocaleService_resolve_def LocaleService_read_def bindE_def reads_def return_def)

lemma LocaleService_resolve_cong:
  "users w' = users w \<Longrightarrow> LocaleService_resolve user header w = (Inr loc, w)
    \<Longrightarrow> LocaleService_resolve user header w' = (Inr loc, w')"
  by (cases user) (simp_all add: LocaleService_resolve_def LocaleService_read_def bindE_def reads_def return_def)

lemma fold_frame: "(\<And>x w. f (g x w) = f w) \<Longrightarrow> f (fold g xs w) = f w"
  by (induction xs arbitrary: w) simp_all

lemma logSeeded_types:
  "map a_type (activities (fold (logSeededColumn ws bid actor) rows w)) =
     map a_type (activities w) @ map (\<lambda>_. ColumnCreated) rows"
  by (induction rows arbitrary: w) (simp_all add: logSeededColumn_def)

lemma wellFormed_tick: "wellFormed w \<Longrightarrow> wellFormed (tick w)"
  by (simp add: wellFormed_def usedIds_def tick_def)

text \<open>
  A created board is readable at once and holds exactly the starting columns in the language its
  creator reads, in the order and with the meaning of the seed list and no tasks; the columns of
  every other board stay as they were, and one log entry names the seeded columns.
\<close>

theorem create_board_seeds:
  assumes wf: "wellFormed w"
    and run: "BoardService_create workspaceId actorId dto header w = (Inr board, w')"
  shows "\<exists>loc. LocaleService_resolve (Some actorId) header w = (Inr loc, w)
    \<and> BoardService_get workspaceId (bd_id board) w' = (Inr board, w')
    \<and> ColumnService_list workspaceId (bd_id board) w' = (Inr (seededDtos (bd_id board) loc (tick w)), w')
    \<and> (\<forall>other. other \<noteq> bd_id board \<longrightarrow> columnsOf w' other = columnsOf w other)
    \<and> (\<exists>entry. activities w' = activities w @ [entry] \<and> a_type entry = BoardCreated
        \<and> (''seededColumns'', JArray (map (\<lambda>c. JString (dc_name c)) (defaultColumnsFor loc))) \<in> set (a_payload entry))"
proof -
  obtain loc where loc: "LocaleService_resolve (Some actorId) header w = (Inr loc, w)"
    using LocaleService_resolve_world by blast
  define row where "row = \<lparr>b_id = freshId w, b_workspaceId = workspaceId, b_name = cb_name dto,
    b_description = field_option (cb_description dto), b_createdAt = w_now w\<rparr>"
  define w1 where "w1 = (tick w)\<lparr>boards := boards w @ [row]\<rparr>"
  define w2 where "w2 = w1\<lparr>columns := columns w @ seededRows (freshId w) loc (tick w), w_seq := w_seq w1 + 3\<rparr>"
  have rows: "seededRows (freshId w) loc w1 = seededRows (freshId w) loc (tick w)"
    by (simp add: seededRows_def w1_def)
  from run loc have board: "board = toBoardDto row"
    and w': "w' = logActivity workspaceId None actorId BoardCreated
       [(''boardId'', JString (b_id row)), (''name'', JString (b_name row)),
        (''seededColumns'', JArray (map (\<lambda>c. JString (dc_name c)) (defaultColumnsFor loc)))] w2"
    using rows by (auto simp: BoardService_create_def bindE_Inr insertBoard_def Let_def insertDefaults_world row_def
        w1_def w2_def tick_def)
  have fresh: "freshId w \<notin> b_id ` set (boards w)"
    using wellFormedD(10) [OF wf] by (simp add: usedIds_def)
  have id: "bd_id board = freshId w" by (simp add: board toBoardDto_def row_def)
  have tables: "boards w' = boards w @ [row]" "columns w' = columns w @ seededRows (freshId w) loc (tick w)"
    "tasks w' = tasks w" "\<exists>e. activities w' = activities w @ [e] \<and> a_type e = BoardCreated
      \<and> (''seededColumns'', JArray (map (\<lambda>c. JString (dc_name c)) (defaultColumnsFor loc))) \<in> set (a_payload e)"
    by (simp_all add: w' w2_def w1_def tick_def)
  have find: "findBoard w' workspaceId (freshId w) = Some row"
    unfolding findBoard_def
    by (rule find_unique [where f = b_id and P = "\<lambda>b. b_workspaceId b = workspaceId"])
      (use fresh wellFormedD(1) [OF wf] in \<open>simp_all add: tables row_def\<close>)
  have none: "\<forall>c \<in> set (columns w). c_boardId c \<noteq> freshId w"
    using fresh wellFormedD(5) [OF wf] by metis
  have "BoardService_get workspaceId (bd_id board) w' = (Inr board, w')"
    using find by (simp add: BoardService_get_def assertBoard_def bindE_Inr id) (simp add: board)
  moreover have "ColumnService_list workspaceId (bd_id board) w' = (Inr (seededDtos (bd_id board) loc (tick w)), w')"
    using find toColumnDto_seeded [OF wellFormed_tick [OF wf], of w'] columnsOf_seeded(1) [OF tables(2) none] tables(3)
    by (simp add: ColumnService_list_def assertBoard_def bindE_Inr id tick_def)
  moreover have "\<forall>other. other \<noteq> bd_id board \<longrightarrow> columnsOf w' other = columnsOf w other"
    using columnsOf_seeded(2) [OF tables(2) none] by (simp add: id)
  ultimately show ?thesis using loc tables(4) by blast
qed

definition sampleBoard :: CreateBoardDto where
  "sampleBoard = \<lparr>cb_name = js ''roadmap'', cb_description = Undefined\<rparr>"

lemma create_board_seeds_witness:
  "\<exists>board w'. BoardService_create (js ''w1'') (js ''u1'') sampleBoard Undefined sampleWorld = (Inr board, w')
    \<and> BoardService_get (js ''w1'') (bd_id board) w' = (Inr board, w')"
proof -
  have "\<not> is_error (fst (BoardService_create (js ''w1'') (js ''u1'') sampleBoard Undefined sampleWorld))"
    using LocaleService_resolve_world [of "Some (js ''u1'')" Undefined sampleWorld]
    by (auto simp: BoardService_create_def bindE_def insertBoard_def Let_def insertDefaults_world
        transaction_def modify_def recordActivity_def return_def is_error_def)
  then obtain board w' where run:
    "BoardService_create (js ''w1'') (js ''u1'') sampleBoard Undefined sampleWorld = (Inr board, w')"
    by (blast dest: succeeds)
  from create_board_seeds [OF sampleWorld_wellFormed run] run show ?thesis by blast
qed

text \<open>
  Seeding an existing board is all or nothing. It fails without a trace, or the board had no
  column, has exactly the starting set afterwards, the response is what a read returns, every
  column is logged, and asking again is a 409 that changes nothing.
\<close>

theorem defaults_all_or_nothing:
  assumes wf: "wellFormed w"
  shows "case ColumnService_createDefaults workspaceId boardId actorId header w of
      (Inl e, w') \<Rightarrow> w' = w
    | (Inr cols, w') \<Rightarrow> (\<forall>c \<in> set (columns w). c_boardId c \<noteq> boardId)
        \<and> (\<exists>loc. LocaleService_resolve (Some actorId) header w = (Inr loc, w) \<and> cols = seededDtos boardId loc w)
        \<and> ColumnService_list workspaceId boardId w' = (Inr cols, w')
        \<and> map a_type (activities w') = map a_type (activities w) @ [ColumnCreated, ColumnCreated, ColumnCreated]
        \<and> ColumnService_createDefaults workspaceId boardId actorId header w'
            = (Inl (Conflict ''Board already has columns''), w')"
proof (cases "ColumnService_createDefaults workspaceId boardId actorId header w")
  case (Pair r w')
  obtain loc where loc: "LocaleService_resolve (Some actorId) header w = (Inr loc, w)"
    using LocaleService_resolve_world by blast
  show ?thesis
  proof (cases r)
    case (Inl e)
    with Pair loc have "w' = w"
      by (auto simp: ColumnService_createDefaults_def assertBoard_def bindE_Inl bindE_Inr)
    with Pair Inl show ?thesis by simp
  next
    case (Inr cols)
    define w1 where "w1 = w\<lparr>columns := columns w @ seededRows boardId loc w, w_seq := w_seq w + 3\<rparr>"
    define rows where "rows = seededRows boardId loc w"
    from Pair Inr loc have none: "\<forall>c \<in> set (columns w). c_boardId c \<noteq> boardId"
      and board: "findBoard w workspaceId boardId \<noteq> None"
      and cols: "cols = map (toColumnDto (fold (logSeededColumn workspaceId boardId actorId) (columnsOf w1 boardId) w1)) (columnsOf w1 boardId)"
      and w': "w' = fold (\<lambda>c. ColumnService_emitChanged workspaceId actorId boardId (c_id c)) (columnsOf w1 boardId)
        (fold (logSeededColumn workspaceId boardId actorId) (columnsOf w1 boardId) w1)"
      by (auto simp: ColumnService_createDefaults_def assertBoard_def bindE_Inr insertDefaults_world w1_def list_ex_iff)
    have seeded: "columnsOf w1 boardId = rows"
      unfolding rows_def by (rule columnsOf_seeded(1) [OF _ none]) (simp add: w1_def)
    have frame: "columns w' = columns w1" "tasks w' = tasks w1" "boards w' = boards w1" "users w' = users w1"
      "activities w' = activities (fold (logSeededColumn workspaceId boardId actorId) rows w1)"
      unfolding w' seeded by (simp_all add: fold_frame ColumnService_emitChanged_def logSeededColumn_def)
    have cols': "cols = seededDtos boardId loc w"
      unfolding cols seeded unfolding rows_def
      by (rule toColumnDto_seeded [OF wf]) (simp add: fold_frame logSeededColumn_def w1_def)
    have "findBoard w' workspaceId boardId \<noteq> None"
      using board frame by (simp add: findBoard_def w1_def)
    moreover have "columnsOf w' boardId = rows"
      using seeded frame(1) by (simp add: columnsOf_def)
    moreover have "map (toColumnDto w') rows = cols"
      unfolding cols' rows_def by (rule toColumnDto_seeded [OF wf]) (simp add: frame w1_def)
    ultimately have "ColumnService_list workspaceId boardId w' = (Inr cols, w')"
      by (auto simp: ColumnService_list_def assertBoard_def bindE_Inr)
    moreover have "map a_type (activities w') = map a_type (activities w) @ [ColumnCreated, ColumnCreated, ColumnCreated]"
      by (simp only: frame logSeeded_types)
        (simp add: w1_def rows_def seededRows_def defaultColumnsFor_def SEED_COLUMNS_def)
    moreover have "\<exists>c \<in> set (columns w'). c_boardId c = boardId"
      by (simp add: frame w1_def seededRows_def defaultColumnsFor_def SEED_COLUMNS_def)
    then have "ColumnService_createDefaults workspaceId boardId actorId header w'
        = (Inl (Conflict ''Board already has columns''), w')"
      using \<open>findBoard w' workspaceId boardId \<noteq> None\<close> LocaleService_resolve_cong [of w' w, OF _ loc] frame(4)
      by (auto simp: ColumnService_createDefaults_def assertBoard_def bindE_Inl bindE_Inr w1_def list_ex_iff)
    ultimately show ?thesis using Pair Inr loc none cols' by auto
  qed
qed

text \<open>For the witnesses: a board without columns and a column without tasks.\<close>

definition bareWorld :: world where
  "bareWorld = sampleWorld\<lparr>boards := boards sampleWorld
     @ [\<lparr>b_id = js ''b3'', b_workspaceId = js ''w1'', b_name = js ''D'', b_description = None, b_createdAt = 0\<rparr>],
     columns := columns sampleWorld @ [sampleColumn ''c4'' ''b1'' 3000]\<rparr>"

lemma bareWorld_wellFormed: "wellFormed bareWorld"
  using sampleWorld_wellFormed
  by (simp add: bareWorld_def wellFormed_def usedIds_def) (simp add: sampleWorld_def sampleTask_def sampleColumn_def)

lemma defaults_all_or_nothing_witness:
  "\<exists>cols w'. ColumnService_createDefaults (js ''w1'') (js ''b3'') (js ''u1'') Undefined bareWorld = (Inr cols, w')
    \<and> ColumnService_list (js ''w1'') (js ''b3'') w' = (Inr cols, w')"
proof -
  have "\<not> is_error (fst (ColumnService_createDefaults (js ''w1'') (js ''b3'') (js ''u1'') Undefined bareWorld))"
    using LocaleService_resolve_world [of "Some (js ''u1'')" Undefined bareWorld]
    by (auto simp: ColumnService_createDefaults_def bindE_def transaction_def modify_def reads_def return_def
        is_error_def assertBoard_def orThrow_def findBoard_def bareWorld_def sampleWorld_def failIf_def sampleColumn_def
        split: option.splits)
  then obtain cols w' where run:
    "ColumnService_createDefaults (js ''w1'') (js ''b3'') (js ''u1'') Undefined bareWorld = (Inr cols, w')"
    by (blast dest: succeeds)
  from defaults_all_or_nothing [OF bareWorld_wellFormed, where workspaceId = "js ''w1''"
    and boardId = "js ''b3''" and actorId = "js ''u1''" and header = Undefined] run
  show ?thesis by auto
qed

subsection \<open>Deleting\<close>

lemma filter_all: "(\<And>x. x \<in> set xs \<Longrightarrow> P x) \<Longrightarrow> filter P xs = xs"
  by (simp add: filter_id_conv)

lemma cascadeTasks_none:
  assumes "\<And>k. \<not> gone k"
  shows "cascadeTasks gone w = w"
proof -
  have "gone = (\<lambda>_. False)" using assms by blast
  moreover have "map (\<lambda>a. case a_taskId a of None \<Rightarrow> a | Some t \<Rightarrow> if False then a\<lparr>a_taskId := None\<rparr> else a) xs = xs" for xs :: "activity_row list"
    by (rule map_idI) (simp split: option.splits)
  moreover have "filter (\<lambda>n. case n_taskId n of None \<Rightarrow> True | Some t \<Rightarrow> \<not> False) ns = ns" for ns :: "notification_row list"
    by (rule filter_True) (simp split: option.splits)
  ultimately show ?thesis by (simp add: cascadeTasks_def list_ex_iff)
qed

lemma filter_id_scoped:
  \<comment> \<open>ids being unique, the tenant predicate of a delete by id selects nothing else\<close>
  assumes "distinct (map f xs)" and "x \<in> set xs" and "f x = k" and "P x"
  shows "filter (\<lambda>y. \<not> (f y = k \<and> P y)) xs = filter (\<lambda>y. f y \<noteq> k) xs"
  using assms by (intro filter_cong) (auto dest: inj_on_id)

text \<open>
  C32. Only an empty column can be deleted: when the request succeeds no task was in it, the column is
  gone, every other column and every task and label is untouched, and the log says what it was
  called; a column with tasks is refused with a 409.
\<close>

theorem remove_column_only_empty:
  assumes wf: "wellFormed w" and run: "ColumnService_remove workspaceId columnId actorId w = (r, w')"
  shows "case r of
      Inr _ \<Rightarrow> (\<forall>t \<in> set (tasks w). t_columnId t \<noteq> columnId)
        \<and> tasks w' = tasks w \<and> labels w' = labels w \<and> assignees w' = assignees w
        \<and> columns w' = filter (\<lambda>c. c_id c \<noteq> columnId) (columns w)
        \<and> (\<exists>column entry. findColumnRow w workspaceId columnId = Some column
            \<and> activities w' = activities w @ [entry] \<and> a_type entry = ColumnDeleted
            \<and> (''name'', JString (c_name column)) \<in> set (a_payload entry))
    | Inl e \<Rightarrow> w' = w \<and> (e = NotFound ''Column not found'' \<and> findColumnRow w workspaceId columnId = None
        \<or> e = Conflict ''Column has tasks; move or delete them first''
          \<and> (\<exists>t \<in> set (tasks w). t_columnId t = columnId))"
proof (cases r)
  case (Inl e)
  with run show ?thesis
    by (auto simp: ColumnService_remove_def bindE_Inl bindE_Inr Let_def taskCountOf_def filter_empty_conv
        length_greater_0_conv list_ex_iff findColumnRow_def find_None dest!: find_Some_D split: if_splits)
next
  case (Inr u)
  from run Inr obtain row where row: "findColumnRow w workspaceId columnId = Some row"
    and none: "taskCountOf w columnId = 0"
    by (auto simp: ColumnService_remove_def bindE_Inr)
  have empty: "t_columnId t \<noteq> columnId" if "t \<in> set (tasks w)" for t
    using none that by (simp add: taskCountOf_def filter_empty_conv)
  define log where "log = logActivity workspaceId None actorId ColumnDeleted
    [(''columnId'', JString columnId), (''boardId'', JString (c_boardId row)), (''name'', JString (c_name row)),
     (''category'', JString (column_category_name (c_category row)))] w"
  have gone: "cascadeTasks (\<lambda>k. list_ex (\<lambda>t. t_id t = k \<and> t_columnId t = columnId
      \<and> boardIn log workspaceId (t_boardId t)) (tasks log)) log = log"
    by (rule cascadeTasks_none) (use empty in \<open>auto simp: list_ex_iff log_def\<close>)
  have cols: "filter (\<lambda>c. \<not> (c_id c = columnId \<and> boardIn w workspaceId (c_boardId c))) (columns w)
      = filter (\<lambda>c. c_id c \<noteq> columnId) (columns w)"
    using findColumnRow_Some [OF row] wellFormedD(2) [OF wf] by (intro filter_id_scoped) auto
  from run Inr row have "w' = ColumnService_emitChanged workspaceId actorId (c_boardId row) (c_id row)
      (log\<lparr>columns := filter (\<lambda>c. c_id c \<noteq> columnId) (columns w)\<rparr>)"
    using gone cols
    by (auto simp: ColumnService_remove_def bindE_Inr Let_def log_def [symmetric] split: if_splits)
      (simp add: log_def)
  with row show ?thesis using Inr empty
    by (auto simp: ColumnService_emitChanged_def log_def)
qed

lemma remove_column_only_empty_witness:
  "\<exists>u w'. ColumnService_remove (js ''w1'') (js ''c4'') (js ''u1'') bareWorld = (Inr u, w') \<and> tasks w' = tasks bareWorld"
proof -
  have "\<not> is_error (fst (ColumnService_remove (js ''w1'') (js ''c4'') (js ''u1'') bareWorld))"
    by (simp add: bareWorld_def handler_defs)
  then obtain u w' where run: "ColumnService_remove (js ''w1'') (js ''c4'') (js ''u1'') bareWorld = (Inr u, w')"
    by (blast dest: succeeds)
  from remove_column_only_empty [OF bareWorld_wellFormed run] run show ?thesis by auto
qed

lemma cascadeBoards_frame [simp]:
  "tasks (cascadeBoards gone w) = filter (\<lambda>t. \<not> taskOnBoard gone w (t_id t)) (tasks w)"
  "boards (cascadeBoards gone w) = filter (\<lambda>b. \<not> gone (b_id b)) (boards w)"
  "columns (cascadeBoards gone w) = filter (\<lambda>c. \<not> gone (c_boardId c)) (columns w)"
  "labels (cascadeBoards gone w) = filter (\<lambda>l. \<not> labelOnBoard gone w (l_id l)) (labels w)"
  "members (cascadeBoards gone w) = members w" "users (cascadeBoards gone w) = users w"
  "workspaces (cascadeBoards gone w) = workspaces w" "w_seq (cascadeBoards gone w) = w_seq w"
  "w_uuid (cascadeBoards gone w) = w_uuid w" "w_published (cascadeBoards gone w) = w_published w"
  by (simp_all add: cascadeBoards_def cascadeLabels_def)

text \<open>
  Deleting a board takes its columns, tasks and labels and every row that refers to them, and
  nothing of any other board; the log entry that survives says how many tasks were lost.
\<close>

theorem remove_board_exact:
  assumes wf: "wellFormed w" and run: "BoardService_remove workspaceId boardId actorId w = (Inr u, w')"
  shows "boards w' = filter (\<lambda>b. b_id b \<noteq> boardId) (boards w)
    \<and> columns w' = filter (\<lambda>c. c_boardId c \<noteq> boardId) (columns w)
    \<and> tasks w' = filter (\<lambda>t. t_boardId t \<noteq> boardId) (tasks w)
    \<and> labels w' = filter (\<lambda>l. l_boardId l \<noteq> boardId) (labels w)
    \<and> (\<forall>a \<in> set (assignees w'). ta_taskId a \<notin> t_id ` {t \<in> set (tasks w). t_boardId t = boardId})
    \<and> (\<forall>tl \<in> set (taskLabels w'). tl_labelId tl \<notin> l_id ` {l \<in> set (labels w). l_boardId l = boardId})
    \<and> (\<forall>a \<in> set (activities w'). \<forall>t \<in> set (tasks w). t_boardId t = boardId \<longrightarrow> a_taskId a \<noteq> Some (t_id t))
    \<and> (\<exists>entry. last (activities w') = entry \<and> a_type entry = BoardDeleted
        \<and> (''taskCount'', json_int (int (length (filter (\<lambda>t. t_boardId t = boardId) (tasks w))))) \<in> set (a_payload entry))
    \<and> BoardService_get workspaceId boardId w' = (Inl (NotFound ''Board not found''), w')"
proof -
  obtain row where row: "findBoard w workspaceId boardId = Some row"
    and w': "w' = cascadeBoards (\<lambda>k. k = boardId) (logActivity workspaceId None actorId BoardDeleted
       [(''boardId'', JString boardId), (''name'', JString (b_name row)),
        (''taskCount'', json_int (int (length (filter (\<lambda>t. t_boardId t = boardId) (tasks w)))))] w)"
    using run by (auto simp: BoardService_remove_def bindE_Inr split: if_splits)
  define log where "log = logActivity workspaceId None actorId BoardDeleted
       [(''boardId'', JString boardId), (''name'', JString (b_name row)),
        (''taskCount'', json_int (int (length (filter (\<lambda>t. t_boardId t = boardId) (tasks w)))))] w"
  note w' = w' [folded log_def]
  have tasks_gone: "taskOnBoard (\<lambda>k. k = boardId) log (t_id t) \<longleftrightarrow> t_boardId t = boardId" if "t \<in> set (tasks w)" for t
    using that inj_on_id [OF wellFormedD(3) [OF wf]] by (auto simp: taskOnBoard_def list_ex_iff log_def)
  have labels_gone: "labelOnBoard (\<lambda>k. k = boardId) log (l_id l) \<longleftrightarrow> l_boardId l = boardId" if "l \<in> set (labels w)" for l
    using that inj_on_id [OF wellFormedD(4) [OF wf]] by (auto simp: labelOnBoard_def list_ex_iff log_def)
  have filters: "tasks w' = filter (\<lambda>t. t_boardId t \<noteq> boardId) (tasks w)"
    "labels w' = filter (\<lambda>l. l_boardId l \<noteq> boardId) (labels w)"
    unfolding w' using tasks_gone labels_gone by (simp_all add: log_def cong: filter_cong)
  have rels: "assignees w' = filter (\<lambda>a. \<not> taskOnBoard (\<lambda>k. k = boardId) log (ta_taskId a)) (assignees log)"
    "taskLabels w' = filter (\<lambda>tl. \<not> labelOnBoard (\<lambda>k. k = boardId) log (tl_labelId tl))
       (filter (\<lambda>tl. \<not> taskOnBoard (\<lambda>k. k = boardId) log (tl_taskId tl)) (taskLabels log))"
    "activities w' = map (\<lambda>a. case a_taskId a of
       Some t \<Rightarrow> if taskOnBoard (\<lambda>k. k = boardId) log t then a\<lparr>a_taskId := None\<rparr> else a | None \<Rightarrow> a) (activities log)"
    by (simp_all add: w' cascadeBoards_def cascadeLabels_def cascadeTasks_def)
  have "\<forall>a \<in> set (assignees w'). ta_taskId a \<notin> t_id ` {t \<in> set (tasks w). t_boardId t = boardId}"
    unfolding rels using tasks_gone by auto
  moreover have "\<forall>tl \<in> set (taskLabels w'). tl_labelId tl \<notin> l_id ` {l \<in> set (labels w). l_boardId l = boardId}"
    unfolding rels using labels_gone by auto
  moreover have "\<forall>a \<in> set (activities w'). \<forall>t \<in> set (tasks w). t_boardId t = boardId \<longrightarrow> a_taskId a \<noteq> Some (t_id t)"
    unfolding rels using tasks_gone by (fastforce split: option.splits if_splits)
  moreover have "last (activities w') = last (activities log)"
    unfolding rels by (simp add: log_def)
  moreover have "findBoard w' workspaceId boardId = None"
    by (simp add: findBoard_def find_None w')
  ultimately show ?thesis using filters
    by (auto simp: w' log_def BoardService_get_def assertBoard_def bindE_Inl)
qed

lemma remove_board_runs:
  assumes "findBoard w workspaceId boardId \<noteq> None"
  shows "\<exists>u w'. BoardService_remove workspaceId boardId actorId w = (Inr u, w')"
proof -
  from assms have "boardIn w workspaceId boardId" by (simp only: findBoard_boardIn)
  with assms show ?thesis
    by (auto simp: BoardService_remove_def bindE_Inr)
qed

lemma remove_board_exact_witness:
  "\<exists>u w'. BoardService_remove (js ''w1'') (js ''b1'') (js ''u1'') sampleWorld = (Inr u, w')
    \<and> BoardService_get (js ''w1'') (js ''b1'') w' = (Inl (NotFound ''Board not found''), w')"
proof -
  have "findBoard sampleWorld (js ''w1'') (js ''b1'') \<noteq> None" by (simp add: findBoard_def sampleWorld_def)
  then obtain u w' where run: "BoardService_remove (js ''w1'') (js ''b1'') (js ''u1'') sampleWorld = (Inr u, w')"
    using remove_board_runs by blast
  from remove_board_exact [OF sampleWorld_wellFormed run] run show ?thesis by blast
qed

lemma includeLabels_without:
  assumes "labels w' = filter (\<lambda>l. l_id l \<noteq> k) (labels w)"
    and "taskLabels w' = filter (\<lambda>tl. tl_labelId tl \<noteq> k) (taskLabels w)"
  shows "includeLabels w' task = filter (\<lambda>l. l_id l \<noteq> k) (includeLabels w task)"
proof -
  let ?f = "\<lambda>tl :: task_label_row. find (\<lambda>l. l_id l = tl_labelId tl) (labels w)"
  have find: "find (\<lambda>l. l_id l = tl_labelId tl) (filter (\<lambda>l. l_id l \<noteq> k) ls) = find (\<lambda>l. l_id l = tl_labelId tl) ls"
    if "tl_labelId tl \<noteq> k" for tl :: task_label_row and ls :: "label_row list"
    using that by (induction ls) auto
  have "List.map_filter (\<lambda>tl. find (\<lambda>l. l_id l = tl_labelId tl) (filter (\<lambda>l. l_id l \<noteq> k) (labels w)))
        (filter (\<lambda>tl. tl_labelId tl \<noteq> k) xs) = filter (\<lambda>l. l_id l \<noteq> k) (List.map_filter ?f xs)" for xs :: "task_label_row list"
  proof (induction xs)
    case (Cons a xs)
    show ?case
    proof (cases "?f a")
      case None
      have "find (\<lambda>l. l_id l = tl_labelId a) (filter (\<lambda>l. l_id l \<noteq> k) (labels w)) = None"
        if "tl_labelId a \<noteq> k" using find [OF that, of "labels w"] None by (rule trans)
      with Cons None show ?thesis by (cases "tl_labelId a = k") (simp_all add: map_filter_simps)
    next
      case (Some l)
      then have "l_id l = tl_labelId a" by (blast dest: find_Some_D)
      with Cons Some show ?thesis by (cases "tl_labelId a = k") (simp_all add: map_filter_simps find)
    qed
  qed (simp add: map_filter_simps)
  from this [of "sort_key tl_id (filter (\<lambda>tl. tl_taskId tl = task) (taskLabels w))"] show ?thesis
    by (simp add: includeLabels_def assms filter_sort conj_commute)
qed

text \<open>
  Deleting a label takes it off every task that carried it and changes no other label of any task;
  no task, and no other label, is touched.
\<close>

theorem remove_label_strips:
  assumes wf: "wellFormed w" and run: "LabelService_remove workspaceId labelId actorId w = (Inr u, w')"
  shows "labels w' = filter (\<lambda>l. l_id l \<noteq> labelId) (labels w) \<and> tasks w' = tasks w
    \<and> (\<forall>task. includeLabels w' task = filter (\<lambda>l. l_id l \<noteq> labelId) (includeLabels w task))"
proof -
  obtain row where row: "findLabelRow w workspaceId labelId = Some row"
    using run by (auto simp: LabelService_remove_def bindE_Inr)
  define log where "log = logActivity workspaceId None actorId LabelDeleted
    [(''labelId'', JString labelId), (''boardId'', JString (l_boardId row)), (''name'', JString (l_name row)),
     (''color'', JString (l_color row))] w"
  have "findLabelRow log = findLabelRow w" by (intro ext) (simp add: findLabelRow_def log_def)
  with row have gone: "(\<lambda>k. k = labelId \<and> (\<exists>l. findLabelRow log workspaceId k = Some l)) = (\<lambda>k. k = labelId)" by auto
  from run row have w': "w' = cascadeLabels (\<lambda>k. k = labelId) log"
    unfolding LabelService_remove_def
    by (simp add: bindE_Inr Let_def log_def [symmetric] gone split: if_splits)
  then have "labels w' = filter (\<lambda>l. l_id l \<noteq> labelId) (labels w)"
    "taskLabels w' = filter (\<lambda>tl. tl_labelId tl \<noteq> labelId) (taskLabels w)" "tasks w' = tasks w"
    by (simp_all add: cascadeLabels_def log_def)
  then show ?thesis by (simp add: includeLabels_without)
qed

lemma remove_label_strips_witness:
  "\<exists>u w'. LabelService_remove (js ''w1'') (js ''l1'') (js ''u1'') sampleWorld = (Inr u, w') \<and> labels w' = []"
proof -
  have "\<not> is_error (fst (LabelService_remove (js ''w1'') (js ''l1'') (js ''u1'') sampleWorld))"
    by (simp add: handler_defs)
  then obtain u w' where run: "LabelService_remove (js ''w1'') (js ''l1'') (js ''u1'') sampleWorld = (Inr u, w')"
    by (blast dest: succeeds)
  from remove_label_strips [OF sampleWorld_wellFormed run]
  have "labels w' = filter (\<lambda>l. l_id l \<noteq> js ''l1'') (labels sampleWorld)" by blast
  then have "labels w' = []" by (simp add: sampleWorld_def)
  with run show ?thesis by blast
qed

end
