(* ===== verification/Checklists.thy ===== *)
theory Checklists
  imports TaskService Sample
begin

section \<open>Checklists and their items\<close>

text \<open>
  \<open>task/checklist.service.ts\<close> and \<open>task/checklist-item.service.ts\<close>, one definition per method. Both
  place a row at the midpoint of its new neighbours, and neither ever respreads the siblings. They
  order by position alone: rows of equal position come in the order of the table, which the
  database does not promise to keep.
\<close>

subsection \<open>Bodies\<close>

record UpdateChecklistItemDto =
  ui_content :: "js_string js_field"
  ui_isDone :: "bool js_field"

type_synonym MoveChecklistDto = "js_string js_field"

subsection \<open>Placing a row\<close>

definition appendPosition :: "number list \<Rightarrow> number" where
  \<comment> \<open>\<open>(last[0]?.position ?? 0) + POSITION_GAP\<close>, where \<open>last\<close> is the row of the highest position\<close>
  "appendPosition positions = fl ((if positions = [] then 0 else Max (set positions)) + POSITION_GAP)"

definition movedPosition :: "string \<Rightarrow> item list \<Rightarrow> js_string js_field \<Rightarrow> http_error + number" where
  \<comment> \<open>the position of a row moved among \<open>others\<close>: after \<open>afterId\<close>, or to the front without one\<close>
  "movedPosition message others afterId =
     (let afterIndex = (case afterId of
            Value k \<Rightarrow> if k \<noteq> [] then findIndex (\<lambda>row. item_id row = k) others else -1
          | _ \<Rightarrow> -1)
      in if truthy afterId \<and> afterIndex = -1 then Inl (NotFound message)
         else Inr (midpoint
           (if 0 \<le> afterIndex then map_option item_position (js_nth others afterIndex) else None)
           (map_option item_position (js_nth others (afterIndex + 1)))))"

definition checklistItem :: "checklist_row \<Rightarrow> item" where
  "checklistItem cl = \<lparr>item_id = cl_id cl, item_position = cl_position cl\<rparr>"

definition checklistItemItem :: "checklist_item_row \<Rightarrow> item" where
  "checklistItemItem ci = \<lparr>item_id = ci_id ci, item_position = ci_position ci\<rparr>"

definition checklistSiblings :: "world \<Rightarrow> uuid \<Rightarrow> item list" where
  "checklistSiblings w taskId =
     map checklistItem (sort_key cl_position (filter (\<lambda>cl. cl_taskId cl = taskId) (checklists w)))"

definition itemSiblings :: "world \<Rightarrow> uuid \<Rightarrow> item list" where
  "itemSiblings w checklistId = map checklistItemItem
     (sort_key ci_position (filter (\<lambda>ci. ci_checklistId ci = checklistId) (checklistItems w)))"

subsection \<open>The scoped predicates\<close>

definition checklistMatches :: "world \<Rightarrow> uuid \<Rightarrow> uuid \<Rightarrow> uuid \<Rightarrow> checklist_row \<Rightarrow> bool" where
  \<comment> \<open>\<open>{ id: checklistId, taskId, task: { board: { workspaceId } } }\<close>\<close>
  "checklistMatches w workspaceId taskId checklistId cl \<longleftrightarrow>
     cl_id cl = checklistId \<and> cl_taskId cl = taskId \<and> taskIn w workspaceId taskId"

definition itemMatches :: "world \<Rightarrow> uuid \<Rightarrow> uuid \<Rightarrow> uuid \<Rightarrow> checklist_item_row \<Rightarrow> bool" where
  \<comment> \<open>\<open>{ id: itemId, checklist: { taskId, task: { board: { workspaceId } } } }\<close>\<close>
  "itemMatches w workspaceId taskId itemId ci \<longleftrightarrow>
     ci_id ci = itemId \<and> taskIn w workspaceId taskId
     \<and> list_ex (\<lambda>cl. cl_id cl = ci_checklistId ci \<and> cl_taskId cl = taskId) (checklists w)"

definition cascadeChecklists :: "(checklist_row \<Rightarrow> bool) \<Rightarrow> world \<Rightarrow> world" where
  "cascadeChecklists gone w = w\<lparr>
     checklists := filter (\<lambda>cl. \<not> gone cl) (checklists w),
     checklistItems := filter (\<lambda>ci. \<not> list_ex (\<lambda>cl. cl_id cl = ci_checklistId ci \<and> gone cl)
       (checklists w)) (checklistItems w)\<rparr>"

subsection \<open>ChecklistService\<close>

definition ChecklistService_create ::
  "uuid \<Rightarrow> uuid \<Rightarrow> uuid \<Rightarrow> js_string \<Rightarrow> TaskDto handler" where
  "ChecklistService_create workspaceId taskId actorId title =
     bindE (TaskReadService_findTaskBasic workspaceId taskId) (\<lambda>task.
     bindE (transaction (modify (\<lambda>w. (tick w)\<lparr>checklists := checklists w
       @ [\<lparr>cl_id = freshId w, cl_taskId = t_id task, cl_title = title,
           cl_position = appendPosition (map item_position (checklistSiblings w (t_id task)))\<rparr>]\<rparr>))) (\<lambda>_.
     TaskEventsService_emitUpdated workspaceId taskId actorId))"

definition ChecklistService_update ::
  "uuid \<Rightarrow> uuid \<Rightarrow> uuid \<Rightarrow> uuid \<Rightarrow> js_string \<Rightarrow> TaskDto handler" where
  "ChecklistService_update workspaceId taskId actorId checklistId title =
     bindE (TaskReadService_findTaskBasic workspaceId taskId) (\<lambda>_.
     bindE (reads (\<lambda>w. list_ex (checklistMatches w workspaceId taskId checklistId) (checklists w))) (\<lambda>hit.
     bindE (modify (\<lambda>w. w\<lparr>checklists := map (\<lambda>cl.
       if checklistMatches w workspaceId taskId checklistId cl then cl\<lparr>cl_title := title\<rparr> else cl)
       (checklists w)\<rparr>)) (\<lambda>_.
     bindE (failIf (\<not> hit) (NotFound ''Checklist not found'')) (\<lambda>_.
     TaskEventsService_emitUpdated workspaceId taskId actorId))))"

definition ChecklistService_remove :: "uuid \<Rightarrow> uuid \<Rightarrow> uuid \<Rightarrow> uuid \<Rightarrow> TaskDto handler" where
  "ChecklistService_remove workspaceId taskId actorId checklistId =
     bindE (TaskReadService_findTaskBasic workspaceId taskId) (\<lambda>_.
     bindE (reads (\<lambda>w. list_ex (checklistMatches w workspaceId taskId checklistId) (checklists w))) (\<lambda>hit.
     bindE (modify (\<lambda>w. cascadeChecklists (checklistMatches w workspaceId taskId checklistId) w)) (\<lambda>_.
     bindE (failIf (\<not> hit) (NotFound ''Checklist not found'')) (\<lambda>_.
     TaskEventsService_emitUpdated workspaceId taskId actorId))))"

definition ChecklistService_move ::
  "uuid \<Rightarrow> uuid \<Rightarrow> uuid \<Rightarrow> uuid \<Rightarrow> MoveChecklistDto \<Rightarrow> TaskDto handler" where
  "ChecklistService_move workspaceId taskId actorId checklistId afterId =
     bindE (TaskReadService_findTaskBasic workspaceId taskId) (\<lambda>_.
     bindE (reads (\<lambda>w. checklistSiblings w taskId)) (\<lambda>siblings.
     bindE (failIf (\<not> list_ex (\<lambda>row. item_id row = checklistId) siblings)
       (NotFound ''Checklist not found'')) (\<lambda>_.
     bindE (lift (movedPosition ''Checklist not found''
       (filter (\<lambda>row. item_id row \<noteq> checklistId) siblings) afterId)) (\<lambda>position.
     bindE (modify (\<lambda>w. w\<lparr>checklists := map (\<lambda>cl.
       if cl_id cl = checklistId then cl\<lparr>cl_position := position\<rparr> else cl) (checklists w)\<rparr>)) (\<lambda>_.
     TaskEventsService_emitUpdated workspaceId taskId actorId)))))"

subsection \<open>ChecklistItemService\<close>

definition ChecklistItemService_create ::
  "uuid \<Rightarrow> uuid \<Rightarrow> uuid \<Rightarrow> uuid \<Rightarrow> js_string \<Rightarrow> TaskDto handler" where
  "ChecklistItemService_create workspaceId taskId actorId checklistId content =
     bindE (TaskReadService_findTaskBasic workspaceId taskId) (\<lambda>_.
     bindE (orThrow (NotFound ''Checklist not found'')
       (\<lambda>w. find (checklistMatches w workspaceId taskId checklistId) (checklists w))) (\<lambda>_.
     bindE (transaction (modify (\<lambda>w. (tick w)\<lparr>checklistItems := checklistItems w
       @ [\<lparr>ci_id = freshId w, ci_checklistId = checklistId, ci_content = content, ci_isDone = False,
           ci_position = appendPosition (map item_position (itemSiblings w checklistId))\<rparr>]\<rparr>))) (\<lambda>_.
     TaskEventsService_emitUpdated workspaceId taskId actorId)))"

definition patchItem :: "UpdateChecklistItemDto \<Rightarrow> checklist_item_row \<Rightarrow> checklist_item_row" where
  "patchItem dto ci = ci\<lparr>
     ci_content := (case ui_content dto of Value s \<Rightarrow> s | _ \<Rightarrow> ci_content ci),
     ci_isDone := (case ui_isDone dto of Value b \<Rightarrow> b | _ \<Rightarrow> ci_isDone ci)\<rparr>"

definition ChecklistItemService_update ::
  "uuid \<Rightarrow> uuid \<Rightarrow> uuid \<Rightarrow> uuid \<Rightarrow> UpdateChecklistItemDto \<Rightarrow> TaskDto handler" where
  \<comment> \<open>\<open>null\<close> passes \<open>@IsOptional\<close> and is refused by the client, for both columns\<close>
  "ChecklistItemService_update workspaceId taskId actorId itemId dto =
     bindE (TaskReadService_findTaskBasic workspaceId taskId) (\<lambda>_.
     if ui_content dto = Undefined \<and> ui_isDone dto = Undefined
     then bindE (orThrow (NotFound ''Checklist item not found'')
            (\<lambda>w. find (itemMatches w workspaceId taskId itemId) (checklistItems w))) (\<lambda>_.
          bindE (TaskReadService_findTask workspaceId taskId) (\<lambda>row.
          return (toTaskDetailDto row)))
     else bindE (failIf (ui_content dto = Null \<or> ui_isDone dto = Null)
            (PrismaError ''PrismaClientValidationError'')) (\<lambda>_.
          bindE (reads (\<lambda>w. list_ex (itemMatches w workspaceId taskId itemId) (checklistItems w))) (\<lambda>hit.
          bindE (modify (\<lambda>w. w\<lparr>checklistItems := map (\<lambda>ci.
            if itemMatches w workspaceId taskId itemId ci then patchItem dto ci else ci)
            (checklistItems w)\<rparr>)) (\<lambda>_.
          bindE (failIf (\<not> hit) (NotFound ''Checklist item not found'')) (\<lambda>_.
          TaskEventsService_emitUpdated workspaceId taskId actorId)))))"

definition ChecklistItemService_remove :: "uuid \<Rightarrow> uuid \<Rightarrow> uuid \<Rightarrow> uuid \<Rightarrow> TaskDto handler" where
  "ChecklistItemService_remove workspaceId taskId actorId itemId =
     bindE (TaskReadService_findTaskBasic workspaceId taskId) (\<lambda>_.
     bindE (reads (\<lambda>w. list_ex (itemMatches w workspaceId taskId itemId) (checklistItems w))) (\<lambda>hit.
     bindE (modify (\<lambda>w. w\<lparr>checklistItems := filter (\<lambda>ci. \<not> itemMatches w workspaceId taskId itemId ci)
       (checklistItems w)\<rparr>)) (\<lambda>_.
     bindE (failIf (\<not> hit) (NotFound ''Checklist item not found'')) (\<lambda>_.
     TaskEventsService_emitUpdated workspaceId taskId actorId))))"

definition ChecklistItemService_move ::
  "uuid \<Rightarrow> uuid \<Rightarrow> uuid \<Rightarrow> uuid \<Rightarrow> MoveChecklistDto \<Rightarrow> TaskDto handler" where
  "ChecklistItemService_move workspaceId taskId actorId itemId afterId =
     bindE (TaskReadService_findTaskBasic workspaceId taskId) (\<lambda>_.
     bindE (orThrow (NotFound ''Checklist item not found'')
       (\<lambda>w. find (itemMatches w workspaceId taskId itemId) (checklistItems w))) (\<lambda>owner.
     bindE (reads (\<lambda>w. filter (\<lambda>row. item_id row \<noteq> itemId) (itemSiblings w (ci_checklistId owner)))) (\<lambda>others.
     bindE (lift (movedPosition ''Checklist item not found'' others afterId)) (\<lambda>position.
     bindE (modify (\<lambda>w. w\<lparr>checklistItems := map (\<lambda>ci.
       if ci_id ci = itemId then ci\<lparr>ci_position := position\<rparr> else ci) (checklistItems w)\<rparr>)) (\<lambda>_.
     TaskEventsService_emitUpdated workspaceId taskId actorId)))))"

declare checklistItem_def [handler_defs] checklistItemItem_def [handler_defs]
  checklistSiblings_def [handler_defs] itemSiblings_def [handler_defs]
  checklistMatches_def [handler_defs] itemMatches_def [handler_defs] cascadeChecklists_def [handler_defs]
  ChecklistService_create_def [handler_defs] ChecklistService_update_def [handler_defs]
  ChecklistService_remove_def [handler_defs] ChecklistService_move_def [handler_defs]
  ChecklistItemService_create_def [handler_defs] patchItem_def [handler_defs]
  ChecklistItemService_update_def [handler_defs] ChecklistItemService_remove_def [handler_defs]
  ChecklistItemService_move_def [handler_defs]

end
