(* ===== verification/ChecklistProps.thy ===== *)
theory ChecklistProps
  imports Checklists TaskAssignees
begin

section \<open>Where checklists and items end up\<close>

text \<open>
  Checklists and items are ordered alike, so the ordering is proved once, for rows with an id and a
  position, in the locale \<open>positioned\<close>, and used at both.
\<close>

subsection \<open>Rows ordered by position\<close>

definition placedAfter :: "js_string js_field \<Rightarrow> js_string \<Rightarrow> js_string list \<Rightarrow> js_string list \<Rightarrow> bool" where
  "placedAfter after k old new \<longleftrightarrow>
     (\<exists>xs ys. old = xs @ ys \<and> new = xs @ k # ys
        \<and> (if truthy after then xs \<noteq> [] \<and> Value (last xs) = after else xs = []))"

definition roomFor :: "js_string js_field \<Rightarrow> item list \<Rightarrow> bool" where
  \<comment> \<open>the gap after the named row is one that tasks and columns would split\<close>
  "roomFor after others \<longleftrightarrow>
     (\<forall>i. Suc i < length others \<longrightarrow> Value (item_id (others ! i)) = after \<longrightarrow>
        \<not> needsRebalance (Some (item_position (others ! i))) (Some (item_position (others ! Suc i))))"

definition wellSpaced :: "item list \<Rightarrow> bool" where
  "wellSpaced xs \<longleftrightarrow> sorted_wrt (<) (map item_position xs) \<and> (\<forall>x \<in> set xs. safe_position (item_position x))"

lemma positions_strict:
  assumes srt: "sorted_wrt (<) ps" and safe: "\<forall>p \<in> set ps. safe_position p" and i: "i \<le> length ps"
    and pv: "pv = js_nth ps (int i - 1)" and nx: "nx = js_nth ps (int i)"
    and gap: "\<not> needsRebalance pv nx"
  shows "sorted_wrt (<) (splice_in i (midpoint pv nx) ps)"
proof -
  let ?rows = "map (\<lambda>p. (p, 0 :: nat)) ps"
  have key: "sorted_wrt (<) (splice_in i (midpoint pv nx, k) ?rows)" for k
    using assms by (intro frac.slot_strict) (auto simp: sorted_wrt_map js_nth_map option.map_comp comp_def option.map_ident less_prod_def)
  have "sorted_wrt (<) (map fst (splice_in i (midpoint pv nx, 0 :: nat) ?rows))"
  proof (simp only: sorted_wrt_iff_nth_less, intro allI impI)
    fix a b assume ab: "a < b" "b < length (map fst (splice_in i (midpoint pv nx, 0 :: nat) ?rows))"
    then have *: "splice_in i (midpoint pv nx, k) ?rows ! a < splice_in i (midpoint pv nx, k) ?rows ! b" for k
      using key [of k] by (auto simp: sorted_wrt_iff_nth_less)
    show "map fst (splice_in i (midpoint pv nx, 0 :: nat) ?rows) ! a
        < map fst (splice_in i (midpoint pv nx, 0 :: nat) ?rows) ! b"
      using * [of 0] * [of 1] ab i
      by (auto simp: nth_splice_in less_prod_def split: if_splits)
  qed
  then show ?thesis by (simp add: map_splice_in comp_def)
qed

lemma sort_key_snoc:
  assumes "\<And>x. x \<in> set xs \<Longrightarrow> f x \<le> f y"
  shows "sort_key f (xs @ [y]) = sort_key f xs @ [y]"
proof -
  have insort: "f x \<le> f y \<Longrightarrow> insort_key f x (zs @ [y]) = insort_key f x zs @ [y]" for x zs
    by (induction zs) auto
  show ?thesis using assms by (induction xs) (simp_all add: insort)
qed

lemma movedPosition_Inr:
  assumes "movedPosition message others after = Inr p"
  obtains i where "i \<le> length others"
    and "p = midpoint (js_nth (map item_position others) (int i - 1)) (js_nth (map item_position others) (int i))"
    and "truthy after \<longrightarrow> 0 < i \<and> Value (item_id (others ! (i - 1))) = after"
    and "\<not> truthy after \<longrightarrow> i = 0"
proof (cases "truthy after")
  case True
  then obtain a where a: "after = Value a" "a \<noteq> []" by (rule truthyE)
  let ?P = "\<lambda>row. item_id row = a"
  from assms a have "findIndex ?P others \<noteq> -1" by (auto simp: movedPosition_def split: if_splits)
  then have ge: "0 \<le> findIndex ?P others" using findIndex_ge [of ?P others] by linarith
  define i where "i = Suc (nat (findIndex ?P others))"
  have i: "i \<le> length others" "item_id (others ! (i - 1)) = a"
    using findIndex_Some [OF ge] by (auto simp: i_def)
  have "findIndex ?P others = int i - 1" using ge by (simp add: i_def)
  with assms a ge have "p = midpoint (js_nth (map item_position others) (int i - 1)) (js_nth (map item_position others) (int i))"
    by (auto simp: movedPosition_def js_nth_map)
  with i a True show thesis by (intro that [of i]) (auto simp: i_def)
next
  case False
  then have "p = midpoint (js_nth (map item_position others) (int 0 - 1)) (js_nth (map item_position others) (int 0))"
    using assms by (cases after) (auto simp: movedPosition_def js_nth_map js_nth_def)
  with False show thesis by (intro that [of 0]) simp_all
qed

locale positioned =
  fixes rid :: "'r \<Rightarrow> js_string" and pos :: "'r \<Rightarrow> number" and at_pos :: "number \<Rightarrow> 'r \<Rightarrow> 'r"
  assumes rid_at: "rid (at_pos p r) = rid r" and pos_at: "pos (at_pos p r) = p"
begin

abbreviation row_item :: "'r \<Rightarrow> item" where
  "row_item r \<equiv> \<lparr>item_id = rid r, item_position = pos r\<rparr>"

lemma append_last:
  assumes safe: "\<forall>r \<in> set rows. safe_position (pos r)"
    and p: "pos r = appendPosition (map item_position (map row_item (sort_key pos rows)))"
  shows "sort_key pos (rows @ [r]) = sort_key pos rows @ [r]"
proof (rule sort_key_snoc)
  fix x assume x: "x \<in> set rows"
  let ?M = "Max (pos ` set rows)"
  have "?M \<in> pos ` set rows" using x by (intro Max_in) auto
  with safe have "safe_position ?M" by auto
  then have "?M < fl (?M + POSITION_GAP)" using frac.mid_last [of ?M] by simp
  moreover have "pos x \<le> ?M" using x by simp
  moreover have "sort_key pos rows \<noteq> []" using x by (metis empty_iff empty_set set_sort)
  then have "pos r = fl (?M + POSITION_GAP)" by (simp add: p appendPosition_def image_image)
  ultimately show "pos x \<le> pos r" by simp
qed

lemma move_order:
  assumes dist: "distinct (map rid rows)" and k: "k \<in> rid ` set rows"
    and others: "others = filter (\<lambda>x. item_id x \<noteq> k) (map row_item (sort_key pos rows))"
    and spaced: "wellSpaced others" and room: "roomFor after others"
    and p: "movedPosition message others after = Inr p"
  shows "placedAfter after k (map item_id others)
    (map rid (sort_key pos (map (\<lambda>r. if rid r = k then at_pos p r else r) rows)))"
proof -
  obtain i where i: "i \<le> length others"
    and p': "p = midpoint (js_nth (map item_position others) (int i - 1)) (js_nth (map item_position others) (int i))"
    and after: "truthy after \<longrightarrow> 0 < i \<and> Value (item_id (others ! (i - 1))) = after"
      "\<not> truthy after \<longrightarrow> i = 0"
    by (rule movedPosition_Inr [OF p])
  define rest where "rest = filter (\<lambda>r. rid r \<noteq> k) (sort_key pos rows)"
  have rest: "others = map row_item rest" by (simp add: others rest_def filter_map comp_def)
  have gap: "\<not> needsRebalance (js_nth (map item_position others) (int i - 1)) (js_nth (map item_position others) (int i))"
  proof (cases "0 < i \<and> i < length others")
    case True
    then obtain j where j: "i = Suc j" "Suc j < length others" by (cases i) auto
    with after have "Value (item_id (others ! j)) = after" by auto
    with room j have "\<not> needsRebalance (Some (item_position (others ! j))) (Some (item_position (others ! Suc j)))"
      unfolding roomFor_def by blast
    with j show ?thesis by (simp add: js_nth_def nat_add_distrib)
  next
    case False
    then show ?thesis by (auto simp: js_nth_def)
  qed
  have strict: "sorted_wrt (<) (splice_in i p (map item_position others))"
    unfolding p' using spaced i gap by (intro positions_strict) (auto simp: wellSpaced_def)
  obtain r where r: "r \<in> set rows" "rid r = k" using k by auto
  let ?new = "map (\<lambda>r. if rid r = k then at_pos p r else r) rows"
  have "sort_key pos ?new = splice_in i (at_pos p r) rest"
  proof (rule sort_key_unique)
    have uniq: "x = r" if "x \<in> set rows" "rid x = k" for x
      using inj_on_id [OF dist that(1) r(1)] that r by simp
    have set_rest: "set rest = {x \<in> set rows. rid x \<noteq> k}" by (auto simp: rest_def)
    show "set ?new = set (splice_in i (at_pos p r) rest)"
    proof (intro set_eqI iffI)
      fix y assume "y \<in> set ?new"
      then obtain x where "x \<in> set rows" "y = (if rid x = k then at_pos p x else x)" by auto
      then show "y \<in> set (splice_in i (at_pos p r) rest)"
        using uniq by (cases "rid x = k") (simp_all add: set_rest)
    next
      fix y assume "y \<in> set (splice_in i (at_pos p r) rest)"
      then consider "y = at_pos p r" | "y \<in> set rows" "rid y \<noteq> k" by (auto simp: set_rest)
      then show "y \<in> set ?new" by cases (use r in \<open>force+\<close>)
    qed
    have "map rid ?new = map rid rows" by (simp add: rid_at)
    with dist have "distinct (map rid ?new)" by (simp only:)
    then show "distinct ?new" by (simp only: distinct_map)
    have "sorted_wrt (<) (map pos (splice_in i (at_pos p r) rest))"
      using strict by (simp add: rest map_splice_in pos_at comp_def)
    then show "sorted_wrt (\<lambda>a b. pos a < pos b) (splice_in i (at_pos p r) rest)"
      by (simp add: sorted_wrt_map)
  qed
  then have new: "map rid (sort_key pos ?new) = splice_in i k (map item_id others)"
    using r by (simp add: map_splice_in rest rid_at comp_def)
  show ?thesis unfolding placedAfter_def new
  proof (intro exI conjI)
    show "map item_id others = take i (map item_id others) @ drop i (map item_id others)" by simp
    show "splice_in i k (map item_id others) = take i (map item_id others) @ k # drop i (map item_id others)"
      by (simp add: splice_in_def)
    show "if truthy after then take i (map item_id others) \<noteq> [] \<and> Value (last (take i (map item_id others))) = after
        else take i (map item_id others) = []"
      using after i by (auto simp: take_map last_take_map)
  qed
qed

end

interpretation cls: positioned cl_id cl_position "\<lambda>p r. r\<lparr>cl_position := p\<rparr>"
  by unfold_locales simp_all

interpretation itm: positioned ci_id ci_position "\<lambda>p r. r\<lparr>ci_position := p\<rparr>"
  by unfold_locales simp_all

subsection \<open>Checklists\<close>

definition checklistOrder :: "world \<Rightarrow> uuid \<Rightarrow> uuid list" where
  "checklistOrder w taskId = map item_id (checklistSiblings w taskId)"

definition itemOrder :: "world \<Rightarrow> uuid \<Rightarrow> uuid list" where
  "itemOrder w checklistId = map item_id (itemSiblings w checklistId)"

lemma checklistOrder_cong: "checklists w' = checklists w \<Longrightarrow> checklistOrder w' = checklistOrder w"
  by (intro ext) (simp add: checklistOrder_def checklistSiblings_def)

lemma itemOrder_cong: "checklistItems w' = checklistItems w \<Longrightarrow> itemOrder w' = itemOrder w"
  by (intro ext) (simp add: itemOrder_def itemSiblings_def)

lemma emitUpdated_tables:
  assumes "TaskEventsService_emitUpdated ws tid actor w = (Inr r, w')"
  shows "checklists w' = checklists w \<and> checklistItems w' = checklistItems w \<and> tasks w' = tasks w"
  using assms by (rule emitUpdated_success) simp

lemma checklistSiblings_rows:
  "checklistSiblings w taskId =
     map cls.row_item (sort_key cl_position (filter (\<lambda>cl. cl_taskId cl = taskId) (checklists w)))"
  by (simp add: checklistSiblings_def checklistItem_def)

lemma itemSiblings_rows:
  "itemSiblings w checklistId =
     map itm.row_item (sort_key ci_position (filter (\<lambda>ci. ci_checklistId ci = checklistId) (checklistItems w)))"
  by (simp add: itemSiblings_def checklistItemItem_def)

lemma create_checklist_order:
  assumes safe: "\<forall>cl \<in> set (checklists w). safe_position (cl_position cl)"
    and run: "ChecklistService_create workspaceId taskId actorId title w = (Inr r, w')"
  shows "checklistOrder w' = (checklistOrder w)(taskId := checklistOrder w taskId @ [freshId w])"
proof
  fix tid
  from run obtain t where t: "findTaskRow w workspaceId taskId = Some t"
    by (auto simp: ChecklistService_create_def TaskReadService_findTaskBasic_def bindE_Inr)
  have id: "t_id t = taskId" using findTaskRow_Some [OF t] by simp
  define row where "row = \<lparr>cl_id = freshId w, cl_taskId = taskId, cl_title = title,
    cl_position = appendPosition (map item_position (checklistSiblings w taskId))\<rparr>"
  from run t have "TaskEventsService_emitUpdated workspaceId taskId actorId
      ((tick w)\<lparr>checklists := checklists w @ [row]\<rparr>) = (Inr r, w')"
    by (auto simp: ChecklistService_create_def TaskReadService_findTaskBasic_def bindE_Inr row_def id)
  then have tables: "checklists w' = checklists w @ [row]" by (auto dest: emitUpdated_tables)
  show "checklistOrder w' tid = ((checklistOrder w)(taskId := checklistOrder w taskId @ [freshId w])) tid"
  proof (cases "tid = taskId")
    case True
    have "sort_key cl_position (filter (\<lambda>cl. cl_taskId cl = taskId) (checklists w) @ [row])
        = sort_key cl_position (filter (\<lambda>cl. cl_taskId cl = taskId) (checklists w)) @ [row]"
      using safe by (intro cls.append_last) (simp_all add: row_def checklistSiblings_rows)
    with True show ?thesis
      by (simp add: checklistOrder_def checklistSiblings_rows tables) (simp add: row_def)
  next
    case False
    then have "filter (\<lambda>cl. cl_taskId cl = tid) (checklists w') = filter (\<lambda>cl. cl_taskId cl = tid) (checklists w)"
      by (simp add: tables row_def)
    with False show ?thesis by (simp add: checklistOrder_def checklistSiblings_def)
  qed
qed

lemma wellSpaced_filter: "wellSpaced xs \<Longrightarrow> wellSpaced (filter P xs)"
  by (auto simp: wellSpaced_def sorted_wrt_map sorted_wrt_filter)

text \<open>
  Moving a checklist puts it directly after the one \<open>afterId\<close> names, or in front of all the
  others without one; the others keep their order and no other task is touched. This is so while
  the positions of the task's checklists differ and the gap is not closed, which the code does not
  check here.
\<close>

theorem move_places_checklist:
  assumes dist: "distinct (map cl_id (checklists w))" and spaced: "wellSpaced (checklistSiblings w taskId)"
    and room: "roomFor afterId (filter (\<lambda>row. item_id row \<noteq> checklistId) (checklistSiblings w taskId))"
    and run: "ChecklistService_move workspaceId taskId actorId checklistId afterId w = (Inr r, w')"
  shows "placedAfter afterId checklistId (filter (\<lambda>k. k \<noteq> checklistId) (checklistOrder w taskId))
      (checklistOrder w' taskId)
    \<and> (\<forall>other. other \<noteq> taskId \<longrightarrow> checklistOrder w' other = checklistOrder w other)"
proof -
  let ?others = "filter (\<lambda>row. item_id row \<noteq> checklistId) (checklistSiblings w taskId)"
  let ?rows = "filter (\<lambda>cl. cl_taskId cl = taskId) (checklists w)"
  from run obtain p where mem: "list_ex (\<lambda>row. item_id row = checklistId) (checklistSiblings w taskId)"
    and p: "movedPosition ''Checklist not found'' ?others afterId = Inr p"
    and last_step: "TaskEventsService_emitUpdated workspaceId taskId actorId (w\<lparr>checklists := map (\<lambda>cl.
       if cl_id cl = checklistId then cl\<lparr>cl_position := p\<rparr> else cl) (checklists w)\<rparr>) = (Inr r, w')"
    by (auto simp: ChecklistService_move_def TaskReadService_findTaskBasic_def bindE_Inr)
  from last_step have tables: "checklists w' = map (\<lambda>cl.
       if cl_id cl = checklistId then cl\<lparr>cl_position := p\<rparr> else cl) (checklists w)"
    by (auto dest: emitUpdated_tables)
  have k: "checklistId \<in> cl_id ` set ?rows"
    using mem by (auto simp: list_ex_iff checklistSiblings_rows)
  have new: "filter (\<lambda>cl. cl_taskId cl = tid) (checklists w') = map (\<lambda>cl.
       if cl_id cl = checklistId then cl\<lparr>cl_position := p\<rparr> else cl) (filter (\<lambda>cl. cl_taskId cl = tid) (checklists w))" for tid
    unfolding tables by (induction "checklists w") (simp_all add: filter_map comp_def if_distrib cong: if_cong)
  have "placedAfter afterId checklistId (map item_id ?others)
      (map cl_id (sort_key cl_position (map (\<lambda>cl. if cl_id cl = checklistId then cl\<lparr>cl_position := p\<rparr> else cl) ?rows)))"
    using p k wellSpaced_filter [OF spaced] room dist
    by (intro cls.move_order) (simp_all add: checklistSiblings_rows distinct_map_filter)
  moreover have "map item_id ?others = filter (\<lambda>k. k \<noteq> checklistId) (checklistOrder w taskId)"
    by (simp add: checklistOrder_def filter_map comp_def)
  moreover have "checklistOrder w' taskId = map cl_id (sort_key cl_position (map (\<lambda>cl.
      if cl_id cl = checklistId then cl\<lparr>cl_position := p\<rparr> else cl) ?rows))"
    by (simp add: checklistOrder_def checklistSiblings_rows new)
  moreover have "checklistOrder w' other = checklistOrder w other" if "other \<noteq> taskId" for other
  proof -
    have "cl_id cl \<noteq> checklistId" if "cl \<in> set (checklists w)" "cl_taskId cl = other" for cl
      using k inj_on_id [OF dist that(1)] that \<open>other \<noteq> taskId\<close> by auto
    then have "filter (\<lambda>cl. cl_taskId cl = other) (checklists w') = filter (\<lambda>cl. cl_taskId cl = other) (checklists w)"
      unfolding new by (intro map_idI) auto
    then show ?thesis by (simp add: checklistOrder_def checklistSiblings_def)
  qed
  ultimately show ?thesis by simp
qed

lemma move_places_checklist_witness:
  "\<exists>r w'. ChecklistService_move (js ''w1'') (js ''t1'') (js ''u1'') (js ''k1'') Undefined sampleWorld = (Inr r, w')
    \<and> placedAfter Undefined (js ''k1'') [] (checklistOrder w' (js ''t1''))"
proof -
  have "\<not> is_error (fst (ChecklistService_move (js ''w1'') (js ''t1'') (js ''u1'') (js ''k1'') Undefined sampleWorld))"
    by (simp add: handler_defs movedPosition_def js_nth_def)
  then obtain r w' where run:
    "ChecklistService_move (js ''w1'') (js ''t1'') (js ''u1'') (js ''k1'') Undefined sampleWorld = (Inr r, w')"
    by (blast dest: succeeds)
  have "safe_position 1000" using is_double_of_int [of 1000] by (simp add: safe_position_def)
  then have "distinct (map cl_id (checklists sampleWorld))" "wellSpaced (checklistSiblings sampleWorld (js ''t1''))"
    "roomFor Undefined (filter (\<lambda>row. item_id row \<noteq> js ''k1'') (checklistSiblings sampleWorld (js ''t1'')))"
    by (simp_all add: handler_defs wellSpaced_def roomFor_def)
  from move_places_checklist [OF this run] run show ?thesis
    by (simp add: handler_defs checklistOrder_def)
qed

subsection \<open>Items\<close>

text \<open>
  A new item is the last of its checklist, whatever the positions of the others, and no other
  checklist changes.
\<close>

theorem created_item_is_last:
  assumes safe: "\<forall>ci \<in> set (checklistItems w). safe_position (ci_position ci)"
    and run: "ChecklistItemService_create workspaceId taskId actorId checklistId content w = (Inr r, w')"
  shows "itemOrder w' = (itemOrder w)(checklistId := itemOrder w checklistId @ [freshId w])"
proof
  fix cid
  define row where "row = \<lparr>ci_id = freshId w, ci_checklistId = checklistId, ci_content = content,
    ci_isDone = False, ci_position = appendPosition (map item_position (itemSiblings w checklistId))\<rparr>"
  from run have "TaskEventsService_emitUpdated workspaceId taskId actorId
      ((tick w)\<lparr>checklistItems := checklistItems w @ [row]\<rparr>) = (Inr r, w')"
    by (auto simp: ChecklistItemService_create_def TaskReadService_findTaskBasic_def bindE_Inr row_def)
  then have tables: "checklistItems w' = checklistItems w @ [row]" by (auto dest: emitUpdated_tables)
  show "itemOrder w' cid = ((itemOrder w)(checklistId := itemOrder w checklistId @ [freshId w])) cid"
  proof (cases "cid = checklistId")
    case True
    have "sort_key ci_position (filter (\<lambda>ci. ci_checklistId ci = checklistId) (checklistItems w) @ [row])
        = sort_key ci_position (filter (\<lambda>ci. ci_checklistId ci = checklistId) (checklistItems w)) @ [row]"
      using safe by (intro itm.append_last) (simp_all add: row_def itemSiblings_rows)
    with True show ?thesis
      by (simp add: itemOrder_def itemSiblings_rows tables) (simp add: row_def)
  next
    case False
    then have "filter (\<lambda>ci. ci_checklistId ci = cid) (checklistItems w') = filter (\<lambda>ci. ci_checklistId ci = cid) (checklistItems w)"
      by (simp add: tables row_def)
    with False show ?thesis by (simp add: itemOrder_def itemSiblings_def)
  qed
qed

lemma created_item_is_last_witness:
  "\<exists>r w'. ChecklistItemService_create (js ''w1'') (js ''t1'') (js ''u1'') (js ''k1'') (js ''z'') sampleWorld = (Inr r, w')
    \<and> itemOrder w' (js ''k1'') = [js ''i1'', js ''i2'', js ''z'']"
proof -
  have "\<not> is_error (fst (ChecklistItemService_create (js ''w1'') (js ''t1'') (js ''u1'') (js ''k1'') (js ''z'') sampleWorld))"
    by (simp add: handler_defs)
  then obtain r w' where run:
    "ChecklistItemService_create (js ''w1'') (js ''t1'') (js ''u1'') (js ''k1'') (js ''z'') sampleWorld = (Inr r, w')"
    by (blast dest: succeeds)
  have "is_double 1000" "is_double 2000" using is_double_of_int [of 1000] is_double_of_int [of 2000] by simp_all
  then have "\<forall>ci \<in> set (checklistItems sampleWorld). safe_position (ci_position ci)"
    by (simp add: handler_defs safe_position_def)
  then have "itemOrder w' (js ''k1'') = itemOrder sampleWorld (js ''k1'') @ [freshId sampleWorld]"
    by (simp only: created_item_is_last [OF _ run] fun_upd_same)
  moreover have "itemOrder sampleWorld (js ''k1'') = [js ''i1'', js ''i2'']" "freshId sampleWorld = js ''z''"
    by (simp_all add: handler_defs itemOrder_def)
  ultimately show ?thesis using run by simp
qed

text \<open>
  Moving an item puts it directly after the one \<open>afterId\<close> names, or on top without one; the
  other items keep their order and no other checklist is touched, while positions differ and the
  gap is not closed.
\<close>

theorem move_places_item:
  assumes dist: "distinct (map ci_id (checklistItems w))" and mem: "itemId \<in> set (itemOrder w checklistId)"
    and spaced: "wellSpaced (itemSiblings w checklistId)"
    and room: "roomFor afterId (filter (\<lambda>row. item_id row \<noteq> itemId) (itemSiblings w checklistId))"
    and run: "ChecklistItemService_move workspaceId taskId actorId itemId afterId w = (Inr r, w')"
  shows "placedAfter afterId itemId (filter (\<lambda>k. k \<noteq> itemId) (itemOrder w checklistId)) (itemOrder w' checklistId)
    \<and> (\<forall>other. other \<noteq> checklistId \<longrightarrow> itemOrder w' other = itemOrder w other)"
proof -
  let ?others = "filter (\<lambda>row. item_id row \<noteq> itemId) (itemSiblings w checklistId)"
  let ?rows = "filter (\<lambda>ci. ci_checklistId ci = checklistId) (checklistItems w)"
  from mem obtain own where own: "own \<in> set (checklistItems w)" "ci_id own = itemId" "ci_checklistId own = checklistId"
    by (auto simp: itemOrder_def itemSiblings_rows)
  have owner: "ci_checklistId ci = checklistId" if "ci \<in> set (checklistItems w)" "ci_id ci = itemId" for ci
    using inj_on_id [OF dist that(1) own(1)] that own by simp
  from run obtain ci p where "find (itemMatches w workspaceId taskId itemId) (checklistItems w) = Some ci"
    and p: "movedPosition ''Checklist item not found''
      (filter (\<lambda>row. item_id row \<noteq> itemId) (itemSiblings w (ci_checklistId ci))) afterId = Inr p"
    and last_step: "TaskEventsService_emitUpdated workspaceId taskId actorId (w\<lparr>checklistItems := map (\<lambda>ci.
       if ci_id ci = itemId then ci\<lparr>ci_position := p\<rparr> else ci) (checklistItems w)\<rparr>) = (Inr r, w')"
    by (auto simp: ChecklistItemService_move_def TaskReadService_findTaskBasic_def bindE_Inr)
  then have "ci_checklistId ci = checklistId" using owner by (auto dest!: find_Some_D simp: itemMatches_def)
  note p = p [unfolded this]
  from last_step have tables: "checklistItems w' = map (\<lambda>ci.
       if ci_id ci = itemId then ci\<lparr>ci_position := p\<rparr> else ci) (checklistItems w)"
    by (auto dest: emitUpdated_tables)
  have new: "filter (\<lambda>ci. ci_checklistId ci = cid) (checklistItems w') = map (\<lambda>ci.
       if ci_id ci = itemId then ci\<lparr>ci_position := p\<rparr> else ci) (filter (\<lambda>ci. ci_checklistId ci = cid) (checklistItems w))" for cid
    unfolding tables by (induction "checklistItems w") (simp_all add: filter_map comp_def if_distrib cong: if_cong)
  have "placedAfter afterId itemId (map item_id ?others)
      (map ci_id (sort_key ci_position (map (\<lambda>ci. if ci_id ci = itemId then ci\<lparr>ci_position := p\<rparr> else ci) ?rows)))"
    using p own wellSpaced_filter [OF spaced] room dist
    by (intro itm.move_order) (auto simp: itemSiblings_rows distinct_map_filter)
  moreover have "map item_id ?others = filter (\<lambda>k. k \<noteq> itemId) (itemOrder w checklistId)"
    by (simp add: itemOrder_def filter_map comp_def)
  moreover have "itemOrder w' checklistId = map ci_id (sort_key ci_position (map (\<lambda>ci.
      if ci_id ci = itemId then ci\<lparr>ci_position := p\<rparr> else ci) ?rows))"
    by (simp add: itemOrder_def itemSiblings_rows new)
  moreover have "itemOrder w' other = itemOrder w other" if "other \<noteq> checklistId" for other
  proof -
    have "filter (\<lambda>ci. ci_checklistId ci = other) (checklistItems w') = filter (\<lambda>ci. ci_checklistId ci = other) (checklistItems w)"
      unfolding new using owner that by (intro map_idI) auto
    then show ?thesis by (simp add: itemOrder_def itemSiblings_def)
  qed
  ultimately show ?thesis by simp
qed

lemma move_places_item_witness:
  "\<exists>r w'. ChecklistItemService_move (js ''w1'') (js ''t1'') (js ''u1'') (js ''i1'') (Value (js ''i2'')) sampleWorld = (Inr r, w')
    \<and> placedAfter (Value (js ''i2'')) (js ''i1'') [js ''i2''] (itemOrder w' (js ''k1''))"
proof -
  have "\<not> is_error (fst (ChecklistItemService_move (js ''w1'') (js ''t1'') (js ''u1'') (js ''i1'') (Value (js ''i2'')) sampleWorld))"
    by (simp add: handler_defs movedPosition_def js_nth_def)
  then obtain r w' where run:
    "ChecklistItemService_move (js ''w1'') (js ''t1'') (js ''u1'') (js ''i1'') (Value (js ''i2'')) sampleWorld = (Inr r, w')"
    by (blast dest: succeeds)
  have "safe_position 1000" "safe_position 2000"
    using is_double_of_int [of 1000] is_double_of_int [of 2000] by (simp_all add: safe_position_def)
  then have "distinct (map ci_id (checklistItems sampleWorld))"
    "js ''i1'' \<in> set (itemOrder sampleWorld (js ''k1''))" "wellSpaced (itemSiblings sampleWorld (js ''k1''))"
    "roomFor (Value (js ''i2'')) (filter (\<lambda>row. item_id row \<noteq> js ''i1'') (itemSiblings sampleWorld (js ''k1'')))"
    by (simp_all add: handler_defs wellSpaced_def roomFor_def itemOrder_def)
  from move_places_item [OF this run] run show ?thesis
    by (simp add: handler_defs itemOrder_def)
qed

subsection \<open>What never respreading costs\<close>

definition sampleItems :: "item list" where
  \<comment> \<open>three items appended to an empty checklist\<close>
  "sampleItems = [\<lparr>item_id = js ''a'', item_position = 1000\<rparr>, \<lparr>item_id = js ''b'', item_position = 2000\<rparr>,
     \<lparr>item_id = js ''c'', item_position = 3000\<rparr>]"

fun dragToSecond :: "nat \<Rightarrow> item list \<Rightarrow> item list" where
  \<comment> \<open>\<open>n\<close> times: the last item is moved after the first, and the list read again\<close>
  "dragToSecond 0 xs = xs"
| "dragToSecond (Suc n) xs =
     (case movedPosition ''Checklist item not found'' (butlast xs) (Value (item_id (hd xs))) of
        Inl e \<Rightarrow> xs
      | Inr p \<Rightarrow> dragToSecond n (sort_key item_position (butlast xs @ [(last xs)\<lparr>item_position := p\<rparr>])))"

text \<open>
  Between 1000 and 1024 the doubles are the multiples of \<open>2 ^ -43\<close>, and the midpoint with 1000 halves
  the number of steps, rounding a half to even.
\<close>

fun steps :: "nat \<Rightarrow> int" where
  "steps 0 = 1000 * 2 ^ 37"
| "steps (Suc n) = round_half_even (of_int (steps n) / 2)"

fun second :: "nat \<Rightarrow> number" where
  \<comment> \<open>the second position after \<open>n\<close> moves\<close>
  "second 0 = 2000"
| "second (Suc n) = midpoint (Some 1000) (Some (second n))"

lemma fl_fraction:
  assumes "\<bar>m\<bar> \<le> 2 ^ 53"
  shows "fl (of_int m / 2 ^ n) = of_int m / 2 ^ n"
proof -
  have "is_double (of_int m * 2 powi (- int n))"
    using assms by (intro is_double_scale is_double_of_int)
  then show ?thesis by (simp add: is_double_def power_int_minus divide_inverse)
qed

lemma expo_2000:
  assumes "2000 \<le> x" and "x < 2048"
  shows "expo x = 10"
  by (rule expo_unique) (use assms in \<open>simp_all add: power_int_def\<close>)

lemma midpoint_steps:
  assumes "0 \<le> k" and "k < 24 * 2 ^ 43"
  shows "midpoint (Some 1000) (Some (1000 + of_int k / 2 ^ 43)) = 1000 + of_int (round_half_even (of_int k / 2)) / 2 ^ 43"
proof -
  let ?x = "1000 + (1000 + of_int k / 2 ^ 43) :: rat"
  have "of_int k < (24 * 2 ^ 43 :: rat)" using assms(2) by (metis of_int_less_iff of_int_mult of_int_numeral of_int_power)
  then have x: "2000 \<le> ?x" "?x < 2048" using assms(1) by (simp_all add: field_simps)
  have scaled: "?x / 2 powi (10 - 52) = of_int (2000 * 2 ^ 42) + of_int k / 2"
    by (simp add: power_int_def field_simps)
  have shift: "round_half_even (of_int (2000 * 2 ^ 42) + r) = 2000 * 2 ^ 42 + round_half_even r" for r
  proof -
    have "\<lfloor>of_int (2000 * 2 ^ 42) + r\<rfloor> = 2000 * 2 ^ 42 + \<lfloor>r\<rfloor>" by linarith
    then show ?thesis by (simp add: round_half_even_def Let_def)
  qed
  have "fl ?x = of_int (2000 * 2 ^ 42 + round_half_even (of_int k / 2)) * 2 powi (10 - 52)"
    using x unfolding fl_def Let_def expo_2000 [OF x] scaled shift by simp
  then show ?thesis unfolding midpoint_half by (simp add: power_int_def field_simps)
qed

lemma midpoint_exact:
  assumes "1000 + x = of_int m / 2 ^ n" and "\<bar>m\<bar> \<le> 2 ^ 53" and "2 * y = of_int m / 2 ^ n"
  shows "midpoint (Some 1000) (Some x) = y"
proof -
  have "fl (1000 + x) / 2 = y"
    using assms(3) unfolding assms(1) fl_fraction [OF assms(2)] by simp
  then show ?thesis by (simp only: midpoint_half)
qed

lemma second_first:
  "second 0 = 2000" "second (Suc 0) = 1500" "second (Suc (Suc 0)) = 1250" "second (Suc (Suc (Suc 0))) = 1125"
  "second (Suc (Suc (Suc (Suc 0)))) = 2125 / 2" "second (Suc (Suc (Suc (Suc (Suc 0))))) = 4125 / 4"
  "second (Suc (Suc (Suc (Suc (Suc (Suc 0)))))) = 8125 / 8"
proof -
  have next_pos: "second (Suc n) = y" if "second n = x" "midpoint (Some 1000) (Some x) = y" for n x y
    using that by simp
  show s: "second 0 = 2000" by simp
  from s show s: "second (Suc 0) = 1500"
    by (rule next_pos) (rule midpoint_exact [of 2000 3000 0 1500], simp_all)
  from s show s: "second (Suc (Suc 0)) = 1250"
    by (rule next_pos) (rule midpoint_exact [of 1500 2500 0 1250], simp_all)
  from s show s: "second (Suc (Suc (Suc 0))) = 1125"
    by (rule next_pos) (rule midpoint_exact [of 1250 2250 0 1125], simp_all)
  from s show s: "second (Suc (Suc (Suc (Suc 0)))) = 2125 / 2"
    by (rule next_pos) (rule midpoint_exact [of 1125 2125 0 "2125 / 2"], simp_all)
  from s show s: "second (Suc (Suc (Suc (Suc (Suc 0))))) = 4125 / 4"
    by (rule next_pos) (rule midpoint_exact [of "2125 / 2" 4125 1 "4125 / 4"], simp_all)
  from s show s: "second (Suc (Suc (Suc (Suc (Suc (Suc 0)))))) = 8125 / 8"
    by (rule next_pos) (rule midpoint_exact [of "4125 / 4" 8125 2 "8125 / 8"], simp_all)
qed

lemma second_steps:
  assumes "\<forall>m < n. 0 \<le> steps m \<and> steps m < 24 * 2 ^ 43"
  shows "second (6 + n) = 1000 + of_int (steps n) / 2 ^ 43"
  using assms
proof (induction n)
  case 0
  show ?case using second_first(7) by (simp add: eval_nat_numeral del: second.simps)
next
  case (Suc n)
  then have "second (6 + n) = 1000 + of_int (steps n) / 2 ^ 43" by simp
  then have "second (6 + Suc n) = midpoint (Some 1000) (Some (1000 + of_int (steps n) / 2 ^ 43))"
    by (simp only: add_Suc_right second.simps)
  also have "\<dots> = 1000 + of_int (steps (Suc n)) / 2 ^ 43"
    using Suc.prems by (subst midpoint_steps) auto
  finally show ?case .
qed

lemma steps_halve: "n \<le> 40 \<Longrightarrow> steps n = 125 * 2 ^ (40 - n)"
proof (induction n)
  case (Suc n)
  define e where "e = 39 - n"
  from Suc.prems have "40 - n = Suc e" "40 - Suc n = e" by (simp_all add: e_def)
  with Suc have "of_int (steps n) / (2 :: rat) = of_int (125 * 2 ^ (40 - Suc n))" by simp
  then show ?case by (simp only: steps.simps round_half_even_of_int)
qed simp

lemma round_half_even_half:
  "round_half_even (of_int k / 2) = (if even k \<or> even (k div 2) then k div 2 else k div 2 + 1)"
proof -
  have floor: "\<lfloor>of_int k / (2 :: rat)\<rfloor> = k div 2"
    using floor_divide_of_int_eq [of k 2, where ?'a = rat] by simp
  have "of_int k = (2 * of_int (k div 2) + of_int (k mod 2) :: rat)"
    by (metis mult_div_mod_eq of_int_add of_int_mult of_int_numeral)
  then have rest: "of_int k / 2 - of_int (k div 2) = (of_int (k mod 2) / 2 :: rat)" by (simp add: field_simps)
  show ?thesis
  proof (cases "even k")
    case True
    then have "k mod 2 = 0" by presburger
    with True show ?thesis by (simp only: round_half_even_def Let_def floor rest) simp
  next
    case False
    then have "k mod 2 = 1" by presburger
    with False show ?thesis by (simp only: round_half_even_def Let_def floor rest) simp
  qed
qed

lemma steps_next:
  "steps n = k \<Longrightarrow> steps (Suc n) = (if even k \<or> even (k div 2) then k div 2 else k div 2 + 1)"
  by (simp only: steps.simps round_half_even_half)

lemma steps_last:
  "steps 40 = 125" "steps 41 = 62" "steps 42 = 31" "steps 43 = 16" "steps 44 = 8" "steps 45 = 4"
  "steps 46 = 2" "steps 47 = 1" "steps 48 = 0"
proof -
  show s: "steps 40 = 125" by (simp add: steps_halve)
  from steps_next [OF s] show s: "steps 41 = 62" by simp
  from steps_next [OF s] show s: "steps 42 = 31" by simp
  from steps_next [OF s] show s: "steps 43 = 16" by simp
  from steps_next [OF s] show s: "steps 44 = 8" by simp
  from steps_next [OF s] show s: "steps 45 = 4" by simp
  from steps_next [OF s] show s: "steps 46 = 2" by simp
  from steps_next [OF s] show s: "steps 47 = 1" by simp
  from steps_next [OF s] show s: "steps 48 = 0" by simp
qed

lemma steps_range:
  assumes "n \<le> 47"
  shows "0 < steps n \<and> steps n < 24 * 2 ^ 43"
proof (cases "n \<le> 40")
  case True
  have "(2 :: int) ^ (40 - n) \<le> 2 ^ 40" by (rule power_increasing) simp_all
  with True show ?thesis by (simp add: steps_halve)
next
  case False
  with assms have "n = 41 \<or> n = 42 \<or> n = 43 \<or> n = 44 \<or> n = 45 \<or> n = 46 \<or> n = 47" by arith
  then show ?thesis by (auto simp: steps_last)
qed

lemma second_after:
  assumes "n \<le> 53"
  shows "1000 < second n \<and> (second (Suc n) < second n)"
proof (cases "6 \<le> n")
  case True
  define m where "m = n - 6"
  with True assms have n: "n = 6 + m" "m \<le> 47" by simp_all
  have now: "second (6 + m) = 1000 + of_int (steps m) / 2 ^ 43" using n steps_range by (intro second_steps) (auto simp: less_imp_le)
  have succ: "second (6 + Suc m) = 1000 + of_int (steps (Suc m)) / 2 ^ 43"
    using n steps_range by (intro second_steps) (auto simp: less_imp_le less_Suc_eq_le)
  have "0 < steps m" using n steps_range by simp
  moreover have "steps (Suc m) < steps m" using \<open>0 < steps m\<close>
    unfolding steps.simps round_half_even_half by presburger
  ultimately show ?thesis using now succ n by (simp del: second.simps steps.simps)
next
  case False
  then have "n \<in> {0, Suc 0, Suc (Suc 0), Suc (Suc (Suc 0)), Suc (Suc (Suc (Suc 0))), Suc (Suc (Suc (Suc (Suc 0))))}"
    by auto
  then show ?thesis
    by (elim insertE) (simp_all only: second_first empty_iff, simp_all)
qed

lemma second_54: "second 54 = 1000"
proof -
  have "second (6 + 48) = 1000 + of_int (steps 48) / 2 ^ 43"
    using steps_range by (intro second_steps) (auto simp: less_imp_le less_Suc_eq_le)
  then show ?thesis by (simp add: steps_last del: second.simps steps.simps)
qed

lemma drag_once:
  assumes "item_id a \<noteq> []" and "item_position a = 1000" and "item_position b = second n"
    and "1000 \<le> second (Suc n)" and "second (Suc n) < second n"
  shows "dragToSecond (Suc k) [a, b, c] = dragToSecond k [a, c\<lparr>item_position := second (Suc n)\<rparr>, b]"
  using assms by (simp add: movedPosition_def js_nth_def del: midpoint.simps)

text \<open>After \<open>n\<close> moves the positions are 1000, \<open>second n\<close> and the one \<open>second\<close> had before.\<close>

lemma drag_second:
  assumes "k + n \<le> 54" and "item_id a \<noteq> []" and "item_position a = 1000"
    and "item_position b = second n"
  shows "map item_position (dragToSecond k [a, b, c]) = [1000, second (n + k),
    if k = 0 then item_position c else second (n + k - 1)]"
  using assms
proof (induction k arbitrary: n b c)
  case (Suc k)
  have "1000 < second n \<and> second (Suc n) < second n" using Suc.prems by (intro second_after) simp
  moreover have "1000 \<le> second (Suc n)"
  proof (cases "n = 53")
    case True
    then show ?thesis using second_54 by simp
  next
    case False
    then show ?thesis using Suc.prems second_after [of "Suc n"] by (simp del: second.simps)
  qed
  ultimately have "dragToSecond (Suc k) [a, b, c] = dragToSecond k [a, c\<lparr>item_position := second (Suc n)\<rparr>, b]"
    using Suc.prems by (intro drag_once) simp_all
  moreover have "map item_position (dragToSecond k [a, c\<lparr>item_position := second (Suc n)\<rparr>, b]) =
      [1000, second (Suc n + k), if k = 0 then item_position b else second (Suc n + k - 1)]"
    using Suc.prems by (intro Suc.IH) (simp_all del: second.simps)
  ultimately show ?case using Suc.prems by (simp del: second.simps dragToSecond.simps)
qed simp

text \<open>
  C33. Moving items halves a gap each time and nothing ever respreads them: after 54 moves of the last
  of three items to the second place two items have the same position, and the order between them
  is whatever the database returns. After 53 moves the positions still differ.
\<close>

theorem repeated_moves_collide:
  "distinct (map item_position (dragToSecond 53 sampleItems))
   \<and> \<not> distinct (map item_position (dragToSecond 54 sampleItems))"
proof -
  have drag: "map item_position (dragToSecond n sampleItems) =
      [1000, second n, if n = 0 then 3000 else second (n - 1)]" if "n \<le> 54" for n
  proof -
    let ?c = "\<lparr>item_id = js ''c'', item_position = 3000\<rparr>"
    have "map item_position (dragToSecond n sampleItems) =
        [1000, second (0 + n), if n = 0 then item_position ?c else second (0 + n - 1)]"
      unfolding sampleItems_def using that by (intro drag_second) simp_all
    then show ?thesis by (simp only: add_0 item.select_convs)
  qed
  show ?thesis
    using second_after [of 53] second_after [of 52]
    by (simp add: drag second_54 del: second.simps dragToSecond.simps)
qed

end
