(* ===== verification/Json.thy ===== *)
theory Json
  imports Locales
begin

section \<open>Reading a JSON document\<close>

text \<open>
  What \<open>JSON.parse(bytes.toString('utf8'))\<close> gives: the UTF-8 decoder with its replacement
  characters, a lexer, and a parser as a machine with a stack, so that every function recurses on its
  input. \<open>None\<close> is the \<open>SyntaxError\<close>. An object keeps its members in source order; reading a
  property takes the last member of that name.
\<close>

subsection \<open>UTF-8\<close>

definition utf16 :: "nat \<Rightarrow> js_string" where
  "utf16 cp =
     (if cp < 0x10000 then [of_nat cp]
      else [of_nat (0xD800 + (cp - 0x10000) div 1024), of_nat (0xDC00 + (cp - 0x10000) mod 1024)])"

type_synonym utf8_state = "nat \<times> nat \<times> nat \<times> nat"

definition utf8Ready :: utf8_state where
  \<comment> \<open>continuation bytes needed, code point so far, bounds of the next byte\<close>
  "utf8Ready = (0, 0, 0x80, 0xBF)"

definition utf8Start :: "8 word \<Rightarrow> js_string \<times> utf8_state" where
  "utf8Start b =
     (let n = unat b
      in if n \<le> 0x7F then ([of_nat n], utf8Ready)
         else if 0xC2 \<le> n \<and> n \<le> 0xDF then ([], (1, n - 0xC0, 0x80, 0xBF))
         else if 0xE0 \<le> n \<and> n \<le> 0xEF then
           ([], (2, n - 0xE0, if n = 0xE0 then 0xA0 else 0x80, if n = 0xED then 0x9F else 0xBF))
         else if 0xF0 \<le> n \<and> n \<le> 0xF4 then
           ([], (3, n - 0xF0, if n = 0xF0 then 0x90 else 0x80, if n = 0xF4 then 0x8F else 0xBF))
         else ([0xFFFD], utf8Ready))"

fun utf8 :: "utf8_state \<Rightarrow> 8 word list \<Rightarrow> js_string" where
  "utf8 (need, cp, low, high) [] = (if need = 0 then [] else [0xFFFD])"
| "utf8 (need, cp, low, high) (b # bs) =
     (if need = 0 then (case utf8Start b of (out, st) \<Rightarrow> out @ utf8 st bs)
      else if low \<le> unat b \<and> unat b \<le> high then
        (let cp' = cp * 64 + (unat b - 0x80)
         in if need = 1 then utf16 cp' @ utf8 utf8Ready bs else utf8 (need - 1, cp', 0x80, 0xBF) bs)
      else (case utf8Start b of (out, st) \<Rightarrow> 0xFFFD # out @ utf8 st bs))"

definition utf8ToString :: "8 word list \<Rightarrow> js_string" where
  "utf8ToString = utf8 utf8Ready"

subsection \<open>Tokens\<close>

datatype token = BeginObject | EndObject | BeginArray | EndArray | Colon | Comma | Literal json

definition hexDigit :: "code_unit \<Rightarrow> code_unit option" where
  "hexDigit c =
     (if 48 \<le> c \<and> c \<le> 57 then Some (c - 48) else if 65 \<le> c \<and> c \<le> 70 then Some (c - 55)
      else if 97 \<le> c \<and> c \<le> 102 then Some (c - 87) else None)"

definition hexUnit :: "js_string \<Rightarrow> code_unit option" where
  \<comment> \<open>the four digits of a Unicode escape\<close>
  "hexUnit s =
     (case map hexDigit s of
        [Some a, Some b, Some c, Some d] \<Rightarrow> Some (4096 * a + 256 * b + 16 * c + d) | _ \<Rightarrow> None)"

definition simpleEscape :: "code_unit \<Rightarrow> code_unit option" where
  "simpleEscape = map_of [(0x22, 0x22), (0x5C, 0x5C), (0x2F, 0x2F), (0x62, 8), (0x66, 12),
     (0x6E, 10), (0x72, 13), (0x74, 9)]"

fun lexString :: "js_string \<Rightarrow> (js_string \<times> js_string) option" where
  \<comment> \<open>the characters up to the closing quote, and what follows it\<close>
  "lexString [] = None"
| "lexString (c # cs) =
     (if c = 0x22 then Some ([], cs)
      else if c < 0x20 then None
      else if c \<noteq> 0x5C then map_option (apfst ((#) c)) (lexString cs)
      else (case cs of
          [] \<Rightarrow> None
        | e # es \<Rightarrow>
            (if e = 0x75
             then (case hexUnit (take 4 es) of
                None \<Rightarrow> None | Some u \<Rightarrow> map_option (apfst ((#) u)) (lexString (drop 4 es)))
             else (case simpleEscape e of
                None \<Rightarrow> None | Some u \<Rightarrow> map_option (apfst ((#) u)) (lexString es)))))"

lemma lexString_shorter: "lexString s = Some (t, rest) \<Longrightarrow> length rest < length s"
  by (induction s arbitrary: t rest rule: lexString.induct)
    (fastforce split: if_splits list.splits option.splits)+

definition lexExponent :: "js_string \<Rightarrow> (int \<times> js_string) option" where
  \<comment> \<open>the exponent part, 0 when there is none\<close>
  "lexExponent s =
     (if s = [] \<or> (hd s \<noteq> 0x65 \<and> hd s \<noteq> 0x45) then Some (0, s)
      else (let signed = (tl s \<noteq> [] \<and> (hd (tl s) = 0x2B \<or> hd (tl s) = 0x2D));
                body = (if signed then tl (tl s) else tl s);
                digits = takeWhile isDigit body
            in if digits = [] then None
               else Some (if signed \<and> hd (tl s) = 0x2D then - digitsValue digits else digitsValue digits,
                      dropWhile isDigit body)))"

definition lexNumber :: "js_string \<Rightarrow> (json \<times> js_string) option" where
  "lexNumber s =
     (let negative = (s \<noteq> [] \<and> hd s = 0x2D);
          body = (if negative then tl s else s);
          whole = takeWhile isDigit body;
          r = dropWhile isDigit body;
          point = (r \<noteq> [] \<and> hd r = 0x2E);
          fraction = (if point then takeWhile isDigit (tl r) else []);
          r' = (if point then dropWhile isDigit (tl r) else r)
      in if whole = [] \<or> (hd whole = 48 \<and> 1 < length whole) \<or> (point \<and> fraction = []) then None
         else (case lexExponent r' of
             None \<Rightarrow> None
           | Some (e, rest) \<Rightarrow>
               (let v = scale10 (digitsValue (whole @ fraction)) (e - int (length fraction))
                in Some (JNumber (toDouble (if negative then - v else v)), rest))))"

lemma length_dropWhile_less: "takeWhile P s \<noteq> [] \<Longrightarrow> length (dropWhile P s) < length s"
  by (cases s) (auto simp: less_Suc_eq_le length_dropWhile_le split: if_splits)

lemma lexExponent_le: "lexExponent s = Some (e, rest) \<Longrightarrow> length rest \<le> length s"
  by (auto simp: lexExponent_def Let_def split: if_splits)
    (metis (no_types, lifting) diff_le_self le_trans length_dropWhile_le length_tl)+

lemma lexNumber_shorter:
  assumes "lexNumber s = Some (v, rest)"
  shows "length rest < length s"
proof -
  define body where "body = (if s \<noteq> [] \<and> hd s = 0x2D then tl s else s)"
  define r where "r = dropWhile isDigit body"
  define r' where "r' = (if r \<noteq> [] \<and> hd r = 0x2E then dropWhile isDigit (tl r) else r)"
  from assms obtain e where "takeWhile isDigit body \<noteq> []" and "lexExponent r' = Some (e, rest)"
    by (auto simp: lexNumber_def Let_def body_def r_def r'_def split: if_splits option.splits prod.splits)
  then have "length r < length body" "length rest \<le> length r'"
    by (simp_all add: r_def length_dropWhile_less lexExponent_le)
  moreover have "length r' \<le> length r"
    using length_dropWhile_le [of isDigit "tl r"] by (auto simp: r'_def)
  moreover have "length body \<le> length s" by (simp add: body_def)
  ultimately show ?thesis by linarith
qed

definition punctuation :: "code_unit \<Rightarrow> token option" where
  "punctuation = map_of [(0x7B, BeginObject), (0x7D, EndObject), (0x5B, BeginArray), (0x5D, EndArray),
     (0x3A, Colon), (0x2C, Comma)]"

definition keyword :: "js_string \<Rightarrow> (json \<times> js_string) option" where
  "keyword s =
     (if take 4 s = js ''true'' then Some (JBool True, drop 4 s)
      else if take 5 s = js ''false'' then Some (JBool False, drop 5 s)
      else if take 4 s = js ''null'' then Some (JNull, drop 4 s) else None)"

lemma keyword_shorter: "keyword s = Some (v, rest) \<Longrightarrow> length rest < length s"
  by (cases s) (auto simp: keyword_def split: if_splits)

function (sequential) lexJson :: "js_string \<Rightarrow> token list option" where
  "lexJson [] = Some []"
| "lexJson (c # cs) =
     (if c \<in> {0x09, 0x0A, 0x0D, 0x20} then lexJson cs
      else (case punctuation c of
          Some t \<Rightarrow> map_option ((#) t) (lexJson cs)
        | None \<Rightarrow>
            (if c = 0x22
             then (case lexString cs of
                None \<Rightarrow> None | Some (s, rest) \<Rightarrow> map_option ((#) (Literal (JString s))) (lexJson rest))
             else (case (if c = 0x2D \<or> isDigit c then lexNumber (c # cs) else keyword (c # cs)) of
                None \<Rightarrow> None | Some (v, rest) \<Rightarrow> map_option ((#) (Literal v)) (lexJson rest)))))"
  by pat_completeness auto
termination
  by (relation "measure length")
    (auto dest: lexString_shorter lexNumber_shorter keyword_shorter split: if_splits)

subsection \<open>The parser\<close>

datatype frame = ArrayFrame "json list" | ObjectFrame "(js_string \<times> json) list" "js_string"

datatype mode =
    ExpectValue | ExpectFirst | ExpectKey | ExpectFirstKey | ExpectColon | AfterElement | Finished json

text \<open>A finished value goes into the frame on top; the frames hold their elements newest first.\<close>

fun complete :: "json \<Rightarrow> frame list \<Rightarrow> mode \<times> frame list" where
  "complete v [] = (Finished v, [])"
| "complete v (ArrayFrame vs # st) = (AfterElement, ArrayFrame (v # vs) # st)"
| "complete v (ObjectFrame kvs k # st) = (AfterElement, ObjectFrame ((k, v) # kvs) k # st)"

definition beginValue :: "frame list \<Rightarrow> token \<Rightarrow> (mode \<times> frame list) option" where
  "beginValue st t =
     (case t of
        Literal v \<Rightarrow> Some (complete v st)
      | BeginArray \<Rightarrow> Some (ExpectFirst, ArrayFrame [] # st)
      | BeginObject \<Rightarrow> Some (ExpectFirstKey, ObjectFrame [] [] # st)
      | _ \<Rightarrow> None)"

definition readKey :: "frame list \<Rightarrow> token \<Rightarrow> (mode \<times> frame list) option" where
  "readKey st t =
     (case (st, t) of
        (ObjectFrame kvs _ # st', Literal (JString k)) \<Rightarrow> Some (ExpectColon, ObjectFrame kvs k # st')
      | _ \<Rightarrow> None)"

definition endFrame :: "frame list \<Rightarrow> token \<Rightarrow> (mode \<times> frame list) option" where
  "endFrame st t =
     (case (st, t) of
        (ArrayFrame vs # st', EndArray) \<Rightarrow> Some (complete (JArray (rev vs)) st')
      | (ObjectFrame kvs _ # st', EndObject) \<Rightarrow> Some (complete (JObject (rev kvs)) st')
      | _ \<Rightarrow> None)"

definition nextElement :: "frame list \<Rightarrow> mode \<times> frame list" where
  "nextElement st = ((case st of ObjectFrame _ _ # _ \<Rightarrow> ExpectKey | _ \<Rightarrow> ExpectValue), st)"

fun jsonStep :: "mode \<times> frame list \<Rightarrow> token \<Rightarrow> (mode \<times> frame list) option" where
  "jsonStep (ExpectValue, st) t = beginValue st t"
| "jsonStep (ExpectFirst, st) t = (if t = EndArray then endFrame st t else beginValue st t)"
| "jsonStep (ExpectKey, st) t = readKey st t"
| "jsonStep (ExpectFirstKey, st) t = (if t = EndObject then endFrame st t else readKey st t)"
| "jsonStep (ExpectColon, st) t = (if t = Colon then Some (ExpectValue, st) else None)"
| "jsonStep (AfterElement, st) t = (if t = Comma then Some (nextElement st) else endFrame st t)"
| "jsonStep (Finished v, st) t = None"

fun jsonSteps :: "mode \<times> frame list \<Rightarrow> token list \<Rightarrow> json option" where
  "jsonSteps (Finished v, st) [] = Some v"
| "jsonSteps _ [] = None"
| "jsonSteps s (t # ts) = (case jsonStep s t of None \<Rightarrow> None | Some s' \<Rightarrow> jsonSteps s' ts)"

definition jsonParse :: "js_string \<Rightarrow> json option" where
  "jsonParse s = (case lexJson s of None \<Rightarrow> None | Some ts \<Rightarrow> jsonSteps (ExpectValue, []) ts)"

subsection \<open>Reading a parsed value\<close>

definition property :: "(js_string \<times> json) list \<Rightarrow> string \<Rightarrow> json option" where
  \<comment> \<open>\<open>record.name\<close>: \<open>None\<close> is \<open>undefined\<close>\<close>
  "property kvs name = map_of (rev kvs) (js name)"

end
