(* ===== verification/ImportSkip.thy ===== *)
theory ImportSkip
  imports Json
begin

section \<open>What an import did not carry across\<close>

text \<open>
  \<open>import/import-skip.ts\<close>, with the vocabulary of \<open>entities.ts\<close>. The collector's \<open>Map\<close> is its list of
  groups in insertion order, one per scope and reason.
\<close>

datatype import_scope =
    ListScope | ColumnScope | CardScope | LabelScope | ChecklistScope | ItemScope | AttachmentScope
  | MemberScope | CommentScope

datatype skip_reason = OutOfScope | Archived | Unmappable | UnsupportedScheme | Malformed | Defaulted

definition SCOPE_ORDER :: "import_scope list" where
  "SCOPE_ORDER = [ListScope, ColumnScope, CardScope, LabelScope, ChecklistScope, ItemScope,
     AttachmentScope, MemberScope, CommentScope]"

definition REASON_ORDER :: "skip_reason list" where
  "REASON_ORDER = [OutOfScope, Archived, Unmappable, UnsupportedScheme, Malformed, Defaulted]"

definition SKIP_SAMPLE_LIMIT :: nat where
  "SKIP_SAMPLE_LIMIT = 20"

record SkipGroup =
  sg_scope :: import_scope
  sg_reason :: skip_reason
  sg_count :: int
  sg_samples :: "js_string list"

type_synonym skips = "SkipGroup list"

fun pushSamples :: "js_string option list \<Rightarrow> js_string list \<Rightarrow> js_string list" where
  \<comment> \<open>the loop over the samples: it ends at the limit and leaves out blank names\<close>
  "pushSamples [] acc = acc"
| "pushSamples (s # ss) acc =
     (if SKIP_SAMPLE_LIMIT \<le> length acc then acc
      else (let trimmed = (case s of None \<Rightarrow> [] | Some n \<Rightarrow> js_trim n)
            in pushSamples ss (if trimmed \<noteq> [] then acc @ [trimmed] else acc)))"

definition inGroup :: "import_scope \<Rightarrow> skip_reason \<Rightarrow> SkipGroup \<Rightarrow> bool" where
  "inGroup scope reason g \<longleftrightarrow> sg_scope g = scope \<and> sg_reason g = reason"

definition growGroup :: "int \<Rightarrow> js_string option list \<Rightarrow> SkipGroup \<Rightarrow> SkipGroup" where
  "growGroup count samples g =
     g\<lparr>sg_count := sg_count g + count, sg_samples := pushSamples samples (sg_samples g)\<rparr>"

definition addMany :: "import_scope \<Rightarrow> skip_reason \<Rightarrow> int \<Rightarrow> js_string option list \<Rightarrow> skips \<Rightarrow> skips" where
  "addMany scope reason count samples groups =
     (if count \<le> 0 then groups
      else if list_ex (inGroup scope reason) groups
      then map (\<lambda>g. if inGroup scope reason g then growGroup count samples g else g) groups
      else groups @ [growGroup count samples
        \<lparr>sg_scope = scope, sg_reason = reason, sg_count = 0, sg_samples = []\<rparr>])"

definition addSkip :: "import_scope \<Rightarrow> skip_reason \<Rightarrow> js_string option \<Rightarrow> skips \<Rightarrow> skips" where
  "addSkip scope reason sample = addMany scope reason 1 (case sample of None \<Rightarrow> [] | Some s \<Rightarrow> [Some s])"

definition scopeIndex :: "import_scope \<Rightarrow> int" where
  "scopeIndex s = findIndex (\<lambda>x. x = s) SCOPE_ORDER"

definition reasonIndex :: "skip_reason \<Rightarrow> int" where
  "reasonIndex r = findIndex (\<lambda>x. x = r) REASON_ORDER"

abbreviation groupKey :: "SkipGroup \<Rightarrow> int \<times> int" where
  "groupKey g \<equiv> (scopeIndex (sg_scope g), reasonIndex (sg_reason g))"

definition toReport :: "skips \<Rightarrow> SkipGroup list" where
  "toReport = sort_key groupKey"

subsection \<open>Counting\<close>

definition skipCount :: "(SkipGroup \<Rightarrow> bool) \<Rightarrow> skips \<Rightarrow> int" where
  \<comment> \<open>the total of the groups selected\<close>
  "skipCount P groups = sum_list (map sg_count (filter P groups))"

abbreviation scopeCount :: "import_scope \<Rightarrow> skips \<Rightarrow> int" where
  "scopeCount scope \<equiv> skipCount (\<lambda>g. sg_scope g = scope)"

definition validSkips :: "skips \<Rightarrow> bool" where
  "validSkips groups \<longleftrightarrow> distinct (map groupKey groups)
     \<and> (\<forall>g \<in> set groups. 0 < sg_count g \<and> length (sg_samples g) \<le> SKIP_SAMPLE_LIMIT
          \<and> int (length (sg_samples g)) \<le> sg_count g \<and> [] \<notin> set (sg_samples g))"

lemma scopeIndex_inj [simp]: "scopeIndex a = scopeIndex b \<longleftrightarrow> a = b"
  by (cases a; cases b) (simp_all add: scopeIndex_def SCOPE_ORDER_def Let_def)

lemma reasonIndex_inj [simp]: "reasonIndex a = reasonIndex b \<longleftrightarrow> a = b"
  by (cases a; cases b) (simp_all add: reasonIndex_def REASON_ORDER_def Let_def)

lemma growGroup_sel [simp]:
  "sg_scope (growGroup n ss g) = sg_scope g" "sg_reason (growGroup n ss g) = sg_reason g"
  "sg_count (growGroup n ss g) = sg_count g + n" "sg_samples (growGroup n ss g) = pushSamples ss (sg_samples g)"
  by (simp_all add: growGroup_def)

lemma pushSamples_bounds:
  assumes "length acc \<le> SKIP_SAMPLE_LIMIT" and "[] \<notin> set acc"
  shows "length (pushSamples ss acc) \<le> SKIP_SAMPLE_LIMIT \<and> [] \<notin> set (pushSamples ss acc)
    \<and> length (pushSamples ss acc) \<le> length acc + length ss"
  using assms
proof (induction ss acc rule: pushSamples.induct)
  case (2 s ss acc)
  let ?acc = "if (case s of None \<Rightarrow> [] | Some n \<Rightarrow> js_trim n) \<noteq> []
    then acc @ [case s of None \<Rightarrow> [] | Some n \<Rightarrow> js_trim n] else acc"
  show ?case
  proof (cases "SKIP_SAMPLE_LIMIT \<le> length acc")
    case False
    then have "length ?acc \<le> SKIP_SAMPLE_LIMIT" "[] \<notin> set ?acc" "length ?acc \<le> Suc (length acc)"
      using 2(3) by (auto simp: not_le)
    moreover from False have "pushSamples (s # ss) acc = pushSamples ss ?acc" by (simp add: Let_def)
    ultimately show ?thesis using "2.IH" [OF False refl] by fastforce
  qed (use 2 in simp)
qed simp

lemma inGroup_key: "inGroup scope reason g \<Longrightarrow> inGroup scope reason h \<Longrightarrow> groupKey g = groupKey h"
  by (simp add: inGroup_def)

lemma map_grow_absent:
  "\<not> list_ex (inGroup scope reason) groups \<Longrightarrow>
     map (\<lambda>g. if inGroup scope reason g then growGroup n ss g else g) groups = groups"
  by (rule map_idI) (auto simp: list_ex_iff)

lemma map_grow_key:
  "map groupKey (map (\<lambda>g. if inGroup scope reason g then growGroup n ss g else g) groups) = map groupKey groups"
  by simp

lemma validSkips_addMany:
  assumes valid: "validSkips groups" and samples: "int (length samples) \<le> count"
  shows "validSkips (addMany scope reason count samples groups)"
proof -
  have grow: "0 < sg_count g' \<and> length (sg_samples g') \<le> SKIP_SAMPLE_LIMIT
      \<and> int (length (sg_samples g')) \<le> sg_count g' \<and> [] \<notin> set (sg_samples g')"
    if "g' = growGroup count samples g" "0 \<le> sg_count g" "0 < count" "length (sg_samples g) \<le> SKIP_SAMPLE_LIMIT"
      "int (length (sg_samples g)) \<le> sg_count g" "[] \<notin> set (sg_samples g)" for g g'
    using pushSamples_bounds [OF that(4,6), of samples] that samples by auto
  show ?thesis
  proof (cases "list_ex (inGroup scope reason) groups")
    case True
    have "distinct (map groupKey (map (\<lambda>g. if inGroup scope reason g then growGroup count samples g else g) groups))"
      using valid by (simp only: map_grow_key validSkips_def)
    with True valid grow show ?thesis
      by (auto simp: validSkips_def addMany_def)
  next
    case False
    define g where "g = growGroup count samples \<lparr>sg_scope = scope, sg_reason = reason, sg_count = 0, sg_samples = []\<rparr>"
    from False have "groupKey g \<notin> groupKey ` set groups"
      by (auto simp: list_ex_iff inGroup_def g_def)
    with valid have "distinct (map groupKey (groups @ [g]))" by (simp add: validSkips_def)
    with False valid grow [OF g_def] show ?thesis
      by (auto simp: validSkips_def addMany_def g_def [symmetric])
  qed
qed

lemma skipCount_append [simp]: "skipCount P (xs @ ys) = skipCount P xs + skipCount P ys"
  by (simp add: skipCount_def)

lemma skipCount_simps [simp]:
  "skipCount P [] = 0" "skipCount P (g # gs) = (if P g then sg_count g else 0) + skipCount P gs"
  by (simp_all add: skipCount_def)

lemma scopeCount_grow:
  assumes "distinct (map groupKey groups)" and "list_ex (inGroup scope reason) groups"
  shows "scopeCount s (map (\<lambda>g. if inGroup scope reason g then growGroup n ss g else g) groups) =
    scopeCount s groups + (if s = scope then n else 0)"
  using assms
proof (induction groups)
  case (Cons g groups)
  show ?case
  proof (cases "inGroup scope reason g")
    case True
    have "\<not> inGroup scope reason h" if "h \<in> set groups" for h
      using Cons.prems(1) that inGroup_key [OF True, of h] by auto
    then have "\<not> list_ex (inGroup scope reason) groups" by (simp add: list_ex_iff)
    then have "map (\<lambda>g. if inGroup scope reason g then growGroup n ss g else g) groups = groups"
      by (rule map_grow_absent)
    moreover have "sg_scope g = scope" using True by (simp add: inGroup_def)
    ultimately show ?thesis using True by simp
  next
    case False
    with Cons show ?thesis by simp
  qed
qed simp

lemma scopeCount_addMany:
  assumes "validSkips groups" and "0 \<le> count"
  shows "scopeCount s (addMany scope reason count samples groups) =
    scopeCount s groups + (if s = scope then count else 0)"
  using assms scopeCount_grow [of groups scope reason s count samples]
  by (auto simp: addMany_def validSkips_def)

lemma validSkips_addSkip: "validSkips groups \<Longrightarrow> validSkips (addSkip scope reason sample groups)"
  unfolding addSkip_def by (rule validSkips_addMany) (auto split: option.splits)

lemma scopeCount_addSkip:
  "validSkips groups \<Longrightarrow> scopeCount s (addSkip scope reason sample groups) =
    scopeCount s groups + (if s = scope then 1 else 0)"
  unfolding addSkip_def by (rule scopeCount_addMany) simp_all

lemma validSkips_Nil [simp]: "validSkips []"
  by (simp add: validSkips_def)

lemma sum_list_sort_key: "sum_list (map f (sort_key k xs)) = sum_list (map (f :: 'a \<Rightarrow> int) xs)"
proof -
  have "sum_list (map f (insort_key k x ys)) = f x + sum_list (map f ys)" for x ys
    by (induction ys) simp_all
  then show ?thesis by (induction xs) simp_all
qed

text \<open>
  The report lists every pair of scope and reason at most once, in the order of the two
  vocabularies, with a positive count, at most twenty samples, never more samples than items and no
  blank one; it holds the same totals as the collector.
\<close>

lemma report_groups:
  assumes "validSkips groups"
  shows "sorted_wrt (\<lambda>g h. groupKey g < groupKey h) (toReport groups)
    \<and> (\<forall>g \<in> set (toReport groups). 0 < sg_count g \<and> length (sg_samples g) \<le> 20
        \<and> int (length (sg_samples g)) \<le> sg_count g \<and> [] \<notin> set (sg_samples g))
    \<and> (\<forall>s. scopeCount s (toReport groups) = scopeCount s groups)"
proof -
  have "distinct groups" "inj_on groupKey (set groups)"
    using assms by (simp_all add: validSkips_def distinct_map)
  then have "sorted_wrt (\<lambda>g h. groupKey g < groupKey h) (toReport groups)"
    unfolding toReport_def by (intro sorted_wrt_sort_key)
  moreover have "scopeCount s (toReport groups) = scopeCount s groups" for s
  proof -
    have "filter (\<lambda>g. sg_scope g = s) (toReport groups) = sort_key groupKey (filter (\<lambda>g. sg_scope g = s) groups)"
      by (simp add: toReport_def filter_sort)
    then show ?thesis by (simp only: skipCount_def sum_list_sort_key)
  qed
  ultimately show ?thesis using assms by (simp add: validSkips_def toReport_def SKIP_SAMPLE_LIMIT_def)
qed

end
