(* ===== verification/TrelloExport.thy ===== *)
theory TrelloExport
  imports ImportSkip
begin

section \<open>Reading a Trello export\<close>

text \<open>
  \<open>import/trello-export.ts\<close>. A property of the parsed document is a \<open>json option\<close>, \<open>None\<close> for
  \<open>undefined\<close>. The \<open>unusable\<close> flag of \<open>EntryFields\<close> is the first component of what a field reader
  returns; an entry is dropped when one of them is set. The issues a reader pushes are the list it
  returns, in the order they are pushed.
\<close>

record TrelloList =
  tli_id :: js_string
  tli_name :: js_string
  tli_pos :: "number option"
  tli_closed :: bool

record TrelloAttachment =
  tat_id :: js_string
  tat_name :: js_string
  tat_url :: js_string

record TrelloCard =
  tca_id :: js_string
  tca_name :: js_string
  tca_desc :: "js_string option"
  tca_idList :: "js_string option"
  tca_pos :: "number option"
  tca_closed :: bool
  tca_due :: "js_string option"
  tca_idLabels :: "js_string list"
  tca_idMembers :: "js_string list"
  tca_attachments :: "TrelloAttachment list"

record TrelloLabel =
  tla_id :: js_string
  tla_name :: js_string
  tla_color :: "js_string option"

record TrelloCheckItem =
  tit_id :: js_string
  tit_name :: js_string
  tit_state :: "js_string option"
  tit_pos :: "number option"

record TrelloChecklist =
  tck_id :: js_string
  tck_idCard :: "js_string option"
  tck_name :: js_string
  tck_pos :: "number option"
  tck_checkItems :: "TrelloCheckItem list"

record TrelloExport =
  tex_name :: js_string
  tex_desc :: "js_string option"
  tex_lists :: "TrelloList list"
  tex_cards :: "TrelloCard list"
  tex_labels :: "TrelloLabel list"
  tex_checklists :: "TrelloChecklist list"
  tex_commentCount :: nat
  tex_memberCount :: nat

record TrelloReadIssue =
  is_scope :: import_scope
  is_reason :: skip_reason
  is_sample :: "js_string option"

record TrelloExportReadResult =
  rr_source :: TrelloExport
  rr_issues :: "TrelloReadIssue list"

type_synonym members_of = "(js_string \<times> json) list"

subsection \<open>EntryFields\<close>

definition fieldString :: "json option \<Rightarrow> js_string \<Rightarrow> bool \<times> js_string" where
  "fieldString v fallback =
     (case v of Some (JString s) \<Rightarrow> (False, s)
      | None \<Rightarrow> (False, fallback) | Some JNull \<Rightarrow> (False, fallback) | Some _ \<Rightarrow> (True, fallback))"

definition fieldNullableString :: "json option \<Rightarrow> bool \<times> js_string option" where
  "fieldNullableString v =
     (case v of Some (JString s) \<Rightarrow> (False, Some s)
      | None \<Rightarrow> (False, None) | Some JNull \<Rightarrow> (False, None) | Some _ \<Rightarrow> (True, None))"

definition fieldBoolean :: "json option \<Rightarrow> bool \<times> bool" where
  "fieldBoolean v =
     (case v of Some (JBool b) \<Rightarrow> (False, b)
      | None \<Rightarrow> (False, False) | Some JNull \<Rightarrow> (False, False) | Some _ \<Rightarrow> (True, False))"

definition stringOf :: "json \<Rightarrow> js_string option" where
  "stringOf v = (case v of JString s \<Rightarrow> Some s | _ \<Rightarrow> None)"

definition fieldStringArray :: "json option \<Rightarrow> bool \<times> js_string list" where
  "fieldStringArray v =
     (case v of Some (JArray vs) \<Rightarrow>
        (let strings = List.map_filter stringOf vs in (length strings \<noteq> length vs, strings))
      | None \<Rightarrow> (False, []) | Some JNull \<Rightarrow> (False, []) | Some _ \<Rightarrow> (True, []))"

definition fieldArray :: "json option \<Rightarrow> bool \<times> json list" where
  "fieldArray v =
     (case v of Some (JArray vs) \<Rightarrow> (False, vs)
      | None \<Rightarrow> (False, []) | Some JNull \<Rightarrow> (False, []) | Some _ \<Rightarrow> (True, []))"

definition readPos :: "json option \<Rightarrow> number option" where
  "readPos v = (case v of Some (JNumber (Finite n)) \<Rightarrow> Some n | _ \<Rightarrow> None)"

definition readId :: "json option \<Rightarrow> js_string option" where
  "readId v = (case v of Some (JString s) \<Rightarrow> if s \<noteq> [] then Some s else None | _ \<Rightarrow> None)"

definition withRecord :: "json \<Rightarrow> (members_of \<Rightarrow> 'a option) \<Rightarrow> 'a option" where
  \<comment> \<open>\<open>if (!isRecord(entry)) return null\<close>\<close>
  "withRecord entry f = (case entry of JObject kvs \<Rightarrow> f kvs | _ \<Rightarrow> None)"

subsection \<open>Entries\<close>

definition readList :: "json \<Rightarrow> TrelloList option" where
  "readList entry = withRecord entry (\<lambda>kvs.
     case readId (property kvs ''id'') of
       None \<Rightarrow> None
     | Some k \<Rightarrow>
         (let (bad_name, name) = fieldString (property kvs ''name'') [];
              (bad_closed, closed) = fieldBoolean (property kvs ''closed'')
          in if bad_name \<or> bad_closed then None
             else Some \<lparr>tli_id = k, tli_name = name, tli_pos = readPos (property kvs ''pos''),
                        tli_closed = closed\<rparr>))"

definition readAttachment :: "json \<Rightarrow> TrelloAttachment option" where
  "readAttachment entry = withRecord entry (\<lambda>kvs.
     case readId (property kvs ''url'') of
       None \<Rightarrow> None
     | Some url \<Rightarrow>
         (let (bad_id, k) = fieldString (property kvs ''id'') [];
              (bad_name, name) = fieldString (property kvs ''name'') url
          in if bad_id \<or> bad_name then None
             else Some \<lparr>tat_id = k, tat_name = name, tat_url = url\<rparr>))"

definition readCard :: "json \<Rightarrow> TrelloCard option" where
  "readCard entry = withRecord entry (\<lambda>kvs.
     case readId (property kvs ''id'') of
       None \<Rightarrow> None
     | Some k \<Rightarrow>
         (let (bad_attachments, raws) = fieldArray (property kvs ''attachments'');
              reads_of = map readAttachment raws;
              (bad_name, name) = fieldString (property kvs ''name'') [];
              (bad_desc, desc) = fieldNullableString (property kvs ''desc'');
              (bad_idList, idList) = fieldNullableString (property kvs ''idList'');
              (bad_closed, closed) = fieldBoolean (property kvs ''closed'');
              (bad_due, due) = fieldNullableString (property kvs ''due'');
              (bad_labels, idLabels) = fieldStringArray (property kvs ''idLabels'');
              (bad_members, idMembers) = fieldStringArray (property kvs ''idMembers'')
          in if bad_attachments \<or> None \<in> set reads_of \<or> bad_name \<or> bad_desc \<or> bad_idList \<or> bad_closed
                \<or> bad_due \<or> bad_labels \<or> bad_members then None
             else Some \<lparr>tca_id = k, tca_name = name, tca_desc = desc, tca_idList = idList,
                        tca_pos = readPos (property kvs ''pos''), tca_closed = closed, tca_due = due,
                        tca_idLabels = idLabels, tca_idMembers = idMembers,
                        tca_attachments = List.map_filter id reads_of\<rparr>))"

definition readLabel :: "json \<Rightarrow> TrelloLabel option" where
  "readLabel entry = withRecord entry (\<lambda>kvs.
     case readId (property kvs ''id'') of
       None \<Rightarrow> None
     | Some k \<Rightarrow>
         (let (bad_name, name) = fieldString (property kvs ''name'') [];
              (bad_color, color) = fieldNullableString (property kvs ''color'')
          in if bad_name \<or> bad_color then None
             else Some \<lparr>tla_id = k, tla_name = name, tla_color = color\<rparr>))"

definition readCheckItem :: "json \<Rightarrow> TrelloCheckItem option" where
  "readCheckItem entry = withRecord entry (\<lambda>kvs.
     case readId (property kvs ''id'') of
       None \<Rightarrow> None
     | Some k \<Rightarrow>
         (let (bad_name, name) = fieldString (property kvs ''name'') [];
              (bad_state, state) = fieldNullableString (property kvs ''state'')
          in if bad_name \<or> bad_state then None
             else Some \<lparr>tit_id = k, tit_name = name, tit_state = state,
                        tit_pos = readPos (property kvs ''pos'')\<rparr>))"

abbreviation malformed :: "import_scope \<Rightarrow> js_string option \<Rightarrow> TrelloReadIssue" where
  "malformed scope sample \<equiv> \<lparr>is_scope = scope, is_reason = Malformed, is_sample = sample\<rparr>"

definition readChecklist :: "json \<Rightarrow> TrelloReadIssue list \<times> TrelloChecklist option" where
  "readChecklist entry =
     (case entry of
        JObject kvs \<Rightarrow>
          (case readId (property kvs ''id'') of
             None \<Rightarrow> ([], None)
           | Some k \<Rightarrow>
               (let (bad_items, raws) = fieldArray (property kvs ''checkItems'');
                    reads_of = map readCheckItem raws;
                    issues = map (\<lambda>_. malformed ItemScope None) (filter (\<lambda>r. r = None) reads_of);
                    (bad_card, idCard) = fieldNullableString (property kvs ''idCard'');
                    (bad_name, name) = fieldString (property kvs ''name'') []
                in (issues,
                    if bad_items \<or> bad_card \<or> bad_name then None
                    else Some \<lparr>tck_id = k, tck_idCard = idCard, tck_name = name,
                               tck_pos = readPos (property kvs ''pos''),
                               tck_checkItems = List.map_filter id reads_of\<rparr>)))
      | _ \<Rightarrow> ([], None))"

subsection \<open>Sections\<close>

definition entrySample :: "json \<Rightarrow> js_string option" where
  "entrySample entry = (case entry of JObject kvs \<Rightarrow>
     (case property kvs ''name'' of Some (JString s) \<Rightarrow> Some s | _ \<Rightarrow> None) | _ \<Rightarrow> None)"

fun readEntries ::
  "import_scope \<Rightarrow> (json \<Rightarrow> TrelloReadIssue list \<times> 'a option) \<Rightarrow> json list \<Rightarrow> TrelloReadIssue list \<times> 'a list" where
  "readEntries scope read [] = ([], [])"
| "readEntries scope read (entry # raw) =
     (case read entry of (pushed, row) \<Rightarrow>
      case readEntries scope read raw of (issues, rows) \<Rightarrow>
        (case row of
           None \<Rightarrow> (pushed @ malformed scope (entrySample entry) # issues, rows)
         | Some r \<Rightarrow> (pushed @ issues, r # rows)))"

definition readSection ::
  "import_scope \<Rightarrow> (json \<Rightarrow> TrelloReadIssue list \<times> 'a option) \<Rightarrow> json option \<Rightarrow> TrelloReadIssue list \<times> 'a list" where
  "readSection scope read raw =
     (case raw of Some (JArray entries) \<Rightarrow> readEntries scope read entries
      | _ \<Rightarrow> ([malformed scope None], []))"

definition isComment :: "json \<Rightarrow> bool" where
  "isComment entry = (case entry of
     JObject kvs \<Rightarrow> property kvs ''type'' = Some (JString (js ''commentCard'')) | _ \<Rightarrow> False)"

definition countActions :: "json option \<Rightarrow> TrelloReadIssue list \<times> nat" where
  "countActions raw =
     (case raw of Some (JArray entries) \<Rightarrow> ([], length (filter isComment entries))
      | _ \<Rightarrow> ([malformed CommentScope None], 0))"

definition countMembers :: "json option \<Rightarrow> TrelloReadIssue list \<times> nat" where
  "countMembers raw =
     (case raw of Some (JArray entries) \<Rightarrow> ([], length entries) | _ \<Rightarrow> ([malformed MemberScope None], 0))"

definition pure_read :: "(json \<Rightarrow> 'a option) \<Rightarrow> json \<Rightarrow> TrelloReadIssue list \<times> 'a option" where
  "pure_read read entry = ([], read entry)"

definition readExport :: "json \<Rightarrow> http_error + TrelloExportReadResult" where
  \<comment> \<open>everything after \<open>JSON.parse\<close>\<close>
  "readExport raw =
     (case raw of
        JObject kvs \<Rightarrow>
          (case (property kvs ''name'', property kvs ''lists'') of
             (Some (JString name), Some (JArray _)) \<Rightarrow>
               (let (i1, lists_of) = readSection ListScope (pure_read readList) (property kvs ''lists'');
                    (i2, cards) = readSection CardScope (pure_read readCard) (property kvs ''cards'');
                    (i3, labels_of) = readSection LabelScope (pure_read readLabel) (property kvs ''labels'');
                    (i4, checklists_of) = readSection ChecklistScope readChecklist (property kvs ''checklists'');
                    (i5, comments_of) = countActions (property kvs ''actions'');
                    (i6, members_of) = countMembers (property kvs ''members'')
                in Inr \<lparr>rr_source = \<lparr>tex_name = name,
                     tex_desc = (case property kvs ''desc'' of Some (JString s) \<Rightarrow> Some s | _ \<Rightarrow> None),
                     tex_lists = lists_of, tex_cards = cards, tex_labels = labels_of,
                     tex_checklists = checklists_of, tex_commentCount = comments_of, tex_memberCount = members_of\<rparr>,
                   rr_issues = i1 @ i2 @ i3 @ i4 @ i5 @ i6\<rparr>)
           | _ \<Rightarrow> Inl (BadRequest ''This does not look like a Trello board export''))
      | _ \<Rightarrow> Inl (BadRequest ''This does not look like a Trello board export''))"

definition parseTrelloExport :: "8 word list \<Rightarrow> http_error + TrelloExportReadResult" where
  "parseTrelloExport bytes =
     (case jsonParse (utf8ToString bytes) of
        None \<Rightarrow> Inl (BadRequest ''This file is not valid JSON - export the board again'')
      | Some raw \<Rightarrow> readExport raw)"

end
