(* ===== verification/TrelloPlanner.thy ===== *)
theory TrelloPlanner
  imports TrelloExport Position
begin

section \<open>From an export to the rows of a board\<close>

text \<open>
  \<open>import/trello-label-color.ts\<close> and \<open>import/trello-import-planner.ts\<close>. The planner is pure: it takes
  the UUIDv7 supply as the function \<open>ids\<close> and counts how many it has drawn, and it takes \<open>new Date\<close>
  and \<open>new URL\<close> (protocol and serialisation, \<open>None\<close> when it throws) as functions. A \<open>Map\<close> from Trello
  ids is an association list with the latest entry first. The draft holds the arrays the code
  pushes onto, each in its order.
\<close>

subsection \<open>Colours (trello-label-color.ts)\<close>

datatype color_slot = Slot label_color_slot | InheritedMember

definition TRELLO_COLOR_TO_SLOT :: "js_string \<Rightarrow> label_color_slot option" where
  "TRELLO_COLOR_TO_SLOT = map_of
     [(js ''blue'', Slot1), (js ''orange'', Slot2), (js ''green'', Slot3), (js ''yellow'', Slot4),
      (js ''pink'', Slot5), (js ''lime'', Slot6), (js ''purple'', Slot7), (js ''red'', Slot8),
      (js ''sky'', Slot1), (js ''black'', Slot7)]"

text \<open>
  The table is an object literal, so a name it inherits from \<open>Object.prototype\<close> is found as well. The
  only inherited name without capitals and underscores is \<open>constructor\<close>.
\<close>

definition colorLookup :: "js_string \<Rightarrow> color_slot option" where
  "colorLookup name =
     (case TRELLO_COLOR_TO_SLOT name of Some s \<Rightarrow> Some (Slot s)
      | None \<Rightarrow> if name = js ''constructor'' then Some InheritedMember else None)"

record TrelloColorMapping =
  cm_slot :: color_slot
  cm_defaulted :: bool

definition trelloColorToSlot :: "js_string option \<Rightarrow> TrelloColorMapping" where
  "trelloColorToSlot color =
     (let base = hd (splitOn 0x5F (js_lower (case color of None \<Rightarrow> [] | Some c \<Rightarrow> c)))
      in case colorLookup base of
           None \<Rightarrow> \<lparr>cm_slot = Slot Slot1, cm_defaulted = True\<rparr>
         | Some s \<Rightarrow> \<lparr>cm_slot = s, cm_defaulted = False\<rparr>)"

subsection \<open>The plan\<close>

record plan_board =
  pb_id :: uuid
  pb_name :: js_string
  pb_description :: "js_string option"

record plan_column =
  pc_id :: uuid
  pc_boardId :: uuid
  pc_name :: js_string
  pc_position :: number
  pc_category :: column_category

record plan_label =
  pl_id :: uuid
  pl_boardId :: uuid
  pl_name :: js_string
  pl_color :: color_slot

record plan_task =
  pt_id :: uuid
  pt_boardId :: uuid
  pt_columnId :: uuid
  pt_name :: js_string
  pt_text :: "js_string option"
  pt_position :: number
  pt_due :: "js_date option"
  pt_createdById :: uuid

record plan_attachment =
  pa_id :: uuid
  pa_taskId :: uuid
  pa_uploadedById :: uuid
  pa_kind :: attachment_kind
  pa_filename :: js_string
  pa_url :: js_string

record TrelloImportPlan =
  ip_board :: plan_board
  ip_columns :: "plan_column list"
  ip_labels :: "plan_label list"
  ip_tasks :: "plan_task list"
  ip_taskLabels :: "task_label_row list"
  ip_checklists :: "checklist_row list"
  ip_checklistItems :: "checklist_item_row list"
  ip_attachments :: "plan_attachment list"
  ip_skipped :: "SkipGroup list"

subsection \<open>Helpers\<close>

definition posKey :: "number option \<times> js_string \<Rightarrow> nat \<times> number \<times> js_string" where
  \<comment> \<open>the comparator of \<open>orderedByPos\<close> as a key: rows without a position come last\<close>
  "posKey row = (case row of (Some p, k) \<Rightarrow> (0, p, k) | (None, k) \<Rightarrow> (1, 0, k))"

definition orderedByPos :: "('r \<Rightarrow> number option) \<Rightarrow> ('r \<Rightarrow> js_string) \<Rightarrow> 'r list \<Rightarrow> 'r list" where
  "orderedByPos pos rid = sort_key (\<lambda>r. posKey (pos r, rid r))"

definition positionsFor :: "nat \<Rightarrow> nat \<Rightarrow> number" where
  "positionsFor count index =
     (case js_nth (rebalancePositions count POSITION_GAP) (int index) of
        Some p \<Rightarrow> p | None \<Rightarrow> fl (of_nat (index + 1) * POSITION_GAP))"

definition isUnnamed :: "js_string \<Rightarrow> bool" where
  "isUnnamed value \<longleftrightarrow> js_trim value = []"

definition emptyToNull :: "js_string option \<Rightarrow> js_string option" where
  "emptyToNull value = (case value of None \<Rightarrow> None | Some v \<Rightarrow> if js_trim v = [] then None else Some v)"

definition parseCardDue :: "(js_string \<Rightarrow> js_date option) \<Rightarrow> js_string option \<Rightarrow> js_date option" where
  "parseCardDue newDate raw = (case raw of None \<Rightarrow> None | Some s \<Rightarrow> newDate s)"

definition ALLOWED_URL_SCHEMES :: "js_string list" where
  "ALLOWED_URL_SCHEMES = [js ''http:'', js ''https:'']"

definition classifyUrl :: "(js_string \<Rightarrow> (js_string \<times> js_string) option) \<Rightarrow> js_string \<Rightarrow> skip_reason + js_string" where
  "classifyUrl newUrl raw =
     (case newUrl (js_trim raw) of
        None \<Rightarrow> Inl Malformed
      | Some (protocol, href) \<Rightarrow>
          if protocol \<in> set ALLOWED_URL_SCHEMES then Inr href else Inl UnsupportedScheme)"

subsection \<open>Lists and labels\<close>

definition classifyList :: "TrelloList \<Rightarrow> skips \<Rightarrow> skips" where
  \<comment> \<open>one turn of the loop over the lists, for the report\<close>
  "classifyList li skips =
     (if tli_closed li then addSkip ListScope Archived (Some (tli_name li)) skips
      else if isUnnamed (tli_name li) then addSkip ListScope Malformed None skips
      else skips)"

definition liveLists :: "TrelloList list \<Rightarrow> TrelloList list" where
  "liveLists = filter (\<lambda>li. \<not> tli_closed li \<and> \<not> isUnnamed (tli_name li))"

definition archivedListIds :: "TrelloList list \<Rightarrow> js_string list" where
  "archivedListIds ls = map tli_id (filter tli_closed ls)"

definition planColumns :: "(nat \<Rightarrow> uuid) \<Rightarrow> nat \<Rightarrow> uuid \<Rightarrow> TrelloList list \<Rightarrow> plan_column list" where
  "planColumns ids seq boardId ordered =
     map (\<lambda>(i, li). \<lparr>pc_id = ids (seq + i), pc_boardId = boardId, pc_name = tli_name li,
         pc_position = positionsFor (length ordered) i, pc_category = UNSTARTED\<rparr>) (enumerate 0 ordered)"

definition labelName :: "TrelloLabel \<Rightarrow> js_string" where
  "labelName la =
     (let trelloColorName = (case tla_color la of None \<Rightarrow> [] | Some c \<Rightarrow> js_trim c)
      in if isUnnamed (tla_name la)
         then (if trelloColorName = [] then js ''Label'' else trelloColorName) else tla_name la)"

definition labelSkips :: "TrelloLabel \<Rightarrow> skips \<Rightarrow> skips" where
  "labelSkips la skips =
     (if cm_defaulted (trelloColorToSlot (tla_color la)) \<or> isUnnamed (tla_name la)
      then addSkip LabelScope Defaulted (Some (labelName la)) skips else skips)"

definition planLabels :: "(nat \<Rightarrow> uuid) \<Rightarrow> nat \<Rightarrow> uuid \<Rightarrow> TrelloLabel list \<Rightarrow> plan_label list" where
  "planLabels ids seq boardId ls =
     map (\<lambda>(i, la). \<lparr>pl_id = ids (seq + i), pl_boardId = boardId, pl_name = labelName la,
         pl_color = cm_slot (trelloColorToSlot (tla_color la))\<rparr>) (enumerate 0 ls)"

subsection \<open>Cards\<close>

definition columnOf :: "(js_string \<times> uuid) list \<Rightarrow> TrelloCard \<Rightarrow> uuid option" where
  "columnOf columnIds crd = (case tca_idList crd of None \<Rightarrow> None | Some k \<Rightarrow> map_of columnIds k)"

definition cardVerdict :: "(js_string \<times> uuid) list \<Rightarrow> js_string list \<Rightarrow> TrelloCard \<Rightarrow> skip_reason + uuid" where
  \<comment> \<open>why a card is skipped, or the column it goes to\<close>
  "cardVerdict columnIds archived crd =
     (if tca_closed crd then Inl Archived
      else if isUnnamed (tca_name crd) then Inl Malformed
      else (case columnOf columnIds crd of
          Some c \<Rightarrow> Inr c
        | None \<Rightarrow> Inl (if (case tca_idList crd of None \<Rightarrow> False | Some k \<Rightarrow> k \<in> set archived)
            then Archived else Malformed)))"

definition cardSkips :: "(js_string \<times> uuid) list \<Rightarrow> js_string list \<Rightarrow> TrelloCard \<Rightarrow> skips \<Rightarrow> skips" where
  "cardSkips columnIds archived crd skips =
     (case cardVerdict columnIds archived crd of
        Inl reason \<Rightarrow> addSkip CardScope reason (Some (tca_name crd)) skips | Inr _ \<Rightarrow> skips)"

definition skippedCardReasons ::
  "(js_string \<times> uuid) list \<Rightarrow> js_string list \<Rightarrow> TrelloCard list \<Rightarrow> (js_string \<times> skip_reason) list" where
  \<comment> \<open>the latest entry first\<close>
  "skippedCardReasons columnIds archived cards = rev (List.map_filter (\<lambda>crd.
     case cardVerdict columnIds archived crd of Inl reason \<Rightarrow> Some (tca_id crd, reason) | Inr _ \<Rightarrow> None) cards)"

definition cardsOf ::
  "(js_string \<times> uuid) list \<Rightarrow> js_string list \<Rightarrow> TrelloCard list \<Rightarrow> uuid \<Rightarrow> TrelloCard list" where
  \<comment> \<open>\<open>cardsByColumnId.get(columnId) ?? []\<close>\<close>
  "cardsOf columnIds archived cards columnId =
     filter (\<lambda>crd. cardVerdict columnIds archived crd = Inr columnId) cards"

record draft =
  dr_seq :: nat
  dr_skips :: skips
  dr_tasks :: "plan_task list"
  dr_taskLabels :: "task_label_row list"
  dr_attachments :: "plan_attachment list"
  dr_taskIds :: "(js_string \<times> uuid) list"
  dr_checklists :: "checklist_row list"
  dr_items :: "checklist_item_row list"

definition attachLabel ::
  "(nat \<Rightarrow> uuid) \<Rightarrow> (js_string \<times> uuid) list \<Rightarrow> TrelloCard \<Rightarrow> uuid \<Rightarrow> js_string \<Rightarrow> uuid list \<times> draft \<Rightarrow> uuid list \<times> draft" where
  \<comment> \<open>one turn of the loop over \<open>card.idLabels\<close>, with the set of labels attached so far\<close>
  "attachLabel ids labelIds crd taskId trelloLabelId = (\<lambda>(attached, d).
     case map_of labelIds trelloLabelId of
       None \<Rightarrow> (attached, d\<lparr>dr_skips := addSkip LabelScope Malformed (Some (tca_name crd)) (dr_skips d)\<rparr>)
     | Some labelId \<Rightarrow>
         if labelId \<in> set attached then (attached, d)
         else (labelId # attached, d\<lparr>dr_seq := Suc (dr_seq d), dr_taskLabels := dr_taskLabels d
           @ [\<lparr>tl_id = ids (dr_seq d), tl_taskId = taskId, tl_labelId = labelId\<rparr>]\<rparr>))"

definition planAttachment ::
  "(nat \<Rightarrow> uuid) \<Rightarrow> (js_string \<Rightarrow> (js_string \<times> js_string) option) \<Rightarrow> uuid \<Rightarrow> uuid \<Rightarrow> TrelloAttachment \<Rightarrow> draft \<Rightarrow> draft" where
  "planAttachment ids newUrl actorId taskId att d =
     (case classifyUrl newUrl (tat_url att) of
        Inl reason \<Rightarrow> d\<lparr>dr_skips := addSkip AttachmentScope reason (Some (tat_name att)) (dr_skips d)\<rparr>
      | Inr url \<Rightarrow> d\<lparr>dr_seq := Suc (dr_seq d), dr_attachments := dr_attachments d
          @ [\<lparr>pa_id = ids (dr_seq d), pa_taskId = taskId, pa_uploadedById = actorId, pa_kind = LINK,
              pa_filename = (if isUnnamed (tat_name att) then url else tat_name att), pa_url = url\<rparr>]\<rparr>)"

definition planCard ::
  "(nat \<Rightarrow> uuid) \<Rightarrow> (js_string \<Rightarrow> js_date option) \<Rightarrow> (js_string \<Rightarrow> (js_string \<times> js_string) option) \<Rightarrow>
   (js_string \<times> uuid) list \<Rightarrow> uuid \<Rightarrow> uuid \<Rightarrow> uuid \<Rightarrow> nat \<Rightarrow> nat \<times> TrelloCard \<Rightarrow> draft \<Rightarrow> draft" where
  "planCard ids newDate newUrl labelIds actorId boardId columnId count = (\<lambda>(index, crd) d.
     let taskId = ids (dr_seq d);
         d1 = d\<lparr>dr_seq := Suc (dr_seq d), dr_taskIds := (tca_id crd, taskId) # dr_taskIds d,
                dr_tasks := dr_tasks d @ [\<lparr>pt_id = taskId, pt_boardId = boardId, pt_columnId = columnId,
                  pt_name = tca_name crd, pt_text = emptyToNull (tca_desc crd),
                  pt_position = positionsFor count index, pt_due = parseCardDue newDate (tca_due crd),
                  pt_createdById = actorId\<rparr>]\<rparr>;
         d2 = snd (fold (attachLabel ids labelIds crd taskId) (tca_idLabels crd) ([], d1))
     in fold (planAttachment ids newUrl actorId taskId) (tca_attachments crd) d2)"

definition planColumnCards ::
  "(nat \<Rightarrow> uuid) \<Rightarrow> (js_string \<Rightarrow> js_date option) \<Rightarrow> (js_string \<Rightarrow> (js_string \<times> js_string) option) \<Rightarrow>
   (js_string \<times> uuid) list \<Rightarrow> uuid \<Rightarrow> uuid \<Rightarrow> (uuid \<Rightarrow> TrelloCard list) \<Rightarrow> plan_column \<Rightarrow> draft \<Rightarrow> draft" where
  "planColumnCards ids newDate newUrl labelIds actorId boardId cardsByColumnId column d =
     (let cards = orderedByPos tca_pos tca_id (cardsByColumnId (pc_id column))
      in fold (planCard ids newDate newUrl labelIds actorId boardId (pc_id column) (length cards))
           (enumerate 0 cards) d)"

subsection \<open>Checklists\<close>

definition checklistVerdict ::
  "(js_string \<times> uuid) list \<Rightarrow> (js_string \<times> skip_reason) list \<Rightarrow> TrelloChecklist \<Rightarrow> skip_reason + uuid" where
  "checklistVerdict taskIds reasons ck =
     (case (case tck_idCard ck of None \<Rightarrow> None | Some k \<Rightarrow> map_of taskIds k) of
        None \<Rightarrow> Inl (case (case tck_idCard ck of None \<Rightarrow> None | Some k \<Rightarrow> map_of reasons k) of
            Some inherited \<Rightarrow> inherited | None \<Rightarrow> Malformed)
      | Some taskId \<Rightarrow>
          if isUnnamed (tck_name ck) \<or> tck_checkItems ck = [] then Inl Malformed else Inr taskId)"

definition checklistSkips ::
  "(js_string \<times> uuid) list \<Rightarrow> (js_string \<times> skip_reason) list \<Rightarrow> TrelloChecklist \<Rightarrow> skips \<Rightarrow> skips" where
  "checklistSkips taskIds reasons ck skips =
     (case checklistVerdict taskIds reasons ck of
        Inl reason \<Rightarrow> addSkip ChecklistScope reason (Some (tck_name ck)) skips | Inr _ \<Rightarrow> skips)"

definition checklistsOf ::
  "(js_string \<times> uuid) list \<Rightarrow> (js_string \<times> skip_reason) list \<Rightarrow> TrelloChecklist list \<Rightarrow> uuid \<Rightarrow> TrelloChecklist list" where
  "checklistsOf taskIds reasons cks taskId =
     filter (\<lambda>ck. checklistVerdict taskIds reasons ck = Inr taskId) cks"

definition planItem :: "(nat \<Rightarrow> uuid) \<Rightarrow> uuid \<Rightarrow> nat \<Rightarrow> nat \<times> TrelloCheckItem \<Rightarrow> draft \<Rightarrow> draft" where
  "planItem ids checklistId count = (\<lambda>(index, it) d.
     d\<lparr>dr_seq := Suc (dr_seq d), dr_items := dr_items d
       @ [\<lparr>ci_id = ids (dr_seq d), ci_checklistId = checklistId, ci_content = tit_name it,
           ci_isDone = (tit_state it = Some (js ''complete'')), ci_position = positionsFor count index\<rparr>]\<rparr>)"

definition planChecklist ::
  "(nat \<Rightarrow> uuid) \<Rightarrow> uuid \<Rightarrow> nat \<Rightarrow> nat \<times> TrelloChecklist \<Rightarrow> draft \<Rightarrow> draft" where
  "planChecklist ids taskId count = (\<lambda>(index, ck) d.
     let checklistId = ids (dr_seq d);
         ordered = orderedByPos tit_pos tit_id (tck_checkItems ck);
         usable = filter (\<lambda>it. \<not> isUnnamed (tit_name it)) ordered;
         d1 = d\<lparr>dr_seq := Suc (dr_seq d), dr_checklists := dr_checklists d
                @ [\<lparr>cl_id = checklistId, cl_taskId = taskId, cl_title = tck_name ck,
                    cl_position = positionsFor count index\<rparr>],
              dr_skips := fold (\<lambda>it. if isUnnamed (tit_name it) then addSkip ItemScope Malformed None else id)
                ordered (dr_skips d)\<rparr>
     in fold (planItem ids checklistId (length usable)) (enumerate 0 usable) d1)"

definition planTaskChecklists ::
  "(nat \<Rightarrow> uuid) \<Rightarrow> (uuid \<Rightarrow> TrelloChecklist list) \<Rightarrow> plan_task \<Rightarrow> draft \<Rightarrow> draft" where
  "planTaskChecklists ids checklistsByTaskId task d =
     (let cks = orderedByPos tck_pos tck_id (checklistsByTaskId (pt_id task))
      in fold (planChecklist ids (pt_id task) (length cks)) (enumerate 0 cks) d)"

subsection \<open>planTrelloImport\<close>

definition latestFirst :: "js_string list \<Rightarrow> uuid list \<Rightarrow> (js_string \<times> uuid) list" where
  \<comment> \<open>the \<open>Map\<close> filled while mapping over the rows\<close>
  "latestFirst ks vs = rev (zip ks vs)"

definition planTrelloImport ::
  "(nat \<Rightarrow> uuid) \<Rightarrow> (js_string \<Rightarrow> js_date option) \<Rightarrow> (js_string \<Rightarrow> (js_string \<times> js_string) option) \<Rightarrow>
   nat \<Rightarrow> TrelloExportReadResult \<Rightarrow> uuid \<Rightarrow> TrelloImportPlan \<times> nat" where
  "planTrelloImport ids newDate newUrl seq read actorId =
     (let source = rr_source read;
          skips0 = fold (\<lambda>issue. addSkip (is_scope issue) (is_reason issue) (is_sample issue)) (rr_issues read) [];
          boardId = ids seq;
          skips1 = fold classifyList (tex_lists source) skips0;
          ordered = orderedByPos tli_pos tli_id (liveLists (tex_lists source));
          cols = planColumns ids (seq + 1) boardId ordered;
          columnIds = latestFirst (map tli_id ordered) (map pc_id cols);
          skips2 = addMany ColumnScope Defaulted (int (length cols)) (map (\<lambda>c. Some (pc_name c)) cols) skips1;
          seq2 = seq + 1 + length cols;
          labs = planLabels ids seq2 boardId (tex_labels source);
          labelIds = latestFirst (map tla_id (tex_labels source)) (map pl_id labs);
          skips3 = fold labelSkips (tex_labels source) skips2;
          archived = archivedListIds (tex_lists source);
          skips4 = fold (cardSkips columnIds archived) (tex_cards source) skips3;
          reasons = skippedCardReasons columnIds archived (tex_cards source);
          d0 = \<lparr>dr_seq = seq2 + length labs, dr_skips = skips4, dr_tasks = [], dr_taskLabels = [],
                dr_attachments = [], dr_taskIds = [], dr_checklists = [], dr_items = []\<rparr>;
          d1 = fold (planColumnCards ids newDate newUrl labelIds actorId boardId
                 (cardsOf columnIds archived (tex_cards source))) cols d0;
          d2 = d1\<lparr>dr_skips := fold (checklistSkips (dr_taskIds d1) reasons) (tex_checklists source) (dr_skips d1)\<rparr>;
          d3 = fold (planTaskChecklists ids (checklistsOf (dr_taskIds d1) reasons (tex_checklists source)))
                 (dr_tasks d1) d2;
          skips5 = addMany CommentScope OutOfScope (int (tex_commentCount source)) []
                     (addMany MemberScope Unmappable (int (tex_memberCount source)) [] (dr_skips d3))
      in (\<lparr>ip_board = \<lparr>pb_id = boardId,
             pb_name = (if isUnnamed (tex_name source) then js ''Imported board'' else tex_name source),
             pb_description = emptyToNull (tex_desc source)\<rparr>,
           ip_columns = cols, ip_labels = labs, ip_tasks = dr_tasks d1, ip_taskLabels = dr_taskLabels d1,
           ip_checklists = dr_checklists d3, ip_checklistItems = dr_items d3,
           ip_attachments = dr_attachments d1, ip_skipped = toReport skips5\<rparr>, dr_seq d3))"

record imported_counts =
  im_columns :: nat
  im_tasks :: nat
  im_labels :: nat
  im_checklists :: nat
  im_checklistItems :: nat
  im_attachments :: nat

definition importedCounts :: "TrelloImportPlan \<Rightarrow> imported_counts" where
  "importedCounts plan =
     \<lparr>im_columns = length (ip_columns plan), im_tasks = length (ip_tasks plan),
      im_labels = length (ip_labels plan), im_checklists = length (ip_checklists plan),
      im_checklistItems = length (ip_checklistItems plan), im_attachments = length (ip_attachments plan)\<rparr>"

end
