(* ===== verification/TrelloImport.thy ===== *)
theory TrelloImport
  imports TrelloPlanner Sample
begin

section \<open>Writing an import\<close>

text \<open>
  \<open>import/trello-import.service.ts\<close> and the parts of \<open>import-config.ts\<close> it uses. A \<open>createMany\<close> checks
  what the database checks, with all rows of the statement in place: primary keys and unique pairs
  (\<open>P2002\<close>) and foreign keys (\<open>P2003\<close>); the client refuses a colour that is not a string. The time
  limits of the transaction are not modelled.
\<close>

definition IMPORT_CHUNK_SIZE :: nat where
  "IMPORT_CHUNK_SIZE = 1000"

function chunked :: "'a list \<Rightarrow> nat \<Rightarrow> 'a list list" where
  \<comment> \<open>\<open>for (let start = 0; start < rows.length; start += size)\<close>; a size of 0 would not end and is not used\<close>
  "chunked rows count =
     (if rows = [] \<or> count = 0 then [] else take count rows # chunked (drop count rows) count)"
  by pat_completeness auto
termination by (relation "measure (\<lambda>(rows, count). length rows)") auto

declare chunked.simps [simp del]

fun forEach :: "('a \<Rightarrow> unit handler) \<Rightarrow> 'a list \<Rightarrow> unit handler" where
  "forEach f [] = return ()"
| "forEach f (x # xs) = bindE (f x) (\<lambda>_. forEach f xs)"

definition createMany ::
  "('r \<Rightarrow> uuid list) list \<Rightarrow> (world \<Rightarrow> 'r \<Rightarrow> bool) \<Rightarrow> (world \<Rightarrow> 'r list) \<Rightarrow> ('r list \<Rightarrow> world \<Rightarrow> world) \<Rightarrow> 'r list \<Rightarrow> unit handler" where
  \<comment> \<open>\<open>keys\<close>: what must be unique; \<open>refers\<close>: that the rows a row refers to exist\<close>
  "createMany keys refers table put rows w =
     (let new = table w @ rows
      in if \<not> list_all (\<lambda>key. distinct (map key new)) keys then (Inl (PrismaError ''P2002''), w)
         else if \<not> list_all (refers w) rows then (Inl (PrismaError ''P2003''), w)
         else (Inr (), put new w))"

definition columnRow :: "plan_column \<Rightarrow> column_row" where
  "columnRow c = \<lparr>c_id = pc_id c, c_boardId = pc_boardId c, c_name = pc_name c,
     c_position = pc_position c, c_color = None, c_category = pc_category c\<rparr>"

definition labelRow :: "plan_label \<Rightarrow> label_row" where
  "labelRow l = \<lparr>l_id = pl_id l, l_boardId = pl_boardId l, l_name = pl_name l,
     l_color = (case pl_color l of Slot s \<Rightarrow> slot_name s | InheritedMember \<Rightarrow> [])\<rparr>"

definition taskRow :: "js_date \<Rightarrow> plan_task \<Rightarrow> task_row" where
  "taskRow now t = \<lparr>t_id = pt_id t, t_boardId = pt_boardId t, t_columnId = pt_columnId t, t_title = pt_name t,
     t_description = pt_text t, t_priority = MEDIUM, t_position = pt_position t, t_dueDate = pt_due t,
     t_estimatedMinutes = None, t_createdById = pt_createdById t, t_createdAt = now, t_updatedAt = now\<rparr>"

definition attachmentRow :: "js_date \<Rightarrow> plan_attachment \<Rightarrow> attachment_row" where
  "attachmentRow now a = \<lparr>at_id = pa_id a, at_taskId = pa_taskId a, at_uploadedById = pa_uploadedById a,
     at_kind = pa_kind a, at_filename = pa_filename a, at_storageKey = None, at_mimeType = None,
     at_size = None, at_url = Some (pa_url a), at_createdAt = now\<rparr>"

abbreviation hasId :: "('r \<Rightarrow> uuid) \<Rightarrow> 'r list \<Rightarrow> uuid \<Rightarrow> bool" where
  "hasId key rows k \<equiv> list_ex (\<lambda>r. key r = k) rows"

definition writeBoard :: "uuid \<Rightarrow> plan_board \<Rightarrow> unit handler" where
  "writeBoard workspaceId b w =
     createMany [\<lambda>r. [b_id r]] (\<lambda>w b. hasId ws_id (workspaces w) (b_workspaceId b)) boards (\<lambda>rows w. w\<lparr>boards := rows\<rparr>)
       [\<lparr>b_id = pb_id b, b_workspaceId = workspaceId, b_name = pb_name b,
         b_description = pb_description b, b_createdAt = w_now w\<rparr>] w"

definition writeColumns :: "plan_column list \<Rightarrow> unit handler" where
  "writeColumns rows = createMany [\<lambda>r. [c_id r]] (\<lambda>w c. hasId b_id (boards w) (c_boardId c)) columns
     (\<lambda>rows w. w\<lparr>columns := rows\<rparr>) (map columnRow rows)"

definition writeLabels :: "plan_label list \<Rightarrow> unit handler" where
  "writeLabels rows w =
     (if list_ex (\<lambda>l. pl_color l = InheritedMember) rows
      then (Inl (PrismaError ''PrismaClientValidationError''), w)
      else createMany [\<lambda>r. [l_id r]] (\<lambda>w l. hasId b_id (boards w) (l_boardId l)) labels
        (\<lambda>rows w. w\<lparr>labels := rows\<rparr>) (map labelRow rows) w)"

definition writeTasks :: "plan_task list \<Rightarrow> unit handler" where
  "writeTasks rows w = createMany [\<lambda>r. [t_id r]]
     (\<lambda>w t. hasId b_id (boards w) (t_boardId t) \<and> hasId u_id (users w) (t_createdById t)
        \<and> list_ex (\<lambda>c. c_boardId c = t_boardId t \<and> c_id c = t_columnId t) (columns w))
     tasks (\<lambda>rows w. w\<lparr>tasks := rows\<rparr>) (map (taskRow (w_now w)) rows) w"

definition writeTaskLabels :: "task_label_row list \<Rightarrow> unit handler" where
  "writeTaskLabels = createMany [\<lambda>r. [tl_id r], \<lambda>r. [tl_taskId r, tl_labelId r]]
     (\<lambda>w tl. hasId t_id (tasks w) (tl_taskId tl) \<and> hasId l_id (labels w) (tl_labelId tl))
     taskLabels (\<lambda>rows w. w\<lparr>taskLabels := rows\<rparr>)"

definition writeChecklists :: "checklist_row list \<Rightarrow> unit handler" where
  "writeChecklists = createMany [\<lambda>r. [cl_id r]] (\<lambda>w cl. hasId t_id (tasks w) (cl_taskId cl))
     checklists (\<lambda>rows w. w\<lparr>checklists := rows\<rparr>)"

definition writeItems :: "checklist_item_row list \<Rightarrow> unit handler" where
  "writeItems = createMany [\<lambda>r. [ci_id r]] (\<lambda>w ci. hasId cl_id (checklists w) (ci_checklistId ci))
     checklistItems (\<lambda>rows w. w\<lparr>checklistItems := rows\<rparr>)"

definition writeAttachments :: "plan_attachment list \<Rightarrow> unit handler" where
  "writeAttachments rows w = createMany [\<lambda>r. [at_id r]]
     (\<lambda>w a. hasId t_id (tasks w) (at_taskId a) \<and> hasId u_id (users w) (at_uploadedById a))
     attachments (\<lambda>rows w. w\<lparr>attachments := rows\<rparr>) (map (attachmentRow (w_now w)) rows) w"

definition inChunks :: "('a list \<Rightarrow> unit handler) \<Rightarrow> 'a list \<Rightarrow> unit handler" where
  "inChunks write rows = forEach write (chunked rows IMPORT_CHUNK_SIZE)"

definition skippedTotal :: "SkipGroup list \<Rightarrow> int" where
  "skippedTotal groups = foldl (\<lambda>total g. total + sg_count g) 0 groups"

definition importedJson :: "imported_counts \<Rightarrow> json" where
  "importedJson im = JObject
     [(js ''columns'', json_int (int (im_columns im))), (js ''tasks'', json_int (int (im_tasks im))),
      (js ''labels'', json_int (int (im_labels im))), (js ''checklists'', json_int (int (im_checklists im))),
      (js ''checklistItems'', json_int (int (im_checklistItems im))),
      (js ''attachments'', json_int (int (im_attachments im)))]"

record TrelloImportReportDto =
  ir_boardId :: uuid
  ir_boardName :: js_string
  ir_imported :: imported_counts
  ir_skipped :: "SkipGroup list"

definition writePlan :: "uuid \<Rightarrow> uuid \<Rightarrow> TrelloImportPlan \<Rightarrow> unit handler" where
  \<comment> \<open>the body of the transaction\<close>
  "writePlan workspaceId actorId plan =
     bindE (writeBoard workspaceId (ip_board plan)) (\<lambda>_.
     bindE (inChunks writeColumns (ip_columns plan)) (\<lambda>_.
     bindE (inChunks writeLabels (ip_labels plan)) (\<lambda>_.
     bindE (inChunks writeTasks (ip_tasks plan)) (\<lambda>_.
     bindE (inChunks writeTaskLabels (ip_taskLabels plan)) (\<lambda>_.
     bindE (inChunks writeChecklists (ip_checklists plan)) (\<lambda>_.
     bindE (inChunks writeItems (ip_checklistItems plan)) (\<lambda>_.
     bindE (inChunks writeAttachments (ip_attachments plan)) (\<lambda>_.
     bindE (recordActivity workspaceId None actorId BoardImported
       [(''boardId'', JString (pb_id (ip_board plan))), (''name'', JString (pb_name (ip_board plan))),
        (''source'', JString (js ''trello'')), (''imported'', importedJson (importedCounts plan)),
        (''skippedTotal'', json_int (skippedTotal (ip_skipped plan)))]) (\<lambda>_.
     return ())))))))))"

definition TrelloImportService_importBoard ::
  "(js_string \<Rightarrow> (js_string \<times> js_string) option) \<Rightarrow> uuid \<Rightarrow> uuid \<Rightarrow> 8 word list \<Rightarrow> TrelloImportReportDto handler" where
  "TrelloImportService_importBoard newUrl workspaceId actorId bytes =
     bindE (lift (parseTrelloExport bytes)) (\<lambda>read.
     bindE (\<lambda>w. case planTrelloImport (w_uuid w) (w_newDate w) newUrl (w_seq w) read actorId of
       (plan, seq) \<Rightarrow> (Inr plan, w\<lparr>w_seq := seq\<rparr>)) (\<lambda>plan.
     bindE (transaction (writePlan workspaceId actorId plan)) (\<lambda>_.
     return \<lparr>ir_boardId = pb_id (ip_board plan), ir_boardName = pb_name (ip_board plan),
             ir_imported = importedCounts plan, ir_skipped = ip_skipped plan\<rparr>)))"

end
