(* ===== verification/TrelloCounts.thy ===== *)
theory TrelloCounts
  imports TrelloImport
begin

section \<open>Every entry of an export is imported or reported\<close>

text \<open>
  The reader drops an entry or keeps it, the planner skips an entry or plans a row for it; the locale
  \<open>skip_step\<close> is what the planner's loops have in common, and counts what they report.
\<close>

definition issueCount :: "import_scope \<Rightarrow> TrelloReadIssue list \<Rightarrow> int" where
  "issueCount scope issues = int (length (filter (\<lambda>i. is_scope i = scope) issues))"

lemma issueCount_simps [simp]:
  "issueCount scope [] = 0" "issueCount scope (i # is) = (if is_scope i = scope then 1 else 0) + issueCount scope is"
  "issueCount scope (xs @ ys) = issueCount scope xs + issueCount scope ys"
  by (simp_all add: issueCount_def)

definition entryCount :: "json option \<Rightarrow> nat" where
  \<comment> \<open>how many entries a section has; a missing one counts as one thing that could not be read\<close>
  "entryCount raw = (case raw of Some (JArray entries) \<Rightarrow> length entries | _ \<Rightarrow> 1)"

lemma readEntries_count:
  assumes "\<And>e. issueCount scope (fst (read e)) = 0"
  shows "int (length (snd (readEntries scope read raw))) + issueCount scope (fst (readEntries scope read raw))
    = int (length raw)"
proof (induction raw)
  case (Cons e raw)
  then show ?case using assms [of e] by (auto split: prod.splits option.splits)
qed simp

lemma readEntries_other:
  assumes "\<And>e. issueCount other (fst (read e)) = 0" and "other \<noteq> scope"
  shows "issueCount other (fst (readEntries scope read raw)) = 0"
proof (induction raw)
  case (Cons e raw)
  then show ?case using assms(1) [of e] assms(2) by (auto split: prod.splits option.splits)
qed simp

lemma readSection_count:
  assumes "\<And>e. issueCount scope (fst (read e)) = 0"
  shows "int (length (snd (readSection scope read raw))) + issueCount scope (fst (readSection scope read raw))
    = int (entryCount raw)"
  using readEntries_count [of scope read, OF assms]
  by (auto simp: readSection_def entryCount_def split: option.splits json.splits)

lemma readSection_other:
  assumes "\<And>e. issueCount other (fst (read e)) = 0" and "other \<noteq> scope"
  shows "issueCount other (fst (readSection scope read raw)) = 0"
  using readEntries_other [of other read, OF assms] assms(2)
  by (auto simp: readSection_def split: option.splits json.splits)

lemma pure_read_issues [simp]: "fst (pure_read read e) = []"
  by (simp add: pure_read_def)

lemma issueCount_items: "scope \<noteq> ItemScope \<Longrightarrow> issueCount scope (map (\<lambda>_. malformed ItemScope None) xs) = 0"
  by (induction xs) simp_all

lemma readChecklist_issues: "scope \<noteq> ItemScope \<Longrightarrow> issueCount scope (fst (readChecklist e)) = 0"
  by (auto simp: readChecklist_def Let_def issueCount_items split: json.splits option.splits prod.splits)

lemma readExport_counts:
  assumes "readExport raw = Inr read"
  obtains kvs where "raw = JObject kvs"
    and "int (length (tex_lists (rr_source read))) + issueCount ListScope (rr_issues read) = int (entryCount (property kvs ''lists''))"
    and "int (length (tex_cards (rr_source read))) + issueCount CardScope (rr_issues read) = int (entryCount (property kvs ''cards''))"
    and "int (length (tex_labels (rr_source read))) + issueCount LabelScope (rr_issues read) = int (entryCount (property kvs ''labels''))"
    and "int (length (tex_checklists (rr_source read))) + issueCount ChecklistScope (rr_issues read) = int (entryCount (property kvs ''checklists''))"
proof -
  from assms obtain kvs where raw: "raw = JObject kvs"
    by (auto simp: readExport_def split: json.splits)
  let ?l = "readSection ListScope (pure_read readList) (property kvs ''lists'')"
  let ?c = "readSection CardScope (pure_read readCard) (property kvs ''cards'')"
  let ?b = "readSection LabelScope (pure_read readLabel) (property kvs ''labels'')"
  let ?k = "readSection ChecklistScope readChecklist (property kvs ''checklists'')"
  let ?a = "countActions (property kvs ''actions'')"
  let ?m = "countMembers (property kvs ''members'')"
  from assms raw have rows: "tex_lists (rr_source read) = snd ?l" "tex_cards (rr_source read) = snd ?c"
    "tex_labels (rr_source read) = snd ?b" "tex_checklists (rr_source read) = snd ?k"
    and issues: "rr_issues read = fst ?l @ fst ?c @ fst ?b @ fst ?k @ fst ?a @ fst ?m"
    by (auto simp: readExport_def Let_def split: json.splits option.splits prod.splits)
  have others: "issueCount scope (fst ?a) = 0" "issueCount scope (fst ?m) = 0"
    if "scope \<noteq> CommentScope" "scope \<noteq> MemberScope" for scope
    using that by (auto simp: countActions_def countMembers_def split: option.splits json.splits)
  show thesis
    by (rule that [OF raw])
      (simp_all add: rows issues others readSection_other readChecklist_issues readSection_count flip: add.assoc)
qed

subsection \<open>What the loops report\<close>

locale skip_step =
  fixes step :: "'a \<Rightarrow> skips \<Rightarrow> skips" and adds :: "import_scope \<Rightarrow> 'a \<Rightarrow> int"
  assumes step_valid: "validSkips s \<Longrightarrow> validSkips (step x s)"
    and step_count: "validSkips s \<Longrightarrow> scopeCount scope (step x s) = scopeCount scope s + adds scope x"
begin

lemma fold_valid: "validSkips s \<Longrightarrow> validSkips (fold step xs s)"
  by (induction xs arbitrary: s) (simp_all add: step_valid)

lemma fold_count:
  "validSkips s \<Longrightarrow> scopeCount scope (fold step xs s) = scopeCount scope s + sum_list (map (adds scope) xs)"
  by (induction xs arbitrary: s) (simp_all add: step_valid step_count)

end

lemma sum_list_indicator: "sum_list (map (\<lambda>x. if P x then 1 else (0 :: int)) xs) = int (length (filter P xs))"
  by (induction xs) simp_all

interpretation issue: skip_step "\<lambda>issue. addSkip (is_scope issue) (is_reason issue) (is_sample issue)"
  "\<lambda>scope issue. if is_scope issue = scope then 1 else 0"
  by unfold_locales (auto simp: validSkips_addSkip scopeCount_addSkip)

interpretation listed: skip_step classifyList
  "\<lambda>scope li. if scope = ListScope \<and> (tli_closed li \<or> isUnnamed (tli_name li)) then 1 else 0"
  by unfold_locales (auto simp: classifyList_def validSkips_addSkip scopeCount_addSkip)

interpretation labelled: skip_step labelSkips
  "\<lambda>scope la. if scope = LabelScope \<and> (cm_defaulted (trelloColorToSlot (tla_color la)) \<or> isUnnamed (tla_name la))
     then 1 else 0"
  by unfold_locales (auto simp: labelSkips_def validSkips_addSkip scopeCount_addSkip)

interpretation carded: skip_step "cardSkips columnIds archived"
  "\<lambda>scope crd. if scope = CardScope \<and> isl (cardVerdict columnIds archived crd) then 1 else 0"
  for columnIds archived
  by unfold_locales (auto simp: cardSkips_def validSkips_addSkip scopeCount_addSkip split: sum.splits)

interpretation listed_checks: skip_step "checklistSkips taskIds reasons"
  "\<lambda>scope ck. if scope = ChecklistScope \<and> isl (checklistVerdict taskIds reasons ck) then 1 else 0"
  for taskIds reasons
  by unfold_locales (auto simp: checklistSkips_def validSkips_addSkip scopeCount_addSkip split: sum.splits)

interpretation item_skip: skip_step "\<lambda>it. if isUnnamed (tit_name it) then addSkip ItemScope Malformed None else id"
  "\<lambda>scope it. if scope = ItemScope \<and> isUnnamed (tit_name it) then 1 else 0"
  by unfold_locales (auto simp: validSkips_addSkip scopeCount_addSkip)

subsection \<open>What planning a row leaves alone\<close>

definition quiet :: "draft \<Rightarrow> draft \<Rightarrow> bool" where
  \<comment> \<open>only labels, attachments and items are reported between the two\<close>
  "quiet d d' \<longleftrightarrow> (validSkips (dr_skips d) \<longrightarrow> validSkips (dr_skips d')
     \<and> (\<forall>scope. scope \<notin> {LabelScope, AttachmentScope, ItemScope} \<longrightarrow>
          scopeCount scope (dr_skips d') = scopeCount scope (dr_skips d)))"

lemma quiet_refl [simp]: "quiet d d"
  by (simp add: quiet_def)

lemma quiet_trans: "quiet d1 d2 \<Longrightarrow> quiet d2 d3 \<Longrightarrow> quiet d1 d3"
  by (simp add: quiet_def)

lemma fold_quiet: "(\<And>x d. quiet d (f x d)) \<Longrightarrow> quiet d (fold f xs d)"
  by (induction xs arbitrary: d) (auto intro: quiet_trans)

lemma attachLabel_frame:
  "dr_tasks (snd (attachLabel ids labelIds crd taskId k p)) = dr_tasks (snd p)"
  "dr_attachments (snd (attachLabel ids labelIds crd taskId k p)) = dr_attachments (snd p)"
  "dr_taskIds (snd (attachLabel ids labelIds crd taskId k p)) = dr_taskIds (snd p)"
  "dr_checklists (snd (attachLabel ids labelIds crd taskId k p)) = dr_checklists (snd p)"
  "dr_items (snd (attachLabel ids labelIds crd taskId k p)) = dr_items (snd p)"
  by (auto simp: attachLabel_def split: prod.splits option.splits)

lemma attachLabels_frame [simp]:
  "dr_tasks (snd (fold (attachLabel ids labelIds crd taskId) ks p)) = dr_tasks (snd p)"
  "dr_attachments (snd (fold (attachLabel ids labelIds crd taskId) ks p)) = dr_attachments (snd p)"
  "dr_taskIds (snd (fold (attachLabel ids labelIds crd taskId) ks p)) = dr_taskIds (snd p)"
  "dr_checklists (snd (fold (attachLabel ids labelIds crd taskId) ks p)) = dr_checklists (snd p)"
  "dr_items (snd (fold (attachLabel ids labelIds crd taskId) ks p)) = dr_items (snd p)"
  by (induction ks arbitrary: p) (simp_all add: attachLabel_frame)

lemma attachLabels_quiet: "quiet (snd p) (snd (fold (attachLabel ids labelIds crd taskId) ks p))"
proof (induction ks arbitrary: p)
  case (Cons k ks)
  have "quiet (snd p) (snd (attachLabel ids labelIds crd taskId k p))"
    by (auto simp: attachLabel_def quiet_def validSkips_addSkip scopeCount_addSkip split: prod.splits option.splits)
  from quiet_trans [OF this Cons.IH] show ?case by simp
qed simp

lemma planAttachment_frame [simp]:
  "dr_tasks (planAttachment ids newUrl actorId taskId att d) = dr_tasks d"
  "dr_taskLabels (planAttachment ids newUrl actorId taskId att d) = dr_taskLabels d"
  "dr_taskIds (planAttachment ids newUrl actorId taskId att d) = dr_taskIds d"
  "dr_checklists (planAttachment ids newUrl actorId taskId att d) = dr_checklists d"
  "dr_items (planAttachment ids newUrl actorId taskId att d) = dr_items d"
  by (auto simp: planAttachment_def split: sum.splits)

lemma planAttachments_frame [simp]:
  "dr_tasks (fold (planAttachment ids newUrl actorId taskId) atts d) = dr_tasks d"
  "dr_taskLabels (fold (planAttachment ids newUrl actorId taskId) atts d) = dr_taskLabels d"
  "dr_taskIds (fold (planAttachment ids newUrl actorId taskId) atts d) = dr_taskIds d"
  "dr_checklists (fold (planAttachment ids newUrl actorId taskId) atts d) = dr_checklists d"
  "dr_items (fold (planAttachment ids newUrl actorId taskId) atts d) = dr_items d"
  by (induction atts arbitrary: d) simp_all

lemma planAttachment_quiet: "quiet d (planAttachment ids newUrl actorId taskId att d)"
  by (auto simp: planAttachment_def quiet_def validSkips_addSkip scopeCount_addSkip split: sum.splits)

lemma planCard_quiet: "quiet d (planCard ids newDate newUrl labelIds actorId boardId columnId n ic d)"
proof -
  obtain i crd where ic: "ic = (i, crd)" by fastforce
  show ?thesis
    unfolding planCard_def ic prod.case Let_def
    by (rule quiet_trans [OF _ fold_quiet [OF planAttachment_quiet]], rule quiet_trans [OF _ attachLabels_quiet])
      (simp add: quiet_def)
qed

lemma planColumnCards_quiet: "quiet d (planColumnCards ids newDate newUrl labelIds actorId boardId byColumn c d)"
  unfolding planColumnCards_def Let_def by (rule fold_quiet [OF planCard_quiet])

lemma planItem_frame [simp]:
  "dr_tasks (planItem ids k n ii d) = dr_tasks d" "dr_taskLabels (planItem ids k n ii d) = dr_taskLabels d"
  "dr_attachments (planItem ids k n ii d) = dr_attachments d" "dr_skips (planItem ids k n ii d) = dr_skips d"
  "dr_taskIds (planItem ids k n ii d) = dr_taskIds d" "dr_checklists (planItem ids k n ii d) = dr_checklists d"
  by (simp_all add: planItem_def split: prod.splits)

lemma planItems_frame [simp]:
  "dr_tasks (fold (planItem ids k n) iis d) = dr_tasks d"
  "dr_taskLabels (fold (planItem ids k n) iis d) = dr_taskLabels d"
  "dr_attachments (fold (planItem ids k n) iis d) = dr_attachments d"
  "dr_skips (fold (planItem ids k n) iis d) = dr_skips d" "dr_taskIds (fold (planItem ids k n) iis d) = dr_taskIds d"
  "dr_checklists (fold (planItem ids k n) iis d) = dr_checklists d"
  by (induction iis arbitrary: d) simp_all

lemma planChecklist_frame [simp]:
  "dr_tasks (planChecklist ids taskId n ic d) = dr_tasks d"
  "dr_taskLabels (planChecklist ids taskId n ic d) = dr_taskLabels d"
  "dr_attachments (planChecklist ids taskId n ic d) = dr_attachments d"
  "dr_taskIds (planChecklist ids taskId n ic d) = dr_taskIds d"
  by (simp_all add: planChecklist_def Let_def split: prod.splits)

lemma planChecklist_quiet: "quiet d (planChecklist ids taskId n ic d)"
  by (auto simp: planChecklist_def Let_def quiet_def item_skip.fold_valid item_skip.fold_count split: prod.splits)

lemma planTaskChecklists_quiet: "quiet d (planTaskChecklists ids byTask t d)"
  unfolding planTaskChecklists_def Let_def by (rule fold_quiet [OF planChecklist_quiet])

subsection \<open>The tasks a column gets\<close>

text \<open>What the plan says of a task besides its id.\<close>

type_synonym task_facts = "uuid \<times> uuid \<times> js_string \<times> js_string option \<times> number \<times> js_date option \<times> uuid"

definition taskFacts :: "plan_task \<Rightarrow> task_facts" where
  "taskFacts t = (pt_boardId t, pt_columnId t, pt_name t, pt_text t, pt_position t, pt_due t, pt_createdById t)"

definition cardFacts ::
  "(js_string \<Rightarrow> js_date option) \<Rightarrow> uuid \<Rightarrow> uuid \<Rightarrow> uuid \<Rightarrow> nat \<Rightarrow> nat \<times> TrelloCard \<Rightarrow> task_facts" where
  "cardFacts newDate actorId boardId columnId n = (\<lambda>(i, crd). (boardId, columnId, tca_name crd,
     emptyToNull (tca_desc crd), positionsFor n i, parseCardDue newDate (tca_due crd), actorId))"

lemma planCards_tasks:
  "\<exists>ts. dr_tasks (fold (planCard ids newDate newUrl labelIds actorId boardId columnId n) ics d) = dr_tasks d @ ts
     \<and> map taskFacts ts = map (cardFacts newDate actorId boardId columnId n) ics"
proof (induction ics arbitrary: d)
  case (Cons ic ics)
  obtain i crd where ic: "ic = (i, crd)" by fastforce
  let ?d = "planCard ids newDate newUrl labelIds actorId boardId columnId n ic d"
  from Cons.IH obtain ts where
    "dr_tasks (fold (planCard ids newDate newUrl labelIds actorId boardId columnId n) ics ?d) = dr_tasks ?d @ ts"
    "map taskFacts ts = map (cardFacts newDate actorId boardId columnId n) ics" by blast
  moreover obtain t where "dr_tasks ?d = dr_tasks d @ [t]" "taskFacts t = cardFacts newDate actorId boardId columnId n ic"
    by (simp add: planCard_def ic Let_def taskFacts_def cardFacts_def)
  ultimately show ?case by (intro exI [of _ "t # ts"]) simp
qed simp

definition columnFacts ::
  "(js_string \<Rightarrow> js_date option) \<Rightarrow> uuid \<Rightarrow> uuid \<Rightarrow> (uuid \<Rightarrow> TrelloCard list) \<Rightarrow> plan_column \<Rightarrow> task_facts list" where
  "columnFacts newDate actorId boardId byColumn c =
     (let cards = orderedByPos tca_pos tca_id (byColumn (pc_id c))
      in map (cardFacts newDate actorId boardId (pc_id c) (length cards)) (enumerate 0 cards))"

lemma planColumns_tasks:
  "\<exists>ts. dr_tasks (fold (planColumnCards ids newDate newUrl labelIds actorId boardId byColumn) cols d) = dr_tasks d @ ts
     \<and> map taskFacts ts = concat (map (columnFacts newDate actorId boardId byColumn) cols)"
proof (induction cols arbitrary: d)
  case (Cons c cols)
  let ?d = "planColumnCards ids newDate newUrl labelIds actorId boardId byColumn c d"
  from Cons.IH obtain ts where
    "dr_tasks (fold (planColumnCards ids newDate newUrl labelIds actorId boardId byColumn) cols ?d) = dr_tasks ?d @ ts"
    "map taskFacts ts = concat (map (columnFacts newDate actorId boardId byColumn) cols)" by blast
  moreover obtain ts' where "dr_tasks ?d = dr_tasks d @ ts'"
    "map taskFacts ts' = columnFacts newDate actorId boardId byColumn c"
    using planCards_tasks by (auto simp: planColumnCards_def columnFacts_def Let_def) blast
  ultimately show ?case by (intro exI [of _ "ts' @ ts"]) simp
qed simp

type_synonym checklist_facts = "uuid \<times> js_string \<times> number"

definition checklistFacts :: "checklist_row \<Rightarrow> checklist_facts" where
  "checklistFacts cl = (cl_taskId cl, cl_title cl, cl_position cl)"

lemma planChecklists_rows:
  "\<exists>cls. dr_checklists (fold (planChecklist ids taskId n) iks d) = dr_checklists d @ cls
     \<and> map checklistFacts cls = map (\<lambda>(i, ck). (taskId, tck_name ck, positionsFor n i)) iks"
proof (induction iks arbitrary: d)
  case (Cons ik iks)
  obtain i ck where ik: "ik = (i, ck)" by fastforce
  let ?d = "planChecklist ids taskId n ik d"
  from Cons.IH obtain cls where
    "dr_checklists (fold (planChecklist ids taskId n) iks ?d) = dr_checklists ?d @ cls"
    "map checklistFacts cls = map (\<lambda>(i, ck). (taskId, tck_name ck, positionsFor n i)) iks" by blast
  moreover obtain cl where "dr_checklists ?d = dr_checklists d @ [cl]" "checklistFacts cl = (taskId, tck_name ck, positionsFor n i)"
    by (simp add: planChecklist_def ik Let_def checklistFacts_def)
  ultimately show ?case by (intro exI [of _ "cl # cls"]) (simp add: ik)
qed simp

definition taskChecklistFacts :: "(uuid \<Rightarrow> TrelloChecklist list) \<Rightarrow> plan_task \<Rightarrow> checklist_facts list" where
  "taskChecklistFacts byTask t =
     (let cks = orderedByPos tck_pos tck_id (byTask (pt_id t))
      in map (\<lambda>(i, ck). (pt_id t, tck_name ck, positionsFor (length cks) i)) (enumerate 0 cks))"

lemma planTasks_checklists:
  "\<exists>cls. dr_checklists (fold (planTaskChecklists ids byTask) ts d) = dr_checklists d @ cls
     \<and> map checklistFacts cls = concat (map (taskChecklistFacts byTask) ts)"
proof (induction ts arbitrary: d)
  case (Cons t ts)
  let ?d = "planTaskChecklists ids byTask t d"
  from Cons.IH obtain cls where
    "dr_checklists (fold (planTaskChecklists ids byTask) ts ?d) = dr_checklists ?d @ cls"
    "map checklistFacts cls = concat (map (taskChecklistFacts byTask) ts)" by blast
  moreover obtain cls' where "dr_checklists ?d = dr_checklists d @ cls'" "map checklistFacts cls' = taskChecklistFacts byTask t"
    using planChecklists_rows by (auto simp: planTaskChecklists_def taskChecklistFacts_def Let_def) blast
  ultimately show ?case by (intro exI [of _ "cls' @ cls"]) simp
qed simp

end
