(* ===== verification/TrelloPlan.thy ===== *)
theory TrelloPlan
  imports TrelloCounts
begin

section \<open>A plan can be written as it is\<close>

text \<open>
  Every row of a plan refers to rows of the same plan, no id is used twice, and no pair of task and
  label occurs twice, so that none of the constraints the database checks is violated.
\<close>

definition issued :: "(nat \<Rightarrow> uuid) \<Rightarrow> nat \<Rightarrow> nat \<Rightarrow> uuid list \<Rightarrow> bool" where
  "issued ids start n xs \<longleftrightarrow> distinct xs \<and> set xs \<subseteq> ids ` {start..<n}"

lemma issued_Nil [simp]: "issued ids start n []"
  by (simp add: issued_def)

lemma issued_mono: "issued ids start n xs \<Longrightarrow> n \<le> m \<Longrightarrow> issued ids start m xs"
  by (auto simp: issued_def)

lemma issued_Suc: "issued ids start n xs \<Longrightarrow> issued ids start (Suc n) xs"
  by (erule issued_mono) simp

lemma issued_snoc:
  assumes "inj ids" and "issued ids start n xs" and "start \<le> n"
  shows "issued ids start (Suc n) (xs @ [ids n])"
proof -
  have "ids n \<notin> ids ` {start..<n}" using assms(1) by (auto simp: inj_eq)
  with assms(2,3) show ?thesis by (auto simp: issued_def)
qed

record plan_scope =
  sc_start :: nat
  sc_board :: uuid
  sc_actor :: uuid
  sc_columns :: "uuid set"
  sc_labels :: "uuid set"

definition draftOk :: "(nat \<Rightarrow> uuid) \<Rightarrow> plan_scope \<Rightarrow> draft \<Rightarrow> bool" where
  "draftOk ids sc d \<longleftrightarrow>
     sc_start sc \<le> dr_seq d
     \<and> issued ids (sc_start sc) (dr_seq d) (map pt_id (dr_tasks d))
     \<and> issued ids (sc_start sc) (dr_seq d) (map tl_id (dr_taskLabels d))
     \<and> issued ids (sc_start sc) (dr_seq d) (map pa_id (dr_attachments d))
     \<and> issued ids (sc_start sc) (dr_seq d) (map cl_id (dr_checklists d))
     \<and> issued ids (sc_start sc) (dr_seq d) (map ci_id (dr_items d))
     \<and> (\<forall>t \<in> set (dr_tasks d). pt_columnId t \<in> sc_columns sc \<and> pt_boardId t = sc_board sc \<and> pt_createdById t = sc_actor sc)
     \<and> (\<forall>tl \<in> set (dr_taskLabels d). tl_taskId tl \<in> pt_id ` set (dr_tasks d) \<and> tl_labelId tl \<in> sc_labels sc)
     \<and> distinct (map (\<lambda>tl. [tl_taskId tl, tl_labelId tl]) (dr_taskLabels d))
     \<and> (\<forall>a \<in> set (dr_attachments d). pa_taskId a \<in> pt_id ` set (dr_tasks d) \<and> pa_uploadedById a = sc_actor sc)
     \<and> (\<forall>cl \<in> set (dr_checklists d). cl_taskId cl \<in> pt_id ` set (dr_tasks d))
     \<and> (\<forall>ci \<in> set (dr_items d). ci_checklistId ci \<in> cl_id ` set (dr_checklists d))
     \<and> snd ` set (dr_taskIds d) = pt_id ` set (dr_tasks d)"

lemma fold_keeps: "(\<And>x d. x \<in> set xs \<Longrightarrow> P d \<Longrightarrow> P (f x d)) \<Longrightarrow> P d \<Longrightarrow> P (fold f xs d)"
  by (induction xs arbitrary: d) simp_all

lemma draftOk_skips: "draftOk ids sc (d\<lparr>dr_skips := s\<rparr>) \<longleftrightarrow> draftOk ids sc d"
  by (simp add: draftOk_def)

text \<open>Labels of one card: those attached so far are the labels of the task.\<close>

definition attachedOk :: "(nat \<Rightarrow> uuid) \<Rightarrow> plan_scope \<Rightarrow> uuid \<Rightarrow> uuid list \<times> draft \<Rightarrow> bool" where
  "attachedOk ids sc taskId p \<longleftrightarrow> draftOk ids sc (snd p) \<and> taskId \<in> pt_id ` set (dr_tasks (snd p))
     \<and> set (fst p) = tl_labelId ` {tl \<in> set (dr_taskLabels (snd p)). tl_taskId tl = taskId}"

lemma attachLabel_ok:
  assumes inj: "inj ids" and labs: "snd ` set labelIds \<subseteq> sc_labels sc" and ok: "attachedOk ids sc taskId p"
  shows "attachedOk ids sc taskId (attachLabel ids labelIds crd taskId k p)"
proof -
  obtain attached d where p: "p = (attached, d)" by fastforce
  show ?thesis
  proof (cases "map_of labelIds k")
    case None
    then show ?thesis using ok by (simp add: attachLabel_def p attachedOk_def draftOk_skips)
  next
    case (Some labelId)
    then have lab: "labelId \<in> sc_labels sc" using labs by (force dest: map_of_SomeD)
    show ?thesis
    proof (cases "labelId \<in> set attached")
      case True
      with Some show ?thesis using ok by (simp add: attachLabel_def p)
    next
      case False
      define tl where "tl = \<lparr>tl_id = ids (dr_seq d), tl_taskId = taskId, tl_labelId = labelId\<rparr>"
      have "[taskId, labelId] \<notin> (\<lambda>tl. [tl_taskId tl, tl_labelId tl]) ` set (dr_taskLabels d)"
        using False ok by (auto simp: attachedOk_def p)
      moreover have "issued ids (sc_start sc) (Suc (dr_seq d)) (map tl_id (dr_taskLabels d) @ [ids (dr_seq d)])"
        using ok by (intro issued_snoc [OF inj]) (simp_all add: attachedOk_def draftOk_def p)
      ultimately have "draftOk ids sc (d\<lparr>dr_seq := Suc (dr_seq d), dr_taskLabels := dr_taskLabels d @ [tl]\<rparr>)"
        using ok lab by (auto simp: attachedOk_def draftOk_def p tl_def issued_Suc)
      moreover have "{x \<in> insert tl A. tl_taskId x = taskId} = insert tl {x \<in> A. tl_taskId x = taskId}" for A
        by (auto simp: tl_def)
      then have "tl_labelId ` {x \<in> insert tl A. tl_taskId x = taskId} =
          insert labelId (tl_labelId ` {x \<in> A. tl_taskId x = taskId})" for A
        by (simp add: tl_def)
      ultimately show ?thesis using False Some ok
        by (simp add: attachLabel_def p attachedOk_def tl_def [symmetric])
    qed
  qed
qed

lemma planAttachment_ok:
  assumes inj: "inj ids" and ok: "draftOk ids sc d" and task: "taskId \<in> pt_id ` set (dr_tasks d)"
  shows "draftOk ids sc (planAttachment ids newUrl (sc_actor sc) taskId att d)"
proof (cases "classifyUrl newUrl (tat_url att)")
  case (Inl reason)
  then show ?thesis using ok by (simp add: planAttachment_def draftOk_skips)
next
  case (Inr url)
  have "issued ids (sc_start sc) (Suc (dr_seq d)) (map pa_id (dr_attachments d) @ [ids (dr_seq d)])"
    using ok by (intro issued_snoc [OF inj]) (simp_all add: draftOk_def)
  with Inr ok task show ?thesis by (auto simp: planAttachment_def draftOk_def issued_Suc)
qed

lemma planCard_ok:
  assumes inj: "inj ids" and labs: "snd ` set labelIds \<subseteq> sc_labels sc" and col: "columnId \<in> sc_columns sc"
    and ok: "draftOk ids sc d"
  shows "draftOk ids sc (planCard ids newDate newUrl labelIds (sc_actor sc) (sc_board sc) columnId n ic d)"
proof -
  obtain i crd where ic: "ic = (i, crd)" by fastforce
  let ?taskId = "ids (dr_seq d)"
  define t where "t = \<lparr>pt_id = ?taskId, pt_boardId = sc_board sc, pt_columnId = columnId, pt_name = tca_name crd,
    pt_text = emptyToNull (tca_desc crd), pt_position = positionsFor n i, pt_due = parseCardDue newDate (tca_due crd),
    pt_createdById = sc_actor sc\<rparr>"
  define d1 where "d1 = d\<lparr>dr_seq := Suc (dr_seq d), dr_taskIds := (tca_id crd, ?taskId) # dr_taskIds d,
    dr_tasks := dr_tasks d @ [t]\<rparr>"
  have fresh: "?taskId \<notin> pt_id ` set (dr_tasks d)"
    using ok inj by (auto simp: draftOk_def issued_def inj_eq)
  have "issued ids (sc_start sc) (Suc (dr_seq d)) (map pt_id (dr_tasks d) @ [?taskId])"
    using ok by (intro issued_snoc [OF inj]) (simp_all add: draftOk_def)
  with ok col have d1: "draftOk ids sc d1"
    by (auto simp: draftOk_def d1_def t_def issued_Suc)
  have "tl_taskId tl \<noteq> ?taskId" if "tl \<in> set (dr_taskLabels d)" for tl
  proof -
    have "tl_taskId tl \<in> pt_id ` set (dr_tasks d)" using ok that by (simp add: draftOk_def)
    with fresh show ?thesis by metis
  qed
  with d1 have start: "attachedOk ids sc ?taskId ([], d1)"
    by (auto simp: attachedOk_def d1_def t_def)
  define p where "p = fold (attachLabel ids labelIds crd ?taskId) (tca_idLabels crd) ([], d1)"
  have "attachedOk ids sc ?taskId p"
    unfolding p_def by (rule fold_keeps [where P = "attachedOk ids sc ?taskId", OF attachLabel_ok [OF inj labs] start])
  then have p: "draftOk ids sc (snd p) \<and> ?taskId \<in> pt_id ` set (dr_tasks (snd p))"
    by (simp add: attachedOk_def)
  have "draftOk ids sc (fold (planAttachment ids newUrl (sc_actor sc) ?taskId) (tca_attachments crd) (snd p))
      \<and> ?taskId \<in> pt_id ` set (dr_tasks (fold (planAttachment ids newUrl (sc_actor sc) ?taskId) (tca_attachments crd) (snd p)))"
    by (rule fold_keeps [where P = "\<lambda>d. draftOk ids sc d \<and> ?taskId \<in> pt_id ` set (dr_tasks d)"])
      (use p planAttachment_ok [OF inj] in auto)
  then show ?thesis by (simp add: planCard_def ic Let_def p_def d1_def t_def)
qed

lemma planColumnCards_ok:
  assumes "inj ids" and "snd ` set labelIds \<subseteq> sc_labels sc" and "pc_id c \<in> sc_columns sc" and "draftOk ids sc d"
  shows "draftOk ids sc (planColumnCards ids newDate newUrl labelIds (sc_actor sc) (sc_board sc) byColumn c d)"
  unfolding planColumnCards_def Let_def
  by (rule fold_keeps [where P = "draftOk ids sc"]) (use assms planCard_ok in auto)

lemma planItem_ok:
  assumes inj: "inj ids" and ok: "draftOk ids sc d" and cl: "checklistId \<in> cl_id ` set (dr_checklists d)"
  shows "draftOk ids sc (planItem ids checklistId n ii d)"
proof -
  obtain i it where ii: "ii = (i, it)" by fastforce
  have "issued ids (sc_start sc) (Suc (dr_seq d)) (map ci_id (dr_items d) @ [ids (dr_seq d)])"
    using ok by (intro issued_snoc [OF inj]) (simp_all add: draftOk_def)
  with ok cl show ?thesis by (auto simp: planItem_def ii draftOk_def issued_Suc)
qed

lemma planChecklist_ok:
  assumes inj: "inj ids" and ok: "draftOk ids sc d" and task: "taskId \<in> pt_id ` set (dr_tasks d)"
  shows "draftOk ids sc (planChecklist ids taskId n ik d)"
proof -
  obtain i ck where ik: "ik = (i, ck)" by fastforce
  define cl where "cl = \<lparr>cl_id = ids (dr_seq d), cl_taskId = taskId, cl_title = tck_name ck, cl_position = positionsFor n i\<rparr>"
  define ordered where "ordered = orderedByPos tit_pos tit_id (tck_checkItems ck)"
  define d1 where "d1 = d\<lparr>dr_seq := Suc (dr_seq d), dr_checklists := dr_checklists d @ [cl],
    dr_skips := fold (\<lambda>it. if isUnnamed (tit_name it) then addSkip ItemScope Malformed None else id) ordered (dr_skips d)\<rparr>"
  have "issued ids (sc_start sc) (Suc (dr_seq d)) (map cl_id (dr_checklists d) @ [ids (dr_seq d)])"
    using ok by (intro issued_snoc [OF inj]) (simp_all add: draftOk_def)
  with ok task have d1: "draftOk ids sc d1" by (auto simp: draftOk_def d1_def cl_def issued_Suc)
  have "draftOk ids sc (fold (planItem ids (ids (dr_seq d)) m) iis d1) \<and>
      ids (dr_seq d) \<in> cl_id ` set (dr_checklists (fold (planItem ids (ids (dr_seq d)) m) iis d1))" for m iis
    by (rule fold_keeps [where P = "\<lambda>d'. draftOk ids sc d' \<and> ids (dr_seq d) \<in> cl_id ` set (dr_checklists d')"])
      (use d1 planItem_ok [OF inj] in \<open>auto simp: d1_def cl_def\<close>)
  then show ?thesis by (simp add: planChecklist_def ik Let_def d1_def cl_def ordered_def)
qed

lemma planTaskChecklists_ok:
  assumes "inj ids" and "draftOk ids sc d" and "pt_id t \<in> pt_id ` set (dr_tasks d)"
  shows "draftOk ids sc (planTaskChecklists ids byTask t d)
    \<and> dr_tasks (planTaskChecklists ids byTask t d) = dr_tasks d"
  unfolding planTaskChecklists_def Let_def
  by (rule fold_keeps [where P = "\<lambda>d'. draftOk ids sc d' \<and> dr_tasks d' = dr_tasks d"])
    (use assms planChecklist_ok [OF assms(1)] in auto)

subsection \<open>The stages of the planner\<close>

definition stageLists :: "TrelloExportReadResult \<Rightarrow> TrelloList list" where
  "stageLists read = orderedByPos tli_pos tli_id (liveLists (tex_lists (rr_source read)))"

definition stageColumns :: "(nat \<Rightarrow> uuid) \<Rightarrow> nat \<Rightarrow> TrelloExportReadResult \<Rightarrow> plan_column list" where
  "stageColumns ids seq read = planColumns ids (seq + 1) (ids seq) (stageLists read)"

definition stageColumnIds :: "(nat \<Rightarrow> uuid) \<Rightarrow> nat \<Rightarrow> TrelloExportReadResult \<Rightarrow> (js_string \<times> uuid) list" where
  "stageColumnIds ids seq read = latestFirst (map tli_id (stageLists read)) (map pc_id (stageColumns ids seq read))"

definition stageLabels :: "(nat \<Rightarrow> uuid) \<Rightarrow> nat \<Rightarrow> TrelloExportReadResult \<Rightarrow> plan_label list" where
  "stageLabels ids seq read = planLabels ids (seq + 1 + length (stageColumns ids seq read)) (ids seq)
     (tex_labels (rr_source read))"

definition stageLabelIds :: "(nat \<Rightarrow> uuid) \<Rightarrow> nat \<Rightarrow> TrelloExportReadResult \<Rightarrow> (js_string \<times> uuid) list" where
  "stageLabelIds ids seq read =
     latestFirst (map tla_id (tex_labels (rr_source read))) (map pl_id (stageLabels ids seq read))"

abbreviation stageArchived :: "TrelloExportReadResult \<Rightarrow> js_string list" where
  "stageArchived read \<equiv> archivedListIds (tex_lists (rr_source read))"

definition stageSkips :: "(nat \<Rightarrow> uuid) \<Rightarrow> nat \<Rightarrow> TrelloExportReadResult \<Rightarrow> skips" where
  \<comment> \<open>the report before the first task\<close>
  "stageSkips ids seq read =
     fold (cardSkips (stageColumnIds ids seq read) (stageArchived read)) (tex_cards (rr_source read))
       (fold labelSkips (tex_labels (rr_source read))
         (addMany ColumnScope Defaulted (int (length (stageColumns ids seq read)))
           (map (\<lambda>c. Some (pc_name c)) (stageColumns ids seq read))
           (fold classifyList (tex_lists (rr_source read))
             (fold (\<lambda>issue. addSkip (is_scope issue) (is_reason issue) (is_sample issue)) (rr_issues read) []))))"

definition stageStart :: "(nat \<Rightarrow> uuid) \<Rightarrow> nat \<Rightarrow> TrelloExportReadResult \<Rightarrow> draft" where
  "stageStart ids seq read =
     \<lparr>dr_seq = seq + 1 + length (stageColumns ids seq read) + length (stageLabels ids seq read),
      dr_skips = stageSkips ids seq read, dr_tasks = [], dr_taskLabels = [], dr_attachments = [],
      dr_taskIds = [], dr_checklists = [], dr_items = []\<rparr>"

definition stageCards :: "(nat \<Rightarrow> uuid) \<Rightarrow> nat \<Rightarrow> TrelloExportReadResult \<Rightarrow> uuid \<Rightarrow> TrelloCard list" where
  "stageCards ids seq read = cardsOf (stageColumnIds ids seq read) (stageArchived read) (tex_cards (rr_source read))"

definition stageTasks ::
  "(nat \<Rightarrow> uuid) \<Rightarrow> (js_string \<Rightarrow> js_date option) \<Rightarrow> (js_string \<Rightarrow> (js_string \<times> js_string) option) \<Rightarrow>
   nat \<Rightarrow> TrelloExportReadResult \<Rightarrow> uuid \<Rightarrow> draft" where
  "stageTasks ids newDate newUrl seq read actorId =
     fold (planColumnCards ids newDate newUrl (stageLabelIds ids seq read) actorId (ids seq) (stageCards ids seq read))
       (stageColumns ids seq read) (stageStart ids seq read)"

definition stageReasons :: "(nat \<Rightarrow> uuid) \<Rightarrow> nat \<Rightarrow> TrelloExportReadResult \<Rightarrow> (js_string \<times> skip_reason) list" where
  "stageReasons ids seq read =
     skippedCardReasons (stageColumnIds ids seq read) (stageArchived read) (tex_cards (rr_source read))"

definition stageChecklists ::
  "(nat \<Rightarrow> uuid) \<Rightarrow> (js_string \<Rightarrow> js_date option) \<Rightarrow> (js_string \<Rightarrow> (js_string \<times> js_string) option) \<Rightarrow>
   nat \<Rightarrow> TrelloExportReadResult \<Rightarrow> uuid \<Rightarrow> draft" where
  "stageChecklists ids newDate newUrl seq read actorId =
     (let d1 = stageTasks ids newDate newUrl seq read actorId;
          reasons = stageReasons ids seq read;
          cks = tex_checklists (rr_source read)
      in fold (planTaskChecklists ids (checklistsOf (dr_taskIds d1) reasons cks)) (dr_tasks d1)
           (d1\<lparr>dr_skips := fold (checklistSkips (dr_taskIds d1) reasons) cks (dr_skips d1)\<rparr>))"

lemmas stage_defs = stageChecklists_def stageTasks_def stageStart_def stageSkips_def stageCards_def
  stageReasons_def stageLabelIds_def stageLabels_def stageColumnIds_def stageColumns_def stageLists_def

lemma planTrelloImport_eq:
  "planTrelloImport ids newDate newUrl seq read actorId =
     (\<lparr>ip_board = \<lparr>pb_id = ids seq,
         pb_name = (if isUnnamed (tex_name (rr_source read)) then js ''Imported board'' else tex_name (rr_source read)),
         pb_description = emptyToNull (tex_desc (rr_source read))\<rparr>,
       ip_columns = stageColumns ids seq read, ip_labels = stageLabels ids seq read,
       ip_tasks = dr_tasks (stageTasks ids newDate newUrl seq read actorId),
       ip_taskLabels = dr_taskLabels (stageTasks ids newDate newUrl seq read actorId),
       ip_checklists = dr_checklists (stageChecklists ids newDate newUrl seq read actorId),
       ip_checklistItems = dr_items (stageChecklists ids newDate newUrl seq read actorId),
       ip_attachments = dr_attachments (stageTasks ids newDate newUrl seq read actorId),
       ip_skipped = toReport (addMany CommentScope OutOfScope (int (tex_commentCount (rr_source read))) []
         (addMany MemberScope Unmappable (int (tex_memberCount (rr_source read))) []
           (dr_skips (stageChecklists ids newDate newUrl seq read actorId))))\<rparr>,
      dr_seq (stageChecklists ids newDate newUrl seq read actorId))"
  unfolding planTrelloImport_def stage_defs Let_def by (rule refl)

lemma planColumns_length [simp]: "length (planColumns ids seq b ls) = length ls"
  by (simp add: planColumns_def)

lemma planLabels_length [simp]: "length (planLabels ids seq b ls) = length ls"
  by (simp add: planLabels_def)

lemma planColumns_nth:
  "i < length ls \<Longrightarrow> planColumns ids seq b ls ! i = \<lparr>pc_id = ids (seq + i), pc_boardId = b,
     pc_name = tli_name (ls ! i), pc_position = positionsFor (length ls) i, pc_category = UNSTARTED\<rparr>"
  by (simp add: planColumns_def nth_enumerate_eq)

lemma planLabels_nth:
  "i < length ls \<Longrightarrow> planLabels ids seq b ls ! i = \<lparr>pl_id = ids (seq + i), pl_boardId = b,
     pl_name = labelName (ls ! i), pl_color = cm_slot (trelloColorToSlot (tla_color (ls ! i)))\<rparr>"
  by (simp add: planLabels_def nth_enumerate_eq)

lemma planColumns_ids: "map pc_id (planColumns ids seq b ls) = map (\<lambda>i. ids (seq + i)) [0..<length ls]"
  by (rule nth_equalityI) (simp_all add: planColumns_nth)

lemma planLabels_ids: "map pl_id (planLabels ids seq b ls) = map (\<lambda>i. ids (seq + i)) [0..<length ls]"
  by (rule nth_equalityI) (simp_all add: planLabels_nth)

lemma issued_distinct: "inj ids \<Longrightarrow> distinct (map (\<lambda>i. ids (k + i)) [0..<n])"
  unfolding distinct_map by (intro conjI distinct_upt inj_onI) (drule (1) injD, simp)

lemma stageColumns_ids: "map pc_id (stageColumns ids seq read) =
    map (\<lambda>i. ids (seq + 1 + i)) [0..<length (stageLists read)]"
  unfolding stageColumns_def by (rule planColumns_ids)

lemma stageLabels_ids: "map pl_id (stageLabels ids seq read) =
    map (\<lambda>i. ids (seq + 1 + length (stageColumns ids seq read) + i)) [0..<length (tex_labels (rr_source read))]"
  unfolding stageLabels_def by (rule planLabels_ids)

lemma stageColumns_distinct: "inj ids \<Longrightarrow> distinct (map pc_id (stageColumns ids seq read))"
  unfolding stageColumns_ids by (rule issued_distinct)

lemma stageLabels_distinct: "inj ids \<Longrightarrow> distinct (map pl_id (stageLabels ids seq read))"
  unfolding stageLabels_ids by (rule issued_distinct)

lemma latestFirst_range:
  assumes "map_of (latestFirst ks vs) k = Some v" shows "v \<in> set vs"
proof -
  have "(k, v) \<in> set (zip ks vs)" using map_of_SomeD [OF assms] by (simp add: latestFirst_def)
  then show ?thesis by (rule set_zip_rightD)
qed

lemma stageLabelIds_range: "snd ` set (stageLabelIds ids seq read) \<subseteq> pl_id ` set (stageLabels ids seq read)"
proof (rule image_subsetI)
  fix x assume "x \<in> set (stageLabelIds ids seq read)"
  then have "(fst x, snd x) \<in> set (zip (map tla_id (tex_labels (rr_source read))) (map pl_id (stageLabels ids seq read)))"
    by (simp add: stageLabelIds_def latestFirst_def)
  then have "snd x \<in> set (map pl_id (stageLabels ids seq read))" by (rule set_zip_rightD)
  then show "snd x \<in> pl_id ` set (stageLabels ids seq read)" by simp
qed

lemma card_column_known:
  assumes "cardVerdict (stageColumnIds ids seq read) archived crd = Inr c"
  shows "c \<in> pc_id ` set (stageColumns ids seq read)"
proof -
  obtain k where "map_of (stageColumnIds ids seq read) k = Some c"
    using assms by (auto simp: cardVerdict_def columnOf_def split: if_splits option.splits)
  from latestFirst_range [OF this [unfolded stageColumnIds_def]] show ?thesis by simp
qed

end
