(* ===== verification/TrelloSample.thy ===== *)
theory TrelloSample
  imports TrelloPlan
begin

section \<open>Two small exports\<close>

text \<open>
  The bytes of a small export, the text and the value they stand for and what the reader makes of it:
  four lists (one archived, one not an object), three cards (one on the archived list), a label, a
  checklist, and no \<open>actions\<close> and \<open>members\<close>. The second export has a label of the colour
  \<open>constructor\<close> and little else.
\<close>

definition sampleText :: js_string where
  "sampleText = [
    123, 34, 110, 97, 109, 101, 34, 58, 34, 66, 34, 44, 34, 108, 105, 115, 116, 115, 34, 58, 91, 123, 34,
    105, 100, 34, 58, 34, 98, 34, 44, 34, 110, 97, 109, 101, 34, 58, 34, 84, 119, 111, 34, 44, 34, 112,
    111, 115, 34, 58, 50, 125, 44, 123, 34, 105, 100, 34, 58, 34, 97, 34, 44, 34, 110, 97, 109, 101, 34,
    58, 34, 79, 110, 101, 34, 44, 34, 112, 111, 115, 34, 58, 49, 125, 44, 123, 34, 105, 100, 34, 58, 34,
    99, 34, 44, 34, 110, 97, 109, 101, 34, 58, 34, 79, 108, 100, 34, 44, 34, 99, 108, 111, 115, 101, 100,
    34, 58, 116, 114, 117, 101, 125, 44, 55, 93, 44, 34, 99, 97, 114, 100, 115, 34, 58, 91, 123, 34, 105,
    100, 34, 58, 34, 107, 49, 34, 44, 34, 110, 97, 109, 101, 34, 58, 34, 88, 34, 44, 34, 105, 100, 76, 105,
    115, 116, 34, 58, 34, 97, 34, 44, 34, 112, 111, 115, 34, 58, 53, 44, 34, 105, 100, 76, 97, 98, 101,
    108, 115, 34, 58, 91, 34, 103, 34, 44, 34, 103, 34, 93, 125, 44, 123, 34, 105, 100, 34, 58, 34, 107,
    48, 34, 44, 34, 110, 97, 109, 101, 34, 58, 34, 89, 34, 44, 34, 105, 100, 76, 105, 115, 116, 34, 58, 34,
    97, 34, 44, 34, 112, 111, 115, 34, 58, 51, 125, 44, 123, 34, 105, 100, 34, 58, 34, 107, 50, 34, 44, 34,
    110, 97, 109, 101, 34, 58, 34, 90, 34, 44, 34, 105, 100, 76, 105, 115, 116, 34, 58, 34, 99, 34, 125,
    93, 44, 34, 108, 97, 98, 101, 108, 115, 34, 58, 91, 123, 34, 105, 100, 34, 58, 34, 103, 34, 44, 34,
    110, 97, 109, 101, 34, 58, 34, 71, 34, 44, 34, 99, 111, 108, 111, 114, 34, 58, 34, 103, 114, 101, 101,
    110, 34, 125, 93, 44, 34, 99, 104, 101, 99, 107, 108, 105, 115, 116, 115, 34, 58, 91, 123, 34, 105,
    100, 34, 58, 34, 104, 34, 44, 34, 110, 97, 109, 101, 34, 58, 34, 72, 34, 44, 34, 105, 100, 67, 97, 114,
    100, 34, 58, 34, 107, 49, 34, 44, 34, 99, 104, 101, 99, 107, 73, 116, 101, 109, 115, 34, 58, 91, 123,
    34, 105, 100, 34, 58, 34, 105, 34, 44, 34, 110, 97, 109, 101, 34, 58, 34, 73, 34, 44, 34, 115, 116, 97,
    116, 101, 34, 58, 34, 99, 111, 109, 112, 108, 101, 116, 101, 34, 125, 93, 125, 93, 125]"

definition sampleBytes :: "8 word list" where
  "sampleBytes = [
    123, 34, 110, 97, 109, 101, 34, 58, 34, 66, 34, 44, 34, 108, 105, 115, 116, 115, 34, 58, 91, 123, 34,
    105, 100, 34, 58, 34, 98, 34, 44, 34, 110, 97, 109, 101, 34, 58, 34, 84, 119, 111, 34, 44, 34, 112,
    111, 115, 34, 58, 50, 125, 44, 123, 34, 105, 100, 34, 58, 34, 97, 34, 44, 34, 110, 97, 109, 101, 34,
    58, 34, 79, 110, 101, 34, 44, 34, 112, 111, 115, 34, 58, 49, 125, 44, 123, 34, 105, 100, 34, 58, 34,
    99, 34, 44, 34, 110, 97, 109, 101, 34, 58, 34, 79, 108, 100, 34, 44, 34, 99, 108, 111, 115, 101, 100,
    34, 58, 116, 114, 117, 101, 125, 44, 55, 93, 44, 34, 99, 97, 114, 100, 115, 34, 58, 91, 123, 34, 105,
    100, 34, 58, 34, 107, 49, 34, 44, 34, 110, 97, 109, 101, 34, 58, 34, 88, 34, 44, 34, 105, 100, 76, 105,
    115, 116, 34, 58, 34, 97, 34, 44, 34, 112, 111, 115, 34, 58, 53, 44, 34, 105, 100, 76, 97, 98, 101,
    108, 115, 34, 58, 91, 34, 103, 34, 44, 34, 103, 34, 93, 125, 44, 123, 34, 105, 100, 34, 58, 34, 107,
    48, 34, 44, 34, 110, 97, 109, 101, 34, 58, 34, 89, 34, 44, 34, 105, 100, 76, 105, 115, 116, 34, 58, 34,
    97, 34, 44, 34, 112, 111, 115, 34, 58, 51, 125, 44, 123, 34, 105, 100, 34, 58, 34, 107, 50, 34, 44, 34,
    110, 97, 109, 101, 34, 58, 34, 90, 34, 44, 34, 105, 100, 76, 105, 115, 116, 34, 58, 34, 99, 34, 125,
    93, 44, 34, 108, 97, 98, 101, 108, 115, 34, 58, 91, 123, 34, 105, 100, 34, 58, 34, 103, 34, 44, 34,
    110, 97, 109, 101, 34, 58, 34, 71, 34, 44, 34, 99, 111, 108, 111, 114, 34, 58, 34, 103, 114, 101, 101,
    110, 34, 125, 93, 44, 34, 99, 104, 101, 99, 107, 108, 105, 115, 116, 115, 34, 58, 91, 123, 34, 105,
    100, 34, 58, 34, 104, 34, 44, 34, 110, 97, 109, 101, 34, 58, 34, 72, 34, 44, 34, 105, 100, 67, 97, 114,
    100, 34, 58, 34, 107, 49, 34, 44, 34, 99, 104, 101, 99, 107, 73, 116, 101, 109, 115, 34, 58, 91, 123,
    34, 105, 100, 34, 58, 34, 105, 34, 44, 34, 110, 97, 109, 101, 34, 58, 34, 73, 34, 44, 34, 115, 116, 97,
    116, 101, 34, 58, 34, 99, 111, 109, 112, 108, 101, 116, 101, 34, 125, 93, 125, 93, 125]"

abbreviation sampleMembers :: "(js_string \<times> json) list" where
  "sampleMembers \<equiv>
     [(js ''name'', JString (js ''B'')),
      (js ''lists'', JArray [
        JObject [(js ''id'', JString (js ''b'')), (js ''name'', JString (js ''Two'')), (js ''pos'', JNumber (Finite 2))],
        JObject [(js ''id'', JString (js ''a'')), (js ''name'', JString (js ''One'')), (js ''pos'', JNumber (Finite 1))],
        JObject [(js ''id'', JString (js ''c'')), (js ''name'', JString (js ''Old'')), (js ''closed'', JBool True)],
        JNumber (Finite 7)]),
      (js ''cards'', JArray [
        JObject [(js ''id'', JString (js ''k1'')), (js ''name'', JString (js ''X'')), (js ''idList'', JString (js ''a'')),
          (js ''pos'', JNumber (Finite 5)), (js ''idLabels'', JArray [JString (js ''g''), JString (js ''g'')])],
        JObject [(js ''id'', JString (js ''k0'')), (js ''name'', JString (js ''Y'')), (js ''idList'', JString (js ''a'')),
          (js ''pos'', JNumber (Finite 3))],
        JObject [(js ''id'', JString (js ''k2'')), (js ''name'', JString (js ''Z'')), (js ''idList'', JString (js ''c''))]]),
      (js ''labels'', JArray [
        JObject [(js ''id'', JString (js ''g'')), (js ''name'', JString (js ''G'')), (js ''color'', JString (js ''green''))]]),
      (js ''checklists'', JArray [
        JObject [(js ''id'', JString (js ''h'')), (js ''name'', JString (js ''H'')), (js ''idCard'', JString (js ''k1'')),
          (js ''checkItems'', JArray [JObject [(js ''id'', JString (js ''i'')), (js ''name'', JString (js ''I'')),
            (js ''state'', JString (js ''complete''))]])]])]"

definition sampleRead :: TrelloExportReadResult where
  "sampleRead = \<lparr>rr_source = \<lparr>tex_name = js ''B'', tex_desc = None,
       tex_lists = [\<lparr>tli_id = js ''b'', tli_name = js ''Two'', tli_pos = Some 2, tli_closed = False\<rparr>,
         \<lparr>tli_id = js ''a'', tli_name = js ''One'', tli_pos = Some 1, tli_closed = False\<rparr>,
         \<lparr>tli_id = js ''c'', tli_name = js ''Old'', tli_pos = None, tli_closed = True\<rparr>],
       tex_cards = [\<lparr>tca_id = js ''k1'', tca_name = js ''X'', tca_desc = None, tca_idList = Some (js ''a''), tca_pos = Some 5,
           tca_closed = False, tca_due = None, tca_idLabels = [js ''g'', js ''g''], tca_idMembers = [], tca_attachments = []\<rparr>,
         \<lparr>tca_id = js ''k0'', tca_name = js ''Y'', tca_desc = None, tca_idList = Some (js ''a''), tca_pos = Some 3,
           tca_closed = False, tca_due = None, tca_idLabels = [], tca_idMembers = [], tca_attachments = []\<rparr>,
         \<lparr>tca_id = js ''k2'', tca_name = js ''Z'', tca_desc = None, tca_idList = Some (js ''c''), tca_pos = None,
           tca_closed = False, tca_due = None, tca_idLabels = [], tca_idMembers = [], tca_attachments = []\<rparr>],
       tex_labels = [\<lparr>tla_id = js ''g'', tla_name = js ''G'', tla_color = Some (js ''green'')\<rparr>],
       tex_checklists = [\<lparr>tck_id = js ''h'', tck_idCard = Some (js ''k1''), tck_name = js ''H'', tck_pos = None,
         tck_checkItems = [\<lparr>tit_id = js ''i'', tit_name = js ''I'', tit_state = Some (js ''complete''), tit_pos = None\<rparr>]\<rparr>],
       tex_commentCount = 0, tex_memberCount = 0\<rparr>,
     rr_issues = [malformed ListScope None, malformed CommentScope None, malformed MemberScope None]\<rparr>"

lemmas reader_defs = readExport_def property_def Let_def readSection_def pure_read_def countActions_def countMembers_def
  readLabel_def readList_def readCard_def readChecklist_def readCheckItem_def withRecord_def readId_def readPos_def
  fieldString_def fieldNullableString_def fieldBoolean_def fieldArray_def fieldStringArray_def stringOf_def entrySample_def
  js_def List.map_filter_def

lemma lexNumber_digit:
  assumes "isDigit c" and "digitsValue [c] = n" and "n \<noteq> 0" "\<bar>n\<bar> \<le> 2 ^ 53"
    and "\<not> isDigit d" "d \<noteq> 0x2E" "d \<noteq> 0x65" "d \<noteq> 0x45"
  shows "lexNumber (c # d # rest) = Some (JNumber (Finite (of_int n)), d # rest)"
proof -
  have "c \<noteq> 0x2D" using assms(1) by (auto simp: isDigit_def)
  then show ?thesis using assms by (simp add: lexNumber_def lexExponent_def scale10_def toDouble_int Let_def)
qed

lemma sample_numbers:
  "lexNumber (50 # 125 # rest) = Some (JNumber (Finite 2), 125 # rest)"
  "lexNumber (49 # 125 # rest) = Some (JNumber (Finite 1), 125 # rest)"
  "lexNumber (55 # 93 # rest) = Some (JNumber (Finite 7), 93 # rest)"
  "lexNumber (53 # 44 # rest) = Some (JNumber (Finite 5), 44 # rest)"
  "lexNumber (51 # 125 # rest) = Some (JNumber (Finite 3), 125 # rest)"
  using lexNumber_digit [of 50 2 125 rest] lexNumber_digit [of 49 1 125 rest] lexNumber_digit [of 55 7 93 rest]
    lexNumber_digit [of 53 5 44 rest] lexNumber_digit [of 51 3 125 rest]
  by (simp_all add: isDigit_def digitsValue_def)

lemmas parser_defs = punctuation_def jsonParse_def beginValue_def readKey_def endFrame_def nextElement_def js_def
  keyword_def isDigit_def sample_numbers

lemma sample_text: "utf8ToString sampleBytes = sampleText"
  by (simp add: utf8ToString_def sampleBytes_def sampleText_def utf8Start_def utf8Ready_def Let_def)

lemma sample_json: "jsonParse sampleText = Some (JObject sampleMembers)"
  by (simp add: sampleText_def parser_defs)

lemma sample_read: "readExport (JObject sampleMembers) = Inr sampleRead"
  by (simp add: sampleRead_def reader_defs)

lemma sample_export: "parseTrelloExport sampleBytes = Inr sampleRead"
  by (simp only: parseTrelloExport_def sample_text sample_json sample_read option.case)

definition inheritedText :: js_string where
  "inheritedText = [
    123, 34, 110, 97, 109, 101, 34, 58, 34, 66, 34, 44, 34, 108, 105, 115, 116, 115, 34, 58, 91, 93, 44,
    34, 108, 97, 98, 101, 108, 115, 34, 58, 91, 123, 34, 105, 100, 34, 58, 34, 103, 34, 44, 34, 99, 111,
    108, 111, 114, 34, 58, 34, 99, 111, 110, 115, 116, 114, 117, 99, 116, 111, 114, 34, 125, 93, 125]"

definition inheritedBytes :: "8 word list" where
  "inheritedBytes = [
    123, 34, 110, 97, 109, 101, 34, 58, 34, 66, 34, 44, 34, 108, 105, 115, 116, 115, 34, 58, 91, 93, 44,
    34, 108, 97, 98, 101, 108, 115, 34, 58, 91, 123, 34, 105, 100, 34, 58, 34, 103, 34, 44, 34, 99, 111,
    108, 111, 114, 34, 58, 34, 99, 111, 110, 115, 116, 114, 117, 99, 116, 111, 114, 34, 125, 93, 125]"

definition inheritedRead :: TrelloExportReadResult where
  "inheritedRead = \<lparr>rr_source = \<lparr>tex_name = js ''B'', tex_desc = None, tex_lists = [], tex_cards = [],
       tex_labels = [\<lparr>tla_id = js ''g'', tla_name = [], tla_color = Some (js ''constructor'')\<rparr>], tex_checklists = [],
       tex_commentCount = 0, tex_memberCount = 0\<rparr>,
     rr_issues = [malformed CardScope None, malformed ChecklistScope None, malformed CommentScope None,
       malformed MemberScope None]\<rparr>"

lemma inherited_export: "parseTrelloExport inheritedBytes = Inr inheritedRead"
proof -
  have "utf8ToString inheritedBytes = inheritedText"
    by (simp add: utf8ToString_def inheritedBytes_def inheritedText_def utf8Start_def utf8Ready_def Let_def)
  moreover have "jsonParse inheritedText = Some (JObject [(js ''name'', JString (js ''B'')), (js ''lists'', JArray []),
     (js ''labels'', JArray [JObject [(js ''id'', JString (js ''g'')), (js ''color'', JString (js ''constructor''))]])])"
    by (simp add: inheritedText_def parser_defs)
  ultimately show ?thesis
    by (simp add: parseTrelloExport_def inheritedRead_def reader_defs)
qed

end
