(* ===== verification/TrelloProps.thy ===== *)
theory TrelloProps
  imports TrelloSample
begin

section \<open>What an import promises\<close>

text \<open>
  The planner loses nothing: what a section of the export holds is imported or counted in the report.
  The rows of a plan fit together and are written as they are.
\<close>

subsection \<open>The plan fits together\<close>

definition planScope :: "(nat \<Rightarrow> uuid) \<Rightarrow> nat \<Rightarrow> TrelloExportReadResult \<Rightarrow> uuid \<Rightarrow> plan_scope" where
  "planScope ids seq read actorId =
     \<lparr>sc_start = seq + 1, sc_board = ids seq, sc_actor = actorId,
      sc_columns = pc_id ` set (stageColumns ids seq read), sc_labels = pl_id ` set (stageLabels ids seq read)\<rparr>"

lemma planScope_sel [simp]:
  "sc_start (planScope ids seq read actorId) = seq + 1" "sc_board (planScope ids seq read actorId) = ids seq"
  "sc_actor (planScope ids seq read actorId) = actorId"
  "sc_columns (planScope ids seq read actorId) = pc_id ` set (stageColumns ids seq read)"
  "sc_labels (planScope ids seq read actorId) = pl_id ` set (stageLabels ids seq read)"
  by (simp_all add: planScope_def)

lemma stageStart_ok: "draftOk ids (planScope ids seq read actorId) (stageStart ids seq read)"
  by (simp add: draftOk_def stageStart_def)

lemma stageTasks_ok:
  assumes inj: "inj ids"
  shows "draftOk ids (planScope ids seq read actorId) (stageTasks ids newDate newUrl seq read actorId)"
  unfolding stageTasks_def
proof (rule fold_keeps [where P = "draftOk ids (planScope ids seq read actorId)"])
  show "draftOk ids (planScope ids seq read actorId) (stageStart ids seq read)" by (rule stageStart_ok)
next
  fix c d
  assume "c \<in> set (stageColumns ids seq read)" "draftOk ids (planScope ids seq read actorId) d"
  then show "draftOk ids (planScope ids seq read actorId) (planColumnCards ids newDate newUrl
      (stageLabelIds ids seq read) actorId (ids seq) (stageCards ids seq read) c d)"
    using planColumnCards_ok [OF inj, of "stageLabelIds ids seq read" "planScope ids seq read actorId" c d]
      stageLabelIds_range by simp
qed

lemma stageChecklists_ok:
  assumes inj: "inj ids"
  shows "draftOk ids (planScope ids seq read actorId) (stageChecklists ids newDate newUrl seq read actorId)
    \<and> dr_tasks (stageChecklists ids newDate newUrl seq read actorId) = dr_tasks (stageTasks ids newDate newUrl seq read actorId)"
proof -
  let ?d1 = "stageTasks ids newDate newUrl seq read actorId"
  show ?thesis
    unfolding stageChecklists_def Let_def
    by (rule fold_keeps [where P = "\<lambda>d. draftOk ids (planScope ids seq read actorId) d \<and> dr_tasks d = dr_tasks ?d1"])
      (use planTaskChecklists_ok [OF inj] stageTasks_ok [OF inj] in \<open>auto simp: draftOk_skips\<close>)
qed

lemma planColumnCards_checklists [simp]:
  "dr_checklists (planColumnCards ids newDate newUrl labelIds actorId boardId byColumn c d) = dr_checklists d"
proof -
  have "dr_checklists (planCard ids newDate newUrl labelIds actorId boardId columnId n ic d) = dr_checklists d"
    for columnId n ic and d :: draft
    by (simp add: planCard_def Let_def split: prod.splits)
  then show ?thesis
    unfolding planColumnCards_def Let_def
    by (intro fold_keeps [where P = "\<lambda>d'. dr_checklists d' = dr_checklists d"]) simp_all
qed

subsection \<open>Nothing is lost\<close>

lemma length_filter_eq_distinct:
  "distinct cs \<Longrightarrow> length (filter (\<lambda>c. x = c) cs) = (if x \<in> set cs then 1 else 0)"
  by (induction cs) auto

lemma sum_verdicts:
  assumes "distinct cs" and "\<And>x c. x \<in> set xs \<Longrightarrow> f x = Inr c \<Longrightarrow> c \<in> set cs"
  shows "sum_list (map (\<lambda>c. length (filter (\<lambda>x. f x = Inr c) xs)) cs) + length (filter (\<lambda>x. isl (f x)) xs) = length xs"
  using assms(2)
proof (induction xs)
  case (Cons x xs)
  have split: "sum_list (map (\<lambda>c. length (filter (\<lambda>x. f x = Inr c) (x # xs))) cs) =
      length (filter (\<lambda>c. f x = Inr c) cs) + sum_list (map (\<lambda>c. length (filter (\<lambda>x. f x = Inr c) xs)) cs)" for cs
    by (induction cs) auto
  have "length (filter (\<lambda>c. f x = Inr c) cs) = (if isl (f x) then 0 else 1)"
  proof (cases "f x")
    case (Inr c)
    then have "c \<in> set cs" by (intro Cons.prems [of x]) simp_all
    then show ?thesis using Inr length_filter_eq_distinct [OF assms(1), of c] by simp
  qed simp
  moreover have "sum_list (map (\<lambda>c. length (filter (\<lambda>x. f x = Inr c) xs)) cs) + length (filter (\<lambda>x. isl (f x)) xs) = length xs"
    using Cons.IH Cons.prems by (metis list.set_intros(2))
  ultimately show ?case by (simp only: split) simp
qed (induction cs; simp)

lemma stageTasks_facts:
  "map taskFacts (dr_tasks (stageTasks ids newDate newUrl seq read actorId)) =
     concat (map (columnFacts newDate actorId (ids seq) (stageCards ids seq read)) (stageColumns ids seq read))"
  using planColumns_tasks [of ids newDate newUrl "stageLabelIds ids seq read" actorId "ids seq"
      "stageCards ids seq read" "stageColumns ids seq read" "stageStart ids seq read"]
  by (auto simp: stageTasks_def stageStart_def)

lemma orderedByPos_length [simp]: "length (orderedByPos pos rid xs) = length xs"
  by (simp add: orderedByPos_def)

lemma tasks_and_skips:
  assumes inj: "inj ids"
  shows "length (dr_tasks (stageTasks ids newDate newUrl seq read actorId))
    + length (filter (\<lambda>crd. isl (cardVerdict (stageColumnIds ids seq read) (stageArchived read) crd)) (tex_cards (rr_source read)))
    = length (tex_cards (rr_source read))"
proof -
  let ?v = "cardVerdict (stageColumnIds ids seq read) (stageArchived read)"
  have "length (dr_tasks (stageTasks ids newDate newUrl seq read actorId)) =
      length (map taskFacts (dr_tasks (stageTasks ids newDate newUrl seq read actorId)))" by simp
  also have "\<dots> = sum_list (map (\<lambda>c. length (filter (\<lambda>x. ?v x = Inr c) (tex_cards (rr_source read))))
      (map pc_id (stageColumns ids seq read)))"
    unfolding stageTasks_facts length_concat
    by (simp add: comp_def columnFacts_def Let_def stageCards_def cardsOf_def)
  finally show ?thesis
    using sum_verdicts [OF stageColumns_distinct [OF inj], of "tex_cards (rr_source read)" ?v] card_column_known
    by simp
qed

lemma stageChecklists_facts:
  "map checklistFacts (dr_checklists (stageChecklists ids newDate newUrl seq read actorId)) =
     concat (map (taskChecklistFacts (checklistsOf (dr_taskIds (stageTasks ids newDate newUrl seq read actorId))
         (stageReasons ids seq read) (tex_checklists (rr_source read))))
       (dr_tasks (stageTasks ids newDate newUrl seq read actorId)))"
proof -
  have "dr_checklists (stageTasks ids newDate newUrl seq read actorId) = []"
    unfolding stageTasks_def
    by (rule fold_keeps [where P = "\<lambda>d. dr_checklists d = []"])
      (simp_all add: stageStart_def planColumnCards_checklists)
  then show ?thesis
    using planTasks_checklists [of ids "checklistsOf (dr_taskIds (stageTasks ids newDate newUrl seq read actorId))
         (stageReasons ids seq read) (tex_checklists (rr_source read))"
        "dr_tasks (stageTasks ids newDate newUrl seq read actorId)"
        "(stageTasks ids newDate newUrl seq read actorId)\<lparr>dr_skips := fold (checklistSkips
           (dr_taskIds (stageTasks ids newDate newUrl seq read actorId)) (stageReasons ids seq read))
           (tex_checklists (rr_source read)) (dr_skips (stageTasks ids newDate newUrl seq read actorId))\<rparr>"]
    by (auto simp: stageChecklists_def Let_def)
qed

lemma checklist_task_known:
  assumes inj: "inj ids"
    and v: "checklistVerdict (dr_taskIds (stageTasks ids newDate newUrl seq read actorId)) reasons ck = Inr t"
  shows "t \<in> set (map pt_id (dr_tasks (stageTasks ids newDate newUrl seq read actorId)))"
proof -
  let ?d = "stageTasks ids newDate newUrl seq read actorId"
  obtain k where "map_of (dr_taskIds ?d) k = Some t"
    using v by (auto simp: checklistVerdict_def split: if_splits option.splits)
  then have "t \<in> snd ` set (dr_taskIds ?d)" by (force dest: map_of_SomeD)
  moreover have "snd ` set (dr_taskIds ?d) = pt_id ` set (dr_tasks ?d)"
    using stageTasks_ok [OF inj, of seq read actorId newDate newUrl] by (simp add: draftOk_def)
  ultimately show ?thesis by simp
qed

lemma checklists_and_skips:
  assumes inj: "inj ids"
  shows "length (dr_checklists (stageChecklists ids newDate newUrl seq read actorId))
    + length (filter (\<lambda>ck. isl (checklistVerdict (dr_taskIds (stageTasks ids newDate newUrl seq read actorId))
        (stageReasons ids seq read) ck)) (tex_checklists (rr_source read)))
    = length (tex_checklists (rr_source read))"
proof -
  let ?d = "stageTasks ids newDate newUrl seq read actorId"
  let ?v = "checklistVerdict (dr_taskIds ?d) (stageReasons ids seq read)"
  have "length (dr_checklists (stageChecklists ids newDate newUrl seq read actorId)) =
      length (map checklistFacts (dr_checklists (stageChecklists ids newDate newUrl seq read actorId)))" by simp
  also have "\<dots> = sum_list (map (\<lambda>t. length (filter (\<lambda>x. ?v x = Inr t) (tex_checklists (rr_source read))))
      (map pt_id (dr_tasks ?d)))"
    unfolding stageChecklists_facts length_concat
    by (simp add: comp_def taskChecklistFacts_def Let_def checklistsOf_def)
  finally show ?thesis
    using sum_verdicts [of "map pt_id (dr_tasks ?d)" "tex_checklists (rr_source read)" ?v]
      stageTasks_ok [OF inj, of seq read actorId newDate newUrl] checklist_task_known [OF inj]
    by (simp add: draftOk_def issued_def)
qed

lemma stageLists_length: "length (stageColumns ids seq read)
    + length (filter (\<lambda>li. tli_closed li \<or> isUnnamed (tli_name li)) (tex_lists (rr_source read)))
    = length (tex_lists (rr_source read))"
proof -
  have "length (filter (\<lambda>li. \<not> tli_closed li \<and> \<not> isUnnamed (tli_name li)) xs)
      + length (filter (\<lambda>li. tli_closed li \<or> isUnnamed (tli_name li)) xs) = length xs" for xs
    by (induction xs) auto
  then show ?thesis by (simp add: stageColumns_def stageLists_def liveLists_def)
qed

lemma sum_list_count:
  "sum_list (map (\<lambda>x. if scope = s \<and> P x then 1 else (0 :: int)) xs) =
     (if scope = s then int (length (filter P xs)) else 0)"
  by (cases "scope = s") (simp_all add: sum_list_indicator)

lemma stageSkips_valid_count:
  "validSkips (stageSkips ids seq read)
   \<and> scopeCount scope (stageSkips ids seq read) = issueCount scope (rr_issues read)
     + (if scope = ListScope then int (length (filter (\<lambda>li. tli_closed li \<or> isUnnamed (tli_name li)) (tex_lists (rr_source read)))) else 0)
     + (if scope = ColumnScope then int (length (stageColumns ids seq read)) else 0)
     + (if scope = LabelScope then int (length (filter (\<lambda>la. cm_defaulted (trelloColorToSlot (tla_color la)) \<or> isUnnamed (tla_name la))
         (tex_labels (rr_source read)))) else 0)
     + (if scope = CardScope then int (length (filter (\<lambda>crd. isl (cardVerdict (stageColumnIds ids seq read) (stageArchived read) crd))
         (tex_cards (rr_source read)))) else 0)"
proof -
  define s1 where "s1 = fold (\<lambda>issue. addSkip (is_scope issue) (is_reason issue) (is_sample issue)) (rr_issues read) []"
  define s2 where "s2 = fold classifyList (tex_lists (rr_source read)) s1"
  define s3 where "s3 = addMany ColumnScope Defaulted (int (length (stageColumns ids seq read)))
    (map (\<lambda>c. Some (pc_name c)) (stageColumns ids seq read)) s2"
  define s4 where "s4 = fold labelSkips (tex_labels (rr_source read)) s3"
  have 1: "validSkips s1" "scopeCount scope s1 = issueCount scope (rr_issues read)"
    by (simp_all add: s1_def issue.fold_valid issue.fold_count sum_list_indicator issueCount_def)
  have 2: "validSkips s2" "scopeCount scope s2 = scopeCount scope s1 + (if scope = ListScope
      then int (length (filter (\<lambda>li. tli_closed li \<or> isUnnamed (tli_name li)) (tex_lists (rr_source read)))) else 0)"
    using 1(1) by (simp_all only: s2_def listed.fold_valid listed.fold_count sum_list_count)
  have 3: "validSkips s3" "scopeCount scope s3 = scopeCount scope s2
      + (if scope = ColumnScope then int (length (stageColumns ids seq read)) else 0)"
    using 2(1) by (simp_all add: s3_def validSkips_addMany scopeCount_addMany)
  have 4: "validSkips s4" "scopeCount scope s4 = scopeCount scope s3 + (if scope = LabelScope
      then int (length (filter (\<lambda>la. cm_defaulted (trelloColorToSlot (tla_color la)) \<or> isUnnamed (tla_name la))
         (tex_labels (rr_source read)))) else 0)"
    using 3(1) by (simp_all only: s4_def labelled.fold_valid labelled.fold_count sum_list_count)
  have s5: "stageSkips ids seq read =
      fold (cardSkips (stageColumnIds ids seq read) (stageArchived read)) (tex_cards (rr_source read)) s4"
    by (simp only: stageSkips_def s1_def s2_def s3_def s4_def)
  show ?thesis
    using carded.fold_valid [OF 4(1)] carded.fold_count [OF 4(1)]
    by (simp only: s5 sum_list_count 1 2 3 4 simp_thms)
qed

lemma stageChecklists_skips:
  assumes "scope \<notin> {LabelScope, AttachmentScope, ItemScope}"
  shows "validSkips (dr_skips (stageChecklists ids newDate newUrl seq read actorId))
   \<and> scopeCount scope (dr_skips (stageChecklists ids newDate newUrl seq read actorId)) =
     scopeCount scope (stageSkips ids seq read) + (if scope = ChecklistScope
       then int (length (filter (\<lambda>ck. isl (checklistVerdict (dr_taskIds (stageTasks ids newDate newUrl seq read actorId))
         (stageReasons ids seq read) ck)) (tex_checklists (rr_source read)))) else 0)"
proof -
  let ?d1 = "stageTasks ids newDate newUrl seq read actorId"
  let ?step = "checklistSkips (dr_taskIds ?d1) (stageReasons ids seq read)"
  let ?d2 = "?d1\<lparr>dr_skips := fold ?step (tex_checklists (rr_source read)) (dr_skips ?d1)\<rparr>"
  have "quiet (stageStart ids seq read) ?d1"
    unfolding stageTasks_def by (rule fold_quiet [OF planColumnCards_quiet])
  moreover have "dr_skips (stageStart ids seq read) = stageSkips ids seq read" by (simp add: stageStart_def)
  ultimately have 1: "validSkips (dr_skips ?d1)" "scopeCount scope (dr_skips ?d1) = scopeCount scope (stageSkips ids seq read)"
    using assms stageSkips_valid_count [of ids seq read scope] by (simp_all add: quiet_def)
  have 2: "validSkips (dr_skips ?d2)" "scopeCount scope (dr_skips ?d2) = scopeCount scope (dr_skips ?d1)
      + (if scope = ChecklistScope then int (length (filter (\<lambda>ck. isl (checklistVerdict (dr_taskIds ?d1)
         (stageReasons ids seq read) ck)) (tex_checklists (rr_source read)))) else 0)"
    using listed_checks.fold_valid [OF 1(1)] listed_checks.fold_count [OF 1(1)]
    by (simp_all add: sum_list_count)
  have "quiet ?d2 (stageChecklists ids newDate newUrl seq read actorId)"
    unfolding stageChecklists_def Let_def by (rule fold_quiet [OF planTaskChecklists_quiet])
  with 1 2 assms show ?thesis by (simp add: quiet_def)
qed

lemma plan_skipped:
  "\<exists>groups. ip_skipped (fst (planTrelloImport ids newDate newUrl seq read actorId)) = toReport groups
     \<and> validSkips groups
     \<and> (\<forall>scope. scope \<notin> {LabelScope, AttachmentScope, ItemScope, MemberScope, CommentScope} \<longrightarrow>
          scopeCount scope groups = scopeCount scope (dr_skips (stageChecklists ids newDate newUrl seq read actorId)))"
proof -
  have "validSkips (dr_skips (stageChecklists ids newDate newUrl seq read actorId))"
    using stageChecklists_skips [of ListScope] by simp
  then show ?thesis
    by (auto simp: planTrelloImport_eq validSkips_addMany scopeCount_addMany)
qed

text \<open>
  C36. The import loses nothing silently: with a supply of distinct ids, the lists of the export that
  became columns and those the report counts are all its lists, and the same holds of cards and tasks
  and of checklists; a section that is missing or not an array counts as one unreadable thing. Labels
  are lost only when the reader could not read them.
\<close>

theorem import_loses_nothing:
  assumes inj: "inj ids" and read: "readExport (JObject kvs) = Inr read"
    and plan: "plan = fst (planTrelloImport ids newDate newUrl seq read actorId)"
  shows "int (length (ip_columns plan)) + scopeCount ListScope (ip_skipped plan) = int (entryCount (property kvs ''lists''))
    \<and> int (length (ip_tasks plan)) + scopeCount CardScope (ip_skipped plan) = int (entryCount (property kvs ''cards''))
    \<and> int (length (ip_checklists plan)) + scopeCount ChecklistScope (ip_skipped plan)
        = int (entryCount (property kvs ''checklists''))
    \<and> int (length (ip_labels plan)) + issueCount LabelScope (rr_issues read) = int (entryCount (property kvs ''labels''))"
proof -
  obtain kvs' where "JObject kvs = JObject kvs'" and counts:
    "int (length (tex_lists (rr_source read))) + issueCount ListScope (rr_issues read) = int (entryCount (property kvs' ''lists''))"
    "int (length (tex_cards (rr_source read))) + issueCount CardScope (rr_issues read) = int (entryCount (property kvs' ''cards''))"
    "int (length (tex_labels (rr_source read))) + issueCount LabelScope (rr_issues read) = int (entryCount (property kvs' ''labels''))"
    "int (length (tex_checklists (rr_source read))) + issueCount ChecklistScope (rr_issues read)
       = int (entryCount (property kvs' ''checklists''))"
    using readExport_counts [OF read] .
  then have kvs: "kvs' = kvs" by simp
  obtain groups where groups: "ip_skipped plan = toReport groups" "validSkips groups"
    and same: "\<And>scope. scope \<notin> {LabelScope, AttachmentScope, ItemScope, MemberScope, CommentScope} \<Longrightarrow>
      scopeCount scope groups = scopeCount scope (dr_skips (stageChecklists ids newDate newUrl seq read actorId))"
    using plan_skipped plan by metis
  have skipped: "scopeCount scope (ip_skipped plan) = scopeCount scope (stageSkips ids seq read)
      + (if scope = ChecklistScope then int (length (filter (\<lambda>ck. isl (checklistVerdict
          (dr_taskIds (stageTasks ids newDate newUrl seq read actorId)) (stageReasons ids seq read) ck))
          (tex_checklists (rr_source read)))) else 0)"
    if "scope \<notin> {LabelScope, AttachmentScope, ItemScope, MemberScope, CommentScope}" for scope
    using that report_groups [OF groups(2)] groups(1) same [OF that] stageChecklists_skips [of scope] by simp
  have rows: "ip_columns plan = stageColumns ids seq read" "length (ip_labels plan) = length (tex_labels (rr_source read))"
    "ip_tasks plan = dr_tasks (stageTasks ids newDate newUrl seq read actorId)"
    "ip_checklists plan = dr_checklists (stageChecklists ids newDate newUrl seq read actorId)"
    by (simp_all add: plan planTrelloImport_eq stageLabels_def)
  have lists: "int (length (ip_columns plan)) + scopeCount ListScope (ip_skipped plan) = int (entryCount (property kvs ''lists''))"
    using counts(1) stageLists_length [of ids seq read] stageSkips_valid_count [of ids seq read ListScope] skipped [of ListScope]
    by (simp add: rows kvs)
  have cards: "int (length (ip_tasks plan)) + scopeCount CardScope (ip_skipped plan) = int (entryCount (property kvs ''cards''))"
    using counts(2) tasks_and_skips [OF inj, of newDate newUrl seq read actorId]
      stageSkips_valid_count [of ids seq read CardScope] skipped [of CardScope]
    by (simp add: rows kvs)
  have "int (length (ip_checklists plan)) + scopeCount ChecklistScope (ip_skipped plan)
      = int (entryCount (property kvs ''checklists''))"
    using counts(4) checklists_and_skips [OF inj, of newDate newUrl seq read actorId]
      stageSkips_valid_count [of ids seq read ChecklistScope] skipped [of ChecklistScope]
    by (simp add: rows kvs)
  with lists cards counts(3) show ?thesis by (simp add: rows kvs)
qed

definition countedIds :: "nat \<Rightarrow> uuid" where
  "countedIds n = replicate n 0x30"

lemma countedIds_inj: "inj countedIds"
  by (rule injI) (metis countedIds_def length_replicate)

theorem import_loses_nothing_witness:
  "\<exists>plan. plan = fst (planTrelloImport countedIds (\<lambda>_. None) (\<lambda>_. None) 0 sampleRead (js ''u1''))
     \<and> int (length (ip_columns plan)) + scopeCount ListScope (ip_skipped plan) = 4
     \<and> int (length (ip_tasks plan)) + scopeCount CardScope (ip_skipped plan) = 3
     \<and> int (length (ip_checklists plan)) + scopeCount ChecklistScope (ip_skipped plan) = 1"
  using import_loses_nothing [OF countedIds_inj sample_read refl, of "\<lambda>_. None" "\<lambda>_. None" 0 "js ''u1''"]
  by (simp add: property_def entryCount_def)

text \<open>
  C39. Whatever the export holds, the report of an import lists every pair of scope and reason at most
  once, in the order of the two vocabularies, with a positive count, at most twenty samples, never more
  samples than it counts, and no blank sample.
\<close>

theorem import_report_shape:
  "sorted_wrt (\<lambda>g h. groupKey g < groupKey h) (ip_skipped (fst (planTrelloImport ids newDate newUrl seq read actorId)))
   \<and> list_all (\<lambda>g. 0 < sg_count g \<and> length (sg_samples g) \<le> 20
        \<and> int (length (sg_samples g)) \<le> sg_count g \<and> [] \<notin> set (sg_samples g))
      (ip_skipped (fst (planTrelloImport ids newDate newUrl seq read actorId)))"
  using plan_skipped [of ids newDate newUrl seq read actorId] report_groups by (auto simp: list_all_iff)

subsection \<open>Trello's order is kept\<close>

definition comparePos :: "number option \<times> js_string \<Rightarrow> number option \<times> js_string \<Rightarrow> number" where
  \<comment> \<open>the comparator \<open>orderedByPos\<close> passes to \<open>sort\<close>\<close>
  "comparePos a b =
     (let tie = (if snd a < snd b then - 1 else if snd b < snd a then 1 else 0)
      in case (fst a, fst b) of
           (Some p, Some q) \<Rightarrow> if p \<noteq> q then fl (p - q) else tie
         | (Some p, None) \<Rightarrow> - 1
         | (None, Some q) \<Rightarrow> 1
         | (None, None) \<Rightarrow> tie)"

lemma fl_sign: "fl x < 0 \<longleftrightarrow> x < 0" "0 < fl x \<longleftrightarrow> 0 < x"
proof -
  have neg: "fl x < 0" if "x < 0" for x
  proof -
    have "fl x - x \<le> \<bar>x\<bar> / 2 ^ 53" by (rule abs_le_D1 [OF fl_error])
    with that show ?thesis by simp
  qed
  have pos: "0 < fl x" if "0 < x" for x
    using neg [of "- x"] that by (simp add: fl_minus)
  consider "x < 0" | "x = 0" | "0 < x" by linarith
  then show "fl x < 0 \<longleftrightarrow> x < 0" "0 < fl x \<longleftrightarrow> 0 < x"
    by (cases; use neg [of x] pos [of x] in simp)+
qed

lemma comparePos_key: "comparePos a b < 0 \<longleftrightarrow> posKey a < posKey b" "comparePos a b = 0 \<longleftrightarrow> posKey a = posKey b"
proof -
  obtain p i q j where ab: "a = (p, i)" "b = (q, j)" by fastforce
  have "fl x = 0 \<longleftrightarrow> x = 0" for x
    using fl_sign [of x] fl_0 by (metis less_irrefl linorder_neqE)
  then show "comparePos a b < 0 \<longleftrightarrow> posKey a < posKey b" "comparePos a b = 0 \<longleftrightarrow> posKey a = posKey b"
    by (auto simp: ab comparePos_def posKey_def Let_def fl_sign split: option.splits)
qed

lemma orderedByPos_sorted:
  "sorted_wrt (\<lambda>a b. comparePos (pos a, rid a) (pos b, rid b) \<le> 0) (orderedByPos pos rid xs)"
proof -
  have le: "comparePos (pa, ia) (pb, ib) \<le> 0 \<longleftrightarrow> posKey (pa, ia) \<le> posKey (pb, ib)" for pa ia pb ib
    using comparePos_key by (metis le_less)
  show ?thesis
    using sorted_sort_key [of "\<lambda>r. posKey (pos r, rid r)" xs] by (simp add: le orderedByPos_def sorted_map)
qed

lemma positionsFor_exact: "i < n \<Longrightarrow> n \<le> MAX_SIBLINGS \<Longrightarrow> positionsFor n i = of_nat (i + 1) * 1000"
  by (simp add: positionsFor_def js_nth_def rebalancePositions_nth)

lemma filter_concat_key:
  assumes "distinct (map k cs)" and "c \<in> set cs" and own: "\<And>c x. x \<in> set (f c) \<Longrightarrow> g x = k c"
  shows "filter (\<lambda>x. g x = k c) (concat (map f cs)) = f c"
  using assms(1,2)
proof (induction cs)
  case (Cons c' cs)
  have all: "filter (\<lambda>x. g x = k c) (f c') = (if k c' = k c then f c' else [])" for c'
    using own [of _ c'] by (auto intro: filter_True)
  show ?case
  proof (cases "c = c'")
    case True
    with Cons.prems have "k c'' \<noteq> k c" if "c'' \<in> set cs" for c'' using imageI [OF that, of k] by auto
    then have "filter (\<lambda>x. g x = k c) (concat (map f cs)) = []"
      using own by (fastforce simp: filter_empty_conv)
    then show ?thesis using all [of c'] True by simp
  next
    case False
    with Cons.prems have "k c' \<noteq> k c" by auto
    with False Cons show ?thesis by (simp add: all)
  qed
qed simp

lemma column_facts_of_plan:
  assumes inj: "inj ids" and c: "c \<in> set (stageColumns ids seq read)"
  shows "map taskFacts (filter (\<lambda>t. pt_columnId t = pc_id c) (dr_tasks (stageTasks ids newDate newUrl seq read actorId)))
    = columnFacts newDate actorId (ids seq) (stageCards ids seq read) c"
proof -
  have "map taskFacts (filter (\<lambda>t. pt_columnId t = pc_id c) ts) = filter (\<lambda>f. fst (snd f) = pc_id c) (map taskFacts ts)" for ts
    by (induction ts) (simp_all add: taskFacts_def)
  moreover have "fst (snd f) = pc_id c" if "f \<in> set (columnFacts newDate actorId boardId byColumn c)" for f boardId byColumn c
    using that by (auto simp: columnFacts_def cardFacts_def Let_def)
  ultimately show ?thesis
    using filter_concat_key [OF stageColumns_distinct [OF inj] c,
      of "columnFacts newDate actorId (ids seq) (stageCards ids seq read)" "\<lambda>f. fst (snd f)"]
    by (simp add: stageTasks_facts)
qed

lemma plan_columns_in_order:
  assumes "length (tex_lists (rr_source read)) \<le> MAX_SIBLINGS"
  shows "map pc_name (stageColumns ids seq read) = map tli_name (stageLists read)
    \<and> map pc_position (stageColumns ids seq read) = map (\<lambda>i. of_nat (i + 1) * 1000) [0..<length (stageLists read)]"
proof -
  have "length (stageLists read) \<le> length (tex_lists (rr_source read))"
    by (simp add: stageLists_def liveLists_def)
  with assms have cap: "length (stageLists read) \<le> MAX_SIBLINGS" by linarith
  show ?thesis
    unfolding stageColumns_def
    by (intro conjI nth_equalityI) (use cap in \<open>simp_all add: planColumns_nth positionsFor_exact\<close>)
qed

text \<open>
  C37. The board keeps Trello's order: the columns of the plan are the open, named lists in the order of
  Trello's comparator (position, then id, lists without a position last), and the tasks of a column are
  the cards of its list in that order; their positions are 1000, 2000, 3000 and so on, the spacing every
  other board of the program starts from.
\<close>

theorem import_keeps_order:
  assumes inj: "inj ids" and caps: "length (tex_lists (rr_source read)) \<le> MAX_SIBLINGS"
      "length (tex_cards (rr_source read)) \<le> MAX_SIBLINGS"
    and plan: "plan = fst (planTrelloImport ids newDate newUrl seq read actorId)"
    and c: "c \<in> set (ip_columns plan)"
    and cards: "cards = orderedByPos tca_pos tca_id (stageCards ids seq read (pc_id c))"
  shows "map pc_name (ip_columns plan) = map tli_name (stageLists read)
    \<and> map pc_position (ip_columns plan) = map (\<lambda>i. of_nat (i + 1) * 1000) [0..<length (ip_columns plan)]
    \<and> map (\<lambda>t. (pt_name t, pt_position t)) (filter (\<lambda>t. pt_columnId t = pc_id c) (ip_tasks plan))
        = map (\<lambda>(i, crd). (tca_name crd, of_nat (i + 1) * 1000)) (enumerate 0 cards)
    \<and> sorted_wrt (\<lambda>a b. comparePos (tca_pos a, tca_id a) (tca_pos b, tca_id b) \<le> 0) cards
    \<and> sorted_wrt (\<lambda>a b. comparePos (tli_pos a, tli_id a) (tli_pos b, tli_id b) \<le> 0) (stageLists read)"
proof -
  have rows: "ip_columns plan = stageColumns ids seq read" "ip_tasks plan = dr_tasks (stageTasks ids newDate newUrl seq read actorId)"
    by (simp_all add: plan planTrelloImport_eq)
  have "length cards \<le> length (tex_cards (rr_source read))"
    by (simp add: cards stageCards_def cardsOf_def)
  with caps(2) have cap: "length cards \<le> MAX_SIBLINGS" by linarith
  have "map (\<lambda>t. (pt_name t, pt_position t)) (filter (\<lambda>t. pt_columnId t = pc_id c) (ip_tasks plan))
      = map (\<lambda>f. (fst (snd (snd f)), fst (snd (snd (snd (snd f))))))
          (map taskFacts (filter (\<lambda>t. pt_columnId t = pc_id c) (ip_tasks plan)))"
    by (simp add: taskFacts_def)
  also have "\<dots> = map (\<lambda>(i, crd). (tca_name crd, positionsFor (length cards) i)) (enumerate 0 cards)"
    using column_facts_of_plan [OF inj c [unfolded rows]]
    by (simp add: rows columnFacts_def cardFacts_def Let_def cards [symmetric] case_prod_beta)
  also have "\<dots> = map (\<lambda>(i, crd). (tca_name crd, of_nat (i + 1) * 1000)) (enumerate 0 cards)"
    using positionsFor_exact [OF _ cap] by (auto simp: in_set_enumerate_eq)
  finally have tasks: "map (\<lambda>t. (pt_name t, pt_position t)) (filter (\<lambda>t. pt_columnId t = pc_id c) (ip_tasks plan))
      = map (\<lambda>(i, crd). (tca_name crd, of_nat (i + 1) * 1000)) (enumerate 0 cards)" .
  show ?thesis
    using plan_columns_in_order [OF caps(1), of ids seq] tasks
    by (simp add: rows cards stageLists_def stageColumns_def orderedByPos_sorted)
qed

lemma sample_columns: "stageColumns countedIds 0 sampleRead =
    [\<lparr>pc_id = countedIds 1, pc_boardId = countedIds 0, pc_name = js ''One'', pc_position = positionsFor 2 0, pc_category = UNSTARTED\<rparr>,
     \<lparr>pc_id = countedIds 2, pc_boardId = countedIds 0, pc_name = js ''Two'', pc_position = positionsFor 2 1, pc_category = UNSTARTED\<rparr>]"
  by (simp add: stageColumns_def stageLists_def sampleRead_def liveLists_def planColumns_def orderedByPos_def
      posKey_def isUnnamed_def js_trim_eq_Nil js_space_def flip: numeral_2_eq_2)

lemma sample_cards: "map tca_name (orderedByPos tca_pos tca_id (stageCards countedIds 0 sampleRead (countedIds 1))) = [js ''Y'', js ''X'']"
  by (simp add: stageCards_def cardsOf_def cardVerdict_def columnOf_def stageColumnIds_def sample_columns latestFirst_def)
    (simp add: stageLists_def sampleRead_def liveLists_def orderedByPos_def posKey_def isUnnamed_def js_trim_eq_Nil js_space_def)

theorem import_keeps_order_witness:
  "map (\<lambda>t. (pt_name t, pt_position t)) (filter (\<lambda>t. pt_columnId t = countedIds 1)
      (ip_tasks (fst (planTrelloImport countedIds (\<lambda>_. None) (\<lambda>_. None) 0 sampleRead (js ''u1'')))))
    = [(js ''Y'', 1000), (js ''X'', 2000)]"
proof -
  let ?plan = "fst (planTrelloImport countedIds (\<lambda>_. None) (\<lambda>_. None) 0 sampleRead (js ''u1''))"
  let ?c = "hd (stageColumns countedIds 0 sampleRead)"
  let ?cards = "orderedByPos tca_pos tca_id (stageCards countedIds 0 sampleRead (countedIds 1))"
  have c: "pc_id ?c = countedIds 1" by (simp add: sample_columns)
  have "?c \<in> set (ip_columns ?plan)" by (simp add: planTrelloImport_eq sample_columns)
  from import_keeps_order [OF countedIds_inj _ _ refl this refl]
  have "map (\<lambda>t. (pt_name t, pt_position t)) (filter (\<lambda>t. pt_columnId t = countedIds 1) (ip_tasks ?plan))
        = map (\<lambda>(i, crd). (tca_name crd, of_nat (i + 1) * 1000)) (enumerate 0 ?cards)"
    unfolding c by (simp add: sampleRead_def MAX_SIBLINGS_def)
  moreover obtain y x where "?cards = [y, x]" "tca_name y = js ''Y''" "tca_name x = js ''X''"
    using sample_cards by (auto simp: map_eq_Cons_conv)
  ultimately show ?thesis by simp
qed

end
