(* ===== verification/TrelloWrite.thy ===== *)
theory TrelloWrite
  imports TrelloProps
begin

section \<open>An import is written whole or not at all\<close>

text \<open>
  The locale \<open>table_writer\<close> is what the eight loops of the transaction share: each appends rows to one
  table, in statements of at most \<open>IMPORT_CHUNK_SIZE\<close> rows, and fails when a statement would violate
  what the database checks.
\<close>

lemma chunked_Nil [simp]: "chunked [] n = []"
  by (simp add: chunked.simps)

lemma chunked_ne: "rows \<noteq> [] \<Longrightarrow> 0 < n \<Longrightarrow> chunked rows n = take n rows # chunked (drop n rows) n"
  by (simp add: chunked.simps)

lemma chunked_concat:
  assumes "0 < n"
  shows "concat (chunked rows n) = rows"
  using assms by (induction rows n rule: chunked.induct) (metis append_take_drop_id chunked_Nil chunked_ne concat.simps less_irrefl)

lemma chunked_sizes:
  assumes "chunk \<in> set (chunked rows n)"
  shows "chunk \<noteq> [] \<and> length chunk \<le> n"
  using assms
proof (induction rows n rule: chunked.induct)
  case (1 rows n)
  show ?case
  proof (cases "rows = [] \<or> n = 0")
    case True
    then show ?thesis using "1.prems" by (auto simp: chunked.simps)
  next
    case False
    then have "chunk = take n rows \<or> chunk \<in> set (chunked (drop n rows) n)"
      using "1.prems" chunked_ne [of rows n] by auto
    with "1.IH" [OF False] False show ?thesis by auto
  qed
qed

locale table_writer =
  fixes table :: "world \<Rightarrow> 'r list" and put :: "'r list \<Rightarrow> world \<Rightarrow> world" and keys :: "('r \<Rightarrow> uuid list) list"
    and refers :: "world \<Rightarrow> 'r \<Rightarrow> bool" and row :: "world \<Rightarrow> 'p \<Rightarrow> 'r" and ok :: "'p \<Rightarrow> bool"
    and save :: "'p list \<Rightarrow> unit handler"
  assumes table_put: "table (put x w) = x" and put_put: "put x (put y w) = put x w" and put_table: "put (table w) w = w"
    and refers_put: "refers (put x w) = refers w" and row_put: "row (put x w) = row w"
    and saving: "list_all ok rows \<Longrightarrow> save rows w = createMany keys refers table put (map (row w) rows) w"
begin

lemma save_ok:
  assumes "list_all ok rows" and "\<forall>key \<in> set keys. distinct (map key (table w @ map (row w) rows))"
    and "list_all (refers w) (map (row w) rows)"
  shows "save rows w = (Inr (), put (table w @ map (row w) rows) w)"
  using assms by (simp add: saving createMany_def Let_def list_all_iff)

lemma forEach_ok:
  assumes "list_all ok (concat css)" and "\<forall>key \<in> set keys. distinct (map key (table w @ map (row w) (concat css)))"
    and "list_all (refers w) (map (row w) (concat css))"
  shows "forEach save css w = (Inr (), put (table w @ map (row w) (concat css)) w)"
  using assms
proof (induction css arbitrary: w)
  case Nil
  then show ?case by (simp add: return_def put_table)
next
  case (Cons cs css)
  define w' where "w' = put (table w @ map (row w) cs) w"
  have first: "\<forall>key \<in> set keys. distinct (map key (table w @ map (row w) cs))"
  proof
    fix key assume "key \<in> set keys"
    then have "distinct (map key ((table w @ map (row w) cs) @ map (row w) (concat css)))"
      using Cons.prems(2) by simp
    then show "distinct (map key (table w @ map (row w) cs))" by (simp only: map_append distinct_append)
  qed
  have here: "save cs w = (Inr (), w')"
    unfolding w'_def by (rule save_ok [OF _ first]) (use Cons.prems in simp_all)
  have w': "table w' = table w @ map (row w) cs" "row w' = row w" "refers w' = refers w"
    by (simp_all add: w'_def table_put row_put refers_put)
  have "forEach save css w' = (Inr (), put (table w' @ map (row w') (concat css)) w')"
    by (rule Cons.IH) (use Cons.prems in \<open>simp_all add: w'\<close>)
  then show ?case by (simp add: bindE_def here w') (simp add: w'_def put_put)
qed

lemma chunks_ok:
  assumes "list_all ok rows" and "\<forall>key \<in> set keys. distinct (map key (table w @ map (row w) rows))"
    and "list_all (refers w) (map (row w) rows)"
  shows "inChunks save rows w = (Inr (), put (table w @ map (row w) rows) w)"
  using forEach_ok [of "chunked rows IMPORT_CHUNK_SIZE"] assms
  by (simp add: inChunks_def chunked_concat IMPORT_CHUNK_SIZE_def)

end

interpretation columnsT: table_writer columns "\<lambda>rows w. w\<lparr>columns := rows\<rparr>" "[\<lambda>r. [c_id r]]"
  "\<lambda>w c. hasId b_id (boards w) (c_boardId c)" "\<lambda>_. columnRow" "\<lambda>_. True" writeColumns
  by unfold_locales (simp_all add: writeColumns_def)

interpretation labelsT: table_writer labels "\<lambda>rows w. w\<lparr>labels := rows\<rparr>" "[\<lambda>r. [l_id r]]"
  "\<lambda>w l. hasId b_id (boards w) (l_boardId l)" "\<lambda>_. labelRow" "\<lambda>l. pl_color l \<noteq> InheritedMember" writeLabels
  by unfold_locales (auto simp: writeLabels_def list_all_iff list_ex_iff)

interpretation tasksT: table_writer tasks "\<lambda>rows w. w\<lparr>tasks := rows\<rparr>" "[\<lambda>r. [t_id r]]"
  "\<lambda>w t. hasId b_id (boards w) (t_boardId t) \<and> hasId u_id (users w) (t_createdById t)
    \<and> list_ex (\<lambda>c. c_boardId c = t_boardId t \<and> c_id c = t_columnId t) (columns w)"
  "\<lambda>w. taskRow (w_now w)" "\<lambda>_. True" writeTasks
  by unfold_locales (simp_all add: writeTasks_def)

interpretation taskLabelsT: table_writer taskLabels "\<lambda>rows w. w\<lparr>taskLabels := rows\<rparr>"
  "[\<lambda>r. [tl_id r], \<lambda>r. [tl_taskId r, tl_labelId r]]"
  "\<lambda>w tl. hasId t_id (tasks w) (tl_taskId tl) \<and> hasId l_id (labels w) (tl_labelId tl)" "\<lambda>_ r. r" "\<lambda>_. True" writeTaskLabels
  by unfold_locales (simp_all add: writeTaskLabels_def)

interpretation checklistsT: table_writer checklists "\<lambda>rows w. w\<lparr>checklists := rows\<rparr>" "[\<lambda>r. [cl_id r]]"
  "\<lambda>w cl. hasId t_id (tasks w) (cl_taskId cl)" "\<lambda>_ r. r" "\<lambda>_. True" writeChecklists
  by unfold_locales (simp_all add: writeChecklists_def)

interpretation itemsT: table_writer checklistItems "\<lambda>rows w. w\<lparr>checklistItems := rows\<rparr>" "[\<lambda>r. [ci_id r]]"
  "\<lambda>w ci. hasId cl_id (checklists w) (ci_checklistId ci)" "\<lambda>_ r. r" "\<lambda>_. True" writeItems
  by unfold_locales (simp_all add: writeItems_def)

interpretation attachmentsT: table_writer attachments "\<lambda>rows w. w\<lparr>attachments := rows\<rparr>" "[\<lambda>r. [at_id r]]"
  "\<lambda>w a. hasId t_id (tasks w) (at_taskId a) \<and> hasId u_id (users w) (at_uploadedById a)"
  "\<lambda>w. attachmentRow (w_now w)" "\<lambda>_. True" writeAttachments
  by unfold_locales (simp_all add: writeAttachments_def)

subsection \<open>No constraint is violated\<close>

definition sideIds :: "world \<Rightarrow> uuid set" where
  "sideIds w = tl_id ` set (taskLabels w) \<union> at_id ` set (attachments w) \<union> cl_id ` set (checklists w)
     \<union> ci_id ` set (checklistItems w)"

definition importReady :: "world \<Rightarrow> bool" where
  \<comment> \<open>\<open>wellFormed\<close>, and the same of the tables a task owns\<close>
  "importReady w \<longleftrightarrow> wellFormed w
     \<and> distinct (map tl_id (taskLabels w)) \<and> distinct (map at_id (attachments w))
     \<and> distinct (map cl_id (checklists w)) \<and> distinct (map ci_id (checklistItems w))
     \<and> distinct (map (\<lambda>r. [tl_taskId r, tl_labelId r]) (taskLabels w))
     \<and> (\<forall>tl \<in> set (taskLabels w). tl_taskId tl \<in> t_id ` set (tasks w))
     \<and> (\<forall>n. w_seq w \<le> n \<longrightarrow> w_uuid w n \<notin> sideIds w)"

lemma distinct_singletons: "distinct (map (\<lambda>r. [f r]) xs) \<longleftrightarrow> distinct (map f xs)"
  by (induction xs) auto

lemma distinct_fresh:
  assumes "distinct (map f xs)" and "issued ids k n (map f ys)" and "\<And>m. k \<le> m \<Longrightarrow> ids m \<notin> f ` set xs"
  shows "distinct (map (\<lambda>r. [f r]) (xs @ ys))"
proof -
  have new: "f y \<notin> f ` set xs" if y: "y \<in> set ys" for y
  proof -
    have "f y \<in> ids ` {k..<n}" using assms(2) y by (auto simp: issued_def)
    then obtain m where "f y = ids m" "k \<le> m" by auto
    with assms(3) show ?thesis by simp
  qed
  have "set (map f xs) \<inter> set (map f ys) = {}"
  proof (rule equals0I)
    fix z assume "z \<in> set (map f xs) \<inter> set (map f ys)"
    then have z: "z \<in> f ` set xs" "z \<in> f ` set ys" by simp_all
    from z(2) obtain y where "z = f y" "y \<in> set ys" by (rule imageE)
    with new z(1) show False by simp
  qed
  with assms(1,2) have "distinct (map f (xs @ ys))" by (simp add: issued_def)
  then show ?thesis by (simp only: distinct_singletons)
qed

lemma map_rows [simp]:
  "map c_id (map columnRow cs) = map pc_id cs" "map l_id (map labelRow ls) = map pl_id ls"
  "map t_id (map (taskRow now) ts) = map pt_id ts" "map at_id (map (attachmentRow now) xs) = map pa_id xs"
  by (simp_all add: columnRow_def labelRow_def taskRow_def attachmentRow_def)

lemma issued_range:
  assumes "inj ids" and "seq + 1 \<le> k"
  shows "issued ids (seq + 1) (k + n) (map (\<lambda>i. ids (k + i)) [0..<n])"
  using issued_distinct [OF assms(1)] assms(2) by (auto simp: issued_def)

lemma stage_ids_issued:
  assumes inj: "inj ids"
  shows "\<exists>n. issued ids (seq + 1) n (map pc_id (stageColumns ids seq read))"
    and "\<exists>n. issued ids (seq + 1) n (map pl_id (stageLabels ids seq read))"
  unfolding stageColumns_ids stageLabels_ids
  using issued_range [OF inj, of seq "seq + 1"] issued_range [OF inj, of seq "seq + 1 + length (stageColumns ids seq read)"]
  by (blast, simp) blast

lemma stage_boards:
  "c \<in> set (stageColumns ids seq read) \<Longrightarrow> pc_boardId c = ids seq"
  "l \<in> set (stageLabels ids seq read) \<Longrightarrow> pl_boardId l = ids seq"
  by (auto simp: stageColumns_def planColumns_def stageLabels_def planLabels_def)

definition afterImport :: "uuid \<Rightarrow> TrelloImportPlan \<Rightarrow> world \<Rightarrow> world" where
  \<comment> \<open>the tables with the rows of the plan at the end of each\<close>
  "afterImport workspaceId plan w = w\<lparr>
     boards := boards w @ [\<lparr>b_id = pb_id (ip_board plan), b_workspaceId = workspaceId, b_name = pb_name (ip_board plan),
       b_description = pb_description (ip_board plan), b_createdAt = w_now w\<rparr>],
     columns := columns w @ map columnRow (ip_columns plan), labels := labels w @ map labelRow (ip_labels plan),
     tasks := tasks w @ map (taskRow (w_now w)) (ip_tasks plan), taskLabels := taskLabels w @ ip_taskLabels plan,
     checklists := checklists w @ ip_checklists plan, checklistItems := checklistItems w @ ip_checklistItems plan,
     attachments := attachments w @ map (attachmentRow (w_now w)) (ip_attachments plan)\<rparr>"

lemma hasId_iff: "hasId f rows k \<longleftrightarrow> k \<in> f ` set rows"
  by (auto simp: list_ex_iff)

lemma pairs_fresh:
  assumes old: "distinct (map (\<lambda>r. [tl_taskId r, tl_labelId r]) xs)" "\<forall>tl \<in> set xs. tl_taskId tl \<in> T"
    and new: "distinct (map (\<lambda>r. [tl_taskId r, tl_labelId r]) ys)" "\<forall>tl \<in> set ys. tl_taskId tl \<in> U"
    and "T \<inter> U = {}"
  shows "distinct (map (\<lambda>r. [tl_taskId r, tl_labelId r]) (xs @ ys))"
proof -
  have "set (map (\<lambda>r. [tl_taskId r, tl_labelId r]) xs) \<inter> set (map (\<lambda>r. [tl_taskId r, tl_labelId r]) ys) = {}"
  proof (rule equals0I)
    fix z assume "z \<in> set (map (\<lambda>r. [tl_taskId r, tl_labelId r]) xs) \<inter> set (map (\<lambda>r. [tl_taskId r, tl_labelId r]) ys)"
    then obtain a b where "a \<in> set xs" "b \<in> set ys" "tl_taskId a = tl_taskId b" by auto
    with old(2) new(2) assms(5) show False by auto
  qed
  with old(1) new(1) show ?thesis by simp
qed

lemma draftOk_issued:
  assumes "draftOk ids sc d"
  shows "issued ids (sc_start sc) (dr_seq d) (map pt_id (dr_tasks d))"
    "issued ids (sc_start sc) (dr_seq d) (map tl_id (dr_taskLabels d))"
    "issued ids (sc_start sc) (dr_seq d) (map pa_id (dr_attachments d))"
    "issued ids (sc_start sc) (dr_seq d) (map cl_id (dr_checklists d))"
    "issued ids (sc_start sc) (dr_seq d) (map ci_id (dr_items d))"
  using assms by (simp_all add: draftOk_def)

lemma draftOk_refers:
  assumes "draftOk ids sc d"
  shows "t \<in> set (dr_tasks d) \<Longrightarrow> pt_columnId t \<in> sc_columns sc \<and> pt_boardId t = sc_board sc \<and> pt_createdById t = sc_actor sc"
    "r \<in> set (dr_taskLabels d) \<Longrightarrow> tl_taskId r \<in> pt_id ` set (dr_tasks d) \<and> tl_labelId r \<in> sc_labels sc"
    "a \<in> set (dr_attachments d) \<Longrightarrow> pa_taskId a \<in> pt_id ` set (dr_tasks d) \<and> pa_uploadedById a = sc_actor sc"
    "cl \<in> set (dr_checklists d) \<Longrightarrow> cl_taskId cl \<in> pt_id ` set (dr_tasks d)"
    "ci \<in> set (dr_items d) \<Longrightarrow> ci_checklistId ci \<in> cl_id ` set (dr_checklists d)"
    "distinct (map (\<lambda>tl. [tl_taskId tl, tl_labelId tl]) (dr_taskLabels d))"
  using assms by (simp_all add: draftOk_def)

lemma writePlan_ok:
  assumes ready: "importReady w" and ws: "workspaceId \<in> ws_id ` set (workspaces w)" and actor: "actorId \<in> u_id ` set (users w)"
    and colours: "\<forall>la \<in> set (tex_labels (rr_source read)). cm_slot (trelloColorToSlot (tla_color la)) \<noteq> InheritedMember"
    and plan: "planTrelloImport (w_uuid w) newDate newUrl (w_seq w) read actorId = (plan, seq')"
  shows "writePlan workspaceId actorId plan (w\<lparr>w_seq := seq'\<rparr>) =
    (Inr (), logActivity workspaceId None actorId BoardImported
       [(''boardId'', JString (pb_id (ip_board plan))), (''name'', JString (pb_name (ip_board plan))),
        (''source'', JString (js ''trello'')), (''imported'', importedJson (importedCounts plan)),
        (''skippedTotal'', json_int (skippedTotal (ip_skipped plan)))]
       (afterImport workspaceId plan (w\<lparr>w_seq := seq'\<rparr>)))"
proof -
  let ?ids = "w_uuid w" and ?seq = "w_seq w"
  let ?d = "stageTasks ?ids newDate newUrl ?seq read actorId"
  let ?k = "stageChecklists ?ids newDate newUrl ?seq read actorId"
  have inj: "inj ?ids" and used: "\<And>n. ?seq \<le> n \<Longrightarrow> ?ids n \<notin> usedIds w" and side: "\<And>n. ?seq \<le> n \<Longrightarrow> ?ids n \<notin> sideIds w"
    using ready by (auto simp: importReady_def wellFormed_def)
  note wf = wellFormedD [of w] note old = ready [unfolded importReady_def]
  have rows: "pb_id (ip_board plan) = ?ids ?seq" "ip_columns plan = stageColumns ?ids ?seq read"
    "ip_labels plan = stageLabels ?ids ?seq read" "ip_tasks plan = dr_tasks ?d" "ip_taskLabels plan = dr_taskLabels ?d"
    "ip_checklists plan = dr_checklists ?k" "ip_checklistItems plan = dr_items ?k" "ip_attachments plan = dr_attachments ?d"
    using plan by (auto simp: planTrelloImport_eq)
  have d: "draftOk ?ids (planScope ?ids ?seq read actorId) ?d" by (rule stageTasks_ok [OF inj])
  have k: "draftOk ?ids (planScope ?ids ?seq read actorId) ?k" and kd: "dr_tasks ?k = dr_tasks ?d"
    using stageChecklists_ok [OF inj] by blast+
  obtain nc where cols: "issued ?ids (?seq + 1) nc (map c_id (map columnRow (ip_columns plan)))"
    using stage_ids_issued(1) [OF inj] by (simp only: rows map_rows) blast
  obtain nl where labs: "issued ?ids (?seq + 1) nl (map l_id (map labelRow (ip_labels plan)))"
    using stage_ids_issued(2) [OF inj] by (simp only: rows map_rows) blast
  have tsks: "issued ?ids (?seq + 1) (dr_seq ?d) (map t_id (map (taskRow (w_now w)) (ip_tasks plan)))"
    and tlbs: "issued ?ids (?seq + 1) (dr_seq ?d) (map tl_id (ip_taskLabels plan))"
    and chks: "issued ?ids (?seq + 1) (dr_seq ?k) (map cl_id (ip_checklists plan))"
    and itms: "issued ?ids (?seq + 1) (dr_seq ?k) (map ci_id (ip_checklistItems plan))"
    and atts: "issued ?ids (?seq + 1) (dr_seq ?d) (map at_id (map (attachmentRow (w_now w)) (ip_attachments plan)))"
    using draftOk_issued [OF d] draftOk_issued [OF k] by (simp_all only: rows map_rows planScope_sel)
  have free: "?ids m \<notin> c_id ` set (columns w)" "?ids m \<notin> l_id ` set (labels w)" "?ids m \<notin> t_id ` set (tasks w)"
    "?ids m \<notin> tl_id ` set (taskLabels w)" "?ids m \<notin> cl_id ` set (checklists w)"
    "?ids m \<notin> ci_id ` set (checklistItems w)" "?ids m \<notin> at_id ` set (attachments w)" if "?seq + 1 \<le> m" for m
    using used [of m] side [of m] that by (simp_all add: usedIds_def sideIds_def)
  have dist: "distinct (map c_id (columns w))" "distinct (map l_id (labels w))" "distinct (map t_id (tasks w))"
    "distinct (map tl_id (taskLabels w))" "distinct (map cl_id (checklists w))"
    "distinct (map ci_id (checklistItems w))" "distinct (map at_id (attachments w))"
    using ready by (simp_all add: importReady_def wellFormed_def)
  define w1 where "w1 = w\<lparr>w_seq := seq', boards := boards w @ [\<lparr>b_id = ?ids ?seq, b_workspaceId = workspaceId,
    b_name = pb_name (ip_board plan), b_description = pb_description (ip_board plan), b_createdAt = w_now w\<rparr>]\<rparr>"
  define w2 where "w2 = w1\<lparr>columns := columns w @ map columnRow (ip_columns plan)\<rparr>"
  define w3 where "w3 = w2\<lparr>labels := labels w @ map labelRow (ip_labels plan)\<rparr>"
  define w4 where "w4 = w3\<lparr>tasks := tasks w @ map (taskRow (w_now w)) (ip_tasks plan)\<rparr>"
  define w5 where "w5 = w4\<lparr>taskLabels := taskLabels w @ ip_taskLabels plan\<rparr>"
  define w6 where "w6 = w5\<lparr>checklists := checklists w @ ip_checklists plan\<rparr>"
  define w7 where "w7 = w6\<lparr>checklistItems := checklistItems w @ ip_checklistItems plan\<rparr>"
  define w8 where "w8 = w7\<lparr>attachments := attachments w @ map (attachmentRow (w_now w)) (ip_attachments plan)\<rparr>"
  note W = w1_def w2_def w3_def w4_def w5_def w6_def w7_def w8_def
  have "?ids ?seq \<notin> b_id ` set (boards w)" "distinct (map b_id (boards w))"
    using used [of ?seq] ready by (simp_all add: usedIds_def importReady_def wellFormed_def)
  then have s1: "writeBoard workspaceId (ip_board plan) (w\<lparr>w_seq := seq'\<rparr>) = (Inr (), w1)"
    using ws by (simp add: writeBoard_def createMany_def Let_def distinct_singletons rows hasId_iff w1_def)
  have key_cols: "distinct (map (\<lambda>r. [c_id r]) (columns w @ map columnRow (ip_columns plan)))"
    by (rule distinct_fresh [OF dist(1) cols free(1)])
  have key_labs: "distinct (map (\<lambda>r. [l_id r]) (labels w @ map labelRow (ip_labels plan)))"
    by (rule distinct_fresh [OF dist(2) labs free(2)])
  have key_tsks: "distinct (map (\<lambda>r. [t_id r]) (tasks w @ map (taskRow (w_now w)) (ip_tasks plan)))"
    by (rule distinct_fresh [OF dist(3) tsks free(3)])
  have key_tlbs: "distinct (map (\<lambda>r. [tl_id r]) (taskLabels w @ ip_taskLabels plan))"
    by (rule distinct_fresh [OF dist(4) tlbs free(4)])
  have key_chks: "distinct (map (\<lambda>r. [cl_id r]) (checklists w @ ip_checklists plan))"
    by (rule distinct_fresh [OF dist(5) chks free(5)])
  have key_itms: "distinct (map (\<lambda>r. [ci_id r]) (checklistItems w @ ip_checklistItems plan))"
    by (rule distinct_fresh [OF dist(6) itms free(6)])
  have key_atts: "distinct (map (\<lambda>r. [at_id r]) (attachments w @ map (attachmentRow (w_now w)) (ip_attachments plan)))"
    by (rule distinct_fresh [OF dist(7) atts free(7)])
  have fresh_tasks: "t_id ` set (tasks w) \<inter> pt_id ` set (ip_tasks plan) = {}"
  proof (rule equals0I)
    fix z assume "z \<in> t_id ` set (tasks w) \<inter> pt_id ` set (ip_tasks plan)"
    then have z: "z \<in> t_id ` set (tasks w)" "z \<in> set (map pt_id (ip_tasks plan))" by simp_all
    from tsks obtain n where "set (map pt_id (ip_tasks plan)) \<subseteq> ?ids ` {?seq + 1..<n}"
      by (auto simp only: issued_def map_rows)
    with z(2) obtain m where "z = ?ids m" "?seq + 1 \<le> m" by (meson atLeastLessThan_iff imageE subsetD)
    with free(3) z(1) show False by simp
  qed
  have key_pairs: "distinct (map (\<lambda>r. [tl_taskId r, tl_labelId r]) (taskLabels w @ ip_taskLabels plan))"
  proof (rule pairs_fresh [OF _ _ _ _ fresh_tasks])
    show "distinct (map (\<lambda>r. [tl_taskId r, tl_labelId r]) (ip_taskLabels plan))"
      using draftOk_refers(6) [OF d] by (simp only: rows)
    show "\<forall>tl \<in> set (ip_taskLabels plan). tl_taskId tl \<in> pt_id ` set (ip_tasks plan)"
      using draftOk_refers(2) [OF d] by (simp add: rows)
  qed (use old in simp_all)
  have s2: "inChunks writeColumns (ip_columns plan) w1 = (Inr (), w2)"
  proof -
    have w: "columns w1 = columns w" "boards w1 = boards w @ [\<lparr>b_id = ?ids ?seq, b_workspaceId = workspaceId,
      b_name = pb_name (ip_board plan), b_description = pb_description (ip_board plan), b_createdAt = w_now w\<rparr>]"
      by (simp_all add: w1_def)
    have "list_all (\<lambda>c. hasId b_id (boards w1) (c_boardId c)) (map columnRow (ip_columns plan))"
      by (auto simp: list_all_iff w hasId_iff columnRow_def rows stage_boards)
    then show ?thesis
      using columnsT.chunks_ok [of "ip_columns plan" w1] key_cols
      by (simp add: w2_def w list.pred_True del: map_append map_map)
  qed
  have boards1: "?ids ?seq \<in> b_id ` set (boards w1)" by (simp add: w1_def)
  have s3: "inChunks writeLabels (ip_labels plan) w2 = (Inr (), w3)"
  proof -
    have w: "labels w2 = labels w" "boards w2 = boards w1" by (simp_all add: w1_def w2_def)
    have ok: "list_all (\<lambda>l. pl_color l \<noteq> InheritedMember) (ip_labels plan)"
      using colours by (auto simp: list_all_iff rows stageLabels_def planLabels_def in_set_enumerate_eq)
    have "list_all (\<lambda>l. hasId b_id (boards w2) (l_boardId l)) (map labelRow (ip_labels plan))"
      using boards1 by (auto simp: list_all_iff w hasId_iff labelRow_def rows stage_boards)
    then show ?thesis
      using labelsT.chunks_ok [OF ok, of w2] key_labs by (simp add: w3_def w del: map_append map_map)
  qed
  have s4: "inChunks writeTasks (ip_tasks plan) w3 = (Inr (), w4)"
  proof -
    have w: "tasks w3 = tasks w" "boards w3 = boards w1" "users w3 = users w" "w_now w3 = w_now w"
      "columns w3 = columns w @ map columnRow (ip_columns plan)" by (simp_all add: w1_def w2_def w3_def)
    have "\<exists>c \<in> set (columns w3). c_boardId c = ?ids ?seq \<and> c_id c = pt_columnId t" if "t \<in> set (ip_tasks plan)" for t
    proof -
      have "pt_columnId t \<in> pc_id ` set (ip_columns plan)" using draftOk_refers(1) [OF d, of t] that by (simp add: rows)
      then obtain c where "c \<in> set (ip_columns plan)" "pc_id c = pt_columnId t" by (metis imageE)
      moreover from this(1) have "columnRow c \<in> set (columns w3)" by (simp add: w)
      ultimately show ?thesis
        by (intro bexI [of _ "columnRow c"]) (simp_all add: columnRow_def rows stage_boards)
    qed
    then have "list_all (\<lambda>t. hasId b_id (boards w3) (t_boardId t) \<and> hasId u_id (users w3) (t_createdById t)
        \<and> list_ex (\<lambda>c. c_boardId c = t_boardId t \<and> c_id c = t_columnId t) (columns w3)) (map (taskRow (w_now w3)) (ip_tasks plan))"
      using boards1 actor draftOk_refers(1) [OF d]
      by (auto simp: list_all_iff list_ex_iff [of _ "columns w3"] w(2,3) hasId_iff taskRow_def rows)
    then show ?thesis
      using tasksT.chunks_ok [of "ip_tasks plan" w3] key_tsks by (simp add: w4_def w list.pred_True del: map_append map_map)
  qed
  have tasks4: "t_id ` set (tasks w4) = t_id ` set (tasks w) \<union> pt_id ` set (dr_tasks ?d)"
    by (simp add: w4_def rows image_Un image_image taskRow_def)
  have s5: "inChunks writeTaskLabels (ip_taskLabels plan) w4 = (Inr (), w5)"
  proof -
    have w: "taskLabels w4 = taskLabels w" "labels w4 = labels w @ map labelRow (ip_labels plan)"
      by (simp_all add: w1_def w2_def w3_def w4_def)
    have "tl_labelId r \<in> l_id ` set (labels w4)" if "r \<in> set (ip_taskLabels plan)" for r
      using draftOk_refers(2) [OF d, of r] that by (auto simp: w rows labelRow_def image_Un image_image)
    then have "list_all (\<lambda>r. hasId t_id (tasks w4) (tl_taskId r) \<and> hasId l_id (labels w4) (tl_labelId r)) (ip_taskLabels plan)"
      using draftOk_refers(2) [OF d] by (simp add: list_all_iff hasId_iff tasks4 rows)
    then show ?thesis
      using taskLabelsT.chunks_ok [of "ip_taskLabels plan" w4] key_tlbs key_pairs
      by (simp add: w5_def w list.pred_True del: map_append)
  qed
  have s6: "inChunks writeChecklists (ip_checklists plan) w5 = (Inr (), w6)"
  proof -
    have w: "checklists w5 = checklists w" "tasks w5 = tasks w4" by (simp_all add: w1_def w2_def w3_def w4_def w5_def)
    have "list_all (\<lambda>cl. hasId t_id (tasks w5) (cl_taskId cl)) (ip_checklists plan)"
      using draftOk_refers(4) [OF k] by (simp add: list_all_iff hasId_iff tasks4 w rows kd)
    then show ?thesis
      using checklistsT.chunks_ok [of "ip_checklists plan" w5] key_chks by (simp add: w6_def w list.pred_True del: map_append)
  qed
  have s7: "inChunks writeItems (ip_checklistItems plan) w6 = (Inr (), w7)"
  proof -
    have w: "checklistItems w6 = checklistItems w" "checklists w6 = checklists w @ ip_checklists plan"
      by (simp_all add: w1_def w2_def w3_def w4_def w5_def w6_def)
    have "list_all (\<lambda>ci. hasId cl_id (checklists w6) (ci_checklistId ci)) (ip_checklistItems plan)"
      using draftOk_refers(5) [OF k] by (simp add: list_all_iff hasId_iff w rows image_Un)
    then show ?thesis
      using itemsT.chunks_ok [of "ip_checklistItems plan" w6] key_itms by (simp add: w7_def w list.pred_True del: map_append)
  qed
  have s8: "inChunks writeAttachments (ip_attachments plan) w7 = (Inr (), w8)"
  proof -
    have w: "attachments w7 = attachments w" "tasks w7 = tasks w4" "users w7 = users w" "w_now w7 = w_now w"
      by (simp_all add: w1_def w2_def w3_def w4_def w5_def w6_def w7_def)
    have "list_all (\<lambda>a. hasId t_id (tasks w7) (at_taskId a) \<and> hasId u_id (users w7) (at_uploadedById a))
        (map (attachmentRow (w_now w7)) (ip_attachments plan))"
      using draftOk_refers(3) [OF d] actor by (simp add: list_all_iff hasId_iff tasks4 w attachmentRow_def rows)
    then show ?thesis
      using attachmentsT.chunks_ok [of "ip_attachments plan" w7] key_atts by (simp add: w8_def w list.pred_True del: map_append map_map)
  qed
  have "w8 = afterImport workspaceId plan (w\<lparr>w_seq := seq'\<rparr>)"
    by (simp add: W afterImport_def rows)
  then show ?thesis
    by (simp add: writePlan_def bindE_def return_def recordActivity_def s1 s2 s3 s4 s5 s6 s7 s8)
qed

subsection \<open>What importing a file does\<close>

definition importReport :: "TrelloImportPlan \<Rightarrow> TrelloImportReportDto" where
  "importReport plan = \<lparr>ir_boardId = pb_id (ip_board plan), ir_boardName = pb_name (ip_board plan),
     ir_imported = importedCounts plan, ir_skipped = ip_skipped plan\<rparr>"

definition importPayload :: "TrelloImportPlan \<Rightarrow> payload" where
  "importPayload plan =
     [(''boardId'', JString (pb_id (ip_board plan))), (''name'', JString (pb_name (ip_board plan))),
      (''source'', JString (js ''trello'')), (''imported'', importedJson (importedCounts plan)),
      (''skippedTotal'', json_int (skippedTotal (ip_skipped plan)))]"

text \<open>
  C35. An export that parses is imported whole: the board and every row of the plan are appended to their
  tables in statements of at most a thousand rows, none of which violates a primary key, a unique pair or
  a foreign key, one activity is recorded, and the report counts the rows written. The database is
  well-formed, the workspace and the actor exist, and no label has the colour \<open>constructor\<close>.
\<close>

theorem import_writes_everything:
  assumes "importReady w" and "workspaceId \<in> ws_id ` set (workspaces w)" and "actorId \<in> u_id ` set (users w)"
    and parse: "parseTrelloExport bytes = Inr read"
    and "\<forall>la \<in> set (tex_labels (rr_source read)). cm_slot (trelloColorToSlot (tla_color la)) \<noteq> InheritedMember"
    and plan: "planTrelloImport (w_uuid w) (w_newDate w) newUrl (w_seq w) read actorId = (plan, seq')"
  shows "TrelloImportService_importBoard newUrl workspaceId actorId bytes w =
    (Inr (importReport plan), logActivity workspaceId None actorId BoardImported (importPayload plan)
       (afterImport workspaceId plan (w\<lparr>w_seq := seq'\<rparr>)))"
  using writePlan_ok [OF assms(1-3,5) plan]
  by (simp add: TrelloImportService_importBoard_def bindE_def lift_def parse plan transaction_def return_def
      importReport_def importPayload_def)

lemma sampleWorld_importReady: "importReady sampleWorld"
  by (simp add: importReady_def sampleWorld_wellFormed sideIds_def)
    (simp add: sampleWorld_def)

theorem import_writes_everything_witness:
  "\<exists>plan w'. TrelloImportService_importBoard (\<lambda>_. None) (js ''w1'') (js ''u1'') sampleBytes sampleWorld = (Inr (importReport plan), w')
     \<and> tasks w' = tasks sampleWorld @ map (taskRow 1000) (ip_tasks plan)
     \<and> length (activities w') = 1"
proof -
  obtain plan seq' where plan: "planTrelloImport (w_uuid sampleWorld) (w_newDate sampleWorld) (\<lambda>_. None) (w_seq sampleWorld)
      sampleRead (js ''u1'') = (plan, seq')" by fastforce
  have "js_lower (js ''green'') = js ''green''" by (simp add: js_lower_def)
  then have "\<forall>la \<in> set (tex_labels (rr_source sampleRead)). cm_slot (trelloColorToSlot (tla_color la)) \<noteq> InheritedMember"
    by (simp add: sampleRead_def trelloColorToSlot_def colorLookup_def TRELLO_COLOR_TO_SLOT_def Let_def)
  moreover have "js ''w1'' \<in> ws_id ` set (workspaces sampleWorld)" "js ''u1'' \<in> u_id ` set (users sampleWorld)"
    by (simp_all add: sampleWorld_def)
  ultimately have run: "TrelloImportService_importBoard (\<lambda>_. None) (js ''w1'') (js ''u1'') sampleBytes sampleWorld =
      (Inr (importReport plan), logActivity (js ''w1'') None (js ''u1'') BoardImported (importPayload plan)
        (afterImport (js ''w1'') plan (sampleWorld\<lparr>w_seq := seq'\<rparr>)))"
    by (intro import_writes_everything [OF sampleWorld_importReady _ _ sample_export _ plan])
  have facts: "w_now sampleWorld = 1000" "activities sampleWorld = []" by (simp_all add: sampleWorld_def)
  show ?thesis
    by (intro exI conjI, rule run) (simp_all add: afterImport_def logActivity_def tick_def facts)
qed

lemma bindE_fails: "(\<And>a w'. is_error (fst (f a w'))) \<Longrightarrow> is_error (fst (bindE m f w))"
  by (cases "m w") (auto simp: bindE_def split: sum.splits)

lemma bindE_stops: "is_error (fst (m w)) \<Longrightarrow> is_error (fst (bindE m f w))"
  by (cases "m w"; cases "fst (m w)") (simp_all add: bindE_def)

lemma transaction_stops: "is_error (fst (m w)) \<Longrightarrow> is_error (fst (transaction m w))"
  by (cases "m w"; cases "fst (m w)") (simp_all add: transaction_def)

lemma forEach_fails:
  assumes "c \<in> set cs" and "\<And>w. is_error (fst (f c w))"
  shows "is_error (fst (forEach f cs w))"
  using assms(1)
proof (induction cs arbitrary: w)
  case (Cons c' cs)
  show ?case
  proof (cases "c = c'")
    case True
    obtain r w' where r: "f c w = (r, w')" by fastforce
    with assms(2) [of w] obtain e where "r = Inl e" by (cases r) auto
    with r True show ?thesis by (simp add: bindE_def)
  next
    case False
    with Cons show ?thesis by (auto intro: bindE_fails)
  qed
qed simp

text \<open>
  C40. A label whose colour is \<open>constructor\<close> makes the import fail: the colour table is an object literal,
  so looking that name up finds the function that every object inherits instead of nothing, the label is
  given it as its colour, and the client refuses the statement. A colour nobody knows was meant to fall back
  to the first slot and be reported.
\<close>

theorem constructor_colour_fails:
  assumes parse: "parseTrelloExport bytes = Inr read" and la: "la \<in> set (tex_labels (rr_source read))"
    and colour: "tla_color la = Some (js ''constructor'')"
  shows "is_error (fst (TrelloImportService_importBoard newUrl workspaceId actorId bytes w))"
proof -
  obtain plan seq' where plan: "planTrelloImport (w_uuid w) (w_newDate w) newUrl (w_seq w) read actorId = (plan, seq')" by fastforce
  obtain i where i: "i < length (tex_labels (rr_source read))" "tex_labels (rr_source read) ! i = la"
    using la by (auto simp: in_set_conv_nth)
  define l where "l = stageLabels (w_uuid w) (w_seq w) read ! i"
  have "colorLookup (hd (splitOn 0x5F (js_lower (js ''constructor'')))) = Some InheritedMember"
    by (simp add: js_lower_def colorLookup_def TRELLO_COLOR_TO_SLOT_def)
  then have "cm_slot (trelloColorToSlot (tla_color la)) = InheritedMember"
    by (simp add: trelloColorToSlot_def colour Let_def)
  then have bad: "pl_color l = InheritedMember"
    using i by (simp add: l_def stageLabels_def planLabels_nth)
  have "l \<in> set (stageLabels (w_uuid w) (w_seq w) read)" using i by (simp add: l_def stageLabels_def)
  moreover have "ip_labels plan = stageLabels (w_uuid w) (w_seq w) read" using plan by (auto simp: planTrelloImport_eq)
  ultimately have "l \<in> set (concat (chunked (ip_labels plan) IMPORT_CHUNK_SIZE))"
    by (simp add: chunked_concat IMPORT_CHUNK_SIZE_def)
  then obtain chunk where chunk: "chunk \<in> set (chunked (ip_labels plan) IMPORT_CHUNK_SIZE)" "l \<in> set chunk" by auto
  have "is_error (fst (writeLabels chunk w'))" for w'
    using chunk(2) bad by (auto simp: writeLabels_def list_ex_iff)
  with chunk(1) have "is_error (fst (inChunks writeLabels (ip_labels plan) w'))" for w'
    unfolding inChunks_def by (rule forEach_fails)
  then have "is_error (fst (writePlan workspaceId actorId plan w'))" for w'
    unfolding writePlan_def by (intro bindE_fails bindE_stops)
  then have "is_error (fst (bindE (transaction (writePlan workspaceId actorId plan)) f (w\<lparr>w_seq := seq'\<rparr>)))"
    for f :: "unit \<Rightarrow> TrelloImportReportDto handler"
    by (intro bindE_stops transaction_stops)
  moreover have "TrelloImportService_importBoard newUrl workspaceId actorId bytes w =
      bindE (transaction (writePlan workspaceId actorId plan)) (\<lambda>_. return (importReport plan)) (w\<lparr>w_seq := seq'\<rparr>)"
    by (simp add: TrelloImportService_importBoard_def bindE_def lift_def parse plan importReport_def)
  ultimately show ?thesis by simp
qed

theorem constructor_colour_fails_witness:
  "is_error (fst (TrelloImportService_importBoard (\<lambda>_. None) (js ''w1'') (js ''u1'') inheritedBytes sampleWorld))"
  by (rule constructor_colour_fails [OF inherited_export, where la = "hd (tex_labels (rr_source inheritedRead))"])
    (simp_all add: inheritedRead_def)

end
