(* ===== verification/Members.thy ===== *)
theory Members
  imports Columns Pagination
begin

section \<open>Who may enter a workspace, and who its members are\<close>

text \<open>
  \<open>common/guards\<close>, \<open>common/decorators/workspace-roles.decorator.ts\<close>, \<open>workspace/workspace-member.service.ts\<close>,
  \<open>workspace/workspace.service.ts\<close> and the error mapping of \<open>auth/better-auth-error.ts\<close>. The membership rows
  are written by Better Auth's organization plugin: \<open>auth_api\<close> holds the calls the services make as
  parameters, each taking the user of the session; the removal also takes the hook the plugin is configured
  with in \<open>auth/organization-options.ts\<close>. Nothing spans a call of the plugin and the service's own
  writes, so there is no transaction here.
\<close>

subsection \<open>Better Auth's errors (better-auth-error.ts)\<close>

datatype auth_failure = ApiError nat "string option" | OtherError http_error

definition betterAuthErrorCode :: "auth_failure \<Rightarrow> string option" where
  "betterAuthErrorCode e = (case e of ApiError _ code \<Rightarrow> code | OtherError _ \<Rightarrow> None)"

definition toHttpException :: "nat \<Rightarrow> string \<Rightarrow> http_error option" where
  "toHttpException statusCode message =
     (if statusCode = 401 then Some (Unauthorized message)
      else if statusCode = 403 then Some (Forbidden message)
      else if statusCode = 404 then Some (NotFound message)
      else if statusCode = 409 then Some (Conflict message)
      else if statusCode = 422 then Some (UnprocessableEntity message)
      else if 400 \<le> statusCode \<and> statusCode < 500 then Some (BadRequest message) else None)"

definition rethrowBetterAuthError :: "auth_failure \<Rightarrow> string \<Rightarrow> (nat \<Rightarrow> string option) \<Rightarrow> http_error" where
  \<comment> \<open>what is thrown; an \<open>APIError\<close> rethrown as it is becomes a 500\<close>
  "rethrowBetterAuthError e message statusMessages =
     (case e of
        OtherError h \<Rightarrow> h
      | ApiError statusCode code \<Rightarrow>
          (case toHttpException statusCode
              (case statusMessages statusCode of None \<Rightarrow> message | Some m \<Rightarrow> m) of
             None \<Rightarrow> InternalError ''APIError'' | Some h \<Rightarrow> h))"

type_synonym 'a auth_call = "world \<Rightarrow> (auth_failure + 'a) \<times> world"

definition attempt :: "'a auth_call \<Rightarrow> (auth_failure \<Rightarrow> http_error) \<Rightarrow> 'a handler" where
  \<comment> \<open>\<open>try { await auth.api.f(...) } catch (error) { throw ... }\<close>\<close>
  "attempt call handle w = (case call w of (Inl e, w') \<Rightarrow> (Inl (handle e), w') | (Inr a, w') \<Rightarrow> (Inr a, w'))"

subsection \<open>The organization plugin\<close>

record auth_api =
  au_createOrganization :: "uuid \<Rightarrow> js_string \<Rightarrow> js_string \<Rightarrow> workspace_row option auth_call"
  au_updateOrganization :: "uuid \<Rightarrow> uuid \<Rightarrow> js_string js_field \<Rightarrow> js_string js_field \<Rightarrow> workspace_row option auth_call"
  au_deleteOrganization :: "uuid \<Rightarrow> uuid \<Rightarrow> unit auth_call"
  au_removeMember :: "(member_row \<Rightarrow> uuid \<Rightarrow> world \<Rightarrow> world) \<Rightarrow> uuid \<Rightarrow> uuid \<Rightarrow> uuid \<Rightarrow> unit auth_call"
  au_updateMemberRole :: "uuid \<Rightarrow> uuid \<Rightarrow> member_role \<Rightarrow> uuid \<Rightarrow> unit auth_call"
  au_leaveOrganization :: "uuid \<Rightarrow> uuid \<Rightarrow> unit auth_call"

subsection \<open>Guards\<close>

record WorkspaceMembership =
  wm_id :: uuid
  wm_workspaceId :: uuid
  wm_userId :: uuid
  wm_role :: member_role

definition findMember :: "world \<Rightarrow> uuid \<Rightarrow> uuid \<Rightarrow> member_row option" where
  \<comment> \<open>\<open>workspaceMember.findUnique({ where: { workspaceId_userId } })\<close>\<close>
  "findMember w workspaceId userId = find (\<lambda>m. m_workspaceId m = workspaceId \<and> m_userId m = userId) (members w)"

definition WorkspaceGuard_canActivate :: "uuid \<Rightarrow> uuid option \<Rightarrow> WorkspaceMembership handler" where
  "WorkspaceGuard_canActivate workspaceId user =
     bindE (failIf (workspaceId = []) (NotFound ''Workspace not found'')) (\<lambda>_.
     bindE (orThrow (NotFound ''Workspace not found'') (\<lambda>_. user)) (\<lambda>userId.
     bindE (orThrow (NotFound ''Workspace not found'') (\<lambda>w. findMember w workspaceId userId)) (\<lambda>membership.
     return \<lparr>wm_id = m_id membership, wm_workspaceId = m_workspaceId membership,
             wm_userId = m_userId membership, wm_role = m_role membership\<rparr>)))"

definition RolesGuard_canActivate :: "member_role list \<Rightarrow> WorkspaceMembership \<Rightarrow> unit handler" where
  "RolesGuard_canActivate required membership =
     (if required = [] then return ()
      else failIf (wm_role membership \<notin> set required) (Forbidden ''Insufficient role for this action''))"

definition CONTENT_ROLES :: "member_role list" where
  "CONTENT_ROLES = [OWNER, ADMIN, MEMBER]"

definition ADMIN_ROLES :: "member_role list" where
  "ADMIN_ROLES = [OWNER, ADMIN]"

definition WorkspaceScoped :: "uuid \<Rightarrow> uuid option \<Rightarrow> (WorkspaceMembership \<Rightarrow> 'a handler) \<Rightarrow> 'a handler" where
  \<comment> \<open>the decorator in front of a route's handler\<close>
  "WorkspaceScoped workspaceId user h = bindE (WorkspaceGuard_canActivate workspaceId user) h"

definition WorkspaceRoles ::
  "member_role list \<Rightarrow> uuid \<Rightarrow> uuid option \<Rightarrow> (WorkspaceMembership \<Rightarrow> 'a handler) \<Rightarrow> 'a handler" where
  "WorkspaceRoles roles workspaceId user h =
     bindE (WorkspaceGuard_canActivate workspaceId user) (\<lambda>membership.
     bindE (RolesGuard_canActivate roles membership) (\<lambda>_. h membership))"

subsection \<open>workspace-member.mapper.ts\<close>

record MemberRow =
  mr_member :: member_row
  mr_user :: user_row

record WorkspaceMemberDto =
  wd_id :: uuid
  wd_workspaceId :: uuid
  wd_userId :: uuid
  wd_role :: member_role
  wd_name :: js_string
  wd_avatarUrl :: "js_string option"

definition memberInclude :: "world \<Rightarrow> member_row \<Rightarrow> MemberRow option" where
  \<comment> \<open>the user of a member exists, by a restricting foreign key\<close>
  "memberInclude w m = map_option (\<lambda>u. \<lparr>mr_member = m, mr_user = u\<rparr>) (find (\<lambda>u. u_id u = m_userId m) (users w))"

definition toMemberDto :: "MemberRow \<Rightarrow> WorkspaceMemberDto" where
  "toMemberDto row =
     \<lparr>wd_id = m_id (mr_member row), wd_workspaceId = m_workspaceId (mr_member row),
      wd_userId = m_userId (mr_member row), wd_role = m_role (mr_member row),
      wd_name = u_name (mr_user row), wd_avatarUrl = u_avatarUrl (mr_user row)\<rparr>"

subsection \<open>workspace-member.service.ts\<close>

definition LAST_OWNER_CODES :: "string list" where
  "LAST_OWNER_CODES = [''YOU_CANNOT_LEAVE_THE_ORGANIZATION_AS_THE_ONLY_OWNER'',
     ''YOU_CANNOT_LEAVE_THE_ORGANIZATION_WITHOUT_AN_OWNER'']"

definition MEMBER_WRITE_FORBIDDEN_CODES :: "string list" where
  "MEMBER_WRITE_FORBIDDEN_CODES = [''YOU_ARE_NOT_ALLOWED_TO_DELETE_THIS_MEMBER'',
     ''YOU_ARE_NOT_ALLOWED_TO_UPDATE_THIS_MEMBER'']"

definition requireMember :: "uuid \<Rightarrow> uuid \<Rightarrow> MemberRow handler" where
  "requireMember workspaceId userId =
     orThrow (NotFound ''Workspace member not found'')
       (\<lambda>w. case findMember w workspaceId userId of None \<Rightarrow> None | Some m \<Rightarrow> memberInclude w m)"

definition ownerCount :: "world \<Rightarrow> uuid \<Rightarrow> nat" where
  "ownerCount w workspaceId =
     length (filter (\<lambda>m. m_workspaceId m = workspaceId \<and> m_role m = OWNER) (members w))"

definition isLastOwner :: "world \<Rightarrow> uuid \<Rightarrow> bool" where
  "isLastOwner w workspaceId \<longleftrightarrow> ownerCount w workspaceId \<le> 1"

definition rethrowMemberWriteError :: "string \<Rightarrow> string \<Rightarrow> auth_failure \<Rightarrow> http_error" where
  "rethrowMemberWriteError message lastOwnerMessage e =
     (case betterAuthErrorCode e of
        Some code \<Rightarrow>
          if code \<in> set LAST_OWNER_CODES then Conflict lastOwnerMessage
          else if code \<in> set MEMBER_WRITE_FORBIDDEN_CODES then Forbidden message
          else if code = ''MEMBER_NOT_FOUND'' then NotFound ''Workspace member not found''
          else rethrowBetterAuthError e message [404 \<mapsto> ''Workspace member not found'']
      | None \<Rightarrow> rethrowBetterAuthError e message [404 \<mapsto> ''Workspace member not found''])"

definition role_name :: "member_role \<Rightarrow> js_string" where
  "role_name r = js (case r of OWNER \<Rightarrow> ''OWNER'' | ADMIN \<Rightarrow> ''ADMIN'' | MEMBER \<Rightarrow> ''MEMBER'' | GUEST \<Rightarrow> ''GUEST'')"

definition evictUserFromWorkspaceSockets :: "uuid \<Rightarrow> uuid \<Rightarrow> world \<Rightarrow> world" where
  "evictUserFromWorkspaceSockets workspaceId userId w =
     (if w_socketServer w then w\<lparr>w_evicted := w_evicted w @ [(workspaceId, userId)]\<rparr> else w)"

definition afterRemoveMember :: "member_row \<Rightarrow> uuid \<Rightarrow> world \<Rightarrow> world" where
  \<comment> \<open>the hook of organization-options.ts that the plugin is given\<close>
  "afterRemoveMember removed organization = evictUserFromWorkspaceSockets organization (m_userId removed)"

definition WorkspaceMemberService_removeMember ::
  "auth_api \<Rightarrow> uuid \<Rightarrow> uuid \<Rightarrow> WorkspaceMembership \<Rightarrow> unit handler" where
  "WorkspaceMemberService_removeMember api workspaceId targetUserId actor =
     bindE (failIf (targetUserId = wm_userId actor)
       (BadRequest ''Use POST /workspaces/:workspaceId/members/me/leave to remove yourself'')) (\<lambda>_.
     bindE (requireMember workspaceId targetUserId) (\<lambda>target.
     bindE (if m_role (mr_member target) = OWNER
            then bindE (failIf (wm_role actor \<noteq> OWNER) (Forbidden ''Only an OWNER can remove another OWNER'')) (\<lambda>_ w.
              failIf (isLastOwner w workspaceId)
                (Conflict ''The last OWNER cannot be removed from the workspace'') w)
            else return ()) (\<lambda>_.
     bindE (attempt (au_removeMember api afterRemoveMember (wm_userId actor) (m_id (mr_member target)) workspaceId)
       (rethrowMemberWriteError ''Failed to remove the member''
          ''The last OWNER cannot be removed from the workspace'')) (\<lambda>_.
     bindE (recordActivity workspaceId None (wm_userId actor) MemberRemoved
       [(''targetUserId'', JString targetUserId), (''targetName'', JString (u_name (mr_user target))),
        (''previousRole'', JString (role_name (m_role (mr_member target)))),
        (''actorRole'', JString (role_name (wm_role actor)))]) (\<lambda>_.
     return ())))))"

definition WorkspaceMemberService_updateMemberRole ::
  "auth_api \<Rightarrow> uuid \<Rightarrow> uuid \<Rightarrow> member_role \<Rightarrow> WorkspaceMembership \<Rightarrow> WorkspaceMemberDto handler" where
  "WorkspaceMemberService_updateMemberRole api workspaceId targetUserId nextRole actor =
     bindE (requireMember workspaceId targetUserId) (\<lambda>target.
     let previous = m_role (mr_member target) in
     if previous = nextRole then return (toMemberDto target)
     else
       bindE (failIf ((previous = OWNER \<or> nextRole = OWNER) \<and> wm_role actor \<noteq> OWNER)
         (Forbidden ''Only an OWNER can change ownership'')) (\<lambda>_.
       bindE (\<lambda>w. failIf (previous = OWNER \<and> isLastOwner w workspaceId)
         (Conflict ''The last OWNER cannot be demoted; promote another OWNER first'') w) (\<lambda>_.
       bindE (attempt (au_updateMemberRole api (wm_userId actor) (m_id (mr_member target)) nextRole workspaceId)
         (rethrowMemberWriteError ''Failed to change the member role''
            ''The last OWNER cannot be demoted; promote another OWNER first'')) (\<lambda>_.
       bindE (recordActivity workspaceId None (wm_userId actor) MemberRoleChanged
         [(''targetUserId'', JString targetUserId), (''targetName'', JString (u_name (mr_user target))),
          (''previousRole'', JString (role_name previous)), (''newRole'', JString (role_name nextRole)),
          (''actorRole'', JString (role_name (wm_role actor)))]) (\<lambda>_.
       return (toMemberDto (target\<lparr>mr_member := (mr_member target)\<lparr>m_role := nextRole\<rparr>\<rparr>)))))))"

definition WorkspaceMemberService_leave :: "auth_api \<Rightarrow> uuid \<Rightarrow> WorkspaceMembership \<Rightarrow> unit handler" where
  "WorkspaceMemberService_leave api workspaceId actor =
     bindE (requireMember workspaceId (wm_userId actor)) (\<lambda>membership.
     bindE (\<lambda>w. failIf (m_role (mr_member membership) = OWNER \<and> isLastOwner w workspaceId)
       (Conflict ''The last OWNER cannot leave the workspace; transfer ownership or delete the workspace'') w) (\<lambda>_.
     bindE (attempt (au_leaveOrganization api (wm_userId actor) workspaceId)
       (rethrowMemberWriteError ''Failed to leave the workspace''
          ''The last OWNER cannot leave the workspace; transfer ownership or delete the workspace'')) (\<lambda>_.
     bindE (recordActivity workspaceId None (wm_userId actor) MemberLeft
       [(''targetUserId'', JString (wm_userId actor)), (''targetName'', JString (u_name (mr_user membership))),
        (''previousRole'', JString (role_name (m_role (mr_member membership))))]) (\<lambda>_.
     modify (evictUserFromWorkspaceSockets workspaceId (wm_userId actor))))))"

subsection \<open>workspace.service.ts\<close>

record WorkspaceDto =
  wsd_id :: uuid
  wsd_name :: js_string
  wsd_slug :: js_string
  wsd_createdAt :: js_string

definition toWorkspaceDto :: "workspace_row \<Rightarrow> WorkspaceDto" where
  "toWorkspaceDto row = \<lparr>wsd_id = ws_id row, wsd_name = ws_name row, wsd_slug = ws_slug row,
     wsd_createdAt = toISOString (ws_createdAt row)\<rparr>"

definition SLUG_CONFLICT_CODES :: "string list" where
  "SLUG_CONFLICT_CODES = [''ORGANIZATION_ALREADY_EXISTS'', ''ORGANIZATION_SLUG_ALREADY_TAKEN'']"

definition isSlugConflict :: "auth_failure \<Rightarrow> bool" where
  "isSlugConflict e =
     (case betterAuthErrorCode e of None \<Rightarrow> False | Some code \<Rightarrow> code \<in> set SLUG_CONFLICT_CODES)"

definition assertAccountNotDeleted :: "uuid \<Rightarrow> unit handler" where
  \<comment> \<open>common/deleted-account.ts\<close>
  "assertAccountNotDeleted userId w =
     failIf (case find (\<lambda>u. u_id u = userId) (users w) of None \<Rightarrow> True | Some u \<Rightarrow> u_deletedAt u \<noteq> None)
       (Unauthorized ''This account has been deleted'') w"

definition findWorkspace :: "world \<Rightarrow> uuid \<Rightarrow> workspace_row option" where
  "findWorkspace w workspaceId = find (\<lambda>ws. ws_id ws = workspaceId) (workspaces w)"

definition WorkspaceService_listForUser :: "uuid \<Rightarrow> WorkspaceDto list handler" where
  "WorkspaceService_listForUser userId =
     reads (\<lambda>w. map toWorkspaceDto (List.map_filter (\<lambda>m. findWorkspace w (m_workspaceId m))
       (sort_key m_createdAt (filter (\<lambda>m. m_userId m = userId) (members w)))))"

definition WorkspaceService_create :: "auth_api \<Rightarrow> uuid \<Rightarrow> js_string \<Rightarrow> js_string \<Rightarrow> WorkspaceDto handler" where
  "WorkspaceService_create api userId name slug =
     bindE (assertAccountNotDeleted userId) (\<lambda>_.
     bindE (\<lambda>w. failIf (list_ex (\<lambda>ws. ws_slug ws = slug) (workspaces w)) (Conflict ''Workspace slug already taken'') w) (\<lambda>_.
     bindE (attempt (au_createOrganization api userId name slug)
       (\<lambda>e. if isSlugConflict e then Conflict ''Workspace slug already taken''
            else rethrowBetterAuthError e ''Failed to create workspace'' Map.empty)) (\<lambda>created.
     case created of
       None \<Rightarrow> throw (BadRequest ''Failed to create workspace'')
     | Some row \<Rightarrow> return (toWorkspaceDto row))))"

definition WorkspaceService_getById :: "uuid \<Rightarrow> WorkspaceDto handler" where
  "WorkspaceService_getById workspaceId =
     bindE (orThrow (NotFound ''Workspace not found'') (\<lambda>w. findWorkspace w workspaceId)) (\<lambda>row.
     return (toWorkspaceDto row))"

definition WorkspaceService_update ::
  "auth_api \<Rightarrow> uuid \<Rightarrow> uuid \<Rightarrow> js_string js_field \<Rightarrow> js_string js_field \<Rightarrow> WorkspaceDto handler" where
  "WorkspaceService_update api workspaceId actorId name slug =
     bindE (reads (\<lambda>w. findWorkspace w workspaceId)) (\<lambda>before.
     bindE (\<lambda>w. failIf (case slug of Value s \<Rightarrow> list_ex (\<lambda>ws. ws_slug ws = s \<and> ws_id ws \<noteq> workspaceId) (workspaces w)
         | _ \<Rightarrow> False) (Conflict ''Workspace slug already taken'') w) (\<lambda>_.
     bindE (attempt (au_updateOrganization api actorId workspaceId name slug)
       (\<lambda>e. if isSlugConflict e then Conflict ''Workspace slug already taken''
            else rethrowBetterAuthError e ''Failed to update workspace'' [404 \<mapsto> ''Workspace not found''])) (\<lambda>res.
     case res of
       None \<Rightarrow> throw (NotFound ''Workspace not found'')
     | Some updated \<Rightarrow>
         bindE (recordActivity workspaceId None actorId WorkspaceUpdated
           [(''name'', JString (ws_name updated)), (''slug'', JString (ws_slug updated)),
            (''changes'', (case before of None \<Rightarrow> JObject []
              | Some b \<Rightarrow> fieldChanges [(''name'', JString (ws_name b), JString (ws_name updated)),
                  (''slug'', JString (ws_slug b), JString (ws_slug updated))]))]) (\<lambda>_.
         return (toWorkspaceDto updated)))))"

definition workspaceDeletedLine :: "world \<Rightarrow> uuid \<Rightarrow> uuid \<Rightarrow> (workspace_row \<times> nat \<times> nat) option \<Rightarrow> json" where
  "workspaceDeletedLine w workspaceId actorId doomed = JObject
     [(js ''ts'', JString (toISOString (w_now w))), (js ''level'', JString (js ''warn'')),
      (js ''event'', JString (js ''workspace.deleted'')), (js ''workspaceId'', JString workspaceId),
      (js ''actorId'', JString actorId),
      (js ''name'', (case doomed of None \<Rightarrow> JNull | Some (ws, _) \<Rightarrow> JString (ws_name ws))),
      (js ''slug'', (case doomed of None \<Rightarrow> JNull | Some (ws, _) \<Rightarrow> JString (ws_slug ws))),
      (js ''memberCount'', (case doomed of None \<Rightarrow> JNull | Some (_, m, _) \<Rightarrow> json_int (int m))),
      (js ''boardCount'', (case doomed of None \<Rightarrow> JNull | Some (_, _, b) \<Rightarrow> json_int (int b)))]"

definition WorkspaceService_remove :: "auth_api \<Rightarrow> uuid \<Rightarrow> uuid \<Rightarrow> unit handler" where
  "WorkspaceService_remove api workspaceId actorId =
     bindE (reads (\<lambda>w. map_option (\<lambda>ws. (ws, length (filter (\<lambda>m. m_workspaceId m = workspaceId) (members w)),
         length (filter (\<lambda>b. b_workspaceId b = workspaceId) (boards w)))) (findWorkspace w workspaceId))) (\<lambda>doomed.
     bindE (attempt (au_deleteOrganization api actorId workspaceId)
       (\<lambda>e. rethrowBetterAuthError e ''Failed to delete workspace'' [404 \<mapsto> ''Workspace not found''])) (\<lambda>_.
     modify (\<lambda>w. w\<lparr>w_log := w_log w @ [workspaceDeletedLine w workspaceId actorId doomed]\<rparr>)))"

record member_query =
  mq_cursor :: "js_string js_field"
  mq_limit :: nat

definition WorkspaceService_listMembers ::
  "uuid \<Rightarrow> member_query \<Rightarrow> (uuid, WorkspaceMemberDto) cursor_page handler" where
  \<comment> \<open>\<open>limit\<close> has its default of 100 from the query class\<close>
  "WorkspaceService_listMembers workspaceId query =
     reads (\<lambda>w. let rows = List.map_filter (memberInclude w)
         (take (mq_limit query + 1) (sort_key m_id (filter (\<lambda>m. m_workspaceId m = workspaceId
           \<and> (case mq_cursor query of Value c \<Rightarrow> c = [] \<or> c < m_id m | _ \<Rightarrow> True)) (members w))))
       in toCursorPage (\<lambda>r. m_id (mr_member r)) rows (mq_limit query) toMemberDto)"

definition WorkspaceService_getMembership :: "uuid \<Rightarrow> uuid \<Rightarrow> WorkspaceMemberDto handler" where
  "WorkspaceService_getMembership workspaceId userId =
     bindE (requireMember workspaceId userId) (\<lambda>row. return (toMemberDto row))"

end
