(* ===== verification/MemberProps.thy ===== *)
theory MemberProps
  imports Members Sample
begin

section \<open>What the membership rules promise\<close>

text \<open>
  The guards of a workspace and the membership operations branch by branch; the invariants of
  \<open>MemberSafety\<close> and the routes of \<open>Routes\<close> rest on these lemmas.
\<close>

subsection \<open>The guards\<close>

lemma WorkspaceGuard_run:
  "WorkspaceGuard_canActivate workspaceId user w =
     (case (if workspaceId = [] then None else case user of None \<Rightarrow> None | Some u \<Rightarrow> findMember w workspaceId u) of
        None \<Rightarrow> (Inl (NotFound ''Workspace not found''), w)
      | Some m \<Rightarrow> (Inr \<lparr>wm_id = m_id m, wm_workspaceId = m_workspaceId m, wm_userId = m_userId m, wm_role = m_role m\<rparr>, w))"
  by (auto simp: WorkspaceGuard_canActivate_def bindE_def failIf_def orThrow_def return_def split: option.splits)

lemma findMember_Some:
  "findMember w workspaceId u = Some m \<Longrightarrow> m \<in> set (members w) \<and> m_workspaceId m = workspaceId \<and> m_userId m = u"
  unfolding findMember_def by (auto simp: find_Some_iff)

lemma findMember_None:
  "findMember w workspaceId u = None \<longleftrightarrow> (\<forall>m \<in> set (members w). \<not> (m_workspaceId m = workspaceId \<and> m_userId m = u))"
  unfolding findMember_def find_None_iff by blast

subsection \<open>What the plugin is relied on for\<close>

text \<open>
  Better Auth's organization plugin, as documented: \<open>removeMember\<close> deletes the membership row it is given
  and then calls the hook it is given with that row, whatever the hook does, \<open>updateMemberRole\<close> sets the role of the row it is given,
  \<open>leaveOrganization\<close> deletes the row of the session's user; a call that fails writes nothing.
\<close>

definition removesMember :: "auth_api \<Rightarrow> bool" where
  "removesMember api \<longleftrightarrow> (\<forall>hook caller k org w. case au_removeMember api hook caller k org w of
      (Inl _, w') \<Rightarrow> w' = w
    | (Inr _, w') \<Rightarrow> w' = fold (\<lambda>m. hook m org) (filter (\<lambda>m. m_id m = k) (members w))
        (w\<lparr>members := filter (\<lambda>m. m_id m \<noteq> k) (members w)\<rparr>))"

definition setsRole :: "auth_api \<Rightarrow> bool" where
  "setsRole api \<longleftrightarrow> (\<forall>caller k role org w. case au_updateMemberRole api caller k role org w of
      (Inl _, w') \<Rightarrow> w' = w
    | (Inr _, w') \<Rightarrow> w' = w\<lparr>members := map (\<lambda>m. if m_id m = k then m\<lparr>m_role := role\<rparr> else m) (members w)\<rparr>)"

definition leavesOrganization :: "auth_api \<Rightarrow> bool" where
  "leavesOrganization api \<longleftrightarrow> (\<forall>caller org w. case au_leaveOrganization api caller org w of
      (Inl _, w') \<Rightarrow> w' = w
    | (Inr _, w') \<Rightarrow> w' = w\<lparr>members := filter (\<lambda>m. \<not> (m_workspaceId m = org \<and> m_userId m = caller)) (members w)\<rparr>)"

definition pluginContract :: "auth_api \<Rightarrow> bool" where
  "pluginContract api \<longleftrightarrow> removesMember api \<and> setsRole api \<and> leavesOrganization api"

definition membersOk :: "world \<Rightarrow> bool" where
  \<comment> \<open>the primary key and the unique pair of the table\<close>
  "membersOk w \<longleftrightarrow> distinct (map m_id (members w))
     \<and> distinct (map (\<lambda>m. (m_workspaceId m, m_userId m)) (members w))"

lemma spec_plugin_remove:
  "pluginContract api \<Longrightarrow> case au_removeMember api hook caller k org w of
      (Inl _, w') \<Rightarrow> w' = w
    | (Inr _, w') \<Rightarrow> w' = fold (\<lambda>m. hook m org) (filter (\<lambda>m. m_id m = k) (members w))
        (w\<lparr>members := filter (\<lambda>m. m_id m \<noteq> k) (members w)\<rparr>)"
  unfolding pluginContract_def removesMember_def by (elim conjE allE)

lemma spec_plugin_update:
  "pluginContract api \<Longrightarrow> case au_updateMemberRole api caller k role org w of
      (Inl _, w') \<Rightarrow> w' = w
    | (Inr _, w') \<Rightarrow> w' = w\<lparr>members := map (\<lambda>m. if m_id m = k then m\<lparr>m_role := role\<rparr> else m) (members w)\<rparr>"
  unfolding pluginContract_def setsRole_def by (elim conjE allE)

lemma spec_plugin_leave:
  "pluginContract api \<Longrightarrow> case au_leaveOrganization api caller org w of
      (Inl _, w') \<Rightarrow> w' = w
    | (Inr _, w') \<Rightarrow> w' = w\<lparr>members := filter (\<lambda>m. \<not> (m_workspaceId m = org \<and> m_userId m = caller)) (members w)\<rparr>"
  unfolding pluginContract_def leavesOrganization_def by (elim conjE allE)

lemma plugin_remove:
  assumes "pluginContract api" and "au_removeMember api hook caller k org w = (r, w')"
  shows "w' = (case r of Inl _ \<Rightarrow> w | Inr _ \<Rightarrow> fold (\<lambda>m. hook m org)
    (filter (\<lambda>m. m_id m = k) (members w)) (w\<lparr>members := filter (\<lambda>m. m_id m \<noteq> k) (members w)\<rparr>))"
  using spec_plugin_remove [OF assms(1), where hook = hook and caller = caller and k = k and org = org and w = w] assms(2) by (cases r) simp_all

lemma plugin_update:
  assumes "pluginContract api" and "au_updateMemberRole api caller k role org w = (r, w')"
  shows "w' = (case r of Inl _ \<Rightarrow> w
    | Inr _ \<Rightarrow> w\<lparr>members := map (\<lambda>m. if m_id m = k then m\<lparr>m_role := role\<rparr> else m) (members w)\<rparr>)"
  using spec_plugin_update [OF assms(1), where caller = caller and k = k and role = role and org = org and w = w] assms(2) by (cases r) simp_all

lemma plugin_leave:
  assumes "pluginContract api" and "au_leaveOrganization api caller org w = (r, w')"
  shows "w' = (case r of Inl _ \<Rightarrow> w
    | Inr _ \<Rightarrow> w\<lparr>members := filter (\<lambda>m. \<not> (m_workspaceId m = org \<and> m_userId m = caller)) (members w)\<rparr>)"
  using spec_plugin_leave [OF assms(1), where caller = caller and org = org and w = w] assms(2) by (cases r) simp_all

lemma plugin_fails:
  "pluginContract api \<Longrightarrow> au_removeMember api hook caller k org w = (Inl e, w') \<Longrightarrow> w' = w"
  "pluginContract api \<Longrightarrow> au_updateMemberRole api caller k role org w = (Inl e, w') \<Longrightarrow> w' = w"
  "pluginContract api \<Longrightarrow> au_leaveOrganization api caller org w = (Inl e, w') \<Longrightarrow> w' = w"
  by (drule (1) plugin_remove, simp) (drule (1) plugin_update, simp, drule (1) plugin_leave, simp)

lemma evict_frame [simp]:
  "members (evictUserFromWorkspaceSockets ws u w) = members w"
  "activities (evictUserFromWorkspaceSockets ws u w) = activities w"
  "w_socketServer (evictUserFromWorkspaceSockets ws u w) = w_socketServer w"
  "w_evicted (evictUserFromWorkspaceSockets ws u w) = w_evicted w @ (if w_socketServer w then [(ws, u)] else [])"
  by (simp_all add: evictUserFromWorkspaceSockets_def)

lemma logActivity_members [simp]:
  "members (logActivity ws t u ty p w) = members w" "w_evicted (logActivity ws t u ty p w) = w_evicted w"
  "w_socketServer (logActivity ws t u ty p w) = w_socketServer w"
  "activities (logActivity ws t u ty p w) = activities w @ [activityRow w ws t u ty p]"
  by (simp_all add: logActivity_def tick_def)

subsection \<open>One request\<close>

datatype member_request = RemoveMember uuid uuid | UpdateMemberRole uuid uuid member_role | LeaveWorkspace uuid

fun handleMember :: "auth_api \<Rightarrow> uuid \<Rightarrow> member_request \<Rightarrow> unit handler" where
  \<comment> \<open>the three routes of workspace.controller.ts, with their guards; the body of the response is dropped\<close>
  "handleMember api user (RemoveMember workspaceId target) =
     WorkspaceRoles ADMIN_ROLES workspaceId (Some user) (WorkspaceMemberService_removeMember api workspaceId target)"
| "handleMember api user (UpdateMemberRole workspaceId target role) =
     WorkspaceRoles ADMIN_ROLES workspaceId (Some user) (\<lambda>membership.
       bindE (WorkspaceMemberService_updateMemberRole api workspaceId target role membership) (\<lambda>_. return ()))"
| "handleMember api user (LeaveWorkspace workspaceId) =
     WorkspaceScoped workspaceId (Some user) (WorkspaceMemberService_leave api workspaceId)"

fun requestWorkspace :: "member_request \<Rightarrow> uuid" where
  "requestWorkspace (RemoveMember workspaceId _) = workspaceId"
| "requestWorkspace (UpdateMemberRole workspaceId _ _) = workspaceId"
| "requestWorkspace (LeaveWorkspace workspaceId) = workspaceId"

text \<open>What a request can do to the membership rows: nothing, drop one row, or change the role of one.\<close>

datatype member_effect = Unchanged | Dropped member_row | Changed member_row member_role

fun applyEffect :: "member_effect \<Rightarrow> member_row list \<Rightarrow> member_row list" where
  "applyEffect Unchanged ms = ms"
| "applyEffect (Dropped m) ms = filter (\<lambda>x. m_id x \<noteq> m_id m) ms"
| "applyEffect (Changed m role) ms = map (\<lambda>x. if m_id x = m_id m then x\<lparr>m_role := role\<rparr> else x) ms"

definition allowedEffect :: "world \<Rightarrow> uuid \<Rightarrow> uuid \<Rightarrow> member_effect \<Rightarrow> bool" where
  \<comment> \<open>the row is of the request's workspace, and touching ownership takes an owner and leaves one\<close>
  "allowedEffect w workspaceId user e =
     (case e of
        Unchanged \<Rightarrow> True
      | Dropped m \<Rightarrow> m \<in> set (members w) \<and> m_workspaceId m = workspaceId
          \<and> (m_role m = OWNER \<longrightarrow> \<not> isLastOwner w workspaceId
               \<and> (\<exists>a \<in> set (members w). m_workspaceId a = workspaceId \<and> m_userId a = user \<and> m_role a = OWNER))
      | Changed m role \<Rightarrow> m \<in> set (members w) \<and> m_workspaceId m = workspaceId \<and> m_role m \<noteq> role
          \<and> (m_role m = OWNER \<longrightarrow> \<not> isLastOwner w workspaceId)
          \<and> (m_role m = OWNER \<or> role = OWNER \<longrightarrow>
               (\<exists>a \<in> set (members w). m_workspaceId a = workspaceId \<and> m_userId a = user \<and> m_role a = OWNER)))"

lemma requireMember_Inr:
  "requireMember workspaceId userId w = (Inr row, w') \<longleftrightarrow>
     w' = w \<and> findMember w workspaceId userId = Some (mr_member row)
       \<and> find (\<lambda>u. u_id u = m_userId (mr_member row)) (users w) = Some (mr_user row)"
  by (cases row) (auto simp: requireMember_def memberInclude_def split: option.splits)

lemma requireMember_state: "requireMember workspaceId userId w = (q, w1) \<Longrightarrow> w1 = w"
  by (cases q) (auto simp: requireMember_def)

lemma requireMember_Inl: "requireMember workspaceId userId w = (Inl e, w') \<Longrightarrow> w' = w"
  by (auto simp: requireMember_def)

lemma attempt_Inr: "attempt call handle w = (Inr a, w') \<longleftrightarrow> call w = (Inr a, w')"
  by (auto simp: attempt_def split: prod.splits sum.splits)

lemma attempt_Inl: "attempt call handle w = (Inl h, w') \<longleftrightarrow> (\<exists>e. call w = (Inl e, w') \<and> h = handle e)"
  by (auto simp: attempt_def split: prod.splits sum.splits)

lemma recordActivity_Inr: "recordActivity ws t u ty p w = (r, w') \<longleftrightarrow>
    r = Inr (activityRow w ws t u ty p) \<and> w' = logActivity ws t u ty p w"
  by (auto simp: recordActivity_def)

lemma same_id:
  assumes "membersOk w" and "m \<in> set (members w)"
  shows "filter (\<lambda>x. m_id x = m_id m) (members w) = [m]"
proof -
  have "distinct (map m_id xs) \<Longrightarrow> m \<in> set xs \<Longrightarrow> filter (\<lambda>x. m_id x = m_id m) xs = [m]" for xs
  proof (induction xs)
    case (Cons x xs)
    show ?case
    proof (cases "x = m")
      case True
      with Cons.prems have "m_id y \<noteq> m_id m" if "y \<in> set xs" for y using imageI [OF that, of m_id] by auto
      with True show ?thesis by (simp add: filter_empty_conv)
    next
      case False
      with Cons.prems have "m_id x \<noteq> m_id m" by auto
      with False Cons show ?thesis by simp
    qed
  qed simp
  then show ?thesis using assms by (simp add: membersOk_def)
qed

lemma same_pair:
  assumes "membersOk w" and "m \<in> set (members w)" and "x \<in> set (members w)"
  shows "m_workspaceId x = m_workspaceId m \<and> m_userId x = m_userId m \<longleftrightarrow> m_id x = m_id m"
proof -
  have "inj_on m_id (set (members w))" "inj_on (\<lambda>m. (m_workspaceId m, m_userId m)) (set (members w))"
    using assms(1) by (simp_all add: membersOk_def distinct_map)
  then show ?thesis using assms(2,3) by (auto dest: inj_onD)
qed

subsection \<open>The three operations\<close>

definition memberActivity :: "uuid \<Rightarrow> uuid \<Rightarrow> activity_type \<Rightarrow> activity_row \<Rightarrow> bool" where
  "memberActivity workspaceId user type a \<longleftrightarrow>
     a_workspaceId a = workspaceId \<and> a_taskId a = None \<and> a_userId a = user \<and> a_type a = type"

lemma failIf_passes: "\<not> b \<Longrightarrow> failIf b e w = (Inr (), w)"
  by (simp add: failIf_def)

lemma bindE_guard: "\<not> b \<Longrightarrow> bindE (failIf b e) f w = f () w"
  by (simp add: bindE_def failIf_def)

lemma removeMember_effect:
  assumes api: "pluginContract api" and ok: "membersOk w"
    and run: "WorkspaceMemberService_removeMember api workspaceId target actor w = (r, w')"
  shows "(is_error r \<and> w' = w) \<or> (\<exists>m a. r = Inr () \<and> findMember w workspaceId target = Some m \<and> target \<noteq> wm_userId actor
    \<and> (m_role m = OWNER \<longrightarrow> wm_role actor = OWNER \<and> \<not> isLastOwner w workspaceId)
    \<and> members w' = filter (\<lambda>x. m_id x \<noteq> m_id m) (members w)
    \<and> w_evicted w' = w_evicted w @ (if w_socketServer w then [(workspaceId, target)] else [])
    \<and> activities w' = activities w @ [a] \<and> memberActivity workspaceId (wm_userId actor) MemberRemoved a
    \<and> (''previousRole'', JString (role_name (m_role m))) \<in> set (a_payload a))"
proof (cases r)
  case (Inl e)
  then show ?thesis
    using run
    by (auto simp: WorkspaceMemberService_removeMember_def bindE_Inl bindE_Inr attempt_Inl recordActivity_Inr
        dest: requireMember_state plugin_fails(1) [OF api] split: if_splits)
next
  case (Inr u)
  then have "r = Inr ()" by simp
  from Inr have ne: "target \<noteq> wm_userId actor"
    using run by (auto simp: WorkspaceMemberService_removeMember_def bindE_def failIf_def)
  obtain x w0 where q0: "requireMember workspaceId target w = (x, w0)" by fastforce
  then have "w0 = w" by (rule requireMember_state)
  moreover obtain row where "x = Inr row"
    using run ne Inr q0 by (cases x) (simp_all add: WorkspaceMemberService_removeMember_def bindE_def failIf_def)
  ultimately have q: "requireMember workspaceId target w = (Inr row, w)" using q0 by simp
  then have found: "findMember w workspaceId target = Some (mr_member row)" by (simp add: requireMember_Inr)
  define own where "own = (if m_role (mr_member row) = OWNER
     then bindE (failIf (wm_role actor \<noteq> OWNER) (Forbidden ''Only an OWNER can remove another OWNER'')) (\<lambda>_ w.
       failIf (isLastOwner w workspaceId) (Conflict ''The last OWNER cannot be removed from the workspace'') w)
     else return ())"
  have own: "own w = (y, w2) \<Longrightarrow> w2 = w \<and> (y = Inr () \<longrightarrow>
      (m_role (mr_member row) = OWNER \<longrightarrow> wm_role actor = OWNER \<and> \<not> isLastOwner w workspaceId))" for y w2
    by (auto simp: own_def bindE_def failIf_def return_def split: if_splits)
  have "bindE own (\<lambda>_.
     bindE (attempt (au_removeMember api afterRemoveMember (wm_userId actor) (m_id (mr_member row)) workspaceId)
       (rethrowMemberWriteError ''Failed to remove the member''
          ''The last OWNER cannot be removed from the workspace'')) (\<lambda>_.
     bindE (recordActivity workspaceId None (wm_userId actor) MemberRemoved
       [(''targetUserId'', JString target), (''targetName'', JString (u_name (mr_user row))),
        (''previousRole'', JString (role_name (m_role (mr_member row)))),
        (''actorRole'', JString (role_name (wm_role actor)))]) (\<lambda>_.
     return ()))) w = (Inr (), w')"
    using run \<open>r = Inr ()\<close> unfolding WorkspaceMemberService_removeMember_def own_def
    by (simp only: bindE_guard [OF ne] bindE_step [where m = "requireMember workspaceId target" and w = w, OF q])
  then obtain w1 where row: "findMember w workspaceId target = Some (mr_member row)" "target \<noteq> wm_userId actor"
      "m_role (mr_member row) = OWNER \<longrightarrow> wm_role actor = OWNER \<and> \<not> isLastOwner w workspaceId"
    and call: "au_removeMember api afterRemoveMember (wm_userId actor) (m_id (mr_member row)) workspaceId w = (Inr (), w1)"
    and w': "w' = logActivity workspaceId None (wm_userId actor) MemberRemoved
       [(''targetUserId'', JString target), (''targetName'', JString (u_name (mr_user row))),
        (''previousRole'', JString (role_name (m_role (mr_member row)))),
        (''actorRole'', JString (role_name (wm_role actor)))] w1"
    using ne found own by (auto simp: bindE_Inr attempt_Inr recordActivity_Inr)
  have "mr_member row \<in> set (members w)" "m_userId (mr_member row) = target"
    using findMember_Some [OF row(1)] by simp_all
  then have "filter (\<lambda>x. m_id x = m_id (mr_member row)) (members w) = [mr_member row]"
    using same_id [OF ok] by simp
  then have w1: "w1 = evictUserFromWorkspaceSockets workspaceId target
      (w\<lparr>members := filter (\<lambda>x. m_id x \<noteq> m_id (mr_member row)) (members w)\<rparr>)"
    using plugin_remove [OF api call] \<open>m_userId (mr_member row) = target\<close> by (simp add: afterRemoveMember_def)
  show ?thesis
    using row Inr by (simp add: w' w1 memberActivity_def)
qed

lemma updateMemberRole_effect:
  assumes api: "pluginContract api"
    and run: "WorkspaceMemberService_updateMemberRole api workspaceId target role actor w = (r, w')"
  shows "(is_error r \<and> w' = w) \<or> (\<exists>m d. r = Inr d \<and> findMember w workspaceId target = Some m \<and> wd_role d = role \<and>
    (if m_role m = role then w' = w
     else (m_role m = OWNER \<longrightarrow> \<not> isLastOwner w workspaceId) \<and> (m_role m = OWNER \<or> role = OWNER \<longrightarrow> wm_role actor = OWNER)
       \<and> members w' = map (\<lambda>x. if m_id x = m_id m then x\<lparr>m_role := role\<rparr> else x) (members w)
       \<and> w_evicted w' = w_evicted w
       \<and> (\<exists>a. activities w' = activities w @ [a] \<and> memberActivity workspaceId (wm_userId actor) MemberRoleChanged a
            \<and> (''previousRole'', JString (role_name (m_role m))) \<in> set (a_payload a)
            \<and> (''newRole'', JString (role_name role)) \<in> set (a_payload a))))"
proof (cases r)
  case (Inl e)
  then show ?thesis
    using run
    by (auto simp: WorkspaceMemberService_updateMemberRole_def bindE_Inl attempt_Inl recordActivity_Inr Let_def
        dest: requireMember_state plugin_fails(2) [OF api] split: if_splits)
next
  case (Inr d)
  then obtain row where target: "requireMember workspaceId target w = (Inr row, w)"
    using run by (auto simp: WorkspaceMemberService_updateMemberRole_def bindE_Inr requireMember_Inr)
  then have row: "findMember w workspaceId target = Some (mr_member row)" by (simp add: requireMember_Inr)
  show ?thesis
  proof (cases "m_role (mr_member row) = role")
    case True
    then have "w' = w \<and> d = toMemberDto row"
      using run Inr by (simp add: WorkspaceMemberService_updateMemberRole_def bindE_def target Let_def)
    with row True Inr show ?thesis by (auto simp: toMemberDto_def)
  next
    case False
    then have may: "m_role (mr_member row) = OWNER \<longrightarrow> \<not> isLastOwner w workspaceId"
        "m_role (mr_member row) = OWNER \<or> role = OWNER \<longrightarrow> wm_role actor = OWNER"
      and d: "d = toMemberDto (row\<lparr>mr_member := (mr_member row)\<lparr>m_role := role\<rparr>\<rparr>)"
      and "\<exists>w1. au_updateMemberRole api (wm_userId actor) (m_id (mr_member row)) role workspaceId w = (Inr (), w1)
          \<and> w' = logActivity workspaceId None (wm_userId actor) MemberRoleChanged
             [(''targetUserId'', JString target), (''targetName'', JString (u_name (mr_user row))),
              (''previousRole'', JString (role_name (m_role (mr_member row)))), (''newRole'', JString (role_name role)),
              (''actorRole'', JString (role_name (wm_role actor)))] w1"
      using run Inr
      by (auto simp: WorkspaceMemberService_updateMemberRole_def bindE_def [of "requireMember workspaceId target"] target
          Let_def bindE_Inr attempt_Inr recordActivity_Inr)
    then obtain w1 where call: "au_updateMemberRole api (wm_userId actor) (m_id (mr_member row)) role workspaceId w = (Inr (), w1)"
      and w': "w' = logActivity workspaceId None (wm_userId actor) MemberRoleChanged
             [(''targetUserId'', JString target), (''targetName'', JString (u_name (mr_user row))),
              (''previousRole'', JString (role_name (m_role (mr_member row)))), (''newRole'', JString (role_name role)),
              (''actorRole'', JString (role_name (wm_role actor)))] w1" by blast
    show ?thesis
      using row may Inr False plugin_update [OF api call] by (auto simp: w' d memberActivity_def toMemberDto_def)
  qed
qed

lemma leave_effect:
  assumes api: "pluginContract api" and ok: "membersOk w"
    and run: "WorkspaceMemberService_leave api workspaceId actor w = (r, w')"
  shows "(is_error r \<and> w' = w) \<or> (\<exists>m a. r = Inr () \<and> findMember w workspaceId (wm_userId actor) = Some m
    \<and> (m_role m = OWNER \<longrightarrow> \<not> isLastOwner w workspaceId)
    \<and> members w' = filter (\<lambda>x. m_id x \<noteq> m_id m) (members w)
    \<and> w_evicted w' = w_evicted w @ (if w_socketServer w then [(workspaceId, wm_userId actor)] else [])
    \<and> activities w' = activities w @ [a] \<and> memberActivity workspaceId (wm_userId actor) MemberLeft a
    \<and> (''previousRole'', JString (role_name (m_role m))) \<in> set (a_payload a))"
proof (cases r)
  case (Inl e)
  then show ?thesis
    using run
    by (auto simp: WorkspaceMemberService_leave_def bindE_Inl attempt_Inl recordActivity_Inr
        dest: requireMember_state plugin_fails(3) [OF api])
next
  case (Inr u)
  then obtain row where q: "requireMember workspaceId (wm_userId actor) w = (Inr row, w)"
    using run by (auto simp: WorkspaceMemberService_leave_def bindE_Inr requireMember_Inr)
  then have row: "findMember w workspaceId (wm_userId actor) = Some (mr_member row)" by (simp add: requireMember_Inr)
  have may: "m_role (mr_member row) = OWNER \<longrightarrow> \<not> isLastOwner w workspaceId"
    and "\<exists>w1. au_leaveOrganization api (wm_userId actor) workspaceId w = (Inr (), w1)
      \<and> w' = evictUserFromWorkspaceSockets workspaceId (wm_userId actor) (logActivity workspaceId None (wm_userId actor) MemberLeft
       [(''targetUserId'', JString (wm_userId actor)), (''targetName'', JString (u_name (mr_user row))),
        (''previousRole'', JString (role_name (m_role (mr_member row))))] w1)"
    using run Inr
    by (auto simp: WorkspaceMemberService_leave_def bindE_def [of "requireMember workspaceId (wm_userId actor)"] q
        bindE_Inr attempt_Inr recordActivity_Inr)
  then obtain w1 where call: "au_leaveOrganization api (wm_userId actor) workspaceId w = (Inr (), w1)"
    and w': "w' = evictUserFromWorkspaceSockets workspaceId (wm_userId actor) (logActivity workspaceId None (wm_userId actor) MemberLeft
       [(''targetUserId'', JString (wm_userId actor)), (''targetName'', JString (u_name (mr_user row))),
        (''previousRole'', JString (role_name (m_role (mr_member row))))] w1)" by blast
  have m: "mr_member row \<in> set (members w)" "m_workspaceId (mr_member row) = workspaceId" "m_userId (mr_member row) = wm_userId actor"
    using findMember_Some [OF row] by simp_all
  have "filter (\<lambda>x. \<not> (m_workspaceId x = workspaceId \<and> m_userId x = wm_userId actor)) (members w) =
      filter (\<lambda>x. m_id x \<noteq> m_id (mr_member row)) (members w)"
    using same_pair [OF ok m(1)] m(2,3) by (intro filter_cong) auto
  with plugin_leave [OF api call]
  have w1: "w1 = w\<lparr>members := filter (\<lambda>x. m_id x \<noteq> m_id (mr_member row)) (members w)\<rparr>" by simp
  show ?thesis
    using row may Inr by (simp add: w' w1 memberActivity_def)
qed

subsection \<open>What a request does\<close>

lemma guard_Inr:
  "WorkspaceGuard_canActivate workspaceId (Some user) w = (Inr a, w1) \<longleftrightarrow>
     w1 = w \<and> workspaceId \<noteq> [] \<and> (\<exists>m. findMember w workspaceId user = Some m
       \<and> a = \<lparr>wm_id = m_id m, wm_workspaceId = m_workspaceId m, wm_userId = m_userId m, wm_role = m_role m\<rparr>)"
  by (auto simp: WorkspaceGuard_run split: option.splits)

lemma guard_Inl: "WorkspaceGuard_canActivate workspaceId user w = (Inl e, w1) \<Longrightarrow> w1 = w"
  by (auto simp: WorkspaceGuard_run split: option.splits if_splits)

lemma roles_cases:
  "RolesGuard_canActivate roles a w = (q, w1) \<Longrightarrow> w1 = w"
  by (auto simp: RolesGuard_canActivate_def failIf_def split: if_splits)

lemma scoped_cases:
  assumes "WorkspaceScoped workspaceId (Some user) h w = (r, w')"
  obtains (refused) "is_error r" "w' = w"
  | (entered) m where "findMember w workspaceId user = Some m"
      "h \<lparr>wm_id = m_id m, wm_workspaceId = m_workspaceId m, wm_userId = m_userId m, wm_role = m_role m\<rparr> w = (r, w')"
proof (cases "WorkspaceGuard_canActivate workspaceId (Some user) w")
  case (Pair q w1)
  show ?thesis
  proof (cases q)
    case (Inl e)
    with Pair assms guard_Inl [of workspaceId "Some user" w e w1] show ?thesis
      by (intro refused) (auto simp: WorkspaceScoped_def bindE_def)
  next
    case (Inr a)
    with Pair obtain m where m: "w1 = w" "findMember w workspaceId user = Some m"
        "a = \<lparr>wm_id = m_id m, wm_workspaceId = m_workspaceId m, wm_userId = m_userId m, wm_role = m_role m\<rparr>"
      by (auto simp: guard_Inr)
    have "h a w = (r, w')" using assms by (simp add: WorkspaceScoped_def bindE_def Pair Inr m(1))
    with m show ?thesis by (intro entered) auto
  qed
qed

lemma roles_scoped:
  assumes "WorkspaceRoles roles workspaceId (Some user) h w = (r, w')"
  obtains (refused) "is_error r" "w' = w" | (entered) "WorkspaceScoped workspaceId (Some user) h w = (r, w')"
proof (cases "WorkspaceGuard_canActivate workspaceId (Some user) w")
  case (Pair q w1)
  show ?thesis
  proof (cases q)
    case (Inl e)
    with Pair assms guard_Inl [of workspaceId "Some user" w e w1] show ?thesis
      by (intro refused) (auto simp: WorkspaceRoles_def bindE_def)
  next
    case (Inr a)
    with Pair have w1: "w1 = w" by (simp add: guard_Inr)
    obtain q2 w2 where q2: "RolesGuard_canActivate roles a w = (q2, w2)" by fastforce
    with roles_cases have "w2 = w" .
    with q2 Pair Inr assms w1 that show ?thesis
      by (cases q2) (auto simp: WorkspaceRoles_def WorkspaceScoped_def bindE_def)
  qed
qed

lemma handleMember_effect:
  assumes api: "pluginContract api" and ok: "membersOk w" and run: "handleMember api user req w = (r, w')"
  obtains e where "allowedEffect w (requestWorkspace req) user e" "members w' = applyEffect e (members w)"
    "w_evicted w' = w_evicted w @ (case e of Dropped m \<Rightarrow> if w_socketServer w then [(requestWorkspace req, m_userId m)] else [] | _ \<Rightarrow> [])"
    "if e = Unchanged then activities w' = activities w
     else \<exists>a. activities w' = activities w @ [a] \<and> a_workspaceId a = requestWorkspace req \<and> a_userId a = user"
    "is_error r \<longrightarrow> w' = w"
proof (cases req)
  case (RemoveMember ws target)
  with run have "WorkspaceRoles ADMIN_ROLES ws (Some user) (WorkspaceMemberService_removeMember api ws target) w = (r, w')" by simp
  then show thesis
  proof (cases rule: roles_scoped)
    case refused
    then show thesis using that [of Unchanged] RemoveMember by (simp add: allowedEffect_def)
  next
    case entered
    then show thesis
    proof (cases rule: scoped_cases)
      case refused
      then show thesis using that [of Unchanged] RemoveMember by (simp add: allowedEffect_def)
    next
      case (entered a)
      note actor = findMember_Some [OF entered(1)]
      from removeMember_effect [OF api ok entered(2)] show thesis
      proof (elim disjE exE conjE)
        assume "is_error r" "w' = w"
        then show thesis using that [of Unchanged] RemoveMember by (simp add: allowedEffect_def)
      next
        fix m act
        assume m: "findMember w ws target = Some m" and own: "m_role m = OWNER \<longrightarrow> wm_role \<lparr>wm_id = m_id a,
            wm_workspaceId = m_workspaceId a, wm_userId = m_userId a, wm_role = m_role a\<rparr> = OWNER \<and> \<not> isLastOwner w ws"
          and rest: "r = Inr ()" "members w' = filter (\<lambda>x. m_id x \<noteq> m_id m) (members w)"
            "w_evicted w' = w_evicted w @ (if w_socketServer w then [(ws, target)] else [])"
            "activities w' = activities w @ [act]"
            "memberActivity ws (wm_userId \<lparr>wm_id = m_id a, wm_workspaceId = m_workspaceId a, wm_userId = m_userId a, wm_role = m_role a\<rparr>) MemberRemoved act"
        have "allowedEffect w ws user (Dropped m)"
          using findMember_Some [OF m] own actor by (auto simp: allowedEffect_def)
        then show thesis
          using that [of "Dropped m"] rest findMember_Some [OF m] actor RemoveMember
          by (simp add: memberActivity_def)
      qed
    qed
  qed
next
  case (UpdateMemberRole ws target role)
  let ?h = "\<lambda>membership. bindE (WorkspaceMemberService_updateMemberRole api ws target role membership) (\<lambda>_. return ())"
  from UpdateMemberRole run have "WorkspaceRoles ADMIN_ROLES ws (Some user) ?h w = (r, w')" by simp
  then show thesis
  proof (cases rule: roles_scoped)
    case refused
    then show thesis using that [of Unchanged] UpdateMemberRole by (simp add: allowedEffect_def)
  next
    case entered
    then show thesis
    proof (cases rule: scoped_cases)
      case refused
      then show thesis using that [of Unchanged] UpdateMemberRole by (simp add: allowedEffect_def)
    next
      case (entered a)
      let ?actor = "\<lparr>wm_id = m_id a, wm_workspaceId = m_workspaceId a, wm_userId = m_userId a, wm_role = m_role a\<rparr>"
      note actor = findMember_Some [OF entered(1)]
      obtain q w1 where q: "WorkspaceMemberService_updateMemberRole api ws target role ?actor w = (q, w1)" by fastforce
      with entered(2) have w1: "w1 = w'" "is_error q \<longleftrightarrow> is_error r" by (cases q; auto simp: bindE_def)+
      from updateMemberRole_effect [OF api q] show thesis
      proof (elim disjE exE conjE)
        assume "is_error q" "w1 = w"
        then show thesis using that [of Unchanged] UpdateMemberRole w1 by (simp add: allowedEffect_def)
      next
        fix m d
        assume "q = Inr d" and m: "findMember w ws target = Some m" and
          rest: "if m_role m = role then w1 = w
            else (m_role m = OWNER \<longrightarrow> \<not> isLastOwner w ws) \<and> (m_role m = OWNER \<or> role = OWNER \<longrightarrow> wm_role ?actor = OWNER)
              \<and> members w1 = map (\<lambda>x. if m_id x = m_id m then x\<lparr>m_role := role\<rparr> else x) (members w) \<and> w_evicted w1 = w_evicted w
              \<and> (\<exists>a. activities w1 = activities w @ [a] \<and> memberActivity ws (wm_userId ?actor) MemberRoleChanged a
                  \<and> (''previousRole'', JString (role_name (m_role m))) \<in> set (a_payload a)
                  \<and> (''newRole'', JString (role_name role)) \<in> set (a_payload a))"
        show thesis
        proof (cases "m_role m = role")
          case True
          with rest w1 show thesis using that [of Unchanged] UpdateMemberRole by (simp add: allowedEffect_def)
        next
          case False
          then have "allowedEffect w ws user (Changed m role)"
            using findMember_Some [OF m] rest actor by (auto simp: allowedEffect_def)
          then show thesis
            using that [of "Changed m role"] rest False actor UpdateMemberRole w1 \<open>q = Inr d\<close>
            by (auto simp: memberActivity_def)
        qed
      qed
    qed
  qed
next
  case (LeaveWorkspace ws)
  with run have "WorkspaceScoped ws (Some user) (WorkspaceMemberService_leave api ws) w = (r, w')" by simp
  then show thesis
  proof (cases rule: scoped_cases)
    case refused
    then show thesis using that [of Unchanged] LeaveWorkspace by (simp add: allowedEffect_def)
  next
    case (entered a)
    note actor = findMember_Some [OF entered(1)]
    from leave_effect [OF api ok entered(2)] show thesis
    proof (elim disjE exE conjE)
      assume "is_error r" "w' = w"
      then show thesis using that [of Unchanged] LeaveWorkspace by (simp add: allowedEffect_def)
    next
      fix m act
      let ?actor = "\<lparr>wm_id = m_id a, wm_workspaceId = m_workspaceId a, wm_userId = m_userId a, wm_role = m_role a\<rparr>"
      assume m: "findMember w ws (wm_userId ?actor) = Some m" and own: "m_role m = OWNER \<longrightarrow> \<not> isLastOwner w ws"
        and rest: "r = Inr ()" "members w' = filter (\<lambda>x. m_id x \<noteq> m_id m) (members w)"
          "w_evicted w' = w_evicted w @ (if w_socketServer w then [(ws, wm_userId ?actor)] else [])"
          "activities w' = activities w @ [act]" "memberActivity ws (wm_userId ?actor) MemberLeft act"
      from m entered(1) actor have "m = a" by simp
      then have "allowedEffect w ws user (Dropped m)" using own actor by (auto simp: allowedEffect_def)
      then show thesis
        using that [of "Dropped m"] rest actor \<open>m = a\<close> LeaveWorkspace by (simp add: memberActivity_def)
    qed
  qed
qed

end
