(* ===== verification/MemberSafety.thy ===== *)
theory MemberSafety
  imports MemberProps
begin

section \<open>Ownership, eviction and the audit of memberships\<close>

text \<open>
  The properties of the three routes of MemberProps, each from \<open>handleMember_effect\<close>: what a request does is
  nothing, one row dropped or one role changed, within what \<open>allowedEffect\<close> permits. \<open>member_steps\<close> is any
  sequence of requests, of any users.
\<close>

subsection \<open>Effects on the rows\<close>

definition owners :: "uuid \<Rightarrow> member_row list \<Rightarrow> member_row list" where
  "owners workspaceId ms = filter (\<lambda>m. m_workspaceId m = workspaceId \<and> m_role m = OWNER) ms"

lemma ownerCount_owners: "ownerCount w workspaceId = length (owners workspaceId (members w))"
  by (simp add: ownerCount_def owners_def)

lemma membersOk_iff:
  "membersOk w \<longleftrightarrow> distinct (map m_id (members w)) \<and> distinct (map (\<lambda>m. (m_workspaceId m, m_userId m)) (members w))"
  by (simp add: membersOk_def)

lemma applyEffect_ids:
  "map m_id (applyEffect e ms) = (case e of Dropped m \<Rightarrow> filter (\<lambda>k. k \<noteq> m_id m) (map m_id ms) | _ \<Rightarrow> map m_id ms)"
  by (cases e) (auto simp: filter_map o_def)

lemma applyEffect_pairs:
  "map (\<lambda>m. (m_workspaceId m, m_userId m)) (applyEffect e ms) =
     (case e of Dropped m \<Rightarrow> map (\<lambda>m. (m_workspaceId m, m_userId m)) (filter (\<lambda>x. m_id x \<noteq> m_id m) ms)
      | _ \<Rightarrow> map (\<lambda>m. (m_workspaceId m, m_userId m)) ms)"
  by (cases e) auto

lemma distinct_applyEffect:
  "distinct (map m_id ms) \<Longrightarrow> distinct (map (\<lambda>m. (m_workspaceId m, m_userId m)) ms) \<Longrightarrow>
   distinct (map m_id (applyEffect e ms)) \<and> distinct (map (\<lambda>m. (m_workspaceId m, m_userId m)) (applyEffect e ms))"
  unfolding applyEffect_ids applyEffect_pairs by (cases e) (auto intro: distinct_map_filter)

lemma owners_length_drop:
  assumes "distinct (map m_id ms)" and "m \<in> set ms"
  shows "length (owners ws ms) \<le> Suc (length (owners ws (filter (\<lambda>x. m_id x \<noteq> m_id m) ms)))"
  using assms
proof (induction ms)
  case (Cons x ms)
  show ?case
  proof (cases "x = m")
    case True
    then have "\<forall>y \<in> set ms. m_id y \<noteq> m_id m" using Cons.prems(1) by (auto simp: image_iff)
    then have "filter (\<lambda>y. m_id y \<noteq> m_id m) ms = ms" by (simp add: filter_id_conv)
    with True show ?thesis by (simp add: owners_def)
  next
    case False
    with Cons.prems have "m \<in> set ms" "m_id x \<noteq> m_id m" by (auto simp: image_iff)
    with Cons show ?thesis by (simp add: owners_def)
  qed
qed simp

lemma owners_length_change:
  assumes "distinct (map m_id ms)" and "m \<in> set ms"
  shows "length (owners ws ms) \<le> Suc (length (owners ws (map (\<lambda>x. if m_id x = m_id m then x\<lparr>m_role := role\<rparr> else x) ms)))"
  using assms
proof (induction ms)
  case (Cons x ms)
  show ?case
  proof (cases "x = m")
    case True
    then have "\<forall>y \<in> set ms. m_id y \<noteq> m_id m" using Cons.prems(1) by (auto simp: image_iff)
    then have "map (\<lambda>x. if m_id x = m_id m then x\<lparr>m_role := role\<rparr> else x) ms = ms" by (simp add: map_idI)
    with True show ?thesis by (simp add: owners_def)
  next
    case False
    with Cons.prems have "m \<in> set ms" "m_id x \<noteq> m_id m" by (auto simp: image_iff)
    with Cons show ?thesis by (simp add: owners_def)
  qed
qed simp

lemma owners_unmoved:
  assumes "distinct (map m_id ms)" and "m \<in> set ms" and "m_role m \<noteq> OWNER \<or> m_workspaceId m \<noteq> ws"
  shows "owners ws (filter (\<lambda>x. m_id x \<noteq> m_id m) ms) = owners ws ms"
    and "role \<noteq> OWNER \<or> m_workspaceId m \<noteq> ws \<Longrightarrow>
      owners ws (map (\<lambda>x. if m_id x = m_id m then x\<lparr>m_role := role\<rparr> else x) ms) = owners ws ms"
proof -
  have same: "x = m" if "x \<in> set ms" "m_id x = m_id m" for x using inj_on_id [OF assms(1)] that assms(2) by blast
  show "owners ws (filter (\<lambda>x. m_id x \<noteq> m_id m) ms) = owners ws ms"
    unfolding owners_def filter_filter using assms(3) same by (intro filter_cong refl) blast
  assume role: "role \<noteq> OWNER \<or> m_workspaceId m \<noteq> ws"
  have "\<forall>x \<in> set ms. m_id x = m_id m \<longrightarrow> x = m" using same by blast
  then show "owners ws (map (\<lambda>x. if m_id x = m_id m then x\<lparr>m_role := role\<rparr> else x) ms) = owners ws ms"
    using role assms(3) unfolding owners_def by (induction ms) auto
qed

lemma owner_kept:
  assumes ok: "membersOk w" and allowed: "allowedEffect w ws user e" and owned: "0 < ownerCount w k"
  shows "owners k (applyEffect e (members w)) \<noteq> []"
proof -
  have ids: "distinct (map m_id (members w))" using ok by (simp add: membersOk_def)
  have some: "owners k (members w) \<noteq> []" using owned by (auto simp: ownerCount_owners)
  show ?thesis
  proof (cases "\<exists>m. (e = Dropped m \<or> (\<exists>role. e = Changed m role)) \<and> m_role m = OWNER \<and> m_workspaceId m = k")
    case True
    then obtain m where m: "e = Dropped m \<or> (\<exists>role. e = Changed m role)" "m_role m = OWNER" "m_workspaceId m = k" by blast
    with allowed have "m \<in> set (members w)" "\<not> isLastOwner w k" by (auto simp: allowedEffect_def)
    then have "Suc 0 < length (owners k (members w))" by (simp add: isLastOwner_def ownerCount_owners)
    then have "0 < length (owners k (filter (\<lambda>x. m_id x \<noteq> m_id m) (members w)))"
      "\<And>role. 0 < length (owners k (map (\<lambda>x. if m_id x = m_id m then x\<lparr>m_role := role\<rparr> else x) (members w)))"
      using owners_length_drop [OF ids \<open>m \<in> set (members w)\<close>, of k] owners_length_change [OF ids \<open>m \<in> set (members w)\<close>, of k]
      by (linarith, meson Suc_less_SucD order_less_le_trans)
    with m(1) show ?thesis by auto
  next
    case False
    show ?thesis
    proof (cases e)
      case Unchanged
      with some show ?thesis by simp
    next
      case (Dropped m)
      with False allowed have "m \<in> set (members w)" "m_role m \<noteq> OWNER \<or> m_workspaceId m \<noteq> k" by (auto simp: allowedEffect_def)
      from owners_unmoved(1) [OF ids this] Dropped some show ?thesis by simp
    next
      case (Changed m role)
      with False allowed have m: "m \<in> set (members w)" "m_role m \<noteq> OWNER \<or> m_workspaceId m \<noteq> k" by (auto simp: allowedEffect_def)
      from some obtain a where a: "a \<in> set (members w)" "m_workspaceId a = k" "m_role a = OWNER"
        by (auto simp: owners_def filter_empty_conv)
      with m inj_on_id [OF ids a(1) m(1)] have "m_id a \<noteq> m_id m" by auto
      with a have "a \<in> set (owners k (applyEffect e (members w)))" by (force simp: Changed owners_def)
      then show ?thesis by auto
    qed
  qed
qed

subsection \<open>Sequences of requests\<close>

inductive member_steps :: "auth_api \<Rightarrow> world \<Rightarrow> world \<Rightarrow> bool" for api where
  no_request: "member_steps api w w"
| one_request: "member_steps api w w1 \<Longrightarrow> handleMember api user req w1 = (r, w2) \<Longrightarrow> member_steps api w w2"

inductive_cases member_stepsE: "member_steps api w w'"

lemma one_step: "member_steps api w (snd (handleMember api user req w))"
  by (rule one_request [OF no_request]) (rule prod.collapse [symmetric])

lemma handleMember_keeps:
  assumes api: "pluginContract api" and ok: "membersOk w" and run: "handleMember api user req w = (r, w')"
  shows "membersOk w'" "0 < ownerCount w k \<Longrightarrow> 0 < ownerCount w' k"
proof -
  from handleMember_effect [OF api ok run] obtain e where
    e: "allowedEffect w (requestWorkspace req) user e" "members w' = applyEffect e (members w)" .
  show "membersOk w'"
    using ok distinct_applyEffect [of "members w" e] by (simp add: membersOk_iff e(2))
  show "0 < ownerCount w k \<Longrightarrow> 0 < ownerCount w' k"
    using owner_kept [OF ok e(1)] by (simp add: ownerCount_owners e(2))
qed

text \<open>
  C8. A workspace that has an owner keeps one, through any sequence of removals, role changes and departures
  requested by anyone, and the membership table stays free of duplicates. The plugin is relied on to write
  what it is asked to write and to write nothing when it fails.
\<close>

theorem owner_remains:
  assumes "pluginContract api" and "member_steps api w w'" and "membersOk w" and "0 < ownerCount w workspaceId"
  shows "0 < ownerCount w' workspaceId \<and> membersOk w'"
  using assms(2,3,4)
  by (induction rule: member_steps.induct) (auto dest: handleMember_keeps [OF assms(1)])

definition samplePlugin :: auth_api where
  \<comment> \<open>a plugin that does what it is asked\<close>
  "samplePlugin = \<lparr>
     au_createOrganization = (\<lambda>_ _ _ w. (Inr None, w)),
     au_updateOrganization = (\<lambda>_ _ _ _ w. (Inr None, w)),
     au_deleteOrganization = (\<lambda>_ _ w. (Inr (), w)),
     au_removeMember = (\<lambda>hook _ k org w. (Inr (), fold (\<lambda>m. hook m org)
       (filter (\<lambda>m. m_id m = k) (members w)) (w\<lparr>members := filter (\<lambda>m. m_id m \<noteq> k) (members w)\<rparr>))),
     au_updateMemberRole = (\<lambda>_ k role _ w.
       (Inr (), w\<lparr>members := map (\<lambda>m. if m_id m = k then m\<lparr>m_role := role\<rparr> else m) (members w)\<rparr>)),
     au_leaveOrganization = (\<lambda>caller org w. (Inr (),
       w\<lparr>members := filter (\<lambda>m. \<not> (m_workspaceId m = org \<and> m_userId m = caller)) (members w)\<rparr>))\<rparr>"

lemma samplePlugin_ok: "pluginContract samplePlugin"
  by (simp add: pluginContract_def removesMember_def setsRole_def leavesOrganization_def samplePlugin_def)

lemma sample_members: "membersOk sampleWorld" "ownerCount sampleWorld (js ''w1'') = 1"
  by (simp_all add: membersOk_def ownerCount_def sampleWorld_def)

theorem owner_remains_witness:
  "0 < ownerCount (snd (handleMember samplePlugin (js ''u1'') (LeaveWorkspace (js ''w1'')) sampleWorld)) (js ''w1'')
   \<and> membersOk (snd (handleMember samplePlugin (js ''u1'') (LeaveWorkspace (js ''w1'')) sampleWorld))"
  using owner_remains [OF samplePlugin_ok one_step sample_members(1)] sample_members(2) by (metis less_one)

subsection \<open>Who may touch ownership\<close>

lemma effect_elsewhere:
  assumes ids: "distinct (map m_id (members w))" and allowed: "allowedEffect w ws user e"
  shows "filter (\<lambda>m. m_workspaceId m \<noteq> ws) (applyEffect e (members w)) = filter (\<lambda>m. m_workspaceId m \<noteq> ws) (members w)"
proof (cases e)
  case (Dropped m)
  with allowed have m: "m \<in> set (members w)" "m_workspaceId m = ws" by (auto simp: allowedEffect_def)
  have "m_workspaceId x = m_workspaceId m" if "x \<in> set (members w)" "m_id x = m_id m" for x
    using inj_on_id [OF ids that(1) m(1) that(2)] by simp
  then show ?thesis unfolding Dropped applyEffect.simps filter_filter using m(2) by (intro filter_cong refl) auto
next
  case (Changed m role)
  with allowed have m: "m \<in> set (members w)" "m_workspaceId m = ws" by (auto simp: allowedEffect_def)
  have "\<forall>x \<in> set (members w). m_id x = m_id m \<longrightarrow> x = m" using inj_on_id [OF ids _ m(1)] by blast
  moreover have "\<forall>x \<in> set xs. m_id x = m_id m \<longrightarrow> x = m \<Longrightarrow>
      filter (\<lambda>x. m_workspaceId x \<noteq> ws) (map (\<lambda>x. if m_id x = m_id m then x\<lparr>m_role := role\<rparr> else x) xs) =
      filter (\<lambda>x. m_workspaceId x \<noteq> ws) xs" for xs
    using m(2) by (induction xs) auto
  ultimately show ?thesis by (simp add: Changed)
qed simp

text \<open>
  C9. A user who does not own the workspace of a request cannot change who owns any workspace: the owner
  rows are the same afterwards, in every workspace. And no request, not even an owner's, touches the members
  of a workspace other than its own.
\<close>

theorem ownership_only_by_owners:
  assumes "pluginContract api" and "membersOk w" and "handleMember api user req w = (r, w')"
  shows "((\<forall>m \<in> set (members w). m_workspaceId m = requestWorkspace req \<and> m_userId m = user \<longrightarrow> m_role m \<noteq> OWNER) \<longrightarrow>
      owners workspaceId (members w') = owners workspaceId (members w))
    \<and> filter (\<lambda>m. m_workspaceId m \<noteq> requestWorkspace req) (members w') =
        filter (\<lambda>m. m_workspaceId m \<noteq> requestWorkspace req) (members w)"
proof -
  from handleMember_effect [OF assms] obtain e where
    e: "allowedEffect w (requestWorkspace req) user e" "members w' = applyEffect e (members w)" .
  have ids: "distinct (map m_id (members w))" using assms(2) by (simp add: membersOk_def)
  have "filter (\<lambda>m. m_workspaceId m \<noteq> requestWorkspace req) (members w') =
      filter (\<lambda>m. m_workspaceId m \<noteq> requestWorkspace req) (members w)"
    unfolding e(2) by (rule effect_elsewhere [OF ids e(1)])
  moreover have "owners workspaceId (members w') = owners workspaceId (members w)"
    if "\<forall>m \<in> set (members w). m_workspaceId m = requestWorkspace req \<and> m_userId m = user \<longrightarrow> m_role m \<noteq> OWNER"
  proof (cases e)
    case (Dropped m)
    with e(1) that have "m \<in> set (members w)" "m_role m \<noteq> OWNER" by (auto simp: allowedEffect_def)
    with owners_unmoved(1) [OF ids] show ?thesis by (simp add: e(2) Dropped)
  next
    case (Changed m role)
    with e(1) that have "m \<in> set (members w)" "m_role m \<noteq> OWNER" "role \<noteq> OWNER" by (auto simp: allowedEffect_def)
    with owners_unmoved(2) [OF ids] show ?thesis by (simp add: e(2) Changed)
  qed (simp add: e(2))
  ultimately show ?thesis by blast
qed

lemma owners_sample: "owners (js ''w1'') (members sampleWorld) =
    [\<lparr>m_id = js ''m1'', m_workspaceId = js ''w1'', m_userId = js ''u1'', m_role = OWNER, m_createdAt = 0\<rparr>]"
  by (simp add: owners_def sampleWorld_def)

theorem ownership_only_by_owners_witness:
  "owners (js ''w1'') (members (snd (handleMember samplePlugin (js ''u2'')
     (RemoveMember (js ''w1'') (js ''u1'')) sampleWorld))) =
   [\<lparr>m_id = js ''m1'', m_workspaceId = js ''w1'', m_userId = js ''u1'', m_role = OWNER, m_createdAt = 0\<rparr>]"
proof -
  have "\<forall>m \<in> set (members sampleWorld). m_workspaceId m = requestWorkspace (RemoveMember (js ''w1'') (js ''u1''))
      \<and> m_userId m = js ''u2'' \<longrightarrow> m_role m \<noteq> OWNER" by (simp add: sampleWorld_def)
  with ownership_only_by_owners [OF samplePlugin_ok sample_members(1) prod.collapse [symmetric]] owners_sample
  show ?thesis by metis
qed

subsection \<open>Eviction and the audit\<close>

definition lostMembership :: "member_row list \<Rightarrow> member_row list \<Rightarrow> (uuid \<times> uuid) list" where
  "lostMembership before after = map (\<lambda>m. (m_workspaceId m, m_userId m))
     (filter (\<lambda>m. (m_workspaceId m, m_userId m) \<notin> (\<lambda>x. (m_workspaceId x, m_userId x)) ` set after) before)"

lemma lost_dropped:
  assumes "membersOk w" and "m \<in> set (members w)"
  shows "lostMembership (members w) (filter (\<lambda>x. m_id x \<noteq> m_id m) (members w)) = [(m_workspaceId m, m_userId m)]"
proof -
  have "(m_workspaceId x, m_userId x) \<notin> (\<lambda>x. (m_workspaceId x, m_userId x)) ` set (filter (\<lambda>x. m_id x \<noteq> m_id m) (members w))
      \<longleftrightarrow> m_id x = m_id m" if x: "x \<in> set (members w)" for x
  proof
    assume "m_id x = m_id m"
    with inj_on_id [of m_id "members w" x m] assms x have "x = m" by (simp add: membersOk_def)
    show "(m_workspaceId x, m_userId x) \<notin> (\<lambda>x. (m_workspaceId x, m_userId x)) ` set (filter (\<lambda>x. m_id x \<noteq> m_id m) (members w))"
    proof
      assume "(m_workspaceId x, m_userId x) \<in> (\<lambda>x. (m_workspaceId x, m_userId x)) ` set (filter (\<lambda>x. m_id x \<noteq> m_id m) (members w))"
      then obtain y where "y \<in> set (members w)" "m_id y \<noteq> m_id m" "m_workspaceId y = m_workspaceId x" "m_userId y = m_userId x"
        by auto
      with same_pair [OF assms, of y] \<open>x = m\<close> show False by simp
    qed
  qed (use x in \<open>auto simp: image_iff\<close>)
  then have "filter (\<lambda>x. (m_workspaceId x, m_userId x) \<notin>
      (\<lambda>x. (m_workspaceId x, m_userId x)) ` set (filter (\<lambda>x. m_id x \<noteq> m_id m) (members w))) (members w) =
      filter (\<lambda>x. m_id x = m_id m) (members w)" by (rule filter_cong [OF refl])
  with same_id [OF assms] show ?thesis by (simp add: lostMembership_def)
qed

lemma lost_changed: "lostMembership ms (map (\<lambda>x. if m_id x = k then x\<lparr>m_role := role\<rparr> else x) ms) = []"
proof -
  let ?f = "\<lambda>x. if m_id x = k then x\<lparr>m_role := role\<rparr> else x"
  have "(m_workspaceId x, m_userId x) \<in> (\<lambda>x. (m_workspaceId x, m_userId x)) ` set (map ?f ms)" if "x \<in> set ms" for x
    by (rule image_eqI [of _ _ "?f x"]) (use that in auto)
  then show ?thesis unfolding lostMembership_def by (simp only: map_is_Nil_conv filter_empty_conv not_not) simp
qed

lemma lost_same: "lostMembership ms ms = []"
  by (auto simp: lostMembership_def filter_empty_conv)

text \<open>
  C10. When the socket server is up, exactly the users who lost their membership in a request are dropped from
  the sockets of that workspace; the request leaves one audit entry, under the workspace and in the name of
  the user who asked, when it changed a membership and none when it did not; and a refused request has no
  effect at all.
\<close>

theorem membership_change_audited:
  assumes "pluginContract api" and "membersOk w" and "handleMember api user req w = (r, w')"
  shows "(is_error r \<longrightarrow> w' = w)
    \<and> w_evicted w' = w_evicted w @ (if w_socketServer w then lostMembership (members w) (members w') else [])
    \<and> (\<exists>a. activities w' = activities w @ (if members w' = members w then [] else [a])
         \<and> a_workspaceId a = requestWorkspace req \<and> a_userId a = user)"
proof -
  from handleMember_effect [OF assms] obtain e where
    e: "allowedEffect w (requestWorkspace req) user e" "members w' = applyEffect e (members w)"
    and out: "w_evicted w' = w_evicted w @ (case e of Dropped m \<Rightarrow> if w_socketServer w then [(requestWorkspace req, m_userId m)] else [] | _ \<Rightarrow> [])"
    "if e = Unchanged then activities w' = activities w
     else \<exists>a. activities w' = activities w @ [a] \<and> a_workspaceId a = requestWorkspace req \<and> a_userId a = user"
    "is_error r \<longrightarrow> w' = w" .
  have some: "\<exists>a :: activity_row. a_workspaceId a = requestWorkspace req \<and> a_userId a = user"
    by (rule exI [of _ "activityRow w (requestWorkspace req) None user MemberLeft []"]) simp
  show ?thesis
  proof (cases e)
    case Unchanged
    with e(2) out some show ?thesis by (simp add: lost_same)
  next
    case (Dropped m)
    with e(1) have m: "m \<in> set (members w)" "m_workspaceId m = requestWorkspace req" by (simp_all add: allowedEffect_def)
    then have "members w' \<noteq> members w" using Dropped e(2) by (auto simp: filter_id_conv)
    with Dropped e(2) out m lost_dropped [OF assms(2) m(1)] show ?thesis by simp
  next
    case (Changed m role)
    with e(1) have m: "m \<in> set (members w)" "m_role m \<noteq> role" by (simp_all add: allowedEffect_def)
    have "members w' \<noteq> members w"
    proof
      assume "members w' = members w"
      with e(2) Changed have "map (\<lambda>x. if m_id x = m_id m then x\<lparr>m_role := role\<rparr> else x) (members w) = map (\<lambda>x. x) (members w)" by simp
      then have "m\<lparr>m_role := role\<rparr> = m" using m(1) unfolding map_eq_conv by auto
      then have "m_role (m\<lparr>m_role := role\<rparr>) = m_role m" by (rule arg_cong)
      with m(2) show False by simp
    qed
    with Changed e(2) out lost_changed show ?thesis by simp
  qed
qed

theorem membership_change_audited_witness:
  "w_evicted (snd (handleMember samplePlugin (js ''u1'') (RemoveMember (js ''w1'') (js ''u2'')) sampleWorld)) =
     w_evicted sampleWorld @ (if w_socketServer sampleWorld then lostMembership (members sampleWorld)
       (members (snd (handleMember samplePlugin (js ''u1'') (RemoveMember (js ''w1'') (js ''u2'')) sampleWorld))) else [])"
  using membership_change_audited [OF samplePlugin_ok sample_members(1) prod.collapse [symmetric]] by blast

end
