(* ===== verification/Routes.thy ===== *)
theory Routes
  imports MemberProps
begin

section \<open>Which route asks for what\<close>

text \<open>
  The routes under \<open>workspaces\<close>, controller by controller, with the decorator in front of each handler. The router
  of Express is a parameter: it is relied on to choose, if any, a route of the method of the request whose path
  matches (\<open>choosesRoutes\<close>), whichever of several; how it compares a fixed part of a path (by default without
  regard to case) is another parameter, and so is the message of an answer to a path that no route has. What a handler does after its guards, the pipes that check its arguments included, is
  an arbitrary function. Before the guards come the parser of bodies, the rate limit and the session; the
  requests here have passed them.
\<close>

subsection \<open>Routes\<close>

datatype http_method = GET | HEAD | POST | PATCH | DELETE

datatype segment = Fixed string | Param string

datatype gate = Open | Scoped | Roles "member_role list"

record route =
  ro_method :: http_method
  ro_path :: "segment list"
  ro_gate :: gate

definition route :: "http_method \<Rightarrow> segment list \<Rightarrow> gate \<Rightarrow> route" where
  "route method path gate = \<lparr>ro_method = method, ro_path = path, ro_gate = gate\<rparr>"

definition below :: "segment list \<Rightarrow> segment list" where
  \<comment> \<open>a path under \<open>workspaces/:workspaceId\<close>\<close>
  "below path = Fixed ''workspaces'' # Param ''workspaceId'' # path"

definition leaveRoute :: route where
  "leaveRoute = route POST (below [Fixed ''members'', Fixed ''me'', Fixed ''leave'']) Scoped"

definition acceptRoute :: route where
  "acceptRoute = route POST (below [Fixed ''invitations'', Param ''invitationId'', Fixed ''accept'']) Open"

definition markAllReadRoute :: route where
  "markAllReadRoute = route POST (below [Fixed ''notifications'', Fixed ''read-all'']) Scoped"

definition markReadRoute :: route where
  "markReadRoute = route POST (below [Fixed ''notifications'', Param ''notificationId'', Fixed ''read'']) Scoped"

definition attachmentRoutes :: "route list" where
  \<comment> \<open>AttachmentController\<close>
  "attachmentRoutes =
    [route GET (below [Fixed ''tasks'', Param ''taskId'', Fixed ''attachments'']) Scoped,
     route POST (below [Fixed ''tasks'', Param ''taskId'', Fixed ''attachments'']) (Roles CONTENT_ROLES),
     route GET (below [Fixed ''attachments'', Param ''attachmentId'']) Scoped,
     route GET (below [Fixed ''attachments'', Param ''attachmentId'', Fixed ''content'']) Scoped,
     route DELETE (below [Fixed ''attachments'', Param ''attachmentId'']) (Roles CONTENT_ROLES)]"

definition workspaceRoutes :: "route list" where
  \<comment> \<open>WorkspaceController\<close>
  "workspaceRoutes =
    [route GET [Fixed ''workspaces''] Open,
     route POST [Fixed ''workspaces''] Open,
     route GET (below []) Scoped,
     route PATCH (below []) (Roles ADMIN_ROLES),
     route DELETE (below []) (Roles [OWNER]),
     route GET (below [Fixed ''members'', Fixed ''me'']) Scoped,
     leaveRoute,
     route GET (below [Fixed ''members'']) Scoped,
     route DELETE (below [Fixed ''members'', Param ''userId'']) (Roles ADMIN_ROLES),
     route PATCH (below [Fixed ''members'', Param ''userId'', Fixed ''role'']) (Roles ADMIN_ROLES),
     route GET (below [Fixed ''invitations'']) (Roles ADMIN_ROLES),
     route POST (below [Fixed ''invitations'']) (Roles ADMIN_ROLES),
     route DELETE (below [Fixed ''invitations'', Param ''invitationId'']) (Roles ADMIN_ROLES),
     acceptRoute]"

definition boardRoutes :: "route list" where
  \<comment> \<open>BoardController\<close>
  "boardRoutes =
    [route GET (below [Fixed ''boards'']) Scoped,
     route POST (below [Fixed ''boards'']) (Roles CONTENT_ROLES),
     route GET (below [Fixed ''boards'', Param ''boardId'']) Scoped,
     route PATCH (below [Fixed ''boards'', Param ''boardId'']) (Roles CONTENT_ROLES),
     route DELETE (below [Fixed ''boards'', Param ''boardId'']) (Roles ADMIN_ROLES)]"

definition columnRoutes :: "route list" where
  \<comment> \<open>ColumnController\<close>
  "columnRoutes =
    [route GET (below [Fixed ''boards'', Param ''boardId'', Fixed ''columns'']) Scoped,
     route POST (below [Fixed ''boards'', Param ''boardId'', Fixed ''columns'']) (Roles ADMIN_ROLES),
     route POST (below [Fixed ''boards'', Param ''boardId'', Fixed ''columns'', Fixed ''defaults'']) (Roles ADMIN_ROLES),
     route PATCH (below [Fixed ''columns'', Param ''columnId'']) (Roles ADMIN_ROLES),
     route DELETE (below [Fixed ''columns'', Param ''columnId'']) (Roles ADMIN_ROLES),
     route PATCH (below [Fixed ''columns'', Param ''columnId'', Fixed ''position'']) (Roles ADMIN_ROLES)]"

definition taskRoutes :: "route list" where
  \<comment> \<open>TaskController\<close>
  "taskRoutes =
    [route GET (below [Fixed ''boards'', Param ''boardId'', Fixed ''tasks'']) Scoped,
     route POST (below [Fixed ''boards'', Param ''boardId'', Fixed ''tasks'']) (Roles CONTENT_ROLES),
     route GET (below [Fixed ''tasks'', Param ''taskId'']) Scoped,
     route PATCH (below [Fixed ''tasks'', Param ''taskId'']) (Roles CONTENT_ROLES),
     route DELETE (below [Fixed ''tasks'', Param ''taskId'']) (Roles CONTENT_ROLES),
     route PATCH (below [Fixed ''tasks'', Param ''taskId'', Fixed ''position'']) (Roles CONTENT_ROLES),
     route POST (below [Fixed ''tasks'', Param ''taskId'', Fixed ''assignees'']) (Roles CONTENT_ROLES),
     route DELETE (below [Fixed ''tasks'', Param ''taskId'', Fixed ''assignees'', Param ''userId'']) (Roles CONTENT_ROLES),
     route POST (below [Fixed ''tasks'', Param ''taskId'', Fixed ''labels'']) (Roles CONTENT_ROLES),
     route DELETE (below [Fixed ''tasks'', Param ''taskId'', Fixed ''labels'', Param ''labelId'']) (Roles CONTENT_ROLES),
     route POST (below [Fixed ''tasks'', Param ''taskId'', Fixed ''checklists'']) (Roles CONTENT_ROLES),
     route PATCH (below [Fixed ''tasks'', Param ''taskId'', Fixed ''checklists'', Param ''checklistId'']) (Roles CONTENT_ROLES),
     route PATCH (below [Fixed ''tasks'', Param ''taskId'', Fixed ''checklists'', Param ''checklistId'', Fixed ''position'']) (Roles CONTENT_ROLES),
     route DELETE (below [Fixed ''tasks'', Param ''taskId'', Fixed ''checklists'', Param ''checklistId'']) (Roles CONTENT_ROLES),
     route POST (below [Fixed ''tasks'', Param ''taskId'', Fixed ''checklists'', Param ''checklistId'', Fixed ''items'']) (Roles CONTENT_ROLES),
     route PATCH (below [Fixed ''tasks'', Param ''taskId'', Fixed ''checklist-items'', Param ''itemId'']) (Roles CONTENT_ROLES),
     route PATCH (below [Fixed ''tasks'', Param ''taskId'', Fixed ''checklist-items'', Param ''itemId'', Fixed ''position'']) (Roles CONTENT_ROLES),
     route DELETE (below [Fixed ''tasks'', Param ''taskId'', Fixed ''checklist-items'', Param ''itemId'']) (Roles CONTENT_ROLES)]"

definition labelRoutes :: "route list" where
  \<comment> \<open>LabelController\<close>
  "labelRoutes =
    [route GET (below [Fixed ''boards'', Param ''boardId'', Fixed ''labels'']) Scoped,
     route POST (below [Fixed ''boards'', Param ''boardId'', Fixed ''labels'']) (Roles ADMIN_ROLES),
     route PATCH (below [Fixed ''labels'', Param ''labelId'']) (Roles ADMIN_ROLES),
     route DELETE (below [Fixed ''labels'', Param ''labelId'']) (Roles ADMIN_ROLES)]"

definition commentRoutes :: "route list" where
  \<comment> \<open>CommentController\<close>
  "commentRoutes =
    [route GET (below [Fixed ''tasks'', Param ''taskId'', Fixed ''comments'']) Scoped,
     route POST (below [Fixed ''tasks'', Param ''taskId'', Fixed ''comments'']) (Roles CONTENT_ROLES),
     route DELETE (below [Fixed ''comments'', Param ''commentId'']) (Roles CONTENT_ROLES)]"

definition importRoutes :: "route list" where
  \<comment> \<open>ImportController\<close>
  "importRoutes =
    [route POST (below [Fixed ''imports'', Fixed ''trello'']) (Roles ADMIN_ROLES)]"

definition activityRoutes :: "route list" where
  \<comment> \<open>ActivityController\<close>
  "activityRoutes =
    [route GET (below [Fixed ''activities'']) Scoped,
     route GET (below [Fixed ''tasks'', Param ''taskId'', Fixed ''activities'']) Scoped]"

definition dashboardRoutes :: "route list" where
  \<comment> \<open>DashboardController\<close>
  "dashboardRoutes =
    [route GET (below [Fixed ''dashboard'', Fixed ''summary'']) Scoped]"

definition notificationRoutes :: "route list" where
  \<comment> \<open>NotificationController\<close>
  "notificationRoutes =
    [route GET (below [Fixed ''notifications'']) Scoped,
     route GET (below [Fixed ''notifications'', Fixed ''unread-count'']) Scoped,
     markAllReadRoute,
     markReadRoute]"

definition routes :: "route list" where
  \<comment> \<open>in the order of app.module.ts\<close>
  "routes = attachmentRoutes @ workspaceRoutes @ boardRoutes @ columnRoutes @ taskRoutes @ labelRoutes
     @ commentRoutes @ importRoutes @ activityRoutes @ dashboardRoutes @ notificationRoutes"

subsection \<open>Dispatch\<close>

definition answers :: "route \<Rightarrow> http_method \<Rightarrow> bool" where
  \<comment> \<open>Express serves \<open>HEAD\<close> with the handler of \<open>GET\<close>\<close>
  "answers r method \<longleftrightarrow> ro_method r = method \<or> method = HEAD \<and> ro_method r = GET"

fun matchPath :: "(string \<Rightarrow> js_string \<Rightarrow> bool) \<Rightarrow> segment list \<Rightarrow> js_string list \<Rightarrow> (string \<times> js_string) list option" where
  \<comment> \<open>the parameters of the request\<close>
  "matchPath same [] [] = Some []"
| "matchPath same (Fixed s # path) (x # xs) = (if same s x then matchPath same path xs else None)"
| "matchPath same (Param p # path) (x # xs) =
     (if x = [] then None else map_option (Cons (p, x)) (matchPath same path xs))"
| "matchPath same _ _ = None"

type_synonym router = "http_method \<Rightarrow> js_string list \<Rightarrow> (route \<times> (string \<times> js_string) list) option"

definition choosesRoutes :: "(string \<Rightarrow> js_string \<Rightarrow> bool) \<Rightarrow> router \<Rightarrow> bool" where
  \<comment> \<open>what the router is relied on for\<close>
  "choosesRoutes same router \<longleftrightarrow> (\<forall>method path r params. router method path = Some (r, params) \<longrightarrow>
     r \<in> set routes \<and> answers r method \<and> matchPath same (ro_path r) path = Some params)"

fun dispatch :: "(string \<Rightarrow> js_string \<Rightarrow> bool) \<Rightarrow> route list \<Rightarrow> router" where
  \<comment> \<open>a router: the first route that matches\<close>
  "dispatch same [] method path = None"
| "dispatch same (r # rs) method path =
     (case (if answers r method then matchPath same (ro_path r) path else None) of
        Some params \<Rightarrow> Some (r, params)
      | None \<Rightarrow> dispatch same rs method path)"

fun admit :: "gate \<Rightarrow> uuid \<Rightarrow> uuid \<Rightarrow> (WorkspaceMembership option \<Rightarrow> 'a handler) \<Rightarrow> 'a handler" where
  "admit Open workspaceId user h = h None"
| "admit Scoped workspaceId user h = WorkspaceScoped workspaceId (Some user) (\<lambda>membership. h (Some membership))"
| "admit (Roles roles) workspaceId user h = WorkspaceRoles roles workspaceId (Some user) (\<lambda>membership. h (Some membership))"

definition serve ::
  "router \<Rightarrow> string \<Rightarrow> (route \<Rightarrow> (string \<times> js_string) list \<Rightarrow> WorkspaceMembership option \<Rightarrow> 'a handler) \<Rightarrow>
   http_method \<Rightarrow> js_string list \<Rightarrow> uuid \<Rightarrow> 'a handler" where
  "serve router unknown handlers method path user =
     (case router method path of
        None \<Rightarrow> throw (NotFound unknown)
      | Some (r, params) \<Rightarrow>
          admit (ro_gate r) (case map_of params ''workspaceId'' of None \<Rightarrow> [] | Some k \<Rightarrow> k) user (handlers r params))"

lemma dispatch_Some:
  "dispatch same rs method path = Some (r, params) \<Longrightarrow> r \<in> set rs \<and> answers r method \<and> matchPath same (ro_path r) path = Some params"
  by (induction rs) (auto split: if_splits option.splits)

lemma dispatch_chooses: "choosesRoutes same (dispatch same routes)"
  unfolding choosesRoutes_def using dispatch_Some by blast

lemma match_below:
  "matchPath same (below path) (x # k # rest) = Some params \<Longrightarrow> k \<noteq> [] \<and> map_of params ''workspaceId'' = Some k"
  by (auto simp: below_def split: if_splits)

lemma route_sel [simp]:
  "ro_method (route method path gate) = method" "ro_path (route method path gate) = path" "ro_gate (route method path gate) = gate"
  by (simp_all add: route_def)

lemmas route_tables = routes_def attachmentRoutes_def workspaceRoutes_def boardRoutes_def columnRoutes_def taskRoutes_def labelRoutes_def commentRoutes_def importRoutes_def activityRoutes_def dashboardRoutes_def notificationRoutes_def

lemmas named_routes = leaveRoute_def acceptRoute_def markAllReadRoute_def markReadRoute_def

definition gated :: "route \<Rightarrow> bool" where
  "gated r \<longleftrightarrow> length (ro_path r) \<le> 1
     \<or> take 2 (ro_path r) = [Fixed ''workspaces'', Param ''workspaceId''] \<and> (ro_gate r \<noteq> Open \<or> r = acceptRoute)"

definition closedToGuests :: "route \<Rightarrow> bool" where
  "closedToGuests r \<longleftrightarrow> length (ro_path r) \<le> 1 \<or> ro_method r = GET
     \<or> (case ro_gate r of Roles roles \<Rightarrow> roles \<noteq> [] \<and> GUEST \<notin> set roles | _ \<Rightarrow> False)
     \<or> r \<in> {acceptRoute, leaveRoute, markAllReadRoute, markReadRoute}"

lemma all_gated: "list_all gated routes"
  unfolding route_tables by (simp add: gated_def named_routes below_def ADMIN_ROLES_def CONTENT_ROLES_def)

lemma all_closed: "list_all closedToGuests routes"
  unfolding route_tables by (simp add: closedToGuests_def named_routes below_def ADMIN_ROLES_def CONTENT_ROLES_def)

lemma dispatched:
  assumes "choosesRoutes same router" and "router method (x # workspaceId # rest) = Some (r, params)"
  shows "workspaceId \<noteq> [] \<and> map_of params ''workspaceId'' = Some workspaceId \<and> answers r method
    \<and> (ro_gate r \<noteq> Open \<or> r = acceptRoute) \<and> 1 < length (ro_path r) \<and> r \<in> set routes"
proof -
  from assms have r: "r \<in> set routes" "answers r method" "matchPath same (ro_path r) (x # workspaceId # rest) = Some params"
    unfolding choosesRoutes_def by blast+
  have long: "1 < length (ro_path r)"
  proof (cases "ro_path r")
    case (Cons s path)
    with r(3) show ?thesis by (cases path; cases s) (auto split: if_splits)
  qed (use r(3) in simp)
  with r(1) all_gated have g: "take 2 (ro_path r) = [Fixed ''workspaces'', Param ''workspaceId'']" "ro_gate r \<noteq> Open \<or> r = acceptRoute"
    by (auto simp: list_all_iff gated_def)
  then obtain path where "ro_path r = below path"
    by (metis append_Cons append_Nil append_take_drop_id below_def)
  with r g(2) long match_below [of same path] show ?thesis by metis
qed

subsection \<open>Tenants do not see each other\<close>

text \<open>
  C11. Whoever is not a member of a workspace gets \<open>404\<close> from every route under it but the one that accepts an
  invitation, whatever the method and the rest of the path, and whether or not the workspace exists; no handler
  runs, so nothing changes. The message is the same for all the routes, and differs only for a path that no
  route has. The request is taken to have passed the rate limit, the parser of bodies and the check of the session.
\<close>

theorem outsiders_see_nothing:
  assumes "\<forall>m \<in> set (members w). \<not> (m_workspaceId m = workspaceId \<and> m_userId m = u)"
    and "choosesRoutes same router" and "\<forall>params. router method (x # workspaceId # rest) \<noteq> Some (acceptRoute, params)"
  shows "serve router unknown handlers method (x # workspaceId # rest) u w =
    (Inl (NotFound (if router method (x # workspaceId # rest) = None then unknown else ''Workspace not found'')), w)"
proof (cases "router method (x # workspaceId # rest)")
  case None
  then show ?thesis by (simp add: serve_def throw_def)
next
  case (Some m)
  obtain r params where m: "m = (r, params)" by (cases m)
  from dispatched [OF assms(2) Some [unfolded m]] assms(3) Some have r: "map_of params ''workspaceId'' = Some workspaceId" "ro_gate r \<noteq> Open"
    by (auto simp: m)
  have "findMember w workspaceId u = None" using assms(1) by (simp add: findMember_None)
  with Some r show ?thesis
    by (cases "ro_gate r") (simp_all add: serve_def m WorkspaceScoped_def WorkspaceRoles_def bindE_def WorkspaceGuard_run)
qed

definition sameText :: "string \<Rightarrow> js_string \<Rightarrow> bool" where
  \<comment> \<open>the comparison that looks at case, for examples\<close>
  "sameText s x \<longleftrightarrow> js s = x"

lemma read_board: "dispatch sameText routes GET [js ''workspaces'', js ''w2'', js ''boards'', js ''b1''] =
    Some (route GET (below [Fixed ''boards'', Param ''boardId'']) Scoped, [(''workspaceId'', js ''w2''), (''boardId'', js ''b1'')])"
  unfolding route_tables by (simp add: sameText_def answers_def named_routes below_def)

theorem outsiders_see_nothing_witness:
  "serve (dispatch sameText routes) ''Cannot GET'' (\<lambda>_ _ _. throw (Conflict [])) GET [js ''workspaces'', js ''w2'', js ''boards'', js ''b1''] (js ''u1'') sampleWorld
     = (Inl (NotFound ''Workspace not found'') :: http_error + unit, sampleWorld)"
proof -
  have "\<forall>m \<in> set (members sampleWorld). \<not> (m_workspaceId m = js ''w2'' \<and> m_userId m = js ''u1'')"
    by (simp add: sampleWorld_def)
  moreover have "\<forall>params. dispatch sameText routes GET (js ''workspaces'' # js ''w2'' # [js ''boards'', js ''b1'']) \<noteq> Some (acceptRoute, params)"
    unfolding read_board by (simp add: acceptRoute_def route_def)
  ultimately show ?thesis
    using outsiders_see_nothing [OF _ dispatch_chooses [of sameText], of sampleWorld "js ''w2''" "js ''u1''" GET "js ''workspaces''" "[js ''boards'', js ''b1'']"] read_board
    by (simp del: js_Cons)
qed

subsection \<open>Guests look\<close>

text \<open>
  C38. A guest of a workspace can only look. Every request of a guest that is not a \<open>GET\<close> (or its \<open>HEAD\<close>) is
  refused with \<open>403\<close> before its handler runs, so nothing changes, except to leave the workspace, to mark
  notifications of theirs as read, and to accept an invitation; a path that no route has is a \<open>404\<close>.
\<close>

theorem guests_only_look:
  assumes "findMember w workspaceId u = Some m" and "m_role m = GUEST" and "method \<notin> {GET, HEAD}"
    and "choosesRoutes same router" and "\<forall>r params. router method (x # workspaceId # rest) = Some (r, params) \<longrightarrow>
      r \<notin> {acceptRoute, leaveRoute, markAllReadRoute, markReadRoute}"
  shows "serve router unknown handlers method (x # workspaceId # rest) u w =
    (Inl (if router method (x # workspaceId # rest) = None then NotFound unknown
      else Forbidden ''Insufficient role for this action''), w)"
proof (cases "router method (x # workspaceId # rest)")
  case None
  then show ?thesis by (simp add: serve_def throw_def)
next
  case (Some d)
  obtain r params where d: "d = (r, params)" by (cases d)
  note D = dispatched [OF assms(4) Some [unfolded d]]
  have "closedToGuests r" using D all_closed by (simp add: list_all_iff)
  moreover have "r \<notin> {acceptRoute, leaveRoute, markAllReadRoute, markReadRoute}" using assms(5) Some by (simp add: d)
  moreover have "ro_method r \<noteq> GET" using D assms(3) by (auto simp: answers_def)
  ultimately obtain roles where "ro_gate r = Roles roles" "roles \<noteq> []" "GUEST \<notin> set roles"
    using D by (auto simp: closedToGuests_def split: gate.splits)
  then show ?thesis
    using D assms(1,2) Some
    by (simp add: serve_def d WorkspaceRoles_def bindE_def WorkspaceGuard_run RolesGuard_canActivate_def failIf_def)
qed

lemma write_comment: "dispatch sameText routes POST [js ''workspaces'', js ''w1'', js ''tasks'', js ''t1'', js ''comments''] =
    Some (route POST (below [Fixed ''tasks'', Param ''taskId'', Fixed ''comments'']) (Roles CONTENT_ROLES),
      [(''workspaceId'', js ''w1''), (''taskId'', js ''t1'')])"
  unfolding route_tables by (simp add: sameText_def answers_def named_routes below_def)

definition guestWorld :: world where
  "guestWorld = sampleWorld\<lparr>members :=
     [\<lparr>m_id = js ''m3'', m_workspaceId = js ''w1'', m_userId = js ''u2'', m_role = GUEST, m_createdAt = 0\<rparr>]\<rparr>"

theorem guests_only_look_witness:
  "serve (dispatch sameText routes) ''Cannot POST'' (\<lambda>_ _ _. modify (\<lambda>w. w\<lparr>comments := []\<rparr>)) POST
     [js ''workspaces'', js ''w1'', js ''tasks'', js ''t1'', js ''comments''] (js ''u2'') guestWorld
     = (Inl (Forbidden ''Insufficient role for this action''), guestWorld)"
proof -
  have "findMember guestWorld (js ''w1'') (js ''u2'') = Some (hd (members guestWorld))" "m_role (hd (members guestWorld)) = GUEST"
    by (simp_all add: findMember_def guestWorld_def)
  moreover have "\<forall>r params. dispatch sameText routes POST (js ''workspaces'' # js ''w1'' # [js ''tasks'', js ''t1'', js ''comments'']) = Some (r, params) \<longrightarrow>
      r \<notin> {acceptRoute, leaveRoute, markAllReadRoute, markReadRoute}"
    unfolding write_comment by (simp add: named_routes route_def below_def)
  ultimately show ?thesis
    using guests_only_look [OF _ _ _ dispatch_chooses [of sameText], of guestWorld "js ''w1''" "js ''u2''" _ POST "js ''workspaces''" "[js ''tasks'', js ''t1'', js ''comments'']"
      "''Cannot POST''" "\<lambda>_ _ _. modify (\<lambda>w. w\<lparr>comments := []\<rparr>)"] write_comment
    by (simp del: js_Cons)
qed

end
