(* ===== verification/Mentions.thy ===== *)
theory Mentions
  imports Feeds
begin

section \<open>Mentions in the body of a comment\<close>

text \<open>
  \<open>common/mentions/parse-mentions.ts\<close> and \<open>redact-mentions.ts\<close>: the markup \<open>@[Name](userId)\<close>. Both
  regular expressions have one way to match at a position, since a name cannot hold a closing bracket: the
  name is everything up to the first one. Both carry the flag \<open>i\<close>, which without the flag \<open>u\<close> relates an
  ASCII letter to its other case only; an id is made of ASCII characters.
\<close>

definition MAX_MENTION_NAME :: nat where
  "MAX_MENTION_NAME = 200"

definition fold_case :: "code_unit \<Rightarrow> code_unit" where
  "fold_case c = (if 65 \<le> c \<and> c \<le> 90 then c + 32 else c)"

definition same_text :: "js_string \<Rightarrow> js_string \<Rightarrow> bool" where
  "same_text a b \<longleftrightarrow> map fold_case a = map fold_case b"

definition mentionOpen :: "js_string \<Rightarrow> (js_string \<times> js_string) option" where
  \<comment> \<open>\<open>@\[[^\]]{0,200}\]\(\<close> at the start: the name, and what follows\<close>
  "mentionOpen s =
     (let rest = drop 2 s; name = takeWhile (\<lambda>c. c \<noteq> 0x5D) rest; after = drop (length name) rest
      in if take 2 s = [0x40, 0x5B] \<and> length name \<le> MAX_MENTION_NAME \<and> take 2 after = [0x5D, 0x28]
         then Some (name, drop 2 after) else None)"

definition hex_digit :: "code_unit \<Rightarrow> bool" where
  "hex_digit c \<longleftrightarrow> 48 \<le> c \<and> c \<le> 57 \<or> 97 \<le> fold_case c \<and> fold_case c \<le> 102"

definition uuid7_pattern :: "(code_unit \<Rightarrow> bool) list" where
  \<comment> \<open>\<open>[0-9a-f]{8}-[0-9a-f]{4}-7[0-9a-f]{3}-[89ab][0-9a-f]{3}-[0-9a-f]{12}\<close>\<close>
  "uuid7_pattern = replicate 8 hex_digit @ [\<lambda>c. c = 0x2D] @ replicate 4 hex_digit @ [\<lambda>c. c = 0x2D, \<lambda>c. c = 0x37]
     @ replicate 3 hex_digit @ [\<lambda>c. c = 0x2D, \<lambda>c. fold_case c \<in> {56, 57, 97, 98}] @ replicate 3 hex_digit
     @ [\<lambda>c. c = 0x2D] @ replicate 12 hex_digit"

definition uuid7_text :: "js_string \<Rightarrow> bool" where
  "uuid7_text s \<longleftrightarrow> list_all2 (\<lambda>p c. p c) uuid7_pattern s"

definition mentionAny :: "js_string \<Rightarrow> (js_string \<times> js_string \<times> js_string) option" where
  \<comment> \<open>\<open>MENTION_RE\<close> at the start: the name, the id, and what follows\<close>
  "mentionAny s = (case mentionOpen s of
     None \<Rightarrow> None
   | Some (name, r) \<Rightarrow> if uuid7_text (take 36 r) \<and> take 1 (drop 36 r) = [0x29] then Some (name, take 36 r, drop 37 r) else None)"

definition mentionOf :: "js_string \<Rightarrow> js_string \<Rightarrow> js_string option" where
  \<comment> \<open>the pattern of \<open>redactMentionsOf\<close> at the start: what follows\<close>
  "mentionOf userId s = (case mentionOpen s of
     None \<Rightarrow> None
   | Some (_, r) \<Rightarrow> if same_text (take (length userId) r) userId \<and> take 1 (drop (length userId) r) = [0x29]
       then Some (drop (Suc (length userId)) r) else None)"

lemma mentionOpen_shorter: "mentionOpen s = Some (name, r) \<Longrightarrow> length r < length s"
  by (cases s) (auto simp: mentionOpen_def Let_def split: if_splits)

lemma mentionAny_shorter: "mentionAny s = Some (name, k, rest) \<Longrightarrow> length rest < length s"
  by (auto simp: mentionAny_def dest!: mentionOpen_shorter split: option.splits if_splits)

lemma mentionOf_shorter: "mentionOf userId s = Some rest \<Longrightarrow> length rest < length s"
  by (auto simp: mentionOf_def dest!: mentionOpen_shorter split: option.splits if_splits)

function mentions :: "js_string \<Rightarrow> (js_string \<times> js_string) list" where
  \<comment> \<open>\<open>body.matchAll(MENTION_RE)\<close>\<close>
  "mentions s = (case mentionAny s of
     Some (name, k, rest) \<Rightarrow> (name, k) # mentions rest
   | None \<Rightarrow> (case s of [] \<Rightarrow> [] | _ # cs \<Rightarrow> mentions cs))"
  by pat_completeness auto
termination
  by (relation "measure length") (auto dest: mentionAny_shorter)

declare mentions.simps [simp del]

definition parseMentions :: "js_string \<Rightarrow> js_string list" where
  "parseMentions body = js_Set (map snd (mentions body))"

function redactMentionsOf :: "js_string \<Rightarrow> js_string \<Rightarrow> js_string \<Rightarrow> js_string" where
  \<comment> \<open>\<open>body.replace(pattern, ...)\<close> of the body, the user and the replacement\<close>
  "redactMentionsOf s userId replacement = (case mentionOf userId s of
     Some rest \<Rightarrow> [0x40, 0x5B] @ replacement @ [0x5D, 0x28] @ userId @ [0x29] @ redactMentionsOf rest userId replacement
   | None \<Rightarrow> (case s of [] \<Rightarrow> [] | c # cs \<Rightarrow> c # redactMentionsOf cs userId replacement))"
  by pat_completeness auto
termination
  by (relation "measure (\<lambda>(s, _, _). length s)") (auto dest: mentionOf_shorter)

declare redactMentionsOf.simps [simp del]

end
