(* ===== verification/MentionProps.thy ===== *)
theory MentionProps
  imports Mentions "HOL-Library.Sublist"
begin

section \<open>Redaction keeps every mention and hides the name\<close>

text \<open>
  Facts about the spelling of mentions, letters of either case included: where a mention starts and ends,
  which ids a body mentions, and what redaction leaves of it.
\<close>

subsection \<open>Texts up to case\<close>

lemma fold_case_classes:
  assumes "fold_case c = fold_case d"
  shows "hex_digit c = hex_digit d" "c = 0x2D \<longleftrightarrow> d = 0x2D" "c = 0x37 \<longleftrightarrow> d = 0x37"
proof -
  have "c = d \<or> (65 \<le> c \<and> c \<le> 90 \<and> d = c + 32) \<or> (65 \<le> d \<and> d \<le> 90 \<and> c = d + 32)"
    using assms unfolding fold_case_def by (auto split: if_splits)
  then show "hex_digit c = hex_digit d" "c = 0x2D \<longleftrightarrow> d = 0x2D" "c = 0x37 \<longleftrightarrow> d = 0x37"
    using assms by (auto simp: hex_digit_def) (unat_arith+)?
qed

lemma same_text_length: "same_text a b \<Longrightarrow> length a = length b"
  unfolding same_text_def by (metis length_map)

lemma same_text_refl [simp]: "same_text a a"
  by (simp add: same_text_def)

lemma uuid7_pattern_set:
  "p \<in> set uuid7_pattern \<Longrightarrow> p \<in> {hex_digit, \<lambda>c. c = 0x2D, \<lambda>c. c = 0x37, \<lambda>c. fold_case c \<in> {56, 57, 97, 98}}"
  unfolding uuid7_pattern_def by (simp only: set_append set_replicate_conv_if set_simps) (elim UnE; simp; blast)

lemma uuid7_pattern_case:
  assumes "p \<in> set uuid7_pattern" and "fold_case c = fold_case d"
  shows "p c = p d"
  using uuid7_pattern_set [OF assms(1)] fold_case_classes [OF assms(2)] assms(2) by (elim insertE emptyE) simp_all

lemma uuid7_same_text:
  assumes "same_text a b"
  shows "uuid7_text a = uuid7_text b"
proof -
  have len: "length a = length b" by (rule same_text_length [OF assms])
  have "fold_case (a ! i) = fold_case (b ! i)" if "i < length a" for i
    using assms that len unfolding same_text_def by (metis nth_map)
  then have "(uuid7_pattern ! i) (a ! i) = (uuid7_pattern ! i) (b ! i)" if "i < length a" "i < length uuid7_pattern" for i
    using that by (intro uuid7_pattern_case) simp_all
  then show ?thesis unfolding uuid7_text_def list_all2_conv_all_nth len by metis
qed

lemma uuid7_length: "uuid7_text s \<Longrightarrow> length s = 36"
  unfolding uuid7_text_def by (drule list_all2_lengthD) (simp add: uuid7_pattern_def)

lemma hex_not_at: "\<not> hex_digit 0x40" "\<not> hex_digit 0x5D"
  by (simp_all add: hex_digit_def fold_case_def)

lemma uuid7_no_at:
  assumes "uuid7_text s"
  shows "0x40 \<notin> set s"
proof
  assume "0x40 \<in> set s"
  then obtain i where i: "i < length s" "s ! i = 0x40" by (auto simp: in_set_conv_nth)
  with assms have "uuid7_pattern ! i \<in> set uuid7_pattern" "(uuid7_pattern ! i) 0x40"
    unfolding uuid7_text_def list_all2_conv_all_nth by (metis nth_mem)+
  from uuid7_pattern_set [OF this(1)] this(2) show False
    by (elim insertE emptyE) (simp_all add: hex_not_at, simp_all add: fold_case_def)
qed

subsection \<open>What a match is\<close>

definition token :: "js_string \<Rightarrow> js_string \<Rightarrow> js_string" where
  "token name k = [0x40, 0x5B] @ name @ [0x5D, 0x28] @ k @ [0x29]"

lemma split_at_first: "z \<notin> set p \<Longrightarrow> z \<notin> set q \<Longrightarrow> p @ z # x = q @ z # y \<Longrightarrow> p = q \<and> x = y"
proof (induction p arbitrary: q)
  case Nil
  then show ?case by (cases q) auto
next
  case (Cons c p)
  then show ?case by (cases q) auto
qed

lemma take_two: "take 2 s = [a, b] \<longleftrightarrow> (\<exists>r. s = a # b # r)"
  by (cases s; cases "tl s") (auto simp: numeral_2_eq_2)

lemma take_one: "take 1 s = [a] \<longleftrightarrow> (\<exists>r. s = a # r)"
  by (cases s) auto

lemma mentionOpen_iff:
  "mentionOpen s = Some (name, r) \<longleftrightarrow>
     s = [0x40, 0x5B] @ name @ [0x5D, 0x28] @ r \<and> 0x5D \<notin> set name \<and> length name \<le> MAX_MENTION_NAME"
proof
  assume m: "mentionOpen s = Some (name, r)"
  then have name: "name = takeWhile (\<lambda>c. c \<noteq> 0x5D) (drop 2 s)" "length name \<le> MAX_MENTION_NAME"
    and two: "take 2 s = [0x40, 0x5B]" "take 2 (drop (length name) (drop 2 s)) = [0x5D, 0x28]"
    and r: "r = drop 2 (drop (length name) (drop 2 s))"
    by (auto simp: mentionOpen_def Let_def split: if_splits)
  have "drop 2 s = name @ drop (length name) (drop 2 s)"
    unfolding name(1) by (metis takeWhile_dropWhile_id dropWhile_eq_drop)
  moreover have "drop (length name) (drop 2 s) = [0x5D, 0x28] @ r"
    using append_take_drop_id [of 2 "drop (length name) (drop 2 s)"] unfolding two(2) r by simp
  ultimately have "s = [0x40, 0x5B] @ name @ [0x5D, 0x28] @ r"
    using append_take_drop_id [of 2 s] two(1) by simp
  moreover have "0x5D \<notin> set name" unfolding name(1) by (metis set_takeWhileD)
  ultimately show "s = [0x40, 0x5B] @ name @ [0x5D, 0x28] @ r \<and> 0x5D \<notin> set name \<and> length name \<le> MAX_MENTION_NAME"
    using name(2) by simp
next
  assume s: "s = [0x40, 0x5B] @ name @ [0x5D, 0x28] @ r \<and> 0x5D \<notin> set name \<and> length name \<le> MAX_MENTION_NAME"
  then have "takeWhile (\<lambda>c. c \<noteq> 0x5D) (name @ 0x5D # 0x28 # r) = name"
    by (subst takeWhile_append2) auto
  with s show "mentionOpen s = Some (name, r)" by (simp add: mentionOpen_def Let_def numeral_2_eq_2)
qed

lemma mentionAny_iff:
  "mentionAny s = Some (name, k, rest) \<longleftrightarrow>
     s = token name k @ rest \<and> 0x5D \<notin> set name \<and> length name \<le> MAX_MENTION_NAME \<and> uuid7_text k"
proof
  assume "mentionAny s = Some (name, k, rest)"
  then obtain r where r: "mentionOpen s = Some (name, r)" "uuid7_text k" "k = take 36 r" "take 1 (drop 36 r) = [0x29]" "rest = drop 37 r"
    by (auto simp: mentionAny_def split: option.splits if_splits)
  obtain r' where r': "drop 36 r = 0x29 # r'" using r(4) unfolding take_one by blast
  have "rest = r'" using arg_cong [OF r', of "drop 1"] r(5) by simp
  with r' have "r = k @ [0x29] @ rest" using append_take_drop_id [of 36 r] r(3) by simp
  with r(1,2) show "s = token name k @ rest \<and> 0x5D \<notin> set name \<and> length name \<le> MAX_MENTION_NAME \<and> uuid7_text k"
    by (simp add: mentionOpen_iff token_def)
next
  assume s: "s = token name k @ rest \<and> 0x5D \<notin> set name \<and> length name \<le> MAX_MENTION_NAME \<and> uuid7_text k"
  then have "mentionOpen s = Some (name, k @ [0x29] @ rest)" by (simp add: mentionOpen_iff token_def)
  with s uuid7_length [of k] show "mentionAny s = Some (name, k, rest)" by (simp add: mentionAny_def)
qed

lemma mentionOf_iff:
  "mentionOf u s = Some rest \<longleftrightarrow> (\<exists>name k. s = token name k @ rest \<and> 0x5D \<notin> set name
     \<and> length name \<le> MAX_MENTION_NAME \<and> same_text k u)"
proof
  assume "mentionOf u s = Some rest"
  then obtain name r where r: "mentionOpen s = Some (name, r)" "same_text (take (length u) r) u"
      "take 1 (drop (length u) r) = [0x29]" "rest = drop (Suc (length u)) r"
    by (auto simp: mentionOf_def split: option.splits if_splits)
  obtain r' where r': "drop (length u) r = 0x29 # r'" using r(3) unfolding take_one by blast
  have "rest = r'" using arg_cong [OF r', of "drop 1"] r(4) by simp
  with r' have "r = take (length u) r @ [0x29] @ rest" using append_take_drop_id [of "length u" r] by simp
  with r(1,2) show "\<exists>name k. s = token name k @ rest \<and> 0x5D \<notin> set name \<and> length name \<le> MAX_MENTION_NAME \<and> same_text k u"
    unfolding mentionOpen_iff token_def by (metis append.assoc)
next
  assume "\<exists>name k. s = token name k @ rest \<and> 0x5D \<notin> set name \<and> length name \<le> MAX_MENTION_NAME \<and> same_text k u"
  then obtain name k where s: "s = token name k @ rest" "0x5D \<notin> set name" "length name \<le> MAX_MENTION_NAME" "same_text k u" by blast
  then have "mentionOpen s = Some (name, k @ [0x29] @ rest)" by (simp add: mentionOpen_iff token_def)
  with s(4) same_text_length [OF s(4)] show "mentionOf u s = Some rest" by (simp add: mentionOf_def)
qed


subsection \<open>Redaction, position by position\<close>

abbreviation redacted :: "js_string \<Rightarrow> js_string \<Rightarrow> js_string \<Rightarrow> js_string" where
  "redacted u rp s \<equiv> redactMentionsOf s u rp"

lemma redacted_hit: "mentionOf u s = Some rest \<Longrightarrow> redacted u rp s = token rp u @ redacted u rp rest"
  by (subst redactMentionsOf.simps) (simp add: token_def)

lemma redacted_miss: "mentionOf u (c # cs) = None \<Longrightarrow> redacted u rp (c # cs) = c # redacted u rp cs"
  by (subst redactMentionsOf.simps) simp

lemma not_at_miss: "c \<noteq> 0x40 \<Longrightarrow> mentionOf u (c # cs) = None"
  by (auto simp: mentionOf_iff token_def simp flip: not_Some_eq)

lemma redacted_Nil [simp]: "redacted u rp [] = []"
  by (subst redactMentionsOf.simps) (simp add: mentionOf_def mentionOpen_def)

lemma redacted_plain: "c \<noteq> 0x40 \<Longrightarrow> redacted u rp (c # cs) = c # redacted u rp cs"
  by (rule redacted_miss [OF not_at_miss])

lemma redacted_skip: "0x40 \<notin> set p \<Longrightarrow> redacted u rp (p @ x) = p @ redacted u rp x"
  by (induction p) (auto simp: redacted_plain)

lemma redacted_token_head: "\<exists>r. token rp u @ x = 0x40 # r"
  by (simp add: token_def)

lemma redacted_prefix_back: "0x40 \<notin> set p \<Longrightarrow> redacted u rp y = p @ z \<Longrightarrow> \<exists>r. y = p @ r \<and> redacted u rp r = z"
proof (induction p arbitrary: y)
  case (Cons c p)
  show ?case
  proof (cases y)
    case Nil
    with Cons.prems show ?thesis by simp
  next
    case (Cons d y')
    have miss: "mentionOf u y = None"
    proof (cases "mentionOf u y")
      case (Some rest)
      from redacted_hit [OF this] Cons.prems show ?thesis by (auto simp: token_def)
    qed
    then have "redacted u rp y = d # redacted u rp y'" using redacted_miss Cons by simp
    with Cons.prems Cons.IH [of y'] show ?thesis by (auto simp: Cons)
  qed
qed simp

lemma redacted_until:
  "0x5D \<notin> set a \<Longrightarrow> redacted u rp (a @ b) = a @ redacted u rp b
     \<or> (\<exists>p rest. 0x5D \<notin> set p \<and> redacted u rp (a @ b) = p @ token rp u @ redacted u rp rest)"
proof (induction a)
  case (Cons c a)
  show ?case
  proof (cases "mentionOf u (c # a @ b)")
    case None
    with Cons show ?thesis
      by (auto simp: redacted_miss) (metis (no_types, lifting) Cons_eq_appendI insert_iff list.set(2))
  next
    case (Some rest)
    from redacted_hit [OF this] show ?thesis
      by (intro disjI2 exI [of _ "[]"] exI [of _ rest]) simp
  qed
qed simp

subsection \<open>What redaction does to the mentions\<close>

lemma mentions_hit: "mentionAny s = Some (name, k, rest) \<Longrightarrow> mentions s = (name, k) # mentions rest"
  by (subst mentions.simps) simp

lemma mentions_miss: "mentionAny (c # cs) = None \<Longrightarrow> mentions (c # cs) = mentions cs"
  by (subst mentions.simps) simp

lemma mentions_swallow:
  assumes u: "uuid7_text u" and rp: "0x5D \<notin> set rp" "length rp \<le> MAX_MENTION_NAME"
  shows "0x5D \<notin> set a \<Longrightarrow> \<exists>name. mentions (a @ token rp u @ x) = (name, u) # mentions x \<and> suffix rp name"
proof (induction a)
  case Nil
  have "mentionAny (token rp u @ x) = Some (rp, u, x)" using u rp by (simp add: mentionAny_iff)
  from mentions_hit [OF this] show ?case by (intro exI [of _ rp]) simp
next
  case (Cons c a)
  let ?s = "c # a @ token rp u @ x"
  show ?case
  proof (cases "mentionAny ?s")
    case None
    from mentions_miss [OF this] Cons show ?thesis by simp
  next
    case (Some m)
    obtain name k rest where m: "m = (name, k, rest)" by (cases m)
    with Some have s: "?s = token name k @ rest" "0x5D \<notin> set name" "uuid7_text k" by (simp_all add: mentionAny_iff)
    have "(c # a @ [0x40, 0x5B] @ rp) @ 0x5D # 0x28 # u @ 0x29 # x = ([0x40, 0x5B] @ name) @ 0x5D # 0x28 # k @ 0x29 # rest"
      using s(1) by (simp add: token_def)
    then have "c # a @ [0x40, 0x5B] @ rp = [0x40, 0x5B] @ name" and tail: "u @ 0x29 # x = k @ 0x29 # rest"
      using split_at_first [of "0x5D" "c # a @ [0x40, 0x5B] @ rp" "[0x40, 0x5B] @ name"] Cons.prems rp(1) s(2) by auto
    then obtain a' where "name = a' @ [0x40, 0x5B] @ rp" by (cases a) auto
    then have "suffix rp name" by (metis append.assoc suffixI)
    moreover have "k = u" "rest = x" using tail uuid7_length [OF u] uuid7_length [OF s(3)] by simp_all
    ultimately show ?thesis using mentions_hit [OF Some [unfolded m]] by auto
  qed
qed

lemma redact_other:
  \<comment> \<open>a mention of somebody else stays where it is\<close>
  assumes u: "uuid7_text u" and k: "uuid7_text k" "\<not> same_text k u"
  shows "0x5D \<notin> set p \<Longrightarrow> redacted u rp (p @ 0x5D # 0x28 # k @ 0x29 # rest) = p @ 0x5D # 0x28 # k @ 0x29 # redacted u rp rest"
proof (induction p)
  case Nil
  have "redacted u rp (([0x5D, 0x28] @ k @ [0x29]) @ rest) = ([0x5D, 0x28] @ k @ [0x29]) @ redacted u rp rest"
    by (rule redacted_skip) (use uuid7_no_at [OF k(1)] in simp)
  then show ?case by simp
next
  case (Cons c p)
  have "mentionOf u (c # p @ 0x5D # 0x28 # k @ 0x29 # rest) = None"
  proof (cases "mentionOf u (c # p @ 0x5D # 0x28 # k @ 0x29 # rest)")
    case (Some rest')
    then obtain name' k' where t: "c # p @ 0x5D # 0x28 # k @ 0x29 # rest = token name' k' @ rest'" "0x5D \<notin> set name'" "same_text k' u"
      unfolding mentionOf_iff by blast
    from t(1) have "(c # p) @ 0x5D # 0x28 # k @ 0x29 # rest = ([0x40, 0x5B] @ name') @ 0x5D # 0x28 # k' @ 0x29 # rest'" by (simp add: token_def)
    then have "0x28 # k @ 0x29 # rest = 0x28 # k' @ 0x29 # rest'"
      using split_at_first [of "0x5D" "c # p" "[0x40, 0x5B] @ name'"] Cons.prems t(2) by auto
    moreover have "length k' = length k" using same_text_length [OF t(3)] uuid7_length [OF u] uuid7_length [OF k(1)] by simp
    ultimately have "k' = k" by simp
    with t(3) k(2) show ?thesis by simp
  qed simp
  with Cons redacted_miss show ?case by simp
qed

lemma mentionAny_back:
  \<comment> \<open>where nothing was rewritten up to the bracket that closes a name, a mention was there before\<close>
  assumes a: "0x5D \<notin> set a" and b: "b = [] \<or> (\<exists>b'. b = 0x5D # b')"
    and m: "mentionAny (a @ redacted u rp b) = Some (name, k, rest)"
  shows "\<exists>r. mentionAny (a @ b) = Some (name, k, r)"
proof -
  have s: "a @ redacted u rp b = token name k @ rest" "0x5D \<notin> set name" "length name \<le> MAX_MENTION_NAME" "uuid7_text k"
    using m by (simp_all add: mentionAny_iff)
  have "b \<noteq> []"
  proof
    assume "b = []"
    with s(1) have "a = token name k @ rest" by simp
    with a show False by (simp add: token_def)
  qed
  with b obtain b' where b': "b = 0x5D # b'" by blast
  then have "redacted u rp b = 0x5D # redacted u rp b'" by (simp add: redacted_plain)
  with s(1) have "a @ 0x5D # redacted u rp b' = ([0x40, 0x5B] @ name) @ 0x5D # ([0x28] @ k @ [0x29] @ rest)" by (simp add: token_def)
  with split_at_first [of "0x5D" a "[0x40, 0x5B] @ name"] a s(2)
  have a_eq: "a = [0x40, 0x5B] @ name" and tail: "redacted u rp b' = ([0x28] @ k @ [0x29]) @ rest" by auto
  have "0x40 \<notin> set ([0x28] @ k @ [0x29])" using uuid7_no_at [OF s(4)] by simp
  from redacted_prefix_back [OF this tail] obtain r where "b' = ([0x28] @ k @ [0x29]) @ r" by blast
  then have "a @ b = token name k @ r" by (simp add: a_eq b' token_def)
  with s(2-4) show ?thesis by (auto simp: mentionAny_iff)
qed

lemma redaction_step:
  assumes u: "uuid7_text u" and rp: "0x5D \<notin> set rp" "length rp \<le> MAX_MENTION_NAME"
    and none: "mentionOf u (c # cs) = None" "mentionAny (c # cs) = None"
  shows "mentions (redacted u rp (c # cs)) = mentions (redacted u rp cs)
    \<or> (\<exists>name name' xs. mentions (redacted u rp (c # cs)) = (name, u) # xs \<and> mentions (redacted u rp cs) = (name', u) # xs \<and> suffix rp name)"
proof -
  have eq: "redacted u rp (c # cs) = c # redacted u rp cs" by (rule redacted_miss [OF none(1)])
  show ?thesis
  proof (cases "mentionAny (c # redacted u rp cs)")
    case None
    from mentions_miss [OF this] show ?thesis by (simp add: eq)
  next
    case (Some m)
    obtain name k rest where m: "m = (name, k, rest)" by (cases m)
    let ?a = "takeWhile (\<lambda>x. x \<noteq> 0x5D) cs" and ?b = "dropWhile (\<lambda>x. x \<noteq> 0x5D) cs"
    have a: "0x5D \<notin> set ?a" by (metis set_takeWhileD)
    have b: "?b = [] \<or> (\<exists>b'. ?b = 0x5D # b')" by (cases ?b) (use hd_dropWhile [of "\<lambda>x. x \<noteq> 0x5D" cs] in auto)
    have "c \<noteq> 0x5D" using Some by (auto simp: m mentionAny_iff token_def)
    from redacted_until [OF a, where u = u and rp = rp and b = ?b] show ?thesis
    proof (elim disjE exE conjE)
      assume "redacted u rp (?a @ ?b) = ?a @ redacted u rp ?b"
      then have "mentionAny ((c # ?a) @ redacted u rp ?b) = Some (name, k, rest)" using Some m by simp
      with mentionAny_back [where a = "c # ?a" and b = ?b and u = u and rp = rp] a b \<open>c \<noteq> 0x5D\<close> none(2) show ?thesis by auto
    next
      fix p rest
      assume p: "0x5D \<notin> set p" and r: "redacted u rp (?a @ ?b) = p @ token rp u @ redacted u rp rest"
      have "\<exists>name. mentions ((c # p) @ token rp u @ redacted u rp rest) = (name, u) # mentions (redacted u rp rest) \<and> suffix rp name"
        by (rule mentions_swallow [OF u rp]) (use p \<open>c \<noteq> 0x5D\<close> in simp)
      moreover have "\<exists>name. mentions (p @ token rp u @ redacted u rp rest) = (name, u) # mentions (redacted u rp rest) \<and> suffix rp name"
        by (rule mentions_swallow [OF u rp p])
      ultimately show ?thesis using r by (auto simp: eq)
    qed
  qed
qed

lemma length_Cons_less: "length cs < length (c # cs)"
  by simp

lemma redaction_mentions:
  assumes u: "uuid7_text u" and rp: "0x5D \<notin> set rp" "length rp \<le> MAX_MENTION_NAME"
  shows "map snd (mentions (redacted u rp s)) = map (\<lambda>k. if same_text k u then u else k) (map snd (mentions s))
    \<and> (\<forall>(name, k) \<in> set (mentions (redacted u rp s)). same_text k u \<longrightarrow> suffix rp name)"
proof (induction s rule: length_induct)
  case (1 s)
  show ?case
  proof (cases "mentionAny s")
    case (Some m)
    obtain name k rest where m: "m = (name, k, rest)" by (cases m)
    have s: "s = token name k @ rest" "0x5D \<notin> set name" "length name \<le> MAX_MENTION_NAME" "uuid7_text k"
      using Some by (simp_all add: m mentionAny_iff)
    have IH: "map snd (mentions (redacted u rp rest)) = map (\<lambda>k. if same_text k u then u else k) (map snd (mentions rest))"
      "\<forall>(name, k) \<in> set (mentions (redacted u rp rest)). same_text k u \<longrightarrow> suffix rp name"
      using 1 mentionAny_shorter [OF Some [unfolded m]] by blast+
    show ?thesis
    proof (cases "same_text k u")
      case True
      then have "mentionOf u s = Some rest" using s by (auto simp: mentionOf_iff)
      from redacted_hit [OF this] mentions_swallow [OF u rp, of "[]" "redacted u rp rest"]
      obtain name' where "mentions (redacted u rp s) = (name', u) # mentions (redacted u rp rest)" "suffix rp name'" by auto
      with IH True mentions_hit [OF Some [unfolded m]] show ?thesis by simp
    next
      case False
      have "s = ([0x40, 0x5B] @ name) @ 0x5D # 0x28 # k @ 0x29 # rest" using s(1) by (simp add: token_def)
      then have "redacted u rp s = token name k @ redacted u rp rest"
        using redact_other [OF u s(4) False, where p = "[0x40, 0x5B] @ name" and rp = rp and rest = rest] s(2) by (simp add: token_def)
      then have "mentionAny (redacted u rp s) = Some (name, k, redacted u rp rest)" using s(2-4) by (simp add: mentionAny_iff)
      from mentions_hit [OF this] IH False mentions_hit [OF Some [unfolded m]] show ?thesis by simp
    qed
  next
    case None
    then have miss: "mentionOf u s = None"
      using u uuid7_same_text by (auto simp: mentionOf_iff mentionAny_iff simp flip: not_Some_eq)
    show ?thesis
    proof (cases s)
      case Nil
      then show ?thesis by (simp add: mentions.simps [of "[]"] mentionAny_def mentionOpen_def)
    next
      case (Cons c cs)
      have IH: "map snd (mentions (redacted u rp cs)) = map (\<lambda>k. if same_text k u then u else k) (map snd (mentions cs))"
        "\<forall>(name, k) \<in> set (mentions (redacted u rp cs)). same_text k u \<longrightarrow> suffix rp name"
        using 1 [rule_format, of cs, unfolded Cons, OF length_Cons_less] by blast+
      have "mentions s = mentions cs" using None mentions_miss by (simp add: Cons)
      with IH redaction_step [OF u rp miss [unfolded Cons] None [unfolded Cons]] show ?thesis
        by (auto simp: Cons)
    qed
  qed
qed

text \<open>
  Redacting a user leaves the list of mentions of a comment as it was, each with the id it had (the
  user's own in its canonical spelling), so that everybody who was addressed still is; and no mention of the
  user shows any name other than one that ends in the replacement.
\<close>

theorem redaction_keeps_mentions:
  assumes "uuid7_text userId" and "0x5D \<notin> set replacement" and "length replacement \<le> MAX_MENTION_NAME"
  shows "map snd (mentions (redactMentionsOf body userId replacement)) =
      map (\<lambda>k. if same_text k userId then userId else k) (map snd (mentions body))
    \<and> (\<forall>(name, k) \<in> set (mentions (redactMentionsOf body userId replacement)). same_text k userId \<longrightarrow> suffix replacement name)"
  by (rule redaction_mentions [OF assms])

definition sampleAda :: js_string where
  "sampleAda = js ''0198e2c0-9a1b-7f04-8c3d-2b5e7a9c1d53''"

theorem redaction_keeps_mentions_witness:
  "map snd (mentions (redactMentionsOf (js ''hi @[Ada](0198e2c0-9a1b-7f04-8c3d-2b5e7a9c1d53)'') sampleAda (js ''Deleted user''))) =
     map (\<lambda>k. if same_text k sampleAda then sampleAda else k) (map snd (mentions (js ''hi @[Ada](0198e2c0-9a1b-7f04-8c3d-2b5e7a9c1d53)'')))"
proof -
  have "uuid7_text sampleAda"
    by code_simp
  moreover have "0x5D \<notin> set (js ''Deleted user'')" "length (js ''Deleted user'') \<le> MAX_MENTION_NAME"
    by (simp_all add: MAX_MENTION_NAME_def)
  ultimately show ?thesis using redaction_keeps_mentions by blast
qed

end
