(* ===== verification/Accounts.thy ===== *)
theory Accounts
  imports Members Mentions Boards
begin

section \<open>Deleting an account\<close>

text \<open>
  \<open>account/account-deletion.service.ts\<close> and \<open>account/anonymised-user.ts\<close>. An account is anonymised in
  place: what is only about the person is deleted, what is also somebody else's keeps pointing at the row.
  Everything up to the log lines is one transaction; the reads that decide what is to be done come before it.

  The rewriting of mentions pages through the comments in a loop without a bound, so it is a partial
  function; an interactive transaction that does not end is aborted by Prisma at its time limit (\<open>P2028\<close>). The
  elapsed time in the log line is a parameter.
\<close>

subsection \<open>anonymised-user.ts\<close>

definition ANONYMOUS_USER_NAME :: js_string where
  "ANONYMOUS_USER_NAME = js ''Deleted user''"

definition anonymisedEmailFor :: "uuid \<Rightarrow> js_string" where
  "anonymisedEmailFor userId = js ''deleted-'' @ userId @ js ''@deleted.invalid''"

definition anonymisedUserFields :: "uuid \<Rightarrow> js_date \<Rightarrow> user_row \<Rightarrow> user_row" where
  "anonymisedUserFields userId deletedAt u = u\<lparr>u_email := anonymisedEmailFor userId, u_name := ANONYMOUS_USER_NAME,
     u_emailVerified := False, u_avatarUrl := None, u_locale := None, u_deletedAt := Some deletedAt\<rparr>"

subsection \<open>What the request says and what is reported\<close>

datatype disposition_action = Transfer | Delete

record WorkspaceDispositionDto =
  wp_workspaceId :: uuid
  wp_action :: disposition_action
  wp_newOwnerUserId :: "uuid option"

record DeleteAccountDto =
  da_confirmEmail :: js_string
  da_dispositions :: "WorkspaceDispositionDto list option"

datatype deletion_initiator = Self | InstanceAdmin

fun initiator_name :: "deletion_initiator \<Rightarrow> js_string" where
  "initiator_name Self = js ''self''"
| "initiator_name InstanceAdmin = js ''instance_admin''"

record AccountDeletionCounts =
  n_workspacesTransferred :: nat
  n_workspacesDeleted :: nat
  n_membershipsRemoved :: nat
  n_assignmentsRemoved :: nat
  n_invitationsRevoked :: nat
  n_commentsRedacted :: nat
  n_activitiesRedacted :: nat
  n_sessionsDeleted :: nat
  n_accountsDeleted :: nat
  n_verificationsDeleted :: nat
  n_notificationsDeleted :: nat
  n_usagePingsDeleted :: nat

record MembershipRow =
  ms_workspaceId :: uuid
  ms_role :: member_role
  ms_workspace :: workspace_row

subsection \<open>The reads before the transaction\<close>

definition requireLiveUser :: "uuid \<Rightarrow> user_row handler" where
  "requireLiveUser userId = orThrow (NotFound ''Account not found'')
     (\<lambda>w. case find (\<lambda>u. u_id u = userId) (users w) of
        None \<Rightarrow> None | Some u \<Rightarrow> if u_deletedAt u \<noteq> None then None else Some u)"

definition membershipsOf :: "world \<Rightarrow> uuid \<Rightarrow> MembershipRow list" where
  "membershipsOf w userId =
     List.map_filter (\<lambda>m. map_option (\<lambda>ws. \<lparr>ms_workspaceId = m_workspaceId m, ms_role = m_role m, ms_workspace = ws\<rparr>)
         (findWorkspace w (m_workspaceId m)))
       (sort_key m_workspaceId (filter (\<lambda>m. m_userId m = userId) (members w)))"

definition ownersByWorkspace :: "world \<Rightarrow> uuid list \<Rightarrow> uuid \<Rightarrow> nat option" where
  \<comment> \<open>\<open>groupBy\<close> has an entry for a workspace with a matching row\<close>
  "ownersByWorkspace w ownedIds k =
     (if k \<in> set ownedIds \<and> 0 < ownerCount w k then Some (ownerCount w k) else None)"

definition isSoleOwner :: "world \<Rightarrow> uuid list \<Rightarrow> MembershipRow \<Rightarrow> bool" where
  "isSoleOwner w ownedIds row \<longleftrightarrow> ms_role row = OWNER
     \<and> (case ownersByWorkspace w ownedIds (ms_workspaceId row) of None \<Rightarrow> 0 | Some n \<Rightarrow> n) \<le> 1"

definition partitionMemberships :: "uuid \<Rightarrow> (MembershipRow list \<times> MembershipRow list) handler" where
  "partitionMemberships userId = reads (\<lambda>w.
     let memberships = membershipsOf w userId;
         ownedIds = map ms_workspaceId (filter (\<lambda>row. ms_role row = OWNER) memberships)
     in (filter (isSoleOwner w ownedIds) memberships, filter (\<lambda>row. \<not> isSoleOwner w ownedIds row) memberships))"

subsection \<open>preview\<close>

record TransferCandidateDto =
  tcd_userId :: uuid
  tcd_name :: js_string
  tcd_role :: member_role

record SoleOwnedWorkspaceDto =
  sod_workspaceId :: uuid
  sod_name :: js_string
  sod_slug :: js_string
  sod_memberCount :: nat
  sod_boardCount :: nat
  sod_transferCandidates :: "TransferCandidateDto list"

record DepartingMembershipDto =
  dmd_workspaceId :: uuid
  dmd_name :: js_string
  dmd_role :: member_role

record AccountDeletionPreviewDto =
  pv_userId :: uuid
  pv_soleOwnedWorkspaces :: "SoleOwnedWorkspaceDto list"
  pv_otherWorkspaces :: "DepartingMembershipDto list"
  pv_comments :: nat
  pv_tasksCreated :: nat
  pv_attachments :: nat
  pv_activities :: nat

definition transferCandidates :: "world \<Rightarrow> uuid \<Rightarrow> uuid \<Rightarrow> TransferCandidateDto list" where
  "transferCandidates w workspaceId userId =
     List.map_filter (\<lambda>m. case memberInclude w m of
         None \<Rightarrow> None
       | Some row \<Rightarrow> if u_deletedAt (mr_user row) \<noteq> None then None
           else Some \<lparr>tcd_userId = m_userId m, tcd_name = u_name (mr_user row), tcd_role = m_role m\<rparr>)
       (sort_key m_id (filter (\<lambda>m. m_workspaceId m = workspaceId \<and> m_userId m \<noteq> userId) (members w)))"

definition soleOwnedWorkspace :: "world \<Rightarrow> uuid \<Rightarrow> MembershipRow \<Rightarrow> SoleOwnedWorkspaceDto" where
  "soleOwnedWorkspace w userId row =
     \<lparr>sod_workspaceId = ms_workspaceId row, sod_name = ws_name (ms_workspace row), sod_slug = ws_slug (ms_workspace row),
      sod_memberCount = length (filter (\<lambda>m. m_workspaceId m = ms_workspaceId row) (members w)),
      sod_boardCount = length (filter (\<lambda>b. b_workspaceId b = ms_workspaceId row) (boards w)),
      sod_transferCandidates = transferCandidates w (ms_workspaceId row) userId\<rparr>"

definition AccountDeletionService_preview :: "uuid \<Rightarrow> AccountDeletionPreviewDto handler" where
  "AccountDeletionService_preview userId =
     bindE (requireLiveUser userId) (\<lambda>_.
     bindE (partitionMemberships userId) (\<lambda>(soleOwned, other).
     reads (\<lambda>w. \<lparr>pv_userId = userId,
       pv_soleOwnedWorkspaces = map (soleOwnedWorkspace w userId) soleOwned,
       pv_otherWorkspaces = map (\<lambda>row. \<lparr>dmd_workspaceId = ms_workspaceId row, dmd_name = ws_name (ms_workspace row),
         dmd_role = ms_role row\<rparr>) other,
       pv_comments = length (filter (\<lambda>c. co_userId c = userId) (comments w)),
       pv_tasksCreated = length (filter (\<lambda>t. t_createdById t = userId) (tasks w)),
       pv_attachments = length (filter (\<lambda>a. at_uploadedById a = userId) (attachments w)),
       pv_activities = length (filter (\<lambda>a. a_userId a = userId) (activities w))\<rparr>)))"

subsection \<open>matchDispositions\<close>

definition ascii :: "js_string \<Rightarrow> string" where
  \<comment> \<open>an id inside a message\<close>
  "ascii = map (\<lambda>c. char_of (unat c))"

fun collectDispositions ::
  "uuid list \<Rightarrow> WorkspaceDispositionDto list \<Rightarrow> (uuid \<rightharpoonup> WorkspaceDispositionDto) \<Rightarrow>
   http_error + (uuid \<rightharpoonup> WorkspaceDispositionDto)" where
  "collectDispositions required [] byWorkspace = Inr byWorkspace"
| "collectDispositions required (d # ds) byWorkspace =
     (if byWorkspace (wp_workspaceId d) \<noteq> None
      then Inl (Conflict (''Two decisions were sent for the same workspace: '' @ ascii (wp_workspaceId d)))
      else if wp_workspaceId d \<notin> set required
      then Inl (Conflict (''This account is not the only owner of workspace '' @ ascii (wp_workspaceId d)
        @ ''; no decision is needed for it''))
      else collectDispositions required ds (byWorkspace(wp_workspaceId d \<mapsto> d)))"

fun commaSeparated :: "string list \<Rightarrow> string" where
  "commaSeparated [] = []"
| "commaSeparated [s] = s"
| "commaSeparated (s # t # ss) = s @ '', '' @ commaSeparated (t # ss)"

definition matchDispositions ::
  "MembershipRow list \<Rightarrow> WorkspaceDispositionDto list \<Rightarrow> http_error + (uuid \<rightharpoonup> WorkspaceDispositionDto)" where
  "matchDispositions soleOwned dispositions =
     (let required = js_Set (map ms_workspaceId soleOwned) in
      case collectDispositions required dispositions Map.empty of
        Inl e \<Rightarrow> Inl e
      | Inr byWorkspace \<Rightarrow>
          (let undecided = filter (\<lambda>k. byWorkspace k = None) required in
           if undecided \<noteq> []
           then Inl (Conflict (''Decide what happens to each workspace this account solely owns before it can be deleted: ''
             @ commaSeparated (map ascii undecided)))
           else Inr byWorkspace))"

subsection \<open>What becomes of a workspace\<close>

definition AccountDeletionService_transferOwnership :: "MembershipRow \<Rightarrow> uuid \<Rightarrow> uuid \<Rightarrow> unit handler" where
  "AccountDeletionService_transferOwnership membership newOwnerUserId departingUserId =
     bindE (orThrow (NotFound ''Workspace member not found'')
       (\<lambda>w. if newOwnerUserId = departingUserId then None
            else case findMember w (ms_workspaceId membership) newOwnerUserId of None \<Rightarrow> None | Some m \<Rightarrow> memberInclude w m)) (\<lambda>target.
     bindE (failIf (u_deletedAt (mr_user target) \<noteq> None)
       (Conflict ''That member has been deleted and cannot become an owner'')) (\<lambda>_.
     bindE (modify (\<lambda>w. w\<lparr>members := map (\<lambda>m.
       if m_workspaceId m = ms_workspaceId membership \<and> m_userId m = newOwnerUserId then m\<lparr>m_role := OWNER\<rparr> else m) (members w)\<rparr>)) (\<lambda>_.
     bindE (recordActivity (ms_workspaceId membership) None departingUserId MemberRoleChanged
       [(''targetUserId'', JString newOwnerUserId), (''targetName'', JString (u_name (mr_user target))),
        (''previousRole'', JString (role_name (m_role (mr_member target)))), (''newRole'', JString (role_name OWNER)),
        (''actorRole'', JString (role_name (ms_role membership))), (''reason'', JString (js ''account.deleted''))]) (\<lambda>_.
     return ()))))"

definition cascadeWorkspace :: "uuid \<Rightarrow> world \<Rightarrow> world" where
  \<comment> \<open>what deleting the row takes along (schema.prisma)\<close>
  "cascadeWorkspace workspaceId w =
     (let goneActivity = (\<lambda>k. list_ex (\<lambda>a. a_id a = k \<and> a_workspaceId a = workspaceId) (activities w));
          w1 = cascadeBoards (\<lambda>k. list_ex (\<lambda>b. b_id b = k \<and> b_workspaceId b = workspaceId) (boards w)) w
      in w1\<lparr>workspaces := filter (\<lambda>ws. ws_id ws \<noteq> workspaceId) (workspaces w1),
          members := filter (\<lambda>m. m_workspaceId m \<noteq> workspaceId) (members w1),
          invitations := filter (\<lambda>i. iv_workspaceId i \<noteq> workspaceId) (invitations w1),
          activities := filter (\<lambda>a. a_workspaceId a \<noteq> workspaceId) (activities w1),
          notifications := map (\<lambda>n. case n_activityId n of
              Some k \<Rightarrow> if goneActivity k then n\<lparr>n_activityId := None\<rparr> else n | None \<Rightarrow> n)
            (filter (\<lambda>n. n_workspaceId n \<noteq> workspaceId) (notifications w1)),
          usagePings := filter (\<lambda>p. up_workspaceId p \<noteq> workspaceId) (usagePings w1)\<rparr>)"

definition AccountDeletionService_deleteWorkspace :: "uuid \<Rightarrow> uuid \<Rightarrow> uuid \<Rightarrow> json handler" where
  \<comment> \<open>the line is the one of \<open>WorkspaceService.remove\<close> with one more field\<close>
  "AccountDeletionService_deleteWorkspace workspaceId departingUserId actorId =
     bindE (reads (\<lambda>w. map_option (\<lambda>ws. (ws, length (filter (\<lambda>m. m_workspaceId m = workspaceId) (members w)),
         length (filter (\<lambda>b. b_workspaceId b = workspaceId) (boards w)))) (findWorkspace w workspaceId))) (\<lambda>doomed.
     bindE (orThrow (PrismaError ''P2025'') (\<lambda>w. findWorkspace w workspaceId)) (\<lambda>_.
     bindE (modify (cascadeWorkspace workspaceId)) (\<lambda>_.
     reads (\<lambda>w. case workspaceDeletedLine w workspaceId actorId doomed of
         JObject fs \<Rightarrow> JObject (fs @ [(js ''deletedWithAccount'', JString departingUserId)]) | j \<Rightarrow> j))))"

fun settleOwned ::
  "uuid \<Rightarrow> uuid \<Rightarrow> (uuid \<rightharpoonup> WorkspaceDispositionDto) \<Rightarrow> MembershipRow list \<Rightarrow> (nat \<times> json list) handler" where
  \<comment> \<open>the loop over the workspaces to be decided: how many were transferred, and a line for each deleted one\<close>
  "settleOwned userId actorId dispositions [] = return (0, [])"
| "settleOwned userId actorId dispositions (membership # rest) =
     (case dispositions (ms_workspaceId membership) of
        None \<Rightarrow> throw (Conflict (''Decide what happens to workspace '' @ ascii (ms_workspaceId membership)
          @ '' before this account can be deleted''))
      | Some d \<Rightarrow>
          (case (wp_action d, wp_newOwnerUserId d) of
             (Transfer, Some newOwner) \<Rightarrow>
               bindE (AccountDeletionService_transferOwnership membership newOwner userId) (\<lambda>_.
               bindE (settleOwned userId actorId dispositions rest) (\<lambda>(n, lines). return (Suc n, lines)))
           | (Transfer, None) \<Rightarrow> throw (Conflict (''A transfer needs a new owner for workspace ''
               @ ascii (ms_workspaceId membership)))
           | (Delete, _) \<Rightarrow>
               bindE (AccountDeletionService_deleteWorkspace (ms_workspaceId membership) userId actorId) (\<lambda>line.
               bindE (settleOwned userId actorId dispositions rest) (\<lambda>(n, lines). return (n, line # lines)))))"

subsection \<open>Redaction\<close>

definition COMMENT_REDACTION_PAGE :: nat where
  "COMMENT_REDACTION_PAGE = 500"

fun js_includes :: "js_string \<Rightarrow> js_string \<Rightarrow> bool" where
  \<comment> \<open>Prisma's \<open>contains\<close>, which compares case\<close>
  "js_includes sub [] \<longleftrightarrow> sub = []"
| "js_includes sub (c # cs) \<longleftrightarrow> take (length sub) (c # cs) = sub \<or> js_includes sub cs"

definition redactionPage :: "uuid \<Rightarrow> uuid option \<Rightarrow> world \<Rightarrow> comment_row list" where
  "redactionPage userId cursor w = take COMMENT_REDACTION_PAGE (sort_key co_id
     (filter (\<lambda>c. js_includes userId (co_body c) \<and> (case cursor of Some k \<Rightarrow> k \<noteq> [] \<longrightarrow> k < co_id c | None \<Rightarrow> True)) (comments w)))"

definition redactComment :: "uuid \<Rightarrow> comment_row \<Rightarrow> nat \<times> world \<Rightarrow> nat \<times> world" where
  "redactComment userId c acc =
     (let body = redactMentionsOf (co_body c) userId ANONYMOUS_USER_NAME in
      if body = co_body c then acc
      else (Suc (fst acc), (snd acc)\<lparr>comments := map (\<lambda>x. if co_id x = co_id c then x\<lparr>co_body := body\<rparr> else x) (comments (snd acc))\<rparr>))"

partial_function (option) redactPages :: "uuid \<Rightarrow> uuid option \<Rightarrow> nat \<times> world \<Rightarrow> (nat \<times> world) option" where
  "redactPages userId cursor acc =
     (let page = redactionPage userId cursor (snd acc) in
      if page = [] then Some acc
      else let acc' = fold (redactComment userId) page acc in
        if length page < COMMENT_REDACTION_PAGE then Some acc'
        else redactPages userId (Some (co_id (last page))) acc')"

definition AccountDeletionService_redactCommentMentions :: "uuid \<Rightarrow> nat handler" where
  "AccountDeletionService_redactCommentMentions userId w =
     (case redactPages userId None (0, w) of
        None \<Rightarrow> (Inl (PrismaError ''P2028''), w)
      | Some (rewritten, w') \<Rightarrow> (Inr rewritten, w'))"

definition namesTarget :: "uuid \<Rightarrow> payload \<Rightarrow> bool" where
  \<comment> \<open>the condition of the UPDATE; \<open>->>\<close> of a JSON \<open>null\<close> is NULL\<close>
  "namesTarget userId p \<longleftrightarrow> map_of p ''targetUserId'' = Some (JString userId)
     \<and> (case map_of p ''targetName'' of None \<Rightarrow> False | Some v \<Rightarrow> v \<noteq> JNull)"

definition redactPayload :: "payload \<Rightarrow> payload" where
  \<comment> \<open>\<open>jsonb_set(payload, '{targetName}', ..., false)\<close>\<close>
  "redactPayload p = map (\<lambda>(k, v). if k = ''targetName'' then (k, JString ANONYMOUS_USER_NAME) else (k, v)) p"

definition AccountDeletionService_redactActivityPayloads :: "uuid \<Rightarrow> nat handler" where
  "AccountDeletionService_redactActivityPayloads userId w =
     (Inr (length (filter (\<lambda>a. namesTarget userId (a_payload a)) (activities w))),
      w\<lparr>activities := map (\<lambda>a. if namesTarget userId (a_payload a) then a\<lparr>a_payload := redactPayload (a_payload a)\<rparr> else a)
        (activities w)\<rparr>)"

subsection \<open>deleteAccount\<close>

fun logDepartures :: "uuid \<Rightarrow> deletion_initiator \<Rightarrow> MembershipRow list \<Rightarrow> unit handler" where
  "logDepartures userId initiatedBy [] = return ()"
| "logDepartures userId initiatedBy (membership # rest) =
     bindE (recordActivity (ms_workspaceId membership) None userId AccountDeleted
       [(''targetUserId'', JString userId), (''previousRole'', JString (role_name (ms_role membership))),
        (''initiatedBy'', JString (initiator_name initiatedBy))]) (\<lambda>_.
     logDepartures userId initiatedBy rest)"

definition deleteMany :: "(world \<Rightarrow> 'r list) \<Rightarrow> ('r list \<Rightarrow> world \<Rightarrow> world) \<Rightarrow> ('r \<Rightarrow> bool) \<Rightarrow> nat handler" where
  \<comment> \<open>\<open>(await tx.table.deleteMany({ where })).count\<close>\<close>
  "deleteMany table put P w =
     (Inr (length (filter P (table w))), put (filter (\<lambda>r. \<not> P r) (table w)) w)"

definition erasePerson :: "user_row \<Rightarrow> js_date \<Rightarrow> AccountDeletionCounts \<Rightarrow> AccountDeletionCounts handler" where
  \<comment> \<open>the statements from the assignments to the row itself\<close>
  "erasePerson user deletedAt counts =
     (let userId = u_id user in
     bindE (deleteMany assignees (\<lambda>rs w. w\<lparr>assignees := rs\<rparr>) (\<lambda>r. ta_userId r = userId)) (\<lambda>n1.
     bindE (deleteMany invitations (\<lambda>rs w. w\<lparr>invitations := rs\<rparr>) (\<lambda>r. iv_inviterId r = userId \<and> iv_status r = js ''pending'')) (\<lambda>n2.
     bindE (AccountDeletionService_redactCommentMentions userId) (\<lambda>n3.
     bindE (AccountDeletionService_redactActivityPayloads userId) (\<lambda>n4.
     bindE (deleteMany notifications (\<lambda>rs w. w\<lparr>notifications := rs\<rparr>) (\<lambda>r. n_userId r = userId)) (\<lambda>n5.
     bindE (deleteMany usagePings (\<lambda>rs w. w\<lparr>usagePings := rs\<rparr>) (\<lambda>r. up_userId r = userId)) (\<lambda>n6.
     bindE (deleteMany sessions (\<lambda>rs w. w\<lparr>sessions := rs\<rparr>) (\<lambda>r. se_userId r = userId)) (\<lambda>n7.
     bindE (deleteMany accounts (\<lambda>rs w. w\<lparr>accounts := rs\<rparr>) (\<lambda>r. ac_userId r = userId)) (\<lambda>n8.
     bindE (deleteMany verifications (\<lambda>rs w. w\<lparr>verifications := rs\<rparr>) (\<lambda>r. js_includes (u_email user) (ve_identifier r))) (\<lambda>n9.
     bindE (deleteMany members (\<lambda>rs w. w\<lparr>members := rs\<rparr>) (\<lambda>r. m_userId r = userId)) (\<lambda>n10.
     bindE (orThrow (PrismaError ''P2025'') (\<lambda>w. find (\<lambda>u. u_id u = userId) (users w))) (\<lambda>_.
     bindE (modify (\<lambda>w. w\<lparr>users := map (\<lambda>u. if u_id u = userId then anonymisedUserFields userId deletedAt u else u) (users w)\<rparr>)) (\<lambda>_.
     return (counts\<lparr>n_assignmentsRemoved := n1, n_invitationsRevoked := n2, n_commentsRedacted := n3,
       n_activitiesRedacted := n4, n_notificationsDeleted := n5, n_usagePingsDeleted := n6, n_sessionsDeleted := n7,
       n_accountsDeleted := n8, n_verificationsDeleted := n9, n_membershipsRemoved := n10\<rparr>))))))))))))))"

definition noCounts :: AccountDeletionCounts where
  "noCounts = \<lparr>n_workspacesTransferred = 0, n_workspacesDeleted = 0, n_membershipsRemoved = 0, n_assignmentsRemoved = 0,
     n_invitationsRevoked = 0, n_commentsRedacted = 0, n_activitiesRedacted = 0, n_sessionsDeleted = 0,
     n_accountsDeleted = 0, n_verificationsDeleted = 0, n_notificationsDeleted = 0, n_usagePingsDeleted = 0\<rparr>"

definition survivingMemberships ::
  "(uuid \<rightharpoonup> WorkspaceDispositionDto) \<Rightarrow> MembershipRow list \<Rightarrow> MembershipRow list \<Rightarrow> MembershipRow list" where
  "survivingMemberships dispositions soleOwned other =
     filter (\<lambda>row. map_option wp_action (dispositions (ms_workspaceId row)) = Some Transfer) soleOwned @ other"

definition deletionTransaction ::
  "user_row \<Rightarrow> uuid \<Rightarrow> deletion_initiator \<Rightarrow> js_date \<Rightarrow> (uuid \<rightharpoonup> WorkspaceDispositionDto) \<Rightarrow>
   MembershipRow list \<Rightarrow> MembershipRow list \<Rightarrow> (AccountDeletionCounts \<times> json list \<times> uuid list) handler" where
  "deletionTransaction user actorId initiatedBy deletedAt dispositions soleOwned other =
     (let surviving = survivingMemberships dispositions soleOwned other in
     transaction (
       bindE (settleOwned (u_id user) actorId dispositions soleOwned) (\<lambda>(transferred, lines).
       bindE (logDepartures (u_id user) initiatedBy surviving) (\<lambda>_.
       bindE (erasePerson user deletedAt (noCounts\<lparr>n_workspacesTransferred := transferred,
         n_workspacesDeleted := length lines\<rparr>)) (\<lambda>counts.
       return (counts, lines, map ms_workspaceId surviving))))))"

definition accountDeletedLine ::
  "world \<Rightarrow> uuid \<Rightarrow> deletion_initiator \<Rightarrow> uuid option \<Rightarrow> js_number \<Rightarrow> AccountDeletionCounts \<Rightarrow> json" where
  "accountDeletedLine w userId initiatedBy actorId durationMs counts = JObject
     [(js ''ts'', JString (toISOString (w_now w))), (js ''level'', JString (js ''warn'')),
      (js ''event'', JString (js ''account.deleted'')), (js ''userId'', JString userId),
      (js ''initiatedBy'', JString (initiator_name initiatedBy)),
      (js ''actorId'', (case actorId of None \<Rightarrow> JNull | Some a \<Rightarrow> JString a)), (js ''durationMs'', JNumber durationMs),
      (js ''workspacesTransferred'', json_int (int (n_workspacesTransferred counts))),
      (js ''workspacesDeleted'', json_int (int (n_workspacesDeleted counts))),
      (js ''membershipsRemoved'', json_int (int (n_membershipsRemoved counts))),
      (js ''assignmentsRemoved'', json_int (int (n_assignmentsRemoved counts))),
      (js ''invitationsRevoked'', json_int (int (n_invitationsRevoked counts))),
      (js ''commentsRedacted'', json_int (int (n_commentsRedacted counts))),
      (js ''activitiesRedacted'', json_int (int (n_activitiesRedacted counts))),
      (js ''sessionsDeleted'', json_int (int (n_sessionsDeleted counts))),
      (js ''accountsDeleted'', json_int (int (n_accountsDeleted counts))),
      (js ''verificationsDeleted'', json_int (int (n_verificationsDeleted counts))),
      (js ''notificationsDeleted'', json_int (int (n_notificationsDeleted counts))),
      (js ''usagePingsDeleted'', json_int (int (n_usagePingsDeleted counts)))]"

text \<open>The reads and the checks before the transaction, then the transaction and what follows its commit.\<close>

definition deletionPlan ::
  "uuid \<Rightarrow> DeleteAccountDto \<Rightarrow> (user_row \<times> (uuid \<rightharpoonup> WorkspaceDispositionDto) \<times> MembershipRow list \<times> MembershipRow list) handler" where
  "deletionPlan userId dto =
     bindE (requireLiveUser userId) (\<lambda>user.
     bindE (failIf (js_lower (js_trim (da_confirmEmail dto)) \<noteq> js_lower (js_trim (u_email user)))
       (Forbidden ''The confirmation address does not match this account'')) (\<lambda>_.
     bindE (partitionMemberships userId) (\<lambda>(soleOwned, other).
     bindE (lift (matchDispositions soleOwned (case da_dispositions dto of None \<Rightarrow> [] | Some ds \<Rightarrow> ds))) (\<lambda>dispositions.
     return (user, dispositions, soleOwned, other)))))"

definition deletionCommit ::
  "js_number \<Rightarrow> deletion_initiator \<Rightarrow> uuid option \<Rightarrow>
   user_row \<times> (uuid \<rightharpoonup> WorkspaceDispositionDto) \<times> MembershipRow list \<times> MembershipRow list \<Rightarrow> AccountDeletionCounts handler" where
  "deletionCommit durationMs initiatedBy actorId plan = (case plan of (user, dispositions, soleOwned, other) \<Rightarrow>
     bindE (reads w_now) (\<lambda>deletedAt.
     bindE (deletionTransaction user (case actorId of None \<Rightarrow> u_id user | Some a \<Rightarrow> a) initiatedBy deletedAt dispositions
       soleOwned other) (\<lambda>(counts, lines, evictions).
     bindE (modify (fold (\<lambda>workspaceId. evictUserFromWorkspaceSockets workspaceId (u_id user)) evictions)) (\<lambda>_.
     bindE (modify (\<lambda>w. w\<lparr>w_log := w_log w @ lines\<rparr>)) (\<lambda>_.
     bindE (modify (\<lambda>w. w\<lparr>w_log := w_log w @ [accountDeletedLine w (u_id user) initiatedBy actorId durationMs counts]\<rparr>)) (\<lambda>_.
     return counts))))))"

definition AccountDeletionService_deleteAccount ::
  "js_number \<Rightarrow> uuid \<Rightarrow> DeleteAccountDto \<Rightarrow> deletion_initiator \<Rightarrow> uuid option \<Rightarrow> AccountDeletionCounts handler" where
  "AccountDeletionService_deleteAccount durationMs userId dto initiatedBy actorId =
     bindE (deletionPlan userId dto) (deletionCommit durationMs initiatedBy actorId)"

end
