(* ===== verification/AccountProps.thy ===== *)
theory AccountProps
  imports Accounts MentionProps MemberSafety
begin

section \<open>What deleting an account guarantees\<close>

text \<open>
  What the steps of an account deletion do one at a time: the paged rewriting of the comments is a single
  pass, and the decisions about owned workspaces are all demanded before anything is written.
\<close>

subsection \<open>The paged rewriting of comments\<close>

definition redactedComment :: "uuid \<Rightarrow> comment_row \<Rightarrow> comment_row" where
  \<comment> \<open>one comment, in one pass\<close>
  "redactedComment userId c = (if js_includes userId (co_body c)
     then c\<lparr>co_body := redactMentionsOf (co_body c) userId ANONYMOUS_USER_NAME\<rparr> else c)"

definition rewrittenUpTo :: "uuid \<Rightarrow> comment_row list \<Rightarrow> world \<Rightarrow> world" where
  "rewrittenUpTo userId seen w =
     w\<lparr>comments := map (\<lambda>c. if co_id c \<in> co_id ` set seen then redactedComment userId c else c) (comments w)\<rparr>"

definition mentioning :: "uuid \<Rightarrow> world \<Rightarrow> comment_row list" where
  "mentioning userId w = sort_key co_id (filter (\<lambda>c. js_includes userId (co_body c)) (comments w))"

lemma set_mentioning: "set (mentioning userId w) = {c \<in> set (comments w). js_includes userId (co_body c)}"
  by (auto simp: mentioning_def)

lemma redactedComment_id [simp]: "co_id (redactedComment userId c) = co_id c"
  by (simp add: redactedComment_def)

lemma comment_unchanged: "c\<lparr>co_body := b\<rparr> = c \<longleftrightarrow> b = co_body c"
  by (cases c) auto

lemma sorted_wrt_last: "sorted_wrt R xs \<Longrightarrow> x \<in> set xs \<Longrightarrow> x = last xs \<or> R x (last xs)"
  by (induction xs) auto

lemma sorted_wrt_distinct_map: "sorted_wrt (\<lambda>a b. f a < f b) xs \<Longrightarrow> distinct (map (f :: 'a \<Rightarrow> 'k::order) xs)"
  by (induction xs) auto

lemma mentioning_sorted:
  assumes "distinct (map co_id (comments w))"
  shows "sorted_wrt (\<lambda>a b. co_id a < co_id b) (mentioning userId w)"
  unfolding mentioning_def
  by (rule sorted_wrt_sort_key) (use assms in \<open>auto simp: distinct_map inj_on_def\<close>)

lemma redactComment_step:
  assumes dist: "distinct (map co_id (comments w))" and c: "c \<in> set (mentioning userId w)"
    and fresh: "co_id c \<notin> co_id ` set seen"
  shows "redactComment userId c (n, rewrittenUpTo userId seen w) =
    (n + (if redactedComment userId c \<noteq> c then 1 else 0), rewrittenUpTo userId (seen @ [c]) w)"
proof -
  have mem: "c \<in> set (comments w)" "js_includes userId (co_body c)" using c by (simp_all add: set_mentioning)
  have same: "x = c" if "x \<in> set (comments w)" "co_id x = co_id c" for x
    by (rule inj_on_id [OF dist that(1) mem(1) that(2)])
  have one: "(if co_id x \<in> co_id ` set (seen @ [c]) then redactedComment userId x else x) =
      (\<lambda>y. if co_id y = co_id c then y\<lparr>co_body := redactMentionsOf (co_body c) userId ANONYMOUS_USER_NAME\<rparr> else y)
        (if co_id x \<in> co_id ` set seen then redactedComment userId x else x)" if x: "x \<in> set (comments w)" for x
    using same [OF x] fresh mem(2) by (auto simp: redactedComment_def)
  have all: "rewrittenUpTo userId (seen @ [c]) w = (rewrittenUpTo userId seen w)\<lparr>comments :=
      map (\<lambda>y. if co_id y = co_id c then y\<lparr>co_body := redactMentionsOf (co_body c) userId ANONYMOUS_USER_NAME\<rparr> else y)
        (comments (rewrittenUpTo userId seen w))\<rparr>"
    unfolding rewrittenUpTo_def using one by simp
  show ?thesis
  proof (cases "redactMentionsOf (co_body c) userId ANONYMOUS_USER_NAME = co_body c")
    case True
    then have "redactedComment userId c = c" by (simp add: redactedComment_def)
    moreover have "rewrittenUpTo userId (seen @ [c]) w = rewrittenUpTo userId seen w"
      unfolding rewrittenUpTo_def
      by (intro arg_cong [where f = "\<lambda>cs. w\<lparr>comments := cs\<rparr>"] map_cong refl)
        (use same \<open>redactedComment userId c = c\<close> in auto)
    ultimately show ?thesis using True by (simp add: redactComment_def Let_def)
  next
    case False
    then have "redactedComment userId c \<noteq> c" by (simp add: redactedComment_def mem(2) comment_unchanged)
    then show ?thesis using False all by (simp add: redactComment_def Let_def)
  qed
qed

lemma redactComment_fold:
  assumes dist: "distinct (map co_id (comments w))"
  shows "set xs \<subseteq> set (mentioning userId w) \<Longrightarrow> distinct (map co_id (seen @ xs)) \<Longrightarrow>
    fold (redactComment userId) xs (n, rewrittenUpTo userId seen w) =
      (n + length (filter (\<lambda>c. redactedComment userId c \<noteq> c) xs), rewrittenUpTo userId (seen @ xs) w)"
proof (induction xs arbitrary: n seen)
  case (Cons c xs)
  have "redactComment userId c (n, rewrittenUpTo userId seen w) =
      (n + (if redactedComment userId c \<noteq> c then 1 else 0), rewrittenUpTo userId (seen @ [c]) w)"
    by (rule redactComment_step [OF dist]) (use Cons.prems in auto)
  with Cons.IH [of "seen @ [c]"] Cons.prems show ?case by simp
qed simp

lemma redactionPage_rest:
  assumes dist: "distinct (map co_id (comments w))" and ids: "[] \<notin> co_id ` set (comments w)"
    and split: "mentioning userId w = seen @ rest"
  shows "redactionPage userId (map_option co_id (js_last seen)) (rewrittenUpTo userId seen w) = take COMMENT_REDACTION_PAGE rest"
proof -
  define after where "after k \<longleftrightarrow> (seen = [] \<or> co_id (last seen) < k)" for k
  have srt: "sorted_wrt (\<lambda>a b. co_id a < co_id b) (seen @ rest)" using mentioning_sorted [OF dist] split by metis
  have seen: "s \<in> set (comments w)" if "s \<in> set seen" for s
    using set_mentioning [of userId w] that unfolding split by auto
  then have ne: "seen \<noteq> [] \<Longrightarrow> co_id (last seen) \<noteq> []" using ids last_in_set by (metis image_eqI)
  have cursor: "(case map_option co_id (js_last seen) of Some k \<Rightarrow> k \<noteq> [] \<longrightarrow> k < co_id c | None \<Rightarrow> True) \<longleftrightarrow> after (co_id c)" for c
    using ne by (auto simp: js_last_def after_def)
  have notyet: "c \<notin> set seen" if "after (co_id c)" for c
  proof
    assume "c \<in> set seen"
    have "sorted_wrt (\<lambda>a b. co_id a < co_id b) seen" using srt by (simp only: sorted_wrt_append)
    from sorted_wrt_last [OF this \<open>c \<in> set seen\<close>] have "co_id c \<le> co_id (last seen)" by (metis order.strict_implies_order order_refl)
    moreover have "seen \<noteq> []" using \<open>c \<in> set seen\<close> by (metis empty_iff empty_set)
    ultimately show False using that unfolding after_def by (metis leD)
  qed
  have unseen: "co_id c \<notin> co_id ` set seen" if "c \<in> set (comments w)" "after (co_id c)" for c
  proof
    assume "co_id c \<in> co_id ` set seen"
    then obtain s where s: "s \<in> set seen" "co_id s = co_id c" by auto
    from inj_on_id [OF dist seen [OF s(1)] that(1) s(2)] s(1) notyet that(2) show False by auto
  qed
  have "filter (\<lambda>c. js_includes userId (co_body c) \<and> after (co_id c)) (comments (rewrittenUpTo userId seen w)) =
      filter (\<lambda>c. js_includes userId (co_body c) \<and> after (co_id c)) (comments w)"
  proof -
    let ?f = "\<lambda>c. if co_id c \<in> co_id ` set seen then redactedComment userId c else c"
    let ?P = "\<lambda>c. js_includes userId (co_body c) \<and> after (co_id c)"
    have "\<forall>c \<in> set xs. after (co_id c) \<longrightarrow> co_id c \<notin> co_id ` set seen \<Longrightarrow> filter ?P (map ?f xs) = filter ?P xs" for xs
      by (induction xs) auto
    with unseen show ?thesis by (simp add: rewrittenUpTo_def)
  qed
  then have "redactionPage userId (map_option co_id (js_last seen)) (rewrittenUpTo userId seen w) =
      take COMMENT_REDACTION_PAGE (sort_key co_id (filter (\<lambda>c. js_includes userId (co_body c) \<and> after (co_id c)) (comments w)))"
    by (simp only: redactionPage_def cursor)
  also have "sort_key co_id (filter (\<lambda>c. js_includes userId (co_body c) \<and> after (co_id c)) (comments w)) =
      filter (\<lambda>c. after (co_id c)) (mentioning userId w)"
    unfolding mentioning_def filter_sort by (simp add: conj_commute)
  also have "\<dots> = rest"
  proof -
    have "filter (\<lambda>c. after (co_id c)) seen = []" using notyet by (auto simp: filter_empty_conv)
    moreover have "filter (\<lambda>c. after (co_id c)) rest = rest"
      using srt by (auto simp: filter_id_conv after_def sorted_wrt_append)
    ultimately show ?thesis by (simp add: split)
  qed
  finally show ?thesis .
qed

lemma redactPages_all:
  assumes dist: "distinct (map co_id (comments w))" and ids: "[] \<notin> co_id ` set (comments w)"
  shows "mentioning userId w = seen @ rest \<Longrightarrow>
    redactPages userId (map_option co_id (js_last seen)) (n, rewrittenUpTo userId seen w) =
      Some (n + length (filter (\<lambda>c. redactedComment userId c \<noteq> c) rest), rewrittenUpTo userId (seen @ rest) w)"
proof (induction "length rest" arbitrary: seen rest n rule: less_induct)
  case less
  let ?page = "take COMMENT_REDACTION_PAGE rest"
  have page: "redactionPage userId (map_option co_id (js_last seen)) (rewrittenUpTo userId seen w) = ?page"
    by (rule redactionPage_rest [OF dist ids less.prems])
  have srt: "sorted_wrt (\<lambda>a b. co_id a < co_id b) (seen @ rest)" using mentioning_sorted [OF dist] less.prems by metis
  then have "distinct (map co_id (seen @ rest))" by (rule sorted_wrt_distinct_map)
  moreover have "seen @ rest = (seen @ ?page) @ drop COMMENT_REDACTION_PAGE rest" by simp
  ultimately have dpage: "distinct (map co_id (seen @ ?page))" by (metis distinct_append map_append)
  have "set ?page \<subseteq> set (mentioning userId w)" using less.prems set_take_subset [of COMMENT_REDACTION_PAGE rest] by auto
  from redactComment_fold [OF dist this dpage]
  have folded: "fold (redactComment userId) ?page (n, rewrittenUpTo userId seen w) =
      (n + length (filter (\<lambda>c. redactedComment userId c \<noteq> c) ?page), rewrittenUpTo userId (seen @ ?page) w)" .
  have pos: "0 < COMMENT_REDACTION_PAGE" by (simp add: COMMENT_REDACTION_PAGE_def)
  show ?case
  proof (cases "length ?page < COMMENT_REDACTION_PAGE")
    case True
    then have "?page = rest" by simp
    with True page folded show ?thesis
      by (subst redactPages.simps) (auto simp: Let_def)
  next
    case False
    then have ne: "?page \<noteq> []" using pos by auto
    let ?rest = "drop COMMENT_REDACTION_PAGE rest"
    have less': "length ?rest < length rest" using ne pos by (cases rest) auto
    have "js_last (seen @ ?page) = Some (last ?page)" using ne by (simp add: js_last_def)
    with less.hyps [OF less', of "seen @ ?page" "n + length (filter (\<lambda>c. redactedComment userId c \<noteq> c) ?page)"] less.prems
    have "redactPages userId (Some (co_id (last ?page)))
        (n + length (filter (\<lambda>c. redactedComment userId c \<noteq> c) ?page), rewrittenUpTo userId (seen @ ?page) w) =
      Some (n + length (filter (\<lambda>c. redactedComment userId c \<noteq> c) ?page)
        + length (filter (\<lambda>c. redactedComment userId c \<noteq> c) ?rest), rewrittenUpTo userId (seen @ rest) w)" by simp
    moreover have "length (filter (\<lambda>c. redactedComment userId c \<noteq> c) ?page) + length (filter (\<lambda>c. redactedComment userId c \<noteq> c) ?rest)
        = length (filter (\<lambda>c. redactedComment userId c \<noteq> c) rest)"
      by (metis append_take_drop_id filter_append length_append)
    ultimately show ?thesis using False ne page folded
      by (subst redactPages.simps) (auto simp: Let_def add.assoc)
  qed
qed

lemma redaction_one_pass:
  assumes "distinct (map co_id (comments w))" and "[] \<notin> co_id ` set (comments w)"
  shows "AccountDeletionService_redactCommentMentions userId w =
    (Inr (length (filter (\<lambda>c. redactedComment userId c \<noteq> c) (comments w))),
     w\<lparr>comments := map (redactedComment userId) (comments w)\<rparr>)"
proof -
  have "redactPages userId None (0, rewrittenUpTo userId [] w) =
      Some (length (filter (\<lambda>c. redactedComment userId c \<noteq> c) (mentioning userId w)), rewrittenUpTo userId (mentioning userId w) w)"
    using redactPages_all [OF assms, of userId "[]" "mentioning userId w" 0] by (simp add: js_last_def)
  moreover have "rewrittenUpTo userId [] w = w" by (simp add: rewrittenUpTo_def)
  moreover have "rewrittenUpTo userId (mentioning userId w) w = w\<lparr>comments := map (redactedComment userId) (comments w)\<rparr>"
  proof -
    have "(if co_id c \<in> co_id ` set (mentioning userId w) then redactedComment userId c else c) = redactedComment userId c"
      if c: "c \<in> set (comments w)" for c
    proof (cases "js_includes userId (co_body c)")
      case True
      with c have "c \<in> set (mentioning userId w)" by (simp add: set_mentioning)
      then show ?thesis by simp
    qed (simp add: redactedComment_def)
    then show ?thesis unfolding rewrittenUpTo_def by (intro arg_cong [where f = "\<lambda>cs. w\<lparr>comments := cs\<rparr>"] map_cong refl)
  qed
  moreover have "length (filter (\<lambda>c. redactedComment userId c \<noteq> c) (mentioning userId w)) =
      length (filter (\<lambda>c. redactedComment userId c \<noteq> c) (comments w))"
  proof -
    have "length (filter (\<lambda>c. redactedComment userId c \<noteq> c) (mentioning userId w)) =
        length (filter (\<lambda>c. redactedComment userId c \<noteq> c) (filter (\<lambda>c. js_includes userId (co_body c)) (comments w)))"
      unfolding mentioning_def filter_sort length_sort ..
    also have "filter (\<lambda>c. redactedComment userId c \<noteq> c) (filter (\<lambda>c. js_includes userId (co_body c)) (comments w)) =
        filter (\<lambda>c. redactedComment userId c \<noteq> c) (comments w)"
      unfolding filter_filter by (rule filter_cong) (auto simp: redactedComment_def)
    finally show ?thesis .
  qed
  ultimately show ?thesis by (simp add: AccountDeletionService_redactCommentMentions_def)
qed

text \<open>
  C20. The loop that rewrites the mentions of a departing user, five hundred comments at a time, ends, and
  does what one pass over all comments would do: every comment that holds the user's id is redacted, every
  other is left alone, and the number reported is the number of comments whose text changed. It relies on
  the ids of comments being distinct and not empty: an empty id would send the loop back to the start.
\<close>

theorem redaction_is_one_pass:
  assumes "distinct (map co_id (comments w))" and "[] \<notin> co_id ` set (comments w)"
  shows "AccountDeletionService_redactCommentMentions userId w =
    (Inr (length (filter (\<lambda>c. redactedComment userId c \<noteq> c) (comments w))),
     w\<lparr>comments := map (redactedComment userId) (comments w)\<rparr>)"
  by (rule redaction_one_pass [OF assms])

lemma sample_comments: "distinct (map co_id (comments sampleWorld))" "[] \<notin> co_id ` set (comments sampleWorld)"
  by (simp_all add: sampleWorld_def)

theorem redaction_is_one_pass_witness:
  "AccountDeletionService_redactCommentMentions sampleAda sampleWorld =
    (Inr (length (filter (\<lambda>c. redactedComment sampleAda c \<noteq> c) (comments sampleWorld))),
     sampleWorld\<lparr>comments := map (redactedComment sampleAda) (comments sampleWorld)\<rparr>)"
  by (rule redaction_is_one_pass [OF sample_comments])

subsection \<open>A mention in capitals\<close>

definition capitalBody :: js_string where
  "capitalBody = js ''@[Ada](0198E2C0-9A1B-7F04-8C3D-2B5E7A9C1D53)''"

definition capitalMention :: world where
  "capitalMention = sampleWorld\<lparr>comments := [\<lparr>co_id = js ''o1'', co_taskId = js ''t1'', co_userId = js ''u1'',
     co_body = capitalBody, co_createdAt = 0\<rparr>]\<rparr>"

text \<open>
  The comment to be rewritten is looked for with its id in lower case, and a mention may spell it in
  capitals: the pattern would match, but the comment is not found, and the name stays.
\<close>

theorem capital_mention_survives:
  "AccountDeletionService_redactCommentMentions sampleAda capitalMention = (Inr 0, capitalMention)
   \<and> mentions capitalBody = [(js ''Ada'', js ''0198E2C0-9A1B-7F04-8C3D-2B5E7A9C1D53'')]
   \<and> mentions (redactMentionsOf capitalBody sampleAda ANONYMOUS_USER_NAME) = [(ANONYMOUS_USER_NAME, sampleAda)]"
proof -
  have "\<not> js_includes sampleAda capitalBody" by code_simp
  then have same: "redactedComment sampleAda c = c" if "c \<in> set (comments capitalMention)" for c
    using that by (simp add: capitalMention_def redactedComment_def)
  then have "map (redactedComment sampleAda) (comments capitalMention) = comments capitalMention"
    "filter (\<lambda>c. redactedComment sampleAda c \<noteq> c) (comments capitalMention) = []"
    by (simp_all add: map_idI filter_empty_conv)
  moreover have "distinct (map co_id (comments capitalMention))" "[] \<notin> co_id ` set (comments capitalMention)"
    by (simp_all add: capitalMention_def)
  ultimately have "AccountDeletionService_redactCommentMentions sampleAda capitalMention = (Inr 0, capitalMention)"
    by (simp add: redaction_one_pass)
  moreover have "mentions capitalBody = [(js ''Ada'', js ''0198E2C0-9A1B-7F04-8C3D-2B5E7A9C1D53'')]" by code_simp
  moreover have "mentions (redactMentionsOf capitalBody sampleAda ANONYMOUS_USER_NAME) = [(ANONYMOUS_USER_NAME, sampleAda)]"
    by code_simp
  ultimately show ?thesis by simp
qed

end
