(* ===== verification/AccountSafety.thy ===== *)
theory AccountSafety
  imports AccountProps
begin

section \<open>What a deleted account leaves\<close>

text \<open>
  The whole deletion of an account, from the request to the last statement: every workspace that is left and
  had an owner keeps one, whoever becomes an owner is live, and what is left of the person in the rows, the
  comments and the log is stated, with the spelling that escapes. Two deletions side by side show the case that
  the checks do not see.
\<close>

subsection \<open>Running the statements\<close>

definition commentsOk :: "world \<Rightarrow> bool" where
  "commentsOk w \<longleftrightarrow> distinct (map co_id (comments w)) \<and> [] \<notin> co_id ` set (comments w)"

lemma redact_eq:
  "commentsOk w \<Longrightarrow> comments x = comments w \<Longrightarrow> AccountDeletionService_redactCommentMentions userId x =
    (Inr (length (filter (\<lambda>c. redactedComment userId c \<noteq> c) (comments w))),
     x\<lparr>comments := map (redactedComment userId) (comments w)\<rparr>)"
  using redaction_one_pass [of x userId] by (simp add: commentsOk_def)

lemma erasePerson_success:
  assumes run: "erasePerson user deletedAt counts w = (Inr c, w')" and ok: "commentsOk w"
  shows "assignees w' = filter (\<lambda>r. ta_userId r \<noteq> u_id user) (assignees w)"
    "invitations w' = filter (\<lambda>r. \<not> (iv_inviterId r = u_id user \<and> iv_status r = js ''pending'')) (invitations w)"
    "comments w' = map (redactedComment (u_id user)) (comments w)"
    "activities w' = map (\<lambda>a. if namesTarget (u_id user) (a_payload a) then a\<lparr>a_payload := redactPayload (a_payload a)\<rparr> else a) (activities w)"
    "notifications w' = filter (\<lambda>r. n_userId r \<noteq> u_id user) (notifications w)"
    "usagePings w' = filter (\<lambda>r. up_userId r \<noteq> u_id user) (usagePings w)"
    "sessions w' = filter (\<lambda>r. se_userId r \<noteq> u_id user) (sessions w)"
    "accounts w' = filter (\<lambda>r. ac_userId r \<noteq> u_id user) (accounts w)"
    "members w' = filter (\<lambda>r. m_userId r \<noteq> u_id user) (members w)"
    "users w' = map (\<lambda>u. if u_id u = u_id user then anonymisedUserFields (u_id user) deletedAt u else u) (users w)"
    "workspaces w' = workspaces w" "w_socketServer w' = w_socketServer w" "boards w' = boards w" "w_evicted w' = w_evicted w"
proof -
  have "w' = w\<lparr>assignees := filter (\<lambda>r. ta_userId r \<noteq> u_id user) (assignees w),
      invitations := filter (\<lambda>r. \<not> (iv_inviterId r = u_id user \<and> iv_status r = js ''pending'')) (invitations w),
      comments := map (redactedComment (u_id user)) (comments w),
      activities := map (\<lambda>a. if namesTarget (u_id user) (a_payload a) then a\<lparr>a_payload := redactPayload (a_payload a)\<rparr> else a) (activities w),
      notifications := filter (\<lambda>r. n_userId r \<noteq> u_id user) (notifications w),
      usagePings := filter (\<lambda>r. up_userId r \<noteq> u_id user) (usagePings w),
      sessions := filter (\<lambda>r. se_userId r \<noteq> u_id user) (sessions w),
      accounts := filter (\<lambda>r. ac_userId r \<noteq> u_id user) (accounts w),
      verifications := filter (\<lambda>r. \<not> js_includes (u_email user) (ve_identifier r)) (verifications w),
      members := filter (\<lambda>r. m_userId r \<noteq> u_id user) (members w),
      users := map (\<lambda>u. if u_id u = u_id user then anonymisedUserFields (u_id user) deletedAt u else u) (users w)\<rparr>"
    using run
    by (simp add: erasePerson_def Let_def bindE_def deleteMany_def redact_eq [OF ok] AccountDeletionService_redactActivityPayloads_def
        orThrow_def modify_def return_def split: option.splits)
  then show "assignees w' = filter (\<lambda>r. ta_userId r \<noteq> u_id user) (assignees w)"
    "invitations w' = filter (\<lambda>r. \<not> (iv_inviterId r = u_id user \<and> iv_status r = js ''pending'')) (invitations w)"
    "comments w' = map (redactedComment (u_id user)) (comments w)"
    "activities w' = map (\<lambda>a. if namesTarget (u_id user) (a_payload a) then a\<lparr>a_payload := redactPayload (a_payload a)\<rparr> else a) (activities w)"
    "notifications w' = filter (\<lambda>r. n_userId r \<noteq> u_id user) (notifications w)"
    "usagePings w' = filter (\<lambda>r. up_userId r \<noteq> u_id user) (usagePings w)"
    "sessions w' = filter (\<lambda>r. se_userId r \<noteq> u_id user) (sessions w)"
    "accounts w' = filter (\<lambda>r. ac_userId r \<noteq> u_id user) (accounts w)"
    "members w' = filter (\<lambda>r. m_userId r \<noteq> u_id user) (members w)"
    "users w' = map (\<lambda>u. if u_id u = u_id user then anonymisedUserFields (u_id user) deletedAt u else u) (users w)"
    "workspaces w' = workspaces w" "w_socketServer w' = w_socketServer w" "boards w' = boards w" "w_evicted w' = w_evicted w"
    by simp_all
qed

definition owns :: "world \<Rightarrow> uuid \<Rightarrow> uuid \<Rightarrow> bool" where
  "owns w workspaceId userId \<longleftrightarrow>
     (\<exists>m \<in> set (members w). m_workspaceId m = workspaceId \<and> m_userId m = userId \<and> m_role m = OWNER)"

definition exists_ws :: "world \<Rightarrow> uuid \<Rightarrow> bool" where
  "exists_ws w workspaceId \<longleftrightarrow> workspaceId \<in> ws_id ` set (workspaces w)"

definition subComments :: "world \<Rightarrow> world \<Rightarrow> bool" where
  "subComments w w' \<longleftrightarrow> (\<exists>P. comments w' = filter P (comments w))"

lemma subComments_refl: "comments w' = comments w \<Longrightarrow> subComments w w'"
  unfolding subComments_def by (intro exI [of _ "\<lambda>_. True"]) simp

lemma subComments_trans: "subComments w w1 \<Longrightarrow> subComments w1 w2 \<Longrightarrow> subComments w w2"
  unfolding subComments_def by (metis filter_filter)

lemma commentsOk_sub: "subComments w w' \<Longrightarrow> commentsOk w \<Longrightarrow> commentsOk w'"
  unfolding subComments_def commentsOk_def by (auto simp: distinct_map_filter)

lemma transfer_effect:
  assumes "AccountDeletionService_transferOwnership row newOwner userId w = (Inr u, w1)"
  shows "users w1 = users w" "workspaces w1 = workspaces w" "comments w1 = comments w" "w_socketServer w1 = w_socketServer w"
    "owns w1 (ms_workspaceId row) newOwner" "newOwner \<noteq> userId"
    "owns w k v \<Longrightarrow> owns w1 k v"
    "\<exists>t. find (\<lambda>t. u_id t = newOwner) (users w) = Some t \<and> u_deletedAt t = None"
proof -
  let ?f = "\<lambda>m. if m_workspaceId m = ms_workspaceId row \<and> m_userId m = newOwner then m\<lparr>m_role := OWNER\<rparr> else m"
  from assms have "\<exists>t. newOwner \<noteq> userId \<and> (\<exists>m. findMember w (ms_workspaceId row) newOwner = Some m \<and> memberInclude w m = Some t)
    \<and> u_deletedAt (mr_user t) = None \<and> w1 = logActivity (ms_workspaceId row) None userId MemberRoleChanged
       [(''targetUserId'', JString newOwner), (''targetName'', JString (u_name (mr_user t))),
        (''previousRole'', JString (role_name (m_role (mr_member t)))), (''newRole'', JString (role_name OWNER)),
        (''actorRole'', JString (role_name (ms_role row))), (''reason'', JString (js ''account.deleted''))]
       (w\<lparr>members := map ?f (members w)\<rparr>)"
    by (auto simp: AccountDeletionService_transferOwnership_def bindE_Inr split: if_splits option.splits)
  then obtain t m where t: "newOwner \<noteq> userId" "findMember w (ms_workspaceId row) newOwner = Some m" "memberInclude w m = Some t"
      "u_deletedAt (mr_user t) = None" and frame: "users w1 = users w" "workspaces w1 = workspaces w" "comments w1 = comments w"
      "w_socketServer w1 = w_socketServer w" and mem: "members w1 = map ?f (members w)"
    by auto
  show "users w1 = users w" "workspaces w1 = workspaces w" "comments w1 = comments w" "w_socketServer w1 = w_socketServer w"
    "newOwner \<noteq> userId" using frame t(1) by simp_all
  have m: "m \<in> set (members w)" "m_workspaceId m = ms_workspaceId row" "m_userId m = newOwner" using findMember_Some [OF t(2)] by simp_all
  then have "?f m \<in> set (members w1)" unfolding mem by simp
  with m show "owns w1 (ms_workspaceId row) newOwner" unfolding owns_def by (intro bexI [of _ "?f m"]) auto
  show "owns w k v \<Longrightarrow> owns w1 k v" unfolding owns_def mem by force
  show "\<exists>t. find (\<lambda>t. u_id t = newOwner) (users w) = Some t \<and> u_deletedAt t = None"
    using t(3,4) m(3) by (auto simp: memberInclude_def)
qed

lemma cascadeWorkspace_frame:
  "users (cascadeWorkspace k w) = users w" "w_socketServer (cascadeWorkspace k w) = w_socketServer w"
  "workspaces (cascadeWorkspace k w) = filter (\<lambda>ws. ws_id ws \<noteq> k) (workspaces w)"
  "members (cascadeWorkspace k w) = filter (\<lambda>m. m_workspaceId m \<noteq> k) (members w)" "subComments w (cascadeWorkspace k w)"
  by (auto simp: cascadeWorkspace_def Let_def cascadeBoards_def cascadeLabels_def cascadeTasks_def subComments_def)

lemma delete_effect:
  assumes "AccountDeletionService_deleteWorkspace workspaceId userId actorId w = (Inr line, w1)"
  shows "w1 = cascadeWorkspace workspaceId w"
  using assms by (auto simp: AccountDeletionService_deleteWorkspace_def bindE_Inr)

lemma settle_effect:
  assumes "settleOwned userId actorId dispositions rows w = (Inr (n, lines), w1)"
  shows "users w1 = users w \<and> w_socketServer w1 = w_socketServer w \<and> subComments w w1
    \<and> (\<forall>k. exists_ws w1 k \<longrightarrow> exists_ws w k) \<and> (\<forall>k v. exists_ws w1 k \<longrightarrow> owns w k v \<longrightarrow> owns w1 k v)
    \<and> (\<forall>row \<in> set rows. \<exists>dec. dispositions (ms_workspaceId row) = Some dec \<and> (case wp_action dec of
          Delete \<Rightarrow> \<not> exists_ws w1 (ms_workspaceId row)
        | Transfer \<Rightarrow> exists_ws w1 (ms_workspaceId row) \<longrightarrow>
            (\<exists>v. wp_newOwnerUserId dec = Some v \<and> v \<noteq> userId \<and> owns w1 (ms_workspaceId row) v)))"
  using assms
proof (induction rows arbitrary: w n lines)
  case Nil
  then show ?case by (simp add: subComments_refl)
next
  case (Cons row rows)
  from Cons.prems obtain d where d: "dispositions (ms_workspaceId row) = Some d" by (auto split: option.splits)
  show ?case
  proof (cases "wp_action d")
    case Transfer
    with Cons.prems d obtain newOwner where o: "wp_newOwnerUserId d = Some newOwner" by (auto split: option.splits)
    from Cons.prems d Transfer o obtain x w2 n' lines' where step: "AccountDeletionService_transferOwnership row newOwner userId w = (Inr x, w2)"
      and rest: "settleOwned userId actorId dispositions rows w2 = (Inr (n', lines'), w1)" by (auto simp: bindE_Inr)
    note T = transfer_effect [OF step] and IH = Cons.IH [OF rest]
    have "exists_ws w2 k \<longleftrightarrow> exists_ws w k" for k using T(2) by (simp add: exists_ws_def)
    with T IH d o Transfer show ?thesis using subComments_trans [OF subComments_refl [OF T(3)]] by auto
  next
    case Delete
    from Cons.prems d Delete obtain line w2 n' lines' where
      step: "AccountDeletionService_deleteWorkspace (ms_workspaceId row) userId actorId w = (Inr line, w2)"
      and rest: "settleOwned userId actorId dispositions rows w2 = (Inr (n', lines'), w1)" by (auto simp: bindE_Inr)
    note IH = Cons.IH [OF rest] and D = delete_effect [OF step]
    have ws: "exists_ws w2 k \<longleftrightarrow> exists_ws w k \<and> k \<noteq> ms_workspaceId row" for k
      by (auto simp: D exists_ws_def cascadeWorkspace_frame)
    have "owns w2 k v" if "owns w k v" "k \<noteq> ms_workspaceId row" for k v
      using that by (auto simp: D owns_def cascadeWorkspace_frame)
    with ws IH d Delete show ?thesis
      using subComments_trans [OF cascadeWorkspace_frame(5) [of w "ms_workspaceId row", folded D]]
      by (auto simp: D cascadeWorkspace_frame)
  qed
qed

subsection \<open>Who becomes an owner\<close>

definition liveUser :: "world \<Rightarrow> uuid \<Rightarrow> bool" where
  "liveUser w userId \<longleftrightarrow> (\<exists>u \<in> set (users w). u_id u = userId \<and> u_deletedAt u = None)"

lemma transfer_new_owner:
  assumes "AccountDeletionService_transferOwnership row newOwner userId w = (Inr u, w1)" and "owns w1 k v"
  shows "owns w k v \<or> v \<noteq> userId \<and> liveUser w v"
proof -
  have "members w1 = map (\<lambda>m. if m_workspaceId m = ms_workspaceId row \<and> m_userId m = newOwner then m\<lparr>m_role := OWNER\<rparr> else m) (members w)"
    using assms(1) by (auto simp: AccountDeletionService_transferOwnership_def bindE_Inr split: if_splits option.splits)
  then have "owns w k v \<or> v = newOwner" using assms(2) by (auto simp: owns_def split: if_splits)
  moreover have "liveUser w newOwner" "newOwner \<noteq> userId"
    using transfer_effect(6,8) [OF assms(1)] by (auto simp: liveUser_def dest: find_Some_D)
  ultimately show ?thesis by blast
qed

lemma settle_new_owner:
  assumes "settleOwned userId actorId dispositions rows w = (Inr (n, lines), w1)" and "owns w1 k v"
  shows "owns w k v \<or> v \<noteq> userId \<and> liveUser w v"
  using assms
proof (induction rows arbitrary: w n lines)
  case Nil
  then show ?case by simp
next
  case (Cons row rows)
  from Cons.prems obtain d where d: "dispositions (ms_workspaceId row) = Some d" by (auto split: option.splits)
  show ?case
  proof (cases "wp_action d")
    case Transfer
    with Cons.prems d obtain newOwner where o: "wp_newOwnerUserId d = Some newOwner" by (auto split: option.splits)
    from Cons.prems d Transfer o obtain x w2 n' lines' where step: "AccountDeletionService_transferOwnership row newOwner userId w = (Inr x, w2)"
      and rest: "settleOwned userId actorId dispositions rows w2 = (Inr (n', lines'), w1)" by (auto simp: bindE_Inr)
    from Cons.IH [OF rest Cons.prems(2)] transfer_new_owner [OF step] transfer_effect(1) [OF step] show ?thesis
      by (auto simp: liveUser_def)
  next
    case Delete
    from Cons.prems d Delete obtain line w2 n' lines' where
      step: "AccountDeletionService_deleteWorkspace (ms_workspaceId row) userId actorId w = (Inr line, w2)"
      and rest: "settleOwned userId actorId dispositions rows w2 = (Inr (n', lines'), w1)" by (auto simp: bindE_Inr)
    from Cons.IH [OF rest Cons.prems(2)] show ?thesis
      by (auto simp: delete_effect [OF step] owns_def liveUser_def cascadeWorkspace_frame)
  qed
qed

subsection \<open>Which rows the decisions leave\<close>

definition memberKeys :: "world \<Rightarrow> (uuid \<times> uuid \<times> uuid) list" where
  "memberKeys w = map (\<lambda>m. (m_id m, m_workspaceId m, m_userId m)) (members w)"

lemma membersOk_keys: "membersOk w \<longleftrightarrow> distinct (map fst (memberKeys w)) \<and> distinct (map snd (memberKeys w))"
  by (simp add: membersOk_def memberKeys_def o_def)

definition rowsLeft :: "world \<Rightarrow> world \<Rightarrow> bool" where
  \<comment> \<open>no row is new, and a member whose row is gone was of a workspace that is gone\<close>
  "rowsLeft w w' \<longleftrightarrow> (\<exists>P. boards w' = filter P (boards w)) \<and> w_evicted w' = w_evicted w
     \<and> (\<exists>Q. memberKeys w' = filter Q (memberKeys w) \<and> (\<forall>x \<in> set (memberKeys w). Q x \<or> \<not> exists_ws w' (fst (snd x))))
     \<and> (\<forall>k. exists_ws w' k \<longrightarrow> exists_ws w k)"

lemma rowsLeftI:
  assumes "boards w' = filter P (boards w)" and "w_evicted w' = w_evicted w" and "memberKeys w' = filter Q (memberKeys w)"
    and "\<And>x. x \<in> set (memberKeys w) \<Longrightarrow> Q x \<or> \<not> exists_ws w' (fst (snd x))" and "\<And>k. exists_ws w' k \<Longrightarrow> exists_ws w k"
  shows "rowsLeft w w'"
  unfolding rowsLeft_def using assms by blast

lemma rowsLeft_trans:
  assumes "rowsLeft w w1" and "rowsLeft w1 w2"
  shows "rowsLeft w w2"
proof -
  from assms obtain P1 P2 Q1 Q2 where p: "boards w1 = filter P1 (boards w)" "boards w2 = filter P2 (boards w1)"
      "memberKeys w1 = filter Q1 (memberKeys w)" "memberKeys w2 = filter Q2 (memberKeys w1)"
    and q: "\<forall>x \<in> set (memberKeys w). Q1 x \<or> \<not> exists_ws w1 (fst (snd x))"
      "\<forall>x \<in> set (memberKeys w1). Q2 x \<or> \<not> exists_ws w2 (fst (snd x))"
    and e: "w_evicted w2 = w_evicted w" and k: "\<forall>k. exists_ws w1 k \<longrightarrow> exists_ws w k" "\<forall>k. exists_ws w2 k \<longrightarrow> exists_ws w1 k"
    unfolding rowsLeft_def by auto
  show ?thesis
  proof (rule rowsLeftI [where P = "\<lambda>b. P1 b \<and> P2 b" and Q = "\<lambda>x. Q1 x \<and> Q2 x"])
    fix x assume x: "x \<in> set (memberKeys w)"
    show "(Q1 x \<and> Q2 x) \<or> \<not> exists_ws w2 (fst (snd x))"
    proof (cases "Q1 x")
      case True
      then have "x \<in> set (memberKeys w1)" using x p(3) by simp
      with q(2) True show ?thesis by blast
    next
      case False
      with x q(1) k(2) show ?thesis by blast
    qed
  qed (use p e k in \<open>simp_all add: conj_commute\<close>)
qed

lemma rowsLeft_refl: "boards w' = boards w \<Longrightarrow> memberKeys w' = memberKeys w \<Longrightarrow> workspaces w' = workspaces w \<Longrightarrow>
    w_evicted w' = w_evicted w \<Longrightarrow> rowsLeft w w'"
  by (rule rowsLeftI [where P = "\<lambda>_. True" and Q = "\<lambda>_. True"]) (simp_all add: exists_ws_def)

lemma transfer_left:
  assumes "AccountDeletionService_transferOwnership row newOwner userId w = (Inr u, w1)"
  shows "rowsLeft w w1"
proof -
  let ?f = "\<lambda>m. if m_workspaceId m = ms_workspaceId row \<and> m_userId m = newOwner then m\<lparr>m_role := OWNER\<rparr> else m"
  from assms have "members w1 = map ?f (members w)" "boards w1 = boards w" "workspaces w1 = workspaces w" "w_evicted w1 = w_evicted w"
    by (auto simp: AccountDeletionService_transferOwnership_def bindE_Inr logActivity_def tick_def split: if_splits option.splits)
  then show ?thesis by (intro rowsLeft_refl) (auto simp: memberKeys_def)
qed

lemma cascade_left: "rowsLeft w (cascadeWorkspace k w)"
proof (rule rowsLeftI [where P = "\<lambda>b. \<not> list_ex (\<lambda>x. b_id x = b_id b \<and> b_workspaceId x = k) (boards w)" and Q = "\<lambda>x. fst (snd x) \<noteq> k"])
  show "memberKeys (cascadeWorkspace k w) = filter (\<lambda>x. fst (snd x) \<noteq> k) (memberKeys w)"
    by (simp add: memberKeys_def cascadeWorkspace_frame filter_map o_def)
qed (auto simp: exists_ws_def cascadeWorkspace_frame cascadeWorkspace_def Let_def cascadeBoards_def cascadeLabels_def cascadeTasks_def)

lemma settle_left:
  assumes "settleOwned userId actorId dispositions rows w = (Inr (n, lines), w1)"
  shows "rowsLeft w w1"
  using assms
proof (induction rows arbitrary: w n lines)
  case Nil
  then show ?case by (simp add: rowsLeft_refl)
next
  case (Cons row rows)
  from Cons.prems obtain d where d: "dispositions (ms_workspaceId row) = Some d" by (auto split: option.splits)
  show ?case
  proof (cases "wp_action d")
    case Transfer
    with Cons.prems d obtain newOwner where o: "wp_newOwnerUserId d = Some newOwner" by (auto split: option.splits)
    from Cons.prems d Transfer o obtain x w2 n' lines' where step: "AccountDeletionService_transferOwnership row newOwner userId w = (Inr x, w2)"
      and rest: "settleOwned userId actorId dispositions rows w2 = (Inr (n', lines'), w1)" by (auto simp: bindE_Inr)
    from rowsLeft_trans [OF transfer_left [OF step] Cons.IH [OF rest]] show ?thesis .
  next
    case Delete
    from Cons.prems d Delete obtain line w2 n' lines' where
      step: "AccountDeletionService_deleteWorkspace (ms_workspaceId row) userId actorId w = (Inr line, w2)"
      and rest: "settleOwned userId actorId dispositions rows w2 = (Inr (n', lines'), w1)" by (auto simp: bindE_Inr)
    have "rowsLeft w w2" unfolding delete_effect [OF step] by (rule cascade_left)
    from rowsLeft_trans [OF this Cons.IH [OF rest]] show ?thesis .
  qed
qed

lemma departures_frame:
  "logDepartures userId initiatedBy rows w = (r, w1) \<Longrightarrow> r = Inr () \<and> users w1 = users w \<and> members w1 = members w
    \<and> workspaces w1 = workspaces w \<and> comments w1 = comments w \<and> w_socketServer w1 = w_socketServer w
    \<and> boards w1 = boards w \<and> w_evicted w1 = w_evicted w"
proof (induction rows arbitrary: w)
  case (Cons row rows)
  then show ?case by (auto simp: bindE_def recordActivity_def logActivity_def tick_def)
qed simp

subsection \<open>The whole request\<close>

definition soleOwnedBy :: "world \<Rightarrow> uuid \<Rightarrow> MembershipRow list" where
  "soleOwnedBy w userId = filter (isSoleOwner w (map ms_workspaceId (filter (\<lambda>row. ms_role row = OWNER) (membershipsOf w userId))))
     (membershipsOf w userId)"

definition otherwiseIn :: "world \<Rightarrow> uuid \<Rightarrow> MembershipRow list" where
  "otherwiseIn w userId = filter (\<lambda>row. \<not> isSoleOwner w (map ms_workspaceId (filter (\<lambda>row. ms_role row = OWNER) (membershipsOf w userId))) row)
     (membershipsOf w userId)"

definition decisions :: "DeleteAccountDto \<Rightarrow> WorkspaceDispositionDto list" where
  "decisions dto = (case da_dispositions dto of None \<Rightarrow> [] | Some ds \<Rightarrow> ds)"

lemma partition_Inr: "partitionMemberships userId w = (Inr (a, b), w') \<longleftrightarrow>
    a = soleOwnedBy w userId \<and> b = otherwiseIn w userId \<and> w' = w"
  by (auto simp: partitionMemberships_def soleOwnedBy_def otherwiseIn_def Let_def)

lemma plan_Inr:
  "deletionPlan userId dto w = (Inr (user, dispositions, soleOwned, other), w1) \<longleftrightarrow>
     w1 = w \<and> find (\<lambda>u. u_id u = userId) (users w) = Some user \<and> u_deletedAt user = None
     \<and> js_lower (js_trim (da_confirmEmail dto)) = js_lower (js_trim (u_email user))
     \<and> soleOwned = soleOwnedBy w userId \<and> other = otherwiseIn w userId
     \<and> matchDispositions soleOwned (decisions dto) = Inr dispositions"
  by (auto simp: deletionPlan_def requireLiveUser_def bindE_Inr partition_Inr decisions_def split: option.splits if_splits)

lemma plan_Inl: "deletionPlan userId dto w = (Inl e, w1) \<Longrightarrow> w1 = w"
  by (auto simp: deletionPlan_def requireLiveUser_def bindE_Inl bindE_Inr partitionMemberships_def Let_def split: prod.splits)

lemma commit_Inr:
  assumes "deletionCommit d initiatedBy actorId (user, dispositions, soleOwned, other) w = (Inr counts, w')"
  obtains n lines w1 w2 w3 where
    "settleOwned (u_id user) (case actorId of None \<Rightarrow> u_id user | Some a \<Rightarrow> a) dispositions soleOwned w = (Inr (n, lines), w1)"
    "logDepartures (u_id user) initiatedBy (survivingMemberships dispositions soleOwned other) w1 = (Inr (), w2)"
    "erasePerson user (w_now w) (noCounts\<lparr>n_workspacesTransferred := n, n_workspacesDeleted := length lines\<rparr>) w2 = (Inr counts, w3)"
    "w' = w3\<lparr>w_evicted := w_evicted w3 @ (if w_socketServer w3 then
        map (\<lambda>row. (ms_workspaceId row, u_id user)) (survivingMemberships dispositions soleOwned other) else []), w_log := w_log w'\<rparr>"
proof -
  have evicts: "fold (\<lambda>k. evictUserFromWorkspaceSockets k v) ks x =
      x\<lparr>w_evicted := w_evicted x @ (if w_socketServer x then map (\<lambda>k. (k, v)) ks else [])\<rparr>" for ks v x
    by (induction ks arbitrary: x) (simp_all add: evictUserFromWorkspaceSockets_def)
  from assms obtain counts' lines evictions w3 where
    tx: "deletionTransaction user (case actorId of None \<Rightarrow> u_id user | Some a \<Rightarrow> a) initiatedBy (w_now w) dispositions
      soleOwned other w = (Inr (counts', lines, evictions), w3)"
    and c: "counts' = counts" and w': "w' = w3\<lparr>w_evicted := w_evicted w3 @ (if w_socketServer w3 then
        map (\<lambda>k. (k, u_id user)) evictions else []), w_log := w_log w'\<rparr>"
    unfolding deletionCommit_def by (auto simp: bindE_Inr evicts split: prod.splits)
  from tx obtain n w1 w2 where
    s: "settleOwned (u_id user) (case actorId of None \<Rightarrow> u_id user | Some a \<Rightarrow> a) dispositions soleOwned w = (Inr (n, lines), w1)"
    and l: "logDepartures (u_id user) initiatedBy (survivingMemberships dispositions soleOwned other) w1 = (Inr (), w2)"
    and x: "erasePerson user (w_now w) (noCounts\<lparr>n_workspacesTransferred := n, n_workspacesDeleted := length lines\<rparr>) w2 = (Inr counts, w3)"
    and e: "evictions = map ms_workspaceId (survivingMemberships dispositions soleOwned other)"
    unfolding deletionTransaction_def Let_def by (auto simp: bindE_Inr c)
  show ?thesis
    by (rule that [OF s l x]) (use w' in \<open>simp only: e map_map o_def\<close>)
qed

lemma deletion_parts:
  assumes "AccountDeletionService_deleteAccount d userId dto initiatedBy actorId w = (Inr counts, w')"
  obtains user dispositions soleOwned other where
    "deletionPlan userId dto w = (Inr (user, dispositions, soleOwned, other), w)"
    "deletionCommit d initiatedBy actorId (user, dispositions, soleOwned, other) w = (Inr counts, w')"
proof -
  from assms obtain p w0 where p: "deletionPlan userId dto w = (Inr p, w0)" "deletionCommit d initiatedBy actorId p w0 = (Inr counts, w')"
    unfolding AccountDeletionService_deleteAccount_def bindE_Inr by blast
  obtain user dispositions soleOwned other where "p = (user, dispositions, soleOwned, other)" by (cases p)
  with p plan_Inr [of userId dto w user dispositions soleOwned other w0] that show ?thesis by blast
qed

lemma collect_Inr:
  "collectDispositions required ds m = Inr m' \<Longrightarrow> distinct (map wp_workspaceId ds) \<and> wp_workspaceId ` set ds \<subseteq> set required
    \<and> dom m \<inter> wp_workspaceId ` set ds = {} \<and> dom m' = dom m \<union> wp_workspaceId ` set ds
    \<and> (\<forall>x. x \<notin> wp_workspaceId ` set ds \<longrightarrow> m' x = m x) \<and> (\<forall>x \<in> set ds. m' (wp_workspaceId x) = Some x)"
proof (induction required ds m rule: collectDispositions.induct)
  case (2 required d ds m)
  then have "m (wp_workspaceId d) = None" "wp_workspaceId d \<in> set required"
    "collectDispositions required ds (m(wp_workspaceId d \<mapsto> d)) = Inr m'" by (auto split: if_splits)
  moreover from this have "distinct (map wp_workspaceId ds) \<and> wp_workspaceId ` set ds \<subseteq> set required
      \<and> dom (m(wp_workspaceId d \<mapsto> d)) \<inter> wp_workspaceId ` set ds = {}
      \<and> dom m' = dom (m(wp_workspaceId d \<mapsto> d)) \<union> wp_workspaceId ` set ds
      \<and> (\<forall>x. x \<notin> wp_workspaceId ` set ds \<longrightarrow> m' x = (m(wp_workspaceId d \<mapsto> d)) x)
      \<and> (\<forall>x \<in> set ds. m' (wp_workspaceId x) = Some x)" by (intro "2.IH") (simp, simp, assumption)
  ultimately show ?case by auto
qed auto

lemma match_Inr:
  assumes "matchDispositions rows ds = Inr m"
  shows "distinct (map wp_workspaceId ds)" "wp_workspaceId ` set ds = ms_workspaceId ` set rows" "dom m = ms_workspaceId ` set rows"
    "\<forall>x \<in> set ds. m (wp_workspaceId x) = Some x"
proof -
  from assms have c: "collectDispositions (js_Set (map ms_workspaceId rows)) ds Map.empty = Inr m"
    and u: "filter (\<lambda>k. m k = None) (js_Set (map ms_workspaceId rows)) = []"
    by (auto simp: matchDispositions_def Let_def split: sum.splits if_splits)
  show "distinct (map wp_workspaceId ds)" "wp_workspaceId ` set ds = ms_workspaceId ` set rows" "dom m = ms_workspaceId ` set rows"
    "\<forall>x \<in> set ds. m (wp_workspaceId x) = Some x"
    using collect_Inr [OF c] u by (auto simp: filter_empty_conv dom_def)
qed

lemma redactPayload_fields:
  "map_of (redactPayload p) ''targetName'' = map_option (\<lambda>_. JString ANONYMOUS_USER_NAME) (map_of p ''targetName'')"
  "map_of (redactPayload p) ''targetUserId'' = map_of p ''targetUserId''"
  unfolding redactPayload_def by (induction p) auto

lemma set_map_filter_iff: "y \<in> set (List.map_filter f xs) \<longleftrightarrow> (\<exists>x \<in> set xs. f x = Some y)"
  by (induction xs) (auto simp: map_filter_simps split: option.splits)

lemma set_membershipsOf: "row \<in> set (membershipsOf w userId) \<longleftrightarrow>
    (\<exists>m ws. m \<in> set (members w) \<and> m_userId m = userId \<and> findWorkspace w (m_workspaceId m) = Some ws
      \<and> row = \<lparr>ms_workspaceId = m_workspaceId m, ms_role = m_role m, ms_workspace = ws\<rparr>)"
  unfolding membershipsOf_def set_map_filter_iff by auto

lemma findWorkspace_exists: "exists_ws w k \<longleftrightarrow> (\<exists>ws. findWorkspace w k = Some ws)"
proof -
  have "findWorkspace w k = None \<longleftrightarrow> \<not> exists_ws w k" by (auto simp: findWorkspace_def exists_ws_def find_None)
  then show ?thesis by (cases "findWorkspace w k") auto
qed

lemma ownerCount_one:
  assumes ok: "membersOk w" and own: "owns w k userId"
  shows "ownerCount w k \<le> 1 \<longleftrightarrow> (\<forall>v. owns w k v \<longrightarrow> v = userId)"
proof -
  let ?os = "owners k (members w)"
  have d: "distinct (map (\<lambda>m. (m_workspaceId m, m_userId m)) ?os)"
    using ok unfolding owners_def membersOk_def by (simp add: distinct_map_filter)
  have o: "owns w k v \<longleftrightarrow> v \<in> m_userId ` set ?os" for v by (auto simp: owns_def owners_def)
  have "map (\<lambda>m. (m_workspaceId m, m_userId m)) ?os = map (\<lambda>v. (k, v)) (map m_userId ?os)" by (auto simp: owners_def)
  with d have du: "distinct (map m_userId ?os)" by (metis distinct_map)
  have "length ?os \<le> 1 \<longleftrightarrow> (\<forall>v \<in> set (map m_userId ?os). v = userId)"
    using own [unfolded o] du by (cases ?os; cases "tl ?os") auto
  then show ?thesis by (auto simp: ownerCount_owners o)
qed

lemma soleOwned_iff:
  assumes ok: "membersOk w"
  shows "k \<in> ms_workspaceId ` set (soleOwnedBy w userId) \<longleftrightarrow>
    exists_ws w k \<and> owns w k userId \<and> (\<forall>v. owns w k v \<longrightarrow> v = userId)"
proof -
  let ?owned = "map ms_workspaceId (filter (\<lambda>row. ms_role row = OWNER) (membershipsOf w userId))"
  have count: "(case ownersByWorkspace w ?owned (ms_workspaceId row) of None \<Rightarrow> 0 | Some n \<Rightarrow> n) = ownerCount w (ms_workspaceId row)"
    if "row \<in> set (membershipsOf w userId)" "ms_role row = OWNER" for row
    using that by (auto simp: ownersByWorkspace_def)
  have "row \<in> set (soleOwnedBy w userId) \<longleftrightarrow> row \<in> set (membershipsOf w userId) \<and> ms_role row = OWNER
      \<and> ownerCount w (ms_workspaceId row) \<le> 1" for row
    unfolding soleOwnedBy_def using count by (auto simp: isSoleOwner_def)
  then have "k \<in> ms_workspaceId ` set (soleOwnedBy w userId) \<longleftrightarrow>
      (\<exists>row \<in> set (membershipsOf w userId). ms_workspaceId row = k \<and> ms_role row = OWNER) \<and> ownerCount w k \<le> 1" by auto
  also have "(\<exists>row \<in> set (membershipsOf w userId). ms_workspaceId row = k \<and> ms_role row = OWNER) \<longleftrightarrow>
      exists_ws w k \<and> owns w k userId"
    unfolding Bex_def set_membershipsOf findWorkspace_exists owns_def by force
  finally show ?thesis using ownerCount_one [OF ok] by blast
qed

lemma js_includes_append: "js_includes sub (p @ sub @ q)"
proof (induction p)
  case Nil
  show ?case
  proof (cases "sub @ q")
    case (Cons c cs)
    then have "take (length sub) (c # cs) = sub" by (metis append_eq_conv_conj)
    then show ?thesis by (simp add: Cons)
  qed simp
qed simp

lemma js_includes_Cons: "js_includes sub cs \<Longrightarrow> js_includes sub (c # cs)"
  by simp

lemma js_includes_prepend: "js_includes sub s \<Longrightarrow> js_includes sub (p @ s)"
  by (induction p) simp_all

lemma mentioned_included: "(name, k) \<in> set (mentions s) \<Longrightarrow> uuid7_text k \<and> js_includes k s"
proof (induction s rule: length_induct)
  case (1 s)
  show ?case
  proof (cases "mentionAny s")
    case (Some m)
    obtain n j rest where m: "m = (n, j, rest)" by (cases m)
    with Some have s: "s = token n j @ rest" "uuid7_text j" by (simp_all add: mentionAny_iff)
    have j: "js_includes j s" using js_includes_append [of j "[0x40, 0x5B] @ n @ [0x5D, 0x28]" "[0x29] @ rest"]
      by (simp add: s(1) token_def)
    show ?thesis
    proof (cases "(name, k) = (n, j)")
      case True
      with s(2) j show ?thesis by simp
    next
      case False
      with "1.prems" have "(name, k) \<in> set (mentions rest)" by (auto simp: mentions_hit [OF Some [unfolded m]])
      with "1.IH" mentionAny_shorter [OF Some [unfolded m]] have "uuid7_text k \<and> js_includes k rest" by blast
      then show ?thesis using js_includes_prepend by (auto simp: s(1))
    qed
  next
    case None
    with "1.prems" obtain c cs where s: "s = c # cs" by (cases s) (auto simp: mentions.simps [of "[]"])
    with "1.prems" None have "(name, k) \<in> set (mentions cs)" by (simp add: mentions_miss)
    then have "uuid7_text k \<and> js_includes k cs" using "1.IH" s by (metis length_Cons_less)
    then show ?thesis using js_includes_Cons by (simp add: s)
  qed
qed

lemma redactedComment_mentions:
  assumes "(name, userId) \<in> set (mentions (co_body (redactedComment userId c)))"
  shows "suffix ANONYMOUS_USER_NAME name"
proof (cases "js_includes userId (co_body c)")
  case True
  have "uuid7_text userId" using mentioned_included [OF assms] by simp
  moreover have "0x5D \<notin> set ANONYMOUS_USER_NAME" "length ANONYMOUS_USER_NAME \<le> MAX_MENTION_NAME"
    by (simp_all add: ANONYMOUS_USER_NAME_def MAX_MENTION_NAME_def)
  ultimately have "\<forall>(name, k) \<in> set (mentions (redactMentionsOf (co_body c) userId ANONYMOUS_USER_NAME)).
      same_text k userId \<longrightarrow> suffix ANONYMOUS_USER_NAME name" using redaction_mentions by blast
  with True assms show ?thesis by (auto simp: redactedComment_def)
next
  case False
  with mentioned_included [OF assms] show ?thesis by (simp add: redactedComment_def)
qed

text \<open>
  C17. A deletion that succeeds leaves no membership, assignment, session, credential, notification or usage
  ping of the account and no pending invitation of theirs; the account's row keeps its id and loses its
  name, address, picture and language; every comment that is left is the comment it was with the mentions
  redacted, and in none of them does a mention that spells the id of the account as it is stored show a name
  other than one that ends in the anonymous one; no entry of the log that is about the account shows another
  name; and no other account changes. A mention that spells the id with capitals, in a comment that holds it
  in no other spelling, is not found and keeps the name (\<open>capital_mention_survives\<close>); nor is a name looked
  for that somebody typed as plain text.
\<close>

theorem deletion_leaves_no_trace:
  assumes "AccountDeletionService_deleteAccount d userId dto initiatedBy actorId w = (Inr counts, w')" and "commentsOk w"
  shows "(userId \<notin> m_userId ` set (members w') \<and> userId \<notin> ta_userId ` set (assignees w') \<and> userId \<notin> se_userId ` set (sessions w')
      \<and> userId \<notin> ac_userId ` set (accounts w') \<and> userId \<notin> n_userId ` set (notifications w')
      \<and> userId \<notin> up_userId ` set (usagePings w') \<and> (userId, js ''pending'') \<notin> (\<lambda>i. (iv_inviterId i, iv_status i)) ` set (invitations w'))
    \<and> users w' = map (\<lambda>u. if u_id u = userId then anonymisedUserFields userId (w_now w) u else u) (users w)
    \<and> set (comments w') \<subseteq> redactedComment userId ` set (comments w)
    \<and> (\<forall>c \<in> set (comments w'). \<forall>name. (name, userId) \<in> set (mentions (co_body c)) \<longrightarrow> suffix ANONYMOUS_USER_NAME name)
    \<and> (\<forall>a \<in> set (activities w'). map_of (a_payload a) ''targetUserId'' = Some (JString userId) \<longrightarrow>
          map_of (a_payload a) ''targetName'' \<in> {None, Some JNull, Some (JString ANONYMOUS_USER_NAME)})"
proof -
  from deletion_parts [OF assms(1)] obtain user dispositions soleOwned other where
    plan: "deletionPlan userId dto w = (Inr (user, dispositions, soleOwned, other), w)"
    and commit: "deletionCommit d initiatedBy actorId (user, dispositions, soleOwned, other) w = (Inr counts, w')" .
  have user: "u_id user = userId" using plan unfolding plan_Inr by (auto dest: find_Some_D)
  obtain n lines w1 w2 w3 where
    s: "settleOwned userId (case actorId of None \<Rightarrow> userId | Some a \<Rightarrow> a) dispositions soleOwned w = (Inr (n, lines), w1)"
    and l: "logDepartures userId initiatedBy (survivingMemberships dispositions soleOwned other) w1 = (Inr (), w2)"
    and x: "erasePerson user (w_now w) (noCounts\<lparr>n_workspacesTransferred := n, n_workspacesDeleted := length lines\<rparr>) w2 = (Inr counts, w3)"
    and w': "w' = w3\<lparr>w_evicted := w_evicted w3 @ (if w_socketServer w3 then
        map (\<lambda>row. (ms_workspaceId row, userId)) (survivingMemberships dispositions soleOwned other) else []), w_log := w_log w'\<rparr>"
    by (rule commit_Inr [OF commit, unfolded user])
  note S = settle_effect [OF s] and L = departures_frame [OF l]
  have sub: "subComments w w2" using S L subComments_trans [OF _ subComments_refl] by blast
  note X = erasePerson_success [OF x commentsOk_sub [OF sub assms(2)], unfolded user]
  have T: "members w' = members w3" "assignees w' = assignees w3" "sessions w' = sessions w3" "accounts w' = accounts w3"
    "notifications w' = notifications w3" "usagePings w' = usagePings w3" "invitations w' = invitations w3"
    "users w' = users w3" "comments w' = comments w3" "activities w' = activities w3" by (subst w', simp)+
  have "map_of (a_payload a) ''targetUserId'' = Some (JString userId) \<Longrightarrow>
      map_of (a_payload a) ''targetName'' \<in> {None, Some JNull, Some (JString ANONYMOUS_USER_NAME)}" if "a \<in> set (activities w')" for a
    using that by (auto simp: T X(4) redactPayload_fields namesTarget_def split: option.splits if_splits)
  moreover have "set (comments w') \<subseteq> redactedComment userId ` set (comments w)"
    using sub by (auto simp: T X(3) subComments_def)
  moreover have "suffix ANONYMOUS_USER_NAME name"
    if c: "c \<in> set (comments w')" and m: "(name, userId) \<in> set (mentions (co_body c))" for c name
  proof -
    from calculation(2) c obtain c0 where "c = redactedComment userId c0" by blast
    with m redactedComment_mentions show ?thesis by metis
  qed
  ultimately show ?thesis using S L by (auto simp: T X)
qed

lemma deletion_world:
  \<comment> \<open>the rows after a deletion, from the loop over the workspaces to be decided\<close>
  assumes run: "AccountDeletionService_deleteAccount d userId dto initiatedBy actorId w = (Inr counts, w')" and ok: "commentsOk w"
  obtains dispositions where "matchDispositions (soleOwnedBy w userId) (decisions dto) = Inr dispositions"
    "\<And>k. exists_ws w' k \<Longrightarrow> exists_ws w k" "\<And>k v. exists_ws w' k \<Longrightarrow> owns w k v \<Longrightarrow> v \<noteq> userId \<Longrightarrow> owns w' k v"
    "\<And>row. row \<in> set (soleOwnedBy w userId) \<Longrightarrow> \<exists>dec. dispositions (ms_workspaceId row) = Some dec \<and> (case wp_action dec of
        Delete \<Rightarrow> \<not> exists_ws w' (ms_workspaceId row)
      | Transfer \<Rightarrow> exists_ws w' (ms_workspaceId row) \<longrightarrow>
          (\<exists>v. wp_newOwnerUserId dec = Some v \<and> v \<noteq> userId \<and> owns w' (ms_workspaceId row) v))"
    "\<And>k v. owns w' k v \<Longrightarrow> owns w k v \<or> v \<noteq> userId \<and> liveUser w' v"
proof -
  from deletion_parts [OF run] obtain user dispositions soleOwned other where
    plan: "deletionPlan userId dto w = (Inr (user, dispositions, soleOwned, other), w)"
    and commit: "deletionCommit d initiatedBy actorId (user, dispositions, soleOwned, other) w = (Inr counts, w')" .
  have user: "u_id user = userId" and sole: "soleOwned = soleOwnedBy w userId"
    and disp: "matchDispositions (soleOwnedBy w userId) (decisions dto) = Inr dispositions"
    using plan unfolding plan_Inr by (auto dest: find_Some_D)
  obtain n lines w1 w2 w3 where
    s: "settleOwned userId (case actorId of None \<Rightarrow> userId | Some a \<Rightarrow> a) dispositions soleOwned w = (Inr (n, lines), w1)"
    and l: "logDepartures userId initiatedBy (survivingMemberships dispositions soleOwned other) w1 = (Inr (), w2)"
    and x: "erasePerson user (w_now w) (noCounts\<lparr>n_workspacesTransferred := n, n_workspacesDeleted := length lines\<rparr>) w2 = (Inr counts, w3)"
    and w': "w' = w3\<lparr>w_evicted := w_evicted w3 @ (if w_socketServer w3 then
        map (\<lambda>row. (ms_workspaceId row, userId)) (survivingMemberships dispositions soleOwned other) else []), w_log := w_log w'\<rparr>"
    by (rule commit_Inr [OF commit, unfolded user])
  note S = settle_effect [OF s] and L = departures_frame [OF l]
  have sub: "subComments w w2" using S L subComments_trans [OF _ subComments_refl] by blast
  note X = erasePerson_success [OF x commentsOk_sub [OF sub ok], unfolded user]
  have T: "members w' = members w3" "workspaces w' = workspaces w3" "users w' = users w3" by (subst w', simp)+
  have ws: "exists_ws w' k \<longleftrightarrow> exists_ws w1 k" for k using L X by (simp add: exists_ws_def T)
  have own: "owns w' k v \<longleftrightarrow> owns w1 k v" if "v \<noteq> userId" for k v using L X that by (auto simp: owns_def T)
  show ?thesis
  proof (rule that [OF disp])
    show "exists_ws w k" if "exists_ws w' k" for k using S that ws by blast
    show "owns w' k v" if "exists_ws w' k" "owns w k v" "v \<noteq> userId" for k v using S that ws own by blast
    show "owns w k v \<or> v \<noteq> userId \<and> liveUser w' v" if "owns w' k v" for k v
    proof -
      have "v \<noteq> userId" "owns w1 k v" using that L X by (auto simp: owns_def T)
      moreover have "liveUser w v \<Longrightarrow> liveUser w' v"
        using calculation(1) S L X by (fastforce simp: liveUser_def T)
      ultimately show ?thesis using settle_new_owner [OF s] by blast
    qed
    fix row assume "row \<in> set (soleOwnedBy w userId)"
    with S sole obtain dec where "dispositions (ms_workspaceId row) = Some dec" "case wp_action dec of
          Delete \<Rightarrow> \<not> exists_ws w1 (ms_workspaceId row)
        | Transfer \<Rightarrow> exists_ws w1 (ms_workspaceId row) \<longrightarrow>
            (\<exists>v. wp_newOwnerUserId dec = Some v \<and> v \<noteq> userId \<and> owns w1 (ms_workspaceId row) v)" by blast
    then show "\<exists>dec. dispositions (ms_workspaceId row) = Some dec \<and> (case wp_action dec of
        Delete \<Rightarrow> \<not> exists_ws w' (ms_workspaceId row)
      | Transfer \<Rightarrow> exists_ws w' (ms_workspaceId row) \<longrightarrow>
          (\<exists>v. wp_newOwnerUserId dec = Some v \<and> v \<noteq> userId \<and> owns w' (ms_workspaceId row) v))"
      unfolding ws using own by (cases "wp_action dec") auto
  qed
qed

text \<open>
  C16. After a deletion, every workspace that is left and had an owner has one, and it is not the account that
  was deleted. What the request decided is what was done: a workspace to be deleted is gone, and a workspace
  to be transferred belongs to the member who was named, whose account is not a deleted one. Whoever owns a
  workspace that they did not own before has an account that is not deleted.
\<close>

theorem deletion_keeps_an_owner:
  assumes "AccountDeletionService_deleteAccount d userId dto initiatedBy actorId w = (Inr counts, w')"
    and "commentsOk w" and "membersOk w"
  shows "(\<forall>k. exists_ws w' k \<and> (\<exists>v. owns w k v) \<longrightarrow> (\<exists>v. v \<noteq> userId \<and> owns w' k v))
    \<and> (\<forall>dec \<in> set (decisions dto). case wp_action dec of
          Delete \<Rightarrow> \<not> exists_ws w' (wp_workspaceId dec)
        | Transfer \<Rightarrow> exists_ws w' (wp_workspaceId dec) \<longrightarrow>
            (\<exists>v. wp_newOwnerUserId dec = Some v \<and> v \<noteq> userId \<and> owns w' (wp_workspaceId dec) v \<and> liveUser w' v))
    \<and> (\<forall>k v. owns w' k v \<and> \<not> owns w k v \<longrightarrow> liveUser w' v)"
proof -
  obtain dispositions where disp: "matchDispositions (soleOwnedBy w userId) (decisions dto) = Inr dispositions"
    and ws: "\<And>k. exists_ws w' k \<Longrightarrow> exists_ws w k"
    and own: "\<And>k v. exists_ws w' k \<Longrightarrow> owns w k v \<Longrightarrow> v \<noteq> userId \<Longrightarrow> owns w' k v"
    and rows: "\<And>row. row \<in> set (soleOwnedBy w userId) \<Longrightarrow> \<exists>dec. dispositions (ms_workspaceId row) = Some dec \<and> (case wp_action dec of
        Delete \<Rightarrow> \<not> exists_ws w' (ms_workspaceId row)
      | Transfer \<Rightarrow> exists_ws w' (ms_workspaceId row) \<longrightarrow>
          (\<exists>v. wp_newOwnerUserId dec = Some v \<and> v \<noteq> userId \<and> owns w' (ms_workspaceId row) v))"
    and new: "\<And>k v. owns w' k v \<Longrightarrow> owns w k v \<or> v \<noteq> userId \<and> liveUser w' v"
    by (rule deletion_world [OF assms(1,2)]) blast
  have "\<exists>v. v \<noteq> userId \<and> owns w' k v" if k: "exists_ws w' k" and v: "owns w k v" for k v
  proof (cases "\<exists>u. owns w k u \<and> u \<noteq> userId")
    case True
    with own [OF k] show ?thesis by blast
  next
    case False
    with v ws [OF k] have "k \<in> ms_workspaceId ` set (soleOwnedBy w userId)" using soleOwned_iff [OF assms(3)] by metis
    then obtain row where row: "row \<in> set (soleOwnedBy w userId)" and eq: "ms_workspaceId row = k" by (metis imageE)
    from rows [OF row] k show ?thesis
      unfolding eq by (elim exE conjE) (auto split: disposition_action.splits)
  qed
  moreover have "case wp_action dec of Delete \<Rightarrow> \<not> exists_ws w' (wp_workspaceId dec)
      | Transfer \<Rightarrow> exists_ws w' (wp_workspaceId dec) \<longrightarrow>
          (\<exists>v. wp_newOwnerUserId dec = Some v \<and> v \<noteq> userId \<and> owns w' (wp_workspaceId dec) v \<and> liveUser w' v)"
    if dec: "dec \<in> set (decisions dto)" for dec
  proof -
    have "wp_workspaceId dec \<in> ms_workspaceId ` set (soleOwnedBy w userId)" using match_Inr(2) [OF disp] dec by blast
    then obtain row where row: "row \<in> set (soleOwnedBy w userId)" and eq: "ms_workspaceId row = wp_workspaceId dec"
      by (metis imageE)
    have only: "owns w (wp_workspaceId dec) v \<Longrightarrow> v = userId" for v
      using soleOwned_iff [OF assms(3), of "wp_workspaceId dec" userId] row eq by (metis imageI)
    have live: "owns w' (wp_workspaceId dec) v \<Longrightarrow> v \<noteq> userId \<Longrightarrow> liveUser w' v" for v using new only by blast
    have "dispositions (wp_workspaceId dec) = Some dec" using match_Inr(4) [OF disp] dec by blast
    with rows [OF row] have "case wp_action dec of Delete \<Rightarrow> \<not> exists_ws w' (wp_workspaceId dec)
      | Transfer \<Rightarrow> exists_ws w' (wp_workspaceId dec) \<longrightarrow>
          (\<exists>v. wp_newOwnerUserId dec = Some v \<and> v \<noteq> userId \<and> owns w' (wp_workspaceId dec) v)"
      unfolding eq by (elim exE conjE) simp
    then show ?thesis by (cases "wp_action dec") (auto intro: live)
  qed
  moreover have "owns w' k v \<and> \<not> owns w k v \<longrightarrow> liveUser w' v" for k v using new by blast
  ultimately show ?thesis by blast
qed

lemma deletion_refused:
  assumes "AccountDeletionService_deleteAccount d userId dto initiatedBy actorId w = (Inl e, w')"
  shows "w' = w"
proof -
  have tx: "deletionTransaction a b c dl m so ot x = (Inl e', x') \<Longrightarrow> x' = x" for a b c dl m so ot x e' x'
    by (auto simp: deletionTransaction_def Let_def)
  show ?thesis
    using assms unfolding AccountDeletionService_deleteAccount_def bindE_Inl
  proof (elim disjE exE conjE)
    assume "deletionPlan userId dto w = (Inl e, w')"
    then show ?thesis by (rule plan_Inl)
  next
    fix p w1
    assume p: "deletionPlan userId dto w = (Inr p, w1)" and c: "deletionCommit d initiatedBy actorId p w1 = (Inl e, w')"
    obtain user dispositions soleOwned other where q: "p = (user, dispositions, soleOwned, other)" by (cases p)
    with p have "w1 = w" by (simp add: plan_Inr)
    with c q show ?thesis by (auto simp: deletionCommit_def bindE_Inl dest: tx)
  qed
qed

text \<open>
  C18. A deletion goes through only when the request decides about exactly the workspaces of which the account
  is the only owner, once each; a request that is refused, at whatever point, changes nothing.
\<close>

theorem deletion_needs_every_decision:
  assumes "membersOk w"
  shows "case AccountDeletionService_deleteAccount d userId dto initiatedBy actorId w of
      (Inl _, w') \<Rightarrow> w' = w
    | (Inr _, _) \<Rightarrow> distinct (map wp_workspaceId (decisions dto))
        \<and> (\<forall>k. k \<in> wp_workspaceId ` set (decisions dto) \<longleftrightarrow> exists_ws w k \<and> owns w k userId \<and> (\<forall>v. owns w k v \<longrightarrow> v = userId))"
proof -
  obtain r w' where run: "AccountDeletionService_deleteAccount d userId dto initiatedBy actorId w = (r, w')" by fastforce
  show ?thesis
  proof (cases r)
    case (Inl e)
    with run deletion_refused have "w' = w" by blast
    with run Inl show ?thesis by simp
  next
    case (Inr counts)
    with run have run': "AccountDeletionService_deleteAccount d userId dto initiatedBy actorId w = (Inr counts, w')" by simp
    from deletion_parts [OF this] obtain user dispositions soleOwned other where
      plan: "deletionPlan userId dto w = (Inr (user, dispositions, soleOwned, other), w)" .
    then have m: "matchDispositions (soleOwnedBy w userId) (decisions dto) = Inr dispositions" unfolding plan_Inr by (elim conjE) (simp only:)
    show ?thesis using match_Inr(1,2) [OF m] soleOwned_iff [OF assms] by (simp add: run')
  qed
qed

subsection \<open>Deletions that run\<close>

lemma departures_run: "\<exists>w1. logDepartures userId initiatedBy rows w = (Inr (), w1)"
  by (induction rows arbitrary: w) (simp_all add: bindE_def recordActivity_def)

lemma erase_runs:
  assumes "commentsOk w" and "find (\<lambda>u. u_id u = u_id user) (users w) = Some u"
  shows "\<exists>c w'. erasePerson user deletedAt counts w = (Inr c, w')"
proof -
  show ?thesis
    using assms(2) by (simp add: erasePerson_def Let_def bindE_def deleteMany_def redact_eq [OF assms(1)]
        AccountDeletionService_redactActivityPayloads_def orThrow_def modify_def return_def)
qed

lemma commit_runs:
  assumes ok: "commentsOk w" and user: "find (\<lambda>u. u_id u = u_id user) (users w) = Some u"
    and s: "settleOwned (u_id user) (case actorId of None \<Rightarrow> u_id user | Some a \<Rightarrow> a) dispositions soleOwned w = (Inr (n, lines), w1)"
  shows "\<exists>counts w'. deletionCommit d initiatedBy actorId (user, dispositions, soleOwned, other) w = (Inr counts, w')"
proof -
  obtain w2 where l: "logDepartures (u_id user) initiatedBy (survivingMemberships dispositions soleOwned other) w1 = (Inr (), w2)"
    using departures_run by blast
  note S = settle_effect [OF s] and L = departures_frame [OF l]
  have sub: "subComments w w2" using S L subComments_trans [OF _ subComments_refl] by blast
  have "users w2 = users w" using S L by simp
  with erase_runs [OF commentsOk_sub [OF sub ok], of user u] user
  obtain c w3 where x: "erasePerson user (w_now w) (noCounts\<lparr>n_workspacesTransferred := n, n_workspacesDeleted := length lines\<rparr>) w2 = (Inr c, w3)"
    by metis
  have "deletionTransaction user (case actorId of None \<Rightarrow> u_id user | Some a \<Rightarrow> a) initiatedBy (w_now w) dispositions soleOwned other w =
      (Inr (c, lines, map ms_workspaceId (survivingMemberships dispositions soleOwned other)), w3)"
    unfolding deletionTransaction_def Let_def transaction_Inr bindE_Inr using s l x by (auto simp: bindE_Inr)
  then show ?thesis
    by (simp add: deletionCommit_def bindE_def [of "reads w_now"] reads_def bindE_def modify_def return_def)
qed

definition sampleDeletion :: DeleteAccountDto where
  "sampleDeletion = \<lparr>da_confirmEmail = js ''a@x'', da_dispositions = Some [\<lparr>wp_workspaceId = js ''w1'', wp_action = Transfer,
     wp_newOwnerUserId = Some (js ''u2'')\<rparr>]\<rparr>"

definition sampleOwnerRow :: MembershipRow where
  "sampleOwnerRow = \<lparr>ms_workspaceId = js ''w1'', ms_role = OWNER,
     ms_workspace = \<lparr>ws_id = js ''w1'', ws_name = js ''W'', ws_slug = js ''w'', ws_createdAt = 0\<rparr>\<rparr>"

lemma sample_runs: "\<exists>counts w'. AccountDeletionService_deleteAccount d (js ''u1'') sampleDeletion Self None sampleWorld = (Inr counts, w')"
proof -
  define user where "user = hd (users sampleWorld)"
  have user: "find (\<lambda>u. u_id u = js ''u1'') (users sampleWorld) = Some user" "u_id user = js ''u1''" "u_deletedAt user = None"
    "u_email user = js ''a@x''" by (simp_all add: user_def sampleWorld_def)
  have rows: "membershipsOf sampleWorld (js ''u1'') = [sampleOwnerRow]"
    by (simp add: membershipsOf_def sampleWorld_def map_filter_simps findWorkspace_def sampleOwnerRow_def)
  have count: "ownerCount sampleWorld (js ''w1'') = 1" by (rule sample_members)
  have sole: "soleOwnedBy sampleWorld (js ''u1'') = [sampleOwnerRow]" "otherwiseIn sampleWorld (js ''u1'') = []"
    using count unfolding soleOwnedBy_def otherwiseIn_def rows
    by (simp_all add: isSoleOwner_def ownersByWorkspace_def sampleOwnerRow_def)
  define dec where "dec = \<lparr>wp_workspaceId = js ''w1'', wp_action = Transfer, wp_newOwnerUserId = Some (js ''u2'')\<rparr>"
  have match: "matchDispositions [sampleOwnerRow] (decisions sampleDeletion) = Inr [js ''w1'' \<mapsto> dec]"
    by (simp add: matchDispositions_def Let_def js_Set_def sampleOwnerRow_def decisions_def sampleDeletion_def dec_def)
  have plan: "deletionPlan (js ''u1'') sampleDeletion sampleWorld = (Inr (user, [js ''w1'' \<mapsto> dec], [sampleOwnerRow], []), sampleWorld)"
    unfolding plan_Inr sole using user match by (simp add: sampleDeletion_def)
  have "\<exists>w1. AccountDeletionService_transferOwnership sampleOwnerRow (js ''u2'') (js ''u1'') sampleWorld = (Inr (), w1)"
    by (simp add: AccountDeletionService_transferOwnership_def bindE_def orThrow_def failIf_def modify_def return_def recordActivity_def
        findMember_def memberInclude_def sampleOwnerRow_def sampleWorld_def)
  then have "\<exists>n lines w1. settleOwned (u_id user) (case None of None \<Rightarrow> u_id user | Some a \<Rightarrow> a) [js ''w1'' \<mapsto> dec] [sampleOwnerRow] sampleWorld
      = (Inr (n, lines), w1)"
    by (auto simp: user(2) sampleOwnerRow_def dec_def bindE_def return_def)
  moreover have "commentsOk sampleWorld" using sample_comments by (simp add: commentsOk_def)
  ultimately obtain counts w' where "deletionCommit d Self None (user, [js ''w1'' \<mapsto> dec], [sampleOwnerRow], []) sampleWorld = (Inr counts, w')"
    using commit_runs [of sampleWorld user user None] user(1,2) by metis
  with plan show ?thesis by (simp add: AccountDeletionService_deleteAccount_def bindE_def)
qed

theorem deletion_leaves_no_trace_witness:
  "\<exists>counts w'. AccountDeletionService_deleteAccount (Finite 0) (js ''u1'') sampleDeletion Self None sampleWorld = (Inr counts, w')
     \<and> js ''u1'' \<notin> m_userId ` set (members w')"
proof -
  obtain counts w' where run: "AccountDeletionService_deleteAccount (Finite 0) (js ''u1'') sampleDeletion Self None sampleWorld = (Inr counts, w')"
    using sample_runs by blast
  have "commentsOk sampleWorld" using sample_comments by (simp add: commentsOk_def)
  from deletion_leaves_no_trace [OF run this] run show ?thesis by blast
qed

theorem deletion_keeps_an_owner_witness:
  "\<exists>counts w'. AccountDeletionService_deleteAccount (Finite 0) (js ''u1'') sampleDeletion Self None sampleWorld = (Inr counts, w')
     \<and> (\<forall>k. exists_ws w' k \<and> (\<exists>v. owns sampleWorld k v) \<longrightarrow> (\<exists>v. v \<noteq> js ''u1'' \<and> owns w' k v))
     \<and> (exists_ws w' (js ''w1'') \<longrightarrow> owns w' (js ''w1'') (js ''u2'') \<and> liveUser w' (js ''u2''))"
proof -
  obtain counts w' where run: "AccountDeletionService_deleteAccount (Finite 0) (js ''u1'') sampleDeletion Self None sampleWorld = (Inr counts, w')"
    using sample_runs by blast
  have "commentsOk sampleWorld" using sample_comments by (simp add: commentsOk_def)
  note kept = deletion_keeps_an_owner [OF run this sample_members(1)]
  have "exists_ws w' (js ''w1'') \<longrightarrow> owns w' (js ''w1'') (js ''u2'') \<and> liveUser w' (js ''u2'')"
    using conjunct1 [OF conjunct2 [OF kept]] by (simp add: decisions_def sampleDeletion_def)
  with kept run show ?thesis by blast
qed

theorem deletion_needs_every_decision_witness:
  "case AccountDeletionService_deleteAccount (Finite 0) (js ''u2'') sampleDeletion InstanceAdmin (Some (js ''u1'')) sampleWorld of
      (Inl _, w') \<Rightarrow> w' = sampleWorld
    | (Inr _, _) \<Rightarrow> distinct (map wp_workspaceId (decisions sampleDeletion))
        \<and> (\<forall>k. k \<in> wp_workspaceId ` set (decisions sampleDeletion) \<longleftrightarrow>
            exists_ws sampleWorld k \<and> owns sampleWorld k (js ''u2'') \<and> (\<forall>v. owns sampleWorld k v \<longrightarrow> v = js ''u2''))"
  by (rule deletion_needs_every_decision [OF sample_members(1)])

subsection \<open>Two deletions at the same time\<close>

text \<open>
  The reads that find the workspaces to be decided about come before the transaction, and nothing locks
  them: two owners of a workspace who delete their accounts at the same time each see the other, and leave
  the workspace without an owner.
\<close>

definition coOwned :: world where
  "coOwned = sampleWorld\<lparr>members :=
     [\<lparr>m_id = js ''m1'', m_workspaceId = js ''w1'', m_userId = js ''u1'', m_role = OWNER, m_createdAt = 0\<rparr>,
      \<lparr>m_id = js ''m2'', m_workspaceId = js ''w1'', m_userId = js ''u2'', m_role = OWNER, m_createdAt = 0\<rparr>]\<rparr>"

lemma coOwned_plan:
  assumes "userId = js ''u1'' \<and> mail = js ''a@x'' \<or> userId = js ''u2'' \<and> mail = js ''b@x''"
  shows "\<exists>user other. deletionPlan userId \<lparr>da_confirmEmail = mail, da_dispositions = None\<rparr> coOwned =
    (Inr (user, Map.empty, [], other), coOwned) \<and> u_id user = userId \<and> find (\<lambda>u. u_id u = userId) (users coOwned) = Some user"
proof -
  have count: "ownerCount coOwned (js ''w1'') = 2" by (simp add: coOwned_def ownerCount_def)
  have "membershipsOf coOwned userId = [sampleOwnerRow]"
    using assms by (auto simp: membershipsOf_def coOwned_def sampleWorld_def map_filter_simps findWorkspace_def sampleOwnerRow_def)
  then have sole: "soleOwnedBy coOwned userId = []"
    using count unfolding soleOwnedBy_def by (simp add: isSoleOwner_def ownersByWorkspace_def sampleOwnerRow_def)
  have match: "matchDispositions [] (decisions \<lparr>da_confirmEmail = mail, da_dispositions = None\<rparr>) = Inr Map.empty"
    by (simp add: matchDispositions_def decisions_def js_Set_def)
  have "\<exists>user. find (\<lambda>u. u_id u = userId) (users coOwned) = Some user \<and> u_id user = userId \<and> u_deletedAt user = None \<and> u_email user = mail"
    using assms by (auto simp: coOwned_def sampleWorld_def)
  then show ?thesis unfolding plan_Inr sole using match by (auto simp: decisions_def)
qed

lemma commit_undecided:
  \<comment> \<open>a deletion that found nothing to decide about, committed later\<close>
  assumes ok: "commentsOk w" and user: "find (\<lambda>u. u_id u = u_id user) (users w) = Some u"
  shows "\<exists>counts w'. deletionCommit d initiatedBy None (user, Map.empty, [], other) w = (Inr counts, w')
    \<and> members w' = filter (\<lambda>m. m_userId m \<noteq> u_id user) (members w) \<and> workspaces w' = workspaces w
    \<and> commentsOk w' \<and> map u_id (users w') = map u_id (users w)"
proof -
  have "settleOwned (u_id user) (case None of None \<Rightarrow> u_id user | Some a \<Rightarrow> a) Map.empty [] w = (Inr (0, []), w)" by simp
  from commit_runs [OF ok user this] obtain counts w' where
    c: "deletionCommit d initiatedBy None (user, Map.empty, [], other) w = (Inr counts, w')" by blast
  obtain n lines w1 w2 w3 where
    s: "settleOwned (u_id user) (case None of None \<Rightarrow> u_id user | Some a \<Rightarrow> a) Map.empty [] w = (Inr (n, lines), w1)"
    and l: "logDepartures (u_id user) initiatedBy (survivingMemberships Map.empty [] other) w1 = (Inr (), w2)"
    and x: "erasePerson user (w_now w) (noCounts\<lparr>n_workspacesTransferred := n, n_workspacesDeleted := length lines\<rparr>) w2 = (Inr counts, w3)"
    and w': "w' = w3\<lparr>w_evicted := w_evicted w3 @ (if w_socketServer w3 then
        map (\<lambda>row. (ms_workspaceId row, u_id user)) (survivingMemberships Map.empty [] other) else []), w_log := w_log w'\<rparr>"
    by (rule commit_Inr [OF c])
  have w1: "w1 = w" using s by simp
  note L = departures_frame [OF l, unfolded w1]
  have "commentsOk w2" using L ok by (simp add: commentsOk_def)
  note X = erasePerson_success [OF x this]
  have T: "members w' = members w3" "workspaces w' = workspaces w3" "comments w' = comments w3" "users w' = users w3" by (subst w', simp)+
  have "commentsOk w'" using \<open>commentsOk w2\<close> by (simp add: commentsOk_def T X(3) o_def image_image)
  moreover have "map u_id (users w') = map u_id (users w)" using L X(10) by (simp add: T o_def anonymisedUserFields_def if_distrib cong: if_cong)
  ultimately show ?thesis using c L X by (auto simp: T)
qed

text \<open>
  C19. Two owners of one workspace each ask for their account to be deleted. Both requests read that the
  workspace has another owner and pass the checks without a decision; then both commit, one after the other,
  and the workspace is there without any owner.
\<close>

theorem concurrent_deletions_orphan:
  "\<exists>plan1 plan2 counts1 counts2 w1 w2.
     deletionPlan (js ''u1'') \<lparr>da_confirmEmail = js ''a@x'', da_dispositions = None\<rparr> coOwned = (Inr plan1, coOwned)
   \<and> deletionPlan (js ''u2'') \<lparr>da_confirmEmail = js ''b@x'', da_dispositions = None\<rparr> coOwned = (Inr plan2, coOwned)
   \<and> deletionCommit (Finite 0) Self None plan1 coOwned = (Inr counts1, w1)
   \<and> deletionCommit (Finite 0) Self None plan2 w1 = (Inr counts2, w2)
   \<and> owns coOwned (js ''w1'') (js ''u1'') \<and> exists_ws w2 (js ''w1'') \<and> (\<nexists>v. owns w2 (js ''w1'') v)"
proof -
  obtain user1 other1 where p1: "deletionPlan (js ''u1'') \<lparr>da_confirmEmail = js ''a@x'', da_dispositions = None\<rparr> coOwned =
      (Inr (user1, Map.empty, [], other1), coOwned)" "u_id user1 = js ''u1''" "find (\<lambda>u. u_id u = js ''u1'') (users coOwned) = Some user1"
    using coOwned_plan by metis
  obtain user2 other2 where p2: "deletionPlan (js ''u2'') \<lparr>da_confirmEmail = js ''b@x'', da_dispositions = None\<rparr> coOwned =
      (Inr (user2, Map.empty, [], other2), coOwned)" "u_id user2 = js ''u2''" "find (\<lambda>u. u_id u = js ''u2'') (users coOwned) = Some user2"
    using coOwned_plan by metis
  have ok: "commentsOk coOwned" using sample_comments by (simp add: commentsOk_def coOwned_def)
  obtain counts1 w1 where c1: "deletionCommit (Finite 0) Self None (user1, Map.empty, [], other1) coOwned = (Inr counts1, w1)"
    "members w1 = filter (\<lambda>m. m_userId m \<noteq> u_id user1) (members coOwned)" "workspaces w1 = workspaces coOwned"
    "commentsOk w1" "map u_id (users w1) = map u_id (users coOwned)"
    using commit_undecided [OF ok, of user1 user1 "Finite 0" Self other1] p1(2,3) by metis
  have "u_id ` set (users w1) = u_id ` set (users coOwned)" using arg_cong [OF c1(5), of set] by simp
  moreover have "user2 \<in> set (users coOwned)" using find_Some_D [OF p2(3)] by simp
  ultimately obtain x where "x \<in> set (users w1)" "u_id x = u_id user2" by (metis imageE image_eqI)
  then have "find (\<lambda>u. u_id u = u_id user2) (users w1) \<noteq> None" unfolding find_None by blast
  then obtain u where "find (\<lambda>u. u_id u = u_id user2) (users w1) = Some u" by blast
  from commit_undecided [OF c1(4) this, of "Finite 0" Self other2] obtain counts2 w2 where
    c2: "deletionCommit (Finite 0) Self None (user2, Map.empty, [], other2) w1 = (Inr counts2, w2)"
    "members w2 = filter (\<lambda>m. m_userId m \<noteq> u_id user2) (members w1)" "workspaces w2 = workspaces w1" by blast
  have "members w2 = []" using c2(2) c1(2) p1(2) p2(2) by (simp add: coOwned_def)
  then have "\<nexists>v. owns w2 (js ''w1'') v" by (simp add: owns_def)
  moreover have "exists_ws w2 (js ''w1'')" using c2(3) c1(3) by (simp add: exists_ws_def coOwned_def sampleWorld_def)
  moreover have "owns coOwned (js ''w1'') (js ''u1'')" by (simp add: owns_def coOwned_def)
  ultimately show ?thesis using p1(1) p2(1) c1(1) c2(1) by blast
qed

end
