(* ===== verification/Invitations.thy ===== *)
theory Invitations
  imports Members
begin

section \<open>Inviting people to a workspace\<close>

text \<open>
  \<open>workspace/workspace-invitation.service.ts\<close>, with the accept link of \<open>auth/web-urls.ts\<close> and the mail
  outcomes of \<open>mail/mail-delivery-scope.ts\<close>. The rows are written by Better Auth's organization plugin;
  \<open>invitation_api\<close> holds its three calls as parameters. The call that creates an invitation also sends the
  mail, so it reports the outcomes of the sends that happened beneath it, in order.
\<close>

subsection \<open>mail-delivery-scope.ts\<close>

datatype MailDeliveryStatus = SENT | NOT_CONFIGURED | FAILED

fun delivery_name :: "MailDeliveryStatus \<Rightarrow> js_string" where
  "delivery_name SENT = js ''SENT''"
| "delivery_name NOT_CONFIGURED = js ''NOT_CONFIGURED''"
| "delivery_name FAILED = js ''FAILED''"

definition recordMailDelivery :: "MailDeliveryStatus \<Rightarrow> MailDeliveryStatus option \<Rightarrow> MailDeliveryStatus option" where
  "recordMailDelivery status slot = (if slot = None \<or> slot = Some SENT then Some status else slot)"

definition captureMailDelivery :: "('a \<times> MailDeliveryStatus list) auth_call \<Rightarrow> ('a \<times> MailDeliveryStatus option) auth_call" where
  "captureMailDelivery operation w = (case operation w of
     (Inl e, w') \<Rightarrow> (Inl e, w')
   | (Inr (result, sends), w') \<Rightarrow> (Inr (result, fold recordMailDelivery sends None), w'))"

subsection \<open>web-urls.ts\<close>

definition envString :: "js_string option \<Rightarrow> js_string \<Rightarrow> js_string" where
  \<comment> \<open>of the variable's value, if it is set\<close>
  "envString raw fallback = (case map_option js_trim raw of None \<Rightarrow> fallback | Some s \<Rightarrow> if s = [] then fallback else s)"

definition trimTrailingSlash :: "js_string \<Rightarrow> js_string" where
  "trimTrailingSlash url = rev (dropWhile (\<lambda>c. c = 0x2F) (rev url))"

definition webAppUrl :: "js_string option \<Rightarrow> js_string" where
  "webAppUrl env = trimTrailingSlash (envString env (js ''http://localhost:3000''))"

definition buildInviteAcceptUrl :: "js_string option \<Rightarrow> uuid \<Rightarrow> js_string" where
  "buildInviteAcceptUrl env invitationId = webAppUrl env @ js ''/invite'' @ js ''/'' @ invitationId"

subsection \<open>The organization plugin\<close>

record CreatedInvitation =
  \<comment> \<open>what the plugin answers; any of the fields may be missing\<close>
  cri_id :: "uuid option"
  cri_email :: "js_string option"
  cri_status :: "js_string option"
  cri_expiresAt :: "js_date option"
  cri_role :: "js_string option"

record AcceptedMember =
  acm_id :: uuid
  acm_organizationId :: "uuid option"
  acm_userId :: uuid
  acm_role :: js_string

record invitation_api =
  iva_createInvitation :: "uuid \<Rightarrow> js_string \<Rightarrow> member_role \<Rightarrow> uuid \<Rightarrow> (CreatedInvitation option \<times> MailDeliveryStatus list) auth_call"
  iva_cancelInvitation :: "uuid \<Rightarrow> uuid \<Rightarrow> unit auth_call"
  iva_acceptInvitation :: "uuid \<Rightarrow> uuid \<Rightarrow> AcceptedMember option auth_call"

subsection \<open>WorkspaceInvitationService\<close>

definition EMAIL_NOT_VERIFIED_CODE :: string where
  "EMAIL_NOT_VERIFIED_CODE = ''EMAIL_VERIFICATION_REQUIRED_BEFORE_ACCEPTING_OR_REJECTING_INVITATION''"

definition EMAIL_NOT_VERIFIED_MESSAGE :: string where
  "EMAIL_NOT_VERIFIED_MESSAGE = ''Confirm your email address before accepting this invitation''"

record InvitationDto =
  ivd_id :: uuid
  ivd_workspaceId :: uuid
  ivd_email :: js_string
  ivd_role :: js_string
  ivd_status :: js_string
  ivd_expiresAt :: js_string
  ivd_acceptUrl :: js_string
  ivd_emailDelivery :: "MailDeliveryStatus option"

definition toInvitationDto :: "js_string option \<Rightarrow> invitation_row \<Rightarrow> InvitationDto" where
  "toInvitationDto env row =
     \<lparr>ivd_id = iv_id row, ivd_workspaceId = iv_workspaceId row, ivd_email = iv_email row,
      ivd_role = (case iv_role row of None \<Rightarrow> role_name GUEST | Some r \<Rightarrow> r), ivd_status = iv_status row,
      ivd_expiresAt = toISOString (iv_expiresAt row), ivd_acceptUrl = buildInviteAcceptUrl env (iv_id row),
      ivd_emailDelivery = None\<rparr>"

definition isPending :: "world \<Rightarrow> invitation_row \<Rightarrow> bool" where
  "isPending w i \<longleftrightarrow> iv_status i = js ''pending'' \<and> w_now w < iv_expiresAt i"

definition findPendingInvitations :: "uuid \<Rightarrow> js_string \<Rightarrow> invitation_row list handler" where
  "findPendingInvitations workspaceId email =
     reads (\<lambda>w. filter (\<lambda>i. iv_workspaceId i = workspaceId \<and> iv_email i = email \<and> isPending w i) (invitations w))"

record invitation_query =
  ivq_cursor :: "js_string js_field"
  ivq_limit :: nat

definition WorkspaceInvitationService_listPendingInvitations ::
  "js_string option \<Rightarrow> uuid \<Rightarrow> invitation_query \<Rightarrow> (uuid, InvitationDto) cursor_page handler" where
  "WorkspaceInvitationService_listPendingInvitations env workspaceId query =
     reads (\<lambda>w. toCursorPage iv_id
       (take (ivq_limit query + 1) (sort_key iv_id (filter (\<lambda>i. (iv_workspaceId i = workspaceId \<and> isPending w i)
         \<and> (case cursorOf (ivq_cursor query) of None \<Rightarrow> True | Some k \<Rightarrow> k < iv_id i)) (invitations w))))
       (ivq_limit query) (toInvitationDto env))"

record CreateInvitationDto =
  cid_email :: js_string
  cid_role :: member_role

fun cancelAll :: "invitation_api \<Rightarrow> uuid \<Rightarrow> invitation_row list \<Rightarrow> unit handler" where
  "cancelAll api actorId [] = return ()"
| "cancelAll api actorId (i # rest) =
     bindE (attempt (iva_cancelInvitation api actorId (iv_id i))
       (\<lambda>e. rethrowBetterAuthError e ''Failed to replace the pending invitation'' Map.empty)) (\<lambda>_.
     cancelAll api actorId rest)"

definition WorkspaceInvitationService_createInvitation ::
  "invitation_api \<Rightarrow> js_string option \<Rightarrow> uuid \<Rightarrow> uuid \<Rightarrow> CreateInvitationDto \<Rightarrow> InvitationDto handler" where
  "WorkspaceInvitationService_createInvitation api env workspaceId actorId dto =
     bindE (failIf (cid_role dto = OWNER) (BadRequest ''Cannot invite someone as OWNER'')) (\<lambda>_.
     let email = js_lower (cid_email dto) in
     bindE (findPendingInvitations workspaceId email) (\<lambda>pending.
     bindE (if list_ex (\<lambda>i. iv_role i \<noteq> Some (role_name (cid_role dto))) pending then cancelAll api actorId pending else return ()) (\<lambda>_.
     bindE (attempt (captureMailDelivery (iva_createInvitation api actorId email (cid_role dto) workspaceId))
       (\<lambda>e. rethrowBetterAuthError e ''Failed to create invitation'' [403 \<mapsto> ''You are not allowed to send this invitation'']))
       (\<lambda>(invitation, delivery).
     case invitation of
       None \<Rightarrow> throw (BadRequest ''Failed to create invitation'')
     | Some i \<Rightarrow> (case (cri_id i, cri_email i, cri_status i, cri_expiresAt i) of
         (Some k, Some address, Some status, Some expires) \<Rightarrow>
           if k = [] \<or> address = [] \<or> status = [] then throw (BadRequest ''Failed to create invitation'')
           else
             bindE (failIf (case cri_role i of None \<Rightarrow> False | Some granted \<Rightarrow> granted \<noteq> role_name (cid_role dto))
               (Conflict ''Invitation was changed concurrently, please try again'')) (\<lambda>_.
             bindE (recordActivity workspaceId None actorId InvitationCreated
               ([(''invitationId'', JString k), (''role'', JString (role_name (cid_role dto)))]
                @ (case delivery of None \<Rightarrow> [] | Some s \<Rightarrow> [(''emailDelivery'', JString (delivery_name s))]))) (\<lambda>_.
             return \<lparr>ivd_id = k, ivd_workspaceId = workspaceId, ivd_email = address, ivd_role = role_name (cid_role dto),
               ivd_status = status, ivd_expiresAt = toISOString expires, ivd_acceptUrl = buildInviteAcceptUrl env k,
               ivd_emailDelivery = delivery\<rparr>))
       | _ \<Rightarrow> throw (BadRequest ''Failed to create invitation''))))))"

definition WorkspaceInvitationService_revokeInvitation ::
  "invitation_api \<Rightarrow> uuid \<Rightarrow> uuid \<Rightarrow> uuid \<Rightarrow> unit handler" where
  "WorkspaceInvitationService_revokeInvitation api workspaceId actorId invitationId =
     bindE (orThrow (NotFound ''Invitation not found'')
       (\<lambda>w. find (\<lambda>i. iv_id i = invitationId \<and> iv_workspaceId i = workspaceId) (invitations w))) (\<lambda>invitation.
     bindE (attempt (iva_cancelInvitation api actorId invitationId)
       (\<lambda>e. rethrowBetterAuthError e ''Failed to revoke invitation'' [404 \<mapsto> ''Invitation not found''])) (\<lambda>_.
     bindE (recordActivity workspaceId None actorId InvitationRevoked
       [(''invitationId'', JString invitationId),
        (''role'', (case iv_role invitation of None \<Rightarrow> JNull | Some r \<Rightarrow> JString r))]) (\<lambda>_.
     return ())))"

record AcceptedMemberDto =
  amd_id :: uuid
  amd_workspaceId :: uuid
  amd_userId :: uuid
  amd_role :: js_string
  amd_name :: js_string
  amd_avatarUrl :: "js_string option"

definition WorkspaceInvitationService_acceptInvitation ::
  "invitation_api \<Rightarrow> uuid \<Rightarrow> uuid \<Rightarrow> uuid \<Rightarrow> AcceptedMemberDto handler" where
  \<comment> \<open>of the user of the session; the row of the answer is a \<open>WorkspaceMemberDto\<close> whose role is the plugin's\<close>
  "WorkspaceInvitationService_acceptInvitation api sessionUser workspaceId invitationId =
     bindE (orThrow (NotFound ''Invitation not found'')
       (\<lambda>w. case find (\<lambda>i. iv_id i = invitationId) (invitations w) of
          None \<Rightarrow> None
        | Some i \<Rightarrow> if iv_status i \<noteq> js ''pending'' \<or> iv_workspaceId i \<noteq> workspaceId then None else Some i)) (\<lambda>_.
     bindE (attempt (iva_acceptInvitation api sessionUser invitationId)
       (\<lambda>e. if betterAuthErrorCode e = Some EMAIL_NOT_VERIFIED_CODE then Forbidden EMAIL_NOT_VERIFIED_MESSAGE
            else rethrowBetterAuthError e ''Failed to accept invitation'' [404 \<mapsto> ''Invitation not found''])) (\<lambda>result.
     case result of
       None \<Rightarrow> throw (BadRequest ''Failed to accept invitation'')
     | Some member \<Rightarrow>
         (let memberWorkspaceId = (case acm_organizationId member of None \<Rightarrow> workspaceId | Some k \<Rightarrow> k) in
         bindE (orThrow (PrismaError ''P2025'') (\<lambda>w. find (\<lambda>u. u_id u = acm_userId member) (users w))) (\<lambda>user.
         bindE (recordActivity memberWorkspaceId None (acm_userId member) InvitationAccepted
           [(''invitationId'', JString invitationId), (''role'', JString (acm_role member))]) (\<lambda>_.
         return \<lparr>amd_id = acm_id member, amd_workspaceId = memberWorkspaceId, amd_userId = acm_userId member,
           amd_role = acm_role member, amd_name = u_name user, amd_avatarUrl = u_avatarUrl user\<rparr>)))))"

end
