(* ===== verification/InvitationProps.thy ===== *)
theory InvitationProps
  imports Invitations MemberProps TaskList
begin

section \<open>What an invitation grants\<close>

text \<open>
  An invitation gives the role that was asked for. What is relied on of the organization plugin is stated
  first and shown to hold of a sample of it.
\<close>

subsection \<open>What the plugin is relied on for\<close>

text \<open>
  As documented: \<open>cancelInvitation\<close> sets the status of the row it is given; \<open>createInvitation\<close> with
  \<open>resend: true\<close> returns the pending invitation of the address, its expiry refreshed and its role as it is,
  and adds a pending row with the role it is given only when there is none. A call that fails writes nothing.
\<close>

definition pendingFor :: "uuid \<Rightarrow> js_string \<Rightarrow> world \<Rightarrow> invitation_row list" where
  "pendingFor workspaceId email w =
     filter (\<lambda>i. iv_workspaceId i = workspaceId \<and> iv_email i = email \<and> isPending w i) (invitations w)"

definition cancelled :: "uuid \<Rightarrow> world \<Rightarrow> world" where
  "cancelled k w = w\<lparr>invitations := map (\<lambda>i. if iv_id i = k then i\<lparr>iv_status := js ''canceled''\<rparr> else i) (invitations w)\<rparr>"

definition cancels :: "invitation_api \<Rightarrow> bool" where
  "cancels api \<longleftrightarrow> (\<forall>caller k w. case iva_cancelInvitation api caller k w of
      (Inl _, w') \<Rightarrow> w' = w | (Inr _, w') \<Rightarrow> w' = cancelled k w)"

definition resends :: "invitation_api \<Rightarrow> bool" where
  "resends api \<longleftrightarrow> (\<forall>caller email role org w. case iva_createInvitation api caller email role org w of
      (Inl _, w') \<Rightarrow> w' = w
    | (Inr (res, _), w') \<Rightarrow> (case pendingFor org email w of
          i # _ \<Rightarrow> \<exists>e. w_now w < e \<and> w' = w\<lparr>invitations := map (\<lambda>x. if iv_id x = iv_id i then x\<lparr>iv_expiresAt := e\<rparr> else x) (invitations w)\<rparr>
            \<and> (\<forall>r. res = Some r \<longrightarrow> cri_id r = Some (iv_id i) \<and> cri_role r = iv_role i)
        | [] \<Rightarrow> \<exists>row. iv_workspaceId row = org \<and> iv_email row = email \<and> iv_role row = Some (role_name role) \<and> isPending w row
            \<and> iv_id row \<notin> iv_id ` set (invitations w) \<and> w' = w\<lparr>invitations := invitations w @ [row]\<rparr>
            \<and> (\<forall>r. res = Some r \<longrightarrow> cri_id r = Some (iv_id row) \<and> cri_role r = iv_role row)))"

lemma cancels_Inr: "cancels api \<Longrightarrow> iva_cancelInvitation api caller k w = (Inr u, w') \<Longrightarrow> w' = cancelled k w"
  unfolding cancels_def by (drule spec [of _ caller], drule spec [of _ k], drule spec [of _ w]) simp

lemma capture_Inr: "captureMailDelivery m w = (Inr (res, delivery), w') \<longleftrightarrow>
    (\<exists>sends. m w = (Inr (res, sends), w') \<and> delivery = fold recordMailDelivery sends None)"
  by (auto simp: captureMailDelivery_def split: prod.splits sum.splits)

subsection \<open>Creating an invitation\<close>

lemma cancelAll_Inr:
  assumes "cancels api"
  shows "cancelAll api actorId rows w = (Inr u, w') \<Longrightarrow>
    w' = w\<lparr>invitations := map (\<lambda>i. if iv_id i \<in> iv_id ` set rows then i\<lparr>iv_status := js ''canceled''\<rparr> else i) (invitations w)\<rparr>"
proof (induction rows arbitrary: w)
  case (Cons r rows)
  then obtain v w1 where c: "iva_cancelInvitation api actorId (iv_id r) w = (Inr v, w1)" and rest: "cancelAll api actorId rows w1 = (Inr u, w')"
    by (auto simp: bindE_Inr attempt_Inr)
  have w1: "w1 = cancelled (iv_id r) w" by (rule cancels_Inr [OF assms c])
  have "map (\<lambda>i. if iv_id i \<in> iv_id ` set rows then i\<lparr>iv_status := js ''canceled''\<rparr> else i) (invitations w1) =
      map (\<lambda>i. if iv_id i \<in> iv_id ` set (r # rows) then i\<lparr>iv_status := js ''canceled''\<rparr> else i) (invitations w)"
    unfolding w1 cancelled_def by simp
  with Cons.IH [OF rest] show ?case by (simp add: w1 cancelled_def)
qed simp

lemma pending_cancelled:
  "pendingFor workspaceId email (w\<lparr>invitations := map (\<lambda>i. if iv_id i \<in> iv_id ` set (pendingFor workspaceId email w)
      then i\<lparr>iv_status := js ''canceled''\<rparr> else i) (invitations w)\<rparr>) = []"
proof -
  have "js ''canceled'' \<noteq> js ''pending''" by simp
  then show ?thesis
    by (auto simp: pendingFor_def isPending_def filter_empty_conv simp del: js_Cons)
qed

definition invitationsOk :: "world \<Rightarrow> bool" where
  "invitationsOk w \<longleftrightarrow> distinct (map iv_id (invitations w))"

lemma create_effect:
  \<comment> \<open>the plugin's call, when every pending invitation of the address has the requested role\<close>
  assumes api: "resends api" and ok: "invitationsOk w"
    and same: "\<forall>i \<in> set (pendingFor workspaceId email w). iv_role i = Some (role_name role)"
    and call: "iva_createInvitation api actorId email role workspaceId w = (Inr (res, sends), w')"
  shows "(\<forall>i \<in> set (pendingFor workspaceId email w'). iv_role i = Some (role_name role))
    \<and> (\<forall>r. res = Some r \<longrightarrow> (\<exists>i \<in> set (pendingFor workspaceId email w'). cri_id r = Some (iv_id i)))
    \<and> activities w' = activities w
    \<and> filter (\<lambda>i. iv_workspaceId i \<noteq> workspaceId \<or> iv_email i \<noteq> email) (invitations w') =
        filter (\<lambda>i. iv_workspaceId i \<noteq> workspaceId \<or> iv_email i \<noteq> email) (invitations w)"
proof -
  have c: "case pendingFor workspaceId email w of
          i # _ \<Rightarrow> \<exists>e. w_now w < e \<and> w' = w\<lparr>invitations := map (\<lambda>x. if iv_id x = iv_id i then x\<lparr>iv_expiresAt := e\<rparr> else x) (invitations w)\<rparr>
            \<and> (\<forall>r. res = Some r \<longrightarrow> cri_id r = Some (iv_id i) \<and> cri_role r = iv_role i)
        | [] \<Rightarrow> \<exists>row. iv_workspaceId row = workspaceId \<and> iv_email row = email \<and> iv_role row = Some (role_name role) \<and> isPending w row
            \<and> iv_id row \<notin> iv_id ` set (invitations w) \<and> w' = w\<lparr>invitations := invitations w @ [row]\<rparr>
            \<and> (\<forall>r. res = Some r \<longrightarrow> cri_id r = Some (iv_id row) \<and> cri_role r = iv_role row)"
    using spec [OF spec [OF spec [OF spec [OF spec [OF api [unfolded resends_def], of actorId], of email], of role], of workspaceId], of w]
    by (simp add: call)
  show ?thesis
  proof (cases "pendingFor workspaceId email w")
    case Nil
    with c obtain row where "iv_workspaceId row = workspaceId" "iv_email row = email" "iv_role row = Some (role_name role)"
        "isPending w row" "w' = w\<lparr>invitations := invitations w @ [row]\<rparr>" "\<forall>r. res = Some r \<longrightarrow> cri_id r = Some (iv_id row)" by auto
    with Nil show ?thesis by (auto simp: pendingFor_def isPending_def)
  next
    case (Cons i tail)
    then have "i \<in> set (pendingFor workspaceId email w)" by simp
  then have i: "i \<in> set (invitations w)" "iv_workspaceId i = workspaceId" "iv_email i = email" "isPending w i"
      "iv_role i = Some (role_name role)"
      using same by (simp_all add: pendingFor_def)
    from c Cons obtain e where e: "w_now w < e" "w' = w\<lparr>invitations := map (\<lambda>x. if iv_id x = iv_id i then x\<lparr>iv_expiresAt := e\<rparr> else x) (invitations w)\<rparr>"
      "\<forall>r. res = Some r \<longrightarrow> cri_id r = Some (iv_id i)" by auto
    have same_row: "x = i" if "x \<in> set (invitations w)" "iv_id x = iv_id i" for x
      using inj_on_id [OF ok [unfolded invitationsOk_def] that(1) i(1) that(2)] .
    let ?f = "\<lambda>x. if iv_id x = iv_id i then x\<lparr>iv_expiresAt := e\<rparr> else x"
    have roles: "iv_role y = Some (role_name role)" if y: "y \<in> set (pendingFor workspaceId email w')" for y
    proof -
      from y obtain x where x: "x \<in> set (invitations w)" "y = ?f x" by (auto simp: pendingFor_def e(2))
      show ?thesis
      proof (cases "iv_id x = iv_id i")
        case True
        with same_row [OF x(1)] i(5) x(2) show ?thesis by simp
      next
        case False
        with x y have "x \<in> set (pendingFor workspaceId email w)" by (auto simp: pendingFor_def isPending_def e(2))
        with same x(2) False show ?thesis by simp
      qed
    qed
    moreover have "?f i \<in> set (pendingFor workspaceId email w')"
      using i e(1) by (auto simp: pendingFor_def isPending_def e(2))
    moreover have "\<forall>x \<in> set xs. iv_id x = iv_id i \<longrightarrow> x = i \<Longrightarrow>
        filter (\<lambda>i. iv_workspaceId i \<noteq> workspaceId \<or> iv_email i \<noteq> email) (map ?f xs) =
        filter (\<lambda>i. iv_workspaceId i \<noteq> workspaceId \<or> iv_email i \<noteq> email) xs" for xs
      using i(2,3) by (induction xs) auto
    ultimately show ?thesis using e(3) same_row by (auto simp: e(2) intro!: bexI [of _ "?f i"])
  qed
qed


lemma createInvitation_Inr:
  assumes run: "WorkspaceInvitationService_createInvitation api env workspaceId actorId dto w = (Inr d, w')"
  defines "email \<equiv> js_lower (cid_email dto)" and "role \<equiv> cid_role dto"
  obtains w1 i sends w2 where "role \<noteq> OWNER"
    "(if list_ex (\<lambda>i. iv_role i \<noteq> Some (role_name role)) (pendingFor workspaceId email w)
      then cancelAll api actorId (pendingFor workspaceId email w) else return ()) w = (Inr (), w1)"
    "iva_createInvitation api actorId email role workspaceId w1 = (Inr (Some i, sends), w2)"
    "cri_id i = Some (ivd_id d)" "ivd_role d = role_name role" "ivd_emailDelivery d = fold recordMailDelivery sends None"
    "w' = logActivity workspaceId None actorId InvitationCreated
      ([(''invitationId'', JString (ivd_id d)), (''role'', JString (role_name role))]
        @ (case ivd_emailDelivery d of None \<Rightarrow> [] | Some s \<Rightarrow> [(''emailDelivery'', JString (delivery_name s))])) w2"
proof -
  from run obtain w1 invitation delivery w2 where o: "role \<noteq> OWNER"
    and c: "(if list_ex (\<lambda>i. iv_role i \<noteq> Some (role_name role)) (pendingFor workspaceId email w)
      then cancelAll api actorId (pendingFor workspaceId email w) else return ()) w = (Inr (), w1)"
    and p: "captureMailDelivery (iva_createInvitation api actorId email role workspaceId) w1 = (Inr (invitation, delivery), w2)"
    and r: "(case invitation of
       None \<Rightarrow> throw (BadRequest ''Failed to create invitation'')
     | Some i \<Rightarrow> (case (cri_id i, cri_email i, cri_status i, cri_expiresAt i) of
         (Some k, Some address, Some status, Some expires) \<Rightarrow>
           if k = [] \<or> address = [] \<or> status = [] then throw (BadRequest ''Failed to create invitation'')
           else
             bindE (failIf (case cri_role i of None \<Rightarrow> False | Some granted \<Rightarrow> granted \<noteq> role_name role)
               (Conflict ''Invitation was changed concurrently, please try again'')) (\<lambda>_.
             bindE (recordActivity workspaceId None actorId InvitationCreated
               ([(''invitationId'', JString k), (''role'', JString (role_name role))]
                @ (case delivery of None \<Rightarrow> [] | Some s \<Rightarrow> [(''emailDelivery'', JString (delivery_name s))]))) (\<lambda>_.
             return \<lparr>ivd_id = k, ivd_workspaceId = workspaceId, ivd_email = address, ivd_role = role_name role,
               ivd_status = status, ivd_expiresAt = toISOString expires, ivd_acceptUrl = buildInviteAcceptUrl env k,
               ivd_emailDelivery = delivery\<rparr>))
       | _ \<Rightarrow> throw (BadRequest ''Failed to create invitation''))) w2 = (Inr d, w')"
    unfolding WorkspaceInvitationService_createInvitation_def Let_def bindE_Inr attempt_Inr findPendingInvitations_def
      pendingFor_def role_def email_def
    by auto
  from p obtain sends where s: "iva_createInvitation api actorId email role workspaceId w1 = (Inr (invitation, sends), w2)"
    "delivery = fold recordMailDelivery sends None" unfolding capture_Inr by blast
  from r obtain i k where i: "invitation = Some i" "cri_id i = Some k" "ivd_id d = k" "ivd_role d = role_name role"
      "ivd_emailDelivery d = delivery"
      "w' = logActivity workspaceId None actorId InvitationCreated
        ([(''invitationId'', JString k), (''role'', JString (role_name role))]
          @ (case delivery of None \<Rightarrow> [] | Some s \<Rightarrow> [(''emailDelivery'', JString (delivery_name s))])) w2"
    by (auto simp: bindE_Inr split: option.splits if_splits)
  show ?thesis
    by (rule that [OF o c s(1) [unfolded i(1)]]) (use i s(2) in simp_all)
qed

text \<open>
  C24. An invitation that was created grants the role that was asked for and nothing else: whatever the
  workspace's pending invitations of the address were, afterwards every one of them has the requested role,
  the one reported is among them, and it is not an owner's. Invitations of other addresses and workspaces
  are as they were, and the entry in the log, which every member can read, holds the id of the invitation,
  the role and what became of the mail, and no address.
\<close>

theorem invitation_grants_what_was_asked:
  assumes "cancels api" and "resends api" and "invitationsOk w"
    and "WorkspaceInvitationService_createInvitation api env workspaceId actorId dto w = (Inr d, w')"
  shows "cid_role dto \<noteq> OWNER \<and> ivd_role d = role_name (cid_role dto)
    \<and> (\<forall>i \<in> set (pendingFor workspaceId (js_lower (cid_email dto)) w'). iv_role i = Some (role_name (cid_role dto)))
    \<and> ivd_id d \<in> iv_id ` set (pendingFor workspaceId (js_lower (cid_email dto)) w')
    \<and> filter (\<lambda>i. iv_workspaceId i \<noteq> workspaceId \<or> iv_email i \<noteq> js_lower (cid_email dto)) (invitations w') =
        filter (\<lambda>i. iv_workspaceId i \<noteq> workspaceId \<or> iv_email i \<noteq> js_lower (cid_email dto)) (invitations w)
    \<and> (\<exists>a. activities w' = activities w @ [a] \<and> map fst (a_payload a) \<in>
          {[''invitationId'', ''role''], [''invitationId'', ''role'', ''emailDelivery'']})"
proof -
  let ?email = "js_lower (cid_email dto)" and ?role = "cid_role dto"
  let ?other = "filter (\<lambda>i. iv_workspaceId i \<noteq> workspaceId \<or> iv_email i \<noteq> ?email)"
  obtain w1 i sends w2 where o: "?role \<noteq> OWNER"
    and c: "(if list_ex (\<lambda>i. iv_role i \<noteq> Some (role_name ?role)) (pendingFor workspaceId ?email w)
      then cancelAll api actorId (pendingFor workspaceId ?email w) else return ()) w = (Inr (), w1)"
    and call: "iva_createInvitation api actorId ?email ?role workspaceId w1 = (Inr (Some i, sends), w2)"
    and d: "cri_id i = Some (ivd_id d)" "ivd_role d = role_name ?role"
    and w': "w' = logActivity workspaceId None actorId InvitationCreated
      ([(''invitationId'', JString (ivd_id d)), (''role'', JString (role_name ?role))]
        @ (case ivd_emailDelivery d of None \<Rightarrow> [] | Some s \<Rightarrow> [(''emailDelivery'', JString (delivery_name s))])) w2"
    by (rule createInvitation_Inr [OF assms(4)])
  have w1: "invitationsOk w1 \<and> activities w1 = activities w \<and> ?other (invitations w1) = ?other (invitations w)
      \<and> (\<forall>i \<in> set (pendingFor workspaceId ?email w1). iv_role i = Some (role_name ?role))"
  proof (cases "list_ex (\<lambda>i. iv_role i \<noteq> Some (role_name ?role)) (pendingFor workspaceId ?email w)")
    case True
    let ?rows = "pendingFor workspaceId ?email w"
    let ?f = "\<lambda>i. if iv_id i \<in> iv_id ` set ?rows then i\<lparr>iv_status := js ''canceled''\<rparr> else i"
    from c True have eq: "w1 = w\<lparr>invitations := map ?f (invitations w)\<rparr>" using cancelAll_Inr [OF assms(1)] by simp
    have mine: "iv_id x \<in> iv_id ` set ?rows \<Longrightarrow> iv_workspaceId x = workspaceId \<and> iv_email x = ?email" if "x \<in> set (invitations w)" for x
      using inj_on_id [OF assms(3) [unfolded invitationsOk_def] that] by (auto simp: pendingFor_def)
    have keep: "\<forall>x \<in> set xs. iv_id x \<in> iv_id ` set ?rows \<longrightarrow> iv_workspaceId x = workspaceId \<and> iv_email x = ?email \<Longrightarrow>
        ?other (map ?f xs) = ?other xs" for xs
      by (induction xs) auto
    have "?other (map ?f (invitations w)) = ?other (invitations w)" by (rule keep) (use mine in blast)
    then have "?other (invitations w1) = ?other (invitations w)" by (simp add: eq)
    moreover have "map iv_id (invitations w1) = map iv_id (invitations w)" by (simp add: eq)
    moreover have "pendingFor workspaceId ?email w1 = []" unfolding eq by (rule pending_cancelled)
    moreover have "activities w1 = activities w" by (simp add: eq)
    ultimately show ?thesis using assms(3) unfolding invitationsOk_def by (simp only: list.set(1) ball_empty)
  next
    case False
    with c assms(3) show ?thesis by (auto simp: list_ex_iff)
  qed
  from create_effect [OF assms(2) _ _ call] w1
  have e: "\<forall>i \<in> set (pendingFor workspaceId ?email w2). iv_role i = Some (role_name ?role)"
    "\<exists>x \<in> set (pendingFor workspaceId ?email w2). cri_id i = Some (iv_id x)" "activities w2 = activities w"
    "?other (invitations w2) = ?other (invitations w)" by auto
  have frame: "invitations w' = invitations w2" "pendingFor workspaceId ?email w' = pendingFor workspaceId ?email w2"
    by (simp_all add: w' pendingFor_def isPending_def logActivity_def tick_def)
  show ?thesis
    using o d e by (auto simp: frame) (auto simp: w' split: option.splits)
qed


definition sampleInvitations :: invitation_api where
  \<comment> \<open>a plugin that does what it is asked\<close>
  "sampleInvitations = \<lparr>
     iva_createInvitation = (\<lambda>caller email role org w.
       (case pendingFor org email w of
          i # _ \<Rightarrow> (Inr (Some \<lparr>cri_id = Some (iv_id i), cri_email = Some email, cri_status = Some (iv_status i),
              cri_expiresAt = Some (w_now w + 100), cri_role = iv_role i\<rparr>, [NOT_CONFIGURED]),
            w\<lparr>invitations := map (\<lambda>x. if iv_id x = iv_id i then x\<lparr>iv_expiresAt := w_now w + 100\<rparr> else x) (invitations w)\<rparr>)
        | [] \<Rightarrow>
            (let k = concat (map iv_id (invitations w)) @ js ''i'';
                 row = \<lparr>iv_id = k, iv_email = email, iv_inviterId = caller, iv_workspaceId = org, iv_role = Some (role_name role),
                   iv_status = js ''pending'', iv_expiresAt = w_now w + 100, iv_createdAt = w_now w\<rparr>
             in (Inr (Some \<lparr>cri_id = Some k, cri_email = Some email, cri_status = Some (js ''pending''),
                  cri_expiresAt = Some (w_now w + 100), cri_role = Some (role_name role)\<rparr>, [SENT]),
                w\<lparr>invitations := invitations w @ [row]\<rparr>)))),
     iva_cancelInvitation = (\<lambda>_ k w. (Inr (), cancelled k w)),
     iva_acceptInvitation = (\<lambda>_ _ w. (Inr None, w))\<rparr>"

lemma fresh_concat: "concat (map f xs) @ [c] \<notin> f ` set xs"
proof
  assume "concat (map f xs) @ [c] \<in> f ` set xs"
  then obtain x where x: "x \<in> set xs" "f x = concat (map f xs) @ [c]" by auto
  have "length (f x) \<le> length (concat (map f xs))" using x(1) by (induction xs) auto
  with x(2) show False by simp
qed

lemma sampleInvitations_ok: "cancels sampleInvitations" "resends sampleInvitations"
proof -
  show "cancels sampleInvitations" by (simp add: cancels_def sampleInvitations_def)
  have fresh: "concat (map iv_id (invitations w)) @ js ''i'' \<notin> iv_id ` set (invitations w)" for w
    using fresh_concat [of iv_id "invitations w"] by simp
  show "resends sampleInvitations"
    unfolding resends_def
  proof (intro allI)
    fix caller email role org w
    let ?run = "iva_createInvitation sampleInvitations caller email role org w"
    show "case ?run of (Inl _, w') \<Rightarrow> w' = w
      | (Inr (res, _), w') \<Rightarrow> (case pendingFor org email w of
          i # _ \<Rightarrow> \<exists>e. w_now w < e \<and> w' = w\<lparr>invitations := map (\<lambda>x. if iv_id x = iv_id i then x\<lparr>iv_expiresAt := e\<rparr> else x) (invitations w)\<rparr>
            \<and> (\<forall>r. res = Some r \<longrightarrow> cri_id r = Some (iv_id i) \<and> cri_role r = iv_role i)
        | [] \<Rightarrow> \<exists>row. iv_workspaceId row = org \<and> iv_email row = email \<and> iv_role row = Some (role_name role) \<and> isPending w row
            \<and> iv_id row \<notin> iv_id ` set (invitations w) \<and> w' = w\<lparr>invitations := invitations w @ [row]\<rparr>
            \<and> (\<forall>r. res = Some r \<longrightarrow> cri_id r = Some (iv_id row) \<and> cri_role r = iv_role row))"
    proof (cases "pendingFor org email w")
      case Nil
      let ?row = "\<lparr>iv_id = concat (map iv_id (invitations w)) @ js ''i'', iv_email = email, iv_inviterId = caller, iv_workspaceId = org,
        iv_role = Some (role_name role), iv_status = js ''pending'', iv_expiresAt = w_now w + 100, iv_createdAt = w_now w\<rparr>"
      show ?thesis
        using fresh [of w]
        by (simp add: Nil sampleInvitations_def Let_def isPending_def exI [of _ ?row] del: js_Cons)
    next
      case (Cons i rest)
      show ?thesis by (simp add: Cons sampleInvitations_def exI [of _ "w_now w + 100"])
    qed
  qed
qed

definition invitedWorld :: world where
  "invitedWorld = sampleWorld\<lparr>invitations := [\<lparr>iv_id = js ''v1'', iv_email = js ''c@x'', iv_inviterId = js ''u1'',
     iv_workspaceId = js ''w1'', iv_role = Some (js ''ADMIN''), iv_status = js ''pending'', iv_expiresAt = 2000, iv_createdAt = 0\<rparr>]\<rparr>"

theorem invitation_grants_what_was_asked_witness:
  "\<exists>d w'. WorkspaceInvitationService_createInvitation sampleInvitations None (js ''w1'') (js ''u1'')
       \<lparr>cid_email = js ''C@x'', cid_role = GUEST\<rparr> invitedWorld = (Inr d, w') \<and> ivd_role d = role_name GUEST
     \<and> (\<forall>i \<in> set (pendingFor (js ''w1'') (js_lower (js ''C@x'')) w'). iv_role i = Some (role_name GUEST))"
proof -
  have "\<not> is_error (fst (WorkspaceInvitationService_createInvitation sampleInvitations None (js ''w1'') (js ''u1'')
      \<lparr>cid_email = js ''C@x'', cid_role = GUEST\<rparr> invitedWorld))"
    by (simp add: WorkspaceInvitationService_createInvitation_def sampleInvitations_def invitedWorld_def sampleWorld_def bindE_def
        failIf_def findPendingInvitations_def reads_def isPending_def js_lower_def role_name_def attempt_def captureMailDelivery_def
        cancelled_def pendingFor_def return_def throw_def Let_def recordActivity_def recordMailDelivery_def)
  then obtain d w' where run: "WorkspaceInvitationService_createInvitation sampleInvitations None (js ''w1'') (js ''u1'')
      \<lparr>cid_email = js ''C@x'', cid_role = GUEST\<rparr> invitedWorld = (Inr d, w')"
    using succeeds by blast
  moreover have "invitationsOk invitedWorld" by (simp add: invitationsOk_def invitedWorld_def)
  ultimately show ?thesis using invitation_grants_what_was_asked [OF sampleInvitations_ok _ run] by auto
qed

subsection \<open>Listing, revoking and accepting stay in the workspace\<close>

lemma listPending_page:
  "pageOf (WorkspaceInvitationService_listPendingInvitations env workspaceId \<lparr>ivq_cursor = c, ivq_limit = limit\<rparr> w) =
    toCursorPage iv_id (keysetAsc iv_id (\<lambda>i. iv_workspaceId i = workspaceId \<and> isPending w i) (invitations w) (cursorOf c) (limit + 1))
      limit (toInvitationDto env)"
  by (simp add: pageOf_def WorkspaceInvitationService_listPendingInvitations_def reads_def keysetAsc_def)


text \<open>
  An administrator who pages through the pending invitations by their cursors sees every invitation of
  the workspace that can still be accepted, each once and in the order they were sent, and no other; an
  answered, withdrawn or expired one is on no page, and neither is another workspace's.
\<close>

theorem pending_invitations_complete:
  assumes "invitationsOk w" and "[] \<notin> iv_id ` set (invitations w)"
    and "0 < limit" and "length (invitations w) < fuel * limit"
  shows "walk (\<lambda>c. pageOf (WorkspaceInvitationService_listPendingInvitations env workspaceId
        \<lparr>ivq_cursor = cursorField c, ivq_limit = limit\<rparr> w)) fuel None =
      map (toInvitationDto env) (sort_key iv_id
        (filter (\<lambda>i. iv_workspaceId i = workspaceId \<and> iv_status i = js ''pending'' \<and> w_now w < iv_expiresAt i) (invitations w)))"
proof -
  let ?P = "\<lambda>i. iv_workspaceId i = workspaceId \<and> isPending w i"
  let ?page = "\<lambda>c. toCursorPage iv_id (keysetAsc iv_id ?P (invitations w) c (limit + 1)) limit (toInvitationDto env)"
  have "walk (\<lambda>c. pageOf (WorkspaceInvitationService_listPendingInvitations env workspaceId
      \<lparr>ivq_cursor = cursorField c, ivq_limit = limit\<rparr> w)) fuel None = walk ?page fuel None"
  proof (rule walk_cong [where ok = "\<lambda>c. c \<noteq> Some []"])
    show "pageOf (WorkspaceInvitationService_listPendingInvitations env workspaceId
        \<lparr>ivq_cursor = cursorField c, ivq_limit = limit\<rparr> w) = ?page c" if "c \<noteq> Some []" for c
      using that by (cases c) (simp_all add: listPending_page cursorField_def cursorOf_Value)
    show "Some k \<noteq> Some []" if "nextCursor (?page c) = Some k" for c k
    proof -
      have "k \<in> iv_id ` set (invitations w)"
        using nextCursor_mem [OF that] by (auto simp: keysetAsc_def dest!: in_set_takeD)
      then show ?thesis using assms(2) by (metis option.inject)
    qed
  qed simp
  also have "\<dots> = map (toInvitationDto env) (sort_key iv_id (filter ?P (invitations w)))"
  proof (rule asc.walk_complete)
    show "distinct (map iv_id (sort_key iv_id (filter ?P (invitations w))))"
      using distinct_map_filter [OF assms(1) [unfolded invitationsOk_def], of ?P] by (simp add: distinct_map)
    show "length (sort_key iv_id (filter ?P (invitations w))) < fuel * limit"
      using assms(4) le_less_trans [OF length_filter_le] by simp
  qed (rule assms(3))
  finally show ?thesis by (simp only: isPending_def)
qed

theorem pending_invitations_complete_witness:
  "map ivd_id (walk (\<lambda>c. pageOf (WorkspaceInvitationService_listPendingInvitations None (js ''w1'')
      \<lparr>ivq_cursor = cursorField c, ivq_limit = 1\<rparr> invitedWorld)) 2 None) = [js ''v1'']"
  by (subst pending_invitations_complete)
    (simp_all add: invitationsOk_def invitedWorld_def sampleWorld_def toInvitationDto_def)

subsection \<open>The invitations of another workspace\<close>

text \<open>
  An administrator cannot revoke, and nobody can accept, an invitation through a workspace it is not of:
  the answer is that there is no such invitation, whatever the plugin would have done, the plugin is not
  called and nothing is written. So it is for an invitation that is not pending any more, when it is accepted.
\<close>

theorem foreign_invitation_not_found:
  assumes "\<forall>i \<in> set (invitations w). iv_id i = k \<longrightarrow> iv_workspaceId i \<noteq> workspaceId"
  shows "WorkspaceInvitationService_revokeInvitation api workspaceId actorId k w = (Inl (NotFound ''Invitation not found''), w)
    \<and> WorkspaceInvitationService_acceptInvitation api sessionUser workspaceId k w = (Inl (NotFound ''Invitation not found''), w)"
proof -
  have "find (\<lambda>i. iv_id i = k \<and> iv_workspaceId i = workspaceId) (invitations w) = None"
    using assms by (auto simp: find_None_iff)
  moreover have "iv_workspaceId i \<noteq> workspaceId" if "find (\<lambda>i. iv_id i = k) (invitations w) = Some i" for i
    using that assms by (auto simp: find_Some_iff)
  ultimately show ?thesis
    by (simp add: WorkspaceInvitationService_revokeInvitation_def WorkspaceInvitationService_acceptInvitation_def
        bindE_def orThrow_def split: option.split)
qed

theorem foreign_invitation_not_found_witness:
  "WorkspaceInvitationService_revokeInvitation sampleInvitations (js ''w2'') (js ''u1'') (js ''v1'') invitedWorld =
    (Inl (NotFound ''Invitation not found''), invitedWorld)"
  by (rule foreign_invitation_not_found [THEN conjunct1]) (simp add: invitedWorld_def)

end
