(* ===== verification/Environment.thy ===== *)
theory Environment
  imports Json
begin

section \<open>Configuration from the environment\<close>

text \<open>
  \<open>common/env.ts\<close>: reading a variable as an integer or a boolean, with the language's \<open>Number(string)\<close>,
  arithmetic with infinities and not-a-number, and \<open>new Date(number)\<close>, which the retention windows are
  computed with. An error is the one thrown when the variable is read.
\<close>

type_synonym js_env = "string \<Rightarrow> js_string option"

subsection \<open>Number(string)\<close>

definition digitOf :: "int \<Rightarrow> code_unit \<Rightarrow> int option" where
  "digitOf radix c =
     (let v = (if isDigit c then uint c - 48 else if 97 \<le> c \<and> c \<le> 122 then uint c - 87
               else if 65 \<le> c \<and> c \<le> 90 then uint c - 55 else 99)
      in if v < radix then Some v else None)"

definition radixLiteral :: "int \<Rightarrow> js_string \<Rightarrow> js_number option" where
  "radixLiteral radix s =
     (case those (map (digitOf radix) s) of
        None \<Rightarrow> None
      | Some ds \<Rightarrow> if ds = [] then None else Some (toDouble (of_int (foldl (\<lambda>n d. radix * n + d) 0 ds))))"

definition radixPrefix :: "js_string \<Rightarrow> int option" where
  "radixPrefix s =
     (if s = js ''0x'' \<or> s = js ''0X'' then Some 16 else if s = js ''0o'' \<or> s = js ''0O'' then Some 8
      else if s = js ''0b'' \<or> s = js ''0B'' then Some 2 else None)"

definition decimalLiteral :: "js_string \<Rightarrow> js_number option" where
  "decimalLiteral s =
     (let negative = (s \<noteq> [] \<and> hd s = 0x2D);
          body = (if s \<noteq> [] \<and> (hd s = 0x2D \<or> hd s = 0x2B) then tl s else s);
          whole = takeWhile isDigit body;
          r = dropWhile isDigit body;
          point = (r \<noteq> [] \<and> hd r = 0x2E);
          fraction = (if point then takeWhile isDigit (tl r) else []);
          r' = (if point then dropWhile isDigit (tl r) else r)
      in if body = js ''Infinity'' then Some (if negative then NegInfinity else PosInfinity)
         else if whole = [] \<and> fraction = [] then None
         else (case lexExponent r' of
             None \<Rightarrow> None
           | Some (e, rest) \<Rightarrow>
               if rest \<noteq> [] then None
               else (let v = scale10 (digitsValue (whole @ fraction)) (e - int (length fraction))
                     in Some (toDouble (if negative then - v else v)))))"

definition jsNumber :: "js_string \<Rightarrow> js_number option" where
  \<comment> \<open>\<open>None\<close> is NaN\<close>
  "jsNumber s =
     (let t = js_trim s in
      if t = [] then Some (Finite 0)
      else (case radixPrefix (take 2 t) of
          Some radix \<Rightarrow> radixLiteral radix (drop 2 t) | None \<Rightarrow> decimalLiteral t))"

definition isInteger :: "js_number option \<Rightarrow> number option" where
  \<comment> \<open>\<open>Number.isInteger\<close>, with the integer\<close>
  "isInteger n = (case n of Some (Finite v) \<Rightarrow> if v = of_int \<lfloor>v\<rfloor> then Some v else None | _ \<Rightarrow> None)"

subsection \<open>envInt and envBool\<close>

definition unitsText :: "js_string \<Rightarrow> string" where
  \<comment> \<open>the value of a variable inside a message\<close>
  "unitsText = map (\<lambda>c. char_of (unat c))"

definition envInt :: "js_env \<Rightarrow> string \<Rightarrow> number \<Rightarrow> http_error + number" where
  "envInt env name fallback =
     (case map_option js_trim (env name) of
        None \<Rightarrow> Inr fallback
      | Some raw \<Rightarrow>
          if raw = [] then Inr fallback
          else (case isInteger (jsNumber raw) of
              None \<Rightarrow> Inl (InternalError (''Invalid '' @ name @ '': expected an integer, received \"'' @ unitsText raw @ ''\"''))
            | Some parsed \<Rightarrow> Inr parsed))"

definition TRUE_VALUES :: "js_string set" where
  "TRUE_VALUES = set [js ''true'', js ''1'', js ''yes'', js ''on'']"

definition FALSE_VALUES :: "js_string set" where
  "FALSE_VALUES = set [js ''false'', js ''0'', js ''no'', js ''off'']"

definition envBool :: "js_env \<Rightarrow> string \<Rightarrow> bool \<Rightarrow> http_error + bool" where
  "envBool env name fallback =
     (case map_option js_trim (env name) of
        None \<Rightarrow> Inr fallback
      | Some raw \<Rightarrow>
          if raw = [] then Inr fallback
          else if js_lower raw \<in> TRUE_VALUES then Inr True
          else if js_lower raw \<in> FALSE_VALUES then Inr False
          else Inl (InternalError (''Invalid '' @ name @ '': expected a boolean, received \"'' @ unitsText raw @ ''\"'')))"

subsection \<open>Arithmetic and dates\<close>

fun js_sign :: "js_number \<Rightarrow> rat" where
  "js_sign (Finite v) = sgn v"
| "js_sign PosInfinity = 1"
| "js_sign NegInfinity = -1"

fun js_times :: "js_number \<Rightarrow> js_number \<Rightarrow> js_number option" where
  \<comment> \<open>\<open>None\<close> is NaN\<close>
  "js_times (Finite a) (Finite b) = Some (toDouble (a * b))"
| "js_times a b =
     (let s = js_sign a * js_sign b in if s = 0 then None else Some (if 0 < s then PosInfinity else NegInfinity))"

fun js_minus :: "js_number \<Rightarrow> js_number \<Rightarrow> js_number option" where
  "js_minus (Finite a) (Finite b) = Some (toDouble (a - b))"
| "js_minus (Finite a) PosInfinity = Some NegInfinity"
| "js_minus (Finite a) NegInfinity = Some PosInfinity"
| "js_minus PosInfinity PosInfinity = None"
| "js_minus NegInfinity NegInfinity = None"
| "js_minus a _ = Some a"

definition newDateOf :: "js_number option \<Rightarrow> js_date option" where
  \<comment> \<open>\<open>new Date(n)\<close>; \<open>None\<close> is an invalid date\<close>
  "newDateOf n =
     (case n of
        Some (Finite v) \<Rightarrow> (let t = (if 0 \<le> v then \<lfloor>v\<rfloor> else \<lceil>v\<rceil>) in if validDate t then Some t else None)
      | _ \<Rightarrow> None)"

lemma toDouble_exact:
  \<comment> \<open>a product of an integer and a power of two that fits\<close>
  assumes "v = of_int m * 2 ^ k" and "\<bar>m\<bar> \<le> 2 ^ 53" and "1 \<le> \<bar>v\<bar>" and "\<bar>v\<bar> < 2 ^ 1024"
  shows "toDouble v = Finite v"
proof -
  have "v = of_int m * 2 powi int k" using assms(1) by (simp add: power_int_def)
  then have "is_double v" using assms(2) unfolding is_double_iff by blast
  then have fl: "fl v = v" by (simp add: is_double_def)
  have "(1 :: rat) / 2 ^ 1022 \<le> 1" by simp
  then have a: "\<not> \<bar>v\<bar> < 1 / 2 ^ 1022" using assms(3) by linarith
  have "\<not> 2 ^ 1024 \<le> v" "\<not> v \<le> - (2 ^ 1024)" using assms(4) by linarith+
  with a show ?thesis by (simp only: toDouble_def fl if_False)
qed

end
