(* ===== verification/Storage.thy ===== *)
theory Storage
  imports Environment Store
begin

section \<open>Stored files\<close>

text \<open>
  \<open>storage/\<close>: the settings, the disk backend with the paths of \<open>node:path\<close> on POSIX, and the service in
  front of it. The files under the root are \<open>w_files\<close>, each with its key: its path relative to the root.
  The disk takes what it is given: that it is full, or that a directory stands where a file should, is not
  modelled.
\<close>

definition envString :: "js_env \<Rightarrow> string \<Rightarrow> js_string \<Rightarrow> js_string" where
  "envString env name fallback =
     (case env name of None \<Rightarrow> fallback | Some raw \<Rightarrow> if js_trim raw = [] then fallback else js_trim raw)"

subsection \<open>Paths\<close>

definition isAbsolute :: "js_string \<Rightarrow> bool" where
  "isAbsolute p \<longleftrightarrow> (case p of [] \<Rightarrow> False | c # _ \<Rightarrow> c = 0x2F)"

definition dot :: js_string where
  "dot = [0x2E]"

definition dotDot :: js_string where
  "dotDot = [0x2E, 0x2E]"

fun normalizeSegments :: "js_string list \<Rightarrow> js_string list \<Rightarrow> js_string list" where
  \<comment> \<open>the segments passed so far, the last one first; above the root there is only the root\<close>
  "normalizeSegments passed [] = rev passed"
| "normalizeSegments passed (s # rest) =
     (if s = [] \<or> s = dot then normalizeSegments passed rest
      else if s = dotDot then normalizeSegments (List.tl passed) rest
      else normalizeSegments (s # passed) rest)"

definition pathResolve :: "js_string \<Rightarrow> js_string list \<Rightarrow> js_string list" where
  \<comment> \<open>\<open>path.resolve\<close>: the segments of the absolute path\<close>
  "pathResolve cwd paths = normalizeSegments []
     (foldl (\<lambda>segments p. if isAbsolute p then splitOn 0x2F p else segments @ splitOn 0x2F p) (splitOn 0x2F cwd) paths)"

fun relativeSegments :: "js_string list \<Rightarrow> js_string list \<Rightarrow> js_string list" where
  \<comment> \<open>\<open>path.relative\<close> of two absolute paths\<close>
  "relativeSegments (a # as) (b # bs) =
     (if a = b then relativeSegments as bs else map (\<lambda>_. dotDot) (a # as) @ b # bs)"
| "relativeSegments [] bs = bs"
| "relativeSegments as [] = map (\<lambda>_. dotDot) as"

fun joinSegments :: "js_string list \<Rightarrow> js_string" where
  "joinSegments [] = []"
| "joinSegments [s] = s"
| "joinSegments (s # rest) = s @ 0x2F # joinSegments rest"

subsection \<open>Settings\<close>

definition DEFAULT_ATTACHMENT_MAX_BYTES :: number where
  "DEFAULT_ATTACHMENT_MAX_BYTES = 26214400"

record StorageConfig =
  sc_disk :: "js_string option"
  sc_maxBytes :: number

definition readStorageConfig :: "js_env \<Rightarrow> http_error + StorageConfig" where
  \<comment> \<open>the values are left out of the messages\<close>
  "readStorageConfig env =
     (let rootDir = envString env ''STORAGE_PATH'' [] in
      if rootDir \<noteq> [] \<and> \<not> isAbsolute rootDir then Inl (InternalError ''Invalid STORAGE_PATH: expected an absolute path'')
      else (case envInt env ''ATTACHMENT_MAX_BYTES'' DEFAULT_ATTACHMENT_MAX_BYTES of
          Inl e \<Rightarrow> Inl e
        | Inr maxBytes \<Rightarrow>
            if maxBytes \<le> 0 then Inl (InternalError ''Invalid ATTACHMENT_MAX_BYTES: expected a positive byte count'')
            else Inr \<lparr>sc_disk = (if rootDir = [] then None else Some rootDir), sc_maxBytes = maxBytes\<rparr>))"

subsection \<open>The disk\<close>

record DiskStorageBackend =
  \<comment> \<open>with the working directory of the process\<close>
  dk_root :: js_string
  dk_cwd :: js_string

definition DiskStorageBackend_new :: "js_string \<Rightarrow> js_string \<Rightarrow> http_error + DiskStorageBackend" where
  "DiskStorageBackend_new cwd rootDir =
     (if \<not> isAbsolute (js_trim rootDir) \<or> js_trim rootDir = [] then Inl (InternalError ''Storage root must be an absolute path'')
      else Inr \<lparr>dk_root = rootDir, dk_cwd = cwd\<rparr>)"

definition createStorageBackend :: "js_string \<Rightarrow> StorageConfig \<Rightarrow> http_error + DiskStorageBackend option" where
  "createStorageBackend cwd config =
     (case sc_disk config of
        None \<Rightarrow> Inr None
      | Some rootDir \<Rightarrow> (case DiskStorageBackend_new cwd rootDir of Inl e \<Rightarrow> Inl e | Inr d \<Rightarrow> Inr (Some d)))"

definition relativeToRoot :: "DiskStorageBackend \<Rightarrow> js_string list \<Rightarrow> js_string" where
  "relativeToRoot disk absolute = joinSegments (relativeSegments (pathResolve (dk_cwd disk) [dk_root disk]) absolute)"

definition DiskStorageBackend_resolve :: "DiskStorageBackend \<Rightarrow> js_string \<Rightarrow> http_error + js_string list" where
  "DiskStorageBackend_resolve disk key =
     (let absolute = pathResolve (dk_cwd disk) [dk_root disk, key]; rel = relativeToRoot disk absolute in
      if rel = [] \<or> take 2 rel = dotDot \<or> isAbsolute rel then Inl (InternalError ''Storage key resolves outside the storage root'')
      else Inr absolute)"

definition writeFile :: "js_string \<Rightarrow> 8 word list \<Rightarrow> world \<Rightarrow> world" where
  "writeFile key bytes w =
     w\<lparr>w_files := filter (\<lambda>f. sf_key f \<noteq> key) (w_files w) @ [\<lparr>sf_key = key, sf_modifiedAt = w_now w, sf_bytes = bytes\<rparr>]\<rparr>"

definition DiskStorageBackend_write :: "DiskStorageBackend \<Rightarrow> js_string \<Rightarrow> 8 word list \<Rightarrow> unit handler" where
  "DiskStorageBackend_write disk key bytes =
     bindE (lift (DiskStorageBackend_resolve disk key)) (\<lambda>absolute. modify (writeFile (relativeToRoot disk absolute) bytes))"

definition DiskStorageBackend_createReadStream :: "DiskStorageBackend \<Rightarrow> js_string \<Rightarrow> 8 word list handler" where
  \<comment> \<open>what the stream will deliver; a missing file rejects before there is a stream\<close>
  "DiskStorageBackend_createReadStream disk key =
     bindE (lift (DiskStorageBackend_resolve disk key)) (\<lambda>absolute.
       orThrow (InternalError ''ENOENT: no such file or directory'')
         (\<lambda>w. map_option sf_bytes (find (\<lambda>f. sf_key f = relativeToRoot disk absolute) (w_files w))))"

definition DiskStorageBackend_remove :: "DiskStorageBackend \<Rightarrow> js_string \<Rightarrow> unit handler" where
  \<comment> \<open>removing a key that is gone does nothing\<close>
  "DiskStorageBackend_remove disk key =
     bindE (lift (DiskStorageBackend_resolve disk key)) (\<lambda>absolute.
       modify (\<lambda>w. w\<lparr>w_files := filter (\<lambda>f. sf_key f \<noteq> relativeToRoot disk absolute) (w_files w)\<rparr>))"

definition DiskStorageBackend_listKeys :: "stored_file list handler" where
  "DiskStorageBackend_listKeys = reads w_files"

subsection \<open>The service\<close>

type_synonym storage = "DiskStorageBackend option"

definition attachmentsEnabled :: "storage \<Rightarrow> bool" where
  "attachmentsEnabled storage \<longleftrightarrow> storage \<noteq> None"

definition StorageService_require :: "storage \<Rightarrow> DiskStorageBackend handler" where
  "StorageService_require storage = orThrow (ServiceUnavailable ''Attachment storage is not configured'') (\<lambda>_. storage)"

definition StorageService_write :: "storage \<Rightarrow> js_string \<Rightarrow> 8 word list \<Rightarrow> unit handler" where
  "StorageService_write storage key bytes = bindE (StorageService_require storage) (\<lambda>d. DiskStorageBackend_write d key bytes)"

definition StorageService_createReadStream :: "storage \<Rightarrow> js_string \<Rightarrow> 8 word list handler" where
  "StorageService_createReadStream storage key =
     bindE (StorageService_require storage) (\<lambda>d. DiskStorageBackend_createReadStream d key)"

definition StorageService_remove :: "storage \<Rightarrow> js_string \<Rightarrow> unit handler" where
  "StorageService_remove storage key = bindE (StorageService_require storage) (\<lambda>d. DiskStorageBackend_remove d key)"

definition StorageService_listKeys :: "storage \<Rightarrow> stored_file list handler" where
  "StorageService_listKeys storage = bindE (StorageService_require storage) (\<lambda>_. DiskStorageBackend_listKeys)"

end
