(* ===== verification/StorageProps.thy ===== *)
theory StorageProps
  imports Storage
begin

section \<open>Keys, paths and what is read back\<close>

text \<open>
  A key that the backend resolves names a path strictly below the root, whatever it contains; a plain key,
  as \<open>listKeys\<close> reports it, resolves to itself, and what is written under it is read back.
\<close>

definition plainSegment :: "js_string \<Rightarrow> bool" where
  "plainSegment s \<longleftrightarrow> s \<noteq> [] \<and> s \<noteq> dot \<and> s \<noteq> dotDot \<and> 0x2F \<notin> set s"

definition plainKey :: "js_string \<Rightarrow> bool" where
  "plainKey k \<longleftrightarrow> list_all plainSegment (splitOn 0x2F k) \<and> take 2 k \<noteq> dotDot"

lemma splitOn_not_Nil [simp]: "splitOn sep s \<noteq> []"
  by (cases s) (auto split: list.split)

lemma splitOn_no_sep: "p \<in> set (splitOn sep s) \<Longrightarrow> sep \<notin> set p"
  by (induction s arbitrary: p) (auto split: if_splits list.splits)

lemma joinSegments_Cons: "ps \<noteq> [] \<Longrightarrow> joinSegments (p # ps) = p @ 0x2F # joinSegments ps"
  by (cases ps) simp_all

lemma join_split [simp]: "joinSegments (splitOn 0x2F s) = s"
proof (induction s)
  case (Cons c cs)
  obtain p ps where split: "splitOn 0x2F cs = p # ps" by (meson neq_Nil_conv splitOn_not_Nil)
  with Cons show ?case by (cases ps) (auto simp: joinSegments_Cons)
qed simp

lemma split_join:
  "ps \<noteq> [] \<Longrightarrow> \<forall>p \<in> set ps. 0x2F \<notin> set p \<Longrightarrow> splitOn 0x2F (joinSegments ps) = ps"
proof (induction ps)
  case (Cons p ps)
  have alone: "splitOn 0x2F q = [q]" if "0x2F \<notin> set q" for q :: js_string
    using that by (induction q) auto
  have front: "splitOn 0x2F (q @ 0x2F # r) = q # splitOn 0x2F r" if "0x2F \<notin> set q" for q r :: js_string
    using that by (induction q) auto
  from Cons show ?case
    by (cases "ps = []") (auto simp: joinSegments_Cons alone front)
qed simp

lemma normalize_append:
  "normalizeSegments passed (xs @ ys) = normalizeSegments (rev (normalizeSegments passed xs)) ys"
  by (induction passed xs rule: normalizeSegments.induct) auto

lemma normalize_plain: "list_all plainSegment ys \<Longrightarrow> normalizeSegments passed ys = rev passed @ ys"
  by (induction ys arbitrary: passed) (auto simp: plainSegment_def)

lemma normalized_plain:
  "list_all plainSegment passed \<Longrightarrow> \<forall>p \<in> set xs. 0x2F \<notin> set p \<Longrightarrow> list_all plainSegment (normalizeSegments passed xs)"
proof (induction passed xs rule: normalizeSegments.induct)
  case (2 passed s rest)
  have "list_all plainSegment (List.tl passed)" using 2(4) by (cases passed) simp_all
  moreover have "0x2F \<notin> set s" "\<forall>p \<in> set rest. 0x2F \<notin> set p" using 2(5) by simp_all
  ultimately show ?case
    using 2(1) 2(2) 2(3) 2(4) by (simp add: plainSegment_def [of s])
qed simp

lemma relative_append [simp]: "relativeSegments xs (xs @ ys) = ys"
  by (induction xs) simp_all

lemma relative_inside:
  "relativeSegments xs ys = zs \<Longrightarrow> (\<And>z. zs \<noteq> [] \<Longrightarrow> hd zs \<noteq> dotDot) \<Longrightarrow> ys = xs @ zs"
proof (induction xs ys rule: relativeSegments.induct)
  case (1 a as b bs)
  then show ?case by (cases "a = b") auto
next
  case (3 a as)
  then show ?case by auto
qed simp

lemma resolved_plain: "list_all plainSegment (pathResolve cwd paths)"
proof -
  let ?step = "\<lambda>segments p. if isAbsolute p then splitOn 0x2F p else segments @ splitOn 0x2F p"
  have "\<forall>p \<in> set (foldl ?step segments paths). 0x2F \<notin> set p" if "\<forall>p \<in> set segments. 0x2F \<notin> set p" for segments
    using that
  proof (induction paths arbitrary: segments)
    case (Cons a paths)
    have "\<forall>p \<in> set (?step segments a). 0x2F \<notin> set p" using Cons.prems splitOn_no_sep by auto
    from Cons.IH [OF this] show ?case by simp
  qed simp
  then show ?thesis unfolding pathResolve_def by (intro normalized_plain) (auto dest: splitOn_no_sep)
qed

lemma take_join: "ps \<noteq> [] \<Longrightarrow> hd ps = dotDot \<Longrightarrow> take 2 (joinSegments ps) = dotDot"
  by (cases ps; cases "List.tl ps") (simp_all add: dotDot_def)

subsection \<open>What the backend resolves\<close>

lemma relativeToRoot_append [simp]:
  "relativeToRoot d (pathResolve (dk_cwd d) [dk_root d] @ rest) = joinSegments rest"
  by (simp add: relativeToRoot_def)

lemma plain_join:
  assumes "rest \<noteq> []" and "list_all plainSegment rest" and "take 2 (joinSegments rest) \<noteq> dotDot"
  shows "plainKey (joinSegments rest)"
  using assms split_join [of rest] by (auto simp: plainKey_def list_all_iff plainSegment_def)

lemma resolve_inside:
  assumes "DiskStorageBackend_resolve d key = Inr absolute"
  shows "\<exists>rest. absolute = pathResolve (dk_cwd d) [dk_root d] @ rest \<and> plainKey (relativeToRoot d absolute)
    \<and> splitOn 0x2F (relativeToRoot d absolute) = rest"
proof -
  let ?r = "pathResolve (dk_cwd d) [dk_root d]" and ?zs = "relativeSegments (pathResolve (dk_cwd d) [dk_root d]) absolute"
  have abs: "absolute = pathResolve (dk_cwd d) [dk_root d, key]" and ok: "joinSegments ?zs \<noteq> []" "take 2 (joinSegments ?zs) \<noteq> dotDot"
    using assms by (auto simp: DiskStorageBackend_resolve_def relativeToRoot_def Let_def split: if_splits)
  have inside: "absolute = ?r @ ?zs" by (rule relative_inside [OF refl]) (use take_join ok(2) in blast)
  have "list_all plainSegment absolute" unfolding abs by (rule resolved_plain)
  then have "list_all plainSegment ?zs" by (subst (asm) inside) simp
  moreover have "?zs \<noteq> []" using ok(1) by auto
  ultimately have "plainKey (joinSegments ?zs)" "splitOn 0x2F (joinSegments ?zs) = ?zs"
    using ok(2) plain_join split_join [of ?zs] by (auto simp: list_all_iff plainSegment_def)
  with inside show ?thesis by (auto simp: relativeToRoot_def)
qed

lemma plain_resolves:
  assumes "plainKey k"
  shows "DiskStorageBackend_resolve d k = Inr (pathResolve (dk_cwd d) [dk_root d] @ splitOn 0x2F k)"
proof -
  have plain: "list_all plainSegment (splitOn 0x2F k)" and up: "take 2 k \<noteq> dotDot" using assms by (simp_all add: plainKey_def)
  have ne: "k \<noteq> []" using plain by (cases k) (auto simp: plainSegment_def)
  have rel: "\<not> isAbsolute k"
    using plain by (cases k) (auto simp: isAbsolute_def plainSegment_def)
  have "pathResolve (dk_cwd d) [dk_root d, k] = pathResolve (dk_cwd d) [dk_root d] @ splitOn 0x2F k"
    using rel plain by (simp add: pathResolve_def normalize_append normalize_plain)
  then show ?thesis using ne up rel by (simp add: DiskStorageBackend_resolve_def)
qed

lemma plain_run:
  assumes "plainKey k"
  shows "DiskStorageBackend_write d k bytes w = (Inr (), writeFile k bytes w)"
    and "DiskStorageBackend_remove d k w = (Inr (), w\<lparr>w_files := filter (\<lambda>f. sf_key f \<noteq> k) (w_files w)\<rparr>)"
    and "DiskStorageBackend_createReadStream d k w =
      (case find (\<lambda>f. sf_key f = k) (w_files w) of
         None \<Rightarrow> (Inl (InternalError ''ENOENT: no such file or directory''), w) | Some f \<Rightarrow> (Inr (sf_bytes f), w))"
  using plain_resolves [OF assms, of d]
  by (simp_all add: DiskStorageBackend_write_def DiskStorageBackend_remove_def DiskStorageBackend_createReadStream_def
      bindE_def lift_def modify_def orThrow_def split: option.split)

text \<open>Whatever the key, the files keep plain keys and no two the same one.\<close>

definition filesPlain :: "world \<Rightarrow> bool" where
  "filesPlain w \<longleftrightarrow> distinct (map sf_key (w_files w)) \<and> (\<forall>f \<in> set (w_files w). plainKey (sf_key f))"

lemma writeFile_plain: "filesPlain w \<Longrightarrow> plainKey k \<Longrightarrow> filesPlain (writeFile k bytes w)"
  by (auto simp: filesPlain_def writeFile_def distinct_map_filter)

lemma write_keeps_plain:
  assumes "filesPlain w" and "DiskStorageBackend_write d key bytes w = (r, w')"
  shows "filesPlain w'"
  using assms resolve_inside [of d key] writeFile_plain
  by (auto simp: DiskStorageBackend_write_def bindE_def lift_def modify_def split: sum.splits)

lemma remove_keeps_plain:
  assumes "filesPlain w" and "DiskStorageBackend_remove d key w = (r, w')"
  shows "filesPlain w'"
  using assms
  by (auto simp: DiskStorageBackend_remove_def bindE_def lift_def modify_def filesPlain_def distinct_map_filter split: sum.splits)

lemma find_written [simp]:
  "find (\<lambda>f. sf_key f = k) (w_files (writeFile k bytes w)) = Some \<lparr>sf_key = k, sf_modifiedAt = w_now w, sf_bytes = bytes\<rparr>"
proof -
  have "find P (filter (\<lambda>f. \<not> P f) xs @ [y]) = Some y" if "P y" for P and xs :: "stored_file list" and y
    using that by (induction xs) auto
  then show ?thesis by (simp add: writeFile_def)
qed

text \<open>The guard of the constructor trims what it looks at, and stores what it was given.\<close>

lemma untrimmed_root_is_relative:
  "DiskStorageBackend_new (js ''/app'') (js '' /data'') = Inr \<lparr>dk_root = js '' /data'', dk_cwd = js ''/app''\<rparr>
   \<and> DiskStorageBackend_resolve \<lparr>dk_root = js '' /data'', dk_cwd = js ''/app''\<rparr> (js ''01/k'')
       = Inr [js ''app'', js '' '', js ''data'', js ''01'', js ''k'']"
  by code_simp

end
