(* ===== verification/Retention.thy ===== *)
theory Retention
  imports Storage Members
begin

section \<open>What is kept, and for how long\<close>

text \<open>
  \<open>retention/cleanup.worker.ts\<close>: the nightly sweep. The code reads the directory of the stored files while it
  removes some; the model reads it once, since a sweep only removes what it has passed.

  Three things are parameters: \<open>limited\<close>, the rows that a subquery with a \<open>LIMIT\<close> and no order picks;
  \<open>invalidRaw\<close>, what Prisma does with a statement one of whose parameters is an invalid date; and the elapsed
  time of the log line. The warning at the ceiling goes to Nest's logger and is left out, as are the
  scheduler and its retries.
\<close>

definition CLEANUP_BATCH_SIZE :: nat where
  "CLEANUP_BATCH_SIZE = 1000"

definition MAX_BATCHES_PER_TABLE :: nat where
  "MAX_BATCHES_PER_TABLE = 1000"

definition DEFAULT_NOTIFICATION_RETENTION_DAYS :: number where
  "DEFAULT_NOTIFICATION_RETENTION_DAYS = 90"

definition DEFAULT_ACTIVITY_RETENTION_DAYS :: number where
  "DEFAULT_ACTIVITY_RETENTION_DAYS = 365"

definition DEFAULT_BACKUP_INTERVAL_SECONDS :: number where
  "DEFAULT_BACKUP_INTERVAL_SECONDS = 86400"

definition DEFAULT_BACKUP_KEEP :: number where
  "DEFAULT_BACKUP_KEEP = 7"

definition MIN_ORPHAN_GRACE_MS :: number where
  "MIN_ORPHAN_GRACE_MS = of_int MS_PER_DAY"

record CleanupCounts =
  cc_sessions :: nat
  cc_verifications :: nat
  cc_notifications :: nat
  cc_activities :: nat
  cc_usagePings :: nat
  cc_orphanedFiles :: nat

subsection \<open>Settings\<close>

definition orphanGraceMs :: "js_env \<Rightarrow> http_error + js_number option" where
  \<comment> \<open>\<open>None\<close> is NaN\<close>
  "orphanGraceMs env =
     (case envInt env ''BACKUP_INTERVAL'' DEFAULT_BACKUP_INTERVAL_SECONDS of
        Inl e \<Rightarrow> Inl e
      | Inr interval \<Rightarrow> (case envInt env ''BACKUP_KEEP'' DEFAULT_BACKUP_KEEP of
          Inl e \<Rightarrow> Inl e
        | Inr keep \<Rightarrow>
            Inr (case js_times (Finite (max interval 0)) (Finite (max keep 1)) of
              None \<Rightarrow> None
            | Some window \<Rightarrow> (case js_times window (Finite 1000) of
                None \<Rightarrow> None
              | Some configured \<Rightarrow> Some (max configured (Finite MIN_ORPHAN_GRACE_MS))))))"

record RetentionSettings =
  rs_enabled :: bool
  rs_notificationDays :: number
  rs_activityDays :: number

definition retentionDays :: "js_env \<Rightarrow> string \<Rightarrow> number \<Rightarrow> http_error + number" where
  \<comment> \<open>the value is left out of the message\<close>
  "retentionDays env name fallback =
     (case envInt env name fallback of
        Inl e \<Rightarrow> Inl e
      | Inr days \<Rightarrow>
          if days < 0 then Inl (InternalError (''Invalid '' @ name @ '': expected a non-negative number of days''))
          else Inr days)"

definition retentionSettings :: "js_env \<Rightarrow> http_error + RetentionSettings" where
  "retentionSettings env =
     (case envBool env ''CLEANUP_ENABLED'' True of
        Inl e \<Rightarrow> Inl e
      | Inr enabled \<Rightarrow>
     (case retentionDays env ''NOTIFICATION_RETENTION_DAYS'' DEFAULT_NOTIFICATION_RETENTION_DAYS of
        Inl e \<Rightarrow> Inl e
      | Inr notificationDays \<Rightarrow>
     (case retentionDays env ''ACTIVITY_RETENTION_DAYS'' DEFAULT_ACTIVITY_RETENTION_DAYS of
        Inl e \<Rightarrow> Inl e
      | Inr activityDays \<Rightarrow>
          Inr \<lparr>rs_enabled = enabled, rs_notificationDays = notificationDays, rs_activityDays = activityDays\<rparr>)))"

definition cutoffFor :: "js_date \<Rightarrow> number \<Rightarrow> js_date option" where
  "cutoffFor now days =
     newDateOf (case js_times (Finite days) (Finite (of_int MS_PER_DAY)) of
       None \<Rightarrow> None | Some age \<Rightarrow> js_minus (Finite (of_int now)) age)"

subsection \<open>One table\<close>

type_synonym limited = "world \<Rightarrow> nat \<Rightarrow> uuid list \<Rightarrow> uuid list"

definition deleteBatch ::
  "limited \<Rightarrow> (world \<Rightarrow> 'r list) \<Rightarrow> ('r \<Rightarrow> uuid) \<Rightarrow> (('r \<Rightarrow> bool) \<Rightarrow> world \<Rightarrow> world) \<Rightarrow> ('r \<Rightarrow> bool) \<Rightarrow> nat handler" where
  \<comment> \<open>\<open>DELETE FROM t WHERE id IN (SELECT id FROM t WHERE P LIMIT n)\<close>, with the number of rows it deleted\<close>
  "deleteBatch limited table key keep P w =
     (let ks = limited w CLEANUP_BATCH_SIZE (map key (filter P (table w))) in
      (Inr (length (filter (\<lambda>r. key r \<in> set ks) (table w))), keep (\<lambda>r. key r \<notin> set ks) w))"

fun batches :: "nat \<Rightarrow> nat handler \<Rightarrow> nat \<Rightarrow> nat handler" where
  \<comment> \<open>the passes that are left\<close>
  "batches 0 runBatch acc = return acc"
| "batches (Suc passes) runBatch acc =
     bindE runBatch (\<lambda>deleted.
       if deleted < CLEANUP_BATCH_SIZE then return (acc + deleted)
       else batches passes runBatch (acc + deleted))"

definition CleanupWorker_deleteInBatches :: "nat handler \<Rightarrow> nat handler" where
  "CleanupWorker_deleteInBatches runBatch = batches MAX_BATCHES_PER_TABLE runBatch 0"

text \<open>The rows of a table that are kept, with what the schema does to the rows that refer to the others.\<close>

definition keepSessions :: "(session_row \<Rightarrow> bool) \<Rightarrow> world \<Rightarrow> world" where
  "keepSessions K w = w\<lparr>sessions := filter K (sessions w)\<rparr>"

definition keepVerifications :: "(verification_row \<Rightarrow> bool) \<Rightarrow> world \<Rightarrow> world" where
  "keepVerifications K w = w\<lparr>verifications := filter K (verifications w)\<rparr>"

definition keepNotifications :: "(notification_row \<Rightarrow> bool) \<Rightarrow> world \<Rightarrow> world" where
  "keepNotifications K w = w\<lparr>notifications := filter K (notifications w)\<rparr>"

definition keepActivities :: "(activity_row \<Rightarrow> bool) \<Rightarrow> world \<Rightarrow> world" where
  \<comment> \<open>\<open>Notification.activityId\<close> is \<open>onDelete: SetNull\<close>\<close>
  "keepActivities K w =
     w\<lparr>activities := filter K (activities w),
       notifications := map (\<lambda>n. case n_activityId n of
           None \<Rightarrow> n
         | Some k \<Rightarrow> if list_ex (\<lambda>a. a_id a = k \<and> \<not> K a) (activities w) then n\<lparr>n_activityId := None\<rparr> else n)
         (notifications w)\<rparr>"

definition keepUsagePings :: "(usage_ping_row \<Rightarrow> bool) \<Rightarrow> world \<Rightarrow> world" where
  "keepUsagePings K w = w\<lparr>usagePings := filter K (usagePings w)\<rparr>"

definition beforeCutoff :: "nat handler \<Rightarrow> js_date \<Rightarrow> number \<Rightarrow> (js_date \<Rightarrow> nat handler) \<Rightarrow> nat handler" where
  \<comment> \<open>\<open>days === 0 ? 0 : await this.deleteInBatches(...)\<close>, each batch with its own cutoff\<close>
  "beforeCutoff invalidRaw now days batch =
     (if days = 0 then return 0
      else CleanupWorker_deleteInBatches (case cutoffFor now days of None \<Rightarrow> invalidRaw | Some cutoff \<Rightarrow> batch cutoff))"

subsection \<open>Stored files\<close>

fun removeUnclaimed :: "storage \<Rightarrow> js_string set \<Rightarrow> js_string list \<Rightarrow> nat \<Rightarrow> nat handler" where
  \<comment> \<open>the loop of \<open>flush\<close>\<close>
  "removeUnclaimed storage keep [] removed = return removed"
| "removeUnclaimed storage keep (key # batch) removed =
     (if key \<in> keep then removeUnclaimed storage keep batch removed
      else bindE (StorageService_remove storage key) (\<lambda>_. removeUnclaimed storage keep batch (Suc removed)))"

definition claimedKeys :: "world \<Rightarrow> js_string list \<Rightarrow> js_string list" where
  "claimedKeys w batch = List.map_filter (\<lambda>a. case at_storageKey a of
     Some k \<Rightarrow> if k \<in> set batch then Some k else None | None \<Rightarrow> None) (attachments w)"

definition flushBatch :: "storage \<Rightarrow> js_string list \<Rightarrow> nat \<Rightarrow> nat handler" where
  "flushBatch storage batch removed =
     (if batch = [] then return removed
      else bindE (reads (\<lambda>w. claimedKeys w batch)) (\<lambda>claimed. removeUnclaimed storage (set claimed) batch removed))"

definition orphanCeiling :: nat where
  "orphanCeiling = CLEANUP_BATCH_SIZE * MAX_BATCHES_PER_TABLE"

definition notBefore :: "js_date \<Rightarrow> js_date option \<Rightarrow> bool" where
  \<comment> \<open>\<open>modifiedAt >= cutoff\<close>, false of an invalid date\<close>
  "notBefore t cutoff \<longleftrightarrow> (case cutoff of None \<Rightarrow> False | Some c \<Rightarrow> c \<le> t)"

definition orphanCutoff :: "js_date \<Rightarrow> js_number option \<Rightarrow> js_date option" where
  "orphanCutoff now grace = newDateOf (case grace of None \<Rightarrow> None | Some g \<Rightarrow> js_minus (Finite (of_int now)) g)"

fun sweepEntries :: "storage \<Rightarrow> js_date option \<Rightarrow> stored_file list \<Rightarrow> js_string list \<Rightarrow> nat \<Rightarrow> nat handler" where
  \<comment> \<open>the loop over the files; \<open>break\<close> and the end both flush what is left\<close>
  "sweepEntries storage cutoff [] batch removed = flushBatch storage batch removed"
| "sweepEntries storage cutoff (entry # entries) batch removed =
     (if notBefore (sf_modifiedAt entry) cutoff then sweepEntries storage cutoff entries batch removed
      else (let batch' = batch @ [sf_key entry] in
        bindE (if CLEANUP_BATCH_SIZE \<le> length batch' then bindE (flushBatch storage batch' removed) (\<lambda>n. return ([], n))
               else return (batch', removed)) (\<lambda>(batch'', removed').
        if orphanCeiling \<le> removed' then flushBatch storage batch'' removed'
        else sweepEntries storage cutoff entries batch'' removed')))"

definition CleanupWorker_sweepOrphanFiles :: "storage \<Rightarrow> js_env \<Rightarrow> js_date \<Rightarrow> nat handler" where
  "CleanupWorker_sweepOrphanFiles storage env now =
     (if \<not> attachmentsEnabled storage then return 0
      else bindE (lift (orphanGraceMs env)) (\<lambda>grace.
        bindE (StorageService_listKeys storage) (\<lambda>entries. sweepEntries storage (orphanCutoff now grace) entries [] 0)))"

subsection \<open>runCleanup\<close>

definition cleanupLine :: "world \<Rightarrow> js_number \<Rightarrow> CleanupCounts \<Rightarrow> json" where
  "cleanupLine w durationMs counts = JObject
     [(js ''ts'', JString (toISOString (w_now w))), (js ''level'', JString (js ''info'')),
      (js ''event'', JString (js ''retention.cleanup'')), (js ''durationMs'', JNumber durationMs),
      (js ''sessions'', json_int (int (cc_sessions counts))),
      (js ''verifications'', json_int (int (cc_verifications counts))),
      (js ''notifications'', json_int (int (cc_notifications counts))),
      (js ''activities'', json_int (int (cc_activities counts))),
      (js ''usagePings'', json_int (int (cc_usagePings counts))),
      (js ''orphanedFiles'', json_int (int (cc_orphanedFiles counts)))]"

definition noCleanup :: CleanupCounts where
  "noCleanup = \<lparr>cc_sessions = 0, cc_verifications = 0, cc_notifications = 0, cc_activities = 0, cc_usagePings = 0,
     cc_orphanedFiles = 0\<rparr>"

definition sweepRows :: "limited \<Rightarrow> nat handler \<Rightarrow> js_date \<Rightarrow> RetentionSettings \<Rightarrow> CleanupCounts handler" where
  \<comment> \<open>the five tables, in the order of the code\<close>
  "sweepRows limited invalidRaw now settings =
     bindE (CleanupWorker_deleteInBatches (deleteBatch limited sessions se_id keepSessions (\<lambda>r. se_expiresAt r < now))) (\<lambda>n1.
     bindE (CleanupWorker_deleteInBatches
       (deleteBatch limited verifications ve_id keepVerifications (\<lambda>r. ve_expiresAt r < now))) (\<lambda>n2.
     bindE (beforeCutoff invalidRaw now (rs_notificationDays settings) (\<lambda>cutoff.
       deleteBatch limited notifications n_id keepNotifications
         (\<lambda>r. case n_readAt r of None \<Rightarrow> False | Some t \<Rightarrow> t < cutoff))) (\<lambda>n3.
     bindE (beforeCutoff invalidRaw now (rs_activityDays settings) (\<lambda>cutoff.
       deleteBatch limited activities a_id keepActivities (\<lambda>r. a_createdAt r < cutoff))) (\<lambda>n4.
     bindE (beforeCutoff invalidRaw now (rs_activityDays settings) (\<lambda>cutoff.
       deleteBatch limited usagePings up_id keepUsagePings (\<lambda>r. up_createdAt r < cutoff))) (\<lambda>n5.
     return \<lparr>cc_sessions = n1, cc_verifications = n2, cc_notifications = n3, cc_activities = n4, cc_usagePings = n5,
       cc_orphanedFiles = 0\<rparr>)))))"

definition CleanupWorker_runCleanup ::
  "limited \<Rightarrow> nat handler \<Rightarrow> js_number \<Rightarrow> storage \<Rightarrow> js_env \<Rightarrow> js_date \<Rightarrow> CleanupCounts handler" where
  "CleanupWorker_runCleanup limited invalidRaw durationMs storage env now =
     bindE (lift (retentionSettings env)) (\<lambda>settings.
     if \<not> rs_enabled settings then return noCleanup
     else
       bindE (sweepRows limited invalidRaw now settings) (\<lambda>counts.
       bindE (CleanupWorker_sweepOrphanFiles storage env now) (\<lambda>orphanedFiles.
       let counts' = counts\<lparr>cc_orphanedFiles := orphanedFiles\<rparr> in
       bindE (modify (\<lambda>w. w\<lparr>w_log := w_log w @ [cleanupLine w durationMs counts']\<rparr>)) (\<lambda>_.
       return counts'))))"

end
