(* ===== verification/RetentionProps.thy ===== *)
theory RetentionProps
  imports Retention StorageProps Sample
begin

section \<open>What the nightly sweep leaves\<close>

text \<open>
  A table is purged by small statements until one comes back short. The locale \<open>batched_delete\<close> holds what
  the five tables have in common; inside it the loop is shown to end and to do what one unbounded
  \<open>DELETE\<close> would. The files are swept by a loop of its own.
\<close>

definition picks :: "limited \<Rightarrow> bool" where
  \<comment> \<open>a subquery with a limit picks that many of the rows, or all there are\<close>
  "picks limited \<longleftrightarrow> (\<forall>w n ks. distinct ks \<longrightarrow>
     set (limited w n ks) \<subseteq> set ks \<and> distinct (limited w n ks) \<and> length (limited w n ks) = min n (length ks))"

lemma length_filter_keys:
  assumes "distinct (map key xs)" and "distinct ks" and "set ks \<subseteq> key ` set xs"
  shows "length (filter (\<lambda>r. key r \<in> set ks) xs) = length ks"
proof -
  have "length (filter (\<lambda>r. key r \<in> set ks) xs) = card (set (filter (\<lambda>r. key r \<in> set ks) xs))"
    using assms(1) by (intro distinct_card [symmetric]) (simp add: distinct_map)
  also have "\<dots> = card (key ` set (filter (\<lambda>r. key r \<in> set ks) xs))"
    using assms(1) by (intro card_image [symmetric]) (auto simp: distinct_map inj_on_def)
  also have "key ` set (filter (\<lambda>r. key r \<in> set ks) xs) = set ks" using assms(3) by auto
  finally show ?thesis using assms(2) by (simp add: distinct_card)
qed

lemma length_filter_split:
  assumes "\<And>r. r \<in> set xs \<Longrightarrow> Q r \<Longrightarrow> P r"
  shows "length (filter P (filter (\<lambda>r. \<not> Q r) xs)) + length (filter Q xs) = length (filter P xs)"
  using assms by (induction xs) auto

locale batched_delete =
  fixes table :: "world \<Rightarrow> 'r list" and key :: "'r \<Rightarrow> uuid" and keep :: "('r \<Rightarrow> bool) \<Rightarrow> world \<Rightarrow> world"
  assumes table_keep: "table (keep K w) = filter K (table w)"
    and keep_keep: "keep K (keep L w) = keep (\<lambda>r. L r \<and> K r) w"
    and keep_cong: "(\<And>r. r \<in> set (table w) \<Longrightarrow> K r = L r) \<Longrightarrow> keep K w = keep L w"
    and keep_all: "keep (\<lambda>_. True) w = w"
begin

lemma batches_exact:
  assumes picks: "picks limited"
  shows "distinct (map key (table w)) \<Longrightarrow> length (filter P (table w)) \<le> n * CLEANUP_BATCH_SIZE \<Longrightarrow>
    batches n (deleteBatch limited table key keep P) acc w = (Inr (acc + length (filter P (table w))), keep (\<lambda>r. \<not> P r) w)"
proof (induction n arbitrary: acc w)
  case 0
  then have "\<forall>r \<in> set (table w). \<not> P r" by (simp add: filter_empty_conv)
  then have "keep (\<lambda>r. \<not> P r) w = w" using keep_cong [of w "\<lambda>r. \<not> P r" "\<lambda>_. True"] keep_all by simp
  with 0 show ?case by (simp add: return_def)
next
  case (Suc n)
  let ?match = "filter P (table w)"
  let ?ks = "limited w CLEANUP_BATCH_SIZE (map key ?match)"
  let ?w1 = "keep (\<lambda>r. key r \<notin> set ?ks) w"
  have inj: "inj_on key (set (table w))" using Suc.prems(1) by (simp add: distinct_map)
  have "distinct (map key ?match)" using Suc.prems(1) by (rule distinct_map_filter)
  then have ks: "set ?ks \<subseteq> key ` set ?match" "distinct ?ks" "length ?ks = min CLEANUP_BATCH_SIZE (length ?match)"
    using spec [OF spec [OF spec [OF picks [unfolded picks_def], of w], of CLEANUP_BATCH_SIZE], of "map key ?match"] by simp_all
  have len: "length (filter (\<lambda>r. key r \<in> set ?ks) (table w)) = length ?ks"
    by (rule length_filter_keys [OF Suc.prems(1) ks(2)]) (use ks(1) in auto)
  have run: "deleteBatch limited table key keep P w = (Inr (length ?ks), ?w1)"
    by (simp only: deleteBatch_def Let_def len)
  have picked: "P r" if "r \<in> set (table w)" "key r \<in> set ?ks" for r
    using ks(1) inj_onD [OF inj] that by fastforce
  show ?case
  proof (cases "length ?ks < CLEANUP_BATCH_SIZE")
    case True
    then have "length ?ks = length ?match" using ks(3) by linarith
    then have "card (set ?ks) = card (key ` set ?match)"
      using ks(2) \<open>distinct (map key ?match)\<close> by (metis distinct_card length_map set_map)
    then have "set ?ks = key ` set ?match" using card_subset_eq [OF _ ks(1)] by simp
    then have "key r \<notin> set ?ks \<longleftrightarrow> \<not> P r" if "r \<in> set (table w)" for r
      using picked [OF that] that by auto
    then have "?w1 = keep (\<lambda>r. \<not> P r) w" by (rule keep_cong)
    then show ?thesis
      using True run by (simp add: bindE_def return_def \<open>length ?ks = length ?match\<close>)
  next
    case False
    then have full: "length ?ks = CLEANUP_BATCH_SIZE" using ks(3) by linarith
    have "length (filter P (filter (\<lambda>r. key r \<notin> set ?ks) (table w))) + length (filter (\<lambda>r. key r \<in> set ?ks) (table w))
        = length ?match"
      by (rule length_filter_split) (rule picked)
    moreover have "length (filter (\<lambda>r. key r \<in> set ?ks) (table w)) = CLEANUP_BATCH_SIZE"
      using len full by simp
    ultimately have left: "length (filter P (table ?w1)) + CLEANUP_BATCH_SIZE = length ?match" by (simp only: table_keep)
    have "distinct (map key (table ?w1))" using distinct_map_filter [OF Suc.prems(1)] by (simp add: table_keep)
    moreover have "length (filter P (table ?w1)) \<le> n * CLEANUP_BATCH_SIZE" using left Suc.prems(2) by simp
    ultimately have "batches n (deleteBatch limited table key keep P) (acc + CLEANUP_BATCH_SIZE) ?w1 =
        (Inr (acc + CLEANUP_BATCH_SIZE + length (filter P (table ?w1))), keep (\<lambda>r. \<not> P r) ?w1)"
      by (rule Suc.IH)
    moreover have "keep (\<lambda>r. \<not> P r) ?w1 = keep (\<lambda>r. \<not> P r) w"
      unfolding keep_keep by (rule keep_cong) (use picked in blast)
    ultimately show ?thesis using False run full left by (simp add: bindE_def add.commute add.left_commute)
  qed
qed

lemma deleteInBatches_exact:
  assumes "picks limited" and "distinct (map key (table w))" and "length (filter P (table w)) \<le> orphanCeiling"
  shows "CleanupWorker_deleteInBatches (deleteBatch limited table key keep P) w =
    (Inr (length (filter P (table w))), keep (\<lambda>r. \<not> P r) w)"
  using batches_exact [OF assms(1,2), of P MAX_BATCHES_PER_TABLE 0] assms(3)
  by (simp add: CleanupWorker_deleteInBatches_def orphanCeiling_def mult.commute)

lemma beforeCutoff_exact:
  fixes P :: "js_date \<Rightarrow> 'r \<Rightarrow> bool"
  assumes "picks limited" and "distinct (map key (table w))" and valid: "days \<noteq> 0 \<longrightarrow> cutoffFor now days \<noteq> None"
    and Q_def: "Q = (\<lambda>r. days \<noteq> 0 \<and> (case cutoffFor now days of None \<Rightarrow> False | Some c \<Rightarrow> P c r))"
    and "length (filter Q (table w)) \<le> orphanCeiling"
  shows "beforeCutoff invalidRaw now days (\<lambda>c. deleteBatch limited table key keep (P c)) w =
    (Inr (length (filter Q (table w))), keep (\<lambda>r. \<not> Q r) w)"
proof (cases "days = 0")
  case True
  then show ?thesis by (simp add: beforeCutoff_def return_def keep_all Q_def)
next
  case False
  with valid obtain c where c: "cutoffFor now days = Some c" by blast
  then have Q: "Q = P c" using False by (simp add: Q_def fun_eq_iff)
  show ?thesis using deleteInBatches_exact [OF assms(1,2), of "P c"] assms(5) False by (simp add: beforeCutoff_def c Q)
qed

end

interpretation se: batched_delete sessions se_id keepSessions
  by unfold_locales (auto simp: keepSessions_def conj_commute cong: filter_cong)

interpretation ve: batched_delete verifications ve_id keepVerifications
  by unfold_locales (auto simp: keepVerifications_def conj_commute cong: filter_cong)

interpretation no: batched_delete notifications n_id keepNotifications
  by unfold_locales (auto simp: keepNotifications_def conj_commute cong: filter_cong)

interpretation up: batched_delete usagePings up_id keepUsagePings
  by unfold_locales (auto simp: keepUsagePings_def conj_commute cong: filter_cong)

interpretation ac: batched_delete activities a_id keepActivities
proof
  show "activities (keepActivities K w) = filter K (activities w)" for K w by (simp add: keepActivities_def)
  show "keepActivities K (keepActivities L w) = keepActivities (\<lambda>r. L r \<and> K r) w" for K L w
  proof -
    define f where "f S n = (case n_activityId n of None \<Rightarrow> n | Some k \<Rightarrow> if S k then n\<lparr>n_activityId := None\<rparr> else n)"
      for S and n :: notification_row
    have twice: "f S (f T n) = f (\<lambda>k. T k \<or> S k) n" for S T n by (simp add: f_def split: option.split)
    have keep: "keepActivities K w = w\<lparr>activities := filter K (activities w),
        notifications := map (f (\<lambda>k. list_ex (\<lambda>a. a_id a = k \<and> \<not> K a) (activities w))) (notifications w)\<rparr>" for K w
      by (simp add: keepActivities_def f_def [abs_def])
    have "(list_ex (\<lambda>a. a_id a = k \<and> \<not> L a) xs \<or> list_ex (\<lambda>a. a_id a = k \<and> \<not> K a) (filter L xs)) =
        list_ex (\<lambda>a. a_id a = k \<and> \<not> (L a \<and> K a)) xs" for k xs
      by (auto simp: list_ex_iff)
    then show ?thesis by (simp add: keep twice o_def conj_commute cong: filter_cong)
  qed
  show "keepActivities K w = keepActivities L w" if "\<And>r. r \<in> set (activities w) \<Longrightarrow> K r = L r" for K L w
  proof -
    have "list_ex (\<lambda>a. a_id a = k \<and> \<not> K a) (activities w) = list_ex (\<lambda>a. a_id a = k \<and> \<not> L a) (activities w)" for k
      using that by (auto simp: list_ex_iff)
    then show ?thesis using that by (simp add: keepActivities_def cong: filter_cong option.case_cong)
  qed
  have "map (\<lambda>n :: notification_row. case n_activityId n of None \<Rightarrow> n | Some k \<Rightarrow> n) ns = ns" for ns
    by (rule map_idI) (simp split: option.split)
  then show "keepActivities (\<lambda>_. True) w = w" for w
    by (simp add: keepActivities_def list_ex_iff cong: option.case_cong)
qed

subsection \<open>Stored files\<close>

definition claimed :: "world \<Rightarrow> js_string \<Rightarrow> bool" where
  "claimed w k \<longleftrightarrow> Some k \<in> at_storageKey ` set (attachments w)"

definition dropFiles :: "js_string list \<Rightarrow> world \<Rightarrow> world" where
  \<comment> \<open>without the unclaimed ones of these\<close>
  "dropFiles ks w = w\<lparr>w_files := filter (\<lambda>f. sf_key f \<in> set ks \<longrightarrow> claimed w (sf_key f)) (w_files w)\<rparr>"

lemma dropFiles_frame [simp]: "attachments (dropFiles ks w) = attachments w" "claimed (dropFiles ks w) = claimed w"
  by (simp_all add: dropFiles_def claimed_def [abs_def])

lemma dropFiles_append [simp]: "dropFiles ks (dropFiles ks' w) = dropFiles (ks' @ ks) w"
  by (auto simp: dropFiles_def claimed_def intro!: arg_cong [where f = "\<lambda>x. w\<lparr>w_files := x\<rparr>"] filter_cong)

lemma dropFiles_claimed: "(\<And>k. k \<in> set ks \<Longrightarrow> claimed w k) \<Longrightarrow> dropFiles ks w = w"
  by (simp add: dropFiles_def)

lemma removeUnclaimed_run:
  "\<forall>k \<in> set batch. plainKey k \<Longrightarrow> removeUnclaimed (Some d) C batch n w = (Inr (n + length (filter (\<lambda>k. k \<notin> C) batch)),
     w\<lparr>w_files := filter (\<lambda>f. sf_key f \<in> set batch \<longrightarrow> sf_key f \<in> C) (w_files w)\<rparr>)"
proof (induction batch arbitrary: n w)
  case (Cons key batch)
  let ?rest = "\<lambda>f. sf_key f \<in> set batch \<longrightarrow> sf_key f \<in> C" and ?all = "\<lambda>f. sf_key f \<in> set (key # batch) \<longrightarrow> sf_key f \<in> C"
  show ?case
  proof (cases "key \<in> C")
    case True
    then have "?rest = ?all" by auto
    with Cons True show ?thesis by simp
  next
    case False
    then have each: "(sf_key f \<noteq> key \<and> ?rest f) = ?all f" for f by auto
    have "filter ?rest (filter (\<lambda>f. sf_key f \<noteq> key) (w_files w)) = filter ?all (w_files w)"
      by (simp only: filter_filter each)
    with Cons False show ?thesis
      by (simp add: bindE_def StorageService_remove_def StorageService_require_def orThrow_def plain_run)
  qed
qed (simp add: return_def)

lemma claimedKeys_set: "set (claimedKeys w batch) = {k \<in> set batch. claimed w k}"
proof -
  have mem: "k \<in> set (List.map_filter f xs) \<longleftrightarrow> (\<exists>x \<in> set xs. f x = Some k)" for f :: "attachment_row \<Rightarrow> js_string option" and k xs
    by (induction xs) (auto simp: map_filter_simps split: option.splits)
  have pick: "(case at_storageKey a of Some k' \<Rightarrow> if k' \<in> set batch then Some k' else None | None \<Rightarrow> None) = Some k \<longleftrightarrow>
      at_storageKey a = Some k \<and> k \<in> set batch" for a k
    by (auto split: option.splits)
  show ?thesis unfolding claimedKeys_def set_eq_iff mem pick claimed_def by (auto simp: image_iff) metis
qed

lemma flushBatch_run:
  assumes "\<forall>k \<in> set batch. plainKey k"
  shows "flushBatch (Some d) batch n w = (Inr (n + length (filter (\<lambda>k. \<not> claimed w k) batch)), dropFiles batch w)"
proof (cases "batch = []")
  case True
  then show ?thesis by (simp add: flushBatch_def return_def dropFiles_def)
next
  case False
  have "filter (\<lambda>k. k \<notin> set (claimedKeys w batch)) batch = filter (\<lambda>k. \<not> claimed w k) batch"
    by (rule filter_cong) (auto simp: claimedKeys_set)
  with False show ?thesis
    by (simp add: flushBatch_def bindE_def reads_def removeUnclaimed_run [OF assms] claimedKeys_set dropFiles_def cong: conj_cong)
qed

definition outdated :: "js_date option \<Rightarrow> stored_file list \<Rightarrow> js_string list" where
  "outdated cutoff entries = map sf_key (filter (\<lambda>e. \<not> notBefore (sf_modifiedAt e) cutoff) entries)"

lemma sweepEntries_run:
  "n + length (filter (\<lambda>k. \<not> claimed w k) (batch @ outdated cutoff entries)) \<le> orphanCeiling \<Longrightarrow>
   \<forall>k \<in> set batch \<union> sf_key ` set entries. plainKey k \<Longrightarrow>
   sweepEntries (Some d) cutoff entries batch n w =
     (Inr (n + length (filter (\<lambda>k. \<not> claimed w k) (batch @ outdated cutoff entries))), dropFiles (batch @ outdated cutoff entries) w)"
proof (induction entries arbitrary: batch n w)
  case Nil
  then show ?case by (simp add: flushBatch_run outdated_def)
next
  case (Cons e es)
  show ?case
  proof (cases "notBefore (sf_modifiedAt e) cutoff")
    case True
    then have "outdated cutoff (e # es) = outdated cutoff es" by (simp add: outdated_def)
    with Cons True show ?thesis by simp
  next
    case False
    let ?b = "batch @ [sf_key e]"
    have o: "batch @ outdated cutoff (e # es) = ?b @ outdated cutoff es" using False by (simp add: outdated_def)
    note bound = Cons.prems(1) [unfolded o]
    have plain: "\<forall>k \<in> set ?b. plainKey k" using Cons.prems(2) by auto
    have count: "length (filter (\<lambda>k. \<not> claimed w k) (?b @ outdated cutoff es)) =
        length (filter (\<lambda>k. \<not> claimed w k) ?b) + length (filter (\<lambda>k. \<not> claimed w k) (outdated cutoff es))"
      by (simp only: filter_append length_append)
    show ?thesis
    proof (cases "CLEANUP_BATCH_SIZE \<le> length ?b")
      case True
      let ?n = "n + length (filter (\<lambda>k. \<not> claimed w k) ?b)"
      have step: "sweepEntries (Some d) cutoff (e # es) batch n w = (if orphanCeiling \<le> ?n then flushBatch (Some d) [] ?n (dropFiles ?b w)
          else sweepEntries (Some d) cutoff es [] ?n (dropFiles ?b w))"
        using False True by (simp add: bindE_def flushBatch_run [OF plain] return_def Let_def)
      show ?thesis
      proof (cases "orphanCeiling \<le> ?n")
        case True
        then have none: "filter (\<lambda>k. \<not> claimed w k) (outdated cutoff es) = []"
          using bound count by (intro iffD1 [OF length_0_conv]) linarith
        then have "dropFiles (outdated cutoff es) (dropFiles ?b w) = dropFiles ?b w"
          by (intro dropFiles_claimed) (auto simp: filter_empty_conv)
        with True none show ?thesis unfolding step o by (simp add: flushBatch_def return_def)
      next
        case False
        have "sweepEntries (Some d) cutoff es [] ?n (dropFiles ?b w) =
            (Inr (?n + length (filter (\<lambda>k. \<not> claimed (dropFiles ?b w) k) ([] @ outdated cutoff es))),
             dropFiles ([] @ outdated cutoff es) (dropFiles ?b w))"
          by (rule Cons.IH) (use False bound count Cons.prems(2) in simp_all)
        with False show ?thesis unfolding step o by simp
      qed
    next
      case False
      have step: "sweepEntries (Some d) cutoff (e # es) batch n w = (if orphanCeiling \<le> n then flushBatch (Some d) ?b n w
          else sweepEntries (Some d) cutoff es ?b n w)"
        using False \<open>\<not> notBefore _ _\<close> by (simp add: bindE_def return_def Let_def)
      show ?thesis
      proof (cases "orphanCeiling \<le> n")
        case True
        then have none: "filter (\<lambda>k. \<not> claimed w k) (?b @ outdated cutoff es) = []"
          using bound by (intro iffD1 [OF length_0_conv]) linarith
        then have all: "claimed w k" if "k \<in> set (?b @ outdated cutoff es)" for k
          using that by (simp only: filter_empty_conv) blast
        then have "dropFiles ?b w = w" "dropFiles (?b @ outdated cutoff es) w = w" by (auto intro!: dropFiles_claimed)
        with none all show ?thesis unfolding step o flushBatch_run [OF plain] by (simp add: True filter_empty_conv)
      next
        case False
        have "sweepEntries (Some d) cutoff es ?b n w = (Inr (n + length (filter (\<lambda>k. \<not> claimed w k) (?b @ outdated cutoff es))),
            dropFiles (?b @ outdated cutoff es) w)"
          by (rule Cons.IH) (use bound Cons.prems(2) plain in auto)
        with False show ?thesis unfolding step o by simp
      qed
    qed
  qed
qed


subsection \<open>The whole run\<close>

definition stale :: "js_date \<Rightarrow> number \<Rightarrow> js_date \<Rightarrow> bool" where
  \<comment> \<open>past a window of so many days, where no days mean no window\<close>
  "stale now days t \<longleftrightarrow> days \<noteq> 0 \<and> (case cutoffFor now days of None \<Rightarrow> False | Some c \<Rightarrow> t < c)"

definition readLongAgo :: "js_date \<Rightarrow> number \<Rightarrow> notification_row \<Rightarrow> bool" where
  "readLongAgo now days n \<longleftrightarrow> (case n_readAt n of None \<Rightarrow> False | Some t \<Rightarrow> stale now days t)"

definition orphaned :: "world \<Rightarrow> js_date option \<Rightarrow> stored_file \<Rightarrow> bool" where
  "orphaned w cutoff f \<longleftrightarrow> \<not> claimed w (sf_key f) \<and> \<not> notBefore (sf_modifiedAt f) cutoff"

definition cleanupPolicy :: "js_date \<Rightarrow> RetentionSettings \<Rightarrow> bool \<Rightarrow> js_date option \<Rightarrow> world \<Rightarrow> world" where
  \<comment> \<open>what the policy allows to be kept, each table filtered once\<close>
  "cleanupPolicy now s persistsFiles cutoff w = w\<lparr>
     sessions := filter (\<lambda>r. now \<le> se_expiresAt r) (sessions w),
     verifications := filter (\<lambda>r. now \<le> ve_expiresAt r) (verifications w),
     notifications := map (\<lambda>n. case n_activityId n of
           None \<Rightarrow> n
         | Some k \<Rightarrow> if list_ex (\<lambda>a. a_id a = k \<and> stale now (rs_activityDays s) (a_createdAt a)) (activities w)
             then n\<lparr>n_activityId := None\<rparr> else n)
       (filter (\<lambda>n. \<not> readLongAgo now (rs_notificationDays s) n) (notifications w)),
     activities := filter (\<lambda>a. \<not> stale now (rs_activityDays s) (a_createdAt a)) (activities w),
     usagePings := filter (\<lambda>p. \<not> stale now (rs_activityDays s) (up_createdAt p)) (usagePings w),
     w_files := filter (\<lambda>f. \<not> (persistsFiles \<and> orphaned w cutoff f)) (w_files w)\<rparr>"

definition policyCounts :: "js_date \<Rightarrow> RetentionSettings \<Rightarrow> bool \<Rightarrow> js_date option \<Rightarrow> world \<Rightarrow> CleanupCounts" where
  "policyCounts now s persistsFiles cutoff w =
     \<lparr>cc_sessions = length (filter (\<lambda>r. se_expiresAt r < now) (sessions w)),
      cc_verifications = length (filter (\<lambda>r. ve_expiresAt r < now) (verifications w)),
      cc_notifications = length (filter (readLongAgo now (rs_notificationDays s)) (notifications w)),
      cc_activities = length (filter (\<lambda>a. stale now (rs_activityDays s) (a_createdAt a)) (activities w)),
      cc_usagePings = length (filter (\<lambda>p. stale now (rs_activityDays s) (up_createdAt p)) (usagePings w)),
      cc_orphanedFiles = (if persistsFiles then length (filter (orphaned w cutoff) (w_files w)) else 0)\<rparr>"

definition withinCeiling :: "CleanupCounts \<Rightarrow> bool" where
  "withinCeiling c \<longleftrightarrow> list_all (\<lambda>n. n \<le> orphanCeiling) [cc_sessions c, cc_verifications c, cc_notifications c,
     cc_activities c, cc_usagePings c, cc_orphanedFiles c]"

definition rowsDistinct :: "world \<Rightarrow> bool" where
  "rowsDistinct w \<longleftrightarrow> distinct (map se_id (sessions w)) \<and> distinct (map ve_id (verifications w))
     \<and> distinct (map n_id (notifications w)) \<and> distinct (map a_id (activities w)) \<and> distinct (map up_id (usagePings w))
     \<and> filesPlain w"

lemma sweepOrphanFiles_run:
  assumes "filesPlain w" and "orphanGraceMs env = Inr grace"
    and "length (filter (orphaned w (orphanCutoff now grace)) (w_files w)) \<le> orphanCeiling"
  shows "CleanupWorker_sweepOrphanFiles (Some d) env now w =
    (Inr (length (filter (orphaned w (orphanCutoff now grace)) (w_files w))),
     w\<lparr>w_files := filter (\<lambda>f. \<not> orphaned w (orphanCutoff now grace) f) (w_files w)\<rparr>)"
proof -
  let ?c = "orphanCutoff now grace"
  have n: "length (filter (\<lambda>k. \<not> claimed w k) (outdated ?c (w_files w))) = length (filter (orphaned w ?c) (w_files w))"
    by (simp add: outdated_def filter_map o_def orphaned_def [abs_def] conj_commute)
  have "sf_key f \<in> set (outdated ?c (w_files w)) \<longleftrightarrow> \<not> notBefore (sf_modifiedAt f) ?c" if f: "f \<in> set (w_files w)" for f
    using inj_onD [of sf_key "set (w_files w)" _ f] assms(1) f by (auto simp: outdated_def distinct_map filesPlain_def)
  then have "filter (\<lambda>f. sf_key f \<in> set (outdated ?c (w_files w)) \<longrightarrow> claimed w (sf_key f)) (w_files w) =
      filter (\<lambda>f. \<not> orphaned w ?c f) (w_files w)"
    by (intro filter_cong) (auto simp: orphaned_def)
  with n assms sweepEntries_run [of 0 w "[]" ?c "w_files w" d] show ?thesis
    by (simp add: CleanupWorker_sweepOrphanFiles_def StorageService_listKeys_def DiskStorageBackend_listKeys_def
        StorageService_require_def attachmentsEnabled_def filesPlain_def bindE_def reads_def lift_def orThrow_def dropFiles_def)
qed


lemma stale_cutoff:
  "(\<lambda>r. days \<noteq> 0 \<and> (case cutoffFor now days of None \<Rightarrow> False | Some c \<Rightarrow> f r < c)) = (\<lambda>r. stale now days (f r))"
  "(\<lambda>r. days \<noteq> 0 \<and> (case cutoffFor now days of None \<Rightarrow> False | Some c \<Rightarrow> case n_readAt r of None \<Rightarrow> False | Some t \<Rightarrow> t < c))
     = readLongAgo now days"
  by (auto simp: fun_eq_iff stale_def readLongAgo_def split: option.splits)

lemma sweepRows_run:
  assumes picks: "picks limited" and rows: "rowsDistinct w"
    and valid: "\<forall>d \<in> {rs_notificationDays s, rs_activityDays s}. d \<noteq> 0 \<longrightarrow> cutoffFor now d \<noteq> None"
    and most: "withinCeiling (policyCounts now s persistsFiles cutoff w)"
  shows "sweepRows limited invalidRaw now s w =
    (Inr ((policyCounts now s persistsFiles cutoff w)\<lparr>cc_orphanedFiles := 0\<rparr>), cleanupPolicy now s False cutoff w)"
proof -
  let ?nd = "rs_notificationDays s" and ?ad = "rs_activityDays s"
  let ?w1 = "keepSessions (\<lambda>r. \<not> se_expiresAt r < now) w"
  let ?w2 = "keepVerifications (\<lambda>r. \<not> ve_expiresAt r < now) ?w1"
  let ?w3 = "keepNotifications (\<lambda>n. \<not> readLongAgo now ?nd n) ?w2"
  let ?w4 = "keepActivities (\<lambda>a. \<not> stale now ?ad (a_createdAt a)) ?w3"
  note defs = keepSessions_def keepVerifications_def keepNotifications_def keepActivities_def keepUsagePings_def
  have frames: "verifications ?w1 = verifications w" "notifications ?w2 = notifications w" "activities ?w3 = activities w"
    "usagePings ?w4 = usagePings w"
    by (simp_all add: defs)
  have most': "length (filter (\<lambda>r. se_expiresAt r < now) (sessions w)) \<le> orphanCeiling"
    "length (filter (\<lambda>r. ve_expiresAt r < now) (verifications ?w1)) \<le> orphanCeiling"
    "length (filter (readLongAgo now ?nd) (notifications ?w2)) \<le> orphanCeiling"
    "length (filter (\<lambda>a. stale now ?ad (a_createdAt a)) (activities ?w3)) \<le> orphanCeiling"
    "length (filter (\<lambda>p. stale now ?ad (up_createdAt p)) (usagePings ?w4)) \<le> orphanCeiling"
    using most by (simp_all add: frames withinCeiling_def policyCounts_def)
  have dist: "distinct (map se_id (sessions w))" "distinct (map ve_id (verifications ?w1))" "distinct (map n_id (notifications ?w2))"
    "distinct (map a_id (activities ?w3))" "distinct (map up_id (usagePings ?w4))"
    using rows by (simp_all add: frames rowsDistinct_def)
  have v: "?nd \<noteq> 0 \<longrightarrow> cutoffFor now ?nd \<noteq> None" "?ad \<noteq> 0 \<longrightarrow> cutoffFor now ?ad \<noteq> None" using valid by simp_all
  note step1 = se.deleteInBatches_exact [OF picks dist(1) most'(1)]
  note step2 = ve.deleteInBatches_exact [OF picks dist(2) most'(2)]
  note step3 = no.beforeCutoff_exact [OF picks dist(3) v(1), where P = "\<lambda>c n. case n_readAt n of None \<Rightarrow> False | Some t \<Rightarrow> t < c",
      OF stale_cutoff(2) [symmetric] most'(3)]
  note step4 = ac.beforeCutoff_exact [OF picks dist(4) v(2), where P = "\<lambda>c a. a_createdAt a < c", OF stale_cutoff(1) [symmetric] most'(4)]
  note step5 = up.beforeCutoff_exact [OF picks dist(5) v(2), where P = "\<lambda>c p. up_createdAt p < c", OF stale_cutoff(1) [symmetric] most'(5)]
  have final: "keepUsagePings (\<lambda>p. \<not> stale now ?ad (up_createdAt p)) ?w4 = cleanupPolicy now s False cutoff w"
    by (simp add: defs cleanupPolicy_def not_less cong: option.case_cong)
  show ?thesis
    unfolding sweepRows_def bindE_def step1 step2 step3 step4 step5 prod.case sum.case return_def final
    by (simp add: frames policyCounts_def)
qed


text \<open>
  C21. A nightly run ends and leaves what one pass over each table would: expired sessions and verifications are
  gone, read notifications and log entries past their windows too, a notification of a deleted entry loses its
  reference, a stored file goes if and only if no attachment names it and it is older than the grace period,
  nothing else changes and the counts are right. The loops stop early only above a million rows of a table.
\<close>

theorem cleanup_is_the_policy:
  assumes "picks limited" and "rowsDistinct w" and "retentionSettings env = Inr s" and "rs_enabled s"
    and "\<forall>d \<in> {rs_notificationDays s, rs_activityDays s}. d \<noteq> 0 \<longrightarrow> cutoffFor now d \<noteq> None"
    and "orphanGraceMs env = Inr grace"
    and "withinCeiling (policyCounts now s (attachmentsEnabled storage) (orphanCutoff now grace) w)"
  shows "\<exists>line. CleanupWorker_runCleanup limited invalidRaw durationMs storage env now w =
    (Inr (policyCounts now s (attachmentsEnabled storage) (orphanCutoff now grace) w),
     (cleanupPolicy now s (attachmentsEnabled storage) (orphanCutoff now grace) w)\<lparr>w_log := w_log w @ [line]\<rparr>)"
proof -
  let ?c = "orphanCutoff now grace"
  let ?w1 = "cleanupPolicy now s False ?c w"
  have rows: "sweepRows limited invalidRaw now s w = (Inr ((policyCounts now s (attachmentsEnabled storage) ?c w)\<lparr>cc_orphanedFiles := 0\<rparr>), ?w1)"
    by (rule sweepRows_run [OF assms(1,2,5,7)])
  have same: "w_files ?w1 = w_files w" "orphaned ?w1 = orphaned w" "w_log ?w1 = w_log w"
    by (simp_all add: cleanupPolicy_def orphaned_def [abs_def] claimed_def)
  have files: "CleanupWorker_sweepOrphanFiles storage env now ?w1 =
      (Inr (cc_orphanedFiles (policyCounts now s (attachmentsEnabled storage) ?c w)), cleanupPolicy now s (attachmentsEnabled storage) ?c w)"
  proof (cases storage)
    case (Some d)
    then have True: "attachmentsEnabled storage" by (simp add: attachmentsEnabled_def)
    have "filesPlain ?w1" using assms(2) same(1) by (simp add: filesPlain_def rowsDistinct_def)
    moreover have "length (filter (orphaned ?w1 ?c) (w_files ?w1)) \<le> orphanCeiling"
      using assms(7) True by (simp add: same withinCeiling_def policyCounts_def)
    ultimately have "CleanupWorker_sweepOrphanFiles (Some d) env now ?w1 = (Inr (length (filter (orphaned ?w1 ?c) (w_files ?w1))),
        ?w1\<lparr>w_files := filter (\<lambda>f. \<not> orphaned ?w1 ?c f) (w_files ?w1)\<rparr>)"
      by (intro sweepOrphanFiles_run assms(6))
    then show ?thesis using True Some by (simp add: same policyCounts_def) (simp add: cleanupPolicy_def)
  next
    case None
    then show ?thesis by (simp add: CleanupWorker_sweepOrphanFiles_def attachmentsEnabled_def return_def policyCounts_def)
  qed
  have settings: "lift (retentionSettings env) w = (Inr s, w)" by (simp add: assms(3) lift_def)
  have log: "w_log (cleanupPolicy now s (attachmentsEnabled storage) ?c w) = w_log w" by (simp add: cleanupPolicy_def)
  let ?counts = "(policyCounts now s (attachmentsEnabled storage) ?c w)\<lparr>cc_orphanedFiles := 0,
    cc_orphanedFiles := cc_orphanedFiles (policyCounts now s (attachmentsEnabled storage) ?c w)\<rparr>"
  have "CleanupWorker_runCleanup limited invalidRaw durationMs storage env now w =
      (Inr ?counts, (cleanupPolicy now s (attachmentsEnabled storage) ?c w)\<lparr>w_log := w_log (cleanupPolicy now s (attachmentsEnabled storage) ?c w)
        @ [cleanupLine (cleanupPolicy now s (attachmentsEnabled storage) ?c w) durationMs ?counts]\<rparr>)"
    using assms(4)
    by (simp only: CleanupWorker_runCleanup_def if_False not_True_eq_False Let_def
        bindE_step [where m = "lift (retentionSettings env)" and w = w, OF settings]
        bindE_step [where m = "sweepRows limited invalidRaw now s" and w = w, OF rows]
        bindE_step [where m = "CleanupWorker_sweepOrphanFiles storage env now" and w = ?w1, OF files])
      (simp only: bindE_def modify_def return_def prod.case sum.case)
  moreover have "?counts = policyCounts now s (attachmentsEnabled storage) ?c w" by simp
  ultimately show ?thesis unfolding log by metis
qed

definition sampleDisk :: DiskStorageBackend where
  "sampleDisk = \<lparr>dk_root = js ''/data'', dk_cwd = js ''/app''\<rparr>"

lemma attachmentsEnabled_Some [simp]: "attachmentsEnabled (Some d)"
  by (simp add: attachmentsEnabled_def)

lemma sample_keys: "plainKey (js ''aa/bb/1'')" "plainKey (js ''aa/bb/2'')"
  by code_simp+

definition agedWorld :: world where
  \<comment> \<open>a session that has expired, one that has not, and a stored file that nothing names\<close>
  "agedWorld = sampleWorld\<lparr>
     sessions := [\<lparr>se_id = js ''s1'', se_userId = js ''u1'', se_expiresAt = 5\<rparr>,
       \<lparr>se_id = js ''s2'', se_userId = js ''u1'', se_expiresAt = 200000000000\<rparr>],
     w_files := [\<lparr>sf_key = js ''aa/bb/1'', sf_modifiedAt = 5, sf_bytes = [1]\<rparr>, \<lparr>sf_key = js ''aa/bb/2'', sf_modifiedAt = 100000000000, sf_bytes = [2]\<rparr>]\<rparr>"

lemma no_settings:
  "retentionSettings Map.empty = Inr \<lparr>rs_enabled = True, rs_notificationDays = 90, rs_activityDays = 365\<rparr>"
  "orphanGraceMs Map.empty = Inr (Some (Finite 604800000))"
  using toDouble_int [of 604800] toDouble_int [of 604800000]
  by (simp_all add: retentionSettings_def envBool_def retentionDays_def envInt_def DEFAULT_NOTIFICATION_RETENTION_DAYS_def
      DEFAULT_ACTIVITY_RETENTION_DAYS_def orphanGraceMs_def DEFAULT_BACKUP_INTERVAL_SECONDS_def DEFAULT_BACKUP_KEEP_def
      MIN_ORPHAN_GRACE_MS_def MS_PER_DAY_def max_def less_eq_js_number_def js_rank_def)

lemma sample_cutoffs:
  "cutoffFor 100000000000 90 = Some 92224000000" "cutoffFor 100000000000 365 = Some 68464000000"
  "orphanCutoff 100000000000 (Some (Finite 604800000)) = Some 99395200000"
  using toDouble_int [of "90 * 86400000"] toDouble_int [of 92224000000] toDouble_int [of "365 * 86400000"]
    toDouble_int [of 68464000000] toDouble_int [of 99395200000]
  by (simp_all add: cutoffFor_def orphanCutoff_def newDateOf_def MS_PER_DAY_def validDate_def)

lemma take_picks: "picks (\<lambda>_. take)"
  by (auto simp: picks_def dest: in_set_takeD)


theorem cleanup_is_the_policy_witness:
  "\<exists>counts w'. CleanupWorker_runCleanup (\<lambda>_. take) (throw (PrismaError ''?'')) (Finite 0) (Some sampleDisk) Map.empty 100000000000 agedWorld
       = (Inr counts, w') \<and> map se_id (sessions w') = [js ''s2''] \<and> map sf_key (w_files w') = [js ''aa/bb/2'']
     \<and> cc_sessions counts = 1 \<and> cc_orphanedFiles counts = 1"
proof -
  let ?s = "\<lparr>rs_enabled = True, rs_notificationDays = 90, rs_activityDays = 365\<rparr>"
  let ?c = "orphanCutoff 100000000000 (Some (Finite 604800000))"
  have counts: "policyCounts 100000000000 ?s True ?c agedWorld = \<lparr>cc_sessions = 1, cc_verifications = 0, cc_notifications = 0,
      cc_activities = 0, cc_usagePings = 0, cc_orphanedFiles = 1\<rparr>"
    by (simp add: policyCounts_def agedWorld_def sampleWorld_def readLongAgo_def orphaned_def claimed_def notBefore_def sample_cutoffs)
  have "rowsDistinct agedWorld"
    using sample_keys by (simp add: rowsDistinct_def filesPlain_def agedWorld_def sampleWorld_def)
  moreover have "\<forall>d \<in> {rs_notificationDays ?s, rs_activityDays ?s}. d \<noteq> 0 \<longrightarrow> cutoffFor 100000000000 d \<noteq> None"
    by (simp add: sample_cutoffs)
  moreover have "withinCeiling (policyCounts 100000000000 ?s True ?c agedWorld)"
    by (simp add: counts withinCeiling_def orphanCeiling_def CLEANUP_BATCH_SIZE_def MAX_BATCHES_PER_TABLE_def)
  ultimately obtain line where run: "CleanupWorker_runCleanup (\<lambda>_. take) (throw (PrismaError ''?'')) (Finite 0) (Some sampleDisk) Map.empty
      100000000000 agedWorld = (Inr (policyCounts 100000000000 ?s True ?c agedWorld),
        (cleanupPolicy 100000000000 ?s True ?c agedWorld)\<lparr>w_log := w_log agedWorld @ [line]\<rparr>)"
    using cleanup_is_the_policy [OF take_picks _ no_settings(1) _ _ no_settings(2), where storage = "Some sampleDisk",
        unfolded attachmentsEnabled_Some] by fastforce
  show ?thesis
    unfolding run counts
    by (simp add: cleanupPolicy_def agedWorld_def orphaned_def claimed_def sampleWorld_def notBefore_def sample_cutoffs)
qed

subsection \<open>A grace period that is too long to compute\<close>

definition uploadingWorld :: world where
  "uploadingWorld = sampleWorld\<lparr>w_files := [\<lparr>sf_key = js ''aa/bb/1'', sf_modifiedAt = 1750000000000, sf_bytes = [1]\<rparr>]\<rparr>"

text \<open>
  C23. With the settings left as they are no file younger than a week is removed. With \<open>BACKUP_KEEP\<close> set to
  999999999, as one would to keep every dump, the cutoff is an invalid date, no file counts as young, and a
  sweep removes a file that was written a moment ago and whose attachment is not committed yet.
\<close>

theorem endless_grace_is_none:
  "orphanGraceMs Map.empty = Inr (Some (Finite 604800000))
   \<and> (\<exists>grace. orphanGraceMs [''BACKUP_KEEP'' \<mapsto> js ''999999999''] = Inr grace \<and> orphanCutoff 1750000000000 grace = None
       \<and> CleanupWorker_sweepOrphanFiles (Some sampleDisk) [''BACKUP_KEEP'' \<mapsto> js ''999999999''] 1750000000000 uploadingWorld
           = (Inr 1, uploadingWorld\<lparr>w_files := []\<rparr>))"
proof -
  let ?env = "[''BACKUP_KEEP'' \<mapsto> js ''999999999'']"
  have num: "jsNumber (js ''999999999'') = Some (Finite 999999999)"
    using toDouble_int [of 999999999]
    by (simp add: jsNumber_def js_trim_def js_space_def radixPrefix_def decimalLiteral_def isDigit_def lexExponent_def
        scale10_def digitsValue_def Let_def)
  have trim: "js_trim (js ''999999999'') = js ''999999999''" by (simp add: js_trim_def js_space_def)
  have ne: "js ''999999999'' \<noteq> []" by simp
  have whole: "(999999999 :: rat) = of_int \<lfloor>999999999 :: rat\<rfloor>" by simp
  have window: "toDouble 86399999913600000 = Finite 86399999913600000" "toDouble (- 86398249913600000) = Finite (- 86398249913600000)"
    using toDouble_exact [of 86399999913600000 84374999915625 10] toDouble_exact [of "- 86398249913600000" "- 84373290931250" 10]
    by simp_all
  have "envInt ?env ''BACKUP_KEEP'' 7 = Inr 999999999"
    using num trim whole ne by (simp add: envInt_def isInteger_def del: js_Cons)
  moreover have "envInt ?env ''BACKUP_INTERVAL'' 86400 = Inr 86400" by (simp add: envInt_def)
  moreover have "js_times (Finite (max 86400 0)) (Finite (max 999999999 1)) = Some (Finite 86399999913600)"
    using toDouble_int [of 86399999913600] by simp
  moreover have "js_times (Finite 86399999913600) (Finite 1000) = Some (Finite 86399999913600000)" by (simp add: window)
  moreover have "max (Finite 86399999913600000) (Finite MIN_ORPHAN_GRACE_MS) = Finite 86399999913600000"
    by (simp add: max_def less_eq_js_number_def js_rank_def MIN_ORPHAN_GRACE_MS_def MS_PER_DAY_def)
  ultimately have g: "orphanGraceMs ?env = Inr (Some (Finite 86399999913600000))"
    by (simp only: orphanGraceMs_def DEFAULT_BACKUP_INTERVAL_SECONDS_def DEFAULT_BACKUP_KEEP_def sum.case option.case)
  have c: "orphanCutoff 1750000000000 (Some (Finite 86399999913600000)) = None"
    by (simp add: orphanCutoff_def newDateOf_def window validDate_def)
  have w: "w_files uploadingWorld = [\<lparr>sf_key = js ''aa/bb/1'', sf_modifiedAt = 1750000000000, sf_bytes = [1]\<rparr>]" "attachments uploadingWorld = []"
    by (simp_all add: uploadingWorld_def sampleWorld_def)
  have orphan: "filter (orphaned uploadingWorld None) (w_files uploadingWorld) = w_files uploadingWorld"
    "filter (\<lambda>f. \<not> orphaned uploadingWorld None f) (w_files uploadingWorld) = []"
    using w by (simp_all add: orphaned_def claimed_def notBefore_def)
  have plain: "filesPlain uploadingWorld" using sample_keys by (simp add: filesPlain_def w del: js_Cons)
  have "CleanupWorker_sweepOrphanFiles (Some sampleDisk) ?env 1750000000000 uploadingWorld = (Inr 1, uploadingWorld\<lparr>w_files := []\<rparr>)"
    using sweepOrphanFiles_run [OF plain g, of 1750000000000, unfolded c orphan] w
    by (simp add: orphanCeiling_def CLEANUP_BATCH_SIZE_def MAX_BATCHES_PER_TABLE_def del: js_Cons)
  with g c no_settings(2) show ?thesis by blast
qed

end
