(* ===== verification/DueSoon.thy ===== *)
theory DueSoon
  imports Feeds "HOL-Library.Product_Lexorder"
begin

section \<open>Reminders of due tasks\<close>

text \<open>
  \<open>notification/due-soon.worker.ts\<close>: the scan that runs every quarter of an hour. It pages through the tasks
  due within a day, by due date and id, and reminds every assignee who has not been reminded lately. The loop
  has no bound, so it is a partial function: \<open>None\<close> is a scan that never ends. The scheduler, its retries
  and the log lines are left out.
\<close>

definition DUE_WINDOW_MS :: int where
  "DUE_WINDOW_MS = 24 * 60 * 60 * 1000"

definition SCAN_BATCH_SIZE :: nat where
  "SCAN_BATCH_SIZE = 500"

record ScanTaskRow =
  sc_id :: uuid
  sc_title :: js_string
  sc_dueDate :: "js_date option"
  sc_workspaceId :: uuid
  sc_assignees :: "uuid list"

definition scanRow :: "world \<Rightarrow> task_row \<Rightarrow> ScanTaskRow" where
  \<comment> \<open>the \<open>select\<close> of the scan; the board of a task exists by its foreign key\<close>
  "scanRow w t =
     \<lparr>sc_id = t_id t, sc_title = t_title t, sc_dueDate = t_dueDate t,
      sc_workspaceId = (case find (\<lambda>b. b_id b = t_boardId t) (boards w) of None \<Rightarrow> [] | Some b \<Rightarrow> b_workspaceId b),
      sc_assignees = map ta_userId (filter (\<lambda>a. ta_taskId a = t_id t) (assignees w))\<rparr>"

record scan_cursor =
  sk_dueDate :: js_date
  sk_id :: uuid

definition inScan :: "world \<Rightarrow> scan_cursor option \<Rightarrow> task_row \<Rightarrow> bool" where
  \<comment> \<open>the \<open>where\<close> of the scan\<close>
  "inScan w cursor t \<longleftrightarrow>
     (case t_dueDate t of
        None \<Rightarrow> False
      | Some d \<Rightarrow> w_now w < d \<and> d \<le> w_now w + DUE_WINDOW_MS
          \<and> list_ex (\<lambda>a. ta_taskId a = t_id t) (assignees w)
          \<and> (case cursor of
               None \<Rightarrow> True
             | Some k \<Rightarrow> sk_dueDate k < d \<or> d = sk_dueDate k \<and> sk_id k < t_id t))"

definition dueKey :: "task_row \<Rightarrow> js_date \<times> uuid" where
  \<comment> \<open>\<open>orderBy: [{ dueDate: 'asc' }, { id: 'asc' }]\<close>, of rows that have a due date\<close>
  "dueKey t = ((case t_dueDate t of None \<Rightarrow> 0 | Some d \<Rightarrow> d), t_id t)"

definition scanPage :: "world \<Rightarrow> scan_cursor option \<Rightarrow> ScanTaskRow list" where
  "scanPage w cursor = map (scanRow w) (take SCAN_BATCH_SIZE
     (sort_key dueKey (filter (inScan w cursor) (tasks w))))"

definition reminderKey :: "uuid \<Rightarrow> uuid \<Rightarrow> js_string" where
  "reminderKey userId taskId = userId @ js '':'' @ taskId"

definition findAlreadyNotified :: "(uuid \<times> uuid) list \<Rightarrow> js_date \<Rightarrow> world \<Rightarrow> js_string list" where
  \<comment> \<open>of pairs of a task and a user; a row without a task joins no pair\<close>
  "findAlreadyNotified pairs since w =
     concat (map (\<lambda>n. concat (map (\<lambda>(taskId, userId).
         if n_taskId n = Some taskId \<and> n_userId n = userId then [reminderKey userId taskId] else []) pairs))
       (filter (\<lambda>n. n_type n = DueSoon \<and> (n_readAt n = None \<or> since \<le> n_createdAt n)) (notifications w)))"

record ReminderRow =
  re_workspaceId :: uuid
  re_userId :: uuid
  re_taskId :: uuid
  re_payload :: payload

definition reminderRow :: "ScanTaskRow \<Rightarrow> js_date \<Rightarrow> uuid \<Rightarrow> ReminderRow" where
  "reminderRow task due userId =
     \<lparr>re_workspaceId = sc_workspaceId task, re_userId = userId, re_taskId = sc_id task,
      re_payload = [(''title'', JString (sc_title task)), (''dueDate'', JString (toISOString due)),
        (''type'', JString (js ''due_soon''))]\<rparr>"

definition reminderRows :: "js_string list \<Rightarrow> ScanTaskRow list \<Rightarrow> ReminderRow list" where
  \<comment> \<open>the rows of one batch, the pairs in \<open>skip\<close> left out\<close>
  "reminderRows skip rows = concat (map (\<lambda>task.
     case sc_dueDate task of
       None \<Rightarrow> []
     | Some due \<Rightarrow> map (reminderRow task due)
         (filter (\<lambda>userId. reminderKey userId (sc_id task) \<notin> set skip) (sc_assignees task))) rows)"

definition insertReminder :: "ReminderRow \<Rightarrow> nat \<times> world \<Rightarrow> nat \<times> world" where
  \<comment> \<open>one row of \<open>createMany({ skipDuplicates: true })\<close>, under \<open>Notification_due_soon_unread_uidx\<close>\<close>
  "insertReminder r acc =
     (let w = snd acc in
      if list_ex (\<lambda>n. n_userId n = re_userId r \<and> n_taskId n = Some (re_taskId r) \<and> n_type n = DueSoon \<and> n_readAt n = None)
           (notifications w)
      then (fst acc, tick w)
      else (Suc (fst acc), (tick w)\<lparr>notifications := notifications w @
        [\<lparr>n_id = freshId w, n_workspaceId = re_workspaceId r, n_userId = re_userId r, n_type = DueSoon,
          n_taskId = Some (re_taskId r), n_activityId = None, n_payload = re_payload r, n_readAt = None,
          n_createdAt = w_now w\<rparr>]\<rparr>))"

definition notifyBatch :: "ScanTaskRow list \<Rightarrow> js_date \<Rightarrow> world \<Rightarrow> (nat \<times> (uuid \<times> uuid) list) \<times> world" where
  \<comment> \<open>how many were created, and the workspace and user of each recipient\<close>
  "notifyBatch rows since w =
     (let pairs = concat (map (\<lambda>task. if sc_dueDate task = None then [] else map (Pair (sc_id task)) (sc_assignees task)) rows) in
      if pairs = [] then ((0, []), w)
      else (let reminders = reminderRows (findAlreadyNotified pairs since w) rows in
        if reminders = [] then ((0, []), w)
        else (let (created, w') = fold insertReminder reminders (0, w) in
          if created = 0 then ((0, []), w')
          else ((created, map (\<lambda>r. (re_workspaceId r, re_userId r)) reminders), w'))))"

fun addRecipient :: "(uuid \<times> uuid list) list \<Rightarrow> uuid \<times> uuid \<Rightarrow> (uuid \<times> uuid list) list" where
  \<comment> \<open>into a \<open>Map\<close> of \<open>Set\<close>s, both of which keep the order of insertion\<close>
  "addRecipient [] (workspaceId, userId) = [(workspaceId, [userId])]"
| "addRecipient ((k, us) # rest) (workspaceId, userId) =
     (if k = workspaceId then (k, if userId \<in> set us then us else us @ [userId]) # rest
      else (k, us) # addRecipient rest (workspaceId, userId))"

type_synonym scan_state = "nat \<times> (uuid \<times> uuid list) list \<times> world"

partial_function (option) scanPages :: "js_date \<Rightarrow> scan_cursor option \<Rightarrow> scan_state \<Rightarrow> scan_state option" where
  "scanPages since cursor state =
     (case state of (totalCreated, recipients, w) \<Rightarrow>
      let rows = scanPage w cursor in
      if rows = [] then Some state
      else (case notifyBatch rows since w of ((created, found), w') \<Rightarrow>
        let state' = (totalCreated + created, foldl addRecipient recipients found, w') in
        if length rows < SCAN_BATCH_SIZE then Some state'
        else (case sc_dueDate (last rows) of
            None \<Rightarrow> Some state'
          | Some d \<Rightarrow> scanPages since (Some \<lparr>sk_dueDate = d, sk_id = sc_id (last rows)\<rparr>) state')))"

definition DueSoonWorker_runScan :: "world \<Rightarrow> (nat \<times> world) option" where
  "DueSoonWorker_runScan w =
     (case scanPages (w_now w - DUE_WINDOW_MS) None (0, [], w) of
        None \<Rightarrow> None
      | Some (totalCreated, recipients, w') \<Rightarrow>
          Some (totalCreated, fold (\<lambda>(workspaceId, users). NotificationService_emitUnreadChanged workspaceId users) recipients w'))"

end
