(* ===== verification/DueSoonProps.thy ===== *)
theory DueSoonProps
  imports DueSoon Sample
begin

section \<open>A scan reminds everybody once\<close>

text \<open>
  The scan of due tasks pages through every candidate, reminds each member once and ends; a second scan
  in the same window reminds nobody.
\<close>

subsection \<open>Whom a batch reminds\<close>

definition told :: "world \<Rightarrow> uuid \<Rightarrow> uuid \<Rightarrow> bool" where
  \<comment> \<open>the rule of \<open>NotificationService.shouldSkipDueSoon\<close>\<close>
  "told w userId taskId \<longleftrightarrow> fst (NotificationService_shouldSkipDueSoon userId taskId w) = Inr True"

lemma told_iff:
  "told w userId taskId \<longleftrightarrow> (\<exists>n \<in> set (notifications w). n_userId n = userId \<and> n_taskId n = Some taskId \<and> n_type n = DueSoon
     \<and> (n_readAt n = None \<or> w_now w - DUE_WINDOW_MS \<le> n_createdAt n))"
  by (auto simp: told_def NotificationService_shouldSkipDueSoon_def reads_def Let_def list_ex_iff DUE_WINDOW_MS_def DUE_SOON_WINDOW_MS_def)

definition plainId :: "uuid \<Rightarrow> bool" where
  \<comment> \<open>without a colon, as every UUID is\<close>
  "plainId k \<longleftrightarrow> 0x3A \<notin> set k"

lemma reminderKey_inject:
  assumes "plainId u" and "plainId u'"
  shows "reminderKey u k = reminderKey u' k' \<longleftrightarrow> u = u' \<and> k = k'"
proof
  assume eq: "reminderKey u k = reminderKey u' k'"
  have tw: "takeWhile (\<lambda>c. c \<noteq> 0x3A) (reminderKey v j) = v" if "plainId v" for v j
  proof -
    have "\<forall>c \<in> set v. c \<noteq> 0x3A" using that by (auto simp: plainId_def)
    then show ?thesis by (simp add: reminderKey_def takeWhile_append2)
  qed
  have "u = u'" using tw [OF assms(1), of k] tw [OF assms(2), of k'] eq by simp
  with eq show "u = u' \<and> k = k'" by (simp add: reminderKey_def)
qed simp

definition owed :: "world \<Rightarrow> ScanTaskRow list \<Rightarrow> ReminderRow list" where
  "owed w rows = concat (map (\<lambda>task.
     case sc_dueDate task of
       None \<Rightarrow> []
     | Some due \<Rightarrow> map (reminderRow task due)
         (filter (\<lambda>userId. \<not> told w userId (sc_id task)) (sc_assignees task))) rows)"

definition batchPairs :: "ScanTaskRow list \<Rightarrow> (uuid \<times> uuid) list" where
  "batchPairs rows = concat (map (\<lambda>task. if sc_dueDate task = None then [] else map (Pair (sc_id task)) (sc_assignees task)) rows)"

lemma findAlreadyNotified_iff:
  assumes "\<forall>p \<in> set pairs. plainId (snd p)" and "plainId u" and "(k, u) \<in> set pairs"
  shows "reminderKey u k \<in> set (findAlreadyNotified pairs (w_now w - DUE_WINDOW_MS) w) \<longleftrightarrow> told w u k"
proof -
  have "reminderKey u k \<in> set (findAlreadyNotified pairs (w_now w - DUE_WINDOW_MS) w) \<longleftrightarrow>
      (\<exists>n \<in> set (notifications w). n_type n = DueSoon \<and> (n_readAt n = None \<or> w_now w - DUE_WINDOW_MS \<le> n_createdAt n)
        \<and> (\<exists>(k', u') \<in> set pairs. n_taskId n = Some k' \<and> n_userId n = u' \<and> reminderKey u k = reminderKey u' k'))"
    by (auto simp: findAlreadyNotified_def split: if_splits)
  also have "\<dots> \<longleftrightarrow> (\<exists>n \<in> set (notifications w). n_type n = DueSoon \<and> (n_readAt n = None \<or> w_now w - DUE_WINDOW_MS \<le> n_createdAt n)
        \<and> n_taskId n = Some k \<and> n_userId n = u)"
    using assms by (fastforce simp: reminderKey_inject)
  finally show ?thesis by (auto simp: told_iff)
qed

lemma reminderRows_owed:
  assumes "\<forall>task \<in> set rows. \<forall>u \<in> set (sc_assignees task). plainId u"
  shows "reminderRows (findAlreadyNotified (batchPairs rows) (w_now w - DUE_WINDOW_MS) w) rows = owed w rows"
proof -
  have plain: "\<forall>p \<in> set (batchPairs rows). plainId (snd p)" using assms by (auto simp: batchPairs_def split: if_splits)
  let ?skip = "findAlreadyNotified (batchPairs rows) (w_now w - DUE_WINDOW_MS) w"
  have same: "filter (\<lambda>u. reminderKey u (sc_id task) \<notin> set ?skip) (sc_assignees task) =
      filter (\<lambda>u. \<not> told w u (sc_id task)) (sc_assignees task)"
    if task: "task \<in> set rows" "sc_dueDate task = Some due" for task due
  proof (rule filter_cong [OF refl])
    fix u assume u: "u \<in> set (sc_assignees task)"
    have "(sc_id task, u) \<in> set (batchPairs rows)" using task u by (force simp: batchPairs_def)
    moreover have "plainId u" using assms task(1) u by blast
    ultimately show "reminderKey u (sc_id task) \<notin> set ?skip \<longleftrightarrow> \<not> told w u (sc_id task)"
      using findAlreadyNotified_iff [OF plain] by blast
  qed
  show ?thesis unfolding reminderRows_def owed_def
  proof (intro arg_cong [where f = concat] map_cong refl)
    fix task assume "task \<in> set rows"
    then show "(case sc_dueDate task of None \<Rightarrow> [] | Some due \<Rightarrow> map (reminderRow task due)
         (filter (\<lambda>userId. reminderKey userId (sc_id task) \<notin> set ?skip) (sc_assignees task))) =
      (case sc_dueDate task of None \<Rightarrow> [] | Some due \<Rightarrow> map (reminderRow task due)
         (filter (\<lambda>userId. \<not> told w userId (sc_id task)) (sc_assignees task)))"
      by (cases "sc_dueDate task") (simp_all only: option.case same)
  qed
qed

subsection \<open>Inserting reminders\<close>

definition remind :: "ReminderRow \<Rightarrow> world \<Rightarrow> world" where
  "remind r w = (tick w)\<lparr>notifications := notifications w @
     [\<lparr>n_id = freshId w, n_workspaceId = re_workspaceId r, n_userId = re_userId r, n_type = DueSoon,
       n_taskId = Some (re_taskId r), n_activityId = None, n_payload = re_payload r, n_readAt = None, n_createdAt = w_now w\<rparr>]\<rparr>"

lemma remind_frame [simp]:
  "tasks (remind r w) = tasks w" "assignees (remind r w) = assignees w" "boards (remind r w) = boards w"
  "w_now (remind r w) = w_now w" "w_published (remind r w) = w_published w" "w_socketServer (remind r w) = w_socketServer w"
  by (simp_all add: remind_def tick_def)

lemma fold_remind_frame [simp]:
  "tasks (fold remind rs w) = tasks w" "assignees (fold remind rs w) = assignees w" "boards (fold remind rs w) = boards w"
  "w_now (fold remind rs w) = w_now w" "w_published (fold remind rs w) = w_published w"
  "w_socketServer (fold remind rs w) = w_socketServer w"
  by (induction rs arbitrary: w) simp_all

lemma fold_remind_notifications:
  "\<exists>new. notifications (fold remind rs w) = notifications w @ new
     \<and> map (\<lambda>n. (n_userId n, n_taskId n)) new = map (\<lambda>r. (re_userId r, Some (re_taskId r))) rs
     \<and> (\<forall>n \<in> set new. n_type n = DueSoon \<and> n_readAt n = None \<and> n_createdAt n = w_now w)"
proof (induction rs arbitrary: w)
  case (Cons r rs)
  from Cons [of "remind r w"] obtain new where "notifications (fold remind rs (remind r w)) = notifications (remind r w) @ new"
    "map (\<lambda>n. (n_userId n, n_taskId n)) new = map (\<lambda>r. (re_userId r, Some (re_taskId r))) rs"
    "\<forall>n \<in> set new. n_type n = DueSoon \<and> n_readAt n = None \<and> n_createdAt n = w_now w" by auto
  moreover obtain x where "notifications (remind r w) = notifications w @ [x]" "n_userId x = re_userId r" "n_taskId x = Some (re_taskId r)"
    "n_type x = DueSoon" "n_readAt x = None" "n_createdAt x = w_now w"
    by (simp add: remind_def)
  ultimately show ?case by (intro exI [of _ "x # new"]) simp
qed simp

lemma told_after:
  "told (fold remind rs w) u k \<longleftrightarrow> told w u k \<or> (u, k) \<in> (\<lambda>r. (re_userId r, re_taskId r)) ` set rs"
proof -
  from fold_remind_notifications [of rs w] obtain new where new: "notifications (fold remind rs w) = notifications w @ new"
    "map (\<lambda>n. (n_userId n, n_taskId n)) new = map (\<lambda>r. (re_userId r, Some (re_taskId r))) rs"
    "\<forall>n \<in> set new. n_type n = DueSoon \<and> n_readAt n = None \<and> n_createdAt n = w_now w" by blast
  have "(\<exists>n \<in> set new. n_userId n = u \<and> n_taskId n = Some k) \<longleftrightarrow> (u, Some k) \<in> set (map (\<lambda>n. (n_userId n, n_taskId n)) new)" by auto
  also have "\<dots> \<longleftrightarrow> (u, k) \<in> (\<lambda>r. (re_userId r, re_taskId r)) ` set rs" unfolding new(2) by auto
  finally show ?thesis using new(3) by (auto simp: told_iff new(1))
qed

lemma insert_all:
  "distinct (map (\<lambda>r. (re_userId r, re_taskId r)) rs) \<Longrightarrow> \<forall>r \<in> set rs. \<not> told w (re_userId r) (re_taskId r) \<Longrightarrow>
    fold insertReminder rs (m, w) = (m + length rs, fold remind rs w)"
proof (induction rs arbitrary: m w)
  case (Cons r rs)
  have "\<not> told w (re_userId r) (re_taskId r)" using Cons.prems(2) by simp
  then have "insertReminder r (m, w) = (Suc m, remind r w)"
    by (auto simp: told_iff insertReminder_def remind_def Let_def list_ex_iff)
  moreover have "told (remind r w) u k \<longleftrightarrow> told w u k \<or> (u, k) = (re_userId r, re_taskId r)" for u k
    using told_after [of "[r]" w u k] by simp
  then have "\<forall>r' \<in> set rs. \<not> told (remind r w) (re_userId r') (re_taskId r')"
    using Cons.prems by (metis (no_types, lifting) distinct.simps(2) image_eqI list.set_intros(2) list.simps(9) set_map)
  ultimately show ?case using Cons.IH [of "remind r w" "Suc m"] Cons.prems(1) by simp
qed simp


lemma reminderRow_sel [simp]:
  "re_workspaceId (reminderRow task due u) = sc_workspaceId task" "re_userId (reminderRow task due u) = u"
  "re_taskId (reminderRow task due u) = sc_id task"
  by (simp_all add: reminderRow_def)

definition assignedOnce :: "world \<Rightarrow> bool" where
  "assignedOnce w \<longleftrightarrow> distinct (map t_id (tasks w)) \<and> distinct (map (\<lambda>a. (ta_taskId a, ta_userId a)) (assignees w))
     \<and> (\<forall>a \<in> set (assignees w). plainId (ta_userId a))"

definition scanOk :: "ScanTaskRow list \<Rightarrow> bool" where
  "scanOk rows \<longleftrightarrow> distinct (map sc_id rows) \<and> (\<forall>task \<in> set rows. distinct (sc_assignees task) \<and> (\<forall>u \<in> set (sc_assignees task). plainId u))"

lemma owed_append [simp]: "owed w (xs @ ys) = owed w xs @ owed w ys"
  by (simp add: owed_def)

lemma owed_Nil [simp]: "owed w [] = []"
  by (simp add: owed_def)

lemma owed_Cons: "owed w (task # rows) = (case sc_dueDate task of None \<Rightarrow> []
    | Some due \<Rightarrow> map (reminderRow task due) (filter (\<lambda>u. \<not> told w u (sc_id task)) (sc_assignees task))) @ owed w rows"
  by (simp add: owed_def)

lemma owed_task: "r \<in> set (owed w rows) \<Longrightarrow> re_taskId r \<in> sc_id ` set rows \<and> \<not> told w (re_userId r) (re_taskId r)"
  by (induction rows) (auto simp: owed_Cons split: option.splits)

lemma owed_distinct:
  "scanOk rows \<Longrightarrow> distinct (map (\<lambda>r. (re_userId r, re_taskId r)) (owed w rows))"
proof (induction rows)
  case (Cons task rows)
  have "inj_on (\<lambda>u. (u, sc_id task)) A" for A by (simp add: inj_on_def)
  then have "distinct (map (\<lambda>u. (u, sc_id task)) (filter (\<lambda>u. \<not> told w u (sc_id task)) (sc_assignees task)))"
    using Cons.prems by (simp add: distinct_map scanOk_def)
  moreover have "sc_id task \<notin> re_taskId ` set (owed w rows)" using Cons.prems owed_task by (fastforce simp: scanOk_def)
  ultimately show ?case
    using Cons by (auto simp: owed_Cons scanOk_def o_def image_iff split: option.splits)
qed simp

lemma owed_later:
  \<comment> \<open>reminders of other tasks change nothing\<close>
  assumes "sc_id ` set rows \<inter> re_taskId ` set rs = {}"
  shows "owed (fold remind rs w) rows = owed w rows"
proof -
  have "told (fold remind rs w) u (sc_id task) = told w u (sc_id task)" if "task \<in> set rows" for task u
    using assms that by (auto simp: told_after)
  then show ?thesis unfolding owed_def
    by (intro arg_cong [where f = concat] map_cong refl) (auto split: option.split)
qed

lemma notifyBatch_run:
  assumes ok: "scanOk rows"
  shows "notifyBatch rows (w_now w - DUE_WINDOW_MS) w =
    ((length (owed w rows), map (\<lambda>r. (re_workspaceId r, re_userId r)) (owed w rows)), fold remind (owed w rows) w)"
proof (cases "batchPairs rows = []")
  case True
  then have "owed w rows = []"
    by (induction rows) (auto simp: batchPairs_def owed_Cons split: if_splits option.splits)
  with True show ?thesis by (simp add: notifyBatch_def batchPairs_def)
next
  case False
  have rows: "reminderRows (findAlreadyNotified (batchPairs rows) (w_now w - DUE_WINDOW_MS) w) rows = owed w rows"
    using ok by (intro reminderRows_owed) (simp add: scanOk_def)
  have "fold insertReminder (owed w rows) (0, w) = (0 + length (owed w rows), fold remind (owed w rows) w)"
    by (rule insert_all [OF owed_distinct [OF ok]]) (use owed_task in blast)
  then show ?thesis
    using False by (simp add: notifyBatch_def batchPairs_def [symmetric] rows Let_def)
qed


subsection \<open>The pages of a scan\<close>

definition dueTasks :: "world \<Rightarrow> task_row list" where
  \<comment> \<open>the tasks of the whole scan, read at once\<close>
  "dueTasks w = sort_key dueKey (filter (inScan w None) (tasks w))"

interpretation due: cursor_read "\<lambda>c n. take n (filter (\<lambda>t. case c of None \<Rightarrow> True | Some k \<Rightarrow> k < dueKey t) (dueTasks w))"
  dueKey "\<lambda>a b. a < b" "dueTasks w" for w
  by unfold_locales (auto simp: dueTasks_def intro: sorted_wrt_sort_key_weak)

definition cursorKey :: "scan_cursor option \<Rightarrow> (js_date \<times> uuid) option" where
  "cursorKey = map_option (\<lambda>k. (sk_dueDate k, sk_id k))"

lemma scanPage_fetch:
  "scanPage w cursor = map (scanRow w) (take SCAN_BATCH_SIZE
     (filter (\<lambda>t. case cursorKey cursor of None \<Rightarrow> True | Some k \<Rightarrow> k < dueKey t) (dueTasks w)))"
proof -
  have "inScan w cursor t \<longleftrightarrow> inScan w None t \<and> (case cursorKey cursor of None \<Rightarrow> True | Some k \<Rightarrow> k < dueKey t)" for t
    by (auto simp: inScan_def cursorKey_def dueKey_def split: option.splits)
  then have "filter (inScan w cursor) (tasks w) =
      filter (\<lambda>t. case cursorKey cursor of None \<Rightarrow> True | Some k \<Rightarrow> k < dueKey t) (filter (inScan w None) (tasks w))"
    unfolding filter_filter by (intro filter_cong refl)
  then show ?thesis by (simp only: scanPage_def dueTasks_def sort_key_filter)
qed

lemma scanRow_sel [simp]: "sc_id (scanRow w t) = t_id t" "sc_dueDate (scanRow w t) = t_dueDate t"
  "sc_assignees (scanRow w t) = map ta_userId (filter (\<lambda>a. ta_taskId a = t_id t) (assignees w))"
  by (simp_all add: scanRow_def)

lemma scan_frame:
  "scanRow (fold remind rs w) = scanRow w" "dueTasks (fold remind rs w) = dueTasks w" "scanPage (fold remind rs w) = scanPage w"
proof -
  show r: "scanRow (fold remind rs w) = scanRow w" by (simp add: scanRow_def fun_eq_iff)
  have "inScan (fold remind rs w) = inScan w" by (simp add: inScan_def fun_eq_iff split: option.split)
  then show "dueTasks (fold remind rs w) = dueTasks w" "scanPage (fold remind rs w) = scanPage w"
    by (simp_all add: dueTasks_def scanPage_def [abs_def] r)
qed

lemma dueTasks_due: "t \<in> set (dueTasks w) \<Longrightarrow> t_dueDate t = Some (fst (dueKey t))"
  by (auto simp: dueTasks_def inScan_def dueKey_def split: option.splits)

lemma dueTasks_ids:
  assumes "assignedOnce w"
  shows "distinct (map t_id (dueTasks w))" "distinct (map dueKey (dueTasks w))"
proof -
  show d: "distinct (map t_id (dueTasks w))"
    using distinct_map_filter [of t_id "tasks w" "inScan w None"] assms
    by (simp add: dueTasks_def assignedOnce_def distinct_map)
  have "t_id t = snd (dueKey t)" for t by (simp add: dueKey_def)
  with d show "distinct (map dueKey (dueTasks w))" by (auto simp: distinct_map inj_on_def)
qed

lemma distinct_assignees:
  "distinct (map (\<lambda>a. (ta_taskId a, ta_userId a)) as) \<Longrightarrow> distinct (map ta_userId (filter (\<lambda>a. ta_taskId a = k) as))"
  by (induction as) (auto simp: image_iff)

lemma scanOk_rows:
  assumes "assignedOnce w" and "distinct (map t_id ts)"
  shows "scanOk (map (scanRow w) ts)"
  using assms by (auto simp: scanOk_def o_def assignedOnce_def intro: distinct_assignees)

definition cursorAt :: "task_row list \<Rightarrow> scan_cursor option" where
  "cursorAt seen = (if seen = [] then None else Some \<lparr>sk_dueDate = fst (dueKey (last seen)), sk_id = t_id (last seen)\<rparr>)"

lemma page_after:
  assumes ok: "assignedOnce w" and whole: "dueTasks w = seen @ rest"
  shows "scanPage w (cursorAt seen) = map (scanRow w) (take SCAN_BATCH_SIZE rest)"
proof (cases "seen = []")
  case True
  then show ?thesis using whole by (simp add: scanPage_fetch cursorAt_def cursorKey_def)
next
  case False
  then have "dueTasks w = butlast seen @ last seen # rest" using whole by simp
  from due.filter_after [OF dueTasks_ids(2) [OF ok] this]
  have "filter (\<lambda>t. dueKey (last seen) < dueKey t) (dueTasks w) = rest" .
  moreover have "cursorKey (cursorAt seen) = Some (dueKey (last seen))" using False by (simp add: cursorKey_def cursorAt_def dueKey_def)
  ultimately show ?thesis by (simp add: scanPage_fetch)
qed

abbreviation recipientsOf :: "ReminderRow list \<Rightarrow> (uuid \<times> uuid) list" where
  "recipientsOf \<equiv> map (\<lambda>r. (re_workspaceId r, re_userId r))"

lemma scanPages_all:
  assumes ok: "assignedOnce w"
  defines "owing \<equiv> \<lambda>ts. owed w (map (scanRow w) ts)"
  shows "dueTasks w = seen @ rest \<Longrightarrow>
    scanPages (w_now w - DUE_WINDOW_MS) (cursorAt seen) (n, R, fold remind (owing seen) w) =
      Some (n + length (owing rest), foldl addRecipient R (recipientsOf (owing rest)), fold remind (owing (seen @ rest)) w)"
proof (induction "length rest" arbitrary: seen rest n R rule: less_induct)
  case less
  let ?v = "fold remind (owing seen) w" and ?page = "take SCAN_BATCH_SIZE rest"
  let ?rows = "map (scanRow w) ?page"
  have page: "scanPage ?v (cursorAt seen) = ?rows" using page_after [OF ok less.prems] by (simp add: scan_frame)
  have ids: "distinct (map t_id (seen @ rest))" using dueTasks_ids(1) [OF ok] less.prems by simp
  have "distinct (map t_id ?page)" using ids by (metis distinct_append distinct_take map_append take_map)
  then have rows: "scanOk ?rows" by (rule scanOk_rows [OF ok])
  have "re_taskId ` set (owing seen) \<subseteq> t_id ` set seen" using owed_task by (fastforce simp: owing_def)
  moreover have "t_id ` set ?page \<inter> t_id ` set seen = {}" using ids by (auto dest!: in_set_takeD)
  ultimately have "owed ?v ?rows = owing ?page" unfolding owing_def by (intro owed_later) (auto simp: image_image)
  with notifyBatch_run [OF rows, of ?v] have batch: "notifyBatch ?rows (w_now w - DUE_WINDOW_MS) ?v =
      ((length (owing ?page), recipientsOf (owing ?page)), fold remind (owing (seen @ ?page)) w)"
    by (simp add: owing_def)
  have pos: "0 < SCAN_BATCH_SIZE" by (simp add: SCAN_BATCH_SIZE_def)
  show ?case
  proof (cases "length ?rows < SCAN_BATCH_SIZE")
    case True
    then have "?page = rest" by simp
    with True page batch show ?thesis
      by (subst scanPages.simps) (auto simp: Let_def owing_def)
  next
    case False
    then have ne: "?page \<noteq> []" using pos by auto
    let ?rest = "drop SCAN_BATCH_SIZE rest"
    have shorter: "length ?rest < length rest" using ne pos by (cases rest) auto
    have whole: "dueTasks w = (seen @ ?page) @ ?rest" using less.prems by simp
    have lst: "last ?page \<in> set (dueTasks w)" using last_in_set [OF ne] in_set_takeD less.prems by fastforce
    have "sc_dueDate (last ?rows) = Some (fst (dueKey (last ?page)))" "sc_id (last ?rows) = t_id (last ?page)"
      using ne dueTasks_due [OF lst] by (simp_all add: last_map)
    moreover have "cursorAt (seen @ ?page) = Some \<lparr>sk_dueDate = fst (dueKey (last ?page)), sk_id = t_id (last ?page)\<rparr>"
      using ne by (simp add: cursorAt_def)
    ultimately have "scanPages (w_now w - DUE_WINDOW_MS) (cursorAt seen) (n, R, ?v) =
        scanPages (w_now w - DUE_WINDOW_MS) (cursorAt (seen @ ?page))
          (n + length (owing ?page), foldl addRecipient R (recipientsOf (owing ?page)), fold remind (owing (seen @ ?page)) w)"
      using False ne page batch by (subst scanPages.simps) (simp add: Let_def)
    also have "\<dots> = Some (n + length (owing ?page) + length (owing ?rest),
        foldl addRecipient (foldl addRecipient R (recipientsOf (owing ?page))) (recipientsOf (owing ?rest)),
        fold remind (owing ((seen @ ?page) @ ?rest)) w)"
      by (rule less.hyps [OF shorter whole])
    finally have run: "scanPages (w_now w - DUE_WINDOW_MS) (cursorAt seen) (n, R, ?v) = \<dots>" .
    show ?thesis
    proof -
      have "owing rest = owing ?page @ owing ?rest" by (simp add: owing_def flip: owed_append map_append)
      moreover have "(seen @ ?page) @ ?rest = seen @ rest" by simp
      ultimately show ?thesis
        unfolding run by (simp only: map_append foldl_append length_append add.assoc)
    qed
  qed
qed


subsection \<open>One signal for each recipient\<close>

definition recipientPairs :: "(uuid \<times> uuid list) list \<Rightarrow> (uuid \<times> uuid) list" where
  "recipientPairs R = concat (map (\<lambda>(k, us). map (Pair k) us) R)"

definition recipientsOk :: "(uuid \<times> uuid list) list \<Rightarrow> bool" where
  "recipientsOk R \<longleftrightarrow> distinct (map fst R) \<and> (\<forall>p \<in> set R. distinct (snd p))"

lemma addRecipient_keys: "fst ` set (addRecipient R p) = insert (fst p) (fst ` set R)"
  by (induction R p rule: addRecipient.induct) auto

lemma addRecipient_ok: "recipientsOk R \<Longrightarrow> recipientsOk (addRecipient R p)"
proof (induction R p rule: addRecipient.induct)
  case (2 k us R ws u)
  show ?case
  proof (cases "k = ws")
    case False
    have "k \<notin> fst ` set (addRecipient R (ws, u))" using 2(2) False by (auto simp: addRecipient_keys recipientsOk_def)
    with 2 False show ?thesis by (simp add: recipientsOk_def)
  qed (use 2(2) in \<open>auto simp: recipientsOk_def\<close>)
qed (simp add: recipientsOk_def)

lemma addRecipient_pairs: "set (recipientPairs (addRecipient R p)) = insert p (set (recipientPairs R))"
  by (induction R p rule: addRecipient.induct) (auto simp: recipientPairs_def)

lemma all_recipients:
  "recipientsOk R \<Longrightarrow> recipientsOk (foldl addRecipient R ps) \<and> set (recipientPairs (foldl addRecipient R ps)) = set (recipientPairs R) \<union> set ps"
  by (induction ps arbitrary: R) (auto simp: addRecipient_ok addRecipient_pairs)

lemma recipientPairs_distinct: "recipientsOk R \<Longrightarrow> distinct (recipientPairs R)"
proof (induction R)
  case (Cons p R)
  obtain k us where p: "p = (k, us)" by (cases p)
  have "(k, u) \<notin> set (recipientPairs R)" for u
  proof
    assume "(k, u) \<in> set (recipientPairs R)"
    then have "k \<in> fst ` set R" by (force simp: recipientPairs_def)
    then show False using Cons.prems by (simp add: recipientsOk_def p)
  qed
  moreover have "distinct (recipientPairs R)" using Cons by (simp add: recipientsOk_def)
  moreover have "distinct (map (Pair k) us)" using Cons.prems by (simp add: distinct_map inj_on_def recipientsOk_def p)
  moreover have "recipientPairs (p # R) = map (Pair k) us @ recipientPairs R" by (simp add: recipientPairs_def p)
  ultimately show ?case by auto
qed (simp add: recipientPairs_def)

definition unreadSignal :: "uuid \<times> uuid \<Rightarrow> published" where
  "unreadSignal p = ToUser (UserRoom (fst p) (snd p)) (NOTIFICATION_UNREAD_CHANGED (fst p) (snd p))"

lemma fold_emitToUser:
  "fold (\<lambda>u. emitToUser ws u (NOTIFICATION_UNREAD_CHANGED ws u)) us w =
     w\<lparr>w_published := w_published w @ (if w_socketServer w then map (\<lambda>u. unreadSignal (ws, u)) us else [])\<rparr>"
  by (induction us arbitrary: w) (simp_all add: emitToUser_def unreadSignal_def)

lemma js_Set_distinct: "distinct xs \<Longrightarrow> js_Set xs = xs"
  by (simp add: js_Set_def distinct_remdups_id)

lemma emit_all:
  "recipientsOk R \<Longrightarrow> fold (\<lambda>(ws, us). NotificationService_emitUnreadChanged ws us) R w =
     w\<lparr>w_published := w_published w @ (if w_socketServer w then map unreadSignal (recipientPairs R) else [])\<rparr>"
proof (induction R arbitrary: w)
  case (Cons p R)
  obtain k us where p: "p = (k, us)" by (cases p)
  have "recipientsOk R" "distinct us" using Cons.prems by (simp_all add: recipientsOk_def p)
  with Cons.IH show ?case
    by (simp add: p NotificationService_emitUnreadChanged_def js_Set_distinct fold_emitToUser recipientPairs_def o_def)
qed (simp add: recipientPairs_def)

subsection \<open>The whole scan\<close>

definition owing :: "world \<Rightarrow> ReminderRow list" where
  \<comment> \<open>a reminder for each assignee of each task due within a day, unless told: no pages, no batches\<close>
  "owing w = owed w (map (scanRow w) (dueTasks w))"

lemma runScan_eq:
  assumes "assignedOnce w"
  shows "\<exists>signals. DueSoonWorker_runScan w = Some (length (owing w),
      (fold remind (owing w) w)\<lparr>w_published := w_published w @ signals\<rparr>)
    \<and> (w_socketServer w \<longrightarrow> distinct signals \<and> set signals = unreadSignal ` set (recipientsOf (owing w)))
    \<and> (owing w = [] \<longrightarrow> signals = [])"
proof -
  let ?R = "foldl addRecipient [] (recipientsOf (owing w))"
  let ?signals = "if w_socketServer w then map unreadSignal (recipientPairs ?R) else []"
  have pages: "scanPages (w_now w - DUE_WINDOW_MS) None (0, [], w) = Some (length (owing w), ?R, fold remind (owing w) w)"
    using scanPages_all [OF assms, of "[]" "dueTasks w" 0 "[]"] by (simp add: cursorAt_def owing_def)
  have "recipientsOk []" by (simp add: recipientsOk_def)
  from all_recipients [OF this] have R: "recipientsOk ?R" "set (recipientPairs ?R) = set (recipientsOf (owing w))"
    by (auto simp: recipientPairs_def)
  have run: "DueSoonWorker_runScan w = Some (length (owing w), (fold remind (owing w) w)\<lparr>w_published := w_published w @ ?signals\<rparr>)"
    by (simp add: DueSoonWorker_runScan_def pages emit_all [OF R(1)])
  have inj: "inj_on unreadSignal A" for A by (auto simp: inj_on_def unreadSignal_def)
  have sig: "distinct (map unreadSignal (recipientPairs ?R))"
    using recipientPairs_distinct [OF R(1)] by (simp add: distinct_map inj)
  have none: "?signals = []" if "owing w = []" using that by (simp add: recipientPairs_def)
  show ?thesis
    by (rule exI [of _ ?signals]) (use run sig none R(2) in \<open>auto simp: run\<close>)
qed


lemma owed_mem:
  assumes "task \<in> set rows" and "sc_dueDate task = Some due" and "u \<in> set (sc_assignees task)" and "\<not> told w u (sc_id task)"
  shows "(u, sc_id task) \<in> (\<lambda>r. (re_userId r, re_taskId r)) ` set (owed w rows)"
proof -
  have "reminderRow task due u \<in> set (owed w rows)"
    using assms by (induction rows) (auto simp: owed_Cons split: option.splits)
  then show ?thesis by (rule rev_image_eqI) simp
qed

lemma owed_none: "\<forall>task \<in> set rows. \<forall>u \<in> set (sc_assignees task). told w u (sc_id task) \<Longrightarrow> owed w rows = []"
  by (induction rows) (auto simp: owed_Cons filter_empty_conv split: option.splits)

lemma owing_paid:
  assumes "w' = (fold remind (owing w) w)\<lparr>w_published := signals\<rparr>"
  shows "owing w' = []"
proof -
  have "scanRow w' = scanRow (fold remind (owing w) w)" by (simp add: assms scanRow_def fun_eq_iff)
  moreover have "inScan w' None = inScan (fold remind (owing w) w) None" by (simp add: assms inScan_def fun_eq_iff split: option.split)
  then have "dueTasks w' = dueTasks (fold remind (owing w) w)" by (simp add: dueTasks_def assms)
  ultimately have same: "scanRow w' = scanRow w" "dueTasks w' = dueTasks w" by (simp_all add: scan_frame)
  have "told w' u (t_id t)" if t: "t \<in> set (dueTasks w)" and u: "u \<in> set (sc_assignees (scanRow w t))" for t u
  proof -
    have "told w u (t_id t) \<or> (u, t_id t) \<in> (\<lambda>r. (re_userId r, re_taskId r)) ` set (owing w)"
      using owed_mem [of "scanRow w t" "map (scanRow w) (dueTasks w)" "fst (dueKey t)" u w] t u dueTasks_due [OF t]
      by (auto simp: owing_def)
    then have "told (fold remind (owing w) w) u (t_id t)" by (simp only: told_after)
    then show ?thesis by (simp add: told_iff assms)
  qed
  then show ?thesis unfolding owing_def same by (intro owed_none) auto
qed

text \<open>
  C22. A scan ends, whatever the number of pages, and reminds each assignee of each task due within a day who
  is not to be skipped by the rule of \<open>shouldSkipDueSoon\<close>, once and nobody else; everybody reminded gets one
  signal per workspace, however many tasks are due; and a scan that follows at once finds nothing to do.
\<close>

theorem scan_reminds_once:
  assumes "assignedOnce w"
  shows "\<exists>w' new signals. DueSoonWorker_runScan w = Some (length (owing w), w')
    \<and> notifications w' = notifications w @ new
    \<and> map (\<lambda>n. (n_userId n, n_taskId n)) new = map (\<lambda>r. (re_userId r, Some (re_taskId r))) (owing w)
    \<and> (\<forall>n \<in> set new. n_type n = DueSoon \<and> n_readAt n = None)
    \<and> w_published w' = w_published w @ signals
    \<and> (w_socketServer w \<longrightarrow> distinct signals \<and> set signals = unreadSignal ` set (recipientsOf (owing w)))
    \<and> DueSoonWorker_runScan w' = Some (0, w')"
proof -
  from runScan_eq [OF assms] obtain signals where run: "DueSoonWorker_runScan w = Some (length (owing w),
      (fold remind (owing w) w)\<lparr>w_published := w_published w @ signals\<rparr>)"
    and sig: "w_socketServer w \<longrightarrow> distinct signals \<and> set signals = unreadSignal ` set (recipientsOf (owing w))" by blast
  let ?w' = "(fold remind (owing w) w)\<lparr>w_published := w_published w @ signals\<rparr>"
  from fold_remind_notifications [of "owing w" w] obtain new where new: "notifications (fold remind (owing w) w) = notifications w @ new"
    "map (\<lambda>n. (n_userId n, n_taskId n)) new = map (\<lambda>r. (re_userId r, Some (re_taskId r))) (owing w)"
    "\<forall>n \<in> set new. n_type n = DueSoon \<and> n_readAt n = None \<and> n_createdAt n = w_now w" by blast
  have "assignedOnce ?w'" using assms by (simp add: assignedOnce_def)
  from runScan_eq [OF this] have "DueSoonWorker_runScan ?w' = Some (0, ?w')"
    by (auto simp: owing_paid [OF refl])
  with run new sig show ?thesis by (intro exI [of _ ?w'] exI [of _ new] exI [of _ signals]) simp
qed

definition dueWorld :: world where
  "dueWorld = sampleWorld\<lparr>tasks := [(sampleTask ''t1'' ''b1'' ''c1'' 1000)\<lparr>t_dueDate := Some 5000\<rparr>, sampleTask ''t2'' ''b1'' ''c1'' 1000]\<rparr>"

theorem scan_reminds_once_witness:
  "\<exists>w'. DueSoonWorker_runScan dueWorld = Some (1, w') \<and> DueSoonWorker_runScan w' = Some (0, w')
    \<and> w_published w' = [ToUser (UserRoom (js ''w1'') (js ''u1'')) (NOTIFICATION_UNREAD_CHANGED (js ''w1'') (js ''u1''))]"
proof -
  have "assignedOnce dueWorld"
    by (simp add: assignedOnce_def dueWorld_def sampleWorld_def sampleTask_def plainId_def)
  moreover have "map (\<lambda>r. (re_workspaceId r, re_userId r)) (owing dueWorld) = [(js ''w1'', js ''u1'')]"
    by (simp add: owing_def dueTasks_def dueWorld_def sampleWorld_def sampleTask_def inScan_def DUE_WINDOW_MS_def scanRow_def
        owed_Cons told_iff)
  moreover have "w_published dueWorld = []" "w_socketServer dueWorld" by (simp_all add: dueWorld_def sampleWorld_def)
  ultimately obtain w' signals where "DueSoonWorker_runScan dueWorld = Some (length (owing dueWorld), w')" "w_published w' = signals"
    "distinct signals" "set signals = unreadSignal ` {(js ''w1'', js ''u1'')}" "DueSoonWorker_runScan w' = Some (0, w')"
    using scan_reminds_once [of dueWorld] by auto
  moreover have "length (owing dueWorld) = 1"
    using arg_cong [OF \<open>map _ (owing dueWorld) = _\<close>, of length] by simp
  moreover have "signals = [unreadSignal (js ''w1'', js ''u1'')]"
    using calculation(3,4) by (cases signals) (auto simp: subset_singleton_iff dest: subset_singletonD)
  ultimately show ?thesis by (simp add: unreadSignal_def)
qed

end
