(* ===== verification/Comments.thy ===== *)
theory Comments
  imports Mentions TaskService
begin

section \<open>Comments\<close>

text \<open>
  \<open>comment/comment.service.ts\<close>: the list, creating a comment with its mentions, and deleting one. The
  creation is one transaction; what is published to sockets follows its commit.
\<close>

record CommentDto =
  cd_id :: uuid
  cd_taskId :: uuid
  cd_userId :: uuid
  cd_body :: js_string
  cd_createdAt :: js_string
  cd_author :: "AuthorDto option"

definition toCommentDto :: "world \<Rightarrow> comment_row \<Rightarrow> CommentDto" where
  \<comment> \<open>the author is joined by \<open>include\<close>; the foreign key makes it present\<close>
  "toCommentDto w row =
     \<lparr>cd_id = co_id row, cd_taskId = co_taskId row, cd_userId = co_userId row, cd_body = co_body row,
      cd_createdAt = toISOString (co_createdAt row), cd_author = map_option toAuthorDto (findUser w (co_userId row))\<rparr>"

definition CommentService_findTask :: "uuid \<Rightarrow> uuid \<Rightarrow> task_row handler" where
  "CommentService_findTask workspaceId taskId =
     orThrow (NotFound ''Task not found'') (\<lambda>w. findTaskRow w workspaceId taskId)"

record comment_query =
  cq_cursor :: "js_string js_field"
  cq_limit :: "nat option"

definition CommentService_list :: "uuid \<Rightarrow> uuid \<Rightarrow> comment_query \<Rightarrow> (uuid, CommentDto) cursor_page handler" where
  "CommentService_list workspaceId taskId query =
     bindE (CommentService_findTask workspaceId taskId) (\<lambda>_.
     let limit = (case cq_limit query of None \<Rightarrow> 100 | Some n \<Rightarrow> n) in
     reads (\<lambda>w. toCursorPage co_id
       (take (limit + 1) (sort_key co_id (filter (\<lambda>c. co_taskId c = taskId
         \<and> (case cursorOf (cq_cursor query) of None \<Rightarrow> True | Some k \<Rightarrow> k < co_id c)) (comments w))))
       limit (toCommentDto w)))"

definition insertComment :: "uuid \<Rightarrow> uuid \<Rightarrow> js_string \<Rightarrow> comment_row handler" where
  "insertComment taskId userId body w =
     (let row = \<lparr>co_id = freshId w, co_taskId = taskId, co_userId = userId, co_body = body, co_createdAt = w_now w\<rparr>
      in (Inr row, (tick w)\<lparr>comments := comments w @ [row]\<rparr>))"

definition mentionedMembers :: "uuid \<Rightarrow> uuid list \<Rightarrow> world \<Rightarrow> uuid list" where
  "mentionedMembers workspaceId mentionIds w =
     map m_userId (filter (\<lambda>m. m_workspaceId m = workspaceId \<and> m_userId m \<in> set mentionIds) (members w))"

definition mentionInput :: "uuid \<Rightarrow> uuid \<Rightarrow> task_row \<Rightarrow> uuid \<Rightarrow> uuid \<Rightarrow> CreateNotificationInput" where
  "mentionInput workspaceId userId task commentId activityId =
     \<lparr>ni_workspaceId = workspaceId, ni_userId = [], ni_actorId = userId, ni_type = Mention, ni_taskId = Some (t_id task),
      ni_activityId = Some activityId,
      ni_payload = [(''commentId'', JString commentId), (''taskId'', JString (t_id task)), (''title'', JString (t_title task)),
        (''actorId'', JString userId)]\<rparr>"

definition commentTransaction ::
  "uuid \<Rightarrow> task_row \<Rightarrow> uuid \<Rightarrow> js_string \<Rightarrow> uuid list \<Rightarrow> (CommentDto \<times> uuid list) handler" where
  \<comment> \<open>the comment with the members to be signalled\<close>
  "commentTransaction workspaceId task userId body mentionIds = transaction (
     bindE (insertComment (t_id task) userId body) (\<lambda>created.
     bindE (if mentionIds \<noteq> [] then reads (mentionedMembers workspaceId mentionIds) else return []) (\<lambda>memberIds.
     bindE (recordActivity workspaceId (Some (t_id task)) userId CommentCreated
       [(''commentId'', JString (co_id created)), (''title'', JString (t_title task)),
        (''mentionedUserIds'', JArray (map JString memberIds))]) (\<lambda>activity.
     bindE (if memberIds \<noteq> []
       then NotificationService_createMentionBatch (mentionInput workspaceId userId task (co_id created) (a_id activity)) memberIds
       else return 0) (\<lambda>_.
     reads (\<lambda>w. (toCommentDto w created, memberIds)))))))"

definition CommentService_create :: "uuid \<Rightarrow> uuid \<Rightarrow> uuid \<Rightarrow> js_string \<Rightarrow> CommentDto handler" where
  "CommentService_create workspaceId taskId userId body =
     bindE (CommentService_findTask workspaceId taskId) (\<lambda>task.
     let mentionIds = filter (\<lambda>k. k \<noteq> userId) (parseMentions body) in
     bindE (commentTransaction workspaceId task userId body mentionIds) (\<lambda>(comment, mentionRecipients).
     bindE (modify (\<lambda>w. if mentionRecipients \<noteq> [] then NotificationService_emitUnreadChanged workspaceId mentionRecipients w else w)) (\<lambda>_.
     bindE (modify (emitToBoard (t_boardId task)
       (COMMENT_ADDED \<lparr>e_workspaceId = workspaceId, e_boardId = t_boardId task, e_actorId = userId\<rparr> taskId (cd_id comment)))) (\<lambda>_.
     return comment))))"

definition commentMatches :: "world \<Rightarrow> uuid \<Rightarrow> uuid \<Rightarrow> comment_row \<Rightarrow> bool" where
  \<comment> \<open>\<open>where: { id, task: { board: { workspaceId } } }\<close>\<close>
  "commentMatches w workspaceId commentId c \<longleftrightarrow> co_id c = commentId \<and> taskIn w workspaceId (co_taskId c)"

definition CommentService_remove :: "uuid \<Rightarrow> uuid \<Rightarrow> uuid \<Rightarrow> member_role \<Rightarrow> unit handler" where
  "CommentService_remove workspaceId commentId actorId actorRole = transaction (
     bindE (orThrow (NotFound ''Comment not found'') (\<lambda>w. find (commentMatches w workspaceId commentId) (comments w))) (\<lambda>comment.
     bindE (failIf (co_userId comment \<noteq> actorId \<and> \<not> (actorRole = OWNER \<or> actorRole = ADMIN))
       (Forbidden ''Only the author or an admin can delete this comment'')) (\<lambda>_.
     bindE (reads (\<lambda>w. length (filter (commentMatches w workspaceId commentId) (comments w)))) (\<lambda>count.
     bindE (modify (\<lambda>w. w\<lparr>comments := filter (\<lambda>c. \<not> commentMatches w workspaceId commentId c) (comments w)\<rparr>)) (\<lambda>_.
     failIf (count = 0) (NotFound ''Comment not found''))))))"

end
