(* ===== verification/CommentProps.thy ===== *)
theory CommentProps
  imports Comments MentionProps DueSoonProps
begin

section \<open>Whom a comment reaches\<close>

text \<open>
  Who hears of a comment: the members it mentions, never its author nor a stranger, and what the log keeps
  of it. The lemmas on \<open>mentionedIn\<close> carry the theorem from the parser of mentions to the notifications.
\<close>

definition mentionedIn :: "world \<Rightarrow> uuid \<Rightarrow> uuid \<Rightarrow> js_string \<Rightarrow> uuid set" where
  \<comment> \<open>the members of the workspace a body mentions, its author left out\<close>
  "mentionedIn w workspaceId author body =
     {u. u \<noteq> author \<and> u \<in> set (parseMentions body) \<and> (workspaceId, u) \<in> (\<lambda>m. (m_workspaceId m, m_userId m)) ` set (members w)}"

definition memberOnce :: "world \<Rightarrow> bool" where
  "memberOnce w \<longleftrightarrow> distinct (map (\<lambda>m. (m_workspaceId m, m_userId m)) (members w))"

lemma mentionedMembers_exact:
  assumes "memberOnce w" and "ids = filter (\<lambda>k. k \<noteq> author) (parseMentions body)"
  shows "distinct (mentionedMembers workspaceId ids w)"
    "set (mentionedMembers workspaceId ids w) = mentionedIn w workspaceId author body"
proof -
  have "distinct (map m_userId (filter (\<lambda>m. m_workspaceId m = workspaceId \<and> m_userId m \<in> A) ms))"
    if "distinct (map (\<lambda>m. (m_workspaceId m, m_userId m)) ms)" for ms A
    using that by (induction ms) (auto simp: image_iff)
  then show "distinct (mentionedMembers workspaceId ids w)"
    using assms(1) by (simp add: mentionedMembers_def memberOnce_def)
  show "set (mentionedMembers workspaceId ids w) = mentionedIn w workspaceId author body"
    by (auto simp: mentionedMembers_def mentionedIn_def assms(2))
qed

definition mentionRow :: "uuid \<Rightarrow> uuid \<Rightarrow> task_row \<Rightarrow> uuid \<Rightarrow> uuid \<Rightarrow> uuid \<Rightarrow> notification_row \<Rightarrow> bool" where
  "mentionRow workspaceId author task commentId activityId user n \<longleftrightarrow>
     n_workspaceId n = workspaceId \<and> n_userId n = user \<and> n_type n = Mention \<and> n_taskId n = Some (t_id task)
     \<and> n_activityId n = Some activityId \<and> n_readAt n = None
     \<and> n_payload n = [(''commentId'', JString commentId), (''taskId'', JString (t_id task)), (''title'', JString (t_title task)),
         (''actorId'', JString author)]"

lemma fold_insertNotification:
  "\<exists>new. fold (insertNotification input) us w = w\<lparr>notifications := notifications w @ new, w_seq := w_seq w + length us\<rparr>
     \<and> list_all2 (\<lambda>u n. \<exists>k. n = \<lparr>n_id = k, n_workspaceId = ni_workspaceId input, n_userId = u, n_type = ni_type input,
         n_taskId = ni_taskId input, n_activityId = ni_activityId input, n_payload = ni_payload input, n_readAt = None,
         n_createdAt = w_now w\<rparr>) us new"
proof (induction us arbitrary: w)
  case (Cons u us)
  let ?w1 = "insertNotification input u w"
  from Cons [of ?w1] obtain new where "fold (insertNotification input) us ?w1 =
      ?w1\<lparr>notifications := notifications ?w1 @ new, w_seq := w_seq ?w1 + length us\<rparr>"
    "list_all2 (\<lambda>u n. \<exists>k. n = \<lparr>n_id = k, n_workspaceId = ni_workspaceId input, n_userId = u, n_type = ni_type input,
         n_taskId = ni_taskId input, n_activityId = ni_activityId input, n_payload = ni_payload input, n_readAt = None,
         n_createdAt = w_now ?w1\<rparr>) us new" by blast
  moreover have step: "?w1 = w\<lparr>notifications := notifications w @ [notificationRow w u input], w_seq := Suc (w_seq w)\<rparr>"
    by (simp add: insertNotification_def tick_def)
  ultimately show ?case
    by (intro exI [of _ "notificationRow w u input # new"]) (simp add: step, simp add: notificationRow_def)
qed simp

lemma createMentionBatch_run:
  assumes "distinct us" and "author \<notin> set us"
  shows "\<exists>new. (if us \<noteq> [] then NotificationService_createMentionBatch (mentionInput workspaceId author task commentId activityId) us
      else return 0) w = (Inr (length us), w\<lparr>notifications := notifications w @ new, w_seq := w_seq w + length us\<rparr>)
    \<and> list_all2 (mentionRow workspaceId author task commentId activityId) us new"
proof -
  let ?input = "(mentionInput workspaceId author task commentId activityId)\<lparr>ni_type := Mention\<rparr>"
  from fold_insertNotification [of ?input us w] obtain new where
    new: "fold (insertNotification ?input) us w = w\<lparr>notifications := notifications w @ new, w_seq := w_seq w + length us\<rparr>"
    and rows: "list_all2 (\<lambda>u n. \<exists>k. n = \<lparr>n_id = k, n_workspaceId = ni_workspaceId ?input, n_userId = u, n_type = ni_type ?input,
         n_taskId = ni_taskId ?input, n_activityId = ni_activityId ?input, n_payload = ni_payload ?input, n_readAt = None,
         n_createdAt = w_now w\<rparr>) us new" by blast
  have recipients: "filter (\<lambda>u. u \<noteq> ni_actorId (mentionInput workspaceId author task commentId activityId)) (js_Set us) = us"
    using assms by (auto simp: mentionInput_def js_Set_distinct filter_id_conv)
  have "list_all2 (mentionRow workspaceId author task commentId activityId) us new"
    using rows by (rule list_all2_mono) (auto simp: mentionRow_def mentionInput_def)
  moreover have "(if us \<noteq> [] then NotificationService_createMentionBatch (mentionInput workspaceId author task commentId activityId) us
      else return 0) w = (Inr (length us), w\<lparr>notifications := notifications w @ new, w_seq := w_seq w + length us\<rparr>)"
  proof (cases "us = []")
    case True
    then show ?thesis using rows by (simp add: return_def)
  next
    case False
    then show ?thesis by (simp add: NotificationService_createMentionBatch_def recipients new)
  qed
  ultimately show ?thesis by blast
qed


lemma commentTransaction_run:
  assumes once: "memberOnce w"
    and ids_def: "ids = filter (\<lambda>k. k \<noteq> author) (parseMentions body)" and us_def: "us = mentionedMembers workspaceId ids w"
  shows "\<exists>c a new seq. commentTransaction workspaceId task author body ids w = (Inr (toCommentDto w c, us),
      w\<lparr>comments := comments w @ [c], activities := activities w @ [a], notifications := notifications w @ new, w_seq := seq\<rparr>)
    \<and> co_taskId c = t_id task \<and> co_userId c = author \<and> co_body c = body
    \<and> a_workspaceId a = workspaceId \<and> a_taskId a = Some (t_id task) \<and> a_userId a = author \<and> a_type a = CommentCreated
    \<and> a_payload a = [(''commentId'', JString (co_id c)), (''title'', JString (t_title task)), (''mentionedUserIds'', JArray (map JString us))]
    \<and> list_all2 (mentionRow workspaceId author task (co_id c) (a_id a)) us new"
proof -
  let ?c = "\<lparr>co_id = freshId w, co_taskId = t_id task, co_userId = author, co_body = body, co_createdAt = w_now w\<rparr>"
  let ?w1 = "(tick w)\<lparr>comments := comments w @ [?c]\<rparr>"
  let ?payload = "[(''commentId'', JString (freshId w)), (''title'', JString (t_title task)), (''mentionedUserIds'', JArray (map JString us))]"
  let ?a = "activityRow ?w1 workspaceId (Some (t_id task)) author CommentCreated ?payload"
  let ?w2 = "logActivity workspaceId (Some (t_id task)) author CommentCreated ?payload ?w1"
  have us: "distinct us" "author \<notin> set us"
    using mentionedMembers_exact [OF once ids_def, of workspaceId] by (auto simp: us_def mentionedIn_def)
  have insert: "insertComment (t_id task) author body w = (Inr ?c, ?w1)" by (simp add: insertComment_def Let_def)
  have read: "(if ids \<noteq> [] then reads (mentionedMembers workspaceId ids) else return []) ?w1 = (Inr us, ?w1)"
    by (simp add: us_def mentionedMembers_def reads_def return_def tick_def)
  have log: "recordActivity workspaceId (Some (t_id task)) author CommentCreated ?payload ?w1 = (Inr ?a, ?w2)"
    by (simp add: recordActivity_def)
  from createMentionBatch_run [OF us, of workspaceId task "freshId w" "a_id ?a" ?w2] obtain new where
    batch: "(if us \<noteq> [] then NotificationService_createMentionBatch (mentionInput workspaceId author task (freshId w) (a_id ?a)) us
      else return 0) ?w2 = (Inr (length us), ?w2\<lparr>notifications := notifications ?w2 @ new, w_seq := w_seq ?w2 + length us\<rparr>)"
    and rows: "list_all2 (mentionRow workspaceId author task (freshId w) (a_id ?a)) us new" by blast
  let ?w3 = "?w2\<lparr>notifications := notifications ?w2 @ new, w_seq := w_seq ?w2 + length us\<rparr>"
  have run: "commentTransaction workspaceId task author body ids w = (Inr (toCommentDto ?w3 ?c, us), ?w3)"
    by (simp only: commentTransaction_def transaction_def bindE_def insert prod.case sum.case comment_row.select_convs read log batch
        reads_def)
  have w3: "?w3 = w\<lparr>comments := comments w @ [?c], activities := activities w @ [?a], notifications := notifications w @ new,
      w_seq := w_seq w + 2 + length us\<rparr>"
    by (simp add: logActivity_def tick_def)
  have "toCommentDto ?w3 ?c = toCommentDto w ?c" unfolding w3 by (simp add: toCommentDto_def findUser_def)
  with run w3 rows show ?thesis
    by (intro exI [of _ ?c] exI [of _ ?a] exI [of _ new] exI [of _ "w_seq w + 2 + length us"]) simp
qed


lemma list_all2_users: "list_all2 (mentionRow workspaceId author task k a) us new \<Longrightarrow>
    map n_userId new = us \<and> (\<forall>n \<in> set new. mentionRow workspaceId author task k a (n_userId n) n)"
  by (induction rule: list_all2_induct) (auto simp: mentionRow_def)

text \<open>
  C25. Commenting on a task of the workspace adds one comment and one log entry, and notifies each member
  the body mentions, once, however often: not the author, and nobody who is not a member of the workspace.
  The notification carries the comment and the entry. The log entry, of the author and about the task, says which
  comment it is, the title of the task, and the ids of exactly those who are notified. After the commit each of
  them gets one signal and the board is told of the comment.
\<close>

theorem comment_reaches_members:
  assumes "memberOnce w" and "findTaskRow w workspaceId taskId = Some task"
  shows "\<exists>d w' c a new. CommentService_create workspaceId taskId author body w = (Inr d, w')
    \<and> comments w' = comments w @ [c] \<and> co_taskId c = taskId \<and> co_userId c = author \<and> co_body c = body
    \<and> d = toCommentDto w' c
    \<and> activities w' = activities w @ [a] \<and> a_type a = CommentCreated \<and> a_workspaceId a = workspaceId
    \<and> a_taskId a = Some taskId \<and> a_userId a = author
    \<and> a_payload a = [(''commentId'', JString (co_id c)), (''title'', JString (t_title task)),
        (''mentionedUserIds'', JArray (map (\<lambda>n. JString (n_userId n)) new))]
    \<and> notifications w' = notifications w @ new \<and> distinct (map n_userId new)
    \<and> set (map n_userId new) = mentionedIn w workspaceId author body
    \<and> (\<forall>n \<in> set new. mentionRow workspaceId author task (co_id c) (a_id a) (n_userId n) n)
    \<and> w_published w' = w_published w @ (if w_socketServer w then map (\<lambda>n. unreadSignal (workspaceId, n_userId n)) new
        @ [ToBoard (BoardRoom (t_boardId task)) (COMMENT_ADDED
            \<lparr>e_workspaceId = workspaceId, e_boardId = t_boardId task, e_actorId = author\<rparr> taskId (co_id c))] else [])"
proof -
  let ?ids = "filter (\<lambda>k. k \<noteq> author) (parseMentions body)"
  let ?us = "mentionedMembers workspaceId ?ids w"
  have task: "t_id task = taskId" using assms(2) by (auto simp: findTaskRow_def find_Some_iff)
  note us = mentionedMembers_exact [OF assms(1), of ?ids author body workspaceId, OF refl]
  from commentTransaction_run [OF assms(1) refl refl, of workspaceId task author body] obtain c a new seq where
    run: "commentTransaction workspaceId task author body ?ids w = (Inr (toCommentDto w c, ?us),
      w\<lparr>comments := comments w @ [c], activities := activities w @ [a], notifications := notifications w @ new, w_seq := seq\<rparr>)"
    and c: "co_taskId c = taskId" "co_userId c = author" "co_body c = body"
    and a: "a_taskId a = Some taskId" "a_userId a = author" "a_type a = CommentCreated" "a_workspaceId a = workspaceId"
      "a_payload a = [(''commentId'', JString (co_id c)), (''title'', JString (t_title task)), (''mentionedUserIds'', JArray (map JString ?us))]"
    and rows: "list_all2 (mentionRow workspaceId author task (co_id c) (a_id a)) ?us new"
    unfolding task by blast
  let ?w1 = "w\<lparr>comments := comments w @ [c], activities := activities w @ [a], notifications := notifications w @ new, w_seq := seq\<rparr>"
  let ?board = "COMMENT_ADDED \<lparr>e_workspaceId = workspaceId, e_boardId = t_boardId task, e_actorId = author\<rparr> taskId (co_id c)"
  have signals: "(if ?us \<noteq> [] then NotificationService_emitUnreadChanged workspaceId ?us ?w1 else ?w1) =
      ?w1\<lparr>w_published := w_published w @ (if w_socketServer w then map (\<lambda>u. unreadSignal (workspaceId, u)) ?us else [])\<rparr>"
    by (simp add: NotificationService_emitUnreadChanged_def js_Set_distinct [OF us(1)] fold_emitToUser)
  let ?w2 = "?w1\<lparr>w_published := w_published w @ (if w_socketServer w then map (\<lambda>u. unreadSignal (workspaceId, u)) ?us else [])\<rparr>"
  have found: "CommentService_findTask workspaceId taskId w = (Inr task, w)"
    by (simp add: CommentService_findTask_def orThrow_def assms(2))
  have id: "cd_id (toCommentDto w c) = co_id c" by (simp add: toCommentDto_def)
  have "CommentService_create workspaceId taskId author body w = (Inr (toCommentDto w c), emitToBoard (t_boardId task) ?board ?w2)"
    by (simp only: CommentService_create_def bindE_def found prod.case sum.case Let_def run modify_def signals return_def id)
  moreover have "toCommentDto (emitToBoard (t_boardId task) ?board ?w2) c = toCommentDto w c"
    by (simp add: toCommentDto_def findUser_def emitToBoard_def)
  moreover have users: "map n_userId new = ?us" and each: "\<forall>n \<in> set new. mentionRow workspaceId author task (co_id c) (a_id a) (n_userId n) n"
    using list_all2_users [OF rows] by auto
  have "map (\<lambda>n. unreadSignal (workspaceId, n_userId n)) new = map (\<lambda>u. unreadSignal (workspaceId, u)) ?us"
    unfolding users [symmetric] by simp
  then have "w_published (emitToBoard (t_boardId task) ?board ?w2) = w_published w
      @ (if w_socketServer w then map (\<lambda>n. unreadSignal (workspaceId, n_userId n)) new @ [ToBoard (BoardRoom (t_boardId task)) ?board] else [])"
    by (simp add: emitToBoard_def)
  moreover have "comments (emitToBoard (t_boardId task) ?board ?w2) = comments w @ [c]"
    "activities (emitToBoard (t_boardId task) ?board ?w2) = activities w @ [a]"
    "notifications (emitToBoard (t_boardId task) ?board ?w2) = notifications w @ new"
    by (simp_all add: emitToBoard_def)
  moreover have "distinct (map n_userId new)" "set (map n_userId new) = mentionedIn w workspaceId author body"
    using us by (simp_all only: users)
  moreover have "map (\<lambda>n. JString (n_userId n)) new = map JString ?us" unfolding users [symmetric] by simp
  ultimately show ?thesis
    using c a each
    by (intro exI [of _ "toCommentDto w c"] exI [of _ "emitToBoard (t_boardId task) ?board ?w2"] exI [of _ c] exI [of _ a] exI [of _ new])
      simp
qed

definition adaWorld :: world where
  \<comment> \<open>a workspace with a second member and a task\<close>
  "adaWorld = sampleWorld\<lparr>members := [\<lparr>m_id = js ''m1'', m_workspaceId = js ''w1'', m_userId = js ''u1'', m_role = OWNER, m_createdAt = 0\<rparr>,
     \<lparr>m_id = js ''m2'', m_workspaceId = js ''w1'', m_userId = sampleAda, m_role = MEMBER, m_createdAt = 0\<rparr>]\<rparr>"

theorem comment_reaches_members_witness:
  "\<exists>d w'. CommentService_create (js ''w1'') (js ''t1'') (js ''u1'')
      (js ''@[Ada](0198e2c0-9a1b-7f04-8c3d-2b5e7a9c1d53) @[Ada](0198e2c0-9a1b-7f04-8c3d-2b5e7a9c1d53)'') adaWorld = (Inr d, w')
    \<and> map n_userId (notifications w') = [js ''u2'', sampleAda]"
proof -
  let ?body = "js ''@[Ada](0198e2c0-9a1b-7f04-8c3d-2b5e7a9c1d53) @[Ada](0198e2c0-9a1b-7f04-8c3d-2b5e7a9c1d53)''"
  have ids: "parseMentions ?body = [sampleAda]" by code_simp
  have ne: "sampleAda \<noteq> js ''u1''" by code_simp
  have once: "memberOnce adaWorld" using ne by (simp add: memberOnce_def adaWorld_def del: js_Cons)
  have "mentionedIn adaWorld (js ''w1'') (js ''u1'') ?body = {sampleAda}"
    unfolding mentionedIn_def ids using ne by (auto simp: adaWorld_def simp del: js_Cons)
  moreover obtain task where task: "findTaskRow adaWorld (js ''w1'') (js ''t1'') = Some task"
    by (simp add: findTaskRow_def adaWorld_def sampleWorld_def sampleTask_def boardIn_def)
  ultimately obtain d w' new where run: "CommentService_create (js ''w1'') (js ''t1'') (js ''u1'') ?body adaWorld = (Inr d, w')"
    and new: "notifications w' = notifications adaWorld @ new" "distinct (map n_userId new)" "set (map n_userId new) = {sampleAda}"
    using comment_reaches_members [OF once task, of "js ''u1''" ?body] by (elim exE conjE) (simp del: js_Cons)
  have "map n_userId new = [sampleAda]"
    using new(2,3) by (cases "map n_userId new") (auto dest: subset_singletonD)
  moreover have "map n_userId (notifications adaWorld) = [js ''u2'']" by (simp add: adaWorld_def sampleWorld_def)
  ultimately show ?thesis using run new(1) by (intro exI [of _ d] exI [of _ w']) (simp del: js_Cons)
qed

subsection \<open>Deleting a comment\<close>

text \<open>
  A comment of another workspace is not found; otherwise only its author, an owner or an administrator
  deletes it, and nothing but the comment goes.
\<close>

theorem comment_removal:
  "case find (commentMatches w workspaceId commentId) (comments w) of
     None \<Rightarrow> CommentService_remove workspaceId commentId actor role w = (Inl (NotFound ''Comment not found''), w)
   | Some c \<Rightarrow> CommentService_remove workspaceId commentId actor role w =
       (if co_userId c = actor \<or> role = OWNER \<or> role = ADMIN
        then (Inr (), w\<lparr>comments := filter (\<lambda>c. \<not> commentMatches w workspaceId commentId c) (comments w)\<rparr>)
        else (Inl (Forbidden ''Only the author or an admin can delete this comment''), w))"
proof (cases "find (commentMatches w workspaceId commentId) (comments w)")
  case None
  then show ?thesis by (simp add: CommentService_remove_def transaction_def bindE_def orThrow_def)
next
  case (Some c)
  then have "filter (commentMatches w workspaceId commentId) (comments w) \<noteq> []"
    by (auto simp: find_Some_iff filter_empty_conv)
  with Some show ?thesis
    by (auto simp: CommentService_remove_def transaction_def bindE_def orThrow_def failIf_def modify_def reads_def)
qed

end
