(* ===== verification/AttachmentFormats.thy ===== *)
theory AttachmentFormats
  imports Json Store
begin

section \<open>What is accepted as an attachment, and how it is named\<close>

text \<open>
  \<open>attachment/attachment-mime.ts\<close>, \<open>attachment-disposition.ts\<close>, \<open>attachment-storage-key.ts\<close> and the two
  functions on names of \<open>attachment.service.ts\<close>. The sniffer of the package \<open>file-type\<close> is a parameter: the
  media type it finds in the bytes, or none. \<open>encodeURIComponent\<close> and the fatal \<open>TextDecoder\<close> are written
  out; both refuse with \<open>None\<close>.
\<close>

subsection \<open>Text\<close>

fun utf8Fatal :: "utf8_state \<Rightarrow> 8 word list \<Rightarrow> js_string option" where
  \<comment> \<open>the decoder of Json, refusing where that one replaces\<close>
  "utf8Fatal (need, cp, low, high) [] = (if need = 0 then Some [] else None)"
| "utf8Fatal (need, cp, low, high) (b # bs) =
     (if need = 0 then
        (if unat b \<le> 0x7F \<or> 0xC2 \<le> unat b \<and> unat b \<le> 0xF4
         then (case utf8Start b of (out, st) \<Rightarrow> map_option ((@) out) (utf8Fatal st bs)) else None)
      else if low \<le> unat b \<and> unat b \<le> high then
        (let cp' = cp * 64 + (unat b - 0x80)
         in if need = 1 then map_option ((@) (utf16 cp')) (utf8Fatal utf8Ready bs) else utf8Fatal (need - 1, cp', 0x80, 0xBF) bs)
      else None)"

definition decodeUtf8 :: "8 word list \<Rightarrow> js_string option" where
  \<comment> \<open>\<open>new TextDecoder('utf-8', { fatal: true }).decode(bytes)\<close>, which drops one byte order mark\<close>
  "decodeUtf8 bytes = map_option (\<lambda>s. case s of [] \<Rightarrow> [] | c # cs \<Rightarrow> if c = 0xFEFF then cs else s) (utf8Fatal utf8Ready bytes)"

definition utf8Bytes :: "nat \<Rightarrow> nat list" where
  \<comment> \<open>the bytes of a code point\<close>
  "utf8Bytes cp =
     (if cp < 0x80 then [cp]
      else if cp < 0x800 then [0xC0 + cp div 64, 0x80 + cp mod 64]
      else if cp < 0x10000 then [0xE0 + cp div 4096, 0x80 + cp div 64 mod 64, 0x80 + cp mod 64]
      else [0xF0 + cp div 262144, 0x80 + cp div 4096 mod 64, 0x80 + cp div 64 mod 64, 0x80 + cp mod 64])"

definition upperHex :: "nat \<Rightarrow> code_unit" where
  "upperHex d = (if d < 10 then of_nat (48 + d) else of_nat (55 + d))"

definition percent :: "nat \<Rightarrow> js_string" where
  "percent b = [0x25, upperHex (b div 16), upperHex (b mod 16)]"

definition uriUnreserved :: "code_unit \<Rightarrow> bool" where
  "uriUnreserved c \<longleftrightarrow> 48 \<le> c \<and> c \<le> 57 \<or> 65 \<le> c \<and> c \<le> 90 \<or> 97 \<le> c \<and> c \<le> 122
     \<or> c \<in> set (js ''-_.!~*'' @ [0x27] @ js ''()'')"

definition highSurrogate :: "code_unit \<Rightarrow> bool" where
  "highSurrogate c \<longleftrightarrow> 0xD800 \<le> c \<and> c \<le> 0xDBFF"

definition lowSurrogate :: "code_unit \<Rightarrow> bool" where
  "lowSurrogate c \<longleftrightarrow> 0xDC00 \<le> c \<and> c \<le> 0xDFFF"

definition codePoint :: "code_unit \<Rightarrow> code_unit \<Rightarrow> nat" where
  "codePoint c d = 0x10000 + (unat c - 0xD800) * 1024 + (unat d - 0xDC00)"

fun encodeURIComponent :: "js_string \<Rightarrow> js_string option" where
  \<comment> \<open>\<open>None\<close> is the \<open>URIError\<close> of a surrogate that stands alone\<close>
  "encodeURIComponent [] = Some []"
| "encodeURIComponent (c # cs) =
     (if uriUnreserved c then map_option ((#) c) (encodeURIComponent cs)
      else if lowSurrogate c then None
      else if highSurrogate c then
        (case cs of
           [] \<Rightarrow> None
         | d # ds \<Rightarrow> if lowSurrogate d
             then map_option ((@) (concat (map percent (utf8Bytes (codePoint c d))))) (encodeURIComponent ds) else None)
      else map_option ((@) (concat (map percent (utf8Bytes (unat c))))) (encodeURIComponent cs))"

subsection \<open>Media types\<close>

definition ALLOWED_MIME_TYPES :: "js_string list" where
  "ALLOWED_MIME_TYPES = map js
     [''image/png'', ''image/jpeg'', ''image/gif'', ''image/webp'', ''application/pdf'',
      ''application/vnd.openxmlformats-officedocument.wordprocessingml.document'',
      ''application/vnd.openxmlformats-officedocument.spreadsheetml.sheet'',
      ''application/vnd.openxmlformats-officedocument.presentationml.presentation'',
      ''application/vnd.oasis.opendocument.text'', ''application/vnd.oasis.opendocument.spreadsheet'',
      ''application/vnd.oasis.opendocument.presentation'', ''application/zip'', ''text/plain'', ''text/csv'']"

definition INLINE_MIME_TYPES :: "js_string list" where
  "INLINE_MIME_TYPES = map js [''image/png'', ''image/jpeg'', ''image/gif'', ''image/webp'']"

definition TEXT_MEDIA_TYPES :: "js_string list" where
  "TEXT_MEDIA_TYPES = map js [''text/plain'', ''text/csv'']"

definition TEXT_DECLARATIONS :: "js_string list" where
  "TEXT_DECLARATIONS = map js [''text/plain'', ''text/csv'']"

type_synonym sniffer = "8 word list \<Rightarrow> js_string option"

definition plainTextType :: "8 word list \<Rightarrow> js_string \<Rightarrow> js_string option" where
  "plainTextType bytes declared =
     (let label = js_lower (js_trim (hd (splitOn 0x3B declared))) in
      case find (\<lambda>candidate. candidate = label) TEXT_DECLARATIONS of
        None \<Rightarrow> None
      | Some match \<Rightarrow>
          if 0 \<in> set bytes then None
          else (case decodeUtf8 bytes of
              None \<Rightarrow> None
            | Some text \<Rightarrow> if take 1 (dropWhile js_space text) = js ''<'' then None else Some match))"

definition assertAllowedMimeType :: "sniffer \<Rightarrow> 8 word list \<Rightarrow> js_string \<Rightarrow> http_error + js_string" where
  "assertAllowedMimeType sniff bytes declared =
     (case sniff bytes of
        Some sniffed \<Rightarrow>
          if sniffed \<in> set ALLOWED_MIME_TYPES then Inr sniffed else Inl (UnsupportedMediaType ''This file type is not accepted'')
      | None \<Rightarrow> (case plainTextType bytes declared of
            Some text \<Rightarrow> Inr text
          | None \<Rightarrow> Inl (UnsupportedMediaType ''This file type is not accepted'')))"

subsection \<open>Names\<close>

definition UNSAFE_DISPLAY_CHARACTERS :: "code_unit \<Rightarrow> bool" where
  "UNSAFE_DISPLAY_CHARACTERS c \<longleftrightarrow> c = 0x22 \<or> c = 0x5C \<or> c \<le> 0x1F \<or> 0x7F \<le> c \<and> c \<le> 0x9F \<or> c = 0x061C
     \<or> c = 0x200E \<or> c = 0x200F \<or> 0x202A \<le> c \<and> c \<le> 0x202E \<or> 0x2066 \<le> c \<and> c \<le> 0x2069"

definition UNSAFE_HEADER_CHARACTERS :: "code_unit \<Rightarrow> bool" where
  "UNSAFE_HEADER_CHARACTERS c \<longleftrightarrow> c = 0x22 \<or> c = 0x5C \<or> c \<le> 0x1F \<or> 0x7F \<le> c \<and> c \<le> 0x9F \<or> c = 0x061C
     \<or> c = 0x200E \<or> c = 0x200F \<or> 0x202A \<le> c \<and> c \<le> 0x202E \<or> 0x2066 \<le> c \<and> c \<le> 0x2069"

definition safeDisplayName :: "js_string \<Rightarrow> js_string" where
  "safeDisplayName value = take 255 (js_trim (filter (\<lambda>c. \<not> UNSAFE_DISPLAY_CHARACTERS c) value))"

fun afterSeparator :: "js_string \<Rightarrow> js_string" where
  \<comment> \<open>\<open>split(/[/\\]/).pop()\<close>: what follows the last separator\<close>
  "afterSeparator [] = []"
| "afterSeparator (c # cs) =
     (if list_ex (\<lambda>d. d = 0x2F \<or> d = 0x5C) cs then afterSeparator cs
      else if c = 0x2F \<or> c = 0x5C then cs else c # cs)"

definition displayFilename :: "js_string \<Rightarrow> js_string" where
  "displayFilename original =
     (let cleaned = safeDisplayName (afterSeparator original) in if cleaned = [] then js ''attachment'' else cleaned)"

definition contentDisposition :: "js_string \<Rightarrow> js_string \<Rightarrow> http_error + js_string" where
  "contentDisposition mimeType filename =
     (let kind = (if mimeType \<in> set INLINE_MIME_TYPES then js ''inline'' else js ''attachment'');
          safe = filter (\<lambda>c. \<not> UNSAFE_HEADER_CHARACTERS c) filename;
          substituted = map (\<lambda>c. if 0x20 \<le> c \<and> c \<le> 0x7E then c else 0x5F) safe;
          ascii = (if substituted = [] then js ''attachment'' else substituted) in
      case encodeURIComponent safe of
        None \<Rightarrow> Inl (InternalError ''URI malformed'')
      | Some encoded \<Rightarrow> Inr (kind @ js ''; filename='' @ [0x22] @ ascii @ [0x22] @ js ''; filename*=UTF-8'' @ [0x27, 0x27] @ encoded))"

definition storageKeyFor :: "uuid \<Rightarrow> js_string" where
  "storageKeyFor attachmentId =
     (let hex = filter (\<lambda>c. c \<noteq> 0x2D) attachmentId in
      take 2 hex @ [0x2F] @ take 2 (drop 2 hex) @ [0x2F] @ attachmentId)"

end
