(* ===== verification/AttachmentNames.thy ===== *)
theory AttachmentNames
  imports AttachmentFormats
begin

section \<open>The name of a download\<close>

text \<open>
  What a browser reads back from the header of a download: the extended parameter is undone byte by byte and
  decoded as UTF-8. A well-formed string is one whose surrogates come in pairs.
\<close>

fun isWellFormed :: "js_string \<Rightarrow> bool" where
  "isWellFormed [] = True"
| "isWellFormed (c # cs) =
     (if lowSurrogate c then False
      else if highSurrogate c then (case cs of [] \<Rightarrow> False | d # ds \<Rightarrow> lowSurrogate d \<and> isWellFormed ds)
      else isWellFormed cs)"

definition hexValue :: "code_unit \<Rightarrow> nat option" where
  "hexValue c = (if 48 \<le> c \<and> c \<le> 57 then Some (unat c - 48) else if 65 \<le> c \<and> c \<le> 70 then Some (unat c - 55) else None)"

fun percentDecode :: "js_string \<Rightarrow> 8 word list option" where
  "percentDecode [] = Some []"
| "percentDecode (c # cs) =
     (if c = 0x25 then
        (case cs of
           a # b # rest \<Rightarrow> (case (hexValue a, hexValue b) of
               (Some x, Some y) \<Rightarrow> map_option ((#) (of_nat (16 * x + y))) (percentDecode rest) | _ \<Rightarrow> None)
         | _ \<Rightarrow> None)
      else map_option ((#) (of_nat (unat c))) (percentDecode cs))"

definition readExtValue :: "js_string \<Rightarrow> js_string option" where
  \<comment> \<open>RFC 5987, the charset and the empty language aside\<close>
  "readExtValue s = (case percentDecode s of None \<Rightarrow> None | Some bytes \<Rightarrow> utf8Fatal utf8Ready bytes)"

subsection \<open>Bytes\<close>

lemma unat_byte: "b < 256 \<Longrightarrow> unat (of_nat b :: 8 word) = b"
  by (simp add: unat_of_nat take_bit_eq_mod)

lemma unat_unit: "b < 65536 \<Longrightarrow> unat (of_nat b :: code_unit) = b"
  by (simp add: unat_of_nat take_bit_eq_mod)

lemma unat_less_unit: "unat (c :: code_unit) < 65536"
  using unsigned_less [of c, where 'a = nat] by simp

lemma hexValue_upperHex: "d < 16 \<Longrightarrow> hexValue (upperHex d) = Some d"
proof -
  have "\<forall>d \<in> set [0..<16]. hexValue (upperHex d) = Some d" by code_simp
  then show "d < 16 \<Longrightarrow> ?thesis" by simp
qed

lemma percentDecode_percent:
  "b < 256 \<Longrightarrow> percentDecode (percent b @ e) = map_option ((#) (of_nat b)) (percentDecode e)"
  by (simp add: percent_def hexValue_upperHex)

lemma percentDecode_bytes:
  "\<forall>b \<in> set bs. b < 256 \<Longrightarrow> percentDecode (concat (map percent bs) @ e) = map_option ((@) (map of_nat bs)) (percentDecode e)"
proof (induction bs)
  case Nil
  show ?case by (cases "percentDecode e") simp_all
next
  case (Cons b bs)
  then show ?case by (simp add: percentDecode_percent option.map_comp o_def)
qed

lemma utf8Bytes_bound: "cp < 0x110000 \<Longrightarrow> \<forall>b \<in> set (utf8Bytes cp). b < 256"
  by (auto simp: utf8Bytes_def)

lemma utf8Fatal_ready:
  "utf8Fatal utf8Ready (b # bs) =
     (if unat b \<le> 0x7F \<or> 0xC2 \<le> unat b \<and> unat b \<le> 0xF4
      then (case utf8Start b of (out, st) \<Rightarrow> map_option ((@) out) (utf8Fatal st bs)) else None)"
  by (simp add: utf8Ready_def)

lemma utf8Fatal_more:
  assumes "0 < need" and "low \<le> b" and "b \<le> high" and "b < 256"
  shows "utf8Fatal (need, cp, low, high) (of_nat b # bs) =
    (if need = 1 then map_option ((@) (utf16 (cp * 64 + (b - 0x80)))) (utf8Fatal utf8Ready bs)
     else utf8Fatal (need - 1, cp * 64 + (b - 0x80), 0x80, 0xBF) bs)"
  using assms by (simp add: unat_byte Let_def)

lemma map_option_append_Nil [simp]: "map_option ((@) []) x = x"
  by (cases x) simp_all

lemma utf8Fatal_lead:
  assumes "0xC2 \<le> b" and "b \<le> 0xF4" and "utf8Start (of_nat b) = ([], st)"
  shows "utf8Fatal utf8Ready (of_nat b # bs) = utf8Fatal st bs"
  using assms by (simp add: utf8Fatal_ready unat_byte)

lemma utf8Start_two: "0xC2 \<le> b \<Longrightarrow> b \<le> 0xDF \<Longrightarrow> utf8Start (of_nat b) = ([], (1, b - 0xC0, 0x80, 0xBF))"
  by (simp add: utf8Start_def unat_byte)

lemma utf8Start_three: "0xE0 \<le> b \<Longrightarrow> b \<le> 0xEF \<Longrightarrow> utf8Start (of_nat b) =
    ([], (2, b - 0xE0, if b = 0xE0 then 0xA0 else 0x80, if b = 0xED then 0x9F else 0xBF))"
  by (simp add: utf8Start_def unat_byte)

lemma utf8Start_four: "0xF0 \<le> b \<Longrightarrow> b \<le> 0xF4 \<Longrightarrow> utf8Start (of_nat b) =
    ([], (3, b - 0xF0, if b = 0xF0 then 0x90 else 0x80, if b = 0xF4 then 0x8F else 0xBF))"
  by (simp add: utf8Start_def unat_byte)

lemma two_bytes:
  assumes "0xC2 \<le> a" "a \<le> 0xDF" "0x80 \<le> b" "b \<le> 0xBF"
  shows "utf8Fatal utf8Ready (of_nat a # of_nat b # rest) =
    map_option ((@) (utf16 ((a - 0xC0) * 64 + (b - 0x80)))) (utf8Fatal utf8Ready rest)"
proof -
  have "a \<le> 0xF4" "b < 256" using assms by linarith+
  then show ?thesis using assms by (simp add: utf8Fatal_lead utf8Start_two utf8Fatal_more del: utf8Fatal.simps)
qed

lemma three_bytes:
  assumes "0xE0 \<le> a" "a \<le> 0xEF" "(if a = 0xE0 then 0xA0 else 0x80) \<le> b" "b \<le> (if a = 0xED then 0x9F else 0xBF)"
    and "0x80 \<le> c" "c \<le> 0xBF"
  shows "utf8Fatal utf8Ready (of_nat a # of_nat b # of_nat c # rest) =
    map_option ((@) (utf16 (((a - 0xE0) * 64 + (b - 0x80)) * 64 + (c - 0x80)))) (utf8Fatal utf8Ready rest)"
proof -
  have "0xC2 \<le> a" "a \<le> 0xF4" "b < 256" "c < 256" using assms by (auto split: if_splits)
  note lead = utf8Fatal_lead [OF this(1,2) utf8Start_three [OF assms(1,2)]]
  have "0 < (2 :: nat)" by simp
  note more = utf8Fatal_more [OF this assms(3,4) \<open>b < 256\<close>]
  have "2 - 1 = (1 :: nat)" "2 \<noteq> (1 :: nat)" by simp_all
  with utf8Fatal_more [OF zero_less_one assms(5,6) \<open>c < 256\<close>] show ?thesis unfolding lead more by simp
qed

lemma four_bytes:
  assumes "0xF0 \<le> a" "a \<le> 0xF4" "(if a = 0xF0 then 0x90 else 0x80) \<le> b" "b \<le> (if a = 0xF4 then 0x8F else 0xBF)"
    and "0x80 \<le> c" "c \<le> 0xBF" "0x80 \<le> d" "d \<le> 0xBF"
  shows "utf8Fatal utf8Ready (of_nat a # of_nat b # of_nat c # of_nat d # rest) =
    map_option ((@) (utf16 ((((a - 0xF0) * 64 + (b - 0x80)) * 64 + (c - 0x80)) * 64 + (d - 0x80)))) (utf8Fatal utf8Ready rest)"
proof -
  have "0xC2 \<le> a" "b < 256" "c < 256" "d < 256" using assms by (auto split: if_splits)
  note lead = utf8Fatal_lead [OF this(1) assms(2) utf8Start_four [OF assms(1,2)]]
  have "0 < (3 :: nat)" "0 < (2 :: nat)" by simp_all
  note more = utf8Fatal_more [OF this(1) assms(3,4) \<open>b < 256\<close>] utf8Fatal_more [OF this(2) assms(5,6) \<open>c < 256\<close>]
  have "3 - 1 = (2 :: nat)" "2 - 1 = (1 :: nat)" by simp_all
  with utf8Fatal_more [OF zero_less_one assms(7,8) \<open>d < 256\<close>] more show ?thesis unfolding lead by simp
qed

lemma base64_three:
  obtains x y z where "cp div 4096 = x" and "cp div 64 mod 64 = y" and "cp mod 64 = z"
    and "cp = (x * 64 + y) * 64 + z" and "y < 64" and "z < (64 :: nat)"
proof
  have "cp div 4096 = cp div 64 div 64" by (simp add: div_mult2_eq [symmetric])
  then show "cp = (cp div 4096 * 64 + cp div 64 mod 64) * 64 + cp mod 64" by simp
qed (rule refl | simp)+

lemma base64_four:
  obtains v x y z where "cp div 262144 = v" and "cp div 4096 mod 64 = x" and "cp div 64 mod 64 = y" and "cp mod 64 = z"
    and "cp = ((v * 64 + x) * 64 + y) * 64 + z" and "x < 64" and "y < 64" and "z < (64 :: nat)"
proof
  have "cp div 4096 = cp div 64 div 64" "cp div 262144 = cp div 64 div 64 div 64" by (simp_all add: div_mult2_eq [symmetric])
  then show "cp = ((cp div 262144 * 64 + cp div 4096 mod 64) * 64 + cp div 64 mod 64) * 64 + cp mod 64" by simp
qed (rule refl | simp)+

lemma utf8Fatal_bytes:
  assumes "cp < 0x110000" and "\<not> (0xD800 \<le> cp \<and> cp \<le> 0xDFFF)"
  shows "utf8Fatal utf8Ready (map of_nat (utf8Bytes cp) @ rest) = map_option ((@) (utf16 cp)) (utf8Fatal utf8Ready rest)"
proof -
  consider "cp < 0x80" | "0x80 \<le> cp" "cp < 0x800" | "0x800 \<le> cp" "cp < 0x10000" | "0x10000 \<le> cp" by linarith
  then show ?thesis
  proof cases
    case 1
    then have "unat (of_nat cp :: 8 word) = cp" by (intro unat_byte) simp
    with 1 show ?thesis by (simp add: utf8Bytes_def utf8Fatal_ready utf8Start_def utf16_def del: utf8Fatal.simps)
  next
    case 2
    obtain y z where d: "cp div 64 = y" "cp mod 64 = z" by blast
    then have "cp = y * 64 + z" "z < 64" by auto
    note d = d this
    then have a: "0xC2 \<le> 0xC0 + y" "0xC0 + y \<le> 0xDF" "0x80 \<le> 0x80 + z" "0x80 + z \<le> 0xBF"
      using 2 by linarith+
    have "utf8Bytes cp = [0xC0 + y, 0x80 + z]" using 2 d(1,2) by (simp add: utf8Bytes_def)
    then show ?thesis using two_bytes [OF a, of rest] d(3) by simp
  next
    case 3
    obtain x y z where d: "cp div 4096 = x" "cp div 64 mod 64 = y" "cp mod 64 = z" "cp = (x * 64 + y) * 64 + z" "y < 64" "z < 64"
      by (rule base64_three)
    have e: "cp = 4096 * x + 64 * y + z" using d(4) by simp
    have a: "0xE0 \<le> 0xE0 + x" "0xE0 + x \<le> 0xEF" "0x80 \<le> 0x80 + z" "0x80 + z \<le> 0xBF"
      using 3 e d(6) by linarith+
    have "32 \<le> y" if "x = 0" using that e d(6) 3(1) by linarith
    then have low: "(if 0xE0 + x = 0xE0 then 0xA0 else 0x80) \<le> 0x80 + y" by simp
    have "y \<le> 31" if "x = 13" using that e d(5,6) assms(2) by linarith
    then have high: "0x80 + y \<le> (if 0xE0 + x = 0xED then 0x9F else 0xBF)" using d(5) by simp
    have "utf8Bytes cp = [0xE0 + x, 0x80 + y, 0x80 + z]" using 3 d(1,2,3) by (simp add: utf8Bytes_def)
    then show ?thesis using three_bytes [OF a(1,2) low high a(3,4), of rest] d(4) by simp
  next
    case 4
    obtain v x y z where d: "cp div 262144 = v" "cp div 4096 mod 64 = x" "cp div 64 mod 64 = y" "cp mod 64 = z"
        "cp = ((v * 64 + x) * 64 + y) * 64 + z" "x < 64" "y < 64" "z < 64"
      by (rule base64_four)
    have e: "cp = 262144 * v + 4096 * x + 64 * y + z" using d(5) by simp
    have a: "0xF0 \<le> 0xF0 + v" "0xF0 + v \<le> 0xF4" "0x80 \<le> 0x80 + y" "0x80 + y \<le> 0xBF" "0x80 \<le> 0x80 + z" "0x80 + z \<le> 0xBF"
      using 4 assms(1) e d(7,8) by linarith+
    have "16 \<le> x" if "v = 0" using that e d(7,8) 4 by linarith
    then have low: "(if 0xF0 + v = 0xF0 then 0x90 else 0x80) \<le> 0x80 + x" by simp
    have "x \<le> 15" if "v = 4" using that e assms(1) by linarith
    then have high: "0x80 + x \<le> (if 0xF0 + v = 0xF4 then 0x8F else 0xBF)" using d(6) by simp
    have "utf8Bytes cp = [0xF0 + v, 0x80 + x, 0x80 + y, 0x80 + z]" using 4 d(1,2,3,4) by (simp add: utf8Bytes_def)
    then show ?thesis using four_bytes [OF a(1,2) low high a(3,4,5,6), of rest] d(5) by simp
  qed
qed

subsection \<open>Percent encoding\<close>

definition attrChar :: "code_unit \<Rightarrow> bool" where
  "attrChar c \<longleftrightarrow> uriUnreserved c \<or> c = 0x25"

lemma upperHex_attr: "d < 16 \<Longrightarrow> attrChar (upperHex d)"
proof -
  have "\<forall>d \<in> set [0..<16]. attrChar (upperHex d)" by code_simp
  then show "d < 16 \<Longrightarrow> ?thesis" by simp
qed

lemma percent_attr: "b < 256 \<Longrightarrow> list_all attrChar (percent b)"
  by (simp add: percent_def upperHex_attr) (simp add: attrChar_def)

lemma percent_bytes_attr: "\<forall>b \<in> set bs. b < 256 \<Longrightarrow> list_all attrChar (concat (map percent bs))"
  by (induction bs) (simp_all add: percent_attr)

lemma uriUnreserved_ascii:
  assumes "uriUnreserved c"
  shows "c < 0x7F" and "0x20 < c" and "c \<noteq> 0x25" and "c \<noteq> 0x22" and "c \<noteq> 0x5C" and "c \<noteq> 0x3B"
    and "\<not> lowSurrogate c" and "\<not> highSurrogate c"
  using assms unfolding uriUnreserved_def lowSurrogate_def highSurrogate_def
  by (auto simp: word_less_nat_alt word_le_nat_alt)

lemma codePoint_utf16:
  assumes "highSurrogate c" and "lowSurrogate d"
  shows "utf16 (codePoint c d) = [c, d]" and "codePoint c d < 0x110000" and "0x10000 \<le> codePoint c d"
proof -
  have c: "0xD800 \<le> unat c" "unat c \<le> 0xDBFF" and d: "0xDC00 \<le> unat d" "unat d \<le> 0xDFFF"
    using assms by (simp_all add: highSurrogate_def lowSurrogate_def word_le_nat_alt)
  then show "codePoint c d < 0x110000" "0x10000 \<le> codePoint c d" by (simp_all add: codePoint_def)
  obtain x y where x: "unat c = 0xD800 + x" and y: "unat d = 0xDC00 + y" using c d by (metis le_Suc_ex)
  then have "y < 1024" using d by simp
  then have "codePoint c d - 0x10000 = x * 1024 + y" "(x * 1024 + y) div 1024 = x" "(x * 1024 + y) mod 1024 = y"
    by (simp_all add: codePoint_def x y)
  then have "utf16 (codePoint c d) = [of_nat (unat c), of_nat (unat d)]"
    by (simp only: utf16_def x y) (simp add: codePoint_def)
  then show "utf16 (codePoint c d) = [c, d]" by simp
qed

lemma unpaired_utf16:
  assumes "\<not> lowSurrogate c" and "\<not> highSurrogate c"
  shows "utf16 (unat c) = [c]" and "\<not> (0xD800 \<le> unat c \<and> unat c \<le> 0xDFFF)"
  using assms unat_less_unit [of c] by (auto simp: utf16_def lowSurrogate_def highSurrogate_def word_le_nat_alt)

lemma encode_step:
  assumes cp: "cp < 0x110000" "\<not> (0xD800 \<le> cp \<and> cp \<le> 0xDFFF)" and e: "readExtValue e = Some s" "list_all attrChar e"
  shows "readExtValue (concat (map percent (utf8Bytes cp)) @ e) = Some (utf16 cp @ s)
    \<and> list_all attrChar (concat (map percent (utf8Bytes cp)) @ e)"
proof -
  obtain bytes where b: "percentDecode e = Some bytes" "utf8Fatal utf8Ready bytes = Some s"
    using e(1) by (auto simp: readExtValue_def split: option.splits)
  have "readExtValue (concat (map percent (utf8Bytes cp)) @ e) = utf8Fatal utf8Ready (map of_nat (utf8Bytes cp) @ bytes)"
    by (simp add: readExtValue_def percentDecode_bytes [OF utf8Bytes_bound [OF cp(1)]] b)
  then show ?thesis
    using e(2) b(2) utf8Fatal_bytes [OF cp] percent_bytes_attr [OF utf8Bytes_bound [OF cp(1)]] by simp
qed

lemma encode_ascii:
  assumes c: "uriUnreserved c" and e: "readExtValue e = Some s" "list_all attrChar e"
  shows "readExtValue (c # e) = Some (c # s) \<and> list_all attrChar (c # e)"
proof -
  obtain bytes where b: "percentDecode e = Some bytes" "utf8Fatal utf8Ready bytes = Some s"
    using e(1) by (auto simp: readExtValue_def split: option.splits)
  have small: "unat c < 0x80" using uriUnreserved_ascii(1) [OF c] by (simp add: word_less_nat_alt)
  then have "unat (of_nat (unat c) :: 8 word) = unat c" by (intro unat_byte) simp
  then have "utf8Fatal utf8Ready (of_nat (unat c) # bytes) = Some (c # s)"
    using small b(2) by (simp add: utf8Fatal_ready utf8Start_def del: utf8Fatal.simps)
  then show ?thesis
    using uriUnreserved_ascii(3) [OF c] b(1) e(2) c by (simp add: readExtValue_def attrChar_def)
qed

lemma encode_reads_back:
  "case encodeURIComponent s of
     None \<Rightarrow> \<not> isWellFormed s
   | Some e \<Rightarrow> isWellFormed s \<and> readExtValue e = Some s \<and> list_all attrChar e"
proof (induction s rule: encodeURIComponent.induct)
  case 1
  show ?case by (simp add: readExtValue_def utf8Ready_def)
next
  case (2 c cs)
  consider "uriUnreserved c" | "\<not> uriUnreserved c" "lowSurrogate c" | "\<not> uriUnreserved c" "\<not> lowSurrogate c" "highSurrogate c"
    | "\<not> uriUnreserved c" "\<not> lowSurrogate c" "\<not> highSurrogate c" by blast
  then show ?case
  proof cases
    case 1
    with 2(1) [OF 1] encode_ascii [OF 1] uriUnreserved_ascii(7,8) [OF 1] show ?thesis
      by (auto split: option.splits)
  next
    case 2
    then show ?thesis by simp
  next
    case high: 3
    show ?thesis
    proof (cases cs)
      case Nil
      with high show ?thesis by simp
    next
      case (Cons d ds)
      show ?thesis
      proof (cases "lowSurrogate d")
        case True
        note cp = codePoint_utf16 [OF high(3) True]
        then have "\<not> (0xD800 \<le> codePoint c d \<and> codePoint c d \<le> 0xDFFF)" by simp
        note step = encode_step [OF cp(2) this]
        with 2(2) [OF high Cons True] high Cons True cp(1) show ?thesis by (auto split: option.splits)
      next
        case False
        with high Cons show ?thesis by simp
      qed
    qed
  next
    case plain: 4
    have "unat c < 0x110000" using unat_less_unit [of c] by simp
    note step = encode_step [OF this unpaired_utf16(2) [OF plain(2,3)]]
    with 2(3) [OF plain] plain unpaired_utf16(1) [OF plain(2,3)] show ?thesis by (auto split: option.splits)
  qed
qed

subsection \<open>The header\<close>

definition printable :: "code_unit \<Rightarrow> bool" where
  "printable c \<longleftrightarrow> 0x20 \<le> c \<and> c \<le> 0x7E \<and> c \<noteq> 0x5C"

lemma attrChar_printable: "attrChar c \<Longrightarrow> printable c \<and> c \<noteq> 0x22 \<and> c \<noteq> 0x3B"
  using uriUnreserved_ascii [of c]
  by (auto simp: attrChar_def printable_def word_less_nat_alt word_le_nat_alt)

definition asciiUnit :: "code_unit \<Rightarrow> code_unit" where
  "asciiUnit c = (if 0x20 \<le> c \<and> c \<le> 0x7E then c else 0x5F)"

definition asciiName :: "js_string \<Rightarrow> js_string" where
  "asciiName safe = (if map asciiUnit safe = [] then js ''attachment'' else map asciiUnit safe)"

lemma asciiName_printable:
  assumes "\<forall>c \<in> set safe. \<not> UNSAFE_HEADER_CHARACTERS c"
  shows "list_all (\<lambda>c. printable c \<and> c \<noteq> 0x22) (asciiName safe)" and "asciiName safe \<noteq> []"
proof -
  have "printable (asciiUnit c) \<and> asciiUnit c \<noteq> 0x22" if "c \<in> set safe" for c
    using assms that by (auto simp: asciiUnit_def printable_def UNSAFE_HEADER_CHARACTERS_def)
  then have "list_all (\<lambda>c. printable c \<and> c \<noteq> 0x22) (map asciiUnit safe)" by (simp add: list_all_iff)
  moreover have "list_all (\<lambda>c. printable c \<and> c \<noteq> 0x22) (js ''attachment'')" by code_simp
  ultimately show "list_all (\<lambda>c. printable c \<and> c \<noteq> 0x22) (asciiName safe)" by (simp add: asciiName_def del: js_Cons)
  show "asciiName safe \<noteq> []" by (simp add: asciiName_def)
qed

definition headerKind :: "js_string \<Rightarrow> js_string" where
  "headerKind mimeType = (if mimeType \<in> set INLINE_MIME_TYPES then js ''inline'' else js ''attachment'')"

lemma header_pieces: "list_all printable (headerKind mimeType)" "list_all printable (js ''; filename='' @ [0x22])"
  "list_all printable ([0x22] @ js ''; filename*=UTF-8'' @ [0x27, 0x27])"
proof -
  have "list_all printable (js ''inline'') \<and> list_all printable (js ''attachment'')" by code_simp
  then show "list_all printable (headerKind mimeType)" by (simp add: headerKind_def)
  show "list_all printable (js ''; filename='' @ [0x22])" by code_simp
  show "list_all printable ([0x22] @ js ''; filename*=UTF-8'' @ [0x27, 0x27])" by code_simp
qed

lemma contentDisposition_parts:
  "contentDisposition mimeType filename =
     (let safe = filter (\<lambda>c. \<not> UNSAFE_HEADER_CHARACTERS c) filename in
      case encodeURIComponent safe of
        None \<Rightarrow> Inl (InternalError ''URI malformed'')
      | Some encoded \<Rightarrow> Inr (headerKind mimeType @ (js ''; filename='' @ [0x22]) @ asciiName safe
          @ ([0x22] @ js ''; filename*=UTF-8'' @ [0x27, 0x27]) @ encoded))"
  by (simp add: contentDisposition_def headerKind_def asciiName_def asciiUnit_def [abs_def] Let_def del: js_Cons
      split: option.split)

lemma disposition_exists:
  "isWellFormed (filter (\<lambda>c. \<not> UNSAFE_HEADER_CHARACTERS c) filename) \<Longrightarrow>
   \<exists>header. contentDisposition mimeType filename = Inr header"
  using encode_reads_back [of "filter (\<lambda>c. \<not> UNSAFE_HEADER_CHARACTERS c) filename"]
  by (auto simp: contentDisposition_parts Let_def split: option.splits)

text \<open>
  C29. Whatever name is stored, the header of its download is printable ASCII without a backslash: the
  disposition, then the name in ASCII between the only two quotes, then the extended parameter, from which a
  browser reads back the name less the characters that are unsafe to show. It is \<open>inline\<close> for the four
  image types alone. There is no header, and the download fails, only if the name has half a surrogate pair.
\<close>

theorem header_carries_the_name:
  "case contentDisposition mimeType filename of
     Inl _ \<Rightarrow> \<not> isWellFormed (filter (\<lambda>c. \<not> UNSAFE_HEADER_CHARACTERS c) filename)
   | Inr header \<Rightarrow> list_all printable header
       \<and> (\<exists>ascii ext. header = (if mimeType \<in> set INLINE_MIME_TYPES then js ''inline'' else js ''attachment'')
             @ js ''; filename='' @ [0x22] @ ascii @ [0x22] @ js ''; filename*=UTF-8'' @ [0x27, 0x27] @ ext
           \<and> ascii \<noteq> [] \<and> 0x22 \<notin> set ascii \<and> 0x22 \<notin> set ext \<and> 0x3B \<notin> set ext
           \<and> readExtValue ext = Some (filter (\<lambda>c. \<not> UNSAFE_HEADER_CHARACTERS c) filename))"
proof -
  let ?safe = "filter (\<lambda>c. \<not> UNSAFE_HEADER_CHARACTERS c) filename"
  have clean: "\<forall>c \<in> set ?safe. \<not> UNSAFE_HEADER_CHARACTERS c" by simp
  show ?thesis
  proof (cases "encodeURIComponent ?safe")
    case None
    with encode_reads_back [of ?safe] show ?thesis by (simp add: contentDisposition_parts)
  next
    case (Some ext)
    then have e: "isWellFormed ?safe" "readExtValue ext = Some ?safe" "list_all attrChar ext"
      using encode_reads_back [of ?safe] by simp_all
    then have ext: "list_all printable ext" "0x22 \<notin> set ext" "0x3B \<notin> set ext"
      using attrChar_printable by (auto simp: list_all_iff)
    have h: "contentDisposition mimeType filename = Inr (headerKind mimeType @ (js ''; filename='' @ [0x22]) @ asciiName ?safe
          @ ([0x22] @ js ''; filename*=UTF-8'' @ [0x27, 0x27]) @ ext)"
      using Some by (simp only: contentDisposition_parts Let_def option.case)
    have name: "list_all printable (asciiName ?safe)" "0x22 \<notin> set (asciiName ?safe)"
      using asciiName_printable(1) [OF clean] by (auto simp: list_all_iff)
    have "list_all printable (headerKind mimeType @ (js ''; filename='' @ [0x22]) @ asciiName ?safe
          @ ([0x22] @ js ''; filename*=UTF-8'' @ [0x27, 0x27]) @ ext)"
      using header_pieces name(1) ext(1) by (simp only: list_all_append)
    then show ?thesis
      unfolding h sum.case headerKind_def
      by (rule conjI) (rule exI [of _ "asciiName ?safe"], rule exI [of _ ext],
        simp add: name(2) asciiName_printable(2) [OF clean] ext e(2) del: js_Cons)
  qed
qed

text \<open>Names are cut to 255 code units, which may halve a surrogate pair.\<close>

lemma ill_formed_after [simp]: "isWellFormed (replicate n 0x61 @ s) = isWellFormed s"
  by (induction n) (simp_all add: lowSurrogate_def highSurrogate_def)

lemma plain_name:
  assumes "list_all (\<lambda>c. \<not> UNSAFE_DISPLAY_CHARACTERS c \<and> c \<noteq> 0x2F \<and> \<not> js_space c) s" and "s \<noteq> []"
  shows "displayFilename s = take 255 s"
proof -
  have "afterSeparator s = s"
  proof (cases s)
    case (Cons c cs)
    with assms(1) show ?thesis by (auto simp: list_all_iff list_ex_iff UNSAFE_DISPLAY_CHARACTERS_def)
  qed simp
  moreover have "filter (\<lambda>c. \<not> UNSAFE_DISPLAY_CHARACTERS c) s = s" using assms(1) by (simp add: list_all_iff)
  moreover have "js_trim s = s"
  proof -
    have same: "dropWhile js_space xs = xs" if "list_all (\<lambda>c. \<not> js_space c) xs" for xs using that by (cases xs) simp_all
    have "list_all (\<lambda>c. \<not> js_space c) s" "list_all (\<lambda>c. \<not> js_space c) (rev s)" using assms(1) by (simp_all add: list_all_iff)
    then show ?thesis by (simp add: js_trim_def same)
  qed
  ultimately show ?thesis using assms(2) by (simp add: displayFilename_def safeDisplayName_def Let_def)
qed

lemma cut_name_is_ill_formed:
  "\<not> isWellFormed (displayFilename (replicate 254 0x61 @ [0xD83D, 0xDE00]))"
proof -
  have "list_all (\<lambda>c. \<not> UNSAFE_DISPLAY_CHARACTERS c \<and> c \<noteq> 0x2F \<and> \<not> js_space c) [0x61, 0xD83D, 0xDE00]" by code_simp
  then have "list_all (\<lambda>c. \<not> UNSAFE_DISPLAY_CHARACTERS c \<and> c \<noteq> 0x2F \<and> \<not> js_space c) (replicate 254 0x61 @ [0xD83D, 0xDE00])"
    by (simp add: list_all_iff)
  then have "displayFilename (replicate 254 0x61 @ [0xD83D, 0xDE00]) = replicate 254 0x61 @ [0xD83D]"
    by (simp add: plain_name)
  then show ?thesis by (simp add: lowSurrogate_def highSurrogate_def)
qed

lemma safeDisplayName_safe: "c \<in> set (safeDisplayName s) \<Longrightarrow> \<not> UNSAFE_DISPLAY_CHARACTERS c"
proof -
  have "c \<in> set xs" if "c \<in> set (js_trim xs)" for xs
    using that by (auto simp: js_trim_def dest!: set_dropWhileD)
  from this [of "filter (\<lambda>c. \<not> UNSAFE_DISPLAY_CHARACTERS c) s"] show "c \<in> set (safeDisplayName s) \<Longrightarrow> ?thesis"
    by (auto simp: safeDisplayName_def dest!: in_set_takeD)
qed

end
