(* ===== verification/Attachments.thy ===== *)
theory Attachments
  imports AttachmentFormats Storage TaskService
begin

section \<open>Attachments\<close>

text \<open>
  \<open>attachment/attachment.service.ts\<close>, \<open>attachment-download.service.ts\<close> and the choice between the two kinds in
  \<open>attachment.controller.ts\<close>. An upload is two steps, because other requests may run between them: the bytes
  are checked and written, then the row is committed. Parameters are the storage backend, the sniffer and
  \<open>new URL\<close>, as the protocol and the normal form of what parses.
\<close>

record AttachmentDto =
  atd_id :: uuid
  atd_taskId :: uuid
  atd_kind :: attachment_kind
  atd_filename :: js_string
  atd_mimeType :: "js_string option"
  atd_size :: "int option"
  atd_url :: "js_string option"
  atd_uploadedById :: uuid
  atd_createdAt :: js_string

definition toAttachmentDto :: "attachment_row \<Rightarrow> AttachmentDto" where
  "toAttachmentDto row =
     \<lparr>atd_id = at_id row, atd_taskId = at_taskId row, atd_kind = at_kind row, atd_filename = at_filename row,
      atd_mimeType = at_mimeType row, atd_size = at_size row, atd_url = at_url row, atd_uploadedById = at_uploadedById row,
      atd_createdAt = toISOString (at_createdAt row)\<rparr>"

record UploadedFile =
  uf_originalname :: js_string
  uf_mimetype :: js_string
  uf_buffer :: "8 word list"

record CreateAttachmentDto =
  ca_kind :: attachment_kind
  ca_url :: "js_string js_field"
  ca_filename :: "js_string js_field"

record URL =
  url_protocol :: js_string
  url_href :: js_string

type_synonym url_parser = "js_string \<Rightarrow> URL option"

fun kind_name :: "attachment_kind \<Rightarrow> js_string" where
  "kind_name FILE = js ''FILE''"
| "kind_name LINK = js ''LINK''"

subsection \<open>Reads\<close>

definition AttachmentService_findTask :: "uuid \<Rightarrow> uuid \<Rightarrow> task_row handler" where
  "AttachmentService_findTask workspaceId taskId =
     orThrow (NotFound ''Task not found'') (\<lambda>w. findTaskRow w workspaceId taskId)"

definition attachmentMatches :: "world \<Rightarrow> uuid \<Rightarrow> uuid \<Rightarrow> attachment_row \<Rightarrow> bool" where
  \<comment> \<open>\<open>where: { id, task: { board: { workspaceId } } }\<close>\<close>
  "attachmentMatches w workspaceId attachmentId a \<longleftrightarrow> at_id a = attachmentId \<and> taskIn w workspaceId (at_taskId a)"

definition boardOfTask :: "world \<Rightarrow> uuid \<Rightarrow> uuid" where
  \<comment> \<open>\<open>include: { task: { select: { boardId: true } } }\<close>; the foreign key makes the task present\<close>
  "boardOfTask w taskId = (case find (\<lambda>t. t_id t = taskId) (tasks w) of Some t \<Rightarrow> t_boardId t | None \<Rightarrow> [])"

definition AttachmentService_requireAttachment :: "uuid \<Rightarrow> uuid \<Rightarrow> (attachment_row \<times> uuid) handler" where
  \<comment> \<open>the row with the board of its task\<close>
  "AttachmentService_requireAttachment workspaceId attachmentId =
     orThrow (NotFound ''Attachment not found'') (\<lambda>w.
       map_option (\<lambda>a. (a, boardOfTask w (at_taskId a))) (find (attachmentMatches w workspaceId attachmentId) (attachments w)))"

definition AttachmentService_list :: "uuid \<Rightarrow> uuid \<Rightarrow> AttachmentDto list handler" where
  "AttachmentService_list workspaceId taskId =
     bindE (AttachmentService_findTask workspaceId taskId) (\<lambda>_.
     reads (\<lambda>w. map toAttachmentDto (rev (sort_key at_id
       (filter (\<lambda>a. at_taskId a = taskId \<and> taskIn w workspaceId (at_taskId a)) (attachments w))))))"

definition AttachmentService_findRow :: "uuid \<Rightarrow> uuid \<Rightarrow> attachment_row handler" where
  "AttachmentService_findRow workspaceId attachmentId =
     bindE (AttachmentService_requireAttachment workspaceId attachmentId) (\<lambda>(row, _). return row)"

definition AttachmentService_findOne :: "uuid \<Rightarrow> uuid \<Rightarrow> AttachmentDto handler" where
  "AttachmentService_findOne workspaceId attachmentId =
     bindE (AttachmentService_requireAttachment workspaceId attachmentId) (\<lambda>(row, _). return (toAttachmentDto row))"

subsection \<open>Writes\<close>

definition AttachmentService_announce :: "uuid \<Rightarrow> uuid \<Rightarrow> uuid \<Rightarrow> uuid \<Rightarrow> unit handler" where
  "AttachmentService_announce workspaceId boardId taskId actorId =
     modify (emitToBoard boardId (TASK_UPDATED \<lparr>e_workspaceId = workspaceId, e_boardId = boardId, e_actorId = actorId\<rparr> taskId))"

definition insertAttachment :: "attachment_row \<Rightarrow> attachment_row handler" where
  \<comment> \<open>\<open>tx.attachment.create\<close>: the task has to be there\<close>
  "insertAttachment row w =
     (if list_ex (\<lambda>t. t_id t = at_taskId row) (tasks w) then (Inr row, w\<lparr>attachments := attachments w @ [row]\<rparr>)
      else (Inl (PrismaError ''P2003''), w))"

definition attachmentTransaction :: "uuid \<Rightarrow> uuid \<Rightarrow> attachment_row \<Rightarrow> attachment_row handler" where
  "attachmentTransaction workspaceId actorId data = transaction (
     bindE (insertAttachment data) (\<lambda>row.
     bindE (recordActivity workspaceId (Some (at_taskId row)) actorId AttachmentCreated
       [(''attachmentId'', JString (at_id row)), (''kind'', JString (kind_name (at_kind row))),
        (''filename'', JString (at_filename row))]) (\<lambda>_.
     return row)))"

definition ALLOWED_URL_SCHEMES :: "js_string list" where
  "ALLOWED_URL_SCHEMES = map js [''http:'', ''https:'']"

definition AttachmentService_requireStorableUrl :: "url_parser \<Rightarrow> js_string js_field \<Rightarrow> http_error + js_string" where
  "AttachmentService_requireStorableUrl newURL url =
     (case newURL (js_trim (case field_option url of None \<Rightarrow> [] | Some v \<Rightarrow> v)) of
        None \<Rightarrow> Inl (BadRequest ''A link attachment needs an http or https URL'')
      | Some parsed \<Rightarrow>
          if url_protocol parsed \<in> set ALLOWED_URL_SCHEMES then Inr (url_href parsed)
          else Inl (BadRequest ''A link attachment needs an http or https URL''))"

definition linkName :: "js_string js_field \<Rightarrow> js_string \<Rightarrow> js_string" where
  \<comment> \<open>\<open>safeDisplayName(dto.filename ?? '') || url\<close>\<close>
  "linkName filename url =
     (let name = safeDisplayName (case field_option filename of None \<Rightarrow> [] | Some v \<Rightarrow> v) in if name = [] then url else name)"

definition AttachmentService_createLink ::
  "url_parser \<Rightarrow> uuid \<Rightarrow> uuid \<Rightarrow> uuid \<Rightarrow> CreateAttachmentDto \<Rightarrow> AttachmentDto handler" where
  "AttachmentService_createLink newURL workspaceId taskId actorId dto =
     bindE (AttachmentService_findTask workspaceId taskId) (\<lambda>task.
     bindE (lift (AttachmentService_requireStorableUrl newURL (ca_url dto))) (\<lambda>url.
     bindE (reads freshId) (\<lambda>k.
     bindE (modify tick) (\<lambda>_.
     bindE (reads w_now) (\<lambda>now.
     bindE (attachmentTransaction workspaceId actorId
       \<lparr>at_id = k, at_taskId = t_id task, at_uploadedById = actorId, at_kind = LINK,
        at_filename = linkName (ca_filename dto) url, at_storageKey = None, at_mimeType = None, at_size = None,
        at_url = Some url, at_createdAt = now\<rparr>) (\<lambda>created.
     bindE (AttachmentService_announce workspaceId (t_boardId task) (t_id task) actorId) (\<lambda>_.
     return (toAttachmentDto created))))))))"

record stored_upload =
  su_task :: task_row
  su_mimeType :: js_string
  su_id :: uuid
  su_storageKey :: js_string

definition createFile_store ::
  "storage \<Rightarrow> sniffer \<Rightarrow> uuid \<Rightarrow> uuid \<Rightarrow> UploadedFile \<Rightarrow> stored_upload handler" where
  \<comment> \<open>up to the write of the bytes\<close>
  "createFile_store storage sniff workspaceId taskId file =
     bindE (AttachmentService_findTask workspaceId taskId) (\<lambda>task.
     bindE (lift (assertAllowedMimeType sniff (uf_buffer file) (uf_mimetype file))) (\<lambda>mimeType.
     bindE (reads freshId) (\<lambda>k.
     bindE (modify tick) (\<lambda>_.
     bindE (StorageService_write storage (storageKeyFor k) (uf_buffer file)) (\<lambda>_.
     return \<lparr>su_task = task, su_mimeType = mimeType, su_id = k, su_storageKey = storageKeyFor k\<rparr>)))))"

definition catchAndRemove :: "storage \<Rightarrow> js_string \<Rightarrow> 'a handler \<Rightarrow> 'a handler" where
  \<comment> \<open>\<open>catch (error) { await this.storage.remove(key).catch(() => undefined); throw error; }\<close>, where the \<open>503\<close>
     of a storage that is not configured is thrown before there is a promise to catch\<close>
  "catchAndRemove storage key body w =
     (case body w of
        (Inr a, w') \<Rightarrow> (Inr a, w')
      | (Inl e, w') \<Rightarrow> (case StorageService_require storage w' of
            (Inl e', w'') \<Rightarrow> (Inl e', w'')
          | (Inr d, w'') \<Rightarrow> (Inl e, snd (DiskStorageBackend_remove d key w''))))"

definition createFile_commit ::
  "storage \<Rightarrow> uuid \<Rightarrow> uuid \<Rightarrow> UploadedFile \<Rightarrow> stored_upload \<Rightarrow> AttachmentDto handler" where
  \<comment> \<open>from the transaction on\<close>
  "createFile_commit storage workspaceId actorId file upload =
     catchAndRemove storage (su_storageKey upload) (
     bindE (reads w_now) (\<lambda>now.
     bindE (attachmentTransaction workspaceId actorId
       \<lparr>at_id = su_id upload, at_taskId = t_id (su_task upload), at_uploadedById = actorId, at_kind = FILE,
        at_filename = displayFilename (uf_originalname file), at_storageKey = Some (su_storageKey upload),
        at_mimeType = Some (su_mimeType upload), at_size = Some (int (length (uf_buffer file))), at_url = None,
        at_createdAt = now\<rparr>) (\<lambda>created.
     bindE (AttachmentService_announce workspaceId (t_boardId (su_task upload)) (t_id (su_task upload)) actorId) (\<lambda>_.
     return (toAttachmentDto created)))))"

definition AttachmentService_createFile ::
  "storage \<Rightarrow> sniffer \<Rightarrow> uuid \<Rightarrow> uuid \<Rightarrow> uuid \<Rightarrow> UploadedFile \<Rightarrow> AttachmentDto handler" where
  "AttachmentService_createFile storage sniff workspaceId taskId actorId file =
     bindE (createFile_store storage sniff workspaceId taskId file) (createFile_commit storage workspaceId actorId file)"

definition AttachmentService_remove :: "uuid \<Rightarrow> uuid \<Rightarrow> uuid \<Rightarrow> unit handler" where
  \<comment> \<open>the bytes are left to the nightly sweep\<close>
  "AttachmentService_remove workspaceId attachmentId actorId =
     bindE (AttachmentService_requireAttachment workspaceId attachmentId) (\<lambda>(attachment, boardId).
     bindE (transaction (
       bindE (reads (\<lambda>w. length (filter (attachmentMatches w workspaceId attachmentId) (attachments w)))) (\<lambda>count.
       bindE (modify (\<lambda>w. w\<lparr>attachments := filter (\<lambda>a. \<not> attachmentMatches w workspaceId attachmentId a) (attachments w)\<rparr>)) (\<lambda>_.
       bindE (failIf (count = 0) (NotFound ''Attachment not found'')) (\<lambda>_.
       recordActivity workspaceId (Some (at_taskId attachment)) actorId AttachmentDeleted
         [(''attachmentId'', JString attachmentId), (''kind'', JString (kind_name (at_kind attachment))),
          (''filename'', JString (at_filename attachment))]))))) (\<lambda>_.
     AttachmentService_announce workspaceId boardId (at_taskId attachment) actorId))"

definition AttachmentController_create ::
  "storage \<Rightarrow> sniffer \<Rightarrow> url_parser \<Rightarrow> uuid \<Rightarrow> uuid \<Rightarrow> uuid \<Rightarrow> CreateAttachmentDto \<Rightarrow> UploadedFile option \<Rightarrow> AttachmentDto handler" where
  "AttachmentController_create storage sniff newURL workspaceId taskId userId dto file =
     (if ca_kind dto = LINK then AttachmentService_createLink newURL workspaceId taskId userId dto
      else (case file of
          None \<Rightarrow> throw (BadRequest ''A file attachment needs a file part named \"file\"'')
        | Some f \<Rightarrow> AttachmentService_createFile storage sniff workspaceId taskId userId f))"

subsection \<open>Downloads\<close>

fun decimalString :: "nat \<Rightarrow> js_string" where
  "decimalString n = (if n < 10 then [of_nat (48 + n)] else decimalString (n div 10) @ [of_nat (48 + n mod 10)])"

record AttachmentDownload =
  dl_stream :: "8 word list"
  dl_headers :: "(string \<times> js_string) list"

definition downloadHeaders :: "attachment_row \<Rightarrow> js_string \<Rightarrow> js_string \<Rightarrow> (string \<times> js_string) list" where
  "downloadHeaders attachment mimeType disposition =
     [(''Content-Type'', if mimeType \<in> set TEXT_MEDIA_TYPES then mimeType @ js ''; charset=utf-8'' else mimeType),
      (''Content-Length'', decimalString (nat (case at_size attachment of None \<Rightarrow> 0 | Some n \<Rightarrow> n))),
      (''Content-Disposition'', disposition),
      (''X-Content-Type-Options'', js ''nosniff''),
      (''Cross-Origin-Resource-Policy'', js ''same-origin''),
      (''Cache-Control'', js ''private, max-age=0, must-revalidate'')]"

definition AttachmentDownloadService_open :: "storage \<Rightarrow> uuid \<Rightarrow> uuid \<Rightarrow> AttachmentDownload handler" where
  "AttachmentDownloadService_open storage workspaceId attachmentId =
     bindE (AttachmentService_findRow workspaceId attachmentId) (\<lambda>attachment.
     case at_storageKey attachment of
       None \<Rightarrow> throw (NotFound ''Attachment not found'')
     | Some storageKey \<Rightarrow>
         bindE (failIf (at_kind attachment \<noteq> FILE) (NotFound ''Attachment not found'')) (\<lambda>_.
         let mimeType = (case at_mimeType attachment of None \<Rightarrow> js ''application/octet-stream'' | Some m \<Rightarrow> m) in
         bindE (StorageService_createReadStream storage storageKey) (\<lambda>stream.
         bindE (lift (contentDisposition mimeType (at_filename attachment))) (\<lambda>disposition.
         return \<lparr>dl_stream = stream, dl_headers = downloadHeaders attachment mimeType disposition\<rparr>))))"

end
