(* ===== verification/AttachmentSafety.thy ===== *)
theory AttachmentSafety
  imports AttachmentProps TrelloImport
begin

section \<open>No row without its bytes\<close>

text \<open>
  The two steps of an upload are interleaved with everything else. \<open>attachment_step\<close> is what can happen to the
  attachments and the files: the steps of uploads, links, imports from Trello, removals, a nightly sweep, and any
  other request, of which it is only assumed that it adds no row of a file and touches no file.
\<close>

subsection \<open>An upload whose task vanishes\<close>

lemma remove_written:
  assumes "plainKey k" and "\<forall>f \<in> set (w_files w). sf_key f \<noteq> k" and "w_files w1 = w_files (writeFile k bytes w)"
  shows "DiskStorageBackend_remove d k w1 = (Inr (), w1\<lparr>w_files := w_files w\<rparr>)"
proof -
  have "filter (\<lambda>f. sf_key f \<noteq> k) (w_files w) = w_files w" using assms(2) by simp
  then show ?thesis using assms(3) by (simp add: plain_run [OF assms(1)] writeFile_def)
qed

text \<open>
  C28. If the task is deleted between the two steps of an upload, the upload fails and leaves neither a row nor
  the file it had written; whatever else the other requests did stays.
\<close>

theorem lost_task_leaves_no_file:
  assumes "uuidShaped (freshId w)" and "\<forall>f \<in> set (w_files w). sf_key f \<noteq> storageKeyFor (freshId w)"
    and "createFile_store (Some d) sniff workspaceId taskId file w = (Inr u, w1)"
    and "w_files w2 = w_files w1" and "\<forall>t \<in> set (tasks w2). t_id t \<noteq> taskId"
  shows "createFile_commit (Some d) workspaceId actorId file u w2 = (Inl (PrismaError ''P2003''), w2\<lparr>w_files := w_files w\<rparr>)"
proof -
  obtain task t where u: "findTaskRow w workspaceId taskId = Some task"
      "u = \<lparr>su_task = task, su_mimeType = t, su_id = freshId w, su_storageKey = storageKeyFor (freshId w)\<rparr>"
      "w1 = writeFile (storageKeyFor (freshId w)) (uf_buffer file) (tick w)"
    using assms(3) unfolding createFile_store_iff [OF assms(1)] by blast
  have "w_files w2 = w_files (writeFile (storageKeyFor (freshId w)) (uf_buffer file) (tick w))"
    using assms(4) u(3) by simp
  from remove_written [OF storageKeyFor_plain [OF assms(1)] _ this, of d] assms(2,5) u(1,2) findTaskRow_Some [OF u(1)]
  show ?thesis by (auto simp: createFile_commit_run list_ex_iff)
qed

theorem lost_task_leaves_no_file_witness:
  "\<exists>u w1. createFile_store (Some sampleDisk) (\<lambda>_. None) (js ''w1'') (js ''t1'') sampleUpload uploadWorld = (Inr u, w1)
     \<and> createFile_commit (Some sampleDisk) (js ''w1'') (js ''u1'') sampleUpload u (w1\<lparr>tasks := []\<rparr>)
         = (Inl (PrismaError ''P2003''), w1\<lparr>tasks := [], w_files := []\<rparr>)"
proof -
  obtain u w1 where store: "createFile_store (Some sampleDisk) (\<lambda>_. None) (js ''w1'') (js ''t1'') sampleUpload uploadWorld = (Inr u, w1)"
    using sampleUpload_task sampleUpload_facts(4) by (auto simp: createFile_store_iff [OF sampleUpload_facts(1)])
  have none: "w_files uploadWorld = []" by (simp add: uploadWorld_def sampleWorld_def)
  have "createFile_commit (Some sampleDisk) (js ''w1'') (js ''u1'') sampleUpload u (w1\<lparr>tasks := []\<rparr>)
      = (Inl (PrismaError ''P2003''), w1\<lparr>tasks := []\<rparr>\<lparr>w_files := w_files uploadWorld\<rparr>)"
    by (rule lost_task_leaves_no_file [OF sampleUpload_facts(1) _ store]) (simp_all add: none)
  with store none show ?thesis by auto
qed

subsection \<open>A sweep spares what is named or young\<close>

lemma sweepEntries_drops:
  assumes "\<forall>k \<in> set batch \<union> sf_key ` set entries. plainKey k"
  shows "\<exists>n' ks. sweepEntries (Some d) cutoff entries batch n w = (Inr n', dropFiles ks w)
    \<and> set ks \<subseteq> set batch \<union> set (outdated cutoff entries)"
  using assms
proof (induction entries arbitrary: batch n w)
  case Nil
  then show ?case by (auto simp: flushBatch_run outdated_def)
next
  case (Cons e es)
  show ?case
  proof (cases "notBefore (sf_modifiedAt e) cutoff")
    case True
    then have "outdated cutoff (e # es) = outdated cutoff es" by (simp add: outdated_def)
    with Cons True show ?thesis by simp
  next
    case False
    let ?b = "batch @ [sf_key e]"
    have o: "set (outdated cutoff (e # es)) = insert (sf_key e) (set (outdated cutoff es))" using False by (simp add: outdated_def)
    let ?all = "set batch \<union> set (outdated cutoff (e # es))"
    have plain: "\<forall>k \<in> set ?b. plainKey k" using Cons.prems by auto
    note flush = flushBatch_run [OF plain, of d]
    let ?n = "n + length (filter (\<lambda>k. \<not> claimed w k) ?b)"
    show ?thesis
    proof (cases "CLEANUP_BATCH_SIZE \<le> length ?b")
      case True
      obtain n' ks where ks: "sweepEntries (Some d) cutoff es [] ?n (dropFiles ?b w) = (Inr n', dropFiles (?b @ ks) w)"
          "set ks \<subseteq> set (outdated cutoff es)"
        using Cons.IH [of "[]" ?n "dropFiles ?b w"] Cons.prems by auto
      have step: "sweepEntries (Some d) cutoff (e # es) batch n w =
          (if orphanCeiling \<le> ?n then (Inr ?n, dropFiles ?b w) else (Inr n', dropFiles (?b @ ks) w))"
        using False True ks(1) by (simp add: bindE_def flush return_def Let_def flushBatch_def [of _ "[]"])
      have "set ?b \<subseteq> ?all" "set (?b @ ks) \<subseteq> ?all" using ks(2) o by auto
      then show ?thesis unfolding step by (cases "orphanCeiling \<le> ?n"; simp only: if_True if_False) blast+
    next
      case short: False
      obtain n' ks where ks: "sweepEntries (Some d) cutoff es ?b n w = (Inr n', dropFiles ks w)"
          "set ks \<subseteq> set ?b \<union> set (outdated cutoff es)"
        using Cons.IH [of ?b n w] Cons.prems by auto
      have step: "sweepEntries (Some d) cutoff (e # es) batch n w =
          (if orphanCeiling \<le> n then (Inr ?n, dropFiles ?b w) else (Inr n', dropFiles ks w))"
        using False short ks(1) by (simp add: bindE_def flush return_def Let_def)
      have "set ?b \<subseteq> ?all" "set ks \<subseteq> ?all" using ks(2) o by auto
      then show ?thesis unfolding step by (cases "orphanCeiling \<le> n"; simp only: if_True if_False) blast+
    qed
  qed
qed

lemma sweep_spares:
  assumes "filesPlain w" and "orphanGraceMs env = Inr grace"
    and "CleanupWorker_sweepOrphanFiles (Some d) env now w = (r, w')"
  shows "attachments w' = attachments w" and "filesPlain w'"
    and "\<And>f. f \<in> set (w_files w) \<Longrightarrow> claimed w (sf_key f) \<or> notBefore (sf_modifiedAt f) (orphanCutoff now grace) \<Longrightarrow>
      f \<in> set (w_files w')"
proof -
  let ?c = "orphanCutoff now grace"
  obtain n' ks where "sweepEntries (Some d) ?c (w_files w) [] 0 w = (Inr n', dropFiles ks w)"
      and ks: "set ks \<subseteq> set (outdated ?c (w_files w))"
    using sweepEntries_drops [of "[]" "w_files w" d ?c 0 w] assms(1) by (auto simp: filesPlain_def)
  then have w': "w' = dropFiles ks w"
    using assms(2,3)
    by (simp add: CleanupWorker_sweepOrphanFiles_def StorageService_listKeys_def DiskStorageBackend_listKeys_def
        StorageService_require_def bindE_def reads_def lift_def orThrow_def)
  then show "attachments w' = attachments w" "filesPlain w'"
    using assms(1) by (auto simp: dropFiles_def filesPlain_def distinct_map_filter)
  show "f \<in> set (w_files w')" if f: "f \<in> set (w_files w)" and "claimed w (sf_key f) \<or> notBefore (sf_modifiedAt f) ?c" for f
  proof -
    have "inj_on sf_key (set (w_files w))" using assms(1) by (simp add: filesPlain_def distinct_map)
    then have "sf_key f \<notin> set (outdated ?c (w_files w))" if "notBefore (sf_modifiedAt f) ?c"
      using that f by (auto simp: outdated_def dest: inj_onD)
    with that(2) ks f show ?thesis by (auto simp: w' dropFiles_def)
  qed
qed

subsection \<open>An import adds no file\<close>

definition linksOnly :: "world \<Rightarrow> world \<Rightarrow> bool" where
  \<comment> \<open>no file is touched, and a new row has none\<close>
  "linksOnly w w' \<longleftrightarrow> w_files w' = w_files w \<and> (\<forall>a \<in> set (attachments w'). a \<in> set (attachments w) \<or> at_storageKey a = None)"

definition addsLinksOnly :: "'a handler \<Rightarrow> bool" where
  "addsLinksOnly m \<longleftrightarrow> (\<forall>w. linksOnly w (snd (m w)))"

lemma linksOnly_refl: "linksOnly w w"
  by (simp add: linksOnly_def)

lemma linksOnly_trans: "linksOnly w v \<Longrightarrow> linksOnly v w2 \<Longrightarrow> linksOnly w w2"
  unfolding linksOnly_def by (metis (no_types, lifting))

lemma addsLinksOnly_bindE:
  assumes "addsLinksOnly m" and "\<And>a. addsLinksOnly (f a)"
  shows "addsLinksOnly (bindE m f)"
  unfolding addsLinksOnly_def
proof
  fix w
  obtain q w1 where m: "m w = (q, w1)" by fastforce
  then have "linksOnly w w1" using assms(1) unfolding addsLinksOnly_def by (metis snd_conv)
  moreover have "linksOnly w1 (snd (f a w1))" for a using assms(2) by (simp add: addsLinksOnly_def)
  ultimately show "linksOnly w (snd (bindE m f w))" by (cases q) (auto simp: bindE_def m intro: linksOnly_trans)
qed

lemma addsLinksOnly_simple: "addsLinksOnly (return a)" "addsLinksOnly (recordActivity ws t u ty p)"
  by (simp_all add: addsLinksOnly_def linksOnly_def return_def recordActivity_def logActivity_def tick_def)

lemma addsLinksOnly_forEach: "(\<And>x. addsLinksOnly (f x)) \<Longrightarrow> addsLinksOnly (forEach f xs)"
  by (induction xs) (auto intro: addsLinksOnly_bindE addsLinksOnly_simple)

lemma addsLinksOnly_chunks: "(\<And>xs. addsLinksOnly (f xs)) \<Longrightarrow> addsLinksOnly (inChunks f rows)"
  by (simp add: inChunks_def addsLinksOnly_forEach)

lemma addsLinksOnly_tables:
  "addsLinksOnly (writeBoard ws b)" "addsLinksOnly (writeColumns cs)" "addsLinksOnly (writeLabels ls)" "addsLinksOnly (writeTasks ts)"
  "addsLinksOnly (writeTaskLabels tls)" "addsLinksOnly (writeChecklists cls)" "addsLinksOnly (writeItems rows)"
  by (auto simp: addsLinksOnly_def linksOnly_def createMany_def Let_def writeBoard_def writeColumns_def writeLabels_def
      writeTasks_def writeTaskLabels_def writeChecklists_def writeItems_def)

lemma addsLinksOnly_attachments: "addsLinksOnly (writeAttachments rows)"
  by (auto simp: addsLinksOnly_def linksOnly_def createMany_def Let_def writeAttachments_def attachmentRow_def)

lemma addsLinksOnly_transaction:
  assumes "addsLinksOnly m"
  shows "addsLinksOnly (transaction m)"
  unfolding addsLinksOnly_def
proof
  fix w
  obtain q v where m: "m w = (q, v)" by fastforce
  then have "linksOnly w v" using assms unfolding addsLinksOnly_def by (metis snd_conv)
  then show "linksOnly w (snd (transaction m w))" by (cases q) (simp_all add: transaction_def m linksOnly_refl)
qed

lemma addsLinksOnly_planned:
  "addsLinksOnly (lift x)"
  "addsLinksOnly (\<lambda>w. case planTrelloImport (w_uuid w) (w_newDate w) newUrl (w_seq w) input actorId of
     (plan, seq) \<Rightarrow> (Inr plan, w\<lparr>w_seq := seq\<rparr>))"
  by (simp_all add: addsLinksOnly_def linksOnly_def lift_def split: prod.split sum.split)

lemma import_links_only:
  assumes "TrelloImportService_importBoard newUrl workspaceId actorId bytes w = (r, w')"
  shows "linksOnly w w'"
proof -
  have "addsLinksOnly (TrelloImportService_importBoard newUrl workspaceId actorId bytes)"
    unfolding TrelloImportService_importBoard_def writePlan_def
    by (intro addsLinksOnly_bindE addsLinksOnly_transaction addsLinksOnly_planned addsLinksOnly_chunks addsLinksOnly_simple
        addsLinksOnly_tables addsLinksOnly_attachments)
  then show ?thesis using assms unfolding addsLinksOnly_def by (metis snd_conv)
qed

subsection \<open>What can happen\<close>

inductive attachment_step ::
  "DiskStorageBackend \<Rightarrow> world \<times> stored_upload list \<Rightarrow> world \<times> stored_upload list \<Rightarrow> bool" for d where
  \<comment> \<open>the uploads between their two steps go along\<close>
  Stored: "createFile_store (Some d) sniff workspaceId taskId file w = (Inr u, w') \<Longrightarrow>
    uuidShaped (freshId w) \<Longrightarrow> freshId w \<notin> su_id ` set P \<Longrightarrow>
    Some (storageKeyFor (freshId w)) \<notin> at_storageKey ` set (attachments w) \<Longrightarrow> attachment_step d (w, P) (w', u # P)"
| Committed: "u \<in> set P \<Longrightarrow> createFile_commit (Some d) workspaceId actorId file u w = (r, w') \<Longrightarrow>
    attachment_step d (w, P) (w', remove1 u P)"
| Crashed: "attachment_step d (w, P) (w, remove1 u P)"
| Linked: "AttachmentService_createLink newURL workspaceId taskId actorId dto w = (r, w') \<Longrightarrow> attachment_step d (w, P) (w', P)"
| Detached: "AttachmentService_remove workspaceId attachmentId actorId w = (r, w') \<Longrightarrow> attachment_step d (w, P) (w', P)"
| Swept: "orphanGraceMs env = Inr grace \<Longrightarrow>
    \<forall>u \<in> set P. \<forall>f \<in> set (w_files w). sf_key f = su_storageKey u \<longrightarrow> notBefore (sf_modifiedAt f) (orphanCutoff now grace) \<Longrightarrow>
    CleanupWorker_sweepOrphanFiles (Some d) env now w = (r, w') \<Longrightarrow> attachment_step d (w, P) (w', P)"
| Imported: "TrelloImportService_importBoard newUrl workspaceId actorId bytes w = (imported, w') \<Longrightarrow> attachment_step d (w, P) (w', P)"
| Elsewhere: "linksOnly w w' \<Longrightarrow> attachment_step d (w, P) (w', P)"

definition fileKeys :: "world \<Rightarrow> js_string set" where
  "fileKeys w = sf_key ` set (w_files w)"

definition bytesPresent :: "world \<Rightarrow> bool" where
  "bytesPresent w \<longleftrightarrow> (\<forall>a \<in> set (attachments w). case at_storageKey a of None \<Rightarrow> True | Some k \<Rightarrow> k \<in> fileKeys w)"

fun uploadsSafe :: "world \<times> stored_upload list \<Rightarrow> bool" where
  "uploadsSafe (w, P) \<longleftrightarrow> filesPlain w \<and> bytesPresent w \<and> distinct (map su_id P)
     \<and> (\<forall>u \<in> set P. uuidShaped (su_id u) \<and> su_storageKey u = storageKeyFor (su_id u) \<and> storageKeyFor (su_id u) \<in> fileKeys w
          \<and> Some (storageKeyFor (su_id u)) \<notin> at_storageKey ` set (attachments w))"

lemma uploadsSafe_keys:
  assumes "uploadsSafe (w, P)" and "u \<in> set P" and "u' \<in> set (remove1 u P)"
  shows "su_storageKey u' \<noteq> su_storageKey u"
proof -
  have dist: "distinct (map su_id P)" using assms(1) by simp
  then have "su_id u' \<noteq> su_id u"
    using assms(2,3) by (metis distinct_map distinct_remove1 inj_onD notin_set_remove1 set_remove1_eq DiffD2 singletonI)
  moreover have "u' \<in> set P" using assms(3) set_remove1_subset [of u P] by blast
  ultimately show ?thesis using assms(1,2) storageKeyFor_inj by fastforce
qed

lemma uploadsSafe_shrink:
  assumes "uploadsSafe (w, P)" and "w_files w' = w_files w" and "set Q \<subseteq> set P" and "distinct (map su_id Q)"
    and "\<forall>a \<in> set (attachments w'). a \<in> set (attachments w) \<or> at_storageKey a = None"
  shows "uploadsSafe (w', Q)"
  using assms by (fastforce simp: filesPlain_def bytesPresent_def fileKeys_def image_iff split: option.splits)

lemma createLink_frame:
  assumes "AttachmentService_createLink newURL workspaceId taskId actorId dto w = (r, w')"
  shows "w_files w' = w_files w" and "\<forall>a \<in> set (attachments w'). a \<in> set (attachments w) \<or> at_storageKey a = None"
  using assms
  by (auto simp: AttachmentService_createLink_def AttachmentService_findTask_def AttachmentService_announce_def bindE_def
      orThrow_def lift_def reads_def modify_def return_def attachmentTransaction_run attachmentLogged_def logActivity_def
      tick_def emitToBoard_def Let_def split: option.splits sum.splits if_splits)

lemma remove_frame:
  assumes "AttachmentService_remove workspaceId attachmentId actorId w = (r, w')"
  shows "w_files w' = w_files w" and "set (attachments w') \<subseteq> set (attachments w)"
  using assms
  by (auto simp: AttachmentService_remove_def AttachmentService_requireAttachment_def AttachmentService_announce_def bindE_def
      orThrow_def transaction_def failIf_def recordActivity_def reads_def modify_def logActivity_def tick_def emitToBoard_def
      split: option.splits sum.splits if_splits prod.splits)

lemma commit_keeps:
  assumes safe: "uploadsSafe (w, P)" and u: "u \<in> set P"
    and run: "createFile_commit (Some d) workspaceId actorId file u w = (r, w')"
  shows "uploadsSafe (w', remove1 u P)"
proof -
  let ?k = "su_storageKey u"
  have plain: "plainKey ?k" using safe u storageKeyFor_plain by simp
  have rest: "distinct (map su_id (remove1 u P))" "set (remove1 u P) \<subseteq> set P"
    using safe by (simp_all add: distinct_map inj_on_diff set_remove1_subset)
  note keys = uploadsSafe_keys [OF safe u]
  show ?thesis
  proof (cases "list_ex (\<lambda>t. t_id t = t_id (su_task u)) (tasks w)")
    case True
    let ?row = "uploadRow file actorId u w"
    have w': "attachments w' = attachments w @ [?row]" "w_files w' = w_files w" using run True by (auto simp: createFile_commit_run)
    have k: "?k \<in> fileKeys w" using safe u by simp
    have "at_storageKey ?row = Some ?k" by (simp add: uploadRow_def)
    then have "bytesPresent w'" using safe k by (auto simp: bytesPresent_def fileKeys_def w' split: option.splits)
    moreover have "Some (storageKeyFor (su_id u')) \<notin> at_storageKey ` set (attachments w')" if "u' \<in> set (remove1 u P)" for u'
    proof -
      have "u' \<in> set P" using that rest(2) by blast
      then have "su_storageKey u' = storageKeyFor (su_id u')" "Some (su_storageKey u') \<notin> at_storageKey ` set (attachments w)"
        using safe by simp_all
      then show ?thesis using keys [OF that] \<open>at_storageKey ?row = Some ?k\<close> by (auto simp: w')
    qed
    ultimately show ?thesis using safe rest by (auto simp: filesPlain_def fileKeys_def w')
  next
    case False
    then have w': "w' = w\<lparr>w_files := filter (\<lambda>f. sf_key f \<noteq> ?k) (w_files w)\<rparr>"
      using run by (auto simp: createFile_commit_run plain_run [OF plain])
    have kept: "k \<in> fileKeys w'" if "k \<in> fileKeys w" "k \<noteq> ?k" for k using that by (auto simp: w' fileKeys_def)
    have "filesPlain w'" using safe by (auto simp: w' filesPlain_def distinct_map_filter)
    moreover have "bytesPresent w'"
      using safe u kept by (auto simp: w' bytesPresent_def image_iff split: option.splits) (metis (no_types, lifting) option.simps(5))
    moreover have "attachments w' = attachments w" by (simp add: w')
    ultimately show ?thesis using safe u rest keys kept by (auto simp: subset_iff)
  qed
qed

lemma linksOnly_safe:
  assumes "uploadsSafe (w, P)" and "linksOnly w w'"
  shows "uploadsSafe (w', P)"
  using uploadsSafe_shrink [OF assms(1), of w' P] assms unfolding linksOnly_def by simp

lemma attachment_step_safe:
  assumes "attachment_step d (w, P) (w', P')" and "uploadsSafe (w, P)"
  shows "uploadsSafe (w', P')"
  using assms(1)
proof cases
  case (Stored sniff workspaceId taskId sent u)
  have plain: "plainKey (storageKeyFor (freshId w))" using Stored(3) by (rule storageKeyFor_plain)
  obtain task t where u: "u = \<lparr>su_task = task, su_mimeType = t, su_id = freshId w, su_storageKey = storageKeyFor (freshId w)\<rparr>"
      and w': "w' = writeFile (storageKeyFor (freshId w)) (uf_buffer sent) (tick w)"
    using Stored(2) unfolding createFile_store_iff [OF Stored(3)] by blast
  have keys: "fileKeys w' = insert (storageKeyFor (freshId w)) (fileKeys w)" by (auto simp: w' fileKeys_def writeFile_def tick_def)
  have "filesPlain (tick w)" using assms(2) by (simp add: filesPlain_def)
  then have "filesPlain w'" unfolding w' by (rule writeFile_plain) (rule plain)
  moreover have "attachments w' = attachments w" by (simp add: w')
  ultimately show ?thesis
    using assms(2) Stored(1,3,4,5) by (auto simp: u keys bytesPresent_def split: option.splits)
next
  case Committed
  then show ?thesis using commit_keeps [OF assms(2)] by metis
next
  case (Crashed u)
  have "distinct (map su_id (remove1 u P))" using assms(2) by (simp add: distinct_map inj_on_diff)
  from uploadsSafe_shrink [OF assms(2) refl set_remove1_subset this] show ?thesis using Crashed by simp
next
  case Linked
  with createLink_frame [OF Linked(2)] assms(2) show ?thesis
    by (auto intro!: uploadsSafe_shrink [OF assms(2)] simp del: uploadsSafe.simps) simp
next
  case Detached
  with remove_frame [OF Detached(2)] assms(2) show ?thesis
    by (auto intro!: uploadsSafe_shrink [OF assms(2)] simp del: uploadsSafe.simps) simp
next
  case (Swept env grace now r)
  note spared = sweep_spares [OF _ Swept(2) Swept(4)]
  have plain: "filesPlain w" using assms(2) by simp
  have "k \<in> fileKeys w'" if k: "k \<in> fileKeys w" and "claimed w k \<or> (\<exists>u \<in> set P. su_storageKey u = k)" for k
  proof -
    obtain f where f: "f \<in> set (w_files w)" "sf_key f = k" using k by (auto simp: fileKeys_def)
    then have "claimed w (sf_key f) \<or> notBefore (sf_modifiedAt f) (orphanCutoff now grace)" using that(2) Swept(3) by auto
    then show ?thesis using spared(3) [OF plain f(1)] f(2) by (auto simp: fileKeys_def)
  qed
  then show ?thesis
    using assms(2) spared(1,2) [OF plain] Swept(1)
    by (auto simp: bytesPresent_def claimed_def image_iff split: option.splits) (metis option.simps(5))
next
  case Imported
  with import_links_only [OF Imported(2)] show ?thesis using linksOnly_safe [OF assms(2)] by simp
next
  case Elsewhere
  then show ?thesis using linksOnly_safe [OF assms(2)] by simp
qed

lemma attachment_steps_safe:
  assumes "(attachment_step d)\<^sup>*\<^sup>* s s'" and "uploadsSafe s"
  shows "uploadsSafe s'"
  using assms
proof (induction rule: rtranclp_induct)
  case (step s' s'')
  then show ?case using attachment_step_safe by (cases s'; cases s'') blast
qed

text \<open>
  C27. No row without its bytes: along every interleaving of uploads, links, imports from Trello, removals, sweeps
  and other requests, each row of a file can be read back. Two things are assumed: every upload commits within
  the grace period of a sweep that runs meanwhile (the step \<open>Swept\<close>), and the other requests touch no file
  and add no row that names one (\<open>linksOnly\<close>), as uploads are all that writes files. Uploads that crash between
  their steps only leave files, which a sweep may take.
\<close>

theorem rows_have_bytes:
  assumes "(attachment_step d)\<^sup>*\<^sup>* (w, []) (w', P)" and "filesPlain w" and "bytesPresent w"
    and "a \<in> set (attachments w')" and "at_storageKey a = Some k"
  shows "\<exists>bytes. StorageService_createReadStream (Some d) k w' = (Inr bytes, w')"
proof -
  have "uploadsSafe (w', P)" by (rule attachment_steps_safe [OF assms(1)]) (simp add: assms(2,3))
  then have "k \<in> fileKeys w'" "filesPlain w'" using assms(4,5) by (auto simp: bytesPresent_def split: option.splits)
  then obtain f where f: "f \<in> set (w_files w')" "sf_key f = k" "plainKey k" by (auto simp: fileKeys_def filesPlain_def)
  then have "find (\<lambda>f. sf_key f = k) (w_files w') \<noteq> None" by (auto simp: find_None)
  then show ?thesis using StorageService_run(2) [OF f(3), of d w'] by auto
qed

theorem rows_have_bytes_witness:
  "\<exists>w' a k bytes. (attachment_step sampleDisk)\<^sup>*\<^sup>* (uploadWorld, []) (w', []) \<and> attachments w' = [a] \<and> at_storageKey a = Some k
     \<and> StorageService_createReadStream (Some sampleDisk) k w' = (Inr bytes, w')"
proof -
  let ?w = uploadWorld
  obtain task where task: "findTaskRow ?w (js ''w1'') (js ''t1'') = Some task" using sampleUpload_task by blast
  obtain u w1 where store: "createFile_store (Some sampleDisk) (\<lambda>_. None) (js ''w1'') (js ''t1'') sampleUpload ?w = (Inr u, w1)"
      and u: "su_task u = task" and w1: "tasks w1 = tasks ?w" "attachments w1 = []"
    using task sampleUpload_facts(2,4) by (auto simp: createFile_store_iff [OF sampleUpload_facts(1)])
  have present: "list_ex (\<lambda>t. t_id t = t_id (su_task u)) (tasks w1)"
    using findTaskRow_Some [OF task] u w1 by (auto simp: list_ex_iff)
  obtain r w2 where commit: "createFile_commit (Some sampleDisk) (js ''w1'') (js ''u1'') sampleUpload u w1 = (r, w2)"
    by (metis prod.collapse)
  have w2: "attachments w2 = [uploadRow sampleUpload (js ''u1'') u w1]"
    using commit present w1(2) by (auto simp: createFile_commit_run)
  have "attachment_step sampleDisk (?w, []) (w1, [u])"
    by (rule attachment_step.Stored [OF store sampleUpload_facts(1)]) (simp_all add: sampleUpload_facts(2))
  moreover have "attachment_step sampleDisk (w1, [u]) (w2, remove1 u [u])"
    by (rule attachment_step.Committed [OF _ commit]) simp
  ultimately have run: "(attachment_step sampleDisk)\<^sup>*\<^sup>* (?w, []) (w2, [])"
    by (auto intro: rtranclp.rtrancl_into_rtrancl)
  have start: "filesPlain ?w" "bytesPresent ?w"
    by (simp_all add: filesPlain_def bytesPresent_def uploadWorld_def sampleWorld_def)
  have key: "at_storageKey (uploadRow sampleUpload (js ''u1'') u w1) = Some (su_storageKey u)" by (simp add: uploadRow_def)
  obtain bytes where "StorageService_createReadStream (Some sampleDisk) (su_storageKey u) w2 = (Inr bytes, w2)"
    using rows_have_bytes [OF run start _ key] w2 by auto
  with run w2 key show ?thesis by blast
qed

end
