(* ===== verification/DateProps.thy ===== *)
theory DateProps
  imports Dates
begin

section \<open>A day has one name\<close>

text \<open>
  The calendar of \<open>toISOString\<close> gives different days different names. The year within an era of 400 years is
  found by a formula without a loop; that it is the right one is checked at the first and the last day of
  a year, of each kind of year, and in between because the formula is monotone.
\<close>

definition eraDays :: "int \<Rightarrow> int" where
  \<comment> \<open>the numerator of the year of a day of the era\<close>
  "eraDays doe = doe - doe div 1460 + doe div 36524 - doe div 146096"

definition yearStart :: "int \<Rightarrow> int" where
  "yearStart y = (if y = 400 then 146097 else 365 * y + y div 4 - y div 100)"

lemma div_grows: "0 < k \<Longrightarrow> (a :: int) \<le> b \<Longrightarrow> b div k - a div k \<le> b - a"
proof (induction "nat (b - a)" arbitrary: b)
  case 0
  then show ?case by simp
next
  case (Suc n)
  then have "(b - 1) div k - a div k \<le> b - 1 - a" by (intro Suc(1)) simp_all
  moreover have "b div k \<le> (b - 1) div k + 1"
    using Suc(3) zdiv_mono1 [of b "b - 1 + k" k] by simp
  ultimately show ?case by linarith
qed

lemma div_is: "(a :: int) = k * q + r \<Longrightarrow> 0 \<le> r \<Longrightarrow> r < k \<Longrightarrow> a div k = q"
  by (rule int_div_pos_eq)

lemma eraDays_mono:
  assumes "0 \<le> a" and "a \<le> b" and "b \<le> 146096"
  shows "eraDays a \<le> eraDays b"
proof (cases "b = 146096")
  case True
  then have b: "eraDays b = 145999" by (simp add: eraDays_def)
  show ?thesis
  proof (cases "a = b")
    case False
    then have "a \<le> 146095" using assms True by simp
    then have "146095 div 1460 - a div 1460 \<le> 146095 - a" "a div 36524 \<le> 146095 div 36524"
      by (intro div_grows zdiv_mono1; simp)+
    moreover have "0 \<le> a div 146096" using assms(1) by (simp add: pos_imp_zdiv_nonneg_iff)
    ultimately show ?thesis unfolding b by (simp add: eraDays_def)
  qed simp
next
  case False
  have sum: "a1 + a2 - a3 \<le> b1 + b2 - b3" if "a1 \<le> b1" "a2 \<le> b2" "a3 = 0" "b3 = 0" for a1 a2 a3 b1 b2 b3 :: int
    using that by simp
  have "b div 1460 - a div 1460 \<le> b - a" using assms(2) by (intro div_grows) simp
  then have "a - a div 1460 \<le> b - b div 1460" by (simp only: diff_le_eq le_diff_eq add.commute add.left_commute)
  then show ?thesis
    unfolding eraDays_def by (intro sum zdiv_mono1) (use False assms in simp_all)
qed

lemma year_split:
  assumes "0 \<le> y" and "y < 400"
  shows "\<exists>k j i. y = 100 * k + 4 * j + i \<and> 0 \<le> k \<and> k \<le> 3 \<and> 0 \<le> j \<and> j \<le> 24 \<and> 0 \<le> i \<and> i \<le> (3 :: int)"
proof (intro exI conjI)
  show "y = 100 * (y div 100) + 4 * (y mod 100 div 4) + y mod 100 mod 4" by simp
  show "0 \<le> y div 100" using assms by (simp add: pos_imp_zdiv_nonneg_iff)
  show "y div 100 \<le> 3" using zdiv_mono1 [of y 399 100] assms by simp
  have "0 \<le> y mod 100" "y mod 100 \<le> 99" using pos_mod_bound [of 100 y] by simp_all
  then show "0 \<le> y mod 100 div 4" "y mod 100 div 4 \<le> 24"
    using zdiv_mono1 [of "y mod 100" 99 4] by (simp_all add: pos_imp_zdiv_nonneg_iff)
  show "0 \<le> y mod 100 mod 4" "y mod 100 mod 4 \<le> 3" using pos_mod_bound [of 4 "y mod 100"] by simp_all
qed

lemma yearStart_split:
  assumes "0 \<le> k" "k \<le> 3" "0 \<le> j" "j \<le> 24" "0 \<le> i" "i \<le> 3"
  shows "yearStart (100 * k + 4 * j + i) = 36524 * k + 1461 * j + 365 * i"
proof -
  have "(100 * k + 4 * j + i) div 4 = 25 * k + j" "(100 * k + 4 * j + i) div 100 = k"
    using div_is [of "100 * k + 4 * j + i" 4 "25 * k + j" i] div_is [of "100 * k + 4 * j + i" 100 k "4 * j + i"] assms
    by simp_all
  moreover have "100 * k + 4 * j + i \<noteq> 400" using assms by linarith
  ultimately show ?thesis by (simp add: yearStart_def)
qed

lemma eraDays_at:
  assumes "e = 1460 * a + r" "0 \<le> r" "r < 1460" and "e = 36524 * b + q" "0 \<le> q" "q < 36524" and "0 \<le> e" "e < 146096"
  shows "eraDays e = e - a + b"
  using div_is [OF assms(1-3)] div_is [OF assms(4-6)] assms(7,8) by (simp add: eraDays_def)

lemma year_ends:
  assumes "0 \<le> y" and "y < 400"
  shows "eraDays (yearStart y) = 365 * y" and "eraDays (yearStart (y + 1) - 1) < 365 * (y + 1)"
    and "yearStart (y + 1) - yearStart y \<le> 366"
proof -
  obtain k j i where y: "y = 100 * k + 4 * j + i" and b: "0 \<le> k" "k \<le> 3" "0 \<le> j" "j \<le> 24" "0 \<le> i" "i \<le> 3"
    using year_split [OF assms] by blast
  have start: "yearStart y = 36524 * k + 1461 * j + 365 * i" using yearStart_split [OF b] y by simp
  have "eraDays (yearStart y) = yearStart y - (25 * k + j) + k"
    by (rule eraDays_at [where r = "24 * k + j + 365 * i" and q = "1461 * j + 365 * i"]) (use b in \<open>simp_all add: start\<close>)
  then show "eraDays (yearStart y) = 365 * y" using start y by simp
  consider "i < 3" | "i = 3" "j < 24" | "i = 3" "j = 24" "k < 3" | "i = 3" "j = 24" "k = 3" using b by linarith
  then have "eraDays (yearStart (y + 1) - 1) < 365 * (y + 1) \<and> yearStart (y + 1) - yearStart y \<le> 366"
  proof cases
    case 1
    then have after: "yearStart (y + 1) = 36524 * k + 1461 * j + 365 * (i + 1)"
      using yearStart_split [of k j "i + 1"] b y by (simp add: add.assoc)
    have "eraDays (yearStart (y + 1) - 1) = yearStart (y + 1) - 1 - (25 * k + j) + k"
      by (rule eraDays_at [where r = "24 * k + j + 365 * (i + 1) - 1" and q = "1461 * j + 365 * (i + 1) - 1"])
        (use b 1 in \<open>simp_all add: after\<close>)
    then show ?thesis
      using after start y by simp_all
  next
    case 2
    then have after: "yearStart (y + 1) = 36524 * k + 1461 * (j + 1)"
      using yearStart_split [of k "j + 1" 0] b y by (simp add: algebra_simps)
    have "eraDays (yearStart (y + 1) - 1) = yearStart (y + 1) - 1 - (25 * k + j + 1) + k"
      by (rule eraDays_at [where r = "24 * k + j" and q = "1461 * (j + 1) - 1"]) (use b 2 in \<open>simp_all add: after\<close>)
    then show ?thesis
      using after start y 2 by simp_all
  next
    case 3
    then have after: "yearStart (y + 1) = 36524 * (k + 1)"
      using yearStart_split [of "k + 1" 0 0] b y by (simp add: algebra_simps)
    have "eraDays (yearStart (y + 1) - 1) = yearStart (y + 1) - 1 - (25 * k + 25) + k"
      by (rule eraDays_at [where r = "24 * k + 23" and q = 36523]) (use b 3 in \<open>simp_all add: after\<close>)
    then show ?thesis
      using after start y 3 by simp_all
  next
    case 4
    then have "y + 1 = 400" "yearStart y = 145731" using y start by simp_all
    then show ?thesis
      by (simp add: yearStart_def eraDays_def)
  qed
  then show "eraDays (yearStart (y + 1) - 1) < 365 * (y + 1)" "yearStart (y + 1) - yearStart y \<le> 366" by simp_all
qed

lemma year_exists:
  "0 \<le> doe \<Longrightarrow> doe < yearStart (int n) \<Longrightarrow> \<exists>y < n. yearStart (int y) \<le> doe \<and> doe < yearStart (int y + 1)"
proof (induction n)
  case 0
  then show ?case by (simp add: yearStart_def)
next
  case (Suc n)
  show ?case
  proof (cases "doe < yearStart (int n)")
    case True
    with Suc obtain y where "y < n" "yearStart (int y) \<le> doe" "doe < yearStart (int y + 1)" by blast
    then show ?thesis by (intro exI [of _ y]) simp
  next
    case False
    with Suc.prems show ?thesis by (intro exI [of _ n]) (simp add: add.commute)
  qed
qed

lemma era_year:
  assumes "0 \<le> doe" and "doe \<le> 146096"
  shows "0 \<le> eraDays doe div 365" and "eraDays doe div 365 \<le> 399"
    and "0 \<le> doe - yearStart (eraDays doe div 365)" and "doe - yearStart (eraDays doe div 365) \<le> 365"
proof -
  have "yearStart (int 400) = 146097" by (simp add: yearStart_def)
  then obtain n where "n < 400" and y: "yearStart (int n) \<le> doe" "doe < yearStart (int n + 1)"
    using year_exists [of doe 400] assms by auto
  then have b: "0 \<le> int n" "int n < 400" by simp_all
  note ends = year_ends [OF b]
  have "yearStart (int n + 1) \<le> 146097"
    using b by (auto simp: yearStart_def)
  moreover have "0 \<le> yearStart (int n)" using b by (auto simp: yearStart_def)
  ultimately have "eraDays (yearStart (int n)) \<le> eraDays doe" "eraDays doe \<le> eraDays (yearStart (int n + 1) - 1)"
    using y assms by (auto intro!: eraDays_mono)
  then have "365 * int n \<le> eraDays doe" "eraDays doe < 365 * (int n + 1)" using ends by linarith+
  then have "eraDays doe div 365 = int n" by (intro div_is [where r = "eraDays doe - 365 * int n"]) simp_all
  then show "0 \<le> eraDays doe div 365" "eraDays doe div 365 \<le> 399" "0 \<le> doe - yearStart (eraDays doe div 365)"
    "doe - yearStart (eraDays doe div 365) \<le> 365"
    using y b ends(3) by simp_all
qed

subsection \<open>The name of a day\<close>

lemma yearStart_below: "y \<le> 399 \<Longrightarrow> yearStart y = 365 * y + y div 4 - y div 100"
  by (simp add: yearStart_def)

lemma civilFromDays_split:
  obtains era yoe mp d where "0 \<le> yoe" "yoe \<le> 399" "0 \<le> mp" "mp \<le> 11" "1 \<le> d" "d \<le> 31"
    and "days + 719468 = 146097 * era + (365 * yoe + yoe div 4 - yoe div 100) + (153 * mp + 2) div 5 + d - 1"
    and "civilFromDays days = (yoe + era * 400 + (if 10 \<le> mp then 1 else 0), if mp < 10 then mp + 3 else mp - 9, d)"
    and "era = (days + 719468) div 146097"
proof -
  let ?z = "days + 719468"
  let ?doe = "?z mod 146097"
  let ?yoe = "eraDays ?doe div 365"
  let ?doy = "?doe - (365 * ?yoe + ?yoe div 4 - ?yoe div 100)"
  let ?mp = "(5 * ?doy + 2) div 153"
  let ?d = "?doy - (153 * ?mp + 2) div 5 + 1"
  have doe: "0 \<le> ?doe" "?doe \<le> 146096" using pos_mod_bound [of 146097 ?z] by simp_all
  note year = era_year [OF doe]
  have doy: "0 \<le> ?doy" "?doy \<le> 365" using year(3,4) unfolding yearStart_below [OF year(2)] by this+
  have months: "0 \<le> (5 * v + 2) div 153 \<and> (5 * v + 2) div 153 \<le> 11" if "0 \<le> v" "v \<le> 365" for v :: int
    using zdiv_mono1 [of "5 * v + 2" 1827 153] that by (simp add: pos_imp_zdiv_nonneg_iff)
  have mp: "0 \<le> ?mp" "?mp \<le> 11" using months [OF doy] by blast+
  have month: "1 \<le> doy - (153 * mp + 2) div 5 + 1 \<and> doy - (153 * mp + 2) div 5 + 1 \<le> 31"
    if "mp = (5 * doy + 2) div 153" for doy mp :: int
  proof -
    have r: "0 \<le> (5 * doy + 2) mod 153" "(5 * doy + 2) mod 153 < 153" "5 * doy + 2 = 153 * mp + (5 * doy + 2) mod 153"
      using that by simp_all
    have s: "0 \<le> (153 * mp + 2) mod 5" "(153 * mp + 2) mod 5 < 5" "153 * mp + 2 = 5 * ((153 * mp + 2) div 5) + (153 * mp + 2) mod 5"
      by simp_all
    have bound: "0 \<le> x \<and> x \<le> 30" if "0 \<le> u" "u < 153" "5 * v + 2 = n + u" "0 \<le> t" "t < 5" "n + 2 = 5 * q + t" "x = v - q"
      for x u v n t q :: int using that by linarith
    show ?thesis using bound [OF r(1,2,3) s(1,2,3) refl] by simp
  qed
  have d: "1 \<le> ?d" "?d \<le> 31" using month [OF refl, of ?doy] by blast+
  have "?z = 146097 * (?z div 146097) + ?doe" by simp
  then have split: "?z = 146097 * (?z div 146097) + (365 * ?yoe + ?yoe div 4 - ?yoe div 100) + (153 * ?mp + 2) div 5 + ?d - 1"
    by linarith
  have "civilFromDays days = (?yoe + ?z div 146097 * 400 + (if (if ?mp < 10 then ?mp + 3 else ?mp - 9) \<le> 2 then 1 else 0),
      if ?mp < 10 then ?mp + 3 else ?mp - 9, ?d)"
    by (simp only: civilFromDays_def eraDays_def Let_def)
  moreover have six: "((if v < 10 then v + 3 else v - 9) \<le> 2) = (10 \<le> v)" if "0 \<le> v" "v \<le> 11" for v :: int
    using that by auto
  note six [OF mp]
  ultimately have "civilFromDays days = (?yoe + ?z div 146097 * 400 + (if 10 \<le> ?mp then 1 else 0),
      if ?mp < 10 then ?mp + 3 else ?mp - 9, ?d)" by (simp only:)
  then show thesis by (rule that [OF year(1,2) mp d split _ refl])
qed

lemma civilFromDays_inj: "civilFromDays a = civilFromDays b \<Longrightarrow> a = b"
proof -
  assume eq: "civilFromDays a = civilFromDays b"
  obtain era yoe mp d where a: "0 \<le> yoe" "yoe \<le> 399" "0 \<le> mp" "mp \<le> 11"
      "a + 719468 = 146097 * era + (365 * yoe + yoe div 4 - yoe div 100) + (153 * mp + 2) div 5 + d - 1"
      "civilFromDays a = (yoe + era * 400 + (if 10 \<le> mp then 1 else 0), if mp < 10 then mp + 3 else mp - 9, d)"
    by (rule civilFromDays_split)
  obtain era' yoe' mp' d' where b: "0 \<le> yoe'" "yoe' \<le> 399" "0 \<le> mp'" "mp' \<le> 11"
      "b + 719468 = 146097 * era' + (365 * yoe' + yoe' div 4 - yoe' div 100) + (153 * mp' + 2) div 5 + d' - 1"
      "civilFromDays b = (yoe' + era' * 400 + (if 10 \<le> mp' then 1 else 0), if mp' < 10 then mp' + 3 else mp' - 9, d')"
    by (rule civilFromDays_split)
  have "d = d'" "mp = mp'" using eq a(3,4,6) b(3,4,6) by (auto split: if_splits)
  then have "yoe + era * 400 = yoe' + era' * 400" using eq a(6) b(6) by (auto split: if_splits)
  then have "(yoe + era * 400) div 400 = (yoe' + era' * 400) div 400" by simp
  then have "era = era'"
    using div_is [of "yoe + era * 400" 400 era yoe] div_is [of "yoe' + era' * 400" 400 era' yoe'] a(1,2) b(1,2) by simp
  with \<open>yoe + era * 400 = yoe' + era' * 400\<close> have "yoe = yoe'" by simp
  then show "a = b" using a(5) b(5) \<open>era = era'\<close> \<open>d = d'\<close> \<open>mp = mp'\<close> by simp
qed

definition commonEra :: "js_date \<Rightarrow> bool" where
  \<comment> \<open>from 1970 to the year 8814\<close>
  "commonEra t \<longleftrightarrow> 0 \<le> t \<and> t div MS_PER_DAY < 2500000"

lemma commonEra_fields:
  assumes "0 \<le> days" and "days < 2500000" and "civilFromDays days = (y, m, d)"
  shows "0 \<le> y" "y < 10000" "0 \<le> m" "m < 100" "0 \<le> d" "d < 100"
proof -
  obtain era yoe mp e where f: "0 \<le> yoe" "yoe \<le> 399" "0 \<le> mp" "mp \<le> 11" "1 \<le> e" "e \<le> 31"
      "civilFromDays days = (yoe + era * 400 + (if 10 \<le> mp then 1 else 0), if mp < 10 then mp + 3 else mp - 9, e)"
      "era = (days + 719468) div 146097"
    by (rule civilFromDays_split)
  have "0 \<le> era" "era \<le> 22"
    using zdiv_mono1 [of "days + 719468" 3219467 146097] assms(1,2) f(8) by (simp_all add: pos_imp_zdiv_nonneg_iff)
  with f assms(3) show "0 \<le> y" "y < 10000" "0 \<le> m" "m < 100" "0 \<le> d" "d < 100" by (auto split: if_splits)
qed

lemma isoDate_inj:
  assumes "commonEra a" and "commonEra b" and "isoDate a = isoDate b"
  shows "a div MS_PER_DAY = b div MS_PER_DAY"
proof -
  obtain y m d where a: "civilFromDays (a div MS_PER_DAY) = (y, m, d)" by (metis prod_cases3)
  obtain y' m' d' where b: "civilFromDays (b div MS_PER_DAY) = (y', m', d')" by (metis prod_cases3)
  have days: "0 \<le> a div MS_PER_DAY" "0 \<le> b div MS_PER_DAY"
    using assms(1,2) by (simp_all add: commonEra_def MS_PER_DAY_def pos_imp_zdiv_nonneg_iff)
  have fa: "0 \<le> y" "y < 10000" "0 \<le> m" "m < 100" "0 \<le> d" "d < 100"
    using commonEra_fields [OF days(1) _ a] assms(1) by (simp_all add: commonEra_def)
  have fb: "0 \<le> y'" "y' < 10000" "0 \<le> m'" "m' < 100" "0 \<le> d'" "d' < 100"
    using commonEra_fields [OF days(2) _ b] assms(2) by (simp_all add: commonEra_def)
  have "digits 4 y @ js ''-'' @ digits 2 m @ js ''-'' @ digits 2 d = digits 4 y' @ js ''-'' @ digits 2 m' @ js ''-'' @ digits 2 d'"
    using assms(3) fa fb by (simp add: isoDate_def a b yearString_def del: js_Cons)
  then have "digits 4 y = digits 4 y'" "digits 2 m = digits 2 m'" "digits 2 d = digits 2 d'"
    by (simp_all add: append_eq_append_conv del: js_Cons)
  then have "y = y'" "m = m'" "d = d'"
    using digits_inj [of 4 y y'] digits_inj [of 2 m m'] digits_inj [of 2 d d'] fa fb by simp_all
  then have "civilFromDays (a div MS_PER_DAY) = civilFromDays (b div MS_PER_DAY)" by (simp add: a b)
  then show ?thesis by (rule civilFromDays_inj)
qed

lemma isoDate_take:
  assumes "commonEra t"
  shows "take 10 (toISOString t) = isoDate t"
proof -
  obtain y m d where a: "civilFromDays (t div MS_PER_DAY) = (y, m, d)" by (metis prod_cases3)
  have "0 \<le> t div MS_PER_DAY" using assms by (simp add: commonEra_def MS_PER_DAY_def pos_imp_zdiv_nonneg_iff)
  then have "0 \<le> y" "y < 10000" using commonEra_fields [OF _ _ a] assms by (simp_all add: commonEra_def)
  then have "length (isoDate t) = 10" by (simp add: isoDate_def a yearString_def)
  then show ?thesis by (simp add: toISOString_def)
qed

end
