(* ===== verification/Dashboard.thy ===== *)
theory Dashboard
  imports TaskService
begin

section \<open>The dashboard\<close>

text \<open>
  \<open>dashboard/dashboard.service.ts\<close> and \<open>dashboard-throughput.ts\<close>. The reads of \<open>Promise.all\<close> are made of one
  state. Two things are parameters: \<open>collation\<close>, the sort key by which the database orders names, and
  \<open>shuffle\<close>, the order in which a grouping lists its groups, which decides between groups that tie.
\<close>

record DashboardCountByPriority =
  dp_priority :: priority
  dp_count :: nat

record DashboardCountByAssignee =
  da_userId :: "uuid option"
  da_name :: js_string
  da_count :: nat

record DashboardCountByColumn =
  dc_columnId :: uuid
  dc_name :: js_string
  dc_position :: number
  dc_count :: nat

record DashboardThroughputDay =
  dt_date :: js_string
  dt_created :: nat
  dt_completed :: nat

record DashboardSummaryDto =
  ds_totalTasks :: nat
  ds_overdueCount :: nat
  ds_byPriority :: "DashboardCountByPriority list"
  ds_byAssignee :: "DashboardCountByAssignee list"
  ds_byColumn :: "DashboardCountByColumn list option"
  ds_throughput :: "DashboardThroughputDay list"

subsection \<open>Days\<close>

definition THROUGHPUT_DAYS :: nat where
  "THROUGHPUT_DAYS = 14"

definition utcDateKey :: "js_date \<Rightarrow> js_string" where
  "utcDateKey d = take 10 (toISOString d)"

definition utcMidnight :: "js_date \<Rightarrow> js_date" where
  \<comment> \<open>\<open>Date.UTC(getUTCFullYear(), getUTCMonth(), getUTCDate())\<close>, and \<open>date_trunc('day', ..., 'UTC')\<close>\<close>
  "utcMidnight t = t div MS_PER_DAY * MS_PER_DAY"

definition emptyThroughputSeries :: "js_date \<Rightarrow> DashboardThroughputDay list" where
  "emptyThroughputSeries now = map (\<lambda>i.
     \<lparr>dt_date = utcDateKey (utcMidnight now - int i * 86400000), dt_created = 0, dt_completed = 0\<rparr>) (rev [0..<THROUGHPUT_DAYS])"

definition applyThroughputDayCounts ::
  "DashboardThroughputDay list \<Rightarrow> (js_string \<rightharpoonup> nat) \<Rightarrow> (js_string \<rightharpoonup> nat) \<Rightarrow> DashboardThroughputDay list" where
  "applyThroughputDayCounts series createdByDay completedByDay = map (\<lambda>day.
     \<lparr>dt_date = dt_date day,
      dt_created = (case createdByDay (dt_date day) of None \<Rightarrow> 0 | Some n \<Rightarrow> n),
      dt_completed = (case completedByDay (dt_date day) of None \<Rightarrow> 0 | Some n \<Rightarrow> n)\<rparr>) series"

definition toDayCountMap :: "(js_date \<times> nat) list \<Rightarrow> js_string \<rightharpoonup> nat" where
  "toDayCountMap rows = foldl (\<lambda>m (day, count). m(utcDateKey day \<mapsto> count)) Map.empty rows"

subsection \<open>Grouping\<close>

definition groupCount :: "('r \<Rightarrow> 'k) \<Rightarrow> 'r list \<Rightarrow> ('k \<times> nat) list" where
  \<comment> \<open>\<open>GROUP BY key\<close> with \<open>COUNT(*)\<close>\<close>
  "groupCount key rows = map (\<lambda>k. (k, length (filter (\<lambda>r. key r = k) rows))) (remdups (map key rows))"

subsection \<open>Scopes\<close>

definition boardScope :: "js_string js_field \<Rightarrow> uuid option" where
  \<comment> \<open>\<open>query.boardId ? ... : ...\<close>\<close>
  "boardScope f = (case field_option f of None \<Rightarrow> None | Some b \<Rightarrow> if b = [] then None else Some b)"

definition onBoard :: "uuid option \<Rightarrow> uuid \<Rightarrow> bool" where
  "onBoard boardId b \<longleftrightarrow> (case boardId of None \<Rightarrow> True | Some k \<Rightarrow> b = k)"

definition taskWhere :: "world \<Rightarrow> uuid \<Rightarrow> uuid option \<Rightarrow> task_row list" where
  "taskWhere w workspaceId boardId =
     filter (\<lambda>t. boardIn w workspaceId (t_boardId t) \<and> onBoard boardId (t_boardId t)) (tasks w)"

definition completedColumnIds :: "world \<Rightarrow> uuid \<Rightarrow> uuid option \<Rightarrow> uuid list" where
  "completedColumnIds w workspaceId boardId = map c_id
     (filter (\<lambda>c. boardIn w workspaceId (c_boardId c) \<and> onBoard boardId (c_boardId c) \<and> c_category c = COMPLETED) (columns w))"

definition overdue :: "js_date \<Rightarrow> uuid list \<Rightarrow> task_row \<Rightarrow> bool" where
  "overdue now completed t \<longleftrightarrow> (case t_dueDate t of None \<Rightarrow> False | Some d \<Rightarrow> d < now)
     \<and> (0 < length completed \<longrightarrow> t_columnId t \<notin> set completed)"

subsection \<open>Activities by day\<close>

definition payloadText :: "payload \<Rightarrow> string \<Rightarrow> js_string option" where
  \<comment> \<open>\<open>payload->>'key'\<close>, for the strings the services record\<close>
  "payloadText p k = (case map_of p k of Some (JString s) \<Rightarrow> Some s | _ \<Rightarrow> None)"

definition DashboardService_countActivitiesByDay ::
  "world \<Rightarrow> uuid \<Rightarrow> activity_type \<Rightarrow> js_date \<Rightarrow> uuid option \<Rightarrow> (activity_row \<Rightarrow> bool) \<Rightarrow> (js_date \<times> nat) list" where
  "DashboardService_countActivitiesByDay w workspaceId type since boardId extraFilter =
     (let joined = (case boardId of
            None \<Rightarrow> activities w
          | Some b \<Rightarrow> concat (map (\<lambda>a. map (\<lambda>_. a) (filter (\<lambda>t. a_taskId a = Some (t_id t) \<and> t_boardId t = b) (tasks w))) (activities w)))
      in groupCount (\<lambda>a. utcMidnight (a_createdAt a))
           (filter (\<lambda>a. a_workspaceId a = workspaceId \<and> a_type a = type \<and> since \<le> a_createdAt a \<and> extraFilter a) joined))"

definition DashboardService_countCompletedMovesByDay ::
  "world \<Rightarrow> uuid \<Rightarrow> js_date \<Rightarrow> uuid list \<Rightarrow> uuid option \<Rightarrow> (js_date \<times> nat) list" where
  "DashboardService_countCompletedMovesByDay w workspaceId since completed boardId =
     DashboardService_countActivitiesByDay w workspaceId TaskMoved since boardId (\<lambda>a.
       (case payloadText (a_payload a) ''toColumnId'' of None \<Rightarrow> False | Some c \<Rightarrow> c \<in> set completed)
       \<or> payloadText (a_payload a) ''toColumnCategory'' = Some (js ''COMPLETED''))"

subsection \<open>Assignees\<close>

definition ASSIGNEE_TOP_N :: nat where
  "ASSIGNEE_TOP_N = 8"

type_synonym collation = "js_string \<Rightarrow> js_string"
type_synonym shuffle = "(uuid \<times> nat) list \<Rightarrow> (uuid \<times> nat) list"

definition assigneeName :: "world \<Rightarrow> uuid \<Rightarrow> js_string" where
  "assigneeName w userId = (case find (\<lambda>u. u_id u = userId) (users w) of Some u \<Rightarrow> u_name u | None \<Rightarrow> userId)"

definition assignmentsIn :: "world \<Rightarrow> uuid \<Rightarrow> uuid option \<Rightarrow> assignee_row list" where
  \<comment> \<open>the joined rows\<close>
  "assignmentsIn w workspaceId boardId = concat (map (\<lambda>ta.
     map (\<lambda>_. ta) (filter (\<lambda>t. t_id t = ta_taskId ta) (taskWhere w workspaceId boardId))) (assignees w))"

definition DashboardService_rankedAssigneeBuckets ::
  "collation \<Rightarrow> shuffle \<Rightarrow> world \<Rightarrow> uuid \<Rightarrow> uuid option \<Rightarrow> DashboardCountByAssignee list" where
  "DashboardService_rankedAssigneeBuckets collation shuffle w workspaceId boardId =
     (let counts = groupCount ta_userId (assignmentsIn w workspaceId boardId);
          ranked = sort_key (\<lambda>(k, n). (- int n, collation (assigneeName w k))) (shuffle counts);
          tail = sum_list (map snd (drop ASSIGNEE_TOP_N ranked))
      in map (\<lambda>(k, n). \<lparr>da_userId = Some k, da_name = assigneeName w k, da_count = n\<rparr>) (take ASSIGNEE_TOP_N ranked)
           @ (if 0 < tail then [\<lparr>da_userId = None, da_name = js ''Other'', da_count = tail\<rparr>] else []))"

subsection \<open>The summary\<close>

definition ALL_PRIORITIES :: "priority list" where
  "ALL_PRIORITIES = [LOW, MEDIUM, HIGH, URGENT]"

definition byPriority :: "task_row list \<Rightarrow> DashboardCountByPriority list" where
  "byPriority ts =
     (let priorityGroups = groupCount t_priority ts
      in map (\<lambda>p. \<lparr>dp_priority = p, dp_count = (case find (\<lambda>row. fst row = p) priorityGroups of None \<Rightarrow> 0 | Some row \<Rightarrow> snd row)\<rparr>)
           ALL_PRIORITIES)"

definition byColumn :: "world \<Rightarrow> uuid \<Rightarrow> uuid \<Rightarrow> task_row list \<Rightarrow> DashboardCountByColumn list" where
  "byColumn w workspaceId b ts =
     (let countByColumn = map_of (rev (groupCount t_columnId ts))
      in map (\<lambda>c. \<lparr>dc_columnId = c_id c, dc_name = c_name c, dc_position = c_position c,
             dc_count = (case countByColumn (c_id c) of None \<Rightarrow> 0 | Some n \<Rightarrow> n)\<rparr>)
           (sort_key (\<lambda>c. (c_position c, c_id c)) (filter (\<lambda>c. c_boardId c = b \<and> boardIn w workspaceId (c_boardId c)) (columns w))))"

definition dashboardOf :: "collation \<Rightarrow> shuffle \<Rightarrow> uuid \<Rightarrow> uuid option \<Rightarrow> world \<Rightarrow> DashboardSummaryDto" where
  \<comment> \<open>\<open>summary\<close> from the reads on\<close>
  "dashboardOf collation shuffle workspaceId boardId w =
     (let ts = taskWhere w workspaceId boardId;
          now = w_now w;
          series = emptyThroughputSeries now;
          \<comment> \<open>midnight of the first day of the series\<close>
          since = utcMidnight now - int (THROUGHPUT_DAYS - 1) * 86400000;
          completed = completedColumnIds w workspaceId boardId;
          unassigned = length (filter (\<lambda>t. \<not> list_ex (\<lambda>ta. ta_taskId ta = t_id t) (assignees w)) ts);
          buckets = DashboardService_rankedAssigneeBuckets collation shuffle w workspaceId boardId
      in \<lparr>ds_totalTasks = length ts,
          ds_overdueCount = length (filter (overdue now completed) ts),
          ds_byPriority = byPriority ts,
          ds_byAssignee = (if 0 < unassigned then \<lparr>da_userId = None, da_name = js ''Unassigned'', da_count = unassigned\<rparr> # buckets
            else buckets),
          ds_byColumn = map_option (\<lambda>b. byColumn w workspaceId b ts) boardId,
          ds_throughput = applyThroughputDayCounts series
            (toDayCountMap (DashboardService_countActivitiesByDay w workspaceId TaskCreated since boardId (\<lambda>_. True)))
            (toDayCountMap (DashboardService_countCompletedMovesByDay w workspaceId since completed boardId))\<rparr>)"

definition DashboardService_summary ::
  "collation \<Rightarrow> shuffle \<Rightarrow> uuid \<Rightarrow> js_string js_field \<Rightarrow> DashboardSummaryDto handler" where
  "DashboardService_summary collation shuffle workspaceId query_boardId =
     bindE (case boardScope query_boardId of None \<Rightarrow> return ()
       | Some b \<Rightarrow> bindE (assertBoard workspaceId b) (\<lambda>_. return ())) (\<lambda>_.
     reads (dashboardOf collation shuffle workspaceId (boardScope query_boardId)))"

end
