(* ===== verification/DashboardProps.thy ===== *)
theory DashboardProps
  imports Dashboard DateProps Sample "HOL-Library.Multiset"
begin

section \<open>The dashboard adds up\<close>

text \<open>
  Whatever the grouping and the folding, each chart accounts for every task, every assignment and every
  activity once. \<open>groupCount\<close> is related to counting directly; the days are told apart by their names.
\<close>

subsection \<open>Grouping is counting\<close>

lemma sum_one: "distinct ks \<Longrightarrow> x \<in> set ks \<Longrightarrow> (\<Sum>k\<leftarrow>ks. if x = k then 1 else 0) = (1 :: nat)"
  by (induction ks) (auto intro!: sum_list_0 simp: sum_list_eq_0_iff)

lemma sum_counts:
  assumes "distinct ks" and "\<forall>r \<in> set xs. f r \<in> set ks"
  shows "(\<Sum>k\<leftarrow>ks. length (filter (\<lambda>r. f r = k) xs)) = length xs"
  using assms(2)
proof (induction xs)
  case (Cons x xs)
  have "(\<Sum>k\<leftarrow>ks. length (filter (\<lambda>r. f r = k) (x # xs))) =
      (\<Sum>k\<leftarrow>ks. (if f x = k then 1 else 0) + length (filter (\<lambda>r. f r = k) xs))"
    by (intro arg_cong [where f = sum_list] map_cong) auto
  also have "\<dots> = 1 + length xs" using Cons sum_one [OF assms(1), of "f x"] by (simp add: sum_list_addf)
  finally show ?case by simp
qed simp

lemma sum_groupCount: "sum_list (map snd (groupCount f xs)) = length xs"
  using sum_counts [of "remdups (map f xs)" xs f] by (simp add: groupCount_def o_def)

lemma map_of_rev:
  assumes "distinct (map fst zs)"
  shows "map_of (rev zs) = map_of zs"
proof (rule ext)
  fix k
  have rev: "distinct (map fst (rev zs))" using assms by (simp add: rev_map [symmetric])
  show "map_of (rev zs) k = map_of zs k"
  proof (cases "map_of zs k")
    case None
    then have "map_of (rev zs) k = None" by (simp add: map_of_eq_None_iff)
    with None show ?thesis by simp
  next
    case (Some v)
    then have "(k, v) \<in> set (rev zs)" by (simp add: map_of_SomeD)
    with Some rev show ?thesis by simp
  qed
qed

lemma find_pair: "find (\<lambda>row. fst row = p) zs = map_option (Pair p) (map_of zs p)"
  by (induction zs) auto

definition orZero :: "nat option \<Rightarrow> nat" where
  "orZero n = (case n of None \<Rightarrow> 0 | Some k \<Rightarrow> k)"

lemma lookup_group:
  fixes h :: "'a \<Rightarrow> 'c"
  assumes "inj_on h (insert k (f ` set xs))"
  shows "orZero (map_of (map (\<lambda>(d, n). (h d, n)) (groupCount f xs)) (h k)) = length (filter (\<lambda>r. f r = k) xs)"
proof -
  have "map_of (map (\<lambda>d. (h d, g d)) ds) (h k) = (if k \<in> set ds then Some (g k) else None)"
    if "inj_on h (insert k (set ds))" for g :: "'a \<Rightarrow> nat" and ds
    using that by (induction ds) (auto simp: inj_on_def)
  from this [of "remdups (map f xs)"] assms
  have "map_of (map (\<lambda>(d, n). (h d, n)) (groupCount f xs)) (h k) =
      (if k \<in> f ` set xs then Some (length (filter (\<lambda>r. f r = k) xs)) else None)"
    by (simp add: groupCount_def o_def)
  moreover have "length (filter (\<lambda>r. f r = k) xs) = 0" if "k \<notin> f ` set xs" using that by (auto simp: filter_empty_conv)
  ultimately show ?thesis by (auto simp: orZero_def)
qed

lemma groupCount_keys: "map fst (groupCount f xs) = remdups (map f xs)"
  by (simp add: groupCount_def o_def)

lemma lookup_plain: "orZero (map_of (groupCount f xs) k) = length (filter (\<lambda>r. f r = k) xs)"
  using lookup_group [of "\<lambda>d. d" k f xs] by simp

lemma toDayCountMap_eq: "toDayCountMap rows = map_of (rev (map (\<lambda>(d, n). (utcDateKey d, n)) rows))"
proof -
  have "foldl (\<lambda>m (day, n). m(utcDateKey day \<mapsto> n)) m rows = m ++ map_of (rev (map (\<lambda>(d, n). (utcDateKey d, n)) rows))" for m
    by (induction rows arbitrary: m) (auto simp: map_add_def fun_eq_iff split: option.splits)
  then show ?thesis by (simp add: toDayCountMap_def)
qed

lemma lookup_days:
  assumes "inj_on utcDateKey (insert k (f ` set xs))"
  shows "orZero (toDayCountMap (groupCount f xs) (utcDateKey k)) = length (filter (\<lambda>r. f r = k) xs)"
proof -
  have "inj_on utcDateKey (set (remdups (map f xs)))" using assms by (rule inj_on_subset) auto
  then have "distinct (map fst (map (\<lambda>(d, n). (utcDateKey d, n)) (groupCount f xs)))"
    by (simp add: groupCount_def o_def distinct_map)
  then show ?thesis using lookup_group [OF assms] by (simp add: toDayCountMap_eq map_of_rev)
qed

subsection \<open>Each chart\<close>

lemma byPriority_sum: "sum_list (map dp_count (byPriority ts)) = length ts"
proof -
  have "dp_count (byPriority ts ! 0) = dp_count (byPriority ts ! 0)" by simp
  have "map dp_count (byPriority ts) = map (\<lambda>p. orZero (map_of (groupCount t_priority ts) p)) ALL_PRIORITIES"
    by (auto simp: byPriority_def find_pair orZero_def split: option.splits)
  then show ?thesis
    using sum_counts [of ALL_PRIORITIES ts t_priority] priority.exhaust
    by (simp add: lookup_plain) (auto simp: ALL_PRIORITIES_def)
qed

lemma byColumn_sum:
  assumes "wellFormed w"
  shows "sum_list (map dc_count (byColumn w workspaceId b (taskWhere w workspaceId (Some b)))) = length (taskWhere w workspaceId (Some b))"
proof -
  let ?ts = "taskWhere w workspaceId (Some b)"
  let ?cs = "sort_key (\<lambda>c. (c_position c, c_id c)) (filter (\<lambda>c. c_boardId c = b \<and> boardIn w workspaceId (c_boardId c)) (columns w))"
  have "map_of (rev (groupCount t_columnId ?ts)) = map_of (groupCount t_columnId ?ts)"
    by (rule map_of_rev) (simp add: groupCount_keys)
  then have "map dc_count (byColumn w workspaceId b ?ts) = map (\<lambda>k. orZero (map_of (groupCount t_columnId ?ts) k)) (map c_id ?cs)"
    by (simp add: byColumn_def orZero_def Let_def)
  moreover have "distinct (map c_id ?cs)"
    using wellFormedD(2) [OF assms] by (auto simp: distinct_map intro: inj_on_subset)
  moreover have "\<forall>t \<in> set ?ts. t_columnId t \<in> set (map c_id ?cs)"
    using wellFormedD(6) [OF assms] by (fastforce simp: taskWhere_def onBoard_def)
  ultimately show ?thesis using sum_counts [of "map c_id ?cs" ?ts t_columnId] by (simp only: lookup_plain o_def)
qed

lemma sum_parts: "sum_list (map f (take n xs)) + sum_list (map f (drop n xs)) = sum_list (map f xs)" for f :: "'a \<Rightarrow> nat"
proof -
  have "sum_list (map f (take n xs)) + sum_list (map f (drop n xs)) = sum_list (map f (take n xs @ drop n xs))"
    by (simp only: map_append sum_list_append)
  then show ?thesis by (simp only: append_take_drop_id)
qed

lemma sum_mset_eq: "mset xs = mset ys \<Longrightarrow> sum_list (map f xs) = sum_list (map f ys)" for f :: "'a \<Rightarrow> nat"
  by (metis mset_map sum_mset_sum_list)

lemma sum_ranked:
  fixes ys :: "('a \<times> nat) list" and rank :: "'a \<times> nat \<Rightarrow> 'b :: linorder"
  assumes "mset (shuffle ys) = mset ys"
  shows "sum_list (map snd (take n (sort_key rank (shuffle ys)))) + sum_list (map snd (drop n (sort_key rank (shuffle ys)))) =
    sum_list (map snd ys)"
  using sum_mset_eq [of "sort_key rank (shuffle ys)" ys snd] assms by (simp add: sum_parts)

lemma buckets_sum:
  assumes "\<And>xs. mset (shuffle xs) = mset xs"
  shows "sum_list (map da_count (DashboardService_rankedAssigneeBuckets collation shuffle w workspaceId boardId)) =
    length (assignmentsIn w workspaceId boardId)"
    and "length (DashboardService_rankedAssigneeBuckets collation shuffle w workspaceId boardId) \<le> 9"
proof -
  let ?counts = "groupCount ta_userId (assignmentsIn w workspaceId boardId)"
  let ?ranked = "sort_key (\<lambda>(k, n). (- int n, collation (assigneeName w k))) (shuffle ?counts)"
  let ?top = "take ASSIGNEE_TOP_N ?ranked" and ?tail = "drop ASSIGNEE_TOP_N ?ranked"
  have "map da_count (map (\<lambda>(k, n). \<lparr>da_userId = Some k, da_name = assigneeName w k, da_count = n\<rparr>) zs) = map snd zs" for zs
    by (induction zs) auto
  then have "sum_list (map da_count (DashboardService_rankedAssigneeBuckets collation shuffle w workspaceId boardId)) =
      sum_list (map snd ?top) + sum_list (map snd ?tail)"
    by (simp only: DashboardService_rankedAssigneeBuckets_def Let_def map_append sum_list_append) simp
  also have "\<dots> = sum_list (map snd ?counts)" by (rule sum_ranked [OF assms])
  finally show "sum_list (map da_count (DashboardService_rankedAssigneeBuckets collation shuffle w workspaceId boardId)) =
    length (assignmentsIn w workspaceId boardId)" by (simp add: sum_groupCount)
  show "length (DashboardService_rankedAssigneeBuckets collation shuffle w workspaceId boardId) \<le> 9"
    by (simp add: DashboardService_rankedAssigneeBuckets_def Let_def ASSIGNEE_TOP_N_def min_def)
qed

subsection \<open>Joins on a key\<close>

lemma at_most_one:
  assumes "distinct (map g ys)" and "\<And>y. Q y \<Longrightarrow> g y = k"
  shows "length (filter Q ys) \<le> 1"
  using assms(1)
proof (induction ys)
  case (Cons y ys)
  then show ?case using assms(2) by (auto simp: filter_empty_conv)
qed simp

lemma join_once:
  assumes "\<And>x. length (filter (Q x) ys) \<le> 1"
  shows "concat (map (\<lambda>x. map (\<lambda>_. x) (filter (Q x) ys)) xs) = filter (\<lambda>x. \<exists>y \<in> set ys. Q x y) xs"
proof (induction xs)
  case (Cons x xs)
  have "map (\<lambda>_. x) (filter (Q x) ys) = (if \<exists>y \<in> set ys. Q x y then [x] else [])"
  proof (cases "filter (Q x) ys")
    case Nil
    then show ?thesis by (auto simp: filter_empty_conv)
  next
    case (Cons z zs)
    then have "zs = []" using assms [of x] by simp
    moreover have "z \<in> set (filter (Q x) ys)" by (simp add: Cons)
    then have "z \<in> set ys" "Q x z" by simp_all
    ultimately show ?thesis using Cons by auto
  qed
  with Cons show ?case by simp
qed simp

definition assigned :: "world \<Rightarrow> uuid \<Rightarrow> uuid option \<Rightarrow> assignee_row \<Rightarrow> bool" where
  \<comment> \<open>an assignment of a task the dashboard is about\<close>
  "assigned w workspaceId boardId ta \<longleftrightarrow> (\<exists>t \<in> set (taskWhere w workspaceId boardId). t_id t = ta_taskId ta)"

lemma assignmentsIn_eq:
  assumes "wellFormed w"
  shows "assignmentsIn w workspaceId boardId = filter (assigned w workspaceId boardId) (assignees w)"
proof -
  have "distinct (map t_id (taskWhere w workspaceId boardId))"
    using wellFormedD(3) [OF assms] by (simp add: taskWhere_def distinct_map inj_on_def)
  then have "length (filter (\<lambda>t. t_id t = ta_taskId ta) (taskWhere w workspaceId boardId)) \<le> 1" for ta
    by (rule at_most_one)
  then show ?thesis unfolding assignmentsIn_def assigned_def by (rule join_once)
qed

definition aboutBoard :: "world \<Rightarrow> uuid option \<Rightarrow> activity_row \<Rightarrow> bool" where
  \<comment> \<open>the activity is about a task that is on the board now\<close>
  "aboutBoard w boardId a \<longleftrightarrow> (case boardId of None \<Rightarrow> True
     | Some b \<Rightarrow> \<exists>t \<in> set (tasks w). a_taskId a = Some (t_id t) \<and> t_boardId t = b)"

definition dayCount :: "world \<Rightarrow> uuid \<Rightarrow> uuid option \<Rightarrow> activity_type \<Rightarrow> (activity_row \<Rightarrow> bool) \<Rightarrow> js_date \<Rightarrow> nat" where
  \<comment> \<open>the activities of a type in the day that begins at \<open>m\<close>\<close>
  "dayCount w workspaceId boardId type P m = length (filter (\<lambda>a. a_workspaceId a = workspaceId \<and> a_type a = type
     \<and> P a \<and> aboutBoard w boardId a \<and> m \<le> a_createdAt a \<and> a_createdAt a < m + MS_PER_DAY) (activities w))"

subsection \<open>Days\<close>

lemma midnight_bounds: "utcMidnight t \<le> t" "t < utcMidnight t + MS_PER_DAY"
proof -
  have "t = utcMidnight t + t mod MS_PER_DAY" by (simp add: utcMidnight_def)
  moreover have "0 \<le> t mod MS_PER_DAY" "t mod MS_PER_DAY < MS_PER_DAY" by (simp_all add: MS_PER_DAY_def)
  ultimately show "utcMidnight t \<le> t" "t < utcMidnight t + MS_PER_DAY" by linarith+
qed

lemma midnight_is: "utcMidnight t = k * MS_PER_DAY \<longleftrightarrow> k * MS_PER_DAY \<le> t \<and> t < k * MS_PER_DAY + MS_PER_DAY"
proof
  assume "k * MS_PER_DAY \<le> t \<and> t < k * MS_PER_DAY + MS_PER_DAY"
  then have "t div MS_PER_DAY = k" by (intro div_is [where r = "t - k * MS_PER_DAY"]) (simp_all add: mult.commute)
  then show "utcMidnight t = k * MS_PER_DAY" by (simp add: utcMidnight_def)
qed (use midnight_bounds [of t] in simp)

lemma dayKey_inj: "inj_on utcDateKey {k * MS_PER_DAY | k. 0 \<le> k \<and> k < 2500000}"
proof (rule inj_onI)
  fix s t assume "s \<in> {k * MS_PER_DAY | k. 0 \<le> k \<and> k < 2500000}" "t \<in> {k * MS_PER_DAY | k. 0 \<le> k \<and> k < 2500000}"
    and key: "utcDateKey s = utcDateKey t"
  then obtain j k where s: "s = j * MS_PER_DAY" "0 \<le> j" "j < 2500000" and t: "t = k * MS_PER_DAY" "0 \<le> k" "k < 2500000"
    by blast
  have pos: "0 < MS_PER_DAY" by (simp add: MS_PER_DAY_def)
  then have era: "commonEra s" "commonEra t" using s t by (simp_all add: commonEra_def)
  then have "isoDate s = isoDate t" using key by (simp add: utcDateKey_def isoDate_take)
  from isoDate_inj [OF era this] show "s = t" using s t pos by simp
qed

lemma commonEra_midnight:
  assumes "commonEra t"
  shows "utcMidnight t \<in> {k * MS_PER_DAY | k. 0 \<le> k \<and> k < 2500000}"
  using assms by (auto simp: utcMidnight_def commonEra_def MS_PER_DAY_def pos_imp_zdiv_nonneg_iff)

lemma day_counts:
  assumes "wellFormed w" and "\<forall>a \<in> set (activities w). commonEra (a_createdAt a)"
    and "0 \<le> k" and "k < 2500000" and "since \<le> k * MS_PER_DAY"
  shows "orZero (toDayCountMap (DashboardService_countActivitiesByDay w workspaceId type since boardId P) (utcDateKey (k * MS_PER_DAY))) =
    dayCount w workspaceId boardId type P (k * MS_PER_DAY)"
proof -
  have "length (filter (\<lambda>t. a_taskId a = Some (t_id t) \<and> t_boardId t = b) (tasks w)) \<le> 1" for a b
    by (rule at_most_one [OF wellFormedD(3) [OF assms(1)], where k = "the (a_taskId a)"]) auto
  then have once: "length (filter ((\<lambda>a t. a_taskId a = Some (t_id t) \<and> t_boardId t = b) a) (tasks w)) \<le> 1" for a b by simp
  have joined: "(case boardId of None \<Rightarrow> activities w
      | Some b \<Rightarrow> concat (map (\<lambda>a. map (\<lambda>_. a) (filter (\<lambda>t. a_taskId a = Some (t_id t) \<and> t_boardId t = b) (tasks w))) (activities w)))
    = filter (aboutBoard w boardId) (activities w)"
    using join_once [where Q = "\<lambda>a t. a_taskId a = Some (t_id t) \<and> t_boardId t = b" for b, OF once]
    by (cases boardId) (simp_all add: aboutBoard_def [abs_def])
  let ?rows = "filter (\<lambda>a. a_workspaceId a = workspaceId \<and> a_type a = type \<and> since \<le> a_createdAt a \<and> P a)
    (filter (aboutBoard w boardId) (activities w))"
  have "insert (k * MS_PER_DAY) ((\<lambda>a. utcMidnight (a_createdAt a)) ` set ?rows) \<subseteq> {k * MS_PER_DAY | k. 0 \<le> k \<and> k < 2500000}"
    using assms(2-4) commonEra_midnight by (auto simp del: mem_Collect_eq)
  then have "inj_on utcDateKey (insert (k * MS_PER_DAY) ((\<lambda>a. utcMidnight (a_createdAt a)) ` set ?rows))"
    by (rule inj_on_subset [OF dayKey_inj])
  note lookup_days [OF this]
  moreover have "length (filter (\<lambda>a. utcMidnight (a_createdAt a) = k * MS_PER_DAY) ?rows) =
      dayCount w workspaceId boardId type P (k * MS_PER_DAY)"
    unfolding dayCount_def filter_filter midnight_is
    by (rule arg_cong [where f = length], rule filter_cong [OF refl]) (use assms(5) in auto)
  ultimately show ?thesis by (simp only: DashboardService_countActivitiesByDay_def joined Let_def)
qed

subsection \<open>The whole summary\<close>

definition seriesDay :: "world \<Rightarrow> nat \<Rightarrow> js_date" where
  \<comment> \<open>the midnight that many days ago\<close>
  "seriesDay w i = utcMidnight (w_now w) - int i * MS_PER_DAY"

lemma seriesDay_number:
  assumes "14 * MS_PER_DAY \<le> w_now w" and "commonEra (w_now w)" and "i < 14"
  obtains k where "seriesDay w i = k * MS_PER_DAY" "0 \<le> k" "k < 2500000"
    "utcMidnight (w_now w) - int (THROUGHPUT_DAYS - 1) * 86400000 \<le> k * MS_PER_DAY"
proof -
  have "14 * MS_PER_DAY div MS_PER_DAY \<le> w_now w div MS_PER_DAY"
    using assms(1) by (intro zdiv_mono1) (simp_all add: MS_PER_DAY_def)
  then have "14 \<le> w_now w div MS_PER_DAY" by (simp add: MS_PER_DAY_def)
  moreover have "seriesDay w i = (w_now w div MS_PER_DAY - int i) * MS_PER_DAY"
    by (simp add: seriesDay_def utcMidnight_def left_diff_distrib)
  moreover have "utcMidnight (w_now w) - int (THROUGHPUT_DAYS - 1) * 86400000 \<le> seriesDay w i"
    using assms(3) by (simp add: seriesDay_def THROUGHPUT_DAYS_def MS_PER_DAY_def)
  ultimately show thesis
    using assms(2,3) by (intro that [of "w_now w div MS_PER_DAY - int i"]) (simp_all add: commonEra_def)
qed

lemma summary_run:
  "DashboardService_summary collation shuffle workspaceId q w = (Inr d, w') \<Longrightarrow>
     w' = w \<and> d = dashboardOf collation shuffle workspaceId (boardScope q) w
     \<and> (\<forall>b. boardScope q = Some b \<longrightarrow> boardIn w workspaceId b)"
  by (auto simp: DashboardService_summary_def bindE_Inr reads_def assertBoard_def orThrow_def return_def
      findBoard_def boardIn_iff find_Some_iff split: option.splits)

lemma series_eq: "emptyThroughputSeries (w_now w) =
    map (\<lambda>i. \<lparr>dt_date = utcDateKey (seriesDay w i), dt_created = 0, dt_completed = 0\<rparr>) (rev [0..<THROUGHPUT_DAYS])"
  by (simp add: emptyThroughputSeries_def seriesDay_def MS_PER_DAY_def)

definition completedMove :: "uuid list \<Rightarrow> activity_row \<Rightarrow> bool" where
  "completedMove completed a \<longleftrightarrow>
     (case payloadText (a_payload a) ''toColumnId'' of None \<Rightarrow> False | Some c \<Rightarrow> c \<in> set completed)
     \<or> payloadText (a_payload a) ''toColumnCategory'' = Some (js ''COMPLETED'')"

lemma completedMoves_eq: "DashboardService_countCompletedMovesByDay w workspaceId since completed boardId =
    DashboardService_countActivitiesByDay w workspaceId TaskMoved since boardId (completedMove completed)"
  by (simp add: DashboardService_countCompletedMovesByDay_def completedMove_def [abs_def])

lemma throughput_counts:
  assumes "wellFormed w" and "\<forall>a \<in> set (activities w). commonEra (a_createdAt a)"
    and "14 * MS_PER_DAY \<le> w_now w" and "commonEra (w_now w)"
  shows "ds_throughput (dashboardOf collation shuffle workspaceId boardId w) = map (\<lambda>i.
    \<lparr>dt_date = utcDateKey (seriesDay w i),
     dt_created = dayCount w workspaceId boardId TaskCreated (\<lambda>_. True) (seriesDay w i),
     dt_completed = dayCount w workspaceId boardId TaskMoved (completedMove (completedColumnIds w workspaceId boardId)) (seriesDay w i)\<rparr>)
    (rev [0..<THROUGHPUT_DAYS])"
proof -
  let ?since = "utcMidnight (w_now w) - int (THROUGHPUT_DAYS - 1) * 86400000"
  have counts: "orZero (toDayCountMap (DashboardService_countActivitiesByDay w workspaceId type ?since boardId P)
      (utcDateKey (seriesDay w i))) = dayCount w workspaceId boardId type P (seriesDay w i)"
    if "i < 14" for i type P
    using seriesDay_number [OF assms(3,4) that] day_counts [OF assms(1,2)] by metis
  have filled: "applyThroughputDayCounts (map (\<lambda>i. \<lparr>dt_date = f i, dt_created = 0, dt_completed = 0\<rparr>) xs) m n =
      map (\<lambda>i. \<lparr>dt_date = f i, dt_created = orZero (m (f i)), dt_completed = orZero (n (f i))\<rparr>) xs" for f m n and xs :: "nat list"
    by (simp add: applyThroughputDayCounts_def orZero_def)
  show ?thesis
    unfolding dashboardOf_def Let_def DashboardSummaryDto.simps series_eq filled completedMoves_eq
    by (rule map_cong [OF refl]) (use counts in \<open>simp add: THROUGHPUT_DAYS_def del: js_Cons\<close>)
qed

text \<open>
  C30. The charts of the dashboard account for everything once. The counts by priority add up to the number of
  tasks in scope, and so do the counts by column when a board is asked for. The assignee chart, folded after
  eight names into a remainder, has at most ten bars that add up to the assignments plus the tasks without an
  assignee, whatever the order the database lists its groups in. The throughput has one row for each
  of the last fourteen days, oldest first, each with exactly the creations and the completing moves of that day.
\<close>

theorem dashboard_adds_up:
  assumes "wellFormed w" and "\<And>xs. mset (shuffle xs) = mset xs"
    and "14 * MS_PER_DAY \<le> w_now w" and "commonEra (w_now w)" and "\<forall>a \<in> set (activities w). commonEra (a_createdAt a)"
    and "DashboardService_summary collation shuffle workspaceId q w = (Inr d, w')" and "boardId = boardScope q"
  shows "w' = w \<and> ds_totalTasks d = length (taskWhere w workspaceId boardId)
    \<and> sum_list (map dp_count (ds_byPriority d)) = ds_totalTasks d
    \<and> (case ds_byColumn d of None \<Rightarrow> boardId = None | Some cs \<Rightarrow> boardId \<noteq> None \<and> sum_list (map dc_count cs) = ds_totalTasks d)
    \<and> length (ds_byAssignee d) \<le> 10
    \<and> sum_list (map da_count (ds_byAssignee d)) = length (filter (assigned w workspaceId boardId) (assignees w))
        + length (filter (\<lambda>t. t_id t \<notin> ta_taskId ` set (assignees w)) (taskWhere w workspaceId boardId))
    \<and> ds_throughput d = map (\<lambda>i. \<lparr>dt_date = utcDateKey (seriesDay w i),
        dt_created = dayCount w workspaceId boardId TaskCreated (\<lambda>_. True) (seriesDay w i),
        dt_completed = dayCount w workspaceId boardId TaskMoved (completedMove (completedColumnIds w workspaceId boardId))
          (seriesDay w i)\<rparr>) (rev [0..<14])"
proof -
  have run: "w' = w" "d = dashboardOf collation shuffle workspaceId boardId w"
    using summary_run [OF assms(6)] assms(7) by auto
  let ?ts = "taskWhere w workspaceId boardId"
  have total: "ds_totalTasks d = length ?ts" by (simp add: run dashboardOf_def Let_def)
  have priorities: "sum_list (map dp_count (ds_byPriority d)) = ds_totalTasks d"
    by (simp add: run dashboardOf_def Let_def byPriority_sum)
  have columns: "case ds_byColumn d of None \<Rightarrow> boardId = None | Some cs \<Rightarrow> boardId \<noteq> None \<and> sum_list (map dc_count cs) = ds_totalTasks d"
    using byColumn_sum [OF assms(1)] by (cases boardId) (simp_all add: run dashboardOf_def Let_def)
  let ?free = "length (filter (\<lambda>t. t_id t \<notin> ta_taskId ` set (assignees w)) ?ts)"
  let ?buckets = "DashboardService_rankedAssigneeBuckets collation shuffle w workspaceId boardId"
  have free: "filter (\<lambda>t. \<not> list_ex (\<lambda>ta. ta_taskId ta = t_id t) (assignees w)) ?ts =
      filter (\<lambda>t. t_id t \<notin> ta_taskId ` set (assignees w)) ?ts"
    by (rule filter_cong [OF refl]) (force simp: list_ex_iff)
  have "ds_byAssignee d = (if 0 < ?free then \<lparr>da_userId = None, da_name = js ''Unassigned'', da_count = ?free\<rparr> # ?buckets
      else ?buckets)"
    unfolding run dashboardOf_def Let_def free by (simp del: js_Cons)
  then have bars: "length (ds_byAssignee d) \<le> 10" "sum_list (map da_count (ds_byAssignee d)) = ?free + sum_list (map da_count ?buckets)"
    using buckets_sum(2) [where shuffle = shuffle, OF assms(2), of collation w workspaceId boardId] by auto
  note throughput_counts [OF assms(1,5,3,4), of collation shuffle workspaceId boardId]
  with bars show ?thesis
    using buckets_sum(1) [where shuffle = shuffle, OF assms(2), of collation w workspaceId boardId]
    by (simp add: total priorities columns run(1) run(2) [symmetric] assignmentsIn_eq [OF assms(1)] THROUGHPUT_DAYS_def)
qed

definition dashboardWorld :: world where
  \<comment> \<open>a creation yesterday, of a task that is on the first board\<close>
  "dashboardWorld = sampleWorld\<lparr>w_now := 20 * MS_PER_DAY + 7,
     activities := [\<lparr>a_id = js ''e1'', a_workspaceId = js ''w1'', a_taskId = Some (js ''t1''), a_userId = js ''u1'',
       a_type = TaskCreated, a_payload = [], a_createdAt = 19 * MS_PER_DAY + 5\<rparr>]\<rparr>"

lemma dashboardWorld_facts:
  "wellFormed dashboardWorld" "14 * MS_PER_DAY \<le> w_now dashboardWorld" "commonEra (w_now dashboardWorld)"
  "\<forall>a \<in> set (activities dashboardWorld). commonEra (a_createdAt a)"
  using sampleWorld_wellFormed
  by (simp_all add: dashboardWorld_def wellFormed_def usedIds_def commonEra_def MS_PER_DAY_def)

theorem dashboard_adds_up_witness:
  "\<exists>d. DashboardService_summary (\<lambda>n. n) rev (js ''w1'') (Value (js ''b1'')) dashboardWorld = (Inr d, dashboardWorld)
     \<and> ds_totalTasks d = 4 \<and> sum_list (map dp_count (ds_byPriority d)) = 4 \<and> sum_list (map da_count (ds_byAssignee d)) = 4
     \<and> map dt_created (ds_throughput d) = [0, 0, 0, 0, 0, 0, 0, 0, 0, 0, 0, 0, 1, 0]"
proof -
  have scope: "boardScope (Value (js ''b1'')) = Some (js ''b1'')" by (simp add: boardScope_def)
  have "findBoard dashboardWorld (js ''w1'') (js ''b1'') \<noteq> None"
    by (simp add: findBoard_def dashboardWorld_def sampleWorld_def)
  then obtain d where run: "DashboardService_summary (\<lambda>n. n) rev (js ''w1'') (Value (js ''b1'')) dashboardWorld = (Inr d, dashboardWorld)"
    unfolding DashboardService_summary_def scope
    by (auto simp: bindE_def assertBoard_def orThrow_def return_def reads_def simp del: js_Cons)
  have tasks: "length (taskWhere dashboardWorld (js ''w1'') (Some (js ''b1''))) = 4"
    "length (filter (assigned dashboardWorld (js ''w1'') (Some (js ''b1''))) (assignees dashboardWorld)) = 1"
    "length (filter (\<lambda>t. t_id t \<notin> ta_taskId ` set (assignees dashboardWorld)) (taskWhere dashboardWorld (js ''w1'') (Some (js ''b1'')))) = 3"
    by (simp_all add: assigned_def taskWhere_def onBoard_def boardIn_def dashboardWorld_def sampleWorld_def sampleTask_def)
  have "dayCount dashboardWorld (js ''w1'') (Some (js ''b1'')) TaskCreated (\<lambda>_. True) (seriesDay dashboardWorld i) =
      (if i = 1 then 1 else 0)" for i
    by (auto simp: dayCount_def aboutBoard_def seriesDay_def utcMidnight_def dashboardWorld_def sampleWorld_def sampleTask_def MS_PER_DAY_def)
  then have days: "map (\<lambda>i. dayCount dashboardWorld (js ''w1'') (Some (js ''b1'')) TaskCreated (\<lambda>_. True) (seriesDay dashboardWorld i))
      (rev [0..<14]) = [0, 0, 0, 0, 0, 0, 0, 0, 0, 0, 0, 0, 1, 0]"
    by (simp add: upt_rec del: js_Cons)
  show ?thesis
    using dashboard_adds_up [OF dashboardWorld_facts(1) _ dashboardWorld_facts(2-4) run scope [symmetric]] tasks days run
    by (simp add: o_def del: js_Cons)
qed

end
