(* ===== verification/Realtime.thy ===== *)
theory Realtime
  imports MemberSafety "HOL-Library.AList"
begin

section \<open>Sockets and rooms\<close>

text \<open>
  \<open>realtime/realtime.gateway.ts\<close> and \<open>realtime.service.ts\<close>. A socket carries the rooms it is in and the data the
  gateway keeps of them. The sockets of all nodes are one list, as \<open>fetchSockets\<close> returns them. A join first
  asks the database and then, when the answer has come, enters the room: other requests run between the two, so
  they are two definitions. Rooms are the values of \<open>room\<close>; \<open>roomName\<close> is how they are spelled.
\<close>

subsection \<open>Rooms\<close>

fun roomName :: "room \<Rightarrow> js_string" where
  "roomName (BoardRoom boardId) = js ''board:'' @ boardId"
| "roomName (UserRoom workspaceId userId) = js ''user:'' @ workspaceId @ js '':'' @ userId"

text \<open>Different rooms have different names, as ids hold no colon.\<close>

lemma colon_split: "(0x3A :: code_unit) \<notin> set a \<Longrightarrow> 0x3A \<notin> set b \<Longrightarrow> a @ 0x3A # x = b @ 0x3A # y \<longleftrightarrow> a = b \<and> x = y"
proof (induction a arbitrary: b)
  case Nil
  then show ?case by (cases b) auto
next
  case (Cons c a)
  then show ?case by (cases b) auto
qed

lemma roomName_inj: "inj_on roomName {r. case r of BoardRoom _ \<Rightarrow> True | UserRoom workspaceId _ \<Rightarrow> 0x3A \<notin> set workspaceId}"
proof (rule inj_onI)
  fix r s assume "r \<in> {r. case r of BoardRoom _ \<Rightarrow> True | UserRoom workspaceId _ \<Rightarrow> 0x3A \<notin> set workspaceId}"
    "s \<in> {r. case r of BoardRoom _ \<Rightarrow> True | UserRoom workspaceId _ \<Rightarrow> 0x3A \<notin> set workspaceId}" "roomName r = roomName s"
  then show "r = s" by (cases r; cases s) (simp_all add: colon_split)
qed

subsection \<open>Sockets\<close>

record socket =
  so_id :: js_string
  so_rooms :: "room set"
  so_userId :: "uuid option"
  so_boardWorkspaces :: "(uuid \<times> uuid) list option"
  so_notificationWorkspaces :: "uuid list option"

record SocketReply =
  sr_ok :: bool
  sr_error :: "string option"

definition denied :: "string \<Rightarrow> SocketReply" where
  "denied e = \<lparr>sr_ok = False, sr_error = Some e\<rparr>"

definition accepted :: SocketReply where
  "accepted = \<lparr>sr_ok = True, sr_error = None\<rparr>"

definition RealtimeGateway_handleConnection :: "js_string \<Rightarrow> http_error + uuid option \<Rightarrow> socket option" where
  \<comment> \<open>what \<open>getSession\<close> finds or throws is an argument; a socket that is disconnected is none\<close>
  "RealtimeGateway_handleConnection k session = (case session of
       Inl _ \<Rightarrow> None
     | Inr None \<Rightarrow> None
     | Inr (Some u) \<Rightarrow> if u = [] then None
         else Some \<lparr>so_id = k, so_rooms = {}, so_userId = Some u, so_boardWorkspaces = None, so_notificationWorkspaces = None\<rparr>)"

definition signedIn :: "socket \<Rightarrow> uuid option" where
  \<comment> \<open>\<open>if (!userId)\<close>\<close>
  "signedIn client = (case so_userId client of None \<Rightarrow> None | Some u \<Rightarrow> if u = [] then None else Some u)"

definition bodyString :: "js_string option \<Rightarrow> js_string" where
  \<comment> \<open>\<open>typeof body?.boardId === 'string' ? body.boardId : ''\<close>\<close>
  "bodyString v = (case v of None \<Rightarrow> [] | Some s \<Rightarrow> s)"

subsection \<open>Board rooms\<close>

definition onBoardJoin_check :: "world \<Rightarrow> socket \<Rightarrow> js_string option \<Rightarrow> string + (uuid \<times> uuid)" where
  "onBoardJoin_check w client body_boardId = (case signedIn client of
       None \<Rightarrow> Inl ''unauthenticated''
     | Some userId \<Rightarrow>
         let boardId = bodyString body_boardId in
         if boardId = [] then Inl ''boardId required''
         else (case find (\<lambda>b. b_id b = boardId
                  \<and> list_ex (\<lambda>m. m_workspaceId m = b_workspaceId b \<and> m_userId m = userId) (members w)) (boards w) of
             None \<Rightarrow> Inl ''board not found''
           | Some board \<Rightarrow> Inr (boardId, b_workspaceId board)))"

definition onBoardJoin_enter :: "uuid \<times> uuid \<Rightarrow> socket \<Rightarrow> socket" where
  "onBoardJoin_enter p client = (case p of (boardId, workspaceId) \<Rightarrow> client\<lparr>
     so_rooms := insert (BoardRoom boardId) (so_rooms client),
     so_boardWorkspaces := Some (AList.update boardId workspaceId
       (case so_boardWorkspaces client of None \<Rightarrow> [] | Some kept \<Rightarrow> kept))\<rparr>)"

definition RealtimeGateway_onBoardJoin :: "world \<Rightarrow> js_string option \<Rightarrow> socket \<Rightarrow> SocketReply \<times> socket" where
  \<comment> \<open>when nothing runs in between\<close>
  "RealtimeGateway_onBoardJoin w body_boardId client = (case onBoardJoin_check w client body_boardId of
       Inl e \<Rightarrow> (denied e, client)
     | Inr p \<Rightarrow> (accepted, onBoardJoin_enter p client))"

definition RealtimeGateway_onBoardLeave :: "js_string option \<Rightarrow> socket \<Rightarrow> SocketReply \<times> socket" where
  "RealtimeGateway_onBoardLeave body_boardId client =
     (let boardId = bodyString body_boardId in
      (accepted, if boardId = [] then client
        else client\<lparr>so_rooms := so_rooms client - {BoardRoom boardId},
          so_boardWorkspaces := map_option (filter (\<lambda>e. fst e \<noteq> boardId)) (so_boardWorkspaces client)\<rparr>))"

subsection \<open>Notification rooms\<close>

definition onNotificationsJoin_check :: "world \<Rightarrow> socket \<Rightarrow> js_string option \<Rightarrow> string + (uuid \<times> uuid)" where
  "onNotificationsJoin_check w client body_workspaceId = (case signedIn client of
       None \<Rightarrow> Inl ''unauthenticated''
     | Some userId \<Rightarrow>
         let workspaceId = bodyString body_workspaceId in
         if workspaceId = [] then Inl ''workspaceId required''
         else if list_ex (\<lambda>m. m_workspaceId m = workspaceId \<and> m_userId m = userId) (members w) then Inr (workspaceId, userId)
         else Inl ''workspace not found'')"

definition onNotificationsJoin_enter :: "uuid \<times> uuid \<Rightarrow> socket \<Rightarrow> socket" where
  "onNotificationsJoin_enter p client = (case p of (workspaceId, userId) \<Rightarrow>
     let joined = (case so_notificationWorkspaces client of None \<Rightarrow> [] | Some kept \<Rightarrow> kept) in
     client\<lparr>so_rooms := insert (UserRoom workspaceId userId) (so_rooms client),
       so_notificationWorkspaces := (if workspaceId \<in> set joined then so_notificationWorkspaces client
         else Some (joined @ [workspaceId]))\<rparr>)"

definition RealtimeGateway_onNotificationsJoin :: "world \<Rightarrow> js_string option \<Rightarrow> socket \<Rightarrow> SocketReply \<times> socket" where
  "RealtimeGateway_onNotificationsJoin w body_workspaceId client = (case onNotificationsJoin_check w client body_workspaceId of
       Inl e \<Rightarrow> (denied e, client)
     | Inr p \<Rightarrow> (accepted, onNotificationsJoin_enter p client))"

definition RealtimeGateway_onNotificationsLeave :: "js_string option \<Rightarrow> socket \<Rightarrow> SocketReply \<times> socket" where
  "RealtimeGateway_onNotificationsLeave body_workspaceId client =
     (let workspaceId = bodyString body_workspaceId in
      (accepted, case signedIn client of
          None \<Rightarrow> client
        | Some userId \<Rightarrow> if workspaceId = [] then client
            else client\<lparr>so_rooms := so_rooms client - {UserRoom workspaceId userId},
              so_notificationWorkspaces := map_option (filter (\<lambda>k. k \<noteq> workspaceId)) (so_notificationWorkspaces client)\<rparr>))"

subsection \<open>Eviction and delivery\<close>

definition evictSocket :: "uuid \<Rightarrow> uuid \<Rightarrow> socket \<Rightarrow> socket" where
  \<comment> \<open>the body of the loop\<close>
  "evictSocket workspaceId userId client =
     (if so_userId client \<noteq> Some userId then client
      else
        let boardWorkspaces = (case so_boardWorkspaces client of None \<Rightarrow> [] | Some kept \<Rightarrow> kept) in
        client\<lparr>so_rooms := so_rooms client - {UserRoom workspaceId userId}
                 - BoardRoom ` fst ` set (filter (\<lambda>e. snd e = workspaceId) boardWorkspaces),
          so_notificationWorkspaces := map_option (filter (\<lambda>k. k \<noteq> workspaceId)) (so_notificationWorkspaces client),
          so_boardWorkspaces := map_option (filter (\<lambda>e. snd e \<noteq> workspaceId)) (so_boardWorkspaces client)\<rparr>)"

definition RealtimeService_evictUserFromWorkspace :: "uuid \<Rightarrow> uuid \<Rightarrow> socket list \<Rightarrow> socket list" where
  "RealtimeService_evictUserFromWorkspace workspaceId userId sockets = map (evictSocket workspaceId userId) sockets"

definition receivers :: "socket list \<Rightarrow> room \<Rightarrow> socket list" where
  \<comment> \<open>\<open>server.to(room)\<close>\<close>
  "receivers sockets r = filter (\<lambda>client. r \<in> so_rooms client) sockets"

end
