(* ===== verification/RealtimeProps.thy ===== *)
theory RealtimeProps
  imports Realtime AccountSafety
begin

section \<open>Who hears what happens in a workspace\<close>

text \<open>
  Membership is revoked in the database and, after that, in the sockets. \<open>realtime_step\<close> interleaves requests,
  the two halves of joins, and evictions; the invariant \<open>hubOk\<close> says that whoever is in a room is a member, or
  is about to be dropped, or the workspace is gone. The requests that take memberships away are run as they are
  modelled: the three of MemberProps, the deletion of an account and the deletion of a workspace; any other
  request may add rows, whose ids no socket knows, and keeps every membership.
\<close>

subsection \<open>What a request about members leaves alone\<close>

definition keeps :: "(world \<Rightarrow> 'p) \<Rightarrow> 'a handler \<Rightarrow> bool" where
  "keeps P m \<longleftrightarrow> (\<forall>w. P (snd (m w)) = P w)"

lemma keeps_bindE: "keeps P m \<Longrightarrow> (\<And>a. keeps P (f a)) \<Longrightarrow> keeps P (bindE m f)"
  by (simp add: keeps_def bindE_def split: prod.splits sum.splits) (metis snd_conv)

lemma keeps_simple:
  "keeps P (return a)" "keeps P (\<lambda>w. failIf (c w) e w)" "keeps P (failIf b e)" "keeps P (orThrow e f)"
  by (auto simp: keeps_def return_def failIf_def orThrow_def split: option.splits)

definition outside :: "world \<Rightarrow> board_row list \<times> workspace_row list \<times> comment_row list \<times> bool" where
  "outside w = (boards w, workspaces w, comments w, w_socketServer w)"

lemma keeps_log: "keeps outside (recordActivity ws t u ty p)"
  by (simp add: keeps_def outside_def recordActivity_def logActivity_def tick_def)

lemma evict_world: "outside (evictUserFromWorkspaceSockets ws u w) = outside w"
  by (simp add: evictUserFromWorkspaceSockets_def outside_def)

lemma fold_evict_frame: "outside (fold (\<lambda>m. afterRemoveMember m ws) ms w) = outside w"
  by (induction ms arbitrary: w) (simp_all add: evict_world afterRemoveMember_def)

lemma frame_members: "outside (w\<lparr>members := ms\<rparr>) = outside w"
  by (simp add: outside_def)

lemma keeps_evict: "keeps outside (modify (evictUserFromWorkspaceSockets ws u))"
  by (simp add: keeps_def modify_def evict_world)

lemma keeps_attempt: "(\<And>w. outside (snd (call w)) = outside w) \<Longrightarrow> keeps outside (attempt call handle)"
  by (auto simp: keeps_def attempt_def split: prod.splits sum.splits) (metis snd_conv)+

lemma keeps_plugin:
  assumes "pluginContract api"
  shows "keeps outside (attempt (au_removeMember api afterRemoveMember caller k ws) handle)"
    "keeps outside (attempt (au_updateMemberRole api caller k role ws) handle)"
    "keeps outside (attempt (au_leaveOrganization api caller ws) handle)"
proof -
  show "keeps outside (attempt (au_removeMember api afterRemoveMember caller k ws) handle)"
  proof (rule keeps_attempt)
    fix w
    show "outside (snd (au_removeMember api afterRemoveMember caller k ws w)) = outside w"
      using spec_plugin_remove [OF assms, where hook = afterRemoveMember and caller = caller and k = k and org = ws and w = w]
      by (auto simp: fold_evict_frame frame_members split: prod.splits sum.splits)
  qed
  show "keeps outside (attempt (au_updateMemberRole api caller k role ws) handle)"
  proof (rule keeps_attempt)
    fix w
    show "outside (snd (au_updateMemberRole api caller k role ws w)) = outside w"
      using spec_plugin_update [OF assms, where caller = caller and k = k and role = role and org = ws and w = w] by (auto simp: frame_members split: prod.splits sum.splits)
  qed
  show "keeps outside (attempt (au_leaveOrganization api caller ws) handle)"
  proof (rule keeps_attempt)
    fix w
    show "outside (snd (au_leaveOrganization api caller ws w)) = outside w"
      using spec_plugin_leave [OF assms, where caller = caller and org = ws and w = w] by (auto simp: frame_members split: prod.splits sum.splits)
  qed
qed

lemmas keeps_rules = keeps_bindE keeps_simple keeps_log keeps_evict keeps_plugin

lemma handleMember_frame:
  assumes "pluginContract api" and "handleMember api user req w = (r, w')"
  shows "outside w' = outside w"
proof -
  have member: "keeps outside (requireMember ws u)" for ws u
    by (simp add: requireMember_def keeps_simple)
  have guards: "keeps outside (WorkspaceGuard_canActivate ws u)" "keeps outside (RolesGuard_canActivate roles a)" for ws u roles a
    by (auto simp: WorkspaceGuard_canActivate_def RolesGuard_canActivate_def intro!: keeps_rules)
  have "keeps outside (handleMember api user req)"
    using assms(1)
    by (cases req) (auto simp: WorkspaceScoped_def WorkspaceRoles_def WorkspaceMemberService_removeMember_def
        WorkspaceMemberService_updateMemberRole_def WorkspaceMemberService_leave_def Let_def
        intro!: keeps_rules guards member)
  then show ?thesis using assms(2) by (simp add: keeps_def) (metis snd_conv)
qed

subsection \<open>The system\<close>

datatype pending_join = BoardJoin js_string uuid uuid | NotificationsJoin js_string uuid uuid

record hub =
  hb_sockets :: "socket list"
  hb_joins :: "pending_join list"
  hb_evictions :: "(uuid \<times> uuid) list"

fun joining :: "pending_join \<Rightarrow> js_string" where
  "joining (BoardJoin k _ _) = k"
| "joining (NotificationsJoin k _ _) = k"

fun joinedWorkspace :: "pending_join \<Rightarrow> uuid" where
  "joinedWorkspace (BoardJoin _ _ workspaceId) = workspaceId"
| "joinedWorkspace (NotificationsJoin _ workspaceId _) = workspaceId"

fun enter :: "pending_join \<Rightarrow> socket \<Rightarrow> socket" where
  "enter (BoardJoin k boardId workspaceId) client =
     (if so_id client = k then onBoardJoin_enter (boardId, workspaceId) client else client)"
| "enter (NotificationsJoin k workspaceId userId) client =
     (if so_id client = k then onNotificationsJoin_enter (workspaceId, userId) client else client)"

definition member :: "world \<Rightarrow> uuid \<Rightarrow> uuid \<Rightarrow> bool" where
  "member w workspaceId userId \<longleftrightarrow> (workspaceId, userId) \<in> (\<lambda>m. (m_workspaceId m, m_userId m)) ` set (members w)"

definition boardAt :: "world \<Rightarrow> uuid \<Rightarrow> uuid \<Rightarrow> bool" where
  \<comment> \<open>a board of that id, if there is one, belongs to the workspace\<close>
  "boardAt w b ws \<longleftrightarrow> (\<forall>x \<in> set (boards w). b_id x = b \<longrightarrow> b_workspaceId x = ws)"

definition known :: "world \<Rightarrow> (uuid \<times> uuid) list \<Rightarrow> uuid \<Rightarrow> uuid \<Rightarrow> bool" where
  \<comment> \<open>a member, or about to be dropped, or of a workspace that is gone\<close>
  "known w evictions ws u \<longleftrightarrow> member w ws u \<or> (ws, u) \<in> set evictions \<or> ws \<notin> ws_id ` set (workspaces w)"

definition referred :: "hub \<Rightarrow> uuid set" where
  \<comment> \<open>the boards and workspaces that sockets know\<close>
  "referred h = \<Union> ((\<lambda>so. (\<Union>r \<in> so_rooms so. case r of BoardRoom b \<Rightarrow> {b} | UserRoom ws _ \<Rightarrow> {ws})
       \<union> (case so_boardWorkspaces so of None \<Rightarrow> {} | Some kept \<Rightarrow> snd ` set kept)) ` set (hb_sockets h))
     \<union> \<Union> ((\<lambda>j. case j of BoardJoin _ b ws \<Rightarrow> {b, ws} | NotificationsJoin _ ws _ \<Rightarrow> {ws}) ` set (hb_joins h))"

definition freshRows :: "hub \<Rightarrow> world \<Rightarrow> world \<Rightarrow> bool" where
  \<comment> \<open>a row that is new has an id no socket knows\<close>
  "freshRows h w w' \<longleftrightarrow>
     (\<forall>k \<in> ws_id ` set (workspaces w'). k \<in> ws_id ` set (workspaces w) \<or> k \<notin> referred h)
     \<and> (\<forall>x \<in> set (boards w'). (\<exists>y \<in> set (boards w). b_id y = b_id x \<and> b_workspaceId y = b_workspaceId x) \<or> b_id x \<notin> referred h)"

definition evictsLost :: "hub \<Rightarrow> world \<Rightarrow> world \<Rightarrow> (uuid \<times> uuid) list \<Rightarrow> bool" where
  \<comment> \<open>who loses a membership is queued, unless the workspace goes too\<close>
  "evictsLost h w w' queued \<longleftrightarrow> (\<forall>ws u. member w ws u \<longrightarrow> known w' queued ws u) \<and> freshRows h w w'"

definition gainsOnly :: "hub \<Rightarrow> world \<Rightarrow> world \<Rightarrow> bool" where
  \<comment> \<open>what a request leaves that takes no membership away\<close>
  "gainsOnly h w w' \<longleftrightarrow> (\<forall>ws u. member w ws u \<longrightarrow> member w' ws u) \<and> freshRows h w w'"

definition deletesOrganization :: "auth_api \<Rightarrow> bool" where
  \<comment> \<open>the plugin deletes the row of the workspace, and the tables what hangs from it; a call that fails writes nothing\<close>
  "deletesOrganization api \<longleftrightarrow> (\<forall>caller org w. case au_deleteOrganization api caller org w of
      (Inl _, w') \<Rightarrow> w' = w
    | (Inr _, w') \<Rightarrow> w' = cascadeWorkspace org w)"

definition deleteWorkspace :: "auth_api \<Rightarrow> uuid \<Rightarrow> uuid \<Rightarrow> unit handler" where
  \<comment> \<open>the route of workspace.controller.ts with its guard\<close>
  "deleteWorkspace api user workspaceId =
     WorkspaceRoles [OWNER] workspaceId (Some user) (\<lambda>_. WorkspaceService_remove api workspaceId user)"

definition rowsOk :: "world \<Rightarrow> bool" where
  \<comment> \<open>the keys of three tables; and the socket server is up\<close>
  "rowsOk w \<longleftrightarrow> membersOk w \<and> distinct (map b_id (boards w)) \<and> commentsOk w \<and> w_socketServer w"

inductive realtime_step :: "auth_api \<Rightarrow> world \<times> hub \<Rightarrow> world \<times> hub \<Rightarrow> bool" for api where
  Connected: "RealtimeGateway_handleConnection k session = Some so \<Longrightarrow> k \<notin> so_id ` set (hb_sockets h) \<Longrightarrow>
    k \<notin> joining ` set (hb_joins h) \<Longrightarrow> realtime_step api (w, h) (w, h\<lparr>hb_sockets := so # hb_sockets h\<rparr>)"
| Disconnected: "realtime_step api (w, h) (w, h\<lparr>hb_sockets := filter (\<lambda>so. so_id so \<noteq> k) (hb_sockets h)\<rparr>)"
| BoardJoinAsked: "so \<in> set (hb_sockets h) \<Longrightarrow> onBoardJoin_check w so body = Inr (b, ws) \<Longrightarrow>
    realtime_step api (w, h) (w, h\<lparr>hb_joins := BoardJoin (so_id so) b ws # hb_joins h\<rparr>)"
| NotificationsJoinAsked: "so \<in> set (hb_sockets h) \<Longrightarrow> onNotificationsJoin_check w so body = Inr (ws, u) \<Longrightarrow>
    realtime_step api (w, h) (w, h\<lparr>hb_joins := NotificationsJoin (so_id so) ws u # hb_joins h\<rparr>)"
| Entered: "j \<in> set (hb_joins h) \<Longrightarrow>
    realtime_step api (w, h) (w, h\<lparr>hb_sockets := map (enter j) (hb_sockets h), hb_joins := remove1 j (hb_joins h)\<rparr>)"
| Left: "realtime_step api (w, h) (w, h\<lparr>hb_sockets := map (\<lambda>so. if so_id so = k then snd (RealtimeGateway_onBoardLeave body so)
    else so) (hb_sockets h)\<rparr>)"
| NotificationsLeft: "realtime_step api (w, h) (w, h\<lparr>hb_sockets := map (\<lambda>so. if so_id so = k
    then snd (RealtimeGateway_onNotificationsLeave body so) else so) (hb_sockets h)\<rparr>)"
| Requested: "handleMember api user req w = (r, w') \<Longrightarrow> w_evicted w' = w_evicted w @ queued \<Longrightarrow>
    realtime_step api (w, h) (w', h\<lparr>hb_evictions := hb_evictions h @ queued\<rparr>)"
| DeletedAccount: "AccountDeletionService_deleteAccount d userId dto initiatedBy actorId w = (counts, w') \<Longrightarrow>
    w_evicted w' = w_evicted w @ queued \<Longrightarrow> realtime_step api (w, h) (w', h\<lparr>hb_evictions := hb_evictions h @ queued\<rparr>)"
| DeletedWorkspace: "deleteWorkspace api user ws w = (r, w') \<Longrightarrow> w_evicted w' = w_evicted w @ queued \<Longrightarrow>
    realtime_step api (w, h) (w', h\<lparr>hb_evictions := hb_evictions h @ queued\<rparr>)"
| Elsewhere: "gainsOnly h w w' \<Longrightarrow> rowsOk w' \<Longrightarrow> realtime_step api (w, h) (w', h)"
| Evicted: "(ws, u) \<in> set (hb_evictions h) \<Longrightarrow>
    \<forall>j \<in> set (hb_joins h). \<forall>so \<in> set (hb_sockets h). joining j = so_id so \<and> joinedWorkspace j = ws \<longrightarrow> so_userId so \<noteq> Some u \<Longrightarrow>
    realtime_step api (w, h) (w, h\<lparr>hb_sockets := RealtimeService_evictUserFromWorkspace ws u (hb_sockets h),
      hb_evictions := remove1 (ws, u) (hb_evictions h)\<rparr>)"

subsection \<open>The invariant\<close>

definition roomOk :: "world \<Rightarrow> (uuid \<times> uuid) list \<Rightarrow> socket \<Rightarrow> room \<Rightarrow> bool" where
  "roomOk w evictions so r = (case r of
       BoardRoom b \<Rightarrow> \<exists>u ws kept. so_userId so = Some u \<and> so_boardWorkspaces so = Some kept \<and> map_of kept b = Some ws
         \<and> boardAt w b ws \<and> known w evictions ws u
     | UserRoom ws u \<Rightarrow> so_userId so = Some u \<and> known w evictions ws u)"

definition joinOk :: "world \<Rightarrow> (uuid \<times> uuid) list \<Rightarrow> socket \<Rightarrow> pending_join \<Rightarrow> bool" where
  "joinOk w evictions so j = (so_id so = joining j \<longrightarrow> (case j of
       BoardJoin k b ws \<Rightarrow> \<exists>u. so_userId so = Some u \<and> boardAt w b ws \<and> known w evictions ws u
     | NotificationsJoin k ws u \<Rightarrow> so_userId so = Some u \<and> known w evictions ws u))"

definition socketOk :: "world \<Rightarrow> hub \<Rightarrow> socket \<Rightarrow> bool" where
  "socketOk w h so \<longleftrightarrow> (\<forall>r \<in> so_rooms so. roomOk w (hb_evictions h) so r) \<and> (\<forall>j \<in> set (hb_joins h). joinOk w (hb_evictions h) so j)
     \<and> (case so_boardWorkspaces so of None \<Rightarrow> True | Some kept \<Rightarrow> distinct (map fst kept))"

fun hubOk :: "world \<times> hub \<Rightarrow> bool" where
  "hubOk (w, h) \<longleftrightarrow> rowsOk w \<and> distinct (map so_id (hb_sockets h)) \<and> (\<forall>so \<in> set (hb_sockets h). socketOk w h so)"

lemma handleMember_evictsLost:
  assumes "pluginContract api" and "membersOk w" and "w_socketServer w"
    and "handleMember api user req w = (r, w')" and "w_evicted w' = w_evicted w @ queued"
  shows "evictsLost h w w' queued"
proof -
  from handleMember_effect [OF assms(1,2,4)] obtain e where
    e: "allowedEffect w (requestWorkspace req) user e" "members w' = applyEffect e (members w)"
    and out: "w_evicted w' = w_evicted w @ (case e of Dropped m \<Rightarrow> if w_socketServer w then [(requestWorkspace req, m_userId m)] else [] | _ \<Rightarrow> [])"
    by metis
  have same: "boards w' = boards w" "workspaces w' = workspaces w"
    using handleMember_frame [OF assms(1,4)] by (simp_all add: outside_def)
  have "known w' queued ws u" if mem: "member w ws u" for ws u
  proof (cases e)
    case Unchanged
    with e(2) mem show ?thesis by (simp add: known_def member_def)
  next
    case (Dropped m)
    with e(1) out assms(3,5) have "queued = [(m_workspaceId m, m_userId m)]" by (simp add: allowedEffect_def)
    moreover obtain x where "x \<in> set (members w)" "m_workspaceId x = ws" "m_userId x = u" using mem by (auto simp: member_def)
    moreover have "x = m" if "m_id x = m_id m"
      using inj_on_id [of m_id "members w" x m] assms(2) e(1) Dropped that calculation(2) by (simp add: membersOk_def allowedEffect_def)
    ultimately show ?thesis using e(2) Dropped by (auto simp: known_def member_def image_iff)
  next
    case (Changed m role)
    let ?f = "\<lambda>x. if m_id x = m_id m then x\<lparr>m_role := role\<rparr> else x"
    obtain x where "x \<in> set (members w)" "m_workspaceId x = ws" "m_userId x = u" using mem by (auto simp: member_def)
    then have "(ws, u) \<in> (\<lambda>m. (m_workspaceId m, m_userId m)) ` set (map ?f (members w))"
      by (intro image_eqI [where x = "?f x"]) auto
    then show ?thesis using e(2) Changed by (simp add: known_def member_def)
  qed
  then show ?thesis by (auto simp: evictsLost_def freshRows_def same)
qed

subsection \<open>The two deletions\<close>

lemma member_keys: "member w ws u \<longleftrightarrow> (ws, u) \<in> snd ` set (memberKeys w)"
  by (auto simp: member_def memberKeys_def image_iff)

lemma unchanged_evictsLost: "evictsLost h w w queued"
  by (auto simp: evictsLost_def known_def freshRows_def)

lemma rowsLeft_fresh: "rowsLeft w w' \<Longrightarrow> freshRows h w w'"
  by (auto simp: rowsLeft_def freshRows_def exists_ws_def)

lemma rowsLeft_known:
  assumes "rowsLeft w w'" and "member w ws u"
  shows "member w' ws u \<or> \<not> exists_ws w' ws"
proof -
  obtain x where x: "x \<in> set (memberKeys w)" "snd x = (ws, u)" using assms(2) by (auto simp: member_keys)
  obtain Q where "memberKeys w' = filter Q (memberKeys w)" "Q x \<or> \<not> exists_ws w' (fst (snd x))"
    using assms(1) x(1) unfolding rowsLeft_def by blast
  with x show ?thesis by (force simp: member_keys)
qed

lemma rowsLeft_ok:
  assumes "rowsLeft w w'" and "membersOk w" and "distinct (map b_id (boards w))"
  shows "membersOk w'" "distinct (map b_id (boards w'))"
  using assms by (auto simp: rowsLeft_def membersOk_keys distinct_map_filter)

lemma deleteWorkspace_effect:
  assumes "deletesOrganization api" and "deleteWorkspace api user ws w = (r, w')"
  obtains "w' = w" | line where "w' = (cascadeWorkspace ws w)\<lparr>w_log := line\<rparr>"
proof -
  have call: "w1 = (case q of Inl _ \<Rightarrow> w | Inr _ \<Rightarrow> cascadeWorkspace ws w)" if "au_deleteOrganization api user ws w = (q, w1)" for q w1
    using assms(1) that unfolding deletesOrganization_def
    by (elim allE [of _ user] allE [of _ ws] allE [of _ w]) (cases q; simp)
  have remove: "w' = w \<or> (\<exists>line. w' = (cascadeWorkspace ws w)\<lparr>w_log := line\<rparr>)"
    if "WorkspaceService_remove api ws user w = (r, w')"
  proof (cases "au_deleteOrganization api user ws w")
    case (Pair q w1)
    with that call [OF Pair] show ?thesis
      by (cases q) (auto simp: WorkspaceService_remove_def bindE_def reads_def attempt_def modify_def)
  qed
  have run: "WorkspaceRoles [OWNER] ws (Some user) (\<lambda>_. WorkspaceService_remove api ws user) w = (r, w')"
    using assms(2) by (simp add: deleteWorkspace_def)
  have "w' = w \<or> (\<exists>line. w' = (cascadeWorkspace ws w)\<lparr>w_log := line\<rparr>)"
    using run
  proof (cases rule: roles_scoped)
    case entered
    then show ?thesis by (cases rule: scoped_cases) (auto dest: remove)
  qed simp
  with that show thesis by blast
qed

lemma workspace_deletion_evictsLost:
  assumes "deletesOrganization api" and "deleteWorkspace api user ws w = (r, w')" and "rowsOk w"
  shows "evictsLost h w w' queued \<and> rowsOk w'"
proof (cases rule: deleteWorkspace_effect [OF assms(1,2)])
  case 1
  with assms(3) show ?thesis by (simp add: unchanged_evictsLost)
next
  case (2 line)
  have frame: "members w' = members (cascadeWorkspace ws w)" "boards w' = boards (cascadeWorkspace ws w)"
    "workspaces w' = workspaces (cascadeWorkspace ws w)" "comments w' = comments (cascadeWorkspace ws w)"
    "w_socketServer w' = w_socketServer w" "w_evicted w' = w_evicted (cascadeWorkspace ws w)"
    by (simp_all add: 2 cascadeWorkspace_frame)
  have left: "rowsLeft w w'" using cascade_left [of w ws] by (simp add: rowsLeft_def frame memberKeys_def exists_ws_def)
  have "subComments w w'" using cascadeWorkspace_frame(5) [of w ws] by (simp add: subComments_def frame(4))
  then have "commentsOk w'" using commentsOk_sub assms(3) by (auto simp: rowsOk_def)
  then have "rowsOk w'" using rowsLeft_ok [OF left] assms(3) frame(5) by (simp add: rowsOk_def)
  moreover have "known w' queued k u" if "member w k u" for k u
    using rowsLeft_known [OF left that] by (auto simp: known_def exists_ws_def)
  ultimately show ?thesis using rowsLeft_fresh [OF left] by (simp add: evictsLost_def)
qed

lemma departing_rows:
  assumes "member w ws u" and "exists_ws w ws"
  shows "ws \<in> ms_workspaceId ` set (soleOwnedBy w u @ otherwiseIn w u)"
proof -
  obtain m where m: "m \<in> set (members w)" "m_workspaceId m = ws" "m_userId m = u" using assms(1) by (auto simp: member_def)
  moreover obtain row where "findWorkspace w ws = Some row" using assms(2) findWorkspace_exists by blast
  ultimately have "\<lparr>ms_workspaceId = ws, ms_role = m_role m, ms_workspace = row\<rparr> \<in> set (membershipsOf w u)"
    unfolding set_membershipsOf by blast
  then have "\<lparr>ms_workspaceId = ws, ms_role = m_role m, ms_workspace = row\<rparr> \<in> set (soleOwnedBy w u @ otherwiseIn w u)"
    by (auto simp: soleOwnedBy_def otherwiseIn_def)
  from imageI [OF this, of ms_workspaceId] show ?thesis by simp
qed

lemma account_deletion_evictsLost:
  assumes run: "AccountDeletionService_deleteAccount d userId dto initiatedBy actorId w = (counts, w')"
    and ok: "rowsOk w" and q: "w_evicted w' = w_evicted w @ queued"
  shows "evictsLost h w w' queued \<and> rowsOk w'"
proof (cases counts)
  case (Inl e)
  with deletion_refused run have "w' = w" by blast
  with ok show ?thesis by (simp add: unchanged_evictsLost)
next
  case (Inr c)
  with run have "AccountDeletionService_deleteAccount d userId dto initiatedBy actorId w = (Inr c, w')" by simp
  from deletion_parts [OF this] obtain user dispositions soleOwned other where
    plan: "deletionPlan userId dto w = (Inr (user, dispositions, soleOwned, other), w)"
    and commit: "deletionCommit d initiatedBy actorId (user, dispositions, soleOwned, other) w = (Inr c, w')" .
  have user: "u_id user = userId" and parts: "soleOwned = soleOwnedBy w userId" "other = otherwiseIn w userId"
    using plan unfolding plan_Inr by (auto dest: find_Some_D)
  let ?left = "survivingMemberships dispositions soleOwned other"
  obtain n lines w1 w2 w3 where
    s: "settleOwned userId (case actorId of None \<Rightarrow> userId | Some a \<Rightarrow> a) dispositions soleOwned w = (Inr (n, lines), w1)"
    and l: "logDepartures userId initiatedBy ?left w1 = (Inr (), w2)"
    and x: "erasePerson user (w_now w) (noCounts\<lparr>n_workspacesTransferred := n, n_workspacesDeleted := length lines\<rparr>) w2 = (Inr c, w3)"
    and w': "w' = w3\<lparr>w_evicted := w_evicted w3 @ (if w_socketServer w3 then
        map (\<lambda>row. (ms_workspaceId row, userId)) ?left else []), w_log := w_log w'\<rparr>"
    by (rule commit_Inr [OF commit, unfolded user])
  note S = settle_effect [OF s] and L = departures_frame [OF l] and left = settle_left [OF s]
  have sub: "subComments w w2" using S L subComments_trans [OF _ subComments_refl] by blast
  have cok: "commentsOk w2" using commentsOk_sub [OF sub] ok by (simp add: rowsOk_def)
  note X = erasePerson_success [OF x cok, unfolded user]
  have T: "members w' = members w3" "workspaces w' = workspaces w3" "boards w' = boards w3" "comments w' = comments w3"
    "w_socketServer w' = w_socketServer w3" by (subst w', simp)+
  have world: "members w' = filter (\<lambda>m. m_userId m \<noteq> userId) (members w1)" "workspaces w' = workspaces w1" "boards w' = boards w1"
    "comments w' = map (redactedComment userId) (comments w1)" "w_socketServer w' = w_socketServer w"
    using L S X by (simp_all add: T)
  have "commentsOk w'" using cok L by (simp add: commentsOk_def world(4) o_def image_image)
  moreover have "membersOk w1" "distinct (map b_id (boards w1))" using rowsLeft_ok [OF left] ok by (simp_all add: rowsOk_def)
  then have "membersOk w'" by (simp add: membersOk_def world(1) distinct_map_filter)
  ultimately have rows: "rowsOk w'" using ok \<open>distinct (map b_id (boards w1))\<close> by (simp add: rowsOk_def world)
  have "w_evicted w3 = w_evicted w" "w_socketServer w3" using L X S left ok by (auto simp: rowsLeft_def rowsOk_def)
  moreover have "w_evicted w' = w_evicted w3 @ (if w_socketServer w3 then map (\<lambda>row. (ms_workspaceId row, userId)) ?left else [])"
    by (subst w') simp
  ultimately have queued: "queued = map (\<lambda>row. (ms_workspaceId row, userId)) ?left" using q by simp
  have "known w' queued ws u" if m: "member w ws u" for ws u
  proof (cases "exists_ws w' ws")
    case True
    then have ws: "exists_ws w1 ws" "exists_ws w ws" using left by (auto simp: exists_ws_def world(2) rowsLeft_def)
    show ?thesis
    proof (cases "u = userId")
      case False
      with rowsLeft_known [OF left m] ws(1) have "member w' ws u" by (auto simp: member_def world(1) image_iff)
      then show ?thesis by (simp add: known_def)
    next
      case u: True
      from departing_rows [OF m ws(2)] obtain row where row: "row \<in> set (soleOwned @ other)" "ms_workspaceId row = ws"
        unfolding u parts by (auto simp: image_iff)
      have "row \<in> set ?left"
      proof (cases "row \<in> set soleOwned")
        case sole: True
        then obtain dec where "dispositions ws = Some dec" "wp_action dec \<noteq> Delete"
          using S row(2) ws(1) by (metis (no_types, lifting) disposition_action.simps(4))
        then have "map_option wp_action (dispositions ws) = Some Transfer" by (cases "wp_action dec") simp_all
        with sole row(2) show ?thesis by (simp add: survivingMemberships_def)
      qed (use row(1) in \<open>simp add: survivingMemberships_def\<close>)
      then have "(ws, u) \<in> set queued" unfolding queued u using row(2) by force
      then show ?thesis by (simp add: known_def)
    qed
  qed (simp add: known_def exists_ws_def)
  moreover have "freshRows h w w'" using rowsLeft_fresh [OF left, of h] by (simp add: freshRows_def world)
  ultimately show ?thesis using rows by (simp add: evictsLost_def)
qed

lemma known_later:
  assumes "evictsLost h w w' queued" and "known w evictions ws u" and "ws \<in> referred h"
  shows "known w' (evictions @ queued) ws u"
  using assms by (auto simp: evictsLost_def freshRows_def known_def)

lemma boardAt_later:
  assumes "evictsLost h w w' queued" and "boardAt w b ws" and "b \<in> referred h"
  shows "boardAt w' b ws"
  unfolding boardAt_def
proof (intro ballI impI)
  fix x assume x: "x \<in> set (boards w')" "b_id x = b"
  then have "\<exists>y \<in> set (boards w). b_id y = b_id x \<and> b_workspaceId y = b_workspaceId x"
    using assms(1,3) unfolding evictsLost_def freshRows_def by blast
  then show "b_workspaceId x = ws" using assms(2) x(2) by (auto simp: boardAt_def)
qed

lemma referred_room:
  assumes "so \<in> set (hb_sockets h)"
  shows "BoardRoom b \<in> so_rooms so \<Longrightarrow> b \<in> referred h" "UserRoom ws u \<in> so_rooms so \<Longrightarrow> ws \<in> referred h"
    "so_boardWorkspaces so = Some kept \<Longrightarrow> map_of kept b' = Some ws' \<Longrightarrow> ws' \<in> referred h"
proof -
  let ?S = "\<lambda>so. (\<Union>r \<in> so_rooms so. case r of BoardRoom b \<Rightarrow> {b} | UserRoom ws _ \<Rightarrow> {ws})
    \<union> (case so_boardWorkspaces so of None \<Rightarrow> {} | Some kept \<Rightarrow> snd ` set kept)"
  have sub: "?S so \<subseteq> referred h" unfolding referred_def using assms by blast
  show "b \<in> referred h" if "BoardRoom b \<in> so_rooms so" using subsetD [OF sub, of b] UN_I [OF that, of b] by simp
  show "ws \<in> referred h" if "UserRoom ws u \<in> so_rooms so" using subsetD [OF sub, of ws] UN_I [OF that, of ws] by simp
  show "ws' \<in> referred h" if "so_boardWorkspaces so = Some kept" "map_of kept b' = Some ws'"
    using subsetD [OF sub, of ws'] that(1) imageI [OF map_of_SomeD [OF that(2)], of snd] by simp
qed

lemma referred_join:
  "BoardJoin k b ws \<in> set (hb_joins h) \<Longrightarrow> b \<in> referred h \<and> ws \<in> referred h"
  "NotificationsJoin k ws u \<in> set (hb_joins h) \<Longrightarrow> ws \<in> referred h"
  unfolding referred_def by force+

lemma socketOk_later:
  assumes "evictsLost h w w' queued" and "so \<in> set (hb_sockets h)" and "socketOk w h so"
  shows "socketOk w' (h\<lparr>hb_evictions := hb_evictions h @ queued\<rparr>) so"
proof -
  have "roomOk w' (hb_evictions h @ queued) so r" if r: "r \<in> so_rooms so" for r
  proof (cases r)
    case (BoardRoom b)
    with assms(3) r obtain u ws kept where "so_userId so = Some u" "so_boardWorkspaces so = Some kept" "map_of kept b = Some ws"
        "boardAt w b ws" "known w (hb_evictions h) ws u" by (fastforce simp: socketOk_def roomOk_def)
    then show ?thesis
      using BoardRoom r known_later [OF assms(1)] boardAt_later [OF assms(1)] referred_room [OF assms(2)] by (auto simp: roomOk_def)
  next
    case (UserRoom ws u)
    with assms(3) r have "roomOk w (hb_evictions h) so r" by (simp add: socketOk_def)
    then show ?thesis using UserRoom r known_later [OF assms(1)] referred_room(2) [OF assms(2)] by (auto simp: roomOk_def)
  qed
  moreover have "joinOk w' (hb_evictions h @ queued) so j" if j: "j \<in> set (hb_joins h)" for j
  proof -
    have ok: "joinOk w (hb_evictions h) so j" using assms(3) j by (simp add: socketOk_def)
    show ?thesis
      using ok j known_later [OF assms(1)] boardAt_later [OF assms(1)] referred_join
      by (cases j) (auto simp: joinOk_def)
  qed
  ultimately show ?thesis using assms(3) by (simp add: socketOk_def)
qed

lemma map_of_kept:
  assumes "distinct (map fst kept)"
  shows "map_of (filter (\<lambda>e. snd e \<noteq> ws) kept) b = (if map_of kept b = Some ws then None else map_of kept b)"
  using assms
proof (induction kept)
  case (Cons e kept)
  have "map_of (filter (\<lambda>e. snd e \<noteq> ws) kept) k = None" if "k \<notin> fst ` set kept" for k
    using that by (auto simp: map_of_eq_None_iff)
  with Cons show ?case by (cases e) auto
qed simp

subsection \<open>Each step\<close>

lemma check_known:
  "onBoardJoin_check w so body = Inr (b, ws) \<Longrightarrow> \<exists>u. so_userId so = Some u \<and> member w ws u
     \<and> (\<exists>x \<in> set (boards w). b_id x = b \<and> b_workspaceId x = ws)"
  "onNotificationsJoin_check w so body = Inr (ws, u) \<Longrightarrow> so_userId so = Some u \<and> member w ws u"
  by (auto simp: onBoardJoin_check_def onNotificationsJoin_check_def signedIn_def Let_def member_def image_iff list_ex_iff
      find_Some_iff split: option.splits if_splits) metis+

lemma joinOk_same: "so_id so' = so_id so \<Longrightarrow> so_userId so' = so_userId so \<Longrightarrow> joinOk w evictions so' j = joinOk w evictions so j"
  by (cases j) (simp_all add: joinOk_def)

definition onlyIn :: "socket \<Rightarrow> socket \<Rightarrow> bool" where
  \<comment> \<open>a socket that left rooms, and forgot no room it is still in\<close>
  "onlyIn so' so \<longleftrightarrow> so_id so' = so_id so \<and> so_userId so' = so_userId so \<and> so_rooms so' \<subseteq> so_rooms so
     \<and> (\<forall>b kept ws. BoardRoom b \<in> so_rooms so' \<and> so_boardWorkspaces so = Some kept \<and> map_of kept b = Some ws \<longrightarrow>
          (\<exists>kept'. so_boardWorkspaces so' = Some kept' \<and> map_of kept' b = Some ws))
     \<and> (\<forall>kept'. so_boardWorkspaces so' = Some kept' \<longrightarrow>
          (\<exists>kept. so_boardWorkspaces so = Some kept \<and> (distinct (map fst kept) \<longrightarrow> distinct (map fst kept'))))"

lemma distinct_kept: "distinct (map fst kept) \<Longrightarrow> distinct (map fst (filter P kept))"
  by (rule distinct_map_filter)

lemma left_board: "onlyIn (snd (RealtimeGateway_onBoardLeave body so)) so"
proof -
  have "map_of (filter (\<lambda>e. fst e \<noteq> k) kept) b = (if b = k then None else map_of kept b)" for b k and kept :: "(uuid \<times> uuid) list"
    by (induction kept) auto
  then show ?thesis by (auto simp: onlyIn_def RealtimeGateway_onBoardLeave_def Let_def distinct_kept)
qed

lemma left_notifications: "onlyIn (snd (RealtimeGateway_onNotificationsLeave body so)) so"
  by (auto simp: onlyIn_def RealtimeGateway_onNotificationsLeave_def Let_def split: option.splits)

lemma onlyIn_ok:
  assumes "onlyIn so' so" and "socketOk w h so"
  shows "socketOk w (h\<lparr>hb_sockets := xs\<rparr>) so'"
proof -
  have "roomOk w (hb_evictions h) so' r" if r: "r \<in> so_rooms so'" for r
  proof (cases r)
    case (BoardRoom b)
    moreover have "r \<in> so_rooms so" using assms(1) r by (auto simp: onlyIn_def)
    ultimately obtain u ws kept where "so_userId so = Some u" "so_boardWorkspaces so = Some kept" "map_of kept b = Some ws"
        "boardAt w b ws" "known w (hb_evictions h) ws u" using assms(2) by (fastforce simp: socketOk_def roomOk_def)
    moreover then obtain kept' where "so_boardWorkspaces so' = Some kept'" "map_of kept' b = Some ws"
      using assms(1) r BoardRoom unfolding onlyIn_def by blast
    ultimately show ?thesis using assms(1) BoardRoom by (auto simp: roomOk_def onlyIn_def)
  next
    case (UserRoom ws u)
    moreover have "r \<in> so_rooms so" using assms(1) r by (auto simp: onlyIn_def)
    ultimately show ?thesis using assms by (auto simp: roomOk_def onlyIn_def socketOk_def)
  qed
  moreover have "joinOk w (hb_evictions h) so' j" if "j \<in> set (hb_joins h)" for j
    using assms that joinOk_same [of so' so] by (auto simp: onlyIn_def socketOk_def)
  moreover have "case so_boardWorkspaces so' of None \<Rightarrow> True | Some kept \<Rightarrow> distinct (map fst kept)"
    using assms by (fastforce simp: onlyIn_def socketOk_def split: option.splits)
  ultimately show ?thesis by (simp add: socketOk_def)
qed

lemma enter_ok:
  assumes "socketOk w h so" and "j \<in> set (hb_joins h)"
  shows "socketOk w (h\<lparr>hb_sockets := xs, hb_joins := remove1 j (hb_joins h)\<rparr>) (enter j so)"
proof -
  have ok: "joinOk w (hb_evictions h) so j" using assms by (simp add: socketOk_def)
  have same: "so_id (enter j so) = so_id so" "so_userId (enter j so) = so_userId so"
    by (cases j; simp add: onBoardJoin_enter_def onNotificationsJoin_enter_def Let_def)+
  have rest: "joinOk w (hb_evictions h) (enter j so) i" if "i \<in> set (remove1 j (hb_joins h))" for i
    using assms(1) notin_set_remove1 [of i "hb_joins h" j] that by (auto simp: joinOk_same [OF same] socketOk_def)
  have keys: "case so_boardWorkspaces (enter j so) of None \<Rightarrow> True | Some kept \<Rightarrow> distinct (map fst kept)"
    using assms(1) by (cases j) (auto simp: onBoardJoin_enter_def onNotificationsJoin_enter_def Let_def socketOk_def
        intro: distinct_update split: option.splits)
  have "roomOk w (hb_evictions h) (enter j so) r" if "r \<in> so_rooms (enter j so)" for r
  proof (cases "r \<in> so_rooms so \<and> (\<forall>k b ws. j = BoardJoin k b ws \<and> so_id so = k \<longrightarrow> r \<noteq> BoardRoom b)")
    case True
    then have "roomOk w (hb_evictions h) so r" using assms(1) by (simp add: socketOk_def)
    with True show ?thesis
      by (cases j) (auto simp: roomOk_def onBoardJoin_enter_def onNotificationsJoin_enter_def Let_def update_conv'
          split: room.splits)
  next
    case False
    with that ok show ?thesis
      by (cases j) (auto simp: roomOk_def joinOk_def onBoardJoin_enter_def onNotificationsJoin_enter_def Let_def update_conv'
          split: if_splits)
  qed
  then show ?thesis using rest keys by (simp add: socketOk_def)
qed

lemma evict_ok:
  assumes "socketOk w h so"
    and "\<forall>j \<in> set (hb_joins h). joining j = so_id so \<and> joinedWorkspace j = ws \<longrightarrow> so_userId so \<noteq> Some u"
  shows "socketOk w (h\<lparr>hb_sockets := xs, hb_evictions := remove1 (ws, u) (hb_evictions h)\<rparr>) (evictSocket ws u so)"
proof -
  have known: "known w (remove1 (ws, u) (hb_evictions h)) k v" if "known w (hb_evictions h) k v" "(k, v) \<noteq> (ws, u)" for k v
    using that by (auto simp: known_def)
  have same: "so_id (evictSocket ws u so) = so_id so" "so_userId (evictSocket ws u so) = so_userId so"
    by (simp_all add: evictSocket_def Let_def)
  have "joinOk w (remove1 (ws, u) (hb_evictions h)) (evictSocket ws u so) j" if j: "j \<in> set (hb_joins h)" for j
  proof -
    have "joinOk w (hb_evictions h) so j" using assms(1) j by (simp add: socketOk_def)
    with assms(2) [rule_format, OF j] show ?thesis by (cases j) (auto simp: joinOk_def same intro!: known)
  qed
  moreover have keys: "case so_boardWorkspaces so of None \<Rightarrow> True | Some kept \<Rightarrow> distinct (map fst kept)"
    using assms(1) by (simp add: socketOk_def)
  then have "case so_boardWorkspaces (evictSocket ws u so) of None \<Rightarrow> True | Some kept \<Rightarrow> distinct (map fst kept)"
    by (auto simp: evictSocket_def Let_def distinct_kept split: option.splits)
  moreover have "roomOk w (remove1 (ws, u) (hb_evictions h)) (evictSocket ws u so) r"
    if r: "r \<in> so_rooms (evictSocket ws u so)" for r
  proof (cases r)
    case (BoardRoom b)
    moreover have "r \<in> so_rooms so" using r by (auto simp: evictSocket_def Let_def split: if_splits)
    ultimately obtain v k kept where so: "so_userId so = Some v" "so_boardWorkspaces so = Some kept" "map_of kept b = Some k"
        "boardAt w b k" "known w (hb_evictions h) k v" using assms(1) by (fastforce simp: socketOk_def roomOk_def)
    show ?thesis
    proof (cases "v = u")
      case True
      have "k \<noteq> ws"
      proof
        assume "k = ws"
        then have "BoardRoom b \<in> BoardRoom ` fst ` set (filter (\<lambda>e. snd e = ws) kept)"
          using map_of_SomeD [OF so(3)] by (force simp: image_iff)
        with r BoardRoom True so show False by (simp add: evictSocket_def Let_def)
      qed
      then show ?thesis using BoardRoom True so keys known [OF so(5)]
        by (simp add: roomOk_def evictSocket_def Let_def map_of_kept)
    next
      case False
      then show ?thesis using BoardRoom so known [OF so(5)] by (simp add: roomOk_def evictSocket_def)
    qed
  next
    case (UserRoom k v)
    moreover have "r \<in> so_rooms so" using r by (auto simp: evictSocket_def Let_def split: if_splits)
    ultimately have so: "so_userId so = Some v" "known w (hb_evictions h) k v"
      using assms(1) by (auto simp: socketOk_def roomOk_def)
    moreover have "(k, v) \<noteq> (ws, u)" using r UserRoom so(1) by (auto simp: evictSocket_def Let_def)
    ultimately show ?thesis using UserRoom known by (simp add: roomOk_def same)
  qed
  ultimately show ?thesis by (simp add: socketOk_def)
qed

lemma mapped_ok:
  assumes "hubOk (w, h)" and "hb_sockets h' = map f (hb_sockets h)" and "\<And>so. so_id (f so) = so_id so"
    and "\<And>so. so \<in> set (hb_sockets h) \<Longrightarrow> socketOk w h so \<Longrightarrow> socketOk w h' (f so)"
  shows "hubOk (w, h')"
  using assms by (simp add: o_def)

lemma socketOk_others: "socketOk w (h\<lparr>hb_sockets := xs\<rparr>) so = socketOk w h so"
  by (simp add: socketOk_def)

lemma left_ok:
  assumes "hubOk (w, h)" and "\<And>so. onlyIn (g so) so"
  shows "hubOk (w, h\<lparr>hb_sockets := map (\<lambda>so. if so_id so = k then g so else so) (hb_sockets h)\<rparr>)"
proof (rule mapped_ok [where f = "\<lambda>so. if so_id so = k then g so else so", OF assms(1)])
  show "so_id (if so_id so = k then g so else so) = so_id so" for so using assms(2) [of so] by (simp add: onlyIn_def)
  fix so assume "socketOk w h so"
  then show "socketOk w (h\<lparr>hb_sockets := map (\<lambda>so. if so_id so = k then g so else so) (hb_sockets h)\<rparr>) (if so_id so = k then g so else so)"
    using onlyIn_ok [OF assms(2)] socketOk_others by (cases "so_id so = k") auto
qed simp

lemma evicted_step:
  assumes "evictsLost h w w' queued \<and> rowsOk w'" and "hubOk (w, h)"
  shows "hubOk (w', h\<lparr>hb_evictions := hb_evictions h @ queued\<rparr>)"
  using assms socketOk_later by auto

lemma step_ok:
  assumes "pluginContract api" and "realtime_step api s s'" and "hubOk s" and "deletesOrganization api"
  shows "hubOk s'"
  using assms(2,3)
proof cases
  case (Connected k session so h w)
  then have "so_rooms so = {}" "so_boardWorkspaces so = None" "so_id so = k"
    by (auto simp: RealtimeGateway_handleConnection_def split: sum.splits option.splits if_splits)
  moreover have "joinOk w (hb_evictions h) so j" if "j \<in> set (hb_joins h)" for j
    using Connected(5) imageI [OF that, of joining] calculation(3) by (auto simp: joinOk_def)
  ultimately show ?thesis using Connected assms(3) by (auto simp: socketOk_def)
next
  case (Disconnected w h k)
  then show ?thesis using assms(3) by (auto simp: socketOk_def distinct_map_filter)
next
  case (BoardJoinAsked so h w body b ws)
  obtain u x where so: "so_userId so = Some u" "member w ws u" "x \<in> set (boards w)" "b_id x = b" "b_workspaceId x = ws"
    using check_known(1) [OF BoardJoinAsked(4)] by blast
  have ids: "distinct (map b_id (boards w))" and sos: "distinct (map so_id (hb_sockets h))"
    using assms(3) BoardJoinAsked(1) by (simp_all add: rowsOk_def)
  have "boardAt w b ws"
    unfolding boardAt_def using inj_on_id [OF ids] so(3-5) by blast
  then have "joinOk w (hb_evictions h) so' (BoardJoin (so_id so) b ws)" if "so' \<in> set (hb_sockets h)" for so'
    using inj_on_id [OF sos BoardJoinAsked(3) that] so(1,2) by (auto simp: joinOk_def known_def)
  then show ?thesis using BoardJoinAsked(1,2) assms(3) by (auto simp: socketOk_def)
next
  case (NotificationsJoinAsked so h w body ws u)
  have sos: "distinct (map so_id (hb_sockets h))" using assms(3) NotificationsJoinAsked(1) by simp
  have "joinOk w (hb_evictions h) so' (NotificationsJoin (so_id so) ws u)" if "so' \<in> set (hb_sockets h)" for so'
    using inj_on_id [OF sos NotificationsJoinAsked(3) that] check_known(2) [OF NotificationsJoinAsked(4)]
    by (auto simp: joinOk_def known_def)
  then show ?thesis using NotificationsJoinAsked(1,2) assms(3) by (auto simp: socketOk_def)
next
  case (Entered j h w)
  have id: "so_id (enter j so) = so_id so" for so
    by (cases j) (auto simp: onBoardJoin_enter_def onNotificationsJoin_enter_def Let_def)
  show ?thesis unfolding Entered(2)
  proof (rule mapped_ok [where f = "enter j" and h = h])
    show "hubOk (w, h)" using assms(3) Entered(1) by simp
  next
    show "hb_sockets (h\<lparr>hb_sockets := map (enter j) (hb_sockets h), hb_joins := remove1 j (hb_joins h)\<rparr>) =
      map (enter j) (hb_sockets h)" by simp
  qed (simp_all only: id enter_ok Entered(3))
next
  case (Left w h k body)
  then show ?thesis using left_ok [where g = "\<lambda>so. snd (RealtimeGateway_onBoardLeave body so)", OF _ left_board] assms(3) by blast
next
  case (NotificationsLeft w h k body)
  then show ?thesis
    using left_ok [where g = "\<lambda>so. snd (RealtimeGateway_onNotificationsLeave body so)", OF _ left_notifications] assms(3) by blast
next
  case (Requested user req w r w' queued h)
  have w: "membersOk w" "w_socketServer w" "distinct (map b_id (boards w))" "commentsOk w"
    using assms(3) Requested(1) by (simp_all add: rowsOk_def)
  have "rowsOk w'"
    using handleMember_frame [OF assms(1) Requested(3)] handleMember_keeps(1) [OF assms(1) w(1) Requested(3)] w
    by (simp add: rowsOk_def outside_def commentsOk_def)
  moreover have "evictsLost h w w' queued" by (rule handleMember_evictsLost [OF assms(1) w(1,2) Requested(3,4)])
  ultimately show ?thesis using Requested(1,2) assms(3) evicted_step by blast
next
  case (DeletedAccount d userId dto initiatedBy actorId w counts w' queued h)
  moreover have "rowsOk w" using assms(3) DeletedAccount(1) by simp
  ultimately show ?thesis using account_deletion_evictsLost evicted_step assms(3) by metis
next
  case (DeletedWorkspace user ws w r w' queued h)
  moreover have "rowsOk w" using assms(3) DeletedWorkspace(1) by simp
  ultimately show ?thesis using workspace_deletion_evictsLost [OF assms(4)] evicted_step assms(3) by metis
next
  case (Elsewhere h w w')
  then have "evictsLost h w w' [] \<and> rowsOk w'" by (auto simp: gainsOnly_def evictsLost_def known_def)
  from evicted_step [OF this] Elsewhere(1,2) assms(3) show ?thesis by simp
next
  case (Evicted ws u h w)
  show ?thesis unfolding Evicted(2)
  proof (rule mapped_ok [where f = "evictSocket ws u" and h = h])
    show "hubOk (w, h)" using assms(3) Evicted(1) by simp
    show "so_id (evictSocket ws u so) = so_id so" for so by (simp add: evictSocket_def Let_def)
    fix so assume "so \<in> set (hb_sockets h)" "socketOk w h so"
    then show "socketOk w (h\<lparr>hb_sockets := RealtimeService_evictUserFromWorkspace ws u (hb_sockets h),
        hb_evictions := remove1 (ws, u) (hb_evictions h)\<rparr>) (evictSocket ws u so)"
      using Evicted(4) by (intro evict_ok) blast+
  qed (simp add: RealtimeService_evictUserFromWorkspace_def)
qed

lemma steps_ok:
  assumes "pluginContract api" and "deletesOrganization api" and "(realtime_step api)\<^sup>*\<^sup>* s s'" and "hubOk s"
  shows "hubOk s'"
  using assms(3,4) by (induction rule: rtranclp_induct) (simp_all add: step_ok [OF assms(1) _ _ assms(2)])

text \<open>
  C12. Who listens may read. Along every interleaving of connections, joins, departures, evictions, removals of
  members, changes of roles, departures from a workspace, deletions of accounts and of workspaces, and other
  requests, an event of a board reaches only sockets of members of its workspace, or of users whose eviction is
  under way; a signal for a user reaches that user's own sockets alone. Two things are assumed: the other
  requests take no membership away and give new boards and workspaces ids that no socket has heard of
  (\<open>gainsOnly\<close>), and no eviction runs between the two halves of a join of that user (the step \<open>Evicted\<close>).
\<close>

theorem listeners_are_members:
  assumes "pluginContract api" and "deletesOrganization api" and "rowsOk w" and "(realtime_step api)\<^sup>*\<^sup>* (w, \<lparr>hb_sockets = [], hb_joins = [], hb_evictions = []\<rparr>) (w', h)"
  shows "(\<forall>b \<in> set (boards w'). \<forall>so \<in> set (receivers (hb_sockets h) (BoardRoom (b_id b))).
      b_workspaceId b \<in> ws_id ` set (workspaces w') \<longrightarrow>
      (\<exists>u. so_userId so = Some u \<and> (member w' (b_workspaceId b) u \<or> (b_workspaceId b, u) \<in> set (hb_evictions h))))
    \<and> (\<forall>ws u. \<forall>so \<in> set (receivers (hb_sockets h) (UserRoom ws u)). so_userId so = Some u)"
proof -
  have ok: "hubOk (w', h)" by (rule steps_ok [OF assms(1,2,4)]) (simp add: assms(3))
  have room: "roomOk w' (hb_evictions h) so r" if "so \<in> set (receivers (hb_sockets h) r)" for so r
    using ok that by (auto simp: receivers_def socketOk_def)
  have "\<exists>u. so_userId so = Some u \<and> (member w' (b_workspaceId b) u \<or> (b_workspaceId b, u) \<in> set (hb_evictions h))"
    if b: "b \<in> set (boards w')" "so \<in> set (receivers (hb_sockets h) (BoardRoom (b_id b)))" "b_workspaceId b \<in> ws_id ` set (workspaces w')" for b so
  proof -
    obtain u ws where "so_userId so = Some u" "boardAt w' (b_id b) ws" "known w' (hb_evictions h) ws u"
      using room [OF b(2)] by (auto simp: roomOk_def)
    moreover have "b_workspaceId b = ws" using calculation(2) b(1) by (simp add: boardAt_def)
    ultimately show ?thesis using b(3) by (auto simp: known_def)
  qed
  moreover have "so_userId so = Some u" if "so \<in> set (receivers (hb_sockets h) (UserRoom ws u))" for ws u so
    using room [OF that] by (simp add: roomOk_def)
  ultimately show ?thesis by blast
qed

definition deletingPlugin :: auth_api where
  \<comment> \<open>a plugin that deletes workspaces too\<close>
  "deletingPlugin = samplePlugin\<lparr>au_deleteOrganization := (\<lambda>_ org w. (Inr (), cascadeWorkspace org w))\<rparr>"

lemma deletingPlugin_ok: "pluginContract deletingPlugin" "deletesOrganization deletingPlugin"
  using samplePlugin_ok
  by (simp_all add: deletingPlugin_def deletesOrganization_def pluginContract_def removesMember_def setsRole_def leavesOrganization_def)

definition bobsSocket :: socket where
  "bobsSocket = \<lparr>so_id = js ''s'', so_rooms = {}, so_userId = Some (js ''u2''), so_boardWorkspaces = None, so_notificationWorkspaces = None\<rparr>"

lemma bobs_join: "onBoardJoin_check sampleWorld bobsSocket (Some (js ''b1'')) = Inr (js ''b1'', js ''w1'')"
  by (simp add: onBoardJoin_check_def signedIn_def bobsSocket_def bodyString_def sampleWorld_def)

theorem listeners_are_members_witness:
  "\<exists>h so. (realtime_step deletingPlugin)\<^sup>*\<^sup>* (sampleWorld, \<lparr>hb_sockets = [], hb_joins = [], hb_evictions = []\<rparr>) (sampleWorld, h)
     \<and> receivers (hb_sockets h) (BoardRoom (js ''b1'')) = [so] \<and> so_userId so = Some (js ''u2'') \<and> member sampleWorld (js ''w1'') (js ''u2'')"
proof -
  let ?j = "BoardJoin (js ''s'') (js ''b1'') (js ''w1'')"
  have id: "so_id bobsSocket = js ''s''" by (simp add: bobsSocket_def)
  have "RealtimeGateway_handleConnection (js ''s'') (Inr (Some (js ''u2''))) = Some bobsSocket"
    by (simp add: RealtimeGateway_handleConnection_def bobsSocket_def)
  then have 1: "realtime_step deletingPlugin (sampleWorld, \<lparr>hb_sockets = [], hb_joins = [], hb_evictions = []\<rparr>)
      (sampleWorld, \<lparr>hb_sockets = [bobsSocket], hb_joins = [], hb_evictions = []\<rparr>)"
    using Connected [of "js ''s''" "Inr (Some (js ''u2''))" bobsSocket "\<lparr>hb_sockets = [], hb_joins = [], hb_evictions = []\<rparr>" deletingPlugin sampleWorld]
    by (simp del: js_Cons)
  have 2: "realtime_step deletingPlugin (sampleWorld, \<lparr>hb_sockets = [bobsSocket], hb_joins = [], hb_evictions = []\<rparr>)
      (sampleWorld, \<lparr>hb_sockets = [bobsSocket], hb_joins = [?j], hb_evictions = []\<rparr>)"
    using BoardJoinAsked [OF _ bobs_join, of "\<lparr>hb_sockets = [bobsSocket], hb_joins = [], hb_evictions = []\<rparr>" deletingPlugin] id
    by (simp del: js_Cons)
  let ?so = "onBoardJoin_enter (js ''b1'', js ''w1'') bobsSocket"
  let ?h = "\<lparr>hb_sockets = [?so], hb_joins = [], hb_evictions = []\<rparr>"
  have 3: "realtime_step deletingPlugin (sampleWorld, \<lparr>hb_sockets = [bobsSocket], hb_joins = [?j], hb_evictions = []\<rparr>) (sampleWorld, ?h)"
    using Entered [of ?j "\<lparr>hb_sockets = [bobsSocket], hb_joins = [?j], hb_evictions = []\<rparr>" deletingPlugin sampleWorld] id
    by (simp del: js_Cons)
  have run: "(realtime_step deletingPlugin)\<^sup>*\<^sup>* (sampleWorld, \<lparr>hb_sockets = [], hb_joins = [], hb_evictions = []\<rparr>) (sampleWorld, ?h)"
    using 1 2 3 by (meson rtranclp.rtrancl_refl rtranclp.rtrancl_into_rtrancl)
  have rows: "rowsOk sampleWorld" using sample_members(1) sample_comments by (simp add: rowsOk_def commentsOk_def sampleWorld_def)
  have so: "receivers (hb_sockets ?h) (BoardRoom (js ''b1'')) = [?so]" "so_userId ?so = Some (js ''u2'')"
    by (simp_all add: receivers_def onBoardJoin_enter_def bobsSocket_def)
  let ?b = "hd (boards sampleWorld)"
  have b: "?b \<in> set (boards sampleWorld)" "b_id ?b = js ''b1''" "b_workspaceId ?b = js ''w1''"
    "b_workspaceId ?b \<in> ws_id ` set (workspaces sampleWorld)" by (simp_all add: sampleWorld_def)
  have "\<exists>u. so_userId ?so = Some u \<and> (member sampleWorld (b_workspaceId ?b) u \<or> (b_workspaceId ?b, u) \<in> set (hb_evictions ?h))"
    using listeners_are_members [OF deletingPlugin_ok rows run] b so(1) by (metis list.set_intros(1))
  then have "member sampleWorld (js ''w1'') (js ''u2'')" using so(2) b(3) by (simp del: js_Cons)
  then show ?thesis using run so by blast
qed

subsection \<open>A join that comes late\<close>

text \<open>
  C13. The assumption is needed. A member asks to join a board; while the answer is on its way an administrator
  removes the member and the eviction runs, which finds no room to drop; then the join is completed. The
  removed user, who is not a member any more and whose eviction is done, receives what happens on the board.
\<close>

theorem late_join_keeps_listening:
  "\<exists>p w'. onBoardJoin_check sampleWorld bobsSocket (Some (js ''b1'')) = Inr p
     \<and> handleMember samplePlugin (js ''u1'') (RemoveMember (js ''w1'') (js ''u2'')) sampleWorld = (Inr (), w')
     \<and> w_evicted w' = [(js ''w1'', js ''u2'')] \<and> \<not> member w' (js ''w1'') (js ''u2'')
     \<and> (let so = onBoardJoin_enter p (evictSocket (js ''w1'') (js ''u2'') bobsSocket) in
          receivers [so] (BoardRoom (js ''b1'')) = [so] \<and> so_userId so = Some (js ''u2'')
          \<and> onBoardJoin_check w' so (Some (js ''b1'')) = Inl ''board not found'')"
proof -
  define p where "p = (js ''b1'', js ''w1'')"
  have check: "onBoardJoin_check sampleWorld bobsSocket (Some (js ''b1'')) = Inr p" unfolding p_def by (rule bobs_join)
  obtain r w' where run: "handleMember samplePlugin (js ''u1'') (RemoveMember (js ''w1'') (js ''u2'')) sampleWorld = (r, w')" by fastforce
  have "r = Inr () \<and> members w' = [\<lparr>m_id = js ''m1'', m_workspaceId = js ''w1'', m_userId = js ''u1'', m_role = OWNER, m_createdAt = 0\<rparr>]
      \<and> w_evicted w' = [(js ''w1'', js ''u2'')] \<and> boards w' = boards sampleWorld"
    using run by (auto simp: WorkspaceRoles_def evictUserFromWorkspaceSockets_def WorkspaceGuard_canActivate_def RolesGuard_canActivate_def
        WorkspaceMemberService_removeMember_def requireMember_def findMember_def memberInclude_def attempt_def samplePlugin_def
        ADMIN_ROLES_def afterRemoveMember_def handler_defs)
  then have w': "r = Inr ()" "w_evicted w' = [(js ''w1'', js ''u2'')]" "\<not> member w' (js ''w1'') (js ''u2'')"
      "\<And>so. so_userId so = Some (js ''u2'') \<Longrightarrow> onBoardJoin_check w' so (Some (js ''b1'')) = Inl ''board not found''"
    by (auto simp: member_def onBoardJoin_check_def signedIn_def bodyString_def sampleWorld_def)
  have so: "so_userId (onBoardJoin_enter p (evictSocket (js ''w1'') (js ''u2'') bobsSocket)) = Some (js ''u2'')"
    "BoardRoom (js ''b1'') \<in> so_rooms (onBoardJoin_enter p (evictSocket (js ''w1'') (js ''u2'') bobsSocket))"
    by (simp_all add: p_def onBoardJoin_enter_def evictSocket_def bobsSocket_def)
  show ?thesis
    using check run w' so unfolding Let_def by (intro exI [of _ p] exI [of _ w'] conjI) (simp_all add: receivers_def del: js_Cons)
qed

end
