(* ===== verification/Perimeter.thy ===== *)
theory Perimeter
  imports Mentions Environment Json
begin

section \<open>Around the handlers\<close>

text \<open>
  What every request passes: \<open>common/logging/request-id.ts\<close> and \<open>access-log.middleware.ts\<close>, the session and the
  administrator's guard, \<open>common/rate-limit\<close>, \<open>common/pipes\<close>, \<open>common/validation\<close>, and
  \<open>common/filters/all-exceptions.filter.ts\<close>, which turns whatever was thrown into the answer.
\<close>

subsection \<open>Correlation ids\<close>

definition safeIdUnit :: "code_unit \<Rightarrow> bool" where
  \<comment> \<open>\<open>[A-Za-z0-9._~-]\<close>\<close>
  "safeIdUnit c \<longleftrightarrow> 0x41 \<le> c \<and> c \<le> 0x5A \<or> 0x61 \<le> c \<and> c \<le> 0x7A \<or> 0x30 \<le> c \<and> c \<le> 0x39
     \<or> c = 0x2E \<or> c = 0x5F \<or> c = 0x7E \<or> c = 0x2D"

definition SAFE_REQUEST_ID :: "js_string \<Rightarrow> bool" where
  "SAFE_REQUEST_ID s \<longleftrightarrow> list_all safeIdUnit s \<and> 8 \<le> length s \<and> length s \<le> 128"

definition sanitizeRequestId :: "js_string option \<Rightarrow> js_string option" where
  \<comment> \<open>\<open>None\<close> for what is not a string\<close>
  "sanitizeRequestId value = (case value of None \<Rightarrow> None | Some s \<Rightarrow> if SAFE_REQUEST_ID s then Some s else None)"

record request =
  rq_method :: js_string
  rq_url :: js_string
  rq_originalUrl :: "js_string option"
  rq_requestId :: "js_string option"
  rq_userId :: "uuid option"
  rq_ip :: "js_string option"

definition getRequestId :: "request \<Rightarrow> js_string option" where
  "getRequestId r = sanitizeRequestId (rq_requestId r)"

definition requestIdMiddleware :: "js_string option \<Rightarrow> js_string \<Rightarrow> request \<Rightarrow> request \<times> js_string" where
  \<comment> \<open>of the header and a new UUIDv7: the request and the value of the response header\<close>
  "requestIdMiddleware header uuid r =
     (let requestId = (case sanitizeRequestId header of Some k \<Rightarrow> k | None \<Rightarrow> uuid)
      in (r\<lparr>rq_requestId := Some requestId\<rparr>, requestId))"

subsection \<open>The access log\<close>

record AccessLogLine =
  al_ts :: js_string
  al_level :: string
  al_requestId :: "js_string option"
  al_method :: js_string
  al_path :: js_string
  al_status :: int
  al_durationMs :: number
  al_userId :: "uuid option"
  al_ip :: js_string

definition levelFor :: "int \<Rightarrow> string" where
  "levelFor status = (if 500 \<le> status then ''error'' else if 400 \<le> status then ''warn'' else ''info'')"

definition pathOf :: "request \<Rightarrow> js_string" where
  "pathOf r =
     (let url = (case rq_originalUrl r of None \<Rightarrow> rq_url r | Some u \<Rightarrow> if u = [] then rq_url r else u)
      in takeWhile (\<lambda>c. c \<noteq> 0x3F) url)"

definition accessLogLine :: "js_date \<Rightarrow> int \<Rightarrow> request \<Rightarrow> int \<Rightarrow> AccessLogLine" where
  \<comment> \<open>of the time, the nanoseconds that passed and the status of the response\<close>
  "accessLogLine now nanoseconds r status =
     (let durationMs = fl (fl (of_int nanoseconds) / 1000000)
      in \<lparr>al_ts = toISOString now, al_level = levelFor status, al_requestId = getRequestId r, al_method = rq_method r,
          al_path = pathOf r, al_status = status,
          al_durationMs = fl (of_int \<lfloor>fl (durationMs * 1000) + 1 / 2\<rfloor> / 1000),
          al_userId = rq_userId r, al_ip = (case rq_ip r of None \<Rightarrow> js ''unknown'' | Some a \<Rightarrow> a)\<rparr>)"

subsection \<open>Guards and pipes\<close>

definition SessionAuthGuard_canActivate :: "bool \<Rightarrow> uuid option \<Rightarrow> request \<Rightarrow> http_error + request" where
  \<comment> \<open>whether the route is public, and the user of the session that Better Auth finds\<close>
  "SessionAuthGuard_canActivate isPublic session r =
     (if isPublic then Inr r
      else (case session of None \<Rightarrow> Inl (Unauthorized ''Authentication required'')
        | Some userId \<Rightarrow> Inr (r\<lparr>rq_userId := Some userId\<rparr>)))"

definition instanceAdminEmails :: "js_env \<Rightarrow> js_string set" where
  "instanceAdminEmails env = set (filter (\<lambda>entry. entry \<noteq> []) (map (\<lambda>entry. js_lower (js_trim entry))
     (splitOn 0x2C (case map_option js_trim (env ''INSTANCE_ADMIN_EMAILS'') of None \<Rightarrow> [] | Some s \<Rightarrow> s))))"

definition isInstanceAdmin :: "js_env \<Rightarrow> js_string option \<Rightarrow> bool" where
  "isInstanceAdmin env email = (case email of None \<Rightarrow> False
     | Some e \<Rightarrow> e \<noteq> [] \<and> js_lower (js_trim e) \<in> instanceAdminEmails env)"

definition InstanceAdminGuard_canActivate :: "js_env \<Rightarrow> js_string option \<Rightarrow> http_error + unit" where
  "InstanceAdminGuard_canActivate env email =
     (if isInstanceAdmin env email then Inr () else Inl (Forbidden ''Instance administration is restricted''))"

definition ParseUuidV7Pipe_transform :: "js_string \<Rightarrow> http_error + js_string" where
  "ParseUuidV7Pipe_transform v =
     (if uuid7_text v then Inr v else Inl (BadRequest ''Validation failed (uuid v7 is expected)''))"

definition DEFAULT_RATE_LIMIT :: int where
  "DEFAULT_RATE_LIMIT = 100"

definition TASK_SEARCH_RATE_LIMIT :: int where
  "TASK_SEARCH_RATE_LIMIT = 30"

datatype query_value = Missing | One js_string | Many "js_string list"

definition hasSearchTerm :: "query_value \<Rightarrow> bool" where
  "hasSearchTerm q = (case q of Missing \<Rightarrow> False | One s \<Rightarrow> js_trim s \<noteq> [] | Many xs \<Rightarrow> 0 < length xs)"

definition taskListRateLimit :: "query_value \<Rightarrow> int" where
  "taskListRateLimit q = (if hasSearchTerm q then TASK_SEARCH_RATE_LIMIT else DEFAULT_RATE_LIMIT)"

subsection \<open>Validation errors\<close>

record ValidationDetail =
  vd_field :: js_string
  vd_constraint :: "js_string option"
  vd_message :: js_string

datatype ValidationError = ValidationError (ve_property: js_string)
  (ve_constraints: "(js_string \<times> js_string) list") (ve_children: "ValidationError list")

definition joinPath :: "js_string \<Rightarrow> js_string \<Rightarrow> js_string" where
  "joinPath parentPath p =
     (if parentPath = [] then p
      else if p \<noteq> [] \<and> list_all (\<lambda>c. 0x30 \<le> c \<and> c \<le> 0x39) p then parentPath @ js ''['' @ p @ js '']''
      else parentPath @ js ''.'' @ p)"

fun flattenValidationErrors :: "js_string \<Rightarrow> ValidationError list \<Rightarrow> ValidationDetail list" where
  "flattenValidationErrors parentPath [] = []"
| "flattenValidationErrors parentPath (ValidationError p constraints children # errors) =
     map (\<lambda>(k, m). \<lparr>vd_field = joinPath parentPath p, vd_constraint = Some k, vd_message = m\<rparr>) constraints
       @ flattenValidationErrors (joinPath parentPath p) children
       @ flattenValidationErrors parentPath errors"

subsection \<open>The exception filter\<close>

text \<open>
  What can be thrown: an \<open>HttpException\<close> with the body of its response and its message; an error of Prisma with
  its code; another \<open>Error\<close> with its own properties; any other value. \<open>JSON.stringify\<close> of a value that is not a
  string, which only shows in messages, is the argument \<open>stringify\<close>.
\<close>

datatype thrown =
    HttpException int json js_string
  | PrismaKnownError js_string js_string
  | ErrorObject "(js_string \<times> json) list" js_string
  | NotAnError json

record ProblemDetails =
  pd_statusCode :: int
  pd_error :: js_string
  pd_message :: js_string
  pd_details :: "ValidationDetail list option"
  pd_path :: js_string
  pd_timestamp :: js_string
  pd_requestId :: "js_string option"

record failure_report =
  \<comment> \<open>what is logged and sent to the error tracker\<close>
  fr_line :: js_string
  fr_requestId :: "js_string option"
  fr_method :: js_string
  fr_path :: js_string
  fr_statusCode :: int

definition STATUS_CODES :: "(int \<times> string) list" where
  \<comment> \<open>of \<open>node:http\<close>\<close>
  "STATUS_CODES = [
     (100, ''Continue''), (101, ''Switching Protocols''), (102, ''Processing''), (103, ''Early Hints''),
     (200, ''OK''), (201, ''Created''), (202, ''Accepted''), (203, ''Non-Authoritative Information''),
     (204, ''No Content''), (205, ''Reset Content''), (206, ''Partial Content''), (207, ''Multi-Status''),
     (208, ''Already Reported''), (226, ''IM Used''), (300, ''Multiple Choices''), (301, ''Moved Permanently''),
     (302, ''Found''), (303, ''See Other''), (304, ''Not Modified''), (305, ''Use Proxy''),
     (307, ''Temporary Redirect''), (308, ''Permanent Redirect''), (400, ''Bad Request''), (401, ''Unauthorized''),
     (402, ''Payment Required''), (403, ''Forbidden''), (404, ''Not Found''), (405, ''Method Not Allowed''),
     (406, ''Not Acceptable''), (407, ''Proxy Authentication Required''), (408, ''Request Timeout''),
     (409, ''Conflict''), (410, ''Gone''), (411, ''Length Required''), (412, ''Precondition Failed''),
     (413, ''Payload Too Large''), (414, ''URI Too Long''), (415, ''Unsupported Media Type''),
     (416, ''Range Not Satisfiable''), (417, ''Expectation Failed''), (418, ''I'm a Teapot''),
     (421, ''Misdirected Request''), (422, ''Unprocessable Entity''), (423, ''Locked''),
     (424, ''Failed Dependency''), (425, ''Too Early''), (426, ''Upgrade Required''),
     (428, ''Precondition Required''), (429, ''Too Many Requests''), (431, ''Request Header Fields Too Large''),
     (451, ''Unavailable For Legal Reasons''), (500, ''Internal Server Error''), (501, ''Not Implemented''),
     (502, ''Bad Gateway''), (503, ''Service Unavailable''), (504, ''Gateway Timeout''),
     (505, ''HTTP Version Not Supported''), (506, ''Variant Also Negotiates''), (507, ''Insufficient Storage''),
     (508, ''Loop Detected''), (509, ''Bandwidth Limit Exceeded''), (510, ''Not Extended''),
     (511, ''Network Authentication Required'')]"

definition reasonPhrase :: "int \<Rightarrow> js_string" where
  "reasonPhrase statusCode = js (case map_of STATUS_CODES statusCode of None \<Rightarrow> ''Error'' | Some phrase \<Rightarrow> phrase)"

definition describe :: "(json \<Rightarrow> js_string) \<Rightarrow> json \<Rightarrow> js_string" where
  "describe stringify v = (case v of JString s \<Rightarrow> s | _ \<Rightarrow> stringify v)"

definition asValidationDetail :: "json \<Rightarrow> ValidationDetail option" where
  \<comment> \<open>one turn of the loop of \<open>asValidationDetails\<close>\<close>
  "asValidationDetail item = (case item of
       JObject kvs \<Rightarrow> (case (property kvs ''field'', property kvs ''message'') of
           (Some (JString f), Some (JString m)) \<Rightarrow> Some \<lparr>vd_field = f,
             vd_constraint = (case property kvs ''constraint'' of Some (JString c) \<Rightarrow> Some c | _ \<Rightarrow> None), vd_message = m\<rparr>
         | _ \<Rightarrow> None)
     | _ \<Rightarrow> None)"

definition asValidationDetails :: "json option \<Rightarrow> ValidationDetail list option" where
  "asValidationDetails v = (case v of
       Some (JArray items) \<Rightarrow> if None \<in> set (map asValidationDetail items) then None else Some (map (the \<circ> asValidationDetail) items)
     | _ \<Rightarrow> None)"

definition detailsFromMessages :: "(json \<Rightarrow> js_string) \<Rightarrow> json list \<Rightarrow> ValidationDetail list" where
  "detailsFromMessages stringify messages = map (\<lambda>item.
     let message = describe stringify item; f = hd (splitOn 0x20 message)
     in \<lparr>vd_field = (if f = [] then js ''unknown'' else f), vd_constraint = None, vd_message = message\<rparr>) messages"

definition mapPrismaError :: "js_string \<Rightarrow> (int \<times> js_string) option" where
  "mapPrismaError code =
     (if code = js ''P2002'' then Some (409, js ''Resource already exists'')
      else if code = js ''P2025'' then Some (404, js ''Resource not found'')
      else if code = js ''P2003'' then Some (409, js ''Related resource conflict'')
      else None)"

definition HTTP_CLIENT_ERROR_MESSAGES :: "(int \<times> js_string) list" where
  "HTTP_CLIENT_ERROR_MESSAGES = [(413, js ''Request body is too large'')]"

definition mapHttpClientError :: "thrown \<Rightarrow> (int \<times> js_string) option" where
  \<comment> \<open>only asked of errors that the branches before it did not take\<close>
  "mapHttpClientError e = (case e of
       ErrorObject kvs _ \<Rightarrow> (case (property kvs ''expose'', property kvs ''statusCode'') of
           (Some (JBool _), Some (JNumber n)) \<Rightarrow>
             if property kvs ''status'' \<noteq> Some (JNumber n) then None
             else (case n of
                 Finite q \<Rightarrow> if q = of_int \<lfloor>q\<rfloor> \<and> 400 \<le> q \<and> q \<le> 499
                   then Some (\<lfloor>q\<rfloor>, case map_of HTTP_CLIENT_ERROR_MESSAGES \<lfloor>q\<rfloor> of Some m \<Rightarrow> m | None \<Rightarrow> reasonPhrase \<lfloor>q\<rfloor>) else None
               | _ \<Rightarrow> None)
         | _ \<Rightarrow> None)
     | _ \<Rightarrow> None)"

definition isProductionEnv :: "js_env \<Rightarrow> bool" where
  "isProductionEnv env \<longleftrightarrow> env ''NODE_ENV'' = Some (js ''production'')"

definition reportFailure :: "request \<Rightarrow> int \<Rightarrow> js_string \<Rightarrow> failure_report" where
  "reportFailure r statusCode message = \<lparr>
     fr_line = (case getRequestId r of None \<Rightarrow> message | Some k \<Rightarrow> message @ js '' (requestId='' @ k @ js '')''),
     fr_requestId = getRequestId r, fr_method = rq_method r, fr_path = rq_url r, fr_statusCode = statusCode\<rparr>"

definition httpExceptionBody :: "(json \<Rightarrow> js_string) \<Rightarrow> int \<Rightarrow> json \<Rightarrow> js_string \<times> js_string \<times> ValidationDetail list option" where
  \<comment> \<open>the branch of \<open>HttpException\<close>: error, message and details\<close>
  "httpExceptionBody stringify statusCode body =
     (let unexpected = js ''An unexpected error occurred'' in
      case body of
        JString s \<Rightarrow> (reasonPhrase statusCode, s, None)
      | JObject kvs \<Rightarrow>
          (case property kvs ''error'' of Some (JString e) \<Rightarrow> e | _ \<Rightarrow> reasonPhrase statusCode,
           case property kvs ''message'' of Some (JString m) \<Rightarrow> m | Some (JArray _) \<Rightarrow> js ''Validation failed'' | _ \<Rightarrow> unexpected,
           case asValidationDetails (property kvs ''details'') of Some ds \<Rightarrow> Some ds
           | None \<Rightarrow> (case property kvs ''message'' of Some (JArray ms) \<Rightarrow> Some (detailsFromMessages stringify ms) | _ \<Rightarrow> None))
      | _ \<Rightarrow> (reasonPhrase statusCode, unexpected, None))"

definition AllExceptionsFilter_catch ::
  "(json \<Rightarrow> js_string) \<Rightarrow> js_env \<Rightarrow> js_date \<Rightarrow> request \<Rightarrow> thrown \<Rightarrow> ProblemDetails \<times> failure_report list" where
  "AllExceptionsFilter_catch stringify env now r exception =
     (let unexpected = js ''An unexpected error occurred'';
          shown = (\<lambda>m. if isProductionEnv env then unexpected else m);
          (statusCode, error, message, details, reports) = (case exception of
              HttpException status body m \<Rightarrow>
                (case httpExceptionBody stringify status body of (e, shownMessage, ds) \<Rightarrow>
                  (status, e, shownMessage, ds, if 500 \<le> status then [reportFailure r status m] else []))
            | PrismaKnownError code m \<Rightarrow> (case mapPrismaError code of
                  Some (status, mapped) \<Rightarrow> (status, reasonPhrase status, mapped, None, [])
                | None \<Rightarrow> (500, reasonPhrase 500, shown m, None, [reportFailure r 500 m]))
            | ErrorObject kvs m \<Rightarrow> (case mapHttpClientError exception of
                  Some (status, mapped) \<Rightarrow> (status, reasonPhrase status, mapped, None, [])
                | None \<Rightarrow> (500, reasonPhrase 500, shown m, None, [reportFailure r 500 m]))
            | NotAnError v \<Rightarrow>
                (500, reasonPhrase 500, shown (describe stringify v), None,
                 [reportFailure r 500 (js ''Non-Error exception thrown: '' @ describe stringify v)]))
      in (\<lparr>pd_statusCode = statusCode, pd_error = error, pd_message = message, pd_details = details, pd_path = rq_url r,
           pd_timestamp = toISOString now, pd_requestId = getRequestId r\<rparr>, reports))"

end
