(* ===== verification/PerimeterProps.thy ===== *)
theory PerimeterProps
  imports Perimeter Sample
begin

section \<open>What the perimeter lets through\<close>

text \<open>
  Every exception becomes one envelope; faults of the server are reported, once, and those of the client never;
  in production no text that the code did not write for clients leaves. Then the smaller parts: the access log
  holds no query, nobody is an administrator by default, and flattening loses no validation error.
\<close>

subsection \<open>The envelope\<close>

definition publicMessage :: "js_string \<Rightarrow> bool" where
  \<comment> \<open>the fixed texts\<close>
  "publicMessage m \<longleftrightarrow> m \<in> js ` {''An unexpected error occurred'', ''Resource already exists'', ''Resource not found'',
      ''Related resource conflict'', ''Request body is too large''}
    \<or> m \<in> range reasonPhrase"

lemma publicI:
  "publicMessage (js ''An unexpected error occurred'')" "publicMessage (js ''Request body is too large'')"
  "publicMessage (reasonPhrase k)" "mapPrismaError code = Some (status, m) \<Longrightarrow> publicMessage m"
  by (auto simp: publicMessage_def mapPrismaError_def split: if_splits simp del: js_Cons)

lemma mapPrismaError_status: "mapPrismaError code = Some (status, m) \<Longrightarrow> status < 500"
  by (auto simp: mapPrismaError_def split: if_splits)

lemma mapHttpClientError_status:
  assumes "mapHttpClientError e = Some (status, m)"
  shows "400 \<le> status" "status < 500" "publicMessage m"
proof -
  have "400 \<le> status \<and> status \<le> 499 \<and> (m = reasonPhrase status \<or> map_of HTTP_CLIENT_ERROR_MESSAGES status = Some m)"
    using assms by (auto simp: mapHttpClientError_def split: thrown.splits option.splits json.splits js_number.splits if_splits)
  moreover have "publicMessage m" if "map_of HTTP_CLIENT_ERROR_MESSAGES status = Some m"
    using that publicI(2) by (simp add: HTTP_CLIENT_ERROR_MESSAGES_def split: if_splits del: js_Cons)
  ultimately show "400 \<le> status" "status < 500" "publicMessage m" using publicI(3) by auto
qed

lemma safe_getRequestId: "getRequestId r = Some k \<Longrightarrow> SAFE_REQUEST_ID k"
  by (auto simp: getRequestId_def sanitizeRequestId_def split: option.splits if_splits)

text \<open>
  C14. Whatever is thrown is answered with one envelope, and reported exactly once if its status is 500 or more and
  not at all below, under the same status and the same correlation id. In production, unless the code threw
  it for the client, the answer has no details and its message is one of the fixed texts, so nothing of the
  exception gets out. A correlation id has 8 to 128 characters, none of which can break a header or a log line.
\<close>

theorem error_envelope:
  assumes "AllExceptionsFilter_catch stringify env now r exception = (problem, reports)"
  shows "length reports = (if 500 \<le> pd_statusCode problem then 1 else 0)
    \<and> (\<forall>f \<in> set reports. fr_statusCode f = pd_statusCode problem \<and> fr_requestId f = pd_requestId problem)
    \<and> (case exception of HttpException status _ _ \<Rightarrow> pd_statusCode problem = status
       | _ \<Rightarrow> isProductionEnv env \<longrightarrow> publicMessage (pd_message problem) \<and> pd_details problem = None
           \<and> pd_error problem = reasonPhrase (pd_statusCode problem))
    \<and> (case pd_requestId problem of None \<Rightarrow> True
       | Some k \<Rightarrow> 8 \<le> length k \<and> length k \<le> 128 \<and> (\<forall>c \<in> set k. 0x21 \<le> c \<and> c \<le> 0x7E \<and> c \<noteq> 0x22 \<and> c \<noteq> 0x5C))"
proof -
  have id: "pd_requestId problem = getRequestId r"
    using assms by (auto simp: AllExceptionsFilter_catch_def Let_def split: prod.splits)
  have unit: "0x21 \<le> c \<and> c \<le> 0x7E \<and> c \<noteq> 0x22 \<and> c \<noteq> 0x5C" if "safeIdUnit c" for c
    using that by (auto simp: safeIdUnit_def word_le_nat_alt)
  have "case pd_requestId problem of None \<Rightarrow> True
      | Some k \<Rightarrow> 8 \<le> length k \<and> length k \<le> 128 \<and> (\<forall>c \<in> set k. 0x21 \<le> c \<and> c \<le> 0x7E \<and> c \<noteq> 0x22 \<and> c \<noteq> 0x5C)"
    using safe_getRequestId [of r] unit by (auto simp: id SAFE_REQUEST_ID_def list_all_iff split: option.splits)
  moreover have "length reports = (if 500 \<le> pd_statusCode problem then 1 else 0)
      \<and> (\<forall>f \<in> set reports. fr_statusCode f = pd_statusCode problem \<and> fr_requestId f = pd_requestId problem)"
    using assms mapPrismaError_status mapHttpClientError_status(2)
    by (fastforce simp: AllExceptionsFilter_catch_def Let_def reportFailure_def split: prod.splits thrown.splits option.splits if_splits)
  moreover have "case exception of HttpException status _ _ \<Rightarrow> pd_statusCode problem = status
      | _ \<Rightarrow> isProductionEnv env \<longrightarrow> publicMessage (pd_message problem) \<and> pd_details problem = None
          \<and> pd_error problem = reasonPhrase (pd_statusCode problem)"
    using assms publicI mapHttpClientError_status(3)
    by (auto simp: AllExceptionsFilter_catch_def Let_def split: prod.splits thrown.splits option.splits simp del: js_Cons)
  ultimately show ?thesis by blast
qed

definition sampleRequest :: request where
  "sampleRequest = \<lparr>rq_method = js ''POST'', rq_url = js ''/boards?x=1'', rq_originalUrl = None,
     rq_requestId = Some (js ''abcd-1234''), rq_userId = None, rq_ip = None\<rparr>"

theorem error_envelope_witness:
  "\<exists>problem reports. AllExceptionsFilter_catch (\<lambda>_. []) ((\<lambda>_. None)(''NODE_ENV'' := Some (js ''production''))) 0 sampleRequest
       (PrismaKnownError (js ''P1001'') (js ''secret'')) = (problem, reports)
     \<and> pd_statusCode problem = 500 \<and> publicMessage (pd_message problem) \<and> length reports = 1
     \<and> pd_requestId problem = Some (js ''abcd-1234'')"
proof -
  let ?env = "(\<lambda>_. None)(''NODE_ENV'' := Some (js ''production''))"
  obtain problem reports where run: "AllExceptionsFilter_catch (\<lambda>_. []) ?env 0 sampleRequest
      (PrismaKnownError (js ''P1001'') (js ''secret'')) = (problem, reports)" by fastforce
  have "mapPrismaError (js ''P1001'') = None" by code_simp
  then have status: "pd_statusCode problem = 500" "pd_requestId problem = getRequestId sampleRequest"
    using run by (auto simp: AllExceptionsFilter_catch_def Let_def simp del: js_Cons)
  moreover have "isProductionEnv ?env" by (simp add: isProductionEnv_def)
  moreover have "getRequestId sampleRequest = Some (js ''abcd-1234'')" by code_simp
  ultimately show ?thesis using error_envelope [OF run] run by (simp del: js_Cons)
qed

subsection \<open>What a handler throws\<close>

definition httpStatus :: "http_error \<Rightarrow> int" where
  \<comment> \<open>the statuses of the exceptions of Nest\<close>
  "httpStatus e = (case e of BadRequest _ \<Rightarrow> 400 | Unauthorized _ \<Rightarrow> 401 | Forbidden _ \<Rightarrow> 403 | NotFound _ \<Rightarrow> 404
     | Conflict _ \<Rightarrow> 409 | PayloadTooLarge _ \<Rightarrow> 413 | UnsupportedMediaType _ \<Rightarrow> 415 | UnprocessableEntity _ \<Rightarrow> 422
     | ServiceUnavailable _ \<Rightarrow> 503 | PrismaError _ \<Rightarrow> 500 | InternalError _ \<Rightarrow> 500)"

definition errorText :: "http_error \<Rightarrow> js_string" where
  "errorText e = js (case e of BadRequest m \<Rightarrow> m | Unauthorized m \<Rightarrow> m | Forbidden m \<Rightarrow> m | NotFound m \<Rightarrow> m | Conflict m \<Rightarrow> m
     | PayloadTooLarge m \<Rightarrow> m | UnsupportedMediaType m \<Rightarrow> m | UnprocessableEntity m \<Rightarrow> m | ServiceUnavailable m \<Rightarrow> m
     | PrismaError m \<Rightarrow> m | InternalError m \<Rightarrow> m)"

definition thrownBy :: "http_error \<Rightarrow> js_string \<Rightarrow> thrown" where
  \<comment> \<open>the exceptions of Nest with their documented bodies; the second argument is the message of an error of Prisma\<close>
  "thrownBy e detail = (case e of
       PrismaError code \<Rightarrow> PrismaKnownError (js code) detail
     | InternalError m \<Rightarrow> ErrorObject [] (js m)
     | _ \<Rightarrow> HttpException (httpStatus e) (JObject [(js ''message'', JString (errorText e)),
         (js ''error'', JString (reasonPhrase (httpStatus e)))]) (errorText e))"

lemma js_inj: "js a = js b \<longleftrightarrow> a = b"
proof -
  have "unat (of_char c :: code_unit) = of_char c" for c
  proof -
    have "(of_char c :: nat) < 65536" using nat_of_char_less_256 [of c] by linarith
    then show ?thesis using unat_of_nat [where 'a = 16, of "of_char c :: nat"] by (simp add: of_nat_of_char)
  qed
  then have "inj (of_char :: char \<Rightarrow> code_unit)" by (metis injI of_char_eq_iff)
  then show ?thesis by (simp add: js_def inj_map_eq_map)
qed

lemma nestBody: "httpExceptionBody stringify k (JObject [(js ''message'', JString m), (js ''error'', JString e)]) = (e, m, None)"
  by (simp add: httpExceptionBody_def property_def asValidationDetails_def)

lemma handler_errors_answered:
  assumes "AllExceptionsFilter_catch stringify env now r (thrownBy e detail) = (problem, reports)"
  shows "case e of
      PrismaError code \<Rightarrow> pd_statusCode problem = (if code = ''P2025'' then 404 else if code \<in> {''P2002'', ''P2003''} then 409 else 500)
    | InternalError _ \<Rightarrow> pd_statusCode problem = 500
    | _ \<Rightarrow> pd_statusCode problem = httpStatus e \<and> pd_message problem = errorText e
        \<and> pd_error problem = reasonPhrase (httpStatus e) \<and> pd_details problem = None"
proof (cases e)
  case (PrismaError code)
  have "js code = js ''P2002'' \<longleftrightarrow> code = ''P2002''" "js code = js ''P2025'' \<longleftrightarrow> code = ''P2025''" "js code = js ''P2003'' \<longleftrightarrow> code = ''P2003''"
    by (simp_all only: js_inj)
  then show ?thesis using assms PrismaError
    by (auto simp: thrownBy_def AllExceptionsFilter_catch_def Let_def mapPrismaError_def simp del: js_Cons split: if_splits)
next
  case (InternalError m)
  have "mapHttpClientError (ErrorObject [] (js m)) = None" by (simp add: mapHttpClientError_def property_def)
  then show ?thesis using assms InternalError by (auto simp: thrownBy_def AllExceptionsFilter_catch_def Let_def)
qed (use assms in \<open>auto simp: thrownBy_def AllExceptionsFilter_catch_def Let_def nestBody httpStatus_def errorText_def simp del: js_Cons\<close>)

subsection \<open>The smaller parts\<close>

lemma log_without_query: "0x3F \<notin> set (al_path (accessLogLine now ns r status))"
  by (auto simp: accessLogLine_def pathOf_def Let_def dest: set_takeWhileD split: option.splits)

lemma nobody_is_admin: "env ''INSTANCE_ADMIN_EMAILS'' = None \<Longrightarrow> \<not> isInstanceAdmin env email"
  by (auto simp: isInstanceAdmin_def instanceAdminEmails_def js_trim_def js_lower_def split: option.splits)

lemma requestIdMiddleware_safe:
  "SAFE_REQUEST_ID uuid \<Longrightarrow> requestIdMiddleware header uuid r = (r', k) \<Longrightarrow>
     getRequestId r' = Some k \<and> SAFE_REQUEST_ID k"
  by (auto simp: requestIdMiddleware_def getRequestId_def sanitizeRequestId_def Let_def split: option.splits if_splits)

fun constraintCount :: "ValidationError list \<Rightarrow> nat" where
  "constraintCount [] = 0"
| "constraintCount (ValidationError p constraints children # errors) =
     length constraints + constraintCount children + constraintCount errors"

lemma flatten_loses_nothing: "length (flattenValidationErrors parentPath errors) = constraintCount errors"
  by (induction parentPath errors rule: flattenValidationErrors.induct) simp_all

end
