(* ===== verification/Gates.thy ===== *)
theory Gates
  imports Perimeter
begin

section \<open>What stands in front of the routers\<close>

text \<open>
  \<open>common/origin-check.ts\<close>, \<open>auth/organization-http-firewall.ts\<close> with \<open>mount-better-auth.ts\<close>,
  \<open>common/trust-proxy.ts\<close>, and the counter of \<open>auth/auth-rate-limit.ts\<close>, a script that Redis runs as one step. \<open>new URL\<close>, of which
  only the origin is read here, is a parameter.
\<close>

subsection \<open>The origin check\<close>

type_synonym url_origin = "js_string \<Rightarrow> js_string option"

definition UNSAFE_METHODS :: "js_string list" where
  "UNSAFE_METHODS = [js ''POST'', js ''PUT'', js ''PATCH'', js ''DELETE'']"

definition normalizeOrigin :: "url_origin \<Rightarrow> js_string \<Rightarrow> http_error + js_string" where
  "normalizeOrigin originOf v = (case originOf v of
       None \<Rightarrow> Inl (InternalError ''Not a valid origin URL'')
     | Some o1 \<Rightarrow> if o1 = js ''null'' then Inl (InternalError ''URL has no usable origin'') else Inr o1)"

definition resolveAllowedOrigins :: "url_origin \<Rightarrow> js_string \<Rightarrow> http_error + js_string list" where
  "resolveAllowedOrigins originOf webUrl = (case normalizeOrigin originOf webUrl of Inl e \<Rightarrow> Inl e | Inr o1 \<Rightarrow> Inr [o1])"

definition claimedOrigin :: "url_origin \<Rightarrow> js_string option \<Rightarrow> js_string option \<Rightarrow> js_string option" where
  \<comment> \<open>of the headers \<open>Origin\<close> and \<open>Referer\<close>\<close>
  "claimedOrigin originOf origin referer =
     (if origin \<noteq> None \<and> origin \<noteq> Some [] then origin
      else (case referer of None \<Rightarrow> None | Some r \<Rightarrow> if r = [] then None else originOf r))"

definition originCheck :: "url_origin \<Rightarrow> js_string list \<Rightarrow> js_string \<Rightarrow> js_string option \<Rightarrow> js_string option \<Rightarrow> http_error + unit" where
  \<comment> \<open>\<open>createOriginCheckMiddleware\<close>: of the method and the two headers, whether the request goes on\<close>
  "originCheck originOf allowed method origin referer =
     (if method \<notin> set UNSAFE_METHODS then Inr ()
      else (case claimedOrigin originOf origin referer of
          None \<Rightarrow> Inr ()
        | Some claimed \<Rightarrow> if claimed \<in> set allowed then Inr ()
            else Inl (Forbidden ''Cross-origin state-changing request rejected'')))"

subsection \<open>The organization firewall\<close>

definition BLOCKED_ORGANIZATION_PATHS :: "js_string list" where
  "BLOCKED_ORGANIZATION_PATHS = map (\<lambda>p. js (''/organization/'' @ p)) [''create'', ''update'', ''delete'', ''invite-member'',
     ''cancel-invitation'', ''accept-invitation'', ''reject-invitation'', ''add-member'', ''remove-member'', ''update-member-role'',
     ''leave'', ''create-team'', ''remove-team'', ''update-team'', ''set-active-team'', ''add-team-member'', ''remove-team-member'']"

definition isBlockedOrganizationMutation :: "js_string \<Rightarrow> bool" where
  "isBlockedOrganizationMutation pathname =
     (let authRelative = (if take 5 pathname = js ''/auth'' then if drop 5 pathname = [] then js ''/'' else drop 5 pathname else pathname)
      in hd (splitOn 0x3F authRelative) \<in> set BLOCKED_ORGANIZATION_PATHS)"

definition mountBetterAuth :: "js_string \<Rightarrow> 'a handler \<Rightarrow> 'a handler" where
  \<comment> \<open>the route in front of the handler of Better Auth\<close>
  "mountBetterAuth path authHandler =
     (if isBlockedOrganizationMutation path
      then throw (Forbidden ''Organization mutations must use the Nest workspace API (/workspaces).'') else authHandler)"

subsection \<open>Trusted proxies\<close>

datatype trust_proxy = TrustNone | TrustAll | TrustHops number | TrustList js_string

definition decimalValue :: "js_string \<Rightarrow> number" where
  \<comment> \<open>\<open>Number\<close> of a row of digits\<close>
  "decimalValue s = fl (of_int (foldl (\<lambda>n c. 10 * n + (uint c - 0x30)) 0 s))"

definition resolveTrustProxySetting :: "js_string \<Rightarrow> trust_proxy" where
  "resolveTrustProxySetting raw =
     (let v = js_trim raw in
      if v = [] \<or> js_lower v = js ''false'' then TrustNone
      else if js_lower v = js ''true'' then TrustAll
      else if list_all (\<lambda>c. 0x30 \<le> c \<and> c \<le> 0x39) v then TrustHops (decimalValue v)
      else TrustList v)"

subsection \<open>The counter of sign-in attempts\<close>

type_synonym counter = "(int \<times> int option) option"

definition AUTH_RATE_LIMIT_MAX :: int where
  "AUTH_RATE_LIMIT_MAX = 100"

definition RATE_LIMIT_WINDOW_SECONDS :: int where
  "RATE_LIMIT_WINDOW_SECONDS = 60"

definition rateLimitEnabled :: "js_env \<Rightarrow> http_error + bool" where
  "rateLimitEnabled env = envBool env ''RATE_LIMIT_ENABLED'' True"

definition isTestEnv :: "js_env \<Rightarrow> bool" where
  "isTestEnv env \<longleftrightarrow> env ''JEST_WORKER_ID'' \<noteq> None \<or> env ''NODE_ENV'' = Some (js ''test'')"

record AuthRateLimitOptions =
  rl_enabled :: bool
  rl_window :: int
  rl_max :: int
  rl_redisUrl :: "js_string option"

definition authRateLimitOptions :: "js_env \<Rightarrow> http_error + AuthRateLimitOptions" where
  \<comment> \<open>\<open>rl_redisUrl\<close> is that of the storage, if the counters are not in memory\<close>
  "authRateLimitOptions env = (case rateLimitEnabled env of
       Inl e \<Rightarrow> Inl e
     | Inr enabled \<Rightarrow>
         let base = \<lparr>rl_enabled = enabled, rl_window = RATE_LIMIT_WINDOW_SECONDS, rl_max = AUTH_RATE_LIMIT_MAX, rl_redisUrl = None\<rparr>;
             redisUrl = (case map_option js_trim (env ''REDIS_URL'') of None \<Rightarrow> [] | Some s \<Rightarrow> s)
         in Inr (if \<not> enabled \<or> isTestEnv env \<or> redisUrl = [] then base else base\<lparr>rl_redisUrl := Some redisUrl\<rparr>))"

definition consumeScript :: "int \<Rightarrow> int \<Rightarrow> int \<Rightarrow> counter \<Rightarrow> (int \<times> int) \<times> counter" where
  \<comment> \<open>\<open>CONSUME_SCRIPT\<close> at a time, with the window and the limit. A key is its number and when it expires, in
     milliseconds; \<open>TTL\<close> counts whole seconds, rounded, and is \<open>-1\<close> for a key that does not expire\<close>
  "consumeScript now window limit key =
     (let (count, expiry) = (case key of
            Some (n, Some e) \<Rightarrow> if e < now then (1, None) else (n + 1, Some e)
          | Some (n, None) \<Rightarrow> (n + 1, None)
          | None \<Rightarrow> (1, None));
          (ttl, expiry) = (case expiry of
            Some e \<Rightarrow> ((e - now + 500) div 1000, Some e)
          | None \<Rightarrow> (window, Some (now + window * 1000)))
      in (if limit < count then (0, ttl) else (1, -1), Some (count, expiry)))"

datatype redis_call = Answered | Failed bool
  \<comment> \<open>a call that fails may have run the script before its answer was lost\<close>

definition consume :: "redis_call \<Rightarrow> int \<Rightarrow> int \<Rightarrow> int \<Rightarrow> counter \<Rightarrow> (bool \<times> int option) \<times> counter" where
  \<comment> \<open>\<open>allowed\<close> and \<open>retryAfter\<close>; when Redis fails, the attempt is let through\<close>
  "consume call now window limit key =
     (case call of
        Answered \<Rightarrow> (case consumeScript now window limit key of
          ((ok, retryAfter), key') \<Rightarrow>
            (if ok = 1 then (True, None) else (False, Some (if 0 < retryAfter then retryAfter else window)), key'))
      | Failed counted \<Rightarrow> ((True, None), if counted then snd (consumeScript now window limit key) else key))"

end
