(* ===== verification/GatesProps.thy ===== *)
theory GatesProps
  imports Gates
begin

section \<open>What the gates hold back\<close>

text \<open>
  A write that names a foreign origin goes no further; the mutations of the organization plugin cannot be reached
  over HTTP; and the counter of sign-in attempts bounds them, whenever its window happens to begin, as long as
  Redis answers.
\<close>

subsection \<open>Origins and paths\<close>

lemma foreign_write_refused:
  assumes "resolveAllowedOrigins originOf webUrl = Inr allowed" and "method \<in> set UNSAFE_METHODS"
    and "claimedOrigin originOf origin referer = Some claimed" and "originOf webUrl \<noteq> Some claimed"
  shows "originCheck originOf allowed method origin referer = Inl (Forbidden ''Cross-origin state-changing request rejected'')"
  using assms by (auto simp: resolveAllowedOrigins_def normalizeOrigin_def originCheck_def split: option.splits sum.splits if_splits)

lemma opaque_origin_refused:
  \<comment> \<open>the origin of a sandboxed frame\<close>
  assumes "resolveAllowedOrigins originOf webUrl = Inr allowed" and "method \<in> set UNSAFE_METHODS"
  shows "originCheck originOf allowed method (Some (js ''null'')) referer = Inl (Forbidden ''Cross-origin state-changing request rejected'')"
  using assms by (auto simp: resolveAllowedOrigins_def normalizeOrigin_def originCheck_def claimedOrigin_def
      split: option.splits sum.splits if_splits simp del: js_Cons) (simp_all add: js_def)

lemma mutations_stay_behind:
  "p \<in> set BLOCKED_ORGANIZATION_PATHS \<Longrightarrow>
     mountBetterAuth (js ''/auth'' @ p) h w =
       (Inl (Forbidden ''Organization mutations must use the Nest workspace API (/workspaces).''), w)"
proof -
  assume p: "p \<in> set BLOCKED_ORGANIZATION_PATHS"
  have "list_all (\<lambda>p. isBlockedOrganizationMutation (js ''/auth'' @ p)) BLOCKED_ORGANIZATION_PATHS" by code_simp
  with p have "isBlockedOrganizationMutation (js ''/auth'' @ p)" by (simp only: list_all_iff)
  then show ?thesis by (simp add: mountBetterAuth_def throw_def del: js_Cons)
qed

subsection \<open>The counter\<close>

fun attempts :: "int \<Rightarrow> int \<Rightarrow> counter \<Rightarrow> (redis_call \<times> int) list \<Rightarrow> bool list" where
  \<comment> \<open>which of the attempts at these times are let through\<close>
  "attempts window limit key [] = []"
| "attempts window limit key ((call, now) # later) =
     (case consume call now window limit key of ((ok, _), key') \<Rightarrow> ok # attempts window limit key' later)"

definition let_through :: "bool list \<Rightarrow> nat" where
  "let_through oks = length (filter id oks)"

definition failures :: "(redis_call \<times> int) list \<Rightarrow> nat" where
  "failures ts = length (filter (\<lambda>(call, _). call \<noteq> Answered) ts)"

lemma let_through_simps [simp]: "let_through [] = 0" "let_through (ok # oks) = (if ok then 1 else 0) + let_through oks"
  by (simp_all add: let_through_def)

lemma failures_simps [simp]: "failures [] = 0" "failures ((call, x) # ts) = (if call = Answered then 0 else 1) + failures ts"
  by (simp_all add: failures_def)

lemma script_open:
  "now \<le> e \<Longrightarrow> snd (consumeScript now window limit (Some (n, Some e))) = Some (n + 1, Some e)"
  by (simp add: consumeScript_def Let_def)

lemma script_fresh:
  assumes "key = None \<or> (\<exists>n e. key = Some (n, Some e) \<and> e < now)"
  shows "snd (consumeScript now window limit key) = Some (1, Some (now + window * 1000))"
  using assms by (auto simp: consumeScript_def Let_def)

lemma consume_open:
  "now \<le> e \<Longrightarrow> consume Answered now window limit (Some (n, Some e)) =
     (if limit < n + 1 then (False, Some (if 0 < (e - now + 500) div 1000 then (e - now + 500) div 1000 else window)) else (True, None),
      Some (n + 1, Some e))"
  by (simp add: consume_def consumeScript_def Let_def)

lemma consume_fresh:
  assumes "key = None \<or> (\<exists>n e. key = Some (n, Some e) \<and> e < now)"
  shows "\<exists>retry. consume Answered now window limit key = ((1 \<le> limit, retry), Some (1, Some (now + window * 1000)))"
  using assms by (auto simp: consume_def consumeScript_def Let_def)

lemma window_exact:
  assumes "\<forall>(call, x) \<in> set ts. call = Answered \<and> x \<le> e" and "0 \<le> n"
  shows "let_through (attempts window limit (Some (n, Some e)) ts) = min (length ts) (nat (limit - n))"
  using assms
proof (induction ts arbitrary: n)
  case (Cons a ts)
  then obtain x where a: "a = (Answered, x)" "x \<le> e" by (cases a) auto
  from Cons have "let_through (attempts window limit (Some (n + 1, Some e)) ts) = min (length ts) (nat (limit - (n + 1)))" by simp
  then show ?case using a by (auto simp: consume_open)
qed simp

lemma fresh_exact:
  assumes "\<forall>(call, x) \<in> set ts. call = Answered \<and> t \<le> x \<and> x < t + window * 1000" and "0 \<le> limit"
  shows "let_through (attempts window limit None ts) = min (length ts) (nat limit)"
proof (cases ts)
  case (Cons a later)
  with assms(1) obtain x where a: "a = (Answered, x)" "t \<le> x" by (cases a) auto
  obtain retry where "consume Answered x window limit None = ((1 \<le> limit, retry), Some (1, Some (x + window * 1000)))"
    using consume_fresh [of None x window limit] by auto
  moreover have "\<forall>(call, y) \<in> set later. call = Answered \<and> y \<le> x + window * 1000" using assms(1) Cons a by force
  ultimately show ?thesis using window_exact [of later "x + window * 1000" 1 window limit] assms(2) Cons a by auto
qed simp

lemma window_bound:
  assumes "\<forall>(call, x) \<in> set ts. x \<le> e" and "0 \<le> n"
  shows "let_through (attempts window limit (Some (n, Some e)) ts) \<le> nat (limit - n) + failures ts"
  using assms
proof (induction ts arbitrary: n)
  case (Cons a ts)
  then obtain call x where a: "a = (call, x)" "x \<le> e" by (cases a) auto
  have later: "let_through (attempts window limit (Some (n + 1, Some e)) ts) \<le> nat (limit - (n + 1)) + failures ts"
    "let_through (attempts window limit (Some (n, Some e)) ts) \<le> nat (limit - n) + failures ts"
    using Cons by simp_all
  show ?case
  proof (cases call)
    case Answered
    with later a show ?thesis by (auto simp: consume_open)
  next
    case (Failed counted)
    with later a show ?thesis by (cases counted) (auto simp: consume_def script_open)
  qed
qed simp

lemma failed_passes:
  "i < length ts \<Longrightarrow> fst (ts ! i) \<noteq> Answered \<Longrightarrow> attempts window limit key ts ! i"
proof (induction ts arbitrary: i key)
  case (Cons a ts)
  obtain call x where a: "a = (call, x)" by (cases a)
  obtain ok retry key' where c: "consume call x window limit key = ((ok, retry), key')" by (metis surj_pair)
  show ?case
  proof (cases i)
    case 0
    with Cons(3) a c show ?thesis by (cases call) (auto simp: consume_def)
  next
    case (Suc j)
    with Cons a c show ?thesis by simp
  qed
qed simp

text \<open>
  C15. The counter bounds the sign-in attempts of a client: of those made within one window's length, whenever that
  begins and whatever the counter was, at most twice the limit get through and those for which Redis failed, in
  whatever order Redis gets them, whether or not a call that failed was counted. Every attempt for which Redis
  failed does get through: the limiter fails open. While Redis answers, a client without a counter gets through
  exactly as often as the limit allows.
\<close>

theorem attempts_bounded:
  assumes "\<forall>(call, x) \<in> set ts. t \<le> x \<and> x < t + window * 1000" and "0 \<le> limit"
    and "case key of None \<Rightarrow> True | Some (n, expiry) \<Rightarrow> 0 \<le> n"
  shows "let_through (attempts window limit key ts) \<le> 2 * nat limit + failures ts
    \<and> (\<forall>i < length ts. fst (ts ! i) \<noteq> Answered \<longrightarrow> attempts window limit key ts ! i)
    \<and> (key = None \<and> failures ts = 0 \<longrightarrow> let_through (attempts window limit key ts) = min (length ts) (nat limit))"
proof (intro conjI)
  show "\<forall>i < length ts. fst (ts ! i) \<noteq> Answered \<longrightarrow> attempts window limit key ts ! i" by (simp add: failed_passes)
  have "failures ts = 0 \<Longrightarrow> \<forall>(call, x) \<in> set ts. call = Answered \<and> t \<le> x \<and> x < t + window * 1000"
    using assms(1) by (auto simp: failures_def filter_empty_conv)
  then show "key = None \<and> failures ts = 0 \<longrightarrow> let_through (attempts window limit key ts) = min (length ts) (nat limit)"
    using fresh_exact [OF _ assms(2)] by blast
  have "let_through (attempts window limit key ts) \<le> nat (limit - (case key of None \<Rightarrow> 0 | Some (n, _) \<Rightarrow> n)) + nat limit + failures ts"
    using assms(1,3)
  proof (induction ts arbitrary: key)
    case (Cons a ts)
    then obtain call x where a: "a = (call, x)" "t \<le> x" by (cases a) auto
    have upto: "\<forall>(call, y) \<in> set ts. y \<le> x + window * 1000" using Cons(2) a by force
    have same: "let_through (attempts window limit key ts) \<le> nat (limit - (case key of None \<Rightarrow> 0 | Some (n, _) \<Rightarrow> n)) + nat limit + failures ts"
      using Cons by simp
    consider "key = None \<or> (\<exists>n e. key = Some (n, Some e) \<and> e < x)" | n e where "key = Some (n, Some e)" "x \<le> e" | n where "key = Some (n, None)"
      by (cases key) fastforce+
    then show ?case
    proof cases
      case 1
      have "let_through (attempts window limit (Some (1, Some (x + window * 1000))) ts) \<le> nat (limit - 1) + failures ts"
        using window_bound [OF upto] by simp
      moreover obtain retry where "consume Answered x window limit key = ((1 \<le> limit, retry), Some (1, Some (x + window * 1000)))"
        using consume_fresh [OF 1] by blast
      ultimately show ?thesis
        using same a(1) script_fresh [OF 1, of window limit] by (cases call) (auto simp: consume_def [of "Failed _"])
    next
      case 2
      with Cons(3) have n: "0 \<le> n" by simp
      then have "let_through (attempts window limit (Some (n + 1, Some e)) ts) \<le> nat (limit - (n + 1)) + nat limit + failures ts"
        using Cons(1) [of "Some (n + 1, Some e)"] Cons(2) by simp
      with 2 n same a(1) show ?thesis
        by (cases call) (auto simp: consume_open script_open consume_def [of "Failed _"])
    next
      case 3
      with Cons(3) have n: "0 \<le> n" by simp
      then have "let_through (attempts window limit (Some (n + 1, Some (x + window * 1000))) ts) \<le> nat (limit - (n + 1)) + failures ts"
        using window_bound [OF upto] by simp
      with 3 n same a(1) show ?thesis by (cases call) (auto simp: consume_def consumeScript_def Let_def)
    qed
  qed simp
  then show "let_through (attempts window limit key ts) \<le> 2 * nat limit + failures ts"
    using assms(3) by (auto split: option.splits prod.splits)
qed

theorem attempts_bounded_witness:
  "let_through (attempts 60 2 (Some (0, Some 30000)) [(Answered, 1000), (Answered, 2000), (Failed False, 3000), (Answered, 4000),
      (Answered, 40000), (Answered, 50000), (Failed True, 55000), (Answered, 56000)]) \<le> 6
   \<and> let_through (attempts 60 2 (Some (0, Some 30000)) [(Answered, 1000), (Answered, 2000), (Failed False, 3000), (Answered, 4000),
      (Answered, 40000), (Answered, 50000), (Failed True, 55000), (Answered, 56000)]) = 6"
proof -
  let ?ts = "[(Answered, 1000), (Answered, 2000), (Failed False, 3000), (Answered, 4000),
      (Answered, 40000), (Answered, 50000), (Failed True, 55000), (Answered, 56000)]"
  have "let_through (attempts 60 2 (Some (0, Some 30000)) ?ts) = 6" by code_simp
  moreover have "let_through (attempts 60 2 (Some (0, Some 30000)) ?ts) \<le> 2 * nat 2 + failures ?ts"
    using attempts_bounded [of ?ts 1000 60 2 "Some (0, Some 30000)"] by simp
  ultimately show ?thesis by simp
qed

end
