(* ===== verification/Spec2Isabelle.thy ===== *)
theory Spec2Isabelle
  imports Prelude Float64 Dates Position Ordering Store Pagination Feeds TaskModel TaskService
    Sample TaskOrder TaskProps TaskList TaskAssignees Locales Columns ColumnProps
    Boards BoardProps Checklists ChecklistProps
    Json ImportSkip TrelloExport TrelloPlanner TrelloImport TrelloCounts TrelloPlan TrelloSample
    TrelloProps TrelloWrite Members MemberProps MemberSafety Routes
    Mentions MentionProps Accounts AccountProps AccountSafety Invitations InvitationProps
    Environment Storage StorageProps Retention RetentionProps DueSoon DueSoonProps
    Comments CommentProps AttachmentFormats AttachmentNames Attachments AttachmentProps AttachmentSafety
    DateProps Dashboard DashboardProps Realtime RealtimeProps
    Perimeter PerimeterProps Gates GatesProps
begin

text \<open>
  Kurultay is a multi-tenant kanban application: a NestJS API over PostgreSQL and a Next.js client.
  This development models the API's core and proves what makes it correct. Paths below are under
  \<open>apps/api/src\<close> unless they name \<open>packages/shared-types\<close>.

  What the code stands on, and how it is modelled:

  \<^item> Prelude, Float64, Dates, Json: what the language gives. Strings are sequences of UTF-16 code units,
    numbers are rationals rounded to double precision, dates are milliseconds since the epoch, and
    \<open>JSON.parse\<close> is a lexer and a stack machine.
  \<^item> Store: the database as a record of tables (\<open>world\<close>), the socket events that were published, the
    clock and the supply of UUIDv7 ids. A request handler is a function from the world to an error or
    a value and the next world; a transaction that throws restores the tables. Handlers run one after
    the other: the row locks of the code are steps of a sequence, and statements of two transactions do
    not interleave.

  The components, each with the theory that models it and the one that states what it promises:

  \<^item> Position, Ordering: \<open>common/position\<close>, fractional positions in double precision. The locale
    \<open>gap_arithmetic\<close> is what the services assume of them; the midpoint of two positions whose gap is
    open lies strictly between them, and a respread puts siblings on 1000, 2000, 3000. The facts hold
    for positions of at most \<open>2 ^ 32\<close> in size and at most \<open>2 ^ 40\<close> siblings, far above what a board holds.
  \<^item> TaskModel, TaskService, with TaskOrder, TaskProps, TaskList, TaskAssignees: \<open>task/\<close>. Creating and
    moving a task refine insertion into a list; a patch is read back as sent, and logged exactly when it changes
    something; a deleted task
    leaves nothing; the cursor walk of the list returns every match once; an assignment notifies once.
  \<^item> Columns with ColumnProps, Boards with BoardProps: \<open>board/\<close>, \<open>label/\<close> and the seeding of boards.
    Columns are placed as tasks are, only empty ones are deleted, seeding is all or nothing, deleting a
    board or a label takes what belongs to it and no more.
  \<^item> Checklists with ChecklistProps: \<open>task/checklist*.service.ts\<close>. The locale \<open>positioned\<close> is shared by
    the lists and their items, which never respread; moves that close a gap make positions collide.
  \<^item> Locales: \<open>packages/shared-types/src/locales.ts\<close> and \<open>locale/\<close>, language tags and negotiation.
  \<^item> Pagination, Feeds: \<open>common/pagination\<close>, the activity log and the notification inbox.
  \<^item> Members with MemberProps and MemberSafety: \<open>workspace/\<close> and the guards of \<open>common/guards\<close>. A workspace
    keeps an owner through any sequence of requests, only owners touch ownership, no request touches another
    workspace, and who loses a membership is dropped from the sockets. Better Auth's organization plugin is a
    record of parameters (\<open>auth_api\<close>); \<open>pluginContract\<close> is what it is relied on for. The hook it runs after a
    removal is the code's own (\<open>afterRemoveMember\<close>), and an argument of the call.
  \<^item> Routes: the \<open>*.controller.ts\<close> files below \<open>workspaces\<close>, each route with its method, path and decorator. Who
    is not a member gets \<open>404\<close> from all of them but the one that accepts an invitation, and a guest can only look.
    The router of Express is a parameter (\<open>choosesRoutes\<close>).
  \<^item> Realtime with RealtimeProps: \<open>realtime/\<close>. A join is two steps, before and after the answer of the database.
    Along every interleaving (\<open>realtime_step\<close>), with removals, departures and the deletions of accounts and
    workspaces among its steps, events reach members alone, as long as no eviction falls between the two halves of
    a join of the same user; one that does leaves a removed user listening. Of the requests that are no step of their
    own it is assumed that they take no membership away and reuse no id (\<open>gainsOnly\<close>).
  \<^item> Perimeter with PerimeterProps, Gates with GatesProps: \<open>common/filters\<close>, \<open>common/logging\<close>, \<open>common/validation\<close>,
    \<open>common/origin-check.ts\<close>, \<open>common/trust-proxy.ts\<close>, the remaining guards and pipes, the firewall and the rate limit
    in front of Better Auth. Whatever is thrown gets one envelope, which tells in production nothing of a fault;
    the counter of sign-in attempts, a script that Redis runs as one step, bounds them in any window, but for those
    for which Redis fails, which all pass.
  \<^item> Invitations with InvitationProps: \<open>workspace/workspace-invitation.service.ts\<close>. What was asked for is
    what is granted, whatever was pending; the list shows what can still be accepted; another workspace's
    invitation is not found. The plugin's calls are parameters, \<open>cancels\<close> and \<open>resends\<close> what they promise.
  \<^item> Mentions with MentionProps, Accounts with AccountProps and AccountSafety: \<open>common/mentions\<close> and
    \<open>account/account-deletion.service.ts\<close>. A deletion is refused until every workspace it would leave
    without an owner is decided, keeps an owner in each that survives, hands workspaces to live accounts alone,
    and leaves no row of the person and no name in a mention that spells the id as it is stored (one in capitals may
    keep it, \<open>capital_mention_survives\<close>); the paged rewriting of comments ends and equals a single pass. Two owners who delete
    their accounts at once, one between the other's checks and its transaction, do leave a workspace without one.
  \<^item> Environment, Retention with RetentionProps: \<open>retention/cleanup.worker.ts\<close>. The locale \<open>batched_delete\<close>
    is what the five tables share; its loop of small statements does what one \<open>DELETE\<close> would, up to the
    ceiling of a million rows. Which rows a \<open>LIMIT\<close> picks is a parameter (\<open>picks\<close>).
  \<^item> DueSoon with DueSoonProps: \<open>notification/due-soon.worker.ts\<close>. The unbounded scan ends, reminds everyone
    once by the rule of \<open>shouldSkipDueSoon\<close>, and is idempotent.
  \<^item> Comments with CommentProps: \<open>comment/comment.service.ts\<close>. A comment notifies the mentioned members once
    each and nobody else; only its author or an administrator deletes it.
  \<^item> Storage with StorageProps: \<open>storage/\<close> and the paths of \<open>node:path\<close>. Whatever the key, what the backend
    resolves lies strictly below its root; a key that \<open>listKeys\<close> reports resolves to itself.
  \<^item> AttachmentFormats, Attachments, with AttachmentNames, AttachmentProps, AttachmentSafety: \<open>attachment/\<close>, what
    is accepted, how it is named, stored and served. A browser reads back from the download header the name that
    was stored; what is uploaded is downloaded, unless the cut of its name left half a surrogate pair; along every
    interleaving of uploads, links, imports, removals and sweeps (\<open>attachment_step\<close>) each row of a file keeps its
    bytes, and an upload that loses its task leaves none. Of other requests it is assumed that they touch no file and
    add no row that names one (\<open>linksOnly\<close>). An
    upload is two steps, before the transaction and from it on, as other requests may run between them. The
    sniffer of magic bytes and \<open>new URL\<close> are parameters.
  \<^item> Dashboard with DateProps and DashboardProps: \<open>dashboard/\<close>. Each chart accounts for every task, assignment and
    activity once; days are told apart by the names \<open>toISOString\<close> gives them. The order in which the database
    collates names and lists groups is a parameter.
  \<^item> ImportSkip, TrelloExport, TrelloPlanner, TrelloImport, with TrelloCounts, TrelloPlan, TrelloSample,
    TrelloProps, TrelloWrite: \<open>import/\<close>. The reader and the planner lose nothing without reporting it and
    keep Trello's order (locale \<open>skip_step\<close>); the transaction writes every row of the plan, violating no
    key and no reference, or nothing (locale \<open>table_writer\<close>).

  Sample is the database the theorems are applied to, to show that their hypotheses hold together.

  Not modelled: the web client; sessions and mail; the schedulers of the two workers; the Redis
  adapter of the sockets; the throttler of Nest, health, telemetry; the schemas, the controllers but for
  their routes, and most of the configuration. They are I/O, wiring, or not yet part of the development.
\<close>

end
